(* ===== verification/Py_Base.thy ===== *)
theory Py_Base
  imports Main "HOL-Library.Char_ord" "HOL-Library.List_Lexorder"
begin

text \<open>
  The prelude: the parts of the Python language and of its standard library that every
  component of the tooling uses.

  \<^item> exceptions are values of \<open>exn\<close>; a function that may raise returns
    \<open>'a res = exn + 'a\<close>; one that also changes the world is an \<open>('w, 'a) io\<close>;
  \<^item> a Python \<open>str\<close> is modelled by its UTF-8 byte sequence (a \<open>string\<close>, one
    \<open>char\<close> per byte), so that \<open>encode("utf-8")\<close> is the identity, byte-wise order
    is code-point order, and concatenation, equality, prefix tests, \<open>split\<close> and
    \<open>replace\<close> of the code are the ones on bytes; \<open>len\<close> and slices count code
    points (\<open>py_len\<close>, \<open>py_take\<close>);
  \<^item> \<open>lower\<close> and \<open>upper\<close> act on ASCII letters only (the code applies them to
    version, channel and digest tokens);
  \<^item> regular expressions used with \<open>fullmatch\<close> are terms of \<open>rx\<close>, matched by
    derivatives.
\<close>

named_theorems ok_iff \<open>when a computation returns normally\<close>

subsection \<open>Exceptions and results\<close>

datatype exn =
    ValueErr string
  | RuntimeErr string
  | TypeErr
  | KeyErr string
  | IndexErr
  | AttributeErr
  | StructErr
  | FileNotFoundErr
  | FileExistsErr
  | OSErr string
  | ProcessErr int
  | ExitErr string
  | ExitCode int
  | InvalidSignature
  | StopIteration
  | OverflowErr
  | ZeroDivisionErr

type_synonym 'a res = "exn + 'a"

type_synonym bytes = string

definition bindR :: "'a res \<Rightarrow> ('a \<Rightarrow> 'b res) \<Rightarrow> 'b res" where
  "bindR m f = (case m of Inl e \<Rightarrow> Inl e | Inr x \<Rightarrow> f x)"

lemma bindR_simps [simp]: "bindR (Inr x) f = f x" "bindR (Inl e) f = Inl e"
  by (simp_all add: bindR_def)

lemma bindR_cong [fundef_cong]:
  "m = m' \<Longrightarrow> (\<And>x. m' = Inr x \<Longrightarrow> f x = f' x) \<Longrightarrow> bindR m f = bindR m' f'"
  by (cases m') auto

lemma bindR_ok [ok_iff]: "bindR m f = Inr y \<longleftrightarrow> (\<exists>x. m = Inr x \<and> f x = Inr y)"
  by (cases m) auto

lemma guard_ok [ok_iff]: "(if b then Inl e else m) = Inr y \<longleftrightarrow> \<not> b \<and> m = Inr y"
  by auto

lemma guard_ok' [ok_iff]: "(if b then m else Inl e) = Inr y \<longleftrightarrow> b \<and> m = Inr y"
  by auto

definition of_option :: "exn \<Rightarrow> 'a option \<Rightarrow> 'a res" where
  "of_option e x = (case x of None \<Rightarrow> Inl e | Some y \<Rightarrow> Inr y)"

lemma of_option_simps [simp]: "of_option e None = Inl e" "of_option e (Some x) = Inr x"
  by (simp_all add: of_option_def)

lemma of_option_ok [ok_iff]: "of_option e x = Inr y \<longleftrightarrow> x = Some y"
  by (cases x) auto

fun mapR :: "('a \<Rightarrow> 'b res) \<Rightarrow> 'a list \<Rightarrow> 'b list res" where
  "mapR f [] = Inr []"
| "mapR f (x # xs) = bindR (f x) (\<lambda>y. bindR (mapR f xs) (\<lambda>ys. Inr (y # ys)))"

lemma mapR_ok: "mapR f xs = Inr ys \<longleftrightarrow> list_all2 (\<lambda>x y. f x = Inr y) xs ys"
  by (induction xs arbitrary: ys) (auto simp: ok_iff list_all2_Cons1)

text \<open>\<open>a or b\<close> for conditions that may raise\<close>

definition orR :: "bool res \<Rightarrow> bool res \<Rightarrow> bool res" where
  "orR a b = bindR a (\<lambda>x. if x then Inr True else b)"

lemma orR_False [ok_iff]: "orR a b = Inr False \<longleftrightarrow> a = Inr False \<and> b = Inr False"
  by (cases a) (auto simp: orR_def)

lemma orR_simps [simp]: "orR (Inr False) b = b" "orR (Inr True) b = Inr True" "orR (Inl e) b = Inl e"
  by (simp_all add: orR_def)

text \<open>\<open>ValueError\<close> and its subclasses (\<open>binascii.Error\<close>, \<open>JSONDecodeError\<close>,
  \<open>UnicodeError\<close>) are \<open>ValueErr\<close>.\<close>

definition is_value_err :: "exn \<Rightarrow> bool" where
  "is_value_err e = (case e of ValueErr _ \<Rightarrow> True | _ \<Rightarrow> False)"

subsection \<open>Effects: a state with exceptions\<close>

text \<open>As in Python, an exception keeps the state changes made before it was raised.\<close>

type_synonym ('w, 'a) io = "'w \<Rightarrow> 'a res \<times> 'w"

definition retI :: "'a \<Rightarrow> ('w, 'a) io" where
  "retI x w = (Inr x, w)"

definition raiseI :: "exn \<Rightarrow> ('w, 'a) io" where
  "raiseI e w = (Inl e, w)"

definition bindI :: "('w, 'a) io \<Rightarrow> ('a \<Rightarrow> ('w, 'b) io) \<Rightarrow> ('w, 'b) io" where
  "bindI m f w = (case m w of (Inl e, w') \<Rightarrow> (Inl e, w') | (Inr x, w') \<Rightarrow> f x w')"

definition liftI :: "'a res \<Rightarrow> ('w, 'a) io" where
  "liftI r w = (r, w)"

definition readI :: "('w \<Rightarrow> 'a) \<Rightarrow> ('w, 'a) io" where
  "readI f w = (Inr (f w), w)"

definition checkI :: "('w \<Rightarrow> 'a res) \<Rightarrow> ('w, 'a) io" where
  "checkI f w = (f w, w)"

definition updI :: "('w \<Rightarrow> 'w) \<Rightarrow> ('w, unit) io" where
  "updI f w = (Inr (), f w)"

definition guardI :: "bool \<Rightarrow> exn \<Rightarrow> ('w, unit) io" where
  "guardI bad e w = (if bad then (Inl e, w) else (Inr (), w))"

text \<open>\<open>try: m finally: h\<close>: an exception of the handler replaces the one of the body.\<close>

definition finallyI :: "('w, 'a) io \<Rightarrow> ('w, unit) io \<Rightarrow> ('w, 'a) io" where
  "finallyI m h w = (case m w of (r, w') \<Rightarrow>
     (case h w' of (Inl e, w'') \<Rightarrow> (Inl e, w'') | (Inr _, w'') \<Rightarrow> (r, w'')))"

definition catchI :: "('w, 'a) io \<Rightarrow> (exn \<Rightarrow> ('w, 'a) io) \<Rightarrow> ('w, 'a) io" where
  "catchI m h w = (case m w of (Inl e, w') \<Rightarrow> h e w' | (Inr x, w') \<Rightarrow> (Inr x, w'))"

fun forI :: "'a list \<Rightarrow> ('a \<Rightarrow> ('w, unit) io) \<Rightarrow> ('w, unit) io" where
  "forI [] f = retI ()"
| "forI (x # xs) f = bindI (f x) (\<lambda>_. forI xs f)"

lemma bindI_ok [ok_iff]:
  "bindI m f w = (Inr y, w'') \<longleftrightarrow> (\<exists>x w'. m w = (Inr x, w') \<and> f x w' = (Inr y, w''))"
  by (auto simp: bindI_def split: prod.splits sum.splits)

lemma retI_ok [ok_iff]: "retI x w = (Inr y, w') \<longleftrightarrow> y = x \<and> w' = w"
  by (auto simp: retI_def)

lemma raiseI_ok [ok_iff]: "raiseI e w = (Inr y, w') \<longleftrightarrow> False"
  by (auto simp: raiseI_def)

lemma liftI_ok [ok_iff]: "liftI r w = (Inr y, w') \<longleftrightarrow> r = Inr y \<and> w' = w"
  by (auto simp: liftI_def)

lemma readI_ok [ok_iff]: "readI f w = (Inr y, w') \<longleftrightarrow> y = f w \<and> w' = w"
  by (auto simp: readI_def)

lemma checkI_ok [ok_iff]: "checkI f w = (Inr y, w') \<longleftrightarrow> f w = Inr y \<and> w' = w"
  by (auto simp: checkI_def)

lemma updI_ok [ok_iff]: "updI f w = (Inr y, w') \<longleftrightarrow> w' = f w"
  by (auto simp: updI_def)

lemma guardI_ok [ok_iff]: "guardI b e w = (Inr y, w') \<longleftrightarrow> \<not> b \<and> w' = w"
  by (auto simp: guardI_def)

lemmas io_defs = retI_def raiseI_def bindI_def liftI_def readI_def checkI_def updI_def guardI_def
  finallyI_def catchI_def

subsection \<open>Files\<close>

text \<open>The content of the file at each path\<close>

type_synonym files = "string \<Rightarrow> bytes option"

definition read_file :: "files \<Rightarrow> string \<Rightarrow> bytes res" where
  "read_file fs path = of_option FileNotFoundErr (fs path)"

subsection \<open>Strings\<close>

abbreviation (input) newline :: string where
  "newline \<equiv> [CHR 0x0A]"

definition startswith :: "string \<Rightarrow> string \<Rightarrow> bool" where
  "startswith s p \<longleftrightarrow> take (length p) s = p"

definition endswith :: "string \<Rightarrow> string \<Rightarrow> bool" where
  "endswith s p \<longleftrightarrow> startswith (rev s) (rev p)"

lemma startswith_append [simp]: "startswith (p @ s) p"
  by (simp add: startswith_def)

lemma startswith_iff: "startswith s p \<longleftrightarrow> (\<exists>t. s = p @ t)"
  by (metis append_take_drop_id startswith_append startswith_def)

lemma endswith_iff: "endswith s p \<longleftrightarrow> (\<exists>t. s = t @ p)"
  by (simp add: endswith_def startswith_iff) (metis rev_append rev_rev_ident)

text \<open>\<open>s.removeprefix(p)\<close>, \<open>s.removesuffix(p)\<close>\<close>

definition removeprefix :: "string \<Rightarrow> string \<Rightarrow> string" where
  "removeprefix s p = (if startswith s p then drop (length p) s else s)"

definition removesuffix :: "string \<Rightarrow> string \<Rightarrow> string" where
  "removesuffix s p = (if p \<noteq> [] \<and> endswith s p then take (length s - length p) s else s)"

fun contains :: "string \<Rightarrow> string \<Rightarrow> bool" where
  "contains [] p \<longleftrightarrow> p = []"
| "contains (c # cs) p \<longleftrightarrow> startswith (c # cs) p \<or> contains cs p"

lemma contains_iff: "contains s p \<longleftrightarrow> (\<exists>a b. s = a @ p @ b)"
proof (induction s)
  case (Cons c cs)
  show ?case
  proof
    assume "contains (c # cs) p"
    then consider "startswith (c # cs) p" | "contains cs p" by auto
    then show "\<exists>a b. c # cs = a @ p @ b"
    proof cases
      case 1
      then obtain t where "c # cs = [] @ p @ t" by (auto simp: startswith_iff)
      then show ?thesis by blast
    next
      case 2
      then obtain a b where "cs = a @ p @ b" using Cons by blast
      then have "c # cs = (c # a) @ p @ b" by simp
      then show ?thesis by blast
    qed
  next
    assume "\<exists>a b. c # cs = a @ p @ b"
    then obtain a b where ab: "c # cs = a @ p @ b" by blast
    show "contains (c # cs) p"
    proof (cases a)
      case Nil
      then have "startswith (c # cs) p" using ab by (simp add: startswith_iff)
      then show ?thesis by simp
    next
      case (Cons d ds)
      then have "contains cs p" using ab \<open>contains cs p \<longleftrightarrow> _\<close> by auto
      then show ?thesis by simp
    qed
  qed
qed auto

text \<open>\<open>s.partition(p)\<close> as an option: the text before and after the first occurrence.\<close>

fun str_cut :: "string \<Rightarrow> string \<Rightarrow> (string \<times> string) option" where
  "str_cut p [] = (if p = [] then Some ([], []) else None)"
| "str_cut p (c # cs) =
     (if startswith (c # cs) p then Some ([], drop (length p) (c # cs))
      else map_option (\<lambda>(a, b). (c # a, b)) (str_cut p cs))"

lemma str_cut_Some: "str_cut p s = Some (a, b) \<Longrightarrow> s = a @ p @ b"
proof (induction s arbitrary: a)
  case Nil
  then show ?case by (auto split: if_splits)
next
  case (Cons c cs)
  then show ?case
    by (auto simp: startswith_def split: if_splits) (metis append_take_drop_id)
qed

lemma str_cut_None: "str_cut p s = None \<longleftrightarrow> \<not> contains s p"
  by (induction s) auto

lemma str_cut_length: "str_cut p s = Some (a, b) \<Longrightarrow> p \<noteq> [] \<Longrightarrow> length b < length s"
  by (auto dest!: str_cut_Some)

text \<open>\<open>s.split(p, 1)[0]\<close>\<close>

definition split_head :: "string \<Rightarrow> string \<Rightarrow> string" where
  "split_head p s = (case str_cut p s of None \<Rightarrow> s | Some (a, _) \<Rightarrow> a)"

text \<open>\<open>s.rsplit(p, 1)[-1]\<close>\<close>

definition rsplit_last :: "string \<Rightarrow> string \<Rightarrow> string" where
  "rsplit_last p s = (case str_cut (rev p) (rev s) of None \<Rightarrow> s | Some (a, _) \<Rightarrow> rev a)"

text \<open>\<open>s.split(p)\<close>; the separator is never empty in the code, so that
  every cut shortens the text and the length of the text is enough fuel.\<close>

fun split_fuel :: "nat \<Rightarrow> string \<Rightarrow> string \<Rightarrow> string list" where
  "split_fuel 0 p s = [s]"
| "split_fuel (Suc n) p s = (case str_cut p s of None \<Rightarrow> [s] | Some (a, b) \<Rightarrow> a # split_fuel n p b)"

definition split_on :: "string \<Rightarrow> string \<Rightarrow> string list" where
  "split_on p s = split_fuel (length s) p s"

fun join :: "string \<Rightarrow> string list \<Rightarrow> string" where
  "join p [] = []"
| "join p [x] = x"
| "join p (x # y # xs) = x @ p @ join p (y # xs)"

lemma split_fuel_more:
  "length s \<le> n \<Longrightarrow> p \<noteq> [] \<Longrightarrow> split_fuel n p s = split_fuel (length s) p s"
proof (induction n arbitrary: s rule: less_induct)
  case (less n)
  show ?case
  proof (cases "str_cut p s")
    case None
    then show ?thesis by (cases n; cases "length s") auto
  next
    case (Some ab)
    obtain a b where ab: "str_cut p s = Some (a, b)" using Some by (cases ab) auto
    then have lt: "length b < length s" using less.prems(2) by (rule str_cut_length)
    then obtain m where m: "length s = Suc m" by (cases "length s") auto
    then obtain k where k: "n = Suc k" "m \<le> k" using less.prems(1) by (cases n) auto
    have "split_fuel k p b = split_fuel (length b) p b"
      using less.IH[of k b] k lt m less.prems(2) by auto
    moreover have "split_fuel m p b = split_fuel (length b) p b"
      using less.IH[of m b] k lt m less.prems(2) by auto
    ultimately show ?thesis using ab k m by simp
  qed
qed

lemma join_split: "p \<noteq> [] \<Longrightarrow> join p (split_fuel n p s) = s"
proof (induction n arbitrary: s)
  case (Suc n)
  show ?case
  proof (cases "str_cut p s")
    case (Some ab)
    obtain a b where ab: "str_cut p s = Some (a, b)" using Some by (cases ab) auto
    then have s: "s = a @ p @ b" by (rule str_cut_Some)
    have "split_fuel n p b \<noteq> []" by (cases n) (auto split: option.splits)
    then obtain x xs where x: "split_fuel n p b = x # xs" by (cases "split_fuel n p b") auto
    have "join p (x # xs) = b" using Suc.IH[of b] Suc.prems x by simp
    then show ?thesis using ab s x by simp
  qed simp
qed simp

lemma join_split_on: "p \<noteq> [] \<Longrightarrow> join p (split_on p s) = s"
  by (simp add: split_on_def join_split)

lemma split_on_single: "c \<notin> set s \<Longrightarrow> split_on [c] s = [s]"
proof -
  assume "c \<notin> set s"
  then have "\<not> contains s [c]" by (auto simp: contains_iff)
  then have "str_cut [c] s = None" by (simp add: str_cut_None)
  then show ?thesis by (cases "length s") (auto simp: split_on_def)
qed

text \<open>\<open>s.replace(old, new)\<close> and \<open>s.count(old)\<close> for a non-empty \<open>old\<close>\<close>

definition replace_str :: "string \<Rightarrow> string \<Rightarrow> string \<Rightarrow> string" where
  "replace_str old new s = join new (split_on old s)"

definition count_str :: "string \<Rightarrow> string \<Rightarrow> nat" where
  "count_str p s = length (split_on p s) - 1"

end
