(* ===== verification/Py_Text.thy ===== *)
theory Py_Text
  imports Py_Base
begin

text \<open>
  Text operations of Python that depend on characters: whitespace, letter case, lines,
  integers as decimal text, code-point counts, and regular expressions.
\<close>

subsection \<open>Whitespace\<close>

text \<open>
  The length in bytes of the Unicode whitespace character at the start of the text, 0 if
  there is none (\<open>str.isspace\<close>: the ASCII ones, U+0085, U+00A0, U+1680, U+2000 to
  U+200A, U+2028, U+2029, U+202F, U+205F, U+3000).
\<close>

definition ascii_ws :: "char \<Rightarrow> bool" where
  "ascii_ws c \<longleftrightarrow> (let n = (of_char c :: nat) in (9 \<le> n \<and> n \<le> 13) \<or> (28 \<le> n \<and> n \<le> 32))"

definition wide_spaces :: "string list" where
  "wide_spaces = [[CHR 0xC2, CHR 0x85], [CHR 0xC2, CHR 0xA0], [CHR 0xE1, CHR 0x9A, CHR 0x80]]
     @ map (\<lambda>c. [CHR 0xE2, CHR 0x80, c])
         [CHR 0x80, CHR 0x81, CHR 0x82, CHR 0x83, CHR 0x84, CHR 0x85, CHR 0x86, CHR 0x87,
          CHR 0x88, CHR 0x89, CHR 0x8A, CHR 0xA8, CHR 0xA9, CHR 0xAF]
     @ [[CHR 0xE2, CHR 0x81, CHR 0x9F], [CHR 0xE3, CHR 0x80, CHR 0x80]]"

definition wide_ws :: "string \<Rightarrow> bool" where
  "wide_ws s \<longleftrightarrow> list_ex ((=) s) wide_spaces"

definition ws_len :: "string \<Rightarrow> nat" where
  "ws_len s = (case s of [] \<Rightarrow> 0 | c # _ \<Rightarrow>
     if ascii_ws c then 1
     else if wide_ws (take 2 s) then 2
     else if wide_ws (take 3 s) then 3 else 0)"

definition ws_len_end :: "string \<Rightarrow> nat" where
  "ws_len_end r = (case r of [] \<Rightarrow> 0 | c # _ \<Rightarrow>
     if ascii_ws c then 1
     else if wide_ws (rev (take 2 r)) then 2
     else if wide_ws (rev (take 3 r)) then 3 else 0)"

fun drop_ws :: "(string \<Rightarrow> nat) \<Rightarrow> nat \<Rightarrow> string \<Rightarrow> string" where
  "drop_ws f 0 s = s"
| "drop_ws f (Suc n) s = (if f s = 0 then s else drop_ws f n (drop (f s) s))"

definition lstrip :: "string \<Rightarrow> string" where
  "lstrip s = drop_ws ws_len (length s) s"

definition rstrip :: "string \<Rightarrow> string" where
  "rstrip s = rev (drop_ws ws_len_end (length s) (rev s))"

definition strip :: "string \<Rightarrow> string" where
  "strip s = rstrip (lstrip s)"

text \<open>Visible ASCII: the characters from ! to ~.\<close>

definition visible :: "char \<Rightarrow> bool" where
  "visible c \<longleftrightarrow> (let n = (of_char c :: nat) in 33 \<le> n \<and> n \<le> 126)"

lemma visible_not_ws: "visible c \<Longrightarrow> \<not> ascii_ws c"
  by (auto simp: visible_def ascii_ws_def Let_def)

lemma wide_spaces_high:
  "list_all (\<lambda>w. w \<noteq> [] \<and> \<not> visible (hd w) \<and> \<not> visible (last w)) wide_spaces"
  by code_simp

lemma wide_ws_not_visible: "wide_ws s \<Longrightarrow> s \<noteq> [] \<and> \<not> visible (hd s) \<and> \<not> visible (last s)"
  using wide_spaces_high by (auto simp: wide_ws_def list_ex_iff list_all_iff)

lemma take_Cons_pos: "0 < n \<Longrightarrow> take n (c # cs) = c # take (n - 1) cs"
  by (cases n) auto

lemma ws_len_visible: "visible c \<Longrightarrow> ws_len (c # cs) = 0"
  using wide_ws_not_visible[of "take 2 (c # cs)"] wide_ws_not_visible[of "take 3 (c # cs)"]
  by (auto simp: ws_len_def visible_not_ws take_Cons_pos)

lemma ws_len_end_visible: "visible c \<Longrightarrow> ws_len_end (c # cs) = 0"
  using wide_ws_not_visible[of "rev (take 2 (c # cs))"] wide_ws_not_visible[of "rev (take 3 (c # cs))"]
  by (auto simp: ws_len_end_def visible_not_ws take_Cons_pos)

lemma strip_Nil [simp]: "strip [] = []"
  by (simp add: strip_def lstrip_def rstrip_def)

text \<open>Text that starts and ends with a visible character has nothing to strip.\<close>

lemma strip_id: "s \<noteq> [] \<Longrightarrow> visible (hd s) \<Longrightarrow> visible (last s) \<Longrightarrow> strip s = s"
proof -
  assume a: "s \<noteq> []" "visible (hd s)" "visible (last s)"
  obtain c cs where s: "s = c # cs" using a by (cases s) auto
  have l: "lstrip s = s" using a by (simp add: lstrip_def s ws_len_visible)
  obtain d ds where r: "rev s = d # ds" using a by (cases "rev s") auto
  then have d: "d = last s" using a(1) by (metis hd_rev list.sel(1))
  have "ws_len_end (rev s) = 0" unfolding r using d a by (simp add: ws_len_end_visible)
  then have "drop_ws ws_len_end (length s) (rev s) = rev s"
    by (cases "length s") auto
  then show ?thesis by (simp add: strip_def l rstrip_def)
qed

lemma strip_visible: "list_all visible s \<Longrightarrow> strip s = s"
  by (cases "s = []") (auto intro!: strip_id simp: list_all_iff)

text \<open>Stripping twice is stripping once.\<close>

lemma drop_ws_done: "f s = 0 \<Longrightarrow> drop_ws f n s = s"
  by (cases n) auto

lemma drop_ws_suffix: "\<exists>k. drop_ws f n s = drop k s"
proof (induction n arbitrary: s)
  case 0
  show ?case by (rule exI[of _ 0]) simp
next
  case (Suc n)
  then obtain k where "drop_ws f n (drop (f s) s) = drop k (drop (f s) s)" by blast
  then show ?case by (cases "f s = 0") (auto intro: exI[of _ 0])
qed

lemma drop_ws_final: "length s \<le> n \<Longrightarrow> f [] = 0 \<Longrightarrow> f (drop_ws f n s) = 0"
proof (induction n arbitrary: s)
  case (Suc n)
  show ?case
  proof (cases "f s = 0")
    case False
    then have "length (drop (f s) s) \<le> n" using Suc.prems by (cases "f s") auto
    then show ?thesis using Suc False by simp
  qed simp
qed simp

lemma wide_ws_length: "wide_ws s \<Longrightarrow> length s = 2 \<or> length s = 3"
proof -
  have "list_all (\<lambda>w. length w = 2 \<or> length w = 3) wide_spaces" by code_simp
  then show "wide_ws s \<Longrightarrow> length s = 2 \<or> length s = 3" by (auto simp: wide_ws_def list_ex_iff list_all_iff)
qed

lemma ws_len_prefix:
  assumes "ws_len s = 0"
  shows "ws_len (take k s) = 0"
proof (cases "take k s")
  case (Cons c cs)
  then obtain cs' where s: "s = c # cs'" by (cases s; cases k) auto
  have a: "\<not> ascii_ws c" "\<not> wide_ws (take 2 s)" "\<not> wide_ws (take 3 s)"
    using assms by (auto simp: ws_len_def s split: if_splits)
  have "\<not> wide_ws (take 2 (take k s))"
    using a wide_ws_length[of "take (min 2 k) s"] by (cases "2 \<le> k") (auto simp: min_def split: if_splits)
  moreover have "\<not> wide_ws (take 3 (take k s))"
  proof
    assume w: "wide_ws (take 3 (take k s))"
    then have "length (take (min 3 k) s) = 2 \<or> length (take (min 3 k) s) = 3" using wide_ws_length[OF w] by simp
    then have "k = 2 \<or> 3 \<le> k" by auto
    then show False using w a by (auto simp: min_def split: if_splits)
  qed
  ultimately show ?thesis using a(1) Cons by (simp add: ws_len_def)
next
  case Nil
  then show ?thesis by (simp only: Nil) (simp add: ws_len_def)
qed

lemma strip_end: "ws_len_end (rev (strip s)) = 0"
  unfolding strip_def rstrip_def rev_rev_ident by (rule drop_ws_final) (simp_all add: ws_len_end_def)

lemma strip_idem [simp]: "strip (strip s) = strip s"
proof -
  have nil: "ws_len [] = 0" "ws_len_end [] = 0" by (simp_all add: ws_len_def ws_len_end_def)
  obtain k where "drop_ws ws_len_end (length (lstrip s)) (rev (lstrip s)) = drop k (rev (lstrip s))"
    using drop_ws_suffix by blast
  then have t: "strip s = take (length (lstrip s) - k) (lstrip s)" by (simp add: strip_def rstrip_def rev_drop)
  have "ws_len (lstrip s) = 0" unfolding lstrip_def by (rule drop_ws_final) (simp_all add: nil)
  then have "ws_len (strip s) = 0" unfolding t by (rule ws_len_prefix)
  then have l: "lstrip (strip s) = strip s" by (simp add: lstrip_def drop_ws_done)
  have "rstrip (strip s) = strip s" by (simp add: rstrip_def drop_ws_done strip_end)
  then show ?thesis using l by (metis strip_def)
qed

subsection \<open>Letter case\<close>

definition lower_char :: "char \<Rightarrow> char" where
  "lower_char c = (let n = (of_char c :: nat) in
     if 65 \<le> n \<and> n \<le> 90 then char_of (n + 32) else c)"

definition upper_char :: "char \<Rightarrow> char" where
  "upper_char c = (let n = (of_char c :: nat) in
     if 97 \<le> n \<and> n \<le> 122 then char_of (n - 32) else c)"

definition lower :: "string \<Rightarrow> string" where
  "lower s = map lower_char s"

definition upper :: "string \<Rightarrow> string" where
  "upper s = map upper_char s"

definition is_digit :: "char \<Rightarrow> bool" where
  "is_digit c \<longleftrightarrow> (let n = (of_char c :: nat) in 48 \<le> n \<and> n \<le> 57)"

definition is_hex :: "char \<Rightarrow> bool" where
  "is_hex c \<longleftrightarrow> is_digit c \<or> (let n = (of_char c :: nat) in 97 \<le> n \<and> n \<le> 102)"

lemma is_digit_visible: "is_digit c \<Longrightarrow> visible c"
  by (auto simp: is_digit_def visible_def Let_def)

lemma is_hex_visible: "is_hex c \<Longrightarrow> visible c"
  by (auto simp: is_hex_def is_digit_def visible_def Let_def)

lemma lower_char_hex: "is_hex c \<Longrightarrow> lower_char c = c"
  by (auto simp: is_hex_def is_digit_def lower_char_def Let_def)

lemma lower_hex: "list_all is_hex s \<Longrightarrow> lower s = s"
  by (induction s) (auto simp: lower_def lower_char_hex)

lemma lower_char_idem [simp]: "lower_char (lower_char c) = lower_char c"
  by (auto simp: lower_char_def Let_def of_char_of take_bit_eq_mod)

lemma lower_idem [simp]: "lower (lower s) = lower s"
  by (induction s) (auto simp: lower_def)

subsection \<open>Code points\<close>

definition continuation :: "char \<Rightarrow> bool" where
  "continuation c \<longleftrightarrow> (let n = (of_char c :: nat) in 128 \<le> n \<and> n < 192)"

text \<open>\<open>len(s)\<close> and \<open>s[:n]\<close>: a code point starts at every byte that is not a continuation byte.\<close>

definition py_len :: "string \<Rightarrow> nat" where
  "py_len s = length (filter (\<lambda>c. \<not> continuation c) s)"

fun py_take :: "nat \<Rightarrow> string \<Rightarrow> string" where
  "py_take n [] = []"
| "py_take 0 (c # cs) = (if continuation c then c # py_take 0 cs else [])"
| "py_take (Suc n) (c # cs) = c # py_take (if continuation c then Suc n else n) cs"

lemma py_take_len: "py_len (py_take n s) \<le> n"
  by (induction n s rule: py_take.induct) (auto simp: py_len_def)

lemma py_take_all: "py_len s \<le> n \<Longrightarrow> py_take n s = s"
  by (induction n s rule: py_take.induct) (auto simp: py_len_def split: if_splits)

subsection \<open>Lines\<close>

text \<open>The length in bytes of the line boundary at the start of the text (\<open>str.splitlines\<close>).\<close>

definition eol_len :: "string \<Rightarrow> nat" where
  "eol_len s = (case s of [] \<Rightarrow> 0 | c # _ \<Rightarrow>
     if take 2 s = [CHR 0x0D, CHR 0x0A] then 2
     else if c \<in> {CHR 0x0A, CHR 0x0B, CHR 0x0C, CHR 0x0D, CHR 0x1C, CHR 0x1D, CHR 0x1E} then 1
     else if take 2 s = [CHR 0xC2, CHR 0x85] then 2
     else if take 3 s = [CHR 0xE2, CHR 0x80, CHR 0xA8] \<or> take 3 s = [CHR 0xE2, CHR 0x80, CHR 0xA9] then 3
     else 0)"

fun lines_acc :: "nat \<Rightarrow> string \<Rightarrow> string \<Rightarrow> string list" where
  "lines_acc 0 acc s = (if acc = [] then [] else [rev acc])"
| "lines_acc (Suc n) acc [] = (if acc = [] then [] else [rev acc])"
| "lines_acc (Suc n) acc (c # cs) =
     (if eol_len (c # cs) = 0 then lines_acc n (c # acc) cs
      else rev acc # lines_acc n [] (drop (eol_len (c # cs)) (c # cs)))"

definition splitlines :: "string \<Rightarrow> string list" where
  "splitlines s = lines_acc (Suc (length s)) [] s"

subsection \<open>Integers as text\<close>

definition digit_char :: "nat \<Rightarrow> char" where
  "digit_char n = char_of (48 + n)"

definition digit_val :: "char \<Rightarrow> nat" where
  "digit_val c = of_char c - 48"

fun nat_str :: "nat \<Rightarrow> string" where
  "nat_str n = (if n < 10 then [digit_char n] else nat_str (n div 10) @ [digit_char (n mod 10)])"

declare nat_str.simps [simp del]

definition str_int :: "int \<Rightarrow> string" where
  "str_int i = (if i < 0 then CHR ''-'' # nat_str (nat (- i)) else nat_str (nat i))"

definition digits_val :: "string \<Rightarrow> nat" where
  "digits_val s = foldl (\<lambda>a c. a * 10 + digit_val c) 0 s"

lemma digit_char_simps: "n < 10 \<Longrightarrow> is_digit (digit_char n) \<and> digit_val (digit_char n) = n"
  by (simp add: is_digit_def digit_char_def digit_val_def take_bit_eq_mod Let_def)

lemma nat_str_ok: "nat_str n \<noteq> [] \<and> list_all is_digit (nat_str n) \<and> digits_val (nat_str n) = n"
proof (induction n rule: nat_str.induct)
  case (1 n)
  show ?case
  proof (cases "n < 10")
    case True
    then show ?thesis
      by (subst nat_str.simps, subst (2) nat_str.simps, subst (3) nat_str.simps)
        (simp add: digit_char_simps digits_val_def)
  next
    case False
    then have r: "nat_str n = nat_str (n div 10) @ [digit_char (n mod 10)]"
      by (subst nat_str.simps) simp
    show ?thesis using "1.IH"[OF False]
      by (simp add: r digit_char_simps digits_val_def)
  qed
qed

lemma nat_str_lead0: "0 < n \<Longrightarrow> hd (nat_str n) \<noteq> CHR ''0''"
proof (induction n rule: nat_str.induct)
  case (1 n)
  show ?case
  proof (cases "n < 10")
    case True
    then have "digit_val (hd (nat_str n)) = n"
      by (subst nat_str.simps) (simp add: digit_char_simps)
    then show ?thesis using 1 by (auto simp: digit_val_def)
  next
    case False
    then have r: "nat_str n = nat_str (n div 10) @ [digit_char (n mod 10)]"
      by (subst nat_str.simps) simp
    have "0 < n div 10" using False by (simp add: div_greater_zero_iff)
    then have "hd (nat_str (n div 10)) \<noteq> CHR ''0''" using "1.IH"[OF False] by simp
    then show ?thesis using nat_str_ok[of "n div 10"] by (simp add: r)
  qed
qed

text \<open>\<open>int(text)\<close>: surrounding whitespace, an optional sign, digits with single
  underscores between them; \<open>ValueError\<close> otherwise.\<close>

fun digit_groups :: "bool \<Rightarrow> string \<Rightarrow> string option" where
  "digit_groups prev [] = (if prev then Some [] else None)"
| "digit_groups prev (c # cs) =
     (if is_digit c then map_option (Cons c) (digit_groups True cs)
      else if c = CHR ''_'' \<and> prev then digit_groups False cs else None)"

definition int_of_str :: "string \<Rightarrow> int option" where
  "int_of_str t = (let s = strip t;
     neg = startswith s ''-'';
     body = (if neg \<or> startswith s ''+'' then drop 1 s else s) in
     map_option (\<lambda>ds. (if neg then - int (digits_val ds) else int (digits_val ds))) (digit_groups False body))"

lemma digit_groups_digits: "list_all is_digit s \<Longrightarrow> s \<noteq> [] \<or> prev \<Longrightarrow> digit_groups prev s = Some s"
  by (induction s arbitrary: prev) auto

lemma visible_minus: "visible CHR ''-''"
  by (simp add: visible_def)

lemma str_int_visible: "list_all visible (str_int i)"
  using nat_str_ok by (auto simp: str_int_def list_all_iff is_digit_visible visible_minus)

lemma str_int_nonempty: "str_int i \<noteq> []"
  using nat_str_ok by (auto simp: str_int_def)

lemma int_of_str_int: "int_of_str (str_int i) = Some i"
proof -
  have s: "strip (str_int i) = str_int i" by (rule strip_visible[OF str_int_visible])
  have dig: "\<And>n. digit_groups False (nat_str n) = Some (nat_str n)"
    using nat_str_ok by (auto intro: digit_groups_digits)
  have nsign: "\<And>n. \<not> startswith (nat_str n) ''-'' \<and> \<not> startswith (nat_str n) ''+''"
  proof -
    fix n
    obtain c cs where c: "nat_str n = c # cs" using nat_str_ok[of n] by (cases "nat_str n") auto
    then have "is_digit c" using nat_str_ok[of n] by simp
    then show "\<not> startswith (nat_str n) ''-'' \<and> \<not> startswith (nat_str n) ''+''"
      by (auto simp: c startswith_def is_digit_def)
  qed
  show ?thesis
  proof (cases "i < 0")
    case True
    then have "int_of_str (str_int i) = Some (- int (digits_val (nat_str (nat (- i)))))"
      using s dig by (simp add: int_of_str_def str_int_def startswith_def Let_def)
    then show ?thesis using nat_str_ok[of "nat (- i)"] True by simp
  next
    case False
    then have "int_of_str (str_int i) = Some (int (digits_val (nat_str (nat i))))"
      using s dig nsign by (simp add: int_of_str_def str_int_def Let_def)
    then show ?thesis using nat_str_ok[of "nat i"] False by simp
  qed
qed

subsection \<open>UTF-8\<close>

text \<open>Well-formed UTF-8, with the three-byte forms of lone surrogates as Python's
  \<open>surrogatepass\<close> reads them\<close>

fun utf8_fuel :: "nat \<Rightarrow> bytes \<Rightarrow> bool" where
  "utf8_fuel 0 s \<longleftrightarrow> s = []"
| "utf8_fuel (Suc k) s \<longleftrightarrow> (case s of [] \<Rightarrow> True | a # r \<Rightarrow>
     let n = of_char a :: nat in
     if n < 128 then utf8_fuel k r
     else if 0xC2 \<le> n \<and> n \<le> 0xDF then
       (case r of b # r' \<Rightarrow> continuation b \<and> utf8_fuel k r' | _ \<Rightarrow> False)
     else if 0xE0 \<le> n \<and> n \<le> 0xEF then
       (case r of b # c # r' \<Rightarrow> continuation b \<and> continuation c \<and>
          (n = 0xE0 \<longrightarrow> 0xA0 \<le> (of_char b :: nat)) \<and> utf8_fuel k r' | _ \<Rightarrow> False)
     else if 0xF0 \<le> n \<and> n \<le> 0xF4 then
       (case r of b # c # d # r' \<Rightarrow> continuation b \<and> continuation c \<and> continuation d \<and>
          (n = 0xF0 \<longrightarrow> 0x90 \<le> (of_char b :: nat)) \<and> (n = 0xF4 \<longrightarrow> (of_char b :: nat) < 0x90) \<and>
          utf8_fuel k r' | _ \<Rightarrow> False)
     else False)"

definition utf8_ok :: "bytes \<Rightarrow> bool" where
  "utf8_ok s = utf8_fuel (length s) s"

fun has_surrogate :: "string \<Rightarrow> bool" where
  "has_surrogate (a # b # r) \<longleftrightarrow> a = CHR 0xED \<and> 0xA0 \<le> (of_char b :: nat) \<or> has_surrogate (b # r)"
| "has_surrogate _ \<longleftrightarrow> False"

text \<open>\<open>s.encode("utf-8")\<close> and \<open>b.decode("utf-8")\<close>\<close>

definition encode_utf8 :: "string \<Rightarrow> bytes res" where
  "encode_utf8 s = (if has_surrogate s then Inl (ValueErr ''UnicodeEncodeError'') else Inr s)"

definition decode_utf8 :: "bytes \<Rightarrow> string res" where
  "decode_utf8 b = (if utf8_ok b \<and> \<not> has_surrogate b then Inr b else Inl (ValueErr ''UnicodeDecodeError''))"

text \<open>Text mode reads \<open>\r\n\<close> and \<open>\r\<close> as \<open>\n\<close>.\<close>

fun universal_newlines :: "string \<Rightarrow> string" where
  "universal_newlines (a # b # r) =
     (if a = CHR 0x0D then
        (if b = CHR 0x0A then CHR 0x0A # universal_newlines r else CHR 0x0A # universal_newlines (b # r))
      else a # universal_newlines (b # r))"
| "universal_newlines [a] = [if a = CHR 0x0D then CHR 0x0A else a]"
| "universal_newlines [] = []"

lemma universal_newlines_id: "CHR 0x0D \<notin> set s \<Longrightarrow> universal_newlines s = s"
  by (induction s rule: universal_newlines.induct) auto

definition decode_text :: "bytes \<Rightarrow> string res" where
  "decode_text b = bindR (decode_utf8 b) (\<lambda>s. Inr (universal_newlines s))"

definition ascii :: "string \<Rightarrow> bool" where
  "ascii s \<longleftrightarrow> list_all (\<lambda>c. (of_char c :: nat) < 128) s"

lemma ascii_append [simp]: "ascii (s @ t) \<longleftrightarrow> ascii s \<and> ascii t"
  by (simp add: ascii_def)

lemma ascii_Cons [simp]: "ascii (c # t) \<longleftrightarrow> (of_char c :: nat) < 128 \<and> ascii t"
  by (simp add: ascii_def)

lemma ascii_Nil [simp]: "ascii []"
  by (simp add: ascii_def)

lemma ascii_utf8_fuel: "ascii s \<Longrightarrow> length s \<le> n \<Longrightarrow> utf8_fuel n s"
proof (induction n arbitrary: s)
  case (Suc n)
  then show ?case by (cases s) (auto simp: Let_def)
qed auto

lemma ascii_utf8: "ascii s \<Longrightarrow> utf8_ok s"
  by (simp add: utf8_ok_def ascii_utf8_fuel)

lemma ascii_no_surrogate: "ascii s \<Longrightarrow> \<not> has_surrogate s"
  by (induction s rule: has_surrogate.induct) auto

lemma py_take_ascii: "ascii s \<Longrightarrow> py_take n s = take n s"
  by (induction n s rule: py_take.induct) (auto simp: continuation_def Let_def)

lemma visible_ascii: "list_all visible s \<Longrightarrow> ascii s"
  by (auto simp: ascii_def list_all_iff visible_def Let_def)

end
