(* ===== verification/Py_Regex.thy ===== *)
theory Py_Regex
  imports Py_Text
begin

text \<open>
  The regular expressions that the code uses with \<open>re.fullmatch\<close>: a datatype, its
  language, and a matcher by derivatives that decides the language. A character class is
  a predicate on bytes.
\<close>

datatype rx =
    RZero
  | ROne
  | RCls "char \<Rightarrow> bool"
  | RAlt rx rx
  | RSeq rx rx
  | RStar rx

inductive rx_match :: "rx \<Rightarrow> string \<Rightarrow> bool" where
  m_one: "rx_match ROne []"
| m_cls: "P c \<Longrightarrow> rx_match (RCls P) [c]"
| m_altl: "rx_match r s \<Longrightarrow> rx_match (RAlt r q) s"
| m_altr: "rx_match q s \<Longrightarrow> rx_match (RAlt r q) s"
| m_seq: "rx_match r s \<Longrightarrow> rx_match q t \<Longrightarrow> rx_match (RSeq r q) (s @ t)"
| m_star0: "rx_match (RStar r) []"
| m_star: "rx_match r s \<Longrightarrow> s \<noteq> [] \<Longrightarrow> rx_match (RStar r) t \<Longrightarrow> rx_match (RStar r) (s @ t)"

inductive_simps rx_match_simps [simp]:
  "rx_match RZero s" "rx_match ROne s" "rx_match (RCls P) s" "rx_match (RAlt r q) s"

inductive_cases rx_seq_cases: "rx_match (RSeq r q) s"

lemma rx_match_seq: "rx_match (RSeq r q) s \<longleftrightarrow> (\<exists>u v. s = u @ v \<and> rx_match r u \<and> rx_match q v)"
  by (blast elim: rx_seq_cases intro: rx_match.m_seq)

inductive_cases rx_star_cases: "rx_match (RStar r) s"

fun nullable :: "rx \<Rightarrow> bool" where
  "nullable RZero = False"
| "nullable ROne = True"
| "nullable (RCls P) = False"
| "nullable (RAlt r q) = (nullable r \<or> nullable q)"
| "nullable (RSeq r q) = (nullable r \<and> nullable q)"
| "nullable (RStar r) = True"

text \<open>Smart constructors keep the derivatives small.\<close>

definition seq :: "rx \<Rightarrow> rx \<Rightarrow> rx" where
  "seq r q = (case r of RZero \<Rightarrow> RZero | ROne \<Rightarrow> q | _ \<Rightarrow> RSeq r q)"

definition alt :: "rx \<Rightarrow> rx \<Rightarrow> rx" where
  "alt r q = (case r of RZero \<Rightarrow> q | _ \<Rightarrow> (case q of RZero \<Rightarrow> r | _ \<Rightarrow> RAlt r q))"

fun deriv :: "char \<Rightarrow> rx \<Rightarrow> rx" where
  "deriv c RZero = RZero"
| "deriv c ROne = RZero"
| "deriv c (RCls P) = (if P c then ROne else RZero)"
| "deriv c (RAlt r q) = alt (deriv c r) (deriv c q)"
| "deriv c (RSeq r q) =
     (if nullable r then alt (seq (deriv c r) q) (deriv c q) else seq (deriv c r) q)"
| "deriv c (RStar r) = seq (deriv c r) (RStar r)"

fun fullmatch :: "rx \<Rightarrow> string \<Rightarrow> bool" where
  "fullmatch r [] = nullable r"
| "fullmatch r (c # cs) = fullmatch (deriv c r) cs"

lemma seq_match: "rx_match (seq r q) s = rx_match (RSeq r q) s"
  by (cases r) (auto simp: seq_def rx_match_seq)

lemma alt_match: "rx_match (alt r q) s = rx_match (RAlt r q) s"
  by (cases r; cases q) (simp_all add: alt_def)

lemma nullable_match: "nullable r \<longleftrightarrow> rx_match r []"
  by (induction r) (auto simp: rx_match_seq intro: rx_match.m_star0)

lemma star_Cons:
  "rx_match (RStar r) (c # s) \<longleftrightarrow> (\<exists>u v. s = u @ v \<and> rx_match r (c # u) \<and> rx_match (RStar r) v)"
proof
  assume "rx_match (RStar r) (c # s)"
  then obtain a b where "c # s = a @ b" "a \<noteq> []" "rx_match r a" "rx_match (RStar r) b"
    by (cases rule: rx_star_cases) auto
  then show "\<exists>u v. s = u @ v \<and> rx_match r (c # u) \<and> rx_match (RStar r) v"
    by (cases a) auto
next
  assume "\<exists>u v. s = u @ v \<and> rx_match r (c # u) \<and> rx_match (RStar r) v"
  then obtain u v where uv: "s = u @ v" "rx_match r (c # u)" "rx_match (RStar r) v" by blast
  from rx_match.m_star[OF uv(2) _ uv(3)] show "rx_match (RStar r) (c # s)" by (simp add: uv(1))
qed

lemma seq_Cons:
  "rx_match (RSeq r q) (c # s) \<longleftrightarrow>
     (\<exists>u v. s = u @ v \<and> rx_match r (c # u) \<and> rx_match q v) \<or> rx_match r [] \<and> rx_match q (c # s)"
  unfolding rx_match_seq by (auto simp: Cons_eq_append_conv)

lemma seq_cls: "rx_match (RSeq (RCls P) q) s \<longleftrightarrow> (\<exists>c t. s = c # t \<and> P c \<and> rx_match q t)"
  unfolding rx_match_seq rx_match_simps by (metis append_Cons append_Nil)

lemma deriv_match: "rx_match (deriv c r) s \<longleftrightarrow> rx_match r (c # s)"
proof (induction r arbitrary: s)
  case (RSeq r q)
  have "rx_match (RSeq (deriv c r) q) s \<longleftrightarrow>
      (\<exists>u v. s = u @ v \<and> rx_match r (c # u) \<and> rx_match q v)"
    unfolding rx_match_seq by (simp add: RSeq.IH)
  then show ?case
    by (simp add: seq_Cons alt_match seq_match nullable_match RSeq.IH)
next
  case (RStar r)
  show ?case unfolding deriv.simps seq_match star_Cons rx_match_seq by (simp add: RStar.IH)
qed (simp_all add: alt_match)

lemma fullmatch_iff: "fullmatch r s \<longleftrightarrow> rx_match r s"
  by (induction s arbitrary: r) (auto simp: nullable_match deriv_match)

subsection \<open>Derived forms\<close>

definition r_chr :: "char \<Rightarrow> rx" where
  "r_chr c = RCls ((=) c)"

fun r_lit :: "string \<Rightarrow> rx" where
  "r_lit [] = ROne"
| "r_lit (c # cs) = seq (r_chr c) (r_lit cs)"

definition r_plus :: "rx \<Rightarrow> rx" where
  "r_plus r = RSeq r (RStar r)"

definition r_opt :: "rx \<Rightarrow> rx" where
  "r_opt r = RAlt r ROne"

fun r_rep :: "nat \<Rightarrow> rx \<Rightarrow> rx" where
  "r_rep 0 r = ROne"
| "r_rep (Suc n) r = RSeq r (r_rep n r)"

fun r_upto :: "nat \<Rightarrow> rx \<Rightarrow> rx" where
  "r_upto 0 r = ROne"
| "r_upto (Suc n) r = r_opt (RSeq r (r_upto n r))"

fun r_seqs :: "rx list \<Rightarrow> rx" where
  "r_seqs [] = ROne"
| "r_seqs [r] = r"
| "r_seqs (r # q # rs) = RSeq r (r_seqs (q # rs))"

lemma match_chr [simp]: "rx_match (r_chr c) s \<longleftrightarrow> s = [c]"
  by (auto simp: r_chr_def)

lemma match_lit [simp]: "rx_match (r_lit t) s \<longleftrightarrow> s = t"
  by (induction t arbitrary: s) (auto simp: r_chr_def seq_cls seq_match)

lemma match_opt [simp]: "rx_match (r_opt r) s \<longleftrightarrow> rx_match r s \<or> s = []"
  by (auto simp: r_opt_def)

lemma match_rep_cls: "rx_match (r_rep n (RCls P)) s \<longleftrightarrow> length s = n \<and> list_all P s"
proof (induction n arbitrary: s)
  case (Suc n)
  then show ?case by (cases s) (auto simp: seq_cls)
qed auto

lemma match_star_cls: "rx_match (RStar (RCls P)) s \<longleftrightarrow> list_all P s"
proof (induction s)
  case (Cons c s)
  show ?case
  proof
    assume "rx_match (RStar (RCls P)) (c # s)"
    then show "list_all P (c # s)" using Cons by (auto simp: star_Cons)
  next
    assume "list_all P (c # s)"
    then show "rx_match (RStar (RCls P)) (c # s)" using Cons by (auto simp: star_Cons)
  qed
qed (auto intro: rx_match.m_star0)

lemma match_plus_cls: "rx_match (r_plus (RCls P)) s \<longleftrightarrow> s \<noteq> [] \<and> list_all P s"
  by (cases s) (auto simp: r_plus_def seq_cls match_star_cls)

lemma match_upto_cls: "rx_match (r_upto n (RCls P)) s \<longleftrightarrow> length s \<le> n \<and> list_all P s"
proof (induction n arbitrary: s)
  case (Suc n)
  then show ?case by (cases s) (auto simp: seq_cls)
qed auto

subsection \<open>The patterns that several components share\<close>

definition rx_digits :: rx where
  "rx_digits = r_plus (RCls is_digit)"

text \<open>\<open>[a-f0-9]{n}\<close>\<close>

definition rx_hex :: "nat \<Rightarrow> rx" where
  "rx_hex n = r_rep n (RCls is_hex)"

text \<open>\<open>[0-9]+\.[0-9]+\.[0-9]+\<close> and the same followed by \<open>\+[0-9]+\<close>\<close>

definition rx_version3 :: rx where
  "rx_version3 = r_seqs [rx_digits, r_chr CHR ''.'', rx_digits, r_chr CHR ''.'', rx_digits]"

definition rx_version4 :: rx where
  "rx_version4 = r_seqs [rx_version3, r_chr CHR ''+'', rx_digits]"

definition is_sha256 :: "string \<Rightarrow> bool" where
  "is_sha256 s \<longleftrightarrow> length s = 64 \<and> list_all is_hex s"

lemma match_hex: "fullmatch (rx_hex n) s \<longleftrightarrow> length s = n \<and> list_all is_hex s"
  by (simp add: fullmatch_iff rx_hex_def match_rep_cls)

lemma match_digits: "rx_match rx_digits s \<longleftrightarrow> s \<noteq> [] \<and> list_all is_digit s"
  by (simp add: rx_digits_def match_plus_cls)

lemma seq_chr: "rx_match (RSeq (r_chr c) q) s \<longleftrightarrow> (\<exists>t. s = c # t \<and> rx_match q t)"
  by (auto simp: r_chr_def seq_cls)

lemma match_version3:
  "fullmatch rx_version3 s \<longleftrightarrow> (\<exists>a b c. s = a @ ''.'' @ b @ ''.'' @ c \<and>
     rx_match rx_digits a \<and> rx_match rx_digits b \<and> rx_match rx_digits c)"
  unfolding fullmatch_iff rx_version3_def r_seqs.simps seq_chr rx_match_seq match_chr
  by (simp, blast)

lemma match_version4:
  "fullmatch rx_version4 s \<longleftrightarrow> (\<exists>v d. s = v @ ''+'' @ d \<and> fullmatch rx_version3 v \<and> rx_match rx_digits d)"
  unfolding fullmatch_iff rx_version4_def r_seqs.simps seq_chr rx_match_seq by (simp, blast)

text \<open>A version with a build number splits at its plus sign.\<close>

lemma version3_no_plus: "fullmatch rx_version3 v \<Longrightarrow> \<not> contains v ''+''"
proof -
  assume "fullmatch rx_version3 v"
  moreover have "\<not> is_digit CHR ''+''" by (simp add: is_digit_def)
  ultimately have "CHR ''+'' \<notin> set v"
    by (auto simp: match_version3 match_digits list_all_iff)
  then show ?thesis by (auto simp: contains_iff)
qed

end
