(* ===== verification/Py_Codec.thy ===== *)
theory Py_Codec
  imports Py_Regex "HOL-Library.Word"
begin

unbundle bit_operations_syntax

text \<open>
  The byte-level standard library: \<open>hashlib.sha256\<close>, \<open>hashlib.sha1\<close>,
  \<open>base64\<close> and the little-endian reads of \<open>struct.unpack_from\<close>. Hash functions
  are the standard's algorithms on 32-bit words, so that a hex digest is known to have its
  shape; nothing is assumed about collisions.
\<close>

subsection \<open>Words and bytes\<close>

type_synonym u32 = "32 word"

definition byte_word :: "char \<Rightarrow> u32" where
  "byte_word c = word_of_nat (of_char c)"

fun be_words :: "bytes \<Rightarrow> u32 list" where
  "be_words (a # b # c # d # r) =
     (push_bit 24 (byte_word a) OR push_bit 16 (byte_word b) OR push_bit 8 (byte_word c)
      OR byte_word d) # be_words r"
| "be_words _ = []"

fun be_bytes :: "nat \<Rightarrow> nat \<Rightarrow> bytes" where
  "be_bytes 0 n = []"
| "be_bytes (Suc k) n = be_bytes k (n div 256) @ [char_of n]"

definition pad_block :: "bytes \<Rightarrow> bytes" where
  "pad_block m = m @ CHR 0x80 # replicate ((119 - length m mod 64) mod 64) (CHR 0x00)
     @ be_bytes 8 (8 * length m)"

fun blocks16 :: "nat \<Rightarrow> u32 list \<Rightarrow> u32 list list" where
  "blocks16 0 ws = []"
| "blocks16 (Suc n) ws = (if ws = [] then [] else take 16 ws # blocks16 n (drop 16 ws))"

definition nibble :: "nat \<Rightarrow> char" where
  "nibble n = char_of (if n < 10 then 48 + n else 87 + n)"

definition word_hex :: "u32 \<Rightarrow> string" where
  "word_hex w = map (\<lambda>i. nibble (unat (drop_bit (28 - 4 * i) w) mod 16)) [0, 1, 2, 3, 4, 5, 6, 7]"

lemma nibble_hex: "n < 16 \<Longrightarrow> is_hex (nibble n)"
  by (auto simp: nibble_def is_hex_def is_digit_def take_bit_eq_mod Let_def)

lemma word_hex_shape: "length (word_hex w) = 8 \<and> list_all is_hex (word_hex w)"
  by (simp add: word_hex_def nibble_hex)

subsection \<open>SHA-256\<close>

type_synonym sha256_state = "u32 \<times> u32 \<times> u32 \<times> u32 \<times> u32 \<times> u32 \<times> u32 \<times> u32"

definition sha256_k :: "u32 list" where
  "sha256_k = [1116352408, 1899447441, 3049323471, 3921009573, 961987163, 1508970993,
    2453635748, 2870763221, 3624381080, 310598401, 607225278, 1426881987,
    1925078388, 2162078206, 2614888103, 3248222580, 3835390401, 4022224774,
    264347078, 604807628, 770255983, 1249150122, 1555081692, 1996064986,
    2554220882, 2821834349, 2952996808, 3210313671, 3336571891, 3584528711,
    113926993, 338241895, 666307205, 773529912, 1294757372, 1396182291,
    1695183700, 1986661051, 2177026350, 2456956037, 2730485921, 2820302411,
    3259730800, 3345764771, 3516065817, 3600352804, 4094571909, 275423344,
    430227734, 506948616, 659060556, 883997877, 958139571, 1322822218,
    1537002063, 1747873779, 1955562222, 2024104815, 2227730452, 2361852424,
    2428436474, 2756734187, 3204031479, 3329325298]"

definition rotr :: "nat \<Rightarrow> u32 \<Rightarrow> u32" where
  "rotr n x = drop_bit n x OR push_bit (32 - n) x"

fun sha256_schedule :: "nat \<Rightarrow> u32 list \<Rightarrow> u32 list" where
  "sha256_schedule 0 r = r"
| "sha256_schedule (Suc n) r =
     (let x = r ! 14; y = r ! 1;
        s0 = rotr 7 x XOR rotr 18 x XOR drop_bit 3 x;
        s1 = rotr 17 y XOR rotr 19 y XOR drop_bit 10 y
      in sha256_schedule n ((r ! 15 + s0 + r ! 6 + s1) # r))"

fun sha256_rounds :: "(u32 \<times> u32) list \<Rightarrow> sha256_state \<Rightarrow> sha256_state" where
  "sha256_rounds [] st = st"
| "sha256_rounds ((k, w) # kws) (a, b, c, d, e, f, g, h) =
     (let s1 = rotr 6 e XOR rotr 11 e XOR rotr 25 e;
        ch = (e AND f) XOR (NOT e AND g);
        t1 = h + s1 + ch + k + w;
        s0 = rotr 2 a XOR rotr 13 a XOR rotr 22 a;
        mj = (a AND b) XOR (a AND c) XOR (b AND c)
      in sha256_rounds kws (t1 + s0 + mj, a, b, c, d + t1, e, f, g))"

fun sha256_block :: "sha256_state \<Rightarrow> u32 list \<Rightarrow> sha256_state" where
  "sha256_block (a, b, c, d, e, f, g, h) blk =
     (case sha256_rounds (zip sha256_k (rev (sha256_schedule 48 (rev blk)))) (a, b, c, d, e, f, g, h) of
        (a', b', c', d', e', f', g', h') \<Rightarrow>
          (a + a', b + b', c + c', d + d', e + e', f + f', g + g', h + h'))"

definition sha256_words :: "bytes \<Rightarrow> sha256_state" where
  "sha256_words m = foldl sha256_block
     (0x6a09e667, 0xbb67ae85, 0x3c6ef372, 0xa54ff53a, 0x510e527f, 0x9b05688c, 0x1f83d9ab, 0x5be0cd19)
     (blocks16 (length (pad_block m)) (be_words (pad_block m)))"

text \<open>\<open>hashlib.sha256(m).hexdigest()\<close>\<close>

definition sha256_hex :: "bytes \<Rightarrow> string" where
  "sha256_hex m = (case sha256_words m of (a, b, c, d, e, f, g, h) \<Rightarrow>
     concat (map word_hex [a, b, c, d, e, f, g, h]))"

lemma sha256_hex_shape: "is_sha256 (sha256_hex m)"
  using word_hex_shape by (auto simp: sha256_hex_def is_sha256_def split: prod.splits)

subsection \<open>SHA-1\<close>

type_synonym sha1_state = "u32 \<times> u32 \<times> u32 \<times> u32 \<times> u32"

fun sha1_schedule :: "nat \<Rightarrow> u32 list \<Rightarrow> u32 list" where
  "sha1_schedule 0 r = r"
| "sha1_schedule (Suc n) r =
     sha1_schedule n (rotr 31 (r ! 2 XOR r ! 7 XOR r ! 13 XOR r ! 15) # r)"

fun sha1_rounds :: "nat \<Rightarrow> u32 list \<Rightarrow> sha1_state \<Rightarrow> sha1_state" where
  "sha1_rounds i [] st = st"
| "sha1_rounds i (w # ws) (a, b, c, d, e) =
     (let f = (if i < 20 then (b AND c) OR (NOT b AND d)
               else if i < 40 then b XOR c XOR d
               else if i < 60 then (b AND c) OR (b AND d) OR (c AND d) else b XOR c XOR d);
        k = (if i < 20 then 0x5A827999 else if i < 40 then 0x6ED9EBA1
             else if i < 60 then 0x8F1BBCDC else 0xCA62C1D6)
      in sha1_rounds (Suc i) ws (rotr 27 a + f + e + k + w, a, rotr 2 b, c, d))"

fun sha1_block :: "sha1_state \<Rightarrow> u32 list \<Rightarrow> sha1_state" where
  "sha1_block (a, b, c, d, e) blk =
     (case sha1_rounds 0 (rev (sha1_schedule 64 (rev blk))) (a, b, c, d, e) of
        (a', b', c', d', e') \<Rightarrow> (a + a', b + b', c + c', d + d', e + e'))"

definition sha1_words :: "bytes \<Rightarrow> sha1_state" where
  "sha1_words m = foldl sha1_block
     (0x67452301, 0xEFCDAB89, 0x98BADCFE, 0x10325476, 0xC3D2E1F0)
     (blocks16 (length (pad_block m)) (be_words (pad_block m)))"

text \<open>\<open>hashlib.sha1(m).hexdigest()\<close>\<close>

definition sha1_hex :: "bytes \<Rightarrow> string" where
  "sha1_hex m = (case sha1_words m of (a, b, c, d, e) \<Rightarrow> concat (map word_hex [a, b, c, d, e]))"

lemma sha1_hex_shape: "length (sha1_hex m) = 40 \<and> list_all is_hex (sha1_hex m)"
  using word_hex_shape by (auto simp: sha1_hex_def split: prod.splits)

subsection \<open>Base 64\<close>

definition b64_char :: "nat \<Rightarrow> char" where
  "b64_char n = char_of (if n < 26 then 65 + n else if n < 52 then 71 + n
     else if n < 62 then n - 4 else if n = 62 then 43 else 47)"

definition b64_val :: "char \<Rightarrow> nat option" where
  "b64_val c = (let n = of_char c :: nat in
     if 65 \<le> n \<and> n \<le> 90 then Some (n - 65)
     else if 97 \<le> n \<and> n \<le> 122 then Some (n - 71)
     else if 48 \<le> n \<and> n \<le> 57 then Some (n + 4)
     else if n = 43 then Some 62 else if n = 47 then Some 63 else None)"

text \<open>\<open>base64.b64encode\<close>\<close>

fun b64encode :: "bytes \<Rightarrow> string" where
  "b64encode [] = []"
| "b64encode [a] = (let x = of_char a in
     [b64_char (x div 4), b64_char (x mod 4 * 16), CHR ''='', CHR ''=''])"
| "b64encode [a, b] = (let x = of_char a; y = of_char b in
     [b64_char (x div 4), b64_char (x mod 4 * 16 + y div 16), b64_char (y mod 16 * 4), CHR ''=''])"
| "b64encode (a # b # c # r) = (let x = of_char a; y = of_char b; z = of_char c in
     b64_char (x div 4) # b64_char (x mod 4 * 16 + y div 16) #
     b64_char (y mod 16 * 4 + z div 64) # b64_char (z mod 64) # b64encode r)"

text \<open>
  \<open>binascii.a2b_base64\<close>: \<open>q\<close> is the position in the current group of four,
  \<open>left\<close> the bits carried over, \<open>pads\<close> the padding seen. Without strict mode every
  character outside the alphabet is skipped.
\<close>

fun a2b_base64 :: "bool \<Rightarrow> nat \<Rightarrow> nat \<Rightarrow> nat \<Rightarrow> bool \<Rightarrow> string \<Rightarrow> bytes option" where
  "a2b_base64 strict q left pads started [] = (if q = 0 then Some [] else None)"
| "a2b_base64 strict q left pads started (c # cs) =
     (if c = CHR ''='' then
        (if strict \<and> q = 0 then None
         else if 2 \<le> q \<and> 4 \<le> q + Suc pads then (if strict \<and> cs \<noteq> [] then None else Some [])
         else a2b_base64 strict q left (if 2 \<le> q then Suc pads else pads) True cs)
      else (case b64_val c of
        None \<Rightarrow> if strict then None else a2b_base64 strict q left pads started cs
      | Some v \<Rightarrow>
          if strict \<and> started then None
          else if q = 0 then a2b_base64 strict 1 v 0 started cs
          else if q = 1 then map_option (Cons (char_of (left * 4 + v div 16)))
            (a2b_base64 strict 2 (v mod 16) 0 started cs)
          else if q = 2 then map_option (Cons (char_of (left * 16 + v div 4)))
            (a2b_base64 strict 3 (v mod 4) 0 started cs)
          else map_option (Cons (char_of (left * 64 + v)))
            (a2b_base64 strict 0 0 0 started cs)))"

text \<open>\<open>base64.b64decode(s, validate=strict)\<close> on a \<open>str\<close>: only ASCII text is accepted.\<close>

definition b64decode :: "bool \<Rightarrow> string \<Rightarrow> bytes option" where
  "b64decode strict s =
     (if list_all (\<lambda>c. (of_char c :: nat) < 128) s then a2b_base64 strict 0 0 0 False s else None)"

lemma of_char_of_small: "n < 256 \<Longrightarrow> (of_char (char_of n :: char) :: nat) = n"
  by (simp add: take_bit_eq_mod)

lemma b64_char_code:
  "n < 64 \<Longrightarrow> (of_char (b64_char n) :: nat) = (if n < 26 then 65 + n else if n < 52 then 71 + n
     else if n < 62 then n - 4 else if n = 62 then 43 else 47)"
  unfolding b64_char_def by (rule of_char_of_small) auto

lemma b64_char_val:
  assumes "n < 64"
  shows "b64_val (b64_char n) = Some n" "b64_char n \<noteq> CHR ''=''" "visible (b64_char n)"
proof -
  show "b64_val (b64_char n) = Some n" "visible (b64_char n)"
    using assms by (auto simp: b64_val_def visible_def b64_char_code Let_def)
  have "(of_char (b64_char n) :: nat) \<noteq> 61" using assms by (auto simp: b64_char_code)
  then show "b64_char n \<noteq> CHR ''=''" by auto
qed

lemma of_char_less [simp]: "(of_char c :: nat) < 256"
  using of_char_mod_256[of c, where 'a = nat] mod_less_divisor[of 256 "of_char c"] by simp

lemma sextet_lt:
  "(of_char a :: nat) div 4 < 64" "(of_char a :: nat) mod 4 * 16 < 64"
  "(of_char a :: nat) mod 4 * 16 + of_char b div 16 < 64" "(of_char b :: nat) mod 16 * 4 < 64"
  "(of_char b :: nat) mod 16 * 4 + of_char c div 64 < 64" "(of_char c :: nat) mod 64 < 64"
proof -
  have a: "(of_char a :: nat) < 64 * 4" and b: "(of_char b :: nat) < 16 * 16"
    and c: "(of_char c :: nat) < 4 * 64" using of_char_less[of a] of_char_less[of b] of_char_less[of c]
    by simp_all
  show "(of_char a :: nat) div 4 < 64" by (rule less_mult_imp_div_less[OF a])
  have "(of_char b :: nat) div 16 < 16" "(of_char c :: nat) div 64 < 4"
    by (rule less_mult_imp_div_less[OF b], rule less_mult_imp_div_less[OF c])
  moreover have "(of_char a :: nat) mod 4 < 4" "(of_char b :: nat) mod 16 < 16" by simp_all
  ultimately show "(of_char a :: nat) mod 4 * 16 < 64" "(of_char a :: nat) mod 4 * 16 + of_char b div 16 < 64"
    "(of_char b :: nat) mod 16 * 4 < 64" "(of_char b :: nat) mod 16 * 4 + of_char c div 64 < 64"
    by linarith+
qed simp

lemma visible_equals: "visible CHR ''=''"
  by (simp add: visible_def)

lemma b64encode_visible: "list_all visible (b64encode bs)"
  by (induction bs rule: b64encode.induct)
    (simp_all add: Let_def b64_char_val(3) sextet_lt visible_equals)

lemma b64encode_no_comma: "CHR '','' \<notin> set (b64encode bs)"
proof -
  have "n < 64 \<Longrightarrow> b64_val (b64_char n) = Some n" for n using b64_char_val by blast
  moreover have "b64_val CHR '','' = None" by (simp add: b64_val_def)
  ultimately have n: "n < 64 \<Longrightarrow> b64_char n \<noteq> CHR '',''" for n by (metis option.distinct(1))
  show ?thesis by (induction bs rule: b64encode.induct) (auto simp: Let_def n sextet_lt dest: sym)
qed

lemma b64encode_nonempty: "0 < length bs \<Longrightarrow> b64encode bs \<noteq> []"
  by (cases bs rule: b64encode.cases) (simp_all add: Let_def)

lemma join_bits:
  fixes k m :: nat
  assumes "m < n"
  shows "(k * n + m) div n = k" "(k * n + m) mod n = m"
  using assms by simp_all

lemma sextet_join:
  "(of_char a :: nat) div 4 * 4 + (of_char a mod 4 * 16) div 16 = of_char a"
  "(of_char a :: nat) div 4 * 4 + (of_char a mod 4 * 16 + of_char b div 16) div 16 = of_char a"
  "((of_char a :: nat) mod 4 * 16 + of_char b div 16) mod 16 * 16 + (of_char b mod 16 * 4) div 4 = of_char b"
  "((of_char a :: nat) mod 4 * 16 + of_char b div 16) mod 16 * 16 + (of_char b mod 16 * 4 + of_char c div 64) div 4
     = of_char b"
  "((of_char b :: nat) mod 16 * 4 + of_char c div 64) mod 4 * 64 + of_char c mod 64 = of_char c"
proof -
  have b: "(of_char b :: nat) < 16 * 16" and c: "(of_char c :: nat) < 4 * 64"
    using of_char_less[of b] of_char_less[of c] by simp_all
  have lt: "(of_char b :: nat) div 16 < 16" "(of_char c :: nat) div 64 < 4"
    by (rule less_mult_imp_div_less[OF b], rule less_mult_imp_div_less[OF c])
  show "(of_char a :: nat) div 4 * 4 + (of_char a mod 4 * 16) div 16 = of_char a" by simp
  show "(of_char a :: nat) div 4 * 4 + (of_char a mod 4 * 16 + of_char b div 16) div 16 = of_char a"
    unfolding join_bits[OF lt(1)] by (rule div_mult_mod_eq)
  show "((of_char a :: nat) mod 4 * 16 + of_char b div 16) mod 16 * 16 + (of_char b mod 16 * 4) div 4
      = of_char b"
    unfolding join_bits[OF lt(1)] by simp
  show "((of_char a :: nat) mod 4 * 16 + of_char b div 16) mod 16 * 16
      + (of_char b mod 16 * 4 + of_char c div 64) div 4 = of_char b"
    unfolding join_bits[OF lt(1)] join_bits[OF lt(2)] by (rule div_mult_mod_eq)
  show "((of_char b :: nat) mod 16 * 4 + of_char c div 64) mod 4 * 64 + of_char c mod 64 = of_char c"
    unfolding join_bits[OF lt(2)] by (rule div_mult_mod_eq)
qed

text \<open>The decoder on one character of the alphabet, and on the padding.\<close>

lemma a2b_steps:
  assumes "v < 64"
  shows "a2b_base64 st 0 l p False (b64_char v # cs) = a2b_base64 st 1 v 0 False cs"
    "a2b_base64 st 1 l p False (b64_char v # cs) =
       map_option (Cons (char_of (l * 4 + v div 16))) (a2b_base64 st 2 (v mod 16) 0 False cs)"
    "a2b_base64 st 2 l p False (b64_char v # cs) =
       map_option (Cons (char_of (l * 16 + v div 4))) (a2b_base64 st 3 (v mod 4) 0 False cs)"
    "a2b_base64 st 3 l p False (b64_char v # cs) =
       map_option (Cons (char_of (l * 64 + v))) (a2b_base64 st 0 0 0 False cs)"
  using b64_char_val(1,2)[OF assms] by simp_all

lemma a2b_pads: "a2b_base64 st 3 l 0 False ''='' = Some []" "a2b_base64 st 2 l 0 False ''=='' = Some []"
  by simp_all

lemma a2b_b64encode: "a2b_base64 strict 0 0 0 False (b64encode bs) = Some bs"
proof (induction bs rule: b64encode.induct)
  case (4 a b c r)
  have "a2b_base64 strict 0 0 0 False (b64encode r) = Some r" using 4 by blast
  then show ?case
    by (simp only: b64encode.simps Let_def a2b_steps sextet_lt sextet_join char_of_char option.map)
next
  case 1
  then show ?case by simp
qed (simp_all only: b64encode.simps Let_def a2b_steps a2b_pads sextet_lt sextet_join char_of_char option.map)

lemma b64decode_encode [simp]: "b64decode strict (b64encode bs) = Some bs"
proof -
  have "list_all (\<lambda>c. (of_char c :: nat) < 128) (b64encode bs)"
    using b64encode_visible[of bs] by (auto simp: list_all_iff visible_def Let_def)
  then show ?thesis by (simp add: b64decode_def a2b_b64encode)
qed

subsection \<open>Reading little-endian fields\<close>

text \<open>\<open>struct.unpack_from("<H", data, at)[0]\<close> and \<open>"<I"\<close>: \<open>struct.error\<close> when the
  field runs past the end of the buffer.\<close>

fun le_val :: "bytes \<Rightarrow> nat" where
  "le_val [] = 0"
| "le_val (b # bs) = of_char b + 256 * le_val bs"

definition unpack_le :: "nat \<Rightarrow> bytes \<Rightarrow> nat \<Rightarrow> nat res" where
  "unpack_le n data at =
     (if length data < at + n then Inl StructErr else Inr (le_val (take n (drop at data))))"

lemma le_val_bound: "le_val bs < 256 ^ length bs"
proof (induction bs)
  case (Cons b bs)
  then have "256 * le_val bs + 256 \<le> 256 * 256 ^ length bs" by simp
  moreover have "(of_char b :: nat) < 256" by (rule of_char_less)
  ultimately have "of_char b + 256 * le_val bs < 256 * 256 ^ length bs" by linarith
  then show ?case by simp
qed simp

end
