(* ===== verification/Py_Float.thy ===== *)
theory Py_Float
  imports Py_Text Complex_Main
begin

text \<open>
  Python's \<open>float\<close>: IEEE double precision. A finite value is the rational it denotes
  (the sign of zero is not kept); every operation rounds its exact result to the nearest
  double, ties to even (\<open>fl\<close>). \<open>float_repr\<close> is the shortest decimal that reads
  back as the same double, in the notation of \<open>repr\<close>.
\<close>

datatype pyfloat = FFin rat | FInf | FNegInf | FNaN

fun nlog2 :: "nat \<Rightarrow> nat" where
  "nlog2 n = (if n < 2 then 0 else Suc (nlog2 (n div 2)))"

declare nlog2.simps [simp del]

definition pow2 :: "int \<Rightarrow> rat" where
  "pow2 e = (if 0 \<le> e then 2 ^ nat e else 1 / 2 ^ nat (- e))"

lemma pow2_code [code]: "pow2 e = (if 0 \<le> e then of_int (push_bit (nat e) 1) else 1 / of_int (push_bit (nat (- e)) 1))"
  by (simp add: pow2_def push_bit_eq_mult)

definition pow10 :: "int \<Rightarrow> rat" where
  "pow10 e = (if 0 \<le> e then 10 ^ nat e else 1 / 10 ^ nat (- e))"

definition ilog2 :: "rat \<Rightarrow> int" where
  "ilog2 r = (case quotient_of r of (a, b) \<Rightarrow>
     let e = int (nlog2 (nat a)) - int (nlog2 (nat b)) in if r < pow2 e then e - 1 else e)"

definition round_even :: "rat \<Rightarrow> int" where
  "round_even r = (let n = \<lfloor>r\<rfloor>; d = r - of_int n in
     if d < 1 / 2 then n else if 1 / 2 < d then n + 1 else if even n then n else n + 1)"

definition fl :: "rat \<Rightarrow> pyfloat" where
  "fl r = (if r = 0 then FFin 0 else
     let q = max (ilog2 \<bar>r\<bar> - 52) (- 1074);
       v = of_int (round_even (\<bar>r\<bar> / pow2 q)) * pow2 q in
     if pow2 1024 \<le> v then (if 0 < r then FInf else FNegInf)
     else FFin (if 0 < r then v else - v))"

definition isfinite :: "pyfloat \<Rightarrow> bool" where
  "isfinite x = (case x of FFin _ \<Rightarrow> True | _ \<Rightarrow> False)"

definition float_le :: "pyfloat \<Rightarrow> pyfloat \<Rightarrow> bool" where
  "float_le x y = (case (x, y) of
     (FNaN, _) \<Rightarrow> False | (_, FNaN) \<Rightarrow> False
   | (FNegInf, _) \<Rightarrow> True | (_, FInf) \<Rightarrow> True
   | (FFin a, FFin b) \<Rightarrow> a \<le> b
   | _ \<Rightarrow> False)"

definition float_eq :: "pyfloat \<Rightarrow> pyfloat \<Rightarrow> bool" where
  "float_eq x y \<longleftrightarrow> float_le x y \<and> float_le y x"

definition float_lt :: "pyfloat \<Rightarrow> pyfloat \<Rightarrow> bool" where
  "float_lt x y \<longleftrightarrow> float_le x y \<and> \<not> float_le y x"

subsection \<open>The shortest decimal\<close>

fun dec_exp :: "nat \<Rightarrow> rat \<Rightarrow> int \<Rightarrow> int" where
  "dec_exp 0 r e = e"
| "dec_exp (Suc n) r e =
     (if 10 \<le> r then dec_exp n (r / 10) (e + 1) else if r < 1 then dec_exp n (r * 10) (e - 1) else e)"

fun shortest :: "nat \<Rightarrow> nat \<Rightarrow> rat \<Rightarrow> int \<Rightarrow> int" where
  "shortest 0 n r e = round_even (r * pow10 (16 - e))"
| "shortest (Suc k) n r e =
     (let d = round_even (r * pow10 (int n - 1 - e)) in
      if fl (of_int d * pow10 (e - int n + 1)) = FFin r then d else shortest k (Suc n) r e)"

definition exp_str :: "int \<Rightarrow> string" where
  "exp_str e = (if e < 0 then ''-'' else ''+'') @ (if \<bar>e\<bar> < 10 then ''0'' else []) @ nat_str (nat \<bar>e\<bar>)"

definition float_repr :: "pyfloat \<Rightarrow> string" where
  "float_repr x = (case x of FNaN \<Rightarrow> ''nan'' | FInf \<Rightarrow> ''inf'' | FNegInf \<Rightarrow> ''-inf''
   | FFin r \<Rightarrow> if r = 0 then ''0.0'' else
       let a = \<bar>r\<bar>; e = dec_exp 400 a 0; ds = nat_str (nat (shortest 17 1 a e)); p = e + 1;
         body = (if p \<le> -4 \<or> 16 < p then
             take 1 ds @ (if length ds = 1 then [] else ''.'' @ drop 1 ds) @ ''e'' @ exp_str e
           else if p \<le> 0 then ''0.'' @ replicate (nat (- p)) (CHR ''0'') @ ds
           else if int (length ds) \<le> p then ds @ replicate (nat p - length ds) (CHR ''0'') @ ''.0''
           else take (nat p) ds @ ''.'' @ drop (nat p) ds)
       in (if r < 0 then ''-'' else []) @ body)"

end
