(* ===== verification/Py_Json.thy ===== *)
theory Py_Json
  imports Py_Codec Py_Float
begin

text \<open>
  JSON values as Python holds them after \<open>json.loads\<close>, the Python operations the code
  applies to them (subscript, \<open>set\<close>, \<open>len\<close>, \<open>==\<close>, \<open>re.fullmatch\<close>) with the
  exceptions they raise on the wrong type, \<open>json.dumps\<close> and \<open>json.loads\<close>.

  A dict is the list of its items in insertion order with distinct keys. Not modelled: the
  recursion limit of the C scanner.
\<close>

datatype json =
    JNull
  | JBool bool
  | JInt int
  | JFloat pyfloat
  | JStr string
  | JList "json list"
  | JObj "(string \<times> json) list"

subsection \<open>Python operations on dynamically typed values\<close>

definition is_str :: "json \<Rightarrow> bool" where
  "is_str v = (case v of JStr _ \<Rightarrow> True | _ \<Rightarrow> False)"

definition is_dict :: "json \<Rightarrow> bool" where
  "is_dict v = (case v of JObj _ \<Rightarrow> True | _ \<Rightarrow> False)"

definition is_list :: "json \<Rightarrow> bool" where
  "is_list v = (case v of JList _ \<Rightarrow> True | _ \<Rightarrow> False)"

text \<open>\<open>type(v) is int\<close>: a \<open>bool\<close> is not one.\<close>

definition is_int :: "json \<Rightarrow> bool" where
  "is_int v = (case v of JInt _ \<Rightarrow> True | _ \<Rightarrow> False)"

definition hashable :: "json \<Rightarrow> bool" where
  "hashable v = (case v of JList _ \<Rightarrow> False | JObj _ \<Rightarrow> False | _ \<Rightarrow> True)"

text \<open>\<open>d[k]\<close> with a text key\<close>

definition item :: "json \<Rightarrow> string \<Rightarrow> json res" where
  "item v k = (case v of JObj kvs \<Rightarrow> of_option (KeyErr k) (map_of kvs k) | _ \<Rightarrow> Inl TypeErr)"

text \<open>\<open>d.get(k)\<close>; \<open>AttributeError\<close> on anything but a dict\<close>

definition dget :: "json \<Rightarrow> string \<Rightarrow> json res" where
  "dget v k = (case v of
     JObj kvs \<Rightarrow> Inr (case map_of kvs k of None \<Rightarrow> JNull | Some x \<Rightarrow> x) | _ \<Rightarrow> Inl AttributeErr)"

text \<open>A value where the code needs a text: anything else raises \<open>TypeError\<close>.\<close>

definition str_of :: "json \<Rightarrow> string res" where
  "str_of v = (case v of JStr s \<Rightarrow> Inr s | _ \<Rightarrow> Inl TypeErr)"

text \<open>The elements of \<open>set(v)\<close>, with repetitions\<close>

fun chars_of :: "nat \<Rightarrow> string \<Rightarrow> string list" where
  "chars_of 0 s = []"
| "chars_of (Suc n) s = (if s = [] then [] else py_take 1 s # chars_of n (drop (length (py_take 1 s)) s))"

definition set_of :: "json \<Rightarrow> json list res" where
  "set_of v = (case v of
     JObj kvs \<Rightarrow> Inr (map (JStr \<circ> fst) kvs)
   | JList vs \<Rightarrow> if list_all hashable vs then Inr vs else Inl TypeErr
   | JStr s \<Rightarrow> Inr (map JStr (chars_of (length s) s))
   | _ \<Rightarrow> Inl TypeErr)"

text \<open>\<open>set(v) == {k1, ...}\<close> for a set of text keys\<close>

definition same_keys :: "string list \<Rightarrow> json list \<Rightarrow> bool" where
  "same_keys ks vs \<longleftrightarrow> list_all (\<lambda>v. v \<in> JStr ` set ks) vs \<and> list_all (\<lambda>k. JStr k \<in> set vs) ks"

definition len_of :: "json \<Rightarrow> nat res" where
  "len_of v = (case v of JStr s \<Rightarrow> Inr (py_len s) | JList vs \<Rightarrow> Inr (length vs)
     | JObj kvs \<Rightarrow> Inr (length kvs) | _ \<Rightarrow> Inl TypeErr)"

text \<open>\<open>re.fullmatch(r, v)\<close>\<close>

definition fullmatch_of :: "rx \<Rightarrow> json \<Rightarrow> bool res" where
  "fullmatch_of r v = (case v of JStr s \<Rightarrow> Inr (fullmatch r s) | _ \<Rightarrow> Inl TypeErr)"

text \<open>\<open>v in {s1, ...}\<close> for a set of texts\<close>

definition in_strs :: "string list \<Rightarrow> json \<Rightarrow> bool res" where
  "in_strs ss v = (if hashable v then Inr (v \<in> JStr ` set ss) else Inl TypeErr)"

text \<open>\<open>==\<close>: numbers compare by value whatever their type, dicts without order.\<close>

definition num_of :: "json \<Rightarrow> pyfloat option" where
  "num_of v = (case v of JBool b \<Rightarrow> Some (FFin (if b then 1 else 0)) | JInt i \<Rightarrow> Some (FFin (of_int i))
     | JFloat x \<Rightarrow> Some x | _ \<Rightarrow> None)"

fun py_eq :: "json \<Rightarrow> json \<Rightarrow> bool" where
  "py_eq (JObj a) (JObj b) \<longleftrightarrow> length a = length b \<and>
     (\<forall>(k, v) \<in> set a. case map_of b k of None \<Rightarrow> False | Some w \<Rightarrow> py_eq v w)"
| "py_eq (JList a) (JList b) \<longleftrightarrow> list_all2 py_eq a b"
| "py_eq (JStr a) (JStr b) \<longleftrightarrow> a = b"
| "py_eq JNull JNull \<longleftrightarrow> True"
| "py_eq x y \<longleftrightarrow> (case (num_of x, num_of y) of (Some a, Some b) \<Rightarrow> float_eq a b | _ \<Rightarrow> False)"

text \<open>Truth of a JSON value\<close>

definition truthy :: "json \<Rightarrow> bool" where
  "truthy v = (case v of JNull \<Rightarrow> False | JBool b \<Rightarrow> b | JInt i \<Rightarrow> i \<noteq> 0 | JFloat x \<Rightarrow> \<not> float_eq x (FFin 0)
     | JStr s \<Rightarrow> s \<noteq> [] | JList vs \<Rightarrow> vs \<noteq> [] | JObj kvs \<Rightarrow> kvs \<noteq> [])"

text \<open>The number of distinct elements: \<open>len(set(vs))\<close>\<close>

fun distinct_count :: "json list \<Rightarrow> nat" where
  "distinct_count [] = 0"
| "distinct_count (v # vs) = (if list_ex (py_eq v) vs then 0 else 1) + distinct_count vs"

subsection \<open>Facts about them\<close>

lemma item_obj: "item (JObj kvs) k = of_option (KeyErr k) (map_of kvs k)"
  by (simp add: item_def)

lemma item_ok: "item v k = Inr x \<longleftrightarrow> (\<exists>kvs. v = JObj kvs \<and> map_of kvs k = Some x)"
  by (cases v) (auto simp: item_def ok_iff)

lemma py_eq_str: "py_eq x (JStr s) \<longleftrightarrow> x = JStr s"
  by (cases x) (auto simp: num_of_def)

lemma py_eq_str_left: "py_eq (JStr s) y \<longleftrightarrow> y = JStr s"
  by (cases y) (auto simp: num_of_def)

lemma py_eq_int [simp]: "py_eq (JInt j) (JInt i) \<longleftrightarrow> j = i"
  by (auto simp: num_of_def float_eq_def float_le_def)

declare py_eq.simps [simp del]

declare py_eq.simps(1-4) [simp]

lemma distinct_count_strs: "distinct_count (map JStr ss) = length ss \<longleftrightarrow> distinct ss"
proof -
  have le: "distinct_count vs \<le> length vs" for vs by (induction vs) auto
  show ?thesis
  proof (induction ss)
    case (Cons s ss)
    have "list_ex (py_eq (JStr s)) (map JStr ss) \<longleftrightarrow> s \<in> set ss" by (auto simp: list_ex_iff)
    then show ?case using Cons le[of "map JStr ss"] by auto
  qed simp
qed


lemma is_int_iff: "is_int x \<longleftrightarrow> (\<exists>i. x = JInt i)"
  by (cases x) (auto simp: is_int_def)

lemma fullmatch_of_ok: "fullmatch_of r x = Inr b \<longleftrightarrow> (\<exists>s. x = JStr s \<and> fullmatch r s = b)"
  by (cases x) (auto simp: fullmatch_of_def)

lemma in_strs_ok: "in_strs ss x = Inr True \<longleftrightarrow> (\<exists>s. x = JStr s \<and> s \<in> set ss)"
  by (cases x) (auto simp: in_strs_def hashable_def)

subsection \<open>Dicts\<close>

text \<open>The dict that \<open>json.loads\<close> builds: the last value of a repeated key, at its first place.\<close>

fun dict_put :: "string \<Rightarrow> json \<Rightarrow> (string \<times> json) list \<Rightarrow> (string \<times> json) list" where
  "dict_put k v [] = [(k, v)]"
| "dict_put k v ((k', v') # r) = (if k = k' then (k, v) # r else (k', v') # dict_put k v r)"

definition dict_of :: "(string \<times> json) list \<Rightarrow> (string \<times> json) list" where
  "dict_of ps = foldl (\<lambda>d (k, v). dict_put k v d) [] ps"

lemma map_of_dict_put: "map_of (dict_put k v d) = (map_of d)(k \<mapsto> v)"
  by (induction d) (auto simp: fun_eq_iff)

lemma dict_put_subset: "set (dict_put k v d) \<subseteq> insert (k, v) (set d)"
  by (induction k v d rule: dict_put.induct) auto

lemma fst_dict_put: "fst ` set (dict_put k v d) = insert k (fst ` set d)"
  by (induction k v d rule: dict_put.induct) (simp_all add: insert_commute)

lemma distinct_dict_put: "distinct (map fst d) \<Longrightarrow> distinct (map fst (dict_put k v d))"
  by (induction d) (auto simp: fst_dict_put)

text \<open>The dict contract that the callers rely on.\<close>

locale dict_ops =
  fixes put :: "'k \<Rightarrow> 'v \<Rightarrow> 'd \<Rightarrow> 'd" and get :: "'d \<Rightarrow> 'k \<Rightarrow> 'v option"
    and ok :: "'d \<Rightarrow> bool" and empty :: 'd
  assumes get_empty: "get empty k = None"
    and get_put: "ok d \<Longrightarrow> get (put k v d) k' = (if k' = k then Some v else get d k')"
    and ok_empty: "ok empty"
    and ok_put: "ok d \<Longrightarrow> ok (put k v d)"
begin

definition puts :: "('k \<times> 'v) list \<Rightarrow> 'd \<Rightarrow> 'd" where
  "puts ps d = foldl (\<lambda>d (k, v). put k v d) d ps"

lemma ok_puts: "ok d \<Longrightarrow> ok (puts ps d)"
  by (induction ps arbitrary: d) (auto simp: puts_def ok_put)

lemma get_puts: "ok d \<Longrightarrow> get (puts ps d) k = (case map_of (rev ps) k of None \<Rightarrow> get d k | Some v \<Rightarrow> Some v)"
proof (induction ps arbitrary: d)
  case (Cons p ps)
  obtain k' v where p: "p = (k', v)" by (cases p)
  have "get (puts (p # ps) d) k = get (puts ps (put k' v d)) k"
    by (simp add: p puts_def)
  also have "\<dots> = (case map_of (rev ps) k of None \<Rightarrow> get (put k' v d) k | Some w \<Rightarrow> Some w)"
    using Cons ok_put by blast
  finally show ?case
    using Cons.prems by (auto simp: p get_put map_add_def split: option.splits)
qed (simp add: puts_def)

end

interpretation jd: dict_ops dict_put map_of "\<lambda>d. distinct (map fst d)" "[]"
  by unfold_locales (auto simp: map_of_dict_put distinct_dict_put)

lemma dict_of_puts: "dict_of ps = jd.puts ps []"
  by (simp add: dict_of_def jd.puts_def)

lemma dict_of_distinct: "distinct (map fst (dict_of ps))"
  by (simp add: dict_of_puts jd.ok_puts)

lemma dict_of_get: "map_of (dict_of ps) k = map_of (rev ps) k"
  by (simp add: dict_of_puts jd.get_puts split: option.splits)

lemma dict_of_id: "distinct (map fst ps) \<Longrightarrow> dict_of ps = ps"
proof -
  have put_new: "k \<notin> fst ` set d \<Longrightarrow> dict_put k v d = d @ [(k, v)]" for k v d
    by (induction d) auto
  have "distinct (map fst d @ map fst ps) \<Longrightarrow> foldl (\<lambda>d (k, v). dict_put k v d) d ps = d @ ps" for d
    by (induction ps arbitrary: d) (auto simp: put_new)
  from this[of "[]"] show "distinct (map fst ps) \<Longrightarrow> dict_of ps = ps" by (simp add: dict_of_def)
qed

end
