(* ===== verification/Py_JsonText.thy ===== *)
theory Py_JsonText
  imports Py_Json
begin

text \<open>
  \<open>json.dumps\<close> (with \<open>ensure_ascii=False\<close>) and \<open>json.loads\<close>, and the round trip:
  a value without floats and with integers within Python's digit limit is read back as it
  was written.
\<close>

subsection \<open>Writing\<close>

definition json_esc :: "char \<Rightarrow> string" where
  "json_esc c =
     (if c = CHR 0x22 then [CHR 0x5C, CHR 0x22]
      else if c = CHR 0x5C then [CHR 0x5C, CHR 0x5C]
      else if c = CHR 0x0A then [CHR 0x5C, CHR ''n'']
      else if c = CHR 0x0D then [CHR 0x5C, CHR ''r'']
      else if c = CHR 0x09 then [CHR 0x5C, CHR ''t'']
      else if c = CHR 0x08 then [CHR 0x5C, CHR ''b'']
      else if c = CHR 0x0C then [CHR 0x5C, CHR ''f'']
      else if (of_char c :: nat) < 32 then
        CHR 0x5C # ''u00'' @ [nibble (of_char c div 16), nibble (of_char c mod 16)]
      else [c])"

definition json_quote :: "string \<Rightarrow> string" where
  "json_quote s = CHR 0x22 # concat (map json_esc s) @ [CHR 0x22]"

text \<open>\<open>sep\<close> and \<open>ksep\<close> are the item and the key separator.\<close>

fun dumps :: "string \<Rightarrow> string \<Rightarrow> json \<Rightarrow> string" where
  "dumps sep ksep JNull = ''null''"
| "dumps sep ksep (JBool b) = (if b then ''true'' else ''false'')"
| "dumps sep ksep (JInt i) = str_int i"
| "dumps sep ksep (JFloat x) = (case x of FNaN \<Rightarrow> ''NaN'' | FInf \<Rightarrow> ''Infinity'' | FNegInf \<Rightarrow> ''-Infinity''
     | FFin _ \<Rightarrow> float_repr x)"
| "dumps sep ksep (JStr s) = json_quote s"
| "dumps sep ksep (JList vs) = ''['' @ join sep (map (dumps sep ksep) vs) @ '']''"
| "dumps sep ksep (JObj kvs) =
     ''{'' @ join sep (map (\<lambda>(k, v). json_quote k @ ksep @ dumps sep ksep v) kvs) @ ''}''"

abbreviation "dumps_compact \<equiv> dumps '','' '':''"

abbreviation "dumps_default \<equiv> dumps '', '' '': ''"

text \<open>\<open>sort_keys=True\<close>\<close>

fun sort_json :: "json \<Rightarrow> json" where
  "sort_json (JList vs) = JList (map sort_json vs)"
| "sort_json (JObj kvs) = JObj (sort_key fst (map (\<lambda>(k, v). (k, sort_json v)) kvs))"
| "sort_json v = v"

subsection \<open>Reading\<close>

definition hex_val :: "char \<Rightarrow> nat option" where
  "hex_val c = (let n = of_char c :: nat in
     if 48 \<le> n \<and> n \<le> 57 then Some (n - 48)
     else if 97 \<le> n \<and> n \<le> 102 then Some (n - 87)
     else if 65 \<le> n \<and> n \<le> 70 then Some (n - 55) else None)"

fun hex4 :: "string \<Rightarrow> (nat \<times> string) option" where
  "hex4 (a # b # c # d # r) = (case (hex_val a, hex_val b, hex_val c, hex_val d) of
     (Some w, Some x, Some y, Some z) \<Rightarrow> Some (w * 4096 + x * 256 + y * 16 + z, r) | _ \<Rightarrow> None)"
| "hex4 _ = None"

definition utf8_enc :: "nat \<Rightarrow> bytes" where
  "utf8_enc n =
     (if n < 128 then [char_of n]
      else if n < 2048 then [char_of (192 + n div 64), char_of (128 + n mod 64)]
      else if n < 65536 then
        [char_of (224 + n div 4096), char_of (128 + n div 64 mod 64), char_of (128 + n mod 64)]
      else [char_of (240 + n div 262144), char_of (128 + n div 4096 mod 64),
        char_of (128 + n div 64 mod 64), char_of (128 + n mod 64)])"

text \<open>The character after \<open>\u\<close>; two escapes that form a surrogate pair are one character.\<close>

definition u_escape :: "string \<Rightarrow> (bytes \<times> string) option" where
  "u_escape s = (case hex4 s of None \<Rightarrow> None | Some (n, r) \<Rightarrow>
     if 0xD800 \<le> n \<and> n \<le> 0xDBFF \<and> startswith r [CHR 0x5C, CHR ''u''] then
       (case hex4 (drop 2 r) of
          Some (m, r') \<Rightarrow> if 0xDC00 \<le> m \<and> m \<le> 0xDFFF
            then Some (utf8_enc (0x10000 + (n - 0xD800) * 1024 + (m - 0xDC00)), r')
            else Some (utf8_enc n, r)
        | None \<Rightarrow> None)
     else Some (utf8_enc n, r))"

definition esc_char :: "char \<Rightarrow> char option" where
  "esc_char e = map_of [(CHR 0x22, CHR 0x22), (CHR 0x5C, CHR 0x5C), (CHR ''/'', CHR ''/''),
     (CHR ''b'', CHR 0x08), (CHR ''f'', CHR 0x0C), (CHR ''n'', CHR 0x0A), (CHR ''r'', CHR 0x0D),
     (CHR ''t'', CHR 0x09)] e"

lemma hex4_length: "hex4 s = Some (n, r) \<Longrightarrow> length r < length s"
  by (cases s rule: hex4.cases) (auto split: option.splits)

lemma u_escape_length: "u_escape s = Some (b, r) \<Longrightarrow> length r < length s"
  by (auto simp: u_escape_def dest!: hex4_length split: option.splits if_splits prod.splits)

text \<open>The rest of a string literal, after its opening quote\<close>

function scan_chars :: "string \<Rightarrow> (string \<times> string) option" where
  "scan_chars s = (case s of [] \<Rightarrow> None | c # cs \<Rightarrow>
     if c = CHR 0x22 then Some ([], cs)
     else if c = CHR 0x5C then
       (case cs of [] \<Rightarrow> None | e # es \<Rightarrow>
          if e = CHR ''u'' then
            (case u_escape es of None \<Rightarrow> None
             | Some (b, r) \<Rightarrow> map_option (\<lambda>(t, q). (b @ t, q)) (scan_chars r))
          else (case esc_char e of None \<Rightarrow> None
             | Some d \<Rightarrow> map_option (\<lambda>(t, q). (d # t, q)) (scan_chars es)))
     else if (of_char c :: nat) < 32 then None
     else map_option (\<lambda>(t, q). (c # t, q)) (scan_chars cs))"
  by pat_completeness auto
termination
  by (relation "measure length") (auto dest: u_escape_length)

declare scan_chars.simps [simp del]

text \<open>\<open>(-?(?:0|[1-9][0-9]*))(\.[0-9]+)?([eE][-+]?[0-9]+)?\<close>: an \<open>int\<close>, refused beyond 4300
  digits, or a \<open>float\<close>.\<close>

definition frac_part :: "string \<Rightarrow> string \<times> string" where
  "frac_part r = (case r of c # cs \<Rightarrow>
     if c = CHR ''.'' \<and> takeWhile is_digit cs \<noteq> []
     then (takeWhile is_digit cs, dropWhile is_digit cs) else ([], r) | [] \<Rightarrow> ([], r))"

definition exp_part :: "string \<Rightarrow> int option \<times> string" where
  "exp_part r = (case r of c # cs \<Rightarrow>
     if c \<in> {CHR ''e'', CHR ''E''} then
       (let neg = startswith cs ''-'';
          ds = (if neg \<or> startswith cs ''+'' then drop 1 cs else cs) in
        if takeWhile is_digit ds = [] then (None, r)
        else (Some (if neg then - int (digits_val (takeWhile is_digit ds))
                    else int (digits_val (takeWhile is_digit ds))), dropWhile is_digit ds))
     else (None, r) | [] \<Rightarrow> (None, r))"

definition lead_digits :: "string \<Rightarrow> string" where
  "lead_digits u = (if startswith u ''0'' then ''0'' else takeWhile is_digit u)"

definition scan_number :: "string \<Rightarrow> (json \<times> string) option" where
  "scan_number s =
     (let neg = startswith s ''-''; u = (if neg then drop 1 s else s);
        ds = lead_digits u;
        (fr, r1) = frac_part (drop (length ds) u); (ex, r2) = exp_part r1;
        sg = (if neg then - 1 else 1 :: int) in
      if ds = [] then None
      else if fr = [] \<and> ex = None then
        (if 4300 < length ds then None else Some (JInt (sg * int (digits_val ds)), r2))
      else Some (JFloat (fl (of_int (sg * int (digits_val (ds @ fr)))
             * pow10 ((case ex of None \<Rightarrow> 0 | Some e \<Rightarrow> e) - int (length fr)))), r2))"

definition json_ws :: "char \<Rightarrow> bool" where
  "json_ws c \<longleftrightarrow> c \<in> {CHR '' '', CHR 0x09, CHR 0x0A, CHR 0x0D}"

definition skip_ws :: "string \<Rightarrow> string" where
  "skip_ws s = dropWhile json_ws s"

definition scan_const :: "string \<Rightarrow> (json \<times> string) option" where
  "scan_const s =
     (if startswith s ''null'' then Some (JNull, drop 4 s)
      else if startswith s ''true'' then Some (JBool True, drop 4 s)
      else if startswith s ''false'' then Some (JBool False, drop 5 s)
      else if startswith s ''NaN'' then Some (JFloat FNaN, drop 3 s)
      else if startswith s ''Infinity'' then Some (JFloat FInf, drop 8 s)
      else if startswith s ''-Infinity'' then Some (JFloat FNegInf, drop 9 s)
      else scan_number s)"

text \<open>Every nested call spends one unit; the length of the text is enough for all of them.\<close>

fun scan_value :: "nat \<Rightarrow> string \<Rightarrow> (json \<times> string) option"
  and scan_items :: "nat \<Rightarrow> string \<Rightarrow> (json list \<times> string) option"
  and scan_members :: "nat \<Rightarrow> string \<Rightarrow> ((string \<times> json) list \<times> string) option" where
  "scan_value 0 s = None"
| "scan_value (Suc n) s = (case s of [] \<Rightarrow> None | c # cs \<Rightarrow>
     if c = CHR 0x22 then map_option (\<lambda>(t, r). (JStr t, r)) (scan_chars cs)
     else if c = CHR ''['' then
       (if startswith (skip_ws cs) '']'' then Some (JList [], drop 1 (skip_ws cs))
        else map_option (\<lambda>(vs, r). (JList vs, r)) (scan_items n (skip_ws cs)))
     else if c = CHR ''{'' then
       (if startswith (skip_ws cs) ''}'' then Some (JObj [], drop 1 (skip_ws cs))
        else map_option (\<lambda>(kvs, r). (JObj kvs, r)) (scan_members n (skip_ws cs)))
     else scan_const s)"
| "scan_items 0 s = None"
| "scan_items (Suc n) s = (case scan_value n s of None \<Rightarrow> None | Some (v, r) \<Rightarrow>
     (case skip_ws r of [] \<Rightarrow> None | c # cs \<Rightarrow>
        if c = CHR '']'' then Some ([v], cs)
        else if c = CHR '','' then map_option (\<lambda>(vs, q). (v # vs, q)) (scan_items n (skip_ws cs))
        else None))"
| "scan_members 0 s = None"
| "scan_members (Suc n) s = (case s of [] \<Rightarrow> None | c # cs \<Rightarrow>
     if c \<noteq> CHR 0x22 then None
     else (case scan_chars cs of None \<Rightarrow> None | Some (k, r) \<Rightarrow>
       (case skip_ws r of [] \<Rightarrow> None | c1 # cs1 \<Rightarrow>
          if c1 \<noteq> CHR '':'' then None
          else (case scan_value n (skip_ws cs1) of None \<Rightarrow> None | Some (v, r2) \<Rightarrow>
            (case skip_ws r2 of [] \<Rightarrow> None | d # ds \<Rightarrow>
               if d = CHR ''}'' then Some ([(k, v)], ds)
               else if d = CHR '','' then
                 map_option (\<lambda>(kvs, q). ((k, v) # kvs, q)) (scan_members n (skip_ws ds))
               else None)))))"

text \<open>The value as written, objects with all their pairs\<close>

definition parse_json :: "string \<Rightarrow> json option" where
  "parse_json s = (case scan_value (Suc (length s)) (skip_ws s) of
     None \<Rightarrow> None | Some (v, r) \<Rightarrow> if skip_ws r = [] then Some v else None)"

fun dictify :: "json \<Rightarrow> json" where
  "dictify (JList vs) = JList (map dictify vs)"
| "dictify (JObj kvs) = JObj (dict_of (map (\<lambda>(k, v). (k, dictify v)) kvs))"
| "dictify v = v"

text \<open>\<open>json.loads(text)\<close>\<close>

definition json_loads :: "string \<Rightarrow> json res" where
  "json_loads s = of_option (ValueErr ''JSONDecodeError'') (map_option dictify (parse_json s))"


subsection \<open>Strings and numbers are read back\<close>

lemma nibble_val: "n < 16 \<Longrightarrow> hex_val (nibble n) = Some n"
  unfolding nibble_def hex_val_def by (subst of_char_of_small) (auto simp: Let_def)

lemma hex_val_zero: "hex_val CHR ''0'' = Some 0"
  by (simp add: hex_val_def)

lemma low_escape:
  assumes "(of_char c :: nat) < 32"
  shows "u_escape (''00'' @ nibble (of_char c div 16) # nibble (of_char c mod 16) # t) = Some ([c], t)"
proof -
  have "(of_char c :: nat) div 16 < 16" using assms by simp
  then have "hex4 (''00'' @ nibble (of_char c div 16) # nibble (of_char c mod 16) # t) =
      Some (of_char c div 16 * 16 + of_char c mod 16, t)"
    by (simp add: nibble_val hex_val_zero)
  then have "hex4 (''00'' @ nibble (of_char c div 16) # nibble (of_char c mod 16) # t) = Some (of_char c, t)"
    by (simp only: div_mult_mod_eq)
  then show ?thesis using assms by (simp add: u_escape_def utf8_enc_def del: hex4.simps)
qed

lemma scan_esc: "scan_chars (json_esc c @ t) = map_option (\<lambda>(u, q). (c # u, q)) (scan_chars t)"
proof -
  consider "c \<in> {CHR 0x22, CHR 0x5C, CHR 0x0A, CHR 0x0D, CHR 0x09, CHR 0x08, CHR 0x0C}"
    | "c \<notin> {CHR 0x22, CHR 0x5C, CHR 0x0A, CHR 0x0D, CHR 0x09, CHR 0x08, CHR 0x0C}" "(of_char c :: nat) < 32"
    | "c \<notin> {CHR 0x22, CHR 0x5C, CHR 0x0A, CHR 0x0D, CHR 0x09, CHR 0x08, CHR 0x0C}" "\<not> (of_char c :: nat) < 32"
    by blast
  then show ?thesis
  proof cases
    case 1
    then show ?thesis
      by (subst scan_chars.simps) (auto simp: json_esc_def esc_char_def)
  next
    case 2
    then have e: "json_esc c @ t = CHR 0x5C # CHR ''u'' # ''00'' @
        nibble (of_char c div 16) # nibble (of_char c mod 16) # t"
      by (simp add: json_esc_def)
    show ?thesis unfolding e
      by (subst scan_chars.simps) (simp add: low_escape[OF 2(2), simplified])
  next
    case 3
    then have "json_esc c @ t = c # t" by (simp add: json_esc_def)
    then show ?thesis using 3 by (subst scan_chars.simps) simp
  qed
qed

lemma scan_quoted: "scan_chars (concat (map json_esc s) @ CHR 0x22 # r) = Some (s, r)"
proof (induction s)
  case Nil
  show ?case by (simp add: scan_chars.simps)
next
  case (Cons c s)
  then show ?case by (simp add: scan_esc)
qed

text \<open>What may follow a number\<close>

definition number_end :: "string \<Rightarrow> bool" where
  "number_end r \<longleftrightarrow> r = [] \<or> \<not> is_digit (hd r) \<and> hd r \<notin> {CHR ''.'', CHR ''e'', CHR ''E''}"

lemma takeWhile_digits: "list_all is_digit ds \<Longrightarrow> number_end r \<Longrightarrow> takeWhile is_digit (ds @ r) = ds"
  by (cases r) (auto simp: number_end_def list_all_iff takeWhile_append)

lemma number_end_parts: "number_end r \<Longrightarrow> frac_part r = ([], r) \<and> exp_part r = (None, r)"
  by (cases r) (auto simp: number_end_def frac_part_def exp_part_def)

lemma nat_str_zero: "startswith (nat_str n @ r) ''0'' \<Longrightarrow> nat_str n = ''0''"
proof -
  assume a: "startswith (nat_str n @ r) ''0''"
  obtain c cs where c: "nat_str n = c # cs" using nat_str_ok[of n] by (cases "nat_str n") auto
  with a have "c = CHR ''0''" by (simp add: startswith_def)
  then have "n = 0" using nat_str_lead0[of n] c by (cases "n = 0") auto
  then show ?thesis by (simp add: nat_str.simps digit_char_def char_of_eq_iff)
qed

lemma nat_str_no_minus: "\<not> startswith (nat_str n @ r) ''-''"
proof -
  obtain c cs where c: "nat_str n = c # cs" using nat_str_ok[of n] by (cases "nat_str n") auto
  then have "is_digit c" using nat_str_ok[of n] by simp
  then show ?thesis by (auto simp: c startswith_def is_digit_def)
qed

lemma scan_number_nat:
  assumes "number_end r" "length (nat_str n) \<le> 4300"
  shows "scan_number (nat_str n @ r) = Some (JInt (int n), r)"
    and "scan_number (CHR ''-'' # nat_str n @ r) = Some (JInt (- int n), r)"
proof -
  have d: "list_all is_digit (nat_str n)" "nat_str n \<noteq> []" "digits_val (nat_str n) = n"
    using nat_str_ok by auto
  have ds: "lead_digits (nat_str n @ r) = nat_str n"
    using nat_str_zero[of n r] takeWhile_digits[OF d(1) assms(1)] by (auto simp: lead_digits_def)
  show "scan_number (nat_str n @ r) = Some (JInt (int n), r)"
    using d assms(2) nat_str_no_minus[of n r] number_end_parts[OF assms(1)]
    by (simp add: scan_number_def ds Let_def)
  show "scan_number (CHR ''-'' # nat_str n @ r) = Some (JInt (- int n), r)"
    using d assms(2) number_end_parts[OF assms(1)]
    by (simp add: scan_number_def ds Let_def startswith_def[of "CHR ''-'' # _"])
qed

lemma scan_const_digit:
  assumes "is_digit (hd ds)" "ds \<noteq> []"
  shows "scan_const (ds @ r) = scan_number (ds @ r)"
    and "scan_const (CHR ''-'' # ds @ r) = scan_number (CHR ''-'' # ds @ r)"
proof -
  obtain c cs where c: "ds = c # cs" using assms by (cases ds) auto
  have n: "\<not> is_digit CHR ''n''" "\<not> is_digit CHR ''t''" "\<not> is_digit CHR ''f''" "\<not> is_digit CHR ''N''"
    "\<not> is_digit CHR ''I''" "\<not> is_digit CHR ''-''" by (simp_all add: is_digit_def)
  then have ne: "c \<noteq> CHR ''n''" "c \<noteq> CHR ''t''" "c \<noteq> CHR ''f''" "c \<noteq> CHR ''N''" "c \<noteq> CHR ''I''" "c \<noteq> CHR ''-''"
    using assms c by auto
  show "scan_const (ds @ r) = scan_number (ds @ r)"
    using ne by (simp add: scan_const_def c startswith_def)
  show "scan_const (CHR ''-'' # ds @ r) = scan_number (CHR ''-'' # ds @ r)"
    using ne by (simp add: scan_const_def c startswith_def)
qed

lemma scan_int:
  assumes "number_end r" "length (nat_str (nat \<bar>i\<bar>)) \<le> 4300"
  shows "scan_value (Suc m) (str_int i @ r) = Some (JInt i, r)"
proof -
  let ?ds = "nat_str (nat \<bar>i\<bar>)"
  obtain c cs where c: "?ds = c # cs" using nat_str_ok[of "nat \<bar>i\<bar>"] by (cases ?ds) auto
  then have dc: "is_digit c" using nat_str_ok[of "nat \<bar>i\<bar>"] by simp
  have "\<not> is_digit CHR 0x22" "\<not> is_digit CHR ''[''" "\<not> is_digit CHR ''{''" by (simp_all add: is_digit_def)
  with dc have ne: "c \<noteq> CHR 0x22" "c \<noteq> CHR ''[''" "c \<noteq> CHR ''{''" by auto
  show ?thesis
  proof (cases "i < 0")
    case True
    then have s: "str_int i = CHR ''-'' # ?ds" by (simp add: str_int_def)
    have "scan_value (Suc m) (str_int i @ r) = scan_const (CHR ''-'' # ?ds @ r)"
      by (simp add: s)
    also have "\<dots> = Some (JInt i, r)"
      using scan_const_digit(2)[of ?ds r] scan_number_nat(2)[OF assms] dc c True by simp
    finally show ?thesis .
  next
    case False
    then have s: "str_int i = ?ds" by (simp add: str_int_def)
    have "scan_value (Suc m) (str_int i @ r) = scan_const (?ds @ r)"
      using ne by (simp add: s c)
    also have "\<dots> = Some (JInt i, r)"
      using scan_const_digit(1)[of ?ds r] scan_number_nat(1)[OF assms] dc c False by simp
    finally show ?thesis .
  qed
qed


subsection \<open>Whole values are read back\<close>

fun writable :: "json \<Rightarrow> bool" where
  "writable (JInt i) \<longleftrightarrow> length (nat_str (nat \<bar>i\<bar>)) \<le> 4300"
| "writable (JFloat x) \<longleftrightarrow> False"
| "writable (JList vs) \<longleftrightarrow> list_all writable vs"
| "writable (JObj kvs) \<longleftrightarrow> list_all (\<lambda>(k, v). writable v) kvs"
| "writable v \<longleftrightarrow> True"

fun cost :: "json \<Rightarrow> nat" where
  "cost (JList vs) = Suc (sum_list (map (\<lambda>v. Suc (cost v)) vs))"
| "cost (JObj kvs) = Suc (sum_list (map (\<lambda>(k, v). Suc (cost v)) kvs))"
| "cost v = 1"

definition json_seps :: "string \<Rightarrow> string \<Rightarrow> bool" where
  "json_seps sep ksep \<longleftrightarrow> (\<exists>w w'. sep = CHR '','' # w \<and> ksep = CHR '':'' # w' \<and>
     list_all json_ws w \<and> list_all json_ws w')"

lemma json_seps_compact: "json_seps '','' '':''" "json_seps '', '' '': ''"
  by (auto simp: json_seps_def json_ws_def)

lemma skip_ws_append: "list_all json_ws w \<Longrightarrow> skip_ws (w @ r) = skip_ws r"
  by (auto simp: skip_ws_def list_all_iff dropWhile_append2)

lemma skip_ws_head: "\<not> json_ws c \<Longrightarrow> skip_ws (c # cs) = c # cs"
  by (simp add: skip_ws_def)

lemma not_ws: "\<not> json_ws CHR '']''" "\<not> json_ws CHR ''}''" "\<not> json_ws CHR '',''" "\<not> json_ws CHR '':''"
  "\<not> json_ws CHR 0x22" "\<not> json_ws CHR ''[''" "\<not> json_ws CHR ''{''"
  by (simp_all add: json_ws_def)

lemma number_ends: "number_end (CHR '','' # r)" "number_end (CHR '']'' # r)" "number_end (CHR ''}'' # r)" "number_end []"
  by (simp_all add: number_end_def is_digit_def)

lemma dumps_head: "writable v \<Longrightarrow> \<exists>c t. dumps sep ksep v = c # t \<and> \<not> json_ws c \<and> c \<noteq> CHR '']''"
proof (cases v)
  case (JInt i)
  have n: "\<not> is_digit CHR '']''" "\<And>c. is_digit c \<Longrightarrow> \<not> json_ws c"
    by (auto simp: is_digit_def json_ws_def)
  obtain c cs where c: "nat_str (nat i) = c # cs" "is_digit c"
    using nat_str_ok[of "nat i"] by (cases "nat_str (nat i)") auto
  show ?thesis using JInt c n by (auto simp: str_int_def json_ws_def)
qed (auto simp: json_quote_def json_ws_def)

lemma items_head:
  assumes "list_all writable (v # vs)"
  shows "\<not> startswith (join sep (map (dumps sep ksep) (v # vs)) @ r) '']''
    \<and> skip_ws (join sep (map (dumps sep ksep) (v # vs)) @ r) = join sep (map (dumps sep ksep) (v # vs)) @ r"
proof -
  obtain c t where c: "dumps sep ksep v = c # t" "\<not> json_ws c" "c \<noteq> CHR '']''"
    using dumps_head[of v sep ksep] assms by auto
  then obtain t' where "join sep (map (dumps sep ksep) (v # vs)) = c # t'"
    by (cases "map (dumps sep ksep) vs") auto
  then show ?thesis using c by (simp add: skip_ws_head startswith_def)
qed

definition reads_back :: "string \<Rightarrow> string \<Rightarrow> json \<Rightarrow> bool" where
  "reads_back sep ksep v \<longleftrightarrow>
     (\<forall>n r. cost v \<le> n \<longrightarrow> number_end r \<longrightarrow> scan_value n (dumps sep ksep v @ r) = Some (v, r))"

lemma scan_items_back:
  assumes "json_seps sep ksep" "list_all writable vs" "\<forall>v \<in> set vs. reads_back sep ksep v" "vs \<noteq> []"
    "sum_list (map (\<lambda>v. Suc (cost v)) vs) \<le> n"
  shows "scan_items n (join sep (map (dumps sep ksep) vs) @ CHR '']'' # r) = Some (vs, r)"
  using assms(2-)
proof (induction vs arbitrary: n)
  case (Cons v vs)
  obtain m where m: "n = Suc m" using Cons.prems by (cases n) auto
  have v: "\<And>q. number_end q \<Longrightarrow> scan_value m (dumps sep ksep v @ q) = Some (v, q)"
    using Cons.prems m by (auto simp: reads_back_def)
  show ?case
  proof (cases vs)
    case Nil
    then show ?thesis using m v[OF number_ends(2)] by (simp add: skip_ws_head not_ws)
  next
    case (Cons w ws)
    obtain sp where sp: "sep = CHR '','' # sp" "list_all json_ws sp" using assms(1) by (auto simp: json_seps_def)
    let ?rest = "join sep (map (dumps sep ksep) vs) @ CHR '']'' # r"
    have "skip_ws (sp @ ?rest) = ?rest"
      using items_head[of w ws] Cons Cons.prems(1) sp by (simp add: skip_ws_append)
    moreover have "scan_items m ?rest = Some (vs, r)"
      using Cons.IH Cons.prems m Cons by simp
    ultimately show ?thesis
      using m v[OF number_ends(1)] sp Cons by (simp add: skip_ws_head not_ws)
  qed
qed simp

lemma members_head:
  "\<not> startswith (join sep (map (\<lambda>(k, v). json_quote k @ f v) (p # ps)) @ r) ''}''
    \<and> skip_ws (join sep (map (\<lambda>(k, v). json_quote k @ f v) (p # ps)) @ r)
      = join sep (map (\<lambda>(k, v). json_quote k @ f v) (p # ps)) @ r"
proof -
  obtain k v where p: "p = (k, v)" by (cases p)
  obtain t where "join sep (map (\<lambda>(k, v). json_quote k @ f v) (p # ps)) = CHR 0x22 # t"
    by (cases ps) (auto simp: p json_quote_def)
  then show ?thesis by (simp add: skip_ws_head not_ws startswith_def)
qed

lemma scan_members_back:
  assumes "json_seps sep ksep" "list_all (\<lambda>(k, v). writable v) kvs"
    "\<forall>(k, v) \<in> set kvs. reads_back sep ksep v" "kvs \<noteq> []"
    "sum_list (map (\<lambda>(k, v). Suc (cost v)) kvs) \<le> n"
  shows "scan_members n (join sep (map (\<lambda>(k, v). json_quote k @ ksep @ dumps sep ksep v) kvs)
    @ CHR ''}'' # r) = Some (kvs, r)"
  using assms(2-)
proof (induction kvs arbitrary: n)
  case (Cons p kvs)
  obtain k v where p: "p = (k, v)" by (cases p)
  obtain m where m: "n = Suc m" using Cons.prems by (cases n) (auto simp: p)
  have v: "\<And>q. number_end q \<Longrightarrow> scan_value m (dumps sep ksep v @ q) = Some (v, q)"
    using Cons.prems m by (auto simp: reads_back_def p)
  obtain sp kp where sp: "sep = CHR '','' # sp" "list_all json_ws sp" "ksep = CHR '':'' # kp" "list_all json_ws kp"
    using assms(1) by (auto simp: json_seps_def)
  obtain c t where c: "dumps sep ksep v = c # t" "\<not> json_ws c"
    using dumps_head[of v sep ksep] Cons.prems(1) by (auto simp: p)
  have kv: "\<And>q. skip_ws (kp @ dumps sep ksep v @ q) = dumps sep ksep v @ q"
    using c sp(4) by (simp add: skip_ws_append skip_ws_head)
  have key: "\<And>q. scan_chars (concat (map json_esc k) @ CHR 0x22 # q) = Some (k, q)"
    by (rule scan_quoted)
  show ?case
  proof (cases kvs)
    case Nil
    then show ?thesis
      using m v[OF number_ends(3)] kv by (simp add: p json_quote_def key sp(3) skip_ws_head not_ws)
  next
    case (Cons q qs)
    let ?rest = "join sep (map (\<lambda>(k, v). json_quote k @ ksep @ dumps sep ksep v) kvs) @ CHR ''}'' # r"
    have "skip_ws (sp @ ?rest) = ?rest"
      using members_head[of sep "\<lambda>v. ksep @ dumps sep ksep v" q qs] Cons sp by (simp add: skip_ws_append)
    moreover have "scan_members m ?rest = Some (kvs, r)"
      using Cons.IH Cons.prems m Cons by (simp add: p)
    ultimately show ?thesis
      using m v[OF number_ends(1)] kv Cons by (simp add: p json_quote_def key sp skip_ws_head not_ws)
  qed
qed simp

lemma reads_back_all: "json_seps sep ksep \<Longrightarrow> writable v \<Longrightarrow> reads_back sep ksep v"
proof (induction v)
  case (JList vs)
  show ?case unfolding reads_back_def
  proof (intro allI impI)
    fix n r assume n: "cost (JList vs) \<le> n" and "number_end r"
    obtain m where m: "n = Suc m" using n by (cases n) auto
    show "scan_value n (dumps sep ksep (JList vs) @ r) = Some (JList vs, r)"
    proof (cases vs)
      case Nil
      then show ?thesis by (simp add: m skip_ws_head not_ws startswith_def)
    next
      case (Cons w ws)
      have "scan_items m (join sep (map (dumps sep ksep) vs) @ CHR '']'' # r) = Some (vs, r)"
        using JList n m Cons by (intro scan_items_back) (auto simp: list_all_iff)
      then show ?thesis using items_head[of w ws sep ksep "CHR '']'' # r"] JList.prems Cons
        by (simp add: m)
    qed
  qed
next
  case (JObj kvs)
  show ?case unfolding reads_back_def
  proof (intro allI impI)
    fix n r assume n: "cost (JObj kvs) \<le> n" and "number_end r"
    obtain m where m: "n = Suc m" using n by (cases n) auto
    let ?f = "\<lambda>(k, v). json_quote k @ ksep @ dumps sep ksep v"
    show "scan_value n (dumps sep ksep (JObj kvs) @ r) = Some (JObj kvs, r)"
    proof (cases kvs)
      case Nil
      then show ?thesis by (simp add: m skip_ws_head not_ws startswith_def)
    next
      case (Cons q qs)
      have "scan_members m (join sep (map ?f kvs) @ CHR ''}'' # r) = Some (kvs, r)"
        using JObj n m Cons by (intro scan_members_back) (fastforce simp: list_all_iff)+
      then show ?thesis
        using members_head[of sep "\<lambda>v. ksep @ dumps sep ksep v" q qs "CHR ''}'' # r"] Cons
        by (simp add: m)
    qed
  qed
next
  case (JInt i)
  then show ?case
    by (auto simp: reads_back_def simp del: scan_value.simps intro: scan_int dest!: Suc_le_D)
next
  case (JStr s)
  then show ?case by (auto simp: reads_back_def json_quote_def scan_quoted dest!: Suc_le_D)
next
  case JNull
  then show ?case by (auto simp: reads_back_def scan_const_def startswith_def dest!: Suc_le_D)
next
  case (JBool b)
  then show ?case by (cases b) (auto simp: reads_back_def scan_const_def startswith_def dest!: Suc_le_D)
qed simp

text \<open>The fuel of \<open>parse_json\<close> is enough.\<close>

lemma sum_list_join: "xs \<noteq> [] \<Longrightarrow> sep \<noteq> [] \<Longrightarrow>
    sum_list (map (\<lambda>x. Suc (length x)) xs) \<le> Suc (length (join sep xs))"
proof (induction xs rule: join.induct[of _ sep])
  case (3 p x y xs)
  then have "sum_list (map (\<lambda>x. Suc (length x)) (y # xs)) \<le> Suc (length (join p (y # xs)))" by simp
  moreover have "0 < length p" using 3 by simp
  moreover have "sum_list (map (\<lambda>x. Suc (length x)) (x # y # xs)) =
      Suc (length x) + sum_list (map (\<lambda>x. Suc (length x)) (y # xs))" by simp
  moreover have "length (join p (x # y # xs)) = length x + length p + length (join p (y # xs))" by simp
  ultimately show ?case by linarith
qed auto

lemma cost_le: "writable v \<Longrightarrow> sep \<noteq> [] \<Longrightarrow> cost v \<le> length (dumps sep ksep v)"
proof (induction v)
  case (JList vs)
  have "sum_list (map (\<lambda>v. Suc (cost v)) vs) \<le> sum_list (map (\<lambda>v. Suc (length (dumps sep ksep v))) vs)"
    using JList by (intro sum_list_mono) (auto simp: list_all_iff)
  then show ?case using sum_list_join[of "map (dumps sep ksep) vs" sep] JList.prems
    by (cases "vs = []") (auto simp: comp_def)
next
  case (JObj kvs)
  let ?f = "\<lambda>(k, v). json_quote k @ ksep @ dumps sep ksep v"
  have "sum_list (map (\<lambda>(k, v). Suc (cost v)) kvs) \<le> sum_list (map (\<lambda>p. Suc (length (?f p))) kvs)"
    using JObj by (intro sum_list_mono) (fastforce simp: list_all_iff)
  then show ?case using sum_list_join[of "map ?f kvs" sep] JObj.prems
    by (cases "kvs = []") (auto simp: comp_def)
next
  case (JInt i)
  then show ?case using str_int_nonempty[of i] by (cases "str_int i") auto
qed (auto simp: json_quote_def)

lemma parse_dumps:
  assumes "json_seps sep ksep" "writable v"
  shows "parse_json (dumps sep ksep v) = Some v"
proof -
  obtain c t where c: "dumps sep ksep v = c # t" "\<not> json_ws c" using dumps_head[OF assms(2)] by blast
  have "sep \<noteq> []" using assms by (auto simp: json_seps_def)
  then have "cost v \<le> Suc (length (dumps sep ksep v))" using cost_le[OF assms(2)] by (simp add: le_SucI)
  then have "scan_value (Suc (length (dumps sep ksep v))) (dumps sep ksep v @ []) = Some (v, [])"
    using reads_back_all[OF assms] number_ends(4) unfolding reads_back_def by blast
  then show ?thesis using c by (simp add: parse_json_def skip_ws_head skip_ws_def[of "[]"])
qed

end
