(* ===== verification/Ed25519_Api.thy ===== *)
theory Ed25519_Api
  imports Py_JsonText
begin

text \<open>
  The interface to the \<open>cryptography\<close> package (not under src/): Ed25519 keys are 32
  raw bytes. The record is a parameter of every definition that signs or verifies;
  \<open>ed_correct\<close> states what the package documents about it.
\<close>

record ed25519 =
  ed_public :: "bytes \<Rightarrow> bytes"
  ed_sign :: "bytes \<Rightarrow> bytes \<Rightarrow> bytes"
  ed_verify :: "bytes \<Rightarrow> bytes \<Rightarrow> bytes \<Rightarrow> bool"

text \<open>A signature made with a seed verifies under its public key; key and signature sizes.\<close>

definition ed_correct :: "ed25519 \<Rightarrow> bool" where
  "ed_correct E \<longleftrightarrow> (\<forall>seed m. length seed = 32 \<longrightarrow>
     length (ed_public E seed) = 32 \<and> length (ed_sign E seed m) = 64 \<and>
     ed_verify E (ed_public E seed) (ed_sign E seed m) m)"

text \<open>\<open>Ed25519PrivateKey.from_private_bytes(seed)\<close>, \<open>Ed25519PublicKey.from_public_bytes(key)\<close>:
  \<open>ValueError\<close> unless there are 32 bytes. \<open>verify\<close> raises \<open>InvalidSignature\<close>.\<close>

definition private_from :: "bytes \<Rightarrow> bytes res" where
  "private_from seed = (if length seed = 32 then Inr seed else Inl (ValueErr ''private key''))"

definition public_from :: "bytes \<Rightarrow> bytes res" where
  "public_from key = (if length key = 32 then Inr key else Inl (ValueErr ''public key''))"

definition check_signature :: "ed25519 \<Rightarrow> bytes \<Rightarrow> bytes \<Rightarrow> bytes \<Rightarrow> unit res" where
  "check_signature E pub sig m = (if ed_verify E pub sig m then Inr () else Inl InvalidSignature)"

lemma ed_correctD:
  assumes "ed_correct E" "length seed = 32"
  shows "length (ed_public E seed) = 32" "length (ed_sign E seed m) = 64"
    "ed_verify E (ed_public E seed) (ed_sign E seed m) m"
  using assms by (auto simp: ed_correct_def)

text \<open>A concrete scheme that satisfies the documented behaviour: the key is the seed, and a
  signature is the seed and the first 32 bytes of the message.\<close>

definition plain_scheme :: ed25519 where
  "plain_scheme = \<lparr>ed_public = id,
     ed_sign = (\<lambda>seed m. seed @ take 32 (m @ replicate 32 (CHR 0x00))),
     ed_verify = (\<lambda>key sig m. sig = key @ take 32 (m @ replicate 32 (CHR 0x00)))\<rparr>"

lemma plain_scheme_correct: "ed_correct plain_scheme"
  by (auto simp: ed_correct_def plain_scheme_def min_def)

end
