(* ===== verification/Updater_Manifest.thy ===== *)
theory Updater_Manifest
  imports Ed25519_Api
begin

text \<open>
  \<open>tool/updater/manifest.py\<close> and \<open>tool/updater/verify_release.py\<close>: the signed updater
  contract. A payload is checked, written canonically and signed into an envelope; a
  client reads the envelope back and refuses anything that is not the canonical form of a
  valid payload under a trusted key.
\<close>

subsection \<open>Conditions that may raise\<close>

text \<open>\<open>if c: raise e\<close>, then the rest\<close>

definition raise_if :: "bool res \<Rightarrow> exn \<Rightarrow> 'a res \<Rightarrow> 'a res" where
  "raise_if c e r = bindR c (\<lambda>x. if x then Inl e else r)"

lemma raise_if_ok [ok_iff]: "raise_if c e r = Inr y \<longleftrightarrow> c = Inr False \<and> r = Inr y"
  by (cases c) (auto simp: raise_if_def)

lemma raise_if_simps [simp]: "raise_if (Inr False) e r = r" "raise_if (Inr True) e r = Inl e"
  "raise_if (Inl e') e r = Inl e'"
  by (simp_all add: raise_if_def)

definition keys_differ :: "json \<Rightarrow> string list \<Rightarrow> bool res" where
  "keys_differ v ks = bindR (set_of v) (\<lambda>s. Inr (\<not> same_keys ks s))"

definition item_not_int :: "json \<Rightarrow> string \<Rightarrow> bool res" where
  "item_not_int v k = bindR (item v k) (\<lambda>x. Inr (\<not> is_int x))"

definition item_differs :: "json \<Rightarrow> string \<Rightarrow> json \<Rightarrow> bool res" where
  "item_differs v k w = bindR (item v k) (\<lambda>x. Inr (\<not> py_eq x w))"

definition item_no_match :: "json \<Rightarrow> string \<Rightarrow> rx \<Rightarrow> bool res" where
  "item_no_match v k r = bindR (item v k) (\<lambda>x. bindR (fullmatch_of r x) (\<lambda>b. Inr (\<not> b)))"

text \<open>\<open>v[k] < n\<close>\<close>

definition item_below :: "json \<Rightarrow> string \<Rightarrow> int \<Rightarrow> bool res" where
  "item_below v k n = bindR (item v k) (\<lambda>x.
     case num_of x of Some f \<Rightarrow> Inr (float_lt f (FFin (of_int n))) | None \<Rightarrow> Inl TypeErr)"

text \<open>\<open>v.split("+")[0]\<close>\<close>

definition short_version :: "json \<Rightarrow> string res" where
  "short_version v = (case v of JStr s \<Rightarrow> Inr (split_head ''+'' s) | _ \<Rightarrow> Inl AttributeErr)"

subsection \<open>The contract\<close>

definition FORMAT_VERSION :: int where
  "FORMAT_VERSION = 1"

definition MAX_ENVELOPE_BYTES :: nat where
  "MAX_ENVELOPE_BYTES = 65536"

definition DEFAULT_CAPABILITIES :: "string list" where
  "DEFAULT_CAPABILITIES = [''app.files'', ''app.protocol'', ''autostart.user'', ''runtime.vc'', ''updater.worker'']"

definition required_fields :: "string list" where
  "required_fields = [''formatVersion'', ''version'', ''channel'', ''installer'', ''requirements'',
     ''protocol'', ''data'', ''release'']"

text \<open>\<open>[a-z][a-z0-9._-]{0,63}\<close>\<close>

definition lower_letter :: "char \<Rightarrow> bool" where
  "lower_letter c \<longleftrightarrow> (let n = of_char c :: nat in 97 \<le> n \<and> n \<le> 122)"

definition rx_capability :: rx where
  "rx_capability = RSeq (RCls lower_letter)
     (r_upto 63 (RCls (\<lambda>c. lower_letter c \<or> is_digit c \<or> c = CHR ''.'' \<or> c = CHR ''_'' \<or> c = CHR ''-'')))"

definition bad_capability :: "json \<Rightarrow> bool" where
  "bad_capability v = (case v of JStr s \<Rightarrow> \<not> fullmatch rx_capability s | _ \<Rightarrow> True)"

definition protocol_v1 :: json where
  "protocol_v1 = JObj [(''host'', JInt 1), (''worker'', JInt 1)]"

definition check_release :: "json \<Rightarrow> string \<Rightarrow> bool res" where
  "check_release release short =
     orR (keys_differ release [''commit'', ''tag'']) (
     orR (item_no_match release ''commit'' (rx_hex 40))
         (item_differs release ''tag'' (JStr (''v'' @ short))))"

definition check_installer :: "json \<Rightarrow> string \<Rightarrow> bool res" where
  "check_installer installer short =
     orR (item_differs installer ''name'' (JStr (''PlugAgente-Setup-'' @ short @ ''.exe''))) (
     orR (item_not_int installer ''size'') (item_below installer ''size'' 1))"

definition check_data :: "json \<Rightarrow> bool res" where
  "check_data data =
     orR (keys_differ data [''schema'', ''rollbackProtocol'']) (
     orR (item_not_int data ''schema'') (
     orR (item_below data ''schema'' 1) (
     orR (item_not_int data ''rollbackProtocol'')
         (item_differs data ''rollbackProtocol'' (JInt 1)))))"

definition check_requirements :: "json \<Rightarrow> bool res" where
  "check_requirements requirements = (case requirements of
     JList vs \<Rightarrow> if list_all hashable vs then Inr (length vs \<noteq> distinct_count vs) else Inl TypeErr
   | _ \<Rightarrow> Inr True)"

definition validate_payload :: "json \<Rightarrow> unit res" where
  "validate_payload p =
     raise_if (orR (keys_differ p required_fields) (
               orR (item_not_int p ''formatVersion'') (item_differs p ''formatVersion'' (JInt FORMAT_VERSION))))
       (ValueErr ''Unsupported manifest contract'') (
     bindR (item p ''version'') (\<lambda>version.
     raise_if (orR (bindR (len_of version) (\<lambda>n. Inr (128 < n)))
                   (bindR (fullmatch_of rx_version4 version) (\<lambda>b. Inr (\<not> b))))
       (ValueErr ''Invalid manifest version'') (
     bindR (item p ''channel'') (\<lambda>channel.
     raise_if (bindR (in_strs [''stable'', ''beta'', ''internal''] channel) (\<lambda>b. Inr (\<not> b)))
       (ValueErr ''Invalid channel'') (
     bindR (item p ''release'') (\<lambda>release.
     bindR (short_version version) (\<lambda>short.
     raise_if (check_release release short) (ValueErr ''Invalid release source identity'') (
     bindR (item p ''installer'') (\<lambda>installer.
     raise_if (keys_differ installer [''name'', ''size'', ''sha256'']) (ValueErr ''Invalid installer metadata'') (
     raise_if (check_installer installer short) (ValueErr ''Invalid installer identity or size'') (
     raise_if (item_no_match installer ''sha256'' (rx_hex 64)) (ValueErr ''Invalid installer hash'') (
     bindR (item p ''protocol'') (\<lambda>protocol.
     raise_if (orR (keys_differ protocol [''host'', ''worker'']) (Inr (\<not> py_eq protocol protocol_v1)))
       (ValueErr ''Unsupported updater protocol'') (
     raise_if (case protocol of JObj kvs \<Rightarrow> Inr (list_ex (\<lambda>(k, v). \<not> is_int v) kvs) | _ \<Rightarrow> Inl AttributeErr)
       (ValueErr ''Invalid protocol types'') (
     bindR (item p ''requirements'') (\<lambda>requirements.
     raise_if (check_requirements requirements) (ValueErr ''Duplicate or invalid requirements'') (
     raise_if (case requirements of JList vs \<Rightarrow> Inr (list_ex bad_capability vs) | _ \<Rightarrow> Inl TypeErr)
       (ValueErr ''Invalid capability'') (
     bindR (item p ''data'') (\<lambda>data.
     raise_if (check_data data) (ValueErr ''Invalid data compatibility'')
     (Inr ()))))))))))))))))))))"


subsection \<open>Signing\<close>

text \<open>Python refuses to write an integer of more than 4300 digits.\<close>

fun digits_ok :: "json \<Rightarrow> bool" where
  "digits_ok (JInt i) \<longleftrightarrow> length (nat_str (nat \<bar>i\<bar>)) \<le> 4300"
| "digits_ok (JList vs) \<longleftrightarrow> list_all digits_ok vs"
| "digits_ok (JObj kvs) \<longleftrightarrow> list_all (\<lambda>(k, v). digits_ok v) kvs"
| "digits_ok v \<longleftrightarrow> True"

definition canonical_payload :: "json \<Rightarrow> bytes res" where
  "canonical_payload p = bindR (validate_payload p) (\<lambda>_.
     if digits_ok p then encode_utf8 (dumps_compact (sort_json p))
     else Inl (ValueErr ''Exceeds the limit for integer string conversion''))"

definition sign :: "ed25519 \<Rightarrow> json \<Rightarrow> string \<Rightarrow> json res" where
  "sign E p private_key_b64 =
     bindR (canonical_payload p) (\<lambda>raw.
     bindR (of_option (ValueErr ''binascii.Error'') (b64decode True private_key_b64)) (\<lambda>seed.
     bindR (private_from seed) (\<lambda>private.
     Inr (JObj [(''formatVersion'', JInt FORMAT_VERSION),
                (''payloadBase64'', JStr (b64encode raw)),
                (''signatureBase64'', JStr (b64encode (ed_sign E private raw)))]))))"

subsection \<open>Verifying\<close>

definition unique_object :: "(string \<times> json) list \<Rightarrow> json res" where
  "unique_object pairs =
     (if distinct (map fst pairs) then Inr (JObj pairs) else Inl (ValueErr ''Duplicate manifest field''))"

lemma mapR_cong [fundef_cong]:
  "xs = ys \<Longrightarrow> (\<And>x. x \<in> set ys \<Longrightarrow> f x = g x) \<Longrightarrow> mapR f xs = mapR g ys"
  by (induction ys arbitrary: xs) auto

fun hook_json :: "json \<Rightarrow> json res" where
  "hook_json (JList vs) = bindR (mapR hook_json vs) (\<lambda>ws. Inr (JList ws))"
| "hook_json (JObj kvs) =
     bindR (mapR (\<lambda>(k, v). bindR (hook_json v) (\<lambda>w. Inr (k, w))) kvs) unique_object"
| "hook_json v = Inr v"

text \<open>
  \<open>json.loads(raw, object_pairs_hook=_unique_object)\<close> on bytes. Bytes that the library
  takes for UTF-16 or UTF-32 (a byte order mark, a zero byte among the first two) are
  refused here; the code refuses them a step later, since canonical bytes never have that
  form.
\<close>

definition reads_as_utf8 :: "bytes \<Rightarrow> bool" where
  "reads_as_utf8 b \<longleftrightarrow> \<not> startswith b [CHR 0xEF, CHR 0xBB, CHR 0xBF] \<and> \<not> startswith b [CHR 0xFE, CHR 0xFF]
     \<and> \<not> startswith b [CHR 0xFF, CHR 0xFE] \<and> CHR 0x00 \<notin> set (take 2 b) \<and> utf8_ok b"

definition loads_unique :: "bytes \<Rightarrow> json res" where
  "loads_unique b = (if reads_as_utf8 b
     then bindR (of_option (ValueErr ''JSONDecodeError'') (parse_json b)) hook_json
     else Inl (ValueErr ''UnicodeDecodeError''))"

text \<open>\<open>base64.b64decode(v, validate=True)\<close> on a JSON value\<close>

definition b64_item :: "json \<Rightarrow> string \<Rightarrow> bytes res" where
  "b64_item v k = bindR (item v k) (\<lambda>x.
     case x of JStr s \<Rightarrow> of_option (ValueErr ''binascii.Error'') (b64decode True s) | _ \<Rightarrow> Inl TypeErr)"

text \<open>The body of the loop over the keys: the \<open>try\<close> block, and which exceptions go on.\<close>

definition try_key :: "ed25519 \<Rightarrow> bytes \<Rightarrow> bytes \<Rightarrow> string \<Rightarrow> json res" where
  "try_key E raw signature key =
     bindR (of_option (ValueErr ''binascii.Error'') (b64decode True key)) (\<lambda>kb.
     bindR (public_from kb) (\<lambda>public.
     bindR (check_signature E public signature raw) (\<lambda>_.
     bindR (loads_unique raw) (\<lambda>payload.
     bindR (canonical_payload payload) (\<lambda>canonical.
     if canonical \<noteq> raw then Inl (ValueErr ''Noncanonical manifest'') else Inr payload)))))"

definition reraised :: "exn \<Rightarrow> bool" where
  "reraised e = (case e of ValueErr _ \<Rightarrow> True | TypeErr \<Rightarrow> True | _ \<Rightarrow> False)"

fun verify_keys :: "ed25519 \<Rightarrow> bytes \<Rightarrow> bytes \<Rightarrow> string list \<Rightarrow> json res" where
  "verify_keys E raw signature [] = Inl (ValueErr ''Manifest signature does not match a trusted key'')"
| "verify_keys E raw signature (key # keys) =
     (case try_key E raw signature key of
        Inr payload \<Rightarrow> Inr payload
      | Inl e \<Rightarrow> if reraised e then Inl e else verify_keys E raw signature keys)"

definition verify :: "ed25519 \<Rightarrow> json \<Rightarrow> string list \<Rightarrow> json res" where
  "verify E envelope public_keys =
     raise_if (orR (keys_differ envelope [''formatVersion'', ''payloadBase64'', ''signatureBase64'']) (
               orR (item_not_int envelope ''formatVersion'')
                   (item_differs envelope ''formatVersion'' (JInt FORMAT_VERSION))))
       (ValueErr ''Unsupported envelope'') (
     bindR (b64_item envelope ''payloadBase64'') (\<lambda>raw.
     bindR (b64_item envelope ''signatureBase64'') (\<lambda>signature.
     if MAX_ENVELOPE_BYTES < length raw \<or> length signature \<noteq> 64 then Inl (ValueErr ''Invalid envelope size'')
     else verify_keys E raw signature public_keys)))"

subsection \<open>The command line: a signed manifest for an installer\<close>

definition base_name :: "string \<Rightarrow> string" where
  "base_name path = rsplit_last ''/'' path"

definition manifest_payload :: "string \<Rightarrow> bytes \<Rightarrow> string \<Rightarrow> string \<Rightarrow> int \<Rightarrow> string \<Rightarrow> json" where
  "manifest_payload name content version channel schema commit =
     JObj [(''formatVersion'', JInt 1), (''version'', JStr version), (''channel'', JStr channel),
       (''installer'', JObj [(''name'', JStr name), (''size'', JInt (int (length content))),
          (''sha256'', JStr (sha256_hex content))]),
       (''requirements'', JList (map JStr DEFAULT_CAPABILITIES)),
       (''protocol'', JObj [(''host'', JInt 1), (''worker'', JInt 1)]),
       (''data'', JObj [(''schema'', JInt schema), (''rollbackProtocol'', JInt 1)]),
       (''release'', JObj [(''commit'', JStr commit), (''tag'', JStr (''v'' @ split_head ''+'' version))])]"

text \<open>The text written to \<open>--output\<close>; the key comes from the environment.\<close>

definition manifest_main :: "ed25519 \<Rightarrow> string \<Rightarrow> files \<Rightarrow> string \<Rightarrow> string \<Rightarrow> string \<Rightarrow> int \<Rightarrow> string \<Rightarrow> string res" where
  "manifest_main E key fs installer version channel schema source_commit =
     (if key = [] then Inl (ExitErr ''Manifest signing key is required'')
      else bindR (read_file fs installer) (\<lambda>content.
        bindR (sign E (manifest_payload (base_name installer) content version channel schema source_commit) key)
          (\<lambda>env. Inr (dumps_compact (sort_json env) @ newline))))"

subsection \<open>verify\_release.py\<close>

definition csv_keys :: "string \<Rightarrow> string list" where
  "csv_keys keys = filter (\<lambda>k. k \<noteq> []) (map strip (split_on '','' keys))"

definition verify_release ::
  "ed25519 \<Rightarrow> files \<Rightarrow> string \<Rightarrow> string \<Rightarrow> string \<Rightarrow> string \<Rightarrow> string \<Rightarrow> string option \<Rightarrow> json res" where
  "verify_release E fs manifest installer keys version channel source_commit =
     bindR (read_file fs manifest) (\<lambda>m.
     if 131072 < length m then Inl (ValueErr ''Manifest exceeds size limit'')
     else bindR (decode_text m) (\<lambda>text.
       bindR (json_loads text) (\<lambda>envelope.
       bindR (verify E envelope (csv_keys keys)) (\<lambda>payload.
       bindR (read_file fs installer) (\<lambda>content.
       raise_if (orR (item_differs payload ''version'' (JStr version))
                     (item_differs payload ''channel'' (JStr channel)))
         (ValueErr ''Release manifest identity mismatch'') (
       raise_if (case source_commit of None \<Rightarrow> Inr False
           | Some c \<Rightarrow> bindR (item payload ''release'') (\<lambda>r. item_differs r ''commit'' (JStr c)))
         (ValueErr ''Release source commit does not match signed manifest'') (
       bindR (item payload ''installer'') (\<lambda>inst.
       raise_if (orR (item_differs inst ''size'' (JInt (int (length content))))
                     (item_differs inst ''sha256'' (JStr (sha256_hex content))))
         (ValueErr ''Release asset does not match signed manifest'')
       (Inr payload)))))))))"

definition verify_release_main ::
  "ed25519 \<Rightarrow> string \<Rightarrow> files \<Rightarrow> string \<Rightarrow> string \<Rightarrow> string \<Rightarrow> string \<Rightarrow> string \<Rightarrow> string res" where
  "verify_release_main E keys fs manifest installer version channel source_commit =
     (if keys = [] then Inl (ExitErr ''Trusted manifest public keys are required'')
      else bindR (verify_release E fs manifest installer keys version channel (Some source_commit))
        (\<lambda>_. Inr ''Signed manifest and release asset verified''))"

end
