(* ===== verification/Py_JsonDict.thy ===== *)
theory Py_JsonDict
  imports Py_JsonText "HOL-Library.Multiset"
begin

text \<open>
  JSON objects as dicts: values whose objects have distinct keys at every level, what
  \<open>sort_keys\<close> does to them, values whose text is ASCII, and what \<open>json.loads\<close> gives back
  after \<open>json.dumps\<close> with white space around.
\<close>

fun wf_json :: "json \<Rightarrow> bool" where
  "wf_json (JList vs) \<longleftrightarrow> list_all wf_json vs"
| "wf_json (JObj kvs) \<longleftrightarrow> distinct (map fst kvs) \<and> list_all (\<lambda>(k, v). wf_json v) kvs"
| "wf_json v \<longleftrightarrow> True"

lemma map_of_perm:
  assumes "distinct (map fst xs)" "mset xs = mset ys"
  shows "map_of xs = map_of ys"
proof -
  have "distinct (map fst ys)" using assms by (metis mset_eq_imp_distinct_iff mset_map)
  moreover have "set xs = set ys" using assms(2) by (metis set_mset_mset)
  ultimately show ?thesis using assms(1) map_of_inject_set by blast
qed

lemma map_of_eqI_list:
  assumes "map fst xs = map fst ys" "map_of xs = map_of ys" "distinct (map fst ys)"
  shows "xs = ys"
proof (rule nth_equalityI)
  show l: "length xs = length ys" using assms(1) by (metis length_map)
  fix i assume i: "i < length xs"
  have f: "fst (xs ! i) = fst (ys ! i)" using assms(1) i l by (metis nth_map)
  have "distinct (map fst xs)" using assms by simp
  then have "map_of xs (fst (xs ! i)) = Some (snd (xs ! i))" using i by simp
  moreover have "map_of ys (fst (ys ! i)) = Some (snd (ys ! i))" using i l assms(3) by simp
  ultimately show "xs ! i = ys ! i" using f assms(2) by (simp add: prod_eq_iff)
qed

lemma sort_json_iff:
  assumes "distinct (map fst kvs)" "sorted (map fst out)" "distinct (map fst out)"
  shows "sort_json (JObj kvs) = JObj out \<longleftrightarrow>
    fst ` set kvs = fst ` set out \<and> (\<forall>k v. (k, v) \<in> set out \<longrightarrow> (\<exists>x. map_of kvs k = Some x \<and> sort_json x = v))"
    (is "?l \<longleftrightarrow> ?k \<and> ?r")
proof -
  let ?m = "map (\<lambda>(k, v). (k, sort_json v)) kvs"
  have keys: "map fst ?m = map fst kvs" by (auto simp: comp_def)
  have d: "distinct (map fst ?m)" using assms(1) by (simp only: keys)
  have mo: "map_of (sort_key fst ?m) k = map_option sort_json (map_of kvs k)" for k
  proof -
    have "map_of (sort_key fst ?m) = map_of ?m" by (rule map_of_perm[symmetric, OF d]) simp
    then show ?thesis by (simp add: map_of_map)
  qed
  have ds: "distinct (map fst (sort_key fst ?m))"
    using d by (metis mset_eq_imp_distinct_iff mset_map mset_sort)
  have eq: "?l \<longleftrightarrow> map_of (sort_key fst ?m) = map_of out"
  proof
    assume m: "map_of (sort_key fst ?m) = map_of out"
    have s: "set (sort_key fst ?m) = set out" using m map_of_inject_set[OF ds assms(3)] by blast
    have "map fst (sort_key fst ?m) = map fst out"
      by (rule sorted_distinct_set_unique) (use ds assms s in auto)
    then have "sort_key fst ?m = out"
      using m by (metis assms(3) ds map_of_eqI_list)
    then show ?l by simp
  qed simp
  show ?thesis unfolding eq
  proof
    assume m: "map_of (sort_key fst ?m) = map_of out"
    have "fst ` set kvs = dom (map_of kvs)" by (simp add: dom_map_of_conv_image_fst)
    also have "\<dots> = dom (map_of out)" by (auto simp: dom_def m[symmetric] mo)
    finally have "?k" by (simp add: dom_map_of_conv_image_fst)
    moreover have ?r using m mo assms(3) by (metis map_of_eq_Some_iff map_option_eq_Some)
    ultimately show "?k \<and> ?r" ..
  next
    assume kr: "?k \<and> ?r"
    show "map_of (sort_key fst ?m) = map_of out"
    proof
      fix k
      show "map_of (sort_key fst ?m) k = map_of out k"
      proof (cases "map_of out k")
        case None
        then have "map_of kvs k = None" using kr by (simp add: map_of_eq_None_iff)
        then show ?thesis using None mo by simp
      next
        case (Some v)
        then have "(k, v) \<in> set out" by (rule map_of_SomeD)
        then show ?thesis using kr Some mo by fastforce
      qed
    qed
  qed
qed

lemma sort_json_atom [simp]:
  "sort_json x = JStr s \<longleftrightarrow> x = JStr s" "sort_json x = JInt i \<longleftrightarrow> x = JInt i"
  by (cases x; simp)+

lemma sort_json_objE:
  assumes "sort_json v = JObj out"
  obtains kvs where "v = JObj kvs"
  using assms by (cases v) auto

lemma wf_json_field: "wf_json (JObj kvs) \<Longrightarrow> map_of kvs k = Some x \<Longrightarrow> wf_json x"
  by (auto simp: list_all_iff dest!: map_of_SomeD)

lemma dictify_id: "wf_json v \<Longrightarrow> dictify v = v"
proof (induction v)
  case (JObj kvs)
  have "map (\<lambda>(k, v). (k, dictify v)) kvs = kvs"
    using JObj by (intro map_idI) (fastforce simp: list_all_iff)
  then show ?case using JObj.prems by (simp add: dict_of_id)
next
  case (JList vs)
  then show ?case by (auto simp: list_all_iff intro: map_idI)
qed auto

lemma writable_sort [simp]: "writable (sort_json v) = writable v"
proof (induction v)
  case (JObj kvs)
  have "writable (sort_json (JObj kvs)) \<longleftrightarrow> (\<forall>(k, v) \<in> set kvs. writable (sort_json v))"
    by (auto simp: list_all_iff)
  also have "\<dots> \<longleftrightarrow> (\<forall>(k, v) \<in> set kvs. writable v)" using JObj by fastforce
  finally show ?case by (simp add: list_all_iff)
next
  case (JList vs)
  then show ?case by (auto simp: list_all_iff)
qed auto

subsection \<open>ASCII text\<close>

fun ascii_json :: "json \<Rightarrow> bool" where
  "ascii_json (JStr s) \<longleftrightarrow> ascii s"
| "ascii_json (JFloat x) \<longleftrightarrow> False"
| "ascii_json (JList vs) \<longleftrightarrow> list_all ascii_json vs"
| "ascii_json (JObj kvs) \<longleftrightarrow> list_all (\<lambda>(k, v). ascii k \<and> ascii_json v) kvs"
| "ascii_json v \<longleftrightarrow> True"

lemma ascii_join: "ascii sep \<Longrightarrow> list_all ascii xs \<Longrightarrow> ascii (join sep xs)"
  by (induction sep xs rule: join.induct) auto

lemma ascii_concat: "list_all ascii xs \<Longrightarrow> ascii (concat xs)"
  by (induction xs) auto

lemma ascii_quote: "ascii s \<Longrightarrow> ascii (json_quote s)"
proof -
  assume s: "ascii s"
  have "nibble n \<in> {c. (of_char c :: nat) < 128}" if "n < 16" for n
    using nibble_hex[OF that] by (auto simp: is_hex_def is_digit_def Let_def)
  then have n: "n < 16 \<Longrightarrow> (of_char (nibble n) :: nat) < 128" for n by simp
  have "(of_char c :: nat) < 128 \<Longrightarrow> ascii (json_esc c)" for c
    by (auto simp: json_esc_def n)
  then have "ascii (concat (map json_esc s))" using s by (intro ascii_concat) (auto simp: ascii_def list_all_iff)
  then show ?thesis by (simp add: json_quote_def)
qed

lemma ascii_dumps: "ascii sep \<Longrightarrow> ascii ksep \<Longrightarrow> ascii_json v \<Longrightarrow> ascii (dumps sep ksep v)"
proof (induction v)
  case (JInt i)
  then show ?case using visible_ascii[OF str_int_visible] by simp
next
  case (JObj kvs)
  have "list_all ascii (map (\<lambda>(k, v). json_quote k @ ksep @ dumps sep ksep v) kvs)"
    using JObj by (fastforce simp: list_all_iff ascii_quote)
  then show ?case using JObj.prems by (simp add: ascii_join)
next
  case (JList vs)
  then have "list_all ascii (map (dumps sep ksep) vs)" by (auto simp: list_all_iff)
  then show ?case using JList.prems by (simp add: ascii_join)
qed (auto simp: ascii_quote)

subsection \<open>Reading back with white space at the end\<close>

lemma number_end_ws: "list_all json_ws w \<Longrightarrow> number_end w"
  by (cases w) (auto simp: number_end_def json_ws_def is_digit_def)

lemma skip_ws_all: "list_all json_ws w \<Longrightarrow> skip_ws w = []"
  by (simp add: skip_ws_def list_all_iff)

lemma parse_dumps_ws:
  assumes "json_seps sep ksep" "writable v" "list_all json_ws w"
  shows "parse_json (dumps sep ksep v @ w) = Some v"
proof -
  obtain c t where c: "dumps sep ksep v = c # t" "\<not> json_ws c" using dumps_head[OF assms(2)] by blast
  have "sep \<noteq> []" using assms by (auto simp: json_seps_def)
  then have "cost v \<le> Suc (length (dumps sep ksep v @ w))" using cost_le[OF assms(2), of sep ksep] by simp
  then have "scan_value (Suc (length (dumps sep ksep v @ w))) (dumps sep ksep v @ w) = Some (v, w)"
    using reads_back_all[OF assms(1,2)] number_end_ws[OF assms(3)] unfolding reads_back_def by blast
  then show ?thesis using c by (simp add: parse_json_def skip_ws_head skip_ws_all[OF assms(3)] del: scan_value.simps)
qed

lemma loads_dumps:
  assumes "json_seps sep ksep" "writable v" "wf_json v" "list_all json_ws w"
  shows "json_loads (dumps sep ksep v @ w) = Inr v"
  using parse_dumps_ws[OF assms(1,2,4)] dictify_id[OF assms(3)] by (simp add: json_loads_def)

lemma dumps_no_cr:
  assumes "ascii_json v" "CHR 0x0D \<notin> set sep" "CHR 0x0D \<notin> set ksep"
  shows "CHR 0x0D \<notin> set (dumps sep ksep v)"
proof -
  have j: "CHR 0x0D \<notin> set (join sep xs)" if "\<forall>x \<in> set xs. CHR 0x0D \<notin> set x" for xs
    using that assms(2) by (induction sep xs rule: join.induct) auto
  have n: "nibble n \<noteq> CHR 0x0D" if "n < 16" for n using nibble_hex[OF that] by (auto simp: is_hex_def is_digit_def)
  have e: "CHR 0x0D \<notin> set (json_esc c)" for c
  proof -
    have "(of_char c :: nat) div 16 < 16" using of_char_less[of c] by linarith
    then show ?thesis using n[of "of_char c div 16"] n[of "of_char c mod 16"] by (auto simp: json_esc_def)
  qed
  have q: "CHR 0x0D \<notin> set (json_quote s)" for s using e by (auto simp: json_quote_def)
  have i: "CHR 0x0D \<notin> set (str_int i)" for i using str_int_visible[of i] by (auto simp: list_all_iff visible_def)
  show ?thesis using assms(1)
  proof (induction v)
    case (JObj kvs)
    have "CHR 0x0D \<notin> set (join sep (map (\<lambda>(k, v). json_quote k @ ksep @ dumps sep ksep v) kvs))"
      using JObj q assms(3) by (intro j) (fastforce simp: list_all_iff)
    then show ?case by simp
  next
    case (JList vs)
    have "CHR 0x0D \<notin> set (join sep (map (dumps sep ksep) vs))"
      using JList by (intro j) (fastforce simp: list_all_iff)
    then show ?case by simp
  qed (auto simp: q i)
qed

lemma decode_text_ascii: "ascii s \<Longrightarrow> CHR 0x0D \<notin> set s \<Longrightarrow> decode_text s = Inr s"
  by (simp add: decode_text_def decode_utf8_def ascii_utf8 ascii_no_surrogate universal_newlines_id)

end
