(* ===== verification/Updater_ManifestSpec.thy ===== *)
theory Updater_ManifestSpec
  imports Updater_Manifest Py_JsonDict
begin

text \<open>
  What the updater contract promises: the abstract manifest, that \<open>validate_payload\<close>
  accepts exactly the payloads that denote one, and the round trip and the soundness of
  signing and verifying.
\<close>

subsection \<open>The abstract manifest\<close>

record manifest =
  mf_version :: string
  mf_channel :: string
  mf_size :: int
  mf_sha256 :: string
  mf_requirements :: "string list"
  mf_schema :: int
  mf_commit :: string

definition manifest_json :: "manifest \<Rightarrow> json" where
  "manifest_json m = (let short = split_head ''+'' (mf_version m) in
     JObj [(''channel'', JStr (mf_channel m)),
       (''data'', JObj [(''rollbackProtocol'', JInt 1), (''schema'', JInt (mf_schema m))]),
       (''formatVersion'', JInt 1),
       (''installer'', JObj [(''name'', JStr (''PlugAgente-Setup-'' @ short @ ''.exe'')),
          (''sha256'', JStr (mf_sha256 m)), (''size'', JInt (mf_size m))]),
       (''protocol'', JObj [(''host'', JInt 1), (''worker'', JInt 1)]),
       (''release'', JObj [(''commit'', JStr (mf_commit m)), (''tag'', JStr (''v'' @ short))]),
       (''requirements'', JList (map JStr (mf_requirements m))),
       (''version'', JStr (mf_version m))])"

definition manifest_ok :: "manifest \<Rightarrow> bool" where
  "manifest_ok m \<longleftrightarrow> length (mf_version m) \<le> 128 \<and> fullmatch rx_version4 (mf_version m) \<and>
     mf_channel m \<in> {''stable'', ''beta'', ''internal''} \<and> 1 \<le> mf_size m \<and> is_sha256 (mf_sha256 m) \<and>
     distinct (mf_requirements m) \<and> (\<forall>c \<in> set (mf_requirements m). fullmatch rx_capability c) \<and>
     1 \<le> mf_schema m \<and> length (mf_commit m) = 40 \<and> list_all is_hex (mf_commit m)"

subsection \<open>Checks, one by one\<close>

lemma keys_differ_ok: "keys_differ (JObj kvs) ks = Inr False \<longleftrightarrow> fst ` set kvs = set ks"
  by (auto simp: keys_differ_def set_of_def same_keys_def list_all_iff)

lemma item_not_int_ok: "item_not_int v k = Inr False \<longleftrightarrow> (\<exists>kvs i. v = JObj kvs \<and> map_of kvs k = Some (JInt i))"
  by (auto simp: item_not_int_def ok_iff item_ok is_int_iff)

lemma item_differs_str: "item_differs v k (JStr s) = Inr False \<longleftrightarrow> (\<exists>kvs. v = JObj kvs \<and> map_of kvs k = Some (JStr s))"
  by (auto simp: item_differs_def ok_iff item_ok py_eq_str)

lemma item_differs_int: "map_of kvs k = Some (JInt j) \<Longrightarrow>
    item_differs (JObj kvs) k (JInt i) = Inr False \<longleftrightarrow> j = i"
  by (simp add: item_differs_def item_def del: py_eq.simps)

lemma item_below_int: "map_of kvs k = Some (JInt j) \<Longrightarrow> item_below (JObj kvs) k n = Inr False \<longleftrightarrow> n \<le> j"
  by (auto simp: item_below_def item_def num_of_def float_lt_def float_le_def)

lemma item_no_match_ok: "item_no_match v k r = Inr False \<longleftrightarrow>
    (\<exists>kvs s. v = JObj kvs \<and> map_of kvs k = Some (JStr s) \<and> fullmatch r s)"
proof -
  have "fullmatch_of r x = Inr True \<longleftrightarrow> (\<exists>s. x = JStr s \<and> fullmatch r s)" for x
    by (cases x) (auto simp: fullmatch_of_def)
  then show ?thesis by (auto simp: item_no_match_def ok_iff item_ok)
qed

lemmas item_iffs = item_differs_str item_not_int_ok item_differs_int item_below_int item_no_match_ok keys_differ_ok

lemma release_spec:
  assumes "wf_json v"
  shows "check_release v short = Inr False \<longleftrightarrow> (\<exists>c. length c = 40 \<and> list_all is_hex c \<and>
    sort_json v = JObj [(''commit'', JStr c), (''tag'', JStr (''v'' @ short))])"
proof (cases v)
  case (JObj kvs)
  have "sort_json v = JObj [(''commit'', JStr c), (''tag'', JStr t)] \<longleftrightarrow> fst ` set kvs = {''commit'', ''tag''} \<and>
      map_of kvs ''commit'' = Some (JStr c) \<and> map_of kvs ''tag'' = Some (JStr t)" for c t
    unfolding JObj using assms JObj by (subst sort_json_iff) (auto simp: less_eq_list_code insert_commute)
  then show ?thesis
    by (auto simp: check_release_def ok_iff item_iffs match_hex JObj simp del: sort_json.simps)
qed (auto simp: check_release_def ok_iff item_iffs)

lemma installer_spec:
  assumes "wf_json v"
  shows "keys_differ v [''name'', ''size'', ''sha256''] = Inr False \<and> check_installer v short = Inr False \<and>
      item_no_match v ''sha256'' (rx_hex 64) = Inr False \<longleftrightarrow> (\<exists>n h. 1 \<le> n \<and> is_sha256 h \<and>
    sort_json v = JObj [(''name'', JStr (''PlugAgente-Setup-'' @ short @ ''.exe'')), (''sha256'', JStr h), (''size'', JInt n)])"
proof (cases v)
  case (JObj kvs)
  have "sort_json v = JObj [(''name'', JStr m), (''sha256'', JStr h), (''size'', JInt n)] \<longleftrightarrow>
      fst ` set kvs = {''name'', ''size'', ''sha256''} \<and> map_of kvs ''name'' = Some (JStr m) \<and>
      map_of kvs ''sha256'' = Some (JStr h) \<and> map_of kvs ''size'' = Some (JInt n)" for m h n
    unfolding JObj using assms JObj by (subst sort_json_iff) (auto simp: less_eq_list_code insert_commute)
  then show ?thesis
    by (auto simp: check_installer_def ok_iff item_iffs match_hex is_sha256_def JObj simp del: sort_json.simps)
qed (auto simp: check_installer_def ok_iff item_iffs)

lemma data_spec:
  assumes "wf_json v"
  shows "check_data v = Inr False \<longleftrightarrow> (\<exists>n. 1 \<le> n \<and>
    sort_json v = JObj [(''rollbackProtocol'', JInt 1), (''schema'', JInt n)])"
proof (cases v)
  case (JObj kvs)
  have "sort_json v = JObj [(''rollbackProtocol'', JInt 1), (''schema'', JInt n)] \<longleftrightarrow>
      fst ` set kvs = {''schema'', ''rollbackProtocol''} \<and> map_of kvs ''rollbackProtocol'' = Some (JInt 1) \<and>
      map_of kvs ''schema'' = Some (JInt n)" for n
    unfolding JObj using assms JObj by (subst sort_json_iff) (auto simp: less_eq_list_code insert_commute)
  note sorted = this
  show ?thesis
  proof
    assume c: "check_data v = Inr False"
    then obtain n m where nm: "map_of kvs ''schema'' = Some (JInt n)" "map_of kvs ''rollbackProtocol'' = Some (JInt m)"
      by (auto simp: check_data_def orR_False JObj item_not_int_ok)
    then have "1 \<le> n" "m = 1" "fst ` set kvs = {''schema'', ''rollbackProtocol''}"
      using c by (simp_all add: check_data_def orR_False JObj item_iffs)
    then show "\<exists>n\<ge>1. sort_json v = JObj [(''rollbackProtocol'', JInt 1), (''schema'', JInt n)]"
      using nm sorted by blast
  next
    assume "\<exists>n\<ge>1. sort_json v = JObj [(''rollbackProtocol'', JInt 1), (''schema'', JInt n)]"
    then obtain n where "1 \<le> n" "fst ` set kvs = {''schema'', ''rollbackProtocol''}"
      "map_of kvs ''schema'' = Some (JInt n)" "map_of kvs ''rollbackProtocol'' = Some (JInt 1)"
      unfolding sorted by blast
    then show "check_data v = Inr False"
      by (simp add: check_data_def orR_False JObj item_iffs)
  qed
qed (auto simp: check_data_def ok_iff item_iffs)

lemma protocol_spec:
  assumes "wf_json v"
  shows "keys_differ v [''host'', ''worker''] = Inr False \<and> py_eq v protocol_v1 \<and>
      (case v of JObj kvs \<Rightarrow> Inr (list_ex (\<lambda>(k, v). \<not> is_int v) kvs) | _ \<Rightarrow> Inl AttributeErr) = Inr False \<longleftrightarrow>
    sort_json v = JObj [(''host'', JInt 1), (''worker'', JInt 1)]"
proof (cases v)
  case (JObj kvs)
  have d: "distinct (map fst kvs)" using assms JObj by simp
  have "sort_json v = JObj [(''host'', JInt 1), (''worker'', JInt 1)] \<longleftrightarrow> fst ` set kvs = {''host'', ''worker''} \<and>
      map_of kvs ''host'' = Some (JInt 1) \<and> map_of kvs ''worker'' = Some (JInt 1)"
    unfolding JObj using d by (subst sort_json_iff) (auto simp: less_eq_list_code insert_commute)
  note sorted = this
  show ?thesis
  proof
    assume c: "keys_differ v [''host'', ''worker''] = Inr False \<and> py_eq v protocol_v1 \<and>
      (case v of JObj kvs \<Rightarrow> Inr (list_ex (\<lambda>(k, v). \<not> is_int v) kvs) | _ \<Rightarrow> Inl AttributeErr) = Inr False"
    then have keys: "fst ` set kvs = {''host'', ''worker''}" by (simp add: JObj keys_differ_ok)
    have val: "map_of kvs k = Some (JInt 1)" if k: "k \<in> {''host'', ''worker''}" for k
    proof -
      have "k \<in> fst ` set kvs" using k by (simp only: keys)
      then obtain x where x: "(k, x) \<in> set kvs" by (auto simp del: insert_iff)
      then obtain i where i: "x = JInt i" using c by (fastforce simp: JObj list_ex_iff is_int_iff)
      have "\<forall>(k, x) \<in> set kvs. case map_of [(''host'', JInt 1), (''worker'', JInt 1)] k of None \<Rightarrow> False | Some w \<Rightarrow> py_eq x w"
        using c unfolding JObj protocol_v1_def py_eq.simps by (elim conjE) assumption
      then have "case map_of [(''host'', JInt 1), (''worker'', JInt 1)] k of None \<Rightarrow> False | Some w \<Rightarrow> py_eq x w"
        using x by (auto simp del: py_eq.simps map_of.simps)
      then have "py_eq x (JInt 1)" using k by auto
      then show ?thesis using x i d by (simp only: py_eq_int map_of_eq_Some_iff)
    qed
    show "sort_json v = JObj [(''host'', JInt 1), (''worker'', JInt 1)]"
      unfolding sorted using keys val by blast
  next
    assume "sort_json v = JObj [(''host'', JInt 1), (''worker'', JInt 1)]"
    then have s: "fst ` set kvs = {''host'', ''worker''}"
      "map_of kvs ''host'' = Some (JInt 1)" "map_of kvs ''worker'' = Some (JInt 1)" unfolding sorted by auto
    have val: "(k, x) \<in> set kvs \<Longrightarrow> k \<in> {''host'', ''worker''} \<and> x = JInt 1" for k x
    proof -
      assume kx: "(k, x) \<in> set kvs"
      then have "k \<in> fst ` set kvs" by (rule image_eqI[rotated]) simp
      then have "k \<in> {''host'', ''worker''}" by (simp only: s(1))
      moreover have "map_of kvs k = Some x" using kx d by simp
      ultimately show ?thesis using s(2,3) by auto
    qed
    have "length kvs = card (fst ` set kvs)" using d by (metis distinct_card length_map set_map)
    then have "length kvs = 2" by (simp add: s)
    moreover have "case map_of [(''host'', JInt 1), (''worker'', JInt 1)] k of None \<Rightarrow> False | Some w \<Rightarrow> py_eq x w"
      if "(k, x) \<in> set kvs" for k x using val[OF that] by auto
    ultimately have "py_eq v protocol_v1" unfolding JObj protocol_v1_def py_eq.simps by (auto simp del: py_eq.simps map_of.simps)
    moreover have "\<not> list_ex (\<lambda>(k, v). \<not> is_int v) kvs" using val by (fastforce simp: list_ex_iff is_int_def)
    ultimately show "keys_differ v [''host'', ''worker''] = Inr False \<and> py_eq v protocol_v1 \<and>
      (case v of JObj kvs \<Rightarrow> Inr (list_ex (\<lambda>(k, v). \<not> is_int v) kvs) | _ \<Rightarrow> Inl AttributeErr) = Inr False"
      using s(1) by (simp add: JObj keys_differ_ok)
  qed
qed (auto simp: protocol_v1_def)

lemma bad_capability_iff: "bad_capability x \<longleftrightarrow> (\<forall>s. x = JStr s \<longrightarrow> \<not> fullmatch rx_capability s)"
  by (cases x) (auto simp: bad_capability_def)

lemma requirements_spec:
  "check_requirements v = Inr False \<and>
     (case v of JList vs \<Rightarrow> Inr (list_ex bad_capability vs) | _ \<Rightarrow> Inl TypeErr) = Inr False \<longleftrightarrow>
   (\<exists>ss. distinct ss \<and> (\<forall>c \<in> set ss. fullmatch rx_capability c) \<and> sort_json v = JList (map JStr ss))"
  (is "?l \<longleftrightarrow> ?r")
proof
  assume l: ?l
  then obtain vs where v: "v = JList vs" by (cases v) auto
  have "\<forall>x \<in> set vs. \<exists>s. x = JStr s \<and> fullmatch rx_capability s"
    using l by (auto simp: v list_ex_iff bad_capability_iff)
  then obtain ss where ss: "vs = map JStr ss" "\<forall>c \<in> set ss. fullmatch rx_capability c"
    by (induction vs) (auto, metis list.simps(9) set_ConsD)
  then show ?r using l distinct_count_strs[of ss]
    by (auto simp: v check_requirements_def comp_def intro!: exI[of _ ss] split: if_splits)
next
  assume ?r
  then obtain ss where ss: "distinct ss" "\<forall>c \<in> set ss. fullmatch rx_capability c" "sort_json v = JList (map JStr ss)" by blast
  then obtain vs where v: "v = JList vs" by (cases v) auto
  have "vs = map JStr ss"
    using ss(3) unfolding v by (auto simp: list_eq_iff_nth_eq)
  then show ?l using ss distinct_count_strs[of ss]
    by (auto simp: v check_requirements_def list_all_iff list_ex_iff bad_capability_def hashable_def)
qed


lemma validate_parts:
  "validate_payload p = Inr () \<longleftrightarrow> (\<exists>kvs version channel release installer protocol requirements data.
    p = JObj kvs \<and> fst ` set kvs = set required_fields \<and>
    map_of kvs ''formatVersion'' = Some (JInt 1) \<and> map_of kvs ''version'' = Some (JStr version) \<and>
    map_of kvs ''channel'' = Some (JStr channel) \<and> map_of kvs ''release'' = Some release \<and>
    map_of kvs ''installer'' = Some installer \<and> map_of kvs ''protocol'' = Some protocol \<and>
    map_of kvs ''requirements'' = Some requirements \<and> map_of kvs ''data'' = Some data \<and>
    py_len version \<le> 128 \<and> fullmatch rx_version4 version \<and> channel \<in> {''stable'', ''beta'', ''internal''} \<and>
    check_release release (split_head ''+'' version) = Inr False \<and>
    (keys_differ installer [''name'', ''size'', ''sha256''] = Inr False \<and>
      check_installer installer (split_head ''+'' version) = Inr False \<and>
      item_no_match installer ''sha256'' (rx_hex 64) = Inr False) \<and>
    (keys_differ protocol [''host'', ''worker''] = Inr False \<and> py_eq protocol protocol_v1 \<and>
      (case protocol of JObj kvs \<Rightarrow> Inr (list_ex (\<lambda>(k, v). \<not> is_int v) kvs) | _ \<Rightarrow> Inl AttributeErr) = Inr False) \<and>
    (check_requirements requirements = Inr False \<and>
      (case requirements of JList vs \<Rightarrow> Inr (list_ex bad_capability vs) | _ \<Rightarrow> Inl TypeErr) = Inr False) \<and>
    check_data data = Inr False)" (is "?l \<longleftrightarrow> ?r")
proof
  assume l: ?l
  obtain version channel release short installer protocol requirements data where
    top: "keys_differ p required_fields = Inr False" "item_not_int p ''formatVersion'' = Inr False"
      "item_differs p ''formatVersion'' (JInt FORMAT_VERSION) = Inr False"
    and items: "item p ''version'' = Inr version" "item p ''channel'' = Inr channel" "item p ''release'' = Inr release"
      "item p ''installer'' = Inr installer" "item p ''protocol'' = Inr protocol"
      "item p ''requirements'' = Inr requirements" "item p ''data'' = Inr data" "short_version version = Inr short"
    and ver: "\<exists>n. len_of version = Inr n \<and> Inr (128 < n) = (Inr False :: bool res)"
      "\<exists>b. fullmatch_of rx_version4 version = Inr b \<and> Inr (\<not> b) = (Inr False :: bool res)"
      "\<exists>b. in_strs [''stable'', ''beta'', ''internal''] channel = Inr b \<and> Inr (\<not> b) = (Inr False :: bool res)"
    and parts: "check_release release short = Inr False"
      "keys_differ installer [''name'', ''size'', ''sha256''] = Inr False"
      "check_installer installer short = Inr False" "item_no_match installer ''sha256'' (rx_hex 64) = Inr False"
      "keys_differ protocol [''host'', ''worker''] = Inr False" "Inr (\<not> py_eq protocol protocol_v1) = (Inr False :: bool res)"
      "(case protocol of JObj kvs \<Rightarrow> Inr (list_ex (\<lambda>(k, v). \<not> is_int v) kvs) | _ \<Rightarrow> Inl AttributeErr) = Inr False"
      "check_requirements requirements = Inr False"
      "(case requirements of JList vs \<Rightarrow> Inr (list_ex bad_capability vs) | _ \<Rightarrow> Inl TypeErr) = Inr False"
      "check_data data = Inr False"
    using l unfolding validate_payload_def raise_if_ok orR_False bindR_ok
    by blast
  obtain kvs where p: "p = JObj kvs" using items(1) by (auto simp: item_ok)
  obtain v where v: "version = JStr v" "fullmatch rx_version4 v" using ver(2) by (auto simp: ok_iff fullmatch_of_ok)
  obtain c where c: "channel = JStr c" "c \<in> {''stable'', ''beta'', ''internal''}"
    using ver(3) by (auto simp: ok_iff in_strs_ok)
  obtain j where f: "map_of kvs ''formatVersion'' = Some (JInt j)" using top(2) by (auto simp: p item_not_int_ok)
  show ?r
    using p top(1,3) items parts v c f ver(1)
    by (auto simp: item_ok keys_differ_ok item_differs_int FORMAT_VERSION_def short_version_def len_of_def
        simp del: insert_iff)
next
  assume ?r
  then show ?l
  proof (elim exE conjE)
    fix kvs version channel release installer protocol requirements data
    assume p: "p = JObj kvs" and top: "fst ` set kvs = set required_fields" "map_of kvs ''formatVersion'' = Some (JInt 1)"
      and items: "map_of kvs ''version'' = Some (JStr version)" "map_of kvs ''channel'' = Some (JStr channel)"
        "map_of kvs ''release'' = Some release" "map_of kvs ''installer'' = Some installer"
        "map_of kvs ''protocol'' = Some protocol" "map_of kvs ''requirements'' = Some requirements"
        "map_of kvs ''data'' = Some data"
      and ver: "py_len version \<le> 128" "fullmatch rx_version4 version" "channel \<in> {''stable'', ''beta'', ''internal''}"
      and parts: "check_release release (split_head ''+'' version) = Inr False"
        "keys_differ installer [''name'', ''size'', ''sha256''] = Inr False"
        "check_installer installer (split_head ''+'' version) = Inr False"
        "item_no_match installer ''sha256'' (rx_hex 64) = Inr False"
        "keys_differ protocol [''host'', ''worker''] = Inr False" "py_eq protocol protocol_v1"
        "(case protocol of JObj kvs \<Rightarrow> Inr (list_ex (\<lambda>(k, v). \<not> is_int v) kvs) | _ \<Rightarrow> Inl AttributeErr) = Inr False"
        "check_requirements requirements = Inr False"
        "(case requirements of JList vs \<Rightarrow> Inr (list_ex bad_capability vs) | _ \<Rightarrow> Inl TypeErr) = Inr False"
        "check_data data = Inr False"
    have "keys_differ p required_fields = Inr False" using p top by (simp add: keys_differ_ok)
    moreover have "item_differs p ''formatVersion'' (JInt 1) = Inr False" using p top by (simp add: item_differs_int)
    moreover have "in_strs [''stable'', ''beta'', ''internal''] (JStr channel) = Inr True"
      using ver(3) by (simp add: in_strs_def hashable_def)
    ultimately show ?l
      using p top items ver parts by (simp add: validate_payload_def item_def item_not_int_def FORMAT_VERSION_def
          fullmatch_of_def short_version_def len_of_def is_int_def del: insert_iff)
  qed
qed

lemma digits_ascii: "list_all is_digit s \<Longrightarrow> list_all visible s"
  by (auto simp: list_all_iff is_digit_visible)

lemma version4_visible: "fullmatch rx_version4 v \<Longrightarrow> list_all visible v"
  by (auto simp: match_version4 match_version3 match_digits visible_def dest!: digits_ascii)

lemma py_len_visible: "list_all visible s \<Longrightarrow> py_len s = length s"
  by (induction s) (auto simp: py_len_def visible_def continuation_def Let_def)

definition manifest_fields :: "string \<Rightarrow> string \<Rightarrow> json \<Rightarrow> json \<Rightarrow> json \<Rightarrow> json \<Rightarrow> json \<Rightarrow> (string \<times> json) list" where
  "manifest_fields version channel data installer protocol release requirements =
     [(''channel'', JStr channel), (''data'', data), (''formatVersion'', JInt 1), (''installer'', installer),
      (''protocol'', protocol), (''release'', release), (''requirements'', requirements), (''version'', JStr version)]"

lemma sorted_fields:
  assumes "distinct (map fst kvs)"
  shows "sort_json (JObj kvs) = JObj (manifest_fields version channel data installer protocol release requirements) \<longleftrightarrow>
    fst ` set kvs = set required_fields \<and> map_of kvs ''formatVersion'' = Some (JInt 1) \<and>
    map_of kvs ''version'' = Some (JStr version) \<and> map_of kvs ''channel'' = Some (JStr channel) \<and>
    (\<exists>x. map_of kvs ''release'' = Some x \<and> sort_json x = release) \<and>
    (\<exists>x. map_of kvs ''installer'' = Some x \<and> sort_json x = installer) \<and>
    (\<exists>x. map_of kvs ''protocol'' = Some x \<and> sort_json x = protocol) \<and>
    (\<exists>x. map_of kvs ''requirements'' = Some x \<and> sort_json x = requirements) \<and>
    (\<exists>x. map_of kvs ''data'' = Some x \<and> sort_json x = data)"
proof -
  have k: "fst ` set (manifest_fields version channel data installer protocol release requirements) = set required_fields"
    by (simp add: manifest_fields_def required_fields_def insert_commute)
  have s: "sorted (map fst (manifest_fields version channel data installer protocol release requirements))"
    "distinct (map fst (manifest_fields version channel data installer protocol release requirements))"
    by (simp_all add: manifest_fields_def less_eq_list_code)
  show ?thesis unfolding sort_json_iff[OF assms s] k
    by (simp add: manifest_fields_def all_conj_distrib imp_disjL conj_ac cong: conj_cong)
qed

lemma validate_payload_spec:
  assumes "wf_json p"
  shows "validate_payload p = Inr () \<longleftrightarrow> (\<exists>m. manifest_ok m \<and> sort_json p = manifest_json m)" (is "?l \<longleftrightarrow> ?r")
proof -
  have mj: "manifest_json m = JObj (manifest_fields (mf_version m) (mf_channel m)
     (JObj [(''rollbackProtocol'', JInt 1), (''schema'', JInt (mf_schema m))])
     (JObj [(''name'', JStr (''PlugAgente-Setup-'' @ split_head ''+'' (mf_version m) @ ''.exe'')),
          (''sha256'', JStr (mf_sha256 m)), (''size'', JInt (mf_size m))])
     (JObj [(''host'', JInt 1), (''worker'', JInt 1)])
     (JObj [(''commit'', JStr (mf_commit m)), (''tag'', JStr (''v'' @ split_head ''+'' (mf_version m)))])
     (JList (map JStr (mf_requirements m))))" for m
    by (simp add: manifest_json_def manifest_fields_def Let_def)
  show ?thesis
  proof
    assume ?l
    then obtain kvs version channel release installer protocol requirements data where
      p: "p = JObj kvs" and top: "fst ` set kvs = set required_fields"
      "map_of kvs ''formatVersion'' = Some (JInt 1)" "map_of kvs ''version'' = Some (JStr version)"
      "map_of kvs ''channel'' = Some (JStr channel)"
      and items: "map_of kvs ''release'' = Some release"
      "map_of kvs ''installer'' = Some installer" "map_of kvs ''protocol'' = Some protocol"
      "map_of kvs ''data'' = Some data" "map_of kvs ''requirements'' = Some requirements"
      and ver: "py_len version \<le> 128" "fullmatch rx_version4 version" "channel \<in> {''stable'', ''beta'', ''internal''}"
      and parts: "check_release release (split_head ''+'' version) = Inr False" "keys_differ installer [''name'', ''size'', ''sha256''] = Inr False \<and>
      check_installer installer (split_head ''+'' version) = Inr False \<and> item_no_match installer ''sha256'' (rx_hex 64) = Inr False"
      "keys_differ protocol [''host'', ''worker''] = Inr False \<and> py_eq protocol protocol_v1 \<and>
      (case protocol of JObj kvs \<Rightarrow> Inr (list_ex (\<lambda>(k, v). \<not> is_int v) kvs) | _ \<Rightarrow> Inl AttributeErr) = Inr False"
      "check_requirements requirements = Inr False \<and>
      (case requirements of JList vs \<Rightarrow> Inr (list_ex bad_capability vs) | _ \<Rightarrow> Inl TypeErr) = Inr False"
      "check_data data = Inr False" unfolding validate_parts by (elim exE conjE) (rule that, (assumption | rule conjI)+)
    note wf = assms[unfolded p, THEN wf_json_field]
    obtain c where c: "length c = 40" "list_all is_hex c"
      "sort_json release = JObj [(''commit'', JStr c), (''tag'', JStr (''v'' @ split_head ''+'' version))]"
      using parts(1) release_spec[OF wf[OF items(1)]] by auto
    obtain n h where nh: "1 \<le> n" "is_sha256 h" "sort_json installer =
        JObj [(''name'', JStr (''PlugAgente-Setup-'' @ split_head ''+'' version @ ''.exe'')), (''sha256'', JStr h), (''size'', JInt n)]"
      using parts(2) unfolding installer_spec[OF wf[OF items(2)]] by blast
    obtain k where k: "1 \<le> k" "sort_json data = JObj [(''rollbackProtocol'', JInt 1), (''schema'', JInt k)]"
      using parts(5) data_spec[OF wf[OF items(4)]] by auto
    obtain ss where ss: "distinct ss" "\<forall>c \<in> set ss. fullmatch rx_capability c" "sort_json requirements = JList (map JStr ss)"
      using parts(4) unfolding requirements_spec by blast
    define m where "m = \<lparr>mf_version = version, mf_channel = channel, mf_size = n, mf_sha256 = h,
      mf_requirements = ss, mf_schema = k, mf_commit = c\<rparr>"
    have "manifest_ok m" using ver c(1,2) nh(1,2) k(1) ss(1,2)
      by (simp add: manifest_ok_def m_def py_len_visible version4_visible)
    moreover have "sort_json p = manifest_json m"
      using p assms top items c(3) nh(3) k(2) ss(3) parts(3) protocol_spec[OF wf[OF items(3)]]
      unfolding mj p by (subst sorted_fields) (simp_all add: m_def)
    ultimately show ?r by blast
  next
    assume ?r
    then obtain m where m: "manifest_ok m" "sort_json p = manifest_json m" by blast
    then obtain kvs where p: "p = JObj kvs" unfolding mj by (auto elim: sort_json_objE)
    have d: "distinct (map fst kvs)" using assms by (simp add: p)
    from m(2)[unfolded p mj sorted_fields[OF d]] obtain release installer protocol requirements data where
      top: "fst ` set kvs = set required_fields" "map_of kvs ''formatVersion'' = Some (JInt 1)"
        "map_of kvs ''version'' = Some (JStr (mf_version m))" "map_of kvs ''channel'' = Some (JStr (mf_channel m))"
      and items: "map_of kvs ''release'' = Some release" "map_of kvs ''installer'' = Some installer"
        "map_of kvs ''protocol'' = Some protocol" "map_of kvs ''data'' = Some data"
        "map_of kvs ''requirements'' = Some requirements"
      and parts: "sort_json release = JObj [(''commit'', JStr (mf_commit m)), (''tag'', JStr (''v'' @ split_head ''+'' (mf_version m)))]"
        "sort_json installer = JObj [(''name'', JStr (''PlugAgente-Setup-'' @ split_head ''+'' (mf_version m) @ ''.exe'')),
          (''sha256'', JStr (mf_sha256 m)), (''size'', JInt (mf_size m))]"
        "sort_json protocol = JObj [(''host'', JInt 1), (''worker'', JInt 1)]"
        "sort_json data = JObj [(''rollbackProtocol'', JInt 1), (''schema'', JInt (mf_schema m))]"
        "sort_json requirements = JList (map JStr (mf_requirements m))" by blast
    note wf = assms[unfolded p, THEN wf_json_field]
    note ok = m(1)[unfolded manifest_ok_def]
    have "check_release release (split_head ''+'' (mf_version m)) = Inr False"
      unfolding release_spec[OF wf[OF items(1)]] using ok parts(1) by blast
    moreover have "keys_differ installer [''name'', ''size'', ''sha256''] = Inr False \<and>
        check_installer installer (split_head ''+'' (mf_version m)) = Inr False \<and>
        item_no_match installer ''sha256'' (rx_hex 64) = Inr False"
      unfolding installer_spec[OF wf[OF items(2)]] using ok parts(2) by blast
    moreover have "check_data data = Inr False"
      unfolding data_spec[OF wf[OF items(4)]] using ok parts(4) by blast
    moreover have "check_requirements requirements = Inr False \<and>
        (case requirements of JList vs \<Rightarrow> Inr (list_ex bad_capability vs) | _ \<Rightarrow> Inl TypeErr) = Inr False"
      unfolding requirements_spec using ok parts(5) by blast
    moreover have "py_len (mf_version m) \<le> 128" using ok by (simp add: py_len_visible version4_visible)
    ultimately show ?l
      unfolding validate_parts using p top items ok parts(3) protocol_spec[OF wf[OF items(3)]] by blast
  qed
qed


subsection \<open>The canonical bytes\<close>

lemma hook_json_id: "wf_json v \<Longrightarrow> hook_json v = Inr v"
proof (induction v)
  case (JObj kvs)
  have "mapR (\<lambda>(k, v). bindR (hook_json v) (\<lambda>w. Inr (k, w))) kvs = Inr kvs"
    using JObj by (fastforce simp: mapR_ok list_all2_same list_all_iff)
  then show ?case using JObj.prems by (simp add: unique_object_def)
next
  case (JList vs)
  then have "mapR hook_json vs = Inr vs" by (auto simp: mapR_ok list_all2_same list_all_iff)
  then show ?case by simp
qed auto

lemma hook_json_wf: "hook_json v = Inr w \<Longrightarrow> w = v \<and> wf_json v"
proof (induction v arbitrary: w)
  case (JObj kvs)
  then obtain ws where ws: "list_all2 (\<lambda>x p. \<exists>u. hook_json (snd x) = Inr u \<and> (fst x, u) = p) kvs ws"
      "distinct (map fst ws)" "w = JObj ws"
    by (auto simp: ok_iff mapR_ok unique_object_def case_prod_beta split: if_splits)
  have "list_all2 (\<lambda>p q. q = p \<and> wf_json (snd p)) kvs ws"
    using ws(1) by (rule list.rel_mono_strong) (use JObj.IH in \<open>fastforce\<close>)
  then have "ws = kvs" "list_all (\<lambda>(k, v). wf_json v) kvs"
    by (induction rule: list_all2_induct) auto
  then show ?case using ws by simp
next
  case (JList vs)
  then obtain ws where ws: "list_all2 (\<lambda>v u. hook_json v = Inr u) vs ws" "w = JList ws"
    by (auto simp: ok_iff mapR_ok)
  have "list_all2 (\<lambda>v u. u = v \<and> wf_json v) vs ws"
    using ws(1) by (rule list.rel_mono_strong) (use JList.IH in \<open>fastforce\<close>)
  then have "ws = vs" "list_all wf_json vs" by (induction rule: list_all2_induct) auto
  then show ?case using ws by simp
qed auto

lemma digits_ok_writable: "digits_ok v \<Longrightarrow> ascii_json v \<Longrightarrow> writable v"
proof (induction v)
  case (JObj kvs)
  then show ?case by (fastforce simp: list_all_iff)
qed (auto simp: list_all_iff)

lemma digits_ok_sort [simp]: "digits_ok (sort_json v) = digits_ok v"
proof (induction v)
  case (JObj kvs)
  have "digits_ok (sort_json (JObj kvs)) \<longleftrightarrow> (\<forall>(k, v) \<in> set kvs. digits_ok (sort_json v))"
    by (auto simp: list_all_iff)
  also have "\<dots> \<longleftrightarrow> (\<forall>(k, v) \<in> set kvs. digits_ok v)" using JObj by fastforce
  finally show ?case by (simp add: list_all_iff)
next
  case (JList vs)
  then show ?case by (auto simp: list_all_iff)
qed auto

lemma capability_ascii: "fullmatch rx_capability c \<Longrightarrow> ascii c"
proof -
  assume "fullmatch rx_capability c"
  then obtain a t where "c = a # t" "lower_letter a"
    "list_all (\<lambda>c. lower_letter c \<or> is_digit c \<or> c = CHR ''.'' \<or> c = CHR ''_'' \<or> c = CHR ''-'') t"
    unfolding fullmatch_iff rx_capability_def seq_cls match_upto_cls by blast
  then show ?thesis
    by (auto simp: ascii_def list_all_iff lower_letter_def is_digit_def Let_def)
qed

lemma short_visible: "fullmatch rx_version4 v \<Longrightarrow> ascii (split_head ''+'' v)"
proof -
  assume v: "fullmatch rx_version4 v"
  then have "ascii v" by (simp add: visible_ascii version4_visible)
  then show ?thesis unfolding split_head_def
    by (auto split: option.split dest!: str_cut_Some)
qed

lemma manifest_json_facts:
  assumes "manifest_ok m"
  shows "ascii_json (manifest_json m)" "wf_json (manifest_json m)" "sort_json (manifest_json m) = manifest_json m"
proof -
  have "ascii (mf_channel m)" using assms by (auto simp: manifest_ok_def)
  moreover have "ascii (mf_sha256 m)" "ascii (mf_commit m)"
    using assms by (auto simp: manifest_ok_def is_sha256_def list_all_iff is_hex_visible intro!: visible_ascii)
  moreover have "ascii (mf_version m)" "ascii (split_head ''+'' (mf_version m))"
    using assms by (auto simp: manifest_ok_def visible_ascii version4_visible short_visible)
  moreover have "\<forall>c \<in> set (mf_requirements m). ascii c" using assms by (simp add: manifest_ok_def capability_ascii)
  ultimately show "ascii_json (manifest_json m)"
    by (simp add: manifest_json_def Let_def list_all_iff)
  show "wf_json (manifest_json m)" by (simp add: manifest_json_def Let_def list_all_iff)
  show "sort_json (manifest_json m) = manifest_json m"
    by (simp add: manifest_json_def Let_def sort_key_def less_eq_list_code)
qed

lemma canonical_spec:
  assumes "wf_json p"
  shows "canonical_payload p = Inr raw \<longleftrightarrow> (\<exists>m. manifest_ok m \<and> sort_json p = manifest_json m \<and>
    digits_ok p \<and> raw = dumps_compact (manifest_json m))" (is "?l \<longleftrightarrow> ?r")
proof -
  have e: "encode_utf8 (dumps_compact (manifest_json m)) = Inr (dumps_compact (manifest_json m))" if "manifest_ok m" for m
    using manifest_json_facts(1)[OF that] by (simp add: encode_utf8_def ascii_no_surrogate ascii_dumps)
  show ?thesis
  proof
    assume l: ?l
    then obtain m where m: "manifest_ok m" "sort_json p = manifest_json m"
      using validate_payload_spec[OF assms] by (auto simp: canonical_payload_def ok_iff)
    then show ?r using l e[OF m(1)] by (auto simp: canonical_payload_def ok_iff)
  next
    assume ?r
    then obtain m where m: "manifest_ok m" "sort_json p = manifest_json m" "digits_ok p"
      "raw = dumps_compact (manifest_json m)" by blast
    then have "validate_payload p = Inr ()" using validate_payload_spec[OF assms] by blast
    then show ?l using m e[OF m(1)] by (simp add: canonical_payload_def)
  qed
qed

lemma loads_canonical:
  assumes "manifest_ok m" "digits_ok (manifest_json m)"
  shows "loads_unique (dumps_compact (manifest_json m)) = Inr (manifest_json m)"
proof -
  note f = manifest_json_facts[OF assms(1)]
  have w: "writable (manifest_json m)" using assms(2) f(1) by (rule digits_ok_writable)
  have a: "ascii (dumps_compact (manifest_json m))" using f(1) by (simp add: ascii_dumps)
  obtain t where t: "dumps_compact (manifest_json m) = CHR ''{'' # CHR 0x22 # t"
    by (simp add: manifest_json_def Let_def json_quote_def)
  have "reads_as_utf8 (dumps_compact (manifest_json m))"
    using a ascii_utf8[OF a] by (simp add: t reads_as_utf8_def startswith_def)
  then show ?thesis
    using parse_dumps[OF json_seps_compact(1) w] hook_json_id[OF f(2)] by (simp add: loads_unique_def)
qed


subsection \<open>Verifying\<close>

text \<open>The bytes that a trusted key may sign\<close>

definition canonical_of :: "manifest \<Rightarrow> bytes \<Rightarrow> bool" where
  "canonical_of m raw \<longleftrightarrow> manifest_ok m \<and> digits_ok (manifest_json m) \<and> raw = dumps_compact (manifest_json m)"

lemma loads_canonical_iff:
  "(\<exists>p. loads_unique raw = Inr p \<and> canonical_payload p = Inr raw \<and> q = p) \<longleftrightarrow>
     (\<exists>m. canonical_of m raw \<and> q = manifest_json m)"
proof
  assume "\<exists>p. loads_unique raw = Inr p \<and> canonical_payload p = Inr raw \<and> q = p"
  then obtain v where l: "parse_json raw = Some v" "hook_json v = Inr q" and c: "canonical_payload q = Inr raw"
    by (auto simp: loads_unique_def ok_iff)
  then have v: "v = q" "wf_json q" using hook_json_wf by auto
  then obtain m where m: "manifest_ok m" "sort_json q = manifest_json m" "digits_ok q" "raw = dumps_compact (manifest_json m)"
    using c canonical_spec by blast
  have d: "digits_ok (manifest_json m)" using m(2,3) by (metis digits_ok_sort)
  have "parse_json raw = Some (manifest_json m)"
    using parse_dumps[OF json_seps_compact(1) digits_ok_writable[OF d manifest_json_facts(1)[OF m(1)]]] m(4) by simp
  then have "q = manifest_json m" using l v by simp
  then show "\<exists>m. canonical_of m raw \<and> q = manifest_json m" using m d by (auto simp: canonical_of_def)
next
  assume "\<exists>m. canonical_of m raw \<and> q = manifest_json m"
  then obtain m where m: "canonical_of m raw" "q = manifest_json m" by blast
  then have "canonical_payload q = Inr raw"
    using canonical_spec[OF manifest_json_facts(2)] manifest_json_facts(3) by (auto simp: canonical_of_def)
  then show "\<exists>p. loads_unique raw = Inr p \<and> canonical_payload p = Inr raw \<and> q = p"
    using loads_canonical m by (auto simp: canonical_of_def)
qed

lemma public_from_ok [ok_iff]: "public_from k = Inr x \<longleftrightarrow> length k = 32 \<and> x = k"
  by (auto simp: public_from_def)

lemma private_from_ok [ok_iff]: "private_from k = Inr x \<longleftrightarrow> length k = 32 \<and> x = k"
  by (auto simp: private_from_def)

lemma check_signature_ok [ok_iff]: "check_signature E k s m = Inr x \<longleftrightarrow> ed_verify E k s m"
  by (auto simp: check_signature_def)

lemma try_key_ok:
  "try_key E raw sig key = Inr p \<longleftrightarrow> (\<exists>kb m. b64decode True key = Some kb \<and> length kb = 32 \<and>
     ed_verify E kb sig raw \<and> canonical_of m raw \<and> p = manifest_json m)"
proof -
  have "try_key E raw sig key = Inr p \<longleftrightarrow> (\<exists>kb. b64decode True key = Some kb \<and> length kb = 32 \<and>
      ed_verify E kb sig raw) \<and> (\<exists>q. loads_unique raw = Inr q \<and> canonical_payload q = Inr raw \<and> p = q)"
    unfolding try_key_def ok_iff by auto
  then show ?thesis unfolding loads_canonical_iff by blast
qed

lemma reraised_value: "reraised (ValueErr msg)"
  by (simp add: reraised_def)

lemma verify_keys_stop:
  "try_key E raw sig key = Inl e \<Longrightarrow> reraised e \<Longrightarrow> verify_keys E raw sig (key # keys) = Inl e"
  by simp

lemma verify_keys_sound:
  "verify_keys E raw sig keys = Inr p \<Longrightarrow> \<exists>key \<in> set keys. try_key E raw sig key = Inr p"
  by (induction keys) (auto split: sum.splits if_splits)

lemma verify_keys_complete:
  assumes "canonical_of m raw" "try_key E raw sig key = Inr (manifest_json m)"
    "\<forall>k \<in> set pre. \<exists>kb. b64decode True k = Some kb \<and> length kb = 32"
  shows "verify_keys E raw sig (pre @ key # post) = Inr (manifest_json m)"
  using assms(3)
proof (induction pre)
  case (Cons k pre)
  then obtain kb where kb: "b64decode True k = Some kb" "length kb = 32" by auto
  show ?case
  proof (cases "ed_verify E kb sig raw")
    case True
    then have "try_key E raw sig k = Inr (manifest_json m)" using kb assms(1) try_key_ok by blast
    then show ?thesis by simp
  next
    case False
    then have "try_key E raw sig k = Inl InvalidSignature"
      using kb by (simp add: try_key_def public_from_def check_signature_def)
    then show ?thesis using Cons by (simp add: reraised_def)
  qed
qed (use assms in simp)

lemma b64_item_ok: "b64_item v k = Inr b \<longleftrightarrow> (\<exists>kvs s. v = JObj kvs \<and> map_of kvs k = Some (JStr s) \<and> b64decode True s = Some b)"
proof -
  have "(case x of JStr s \<Rightarrow> of_option e (b64decode True s) | _ \<Rightarrow> Inl TypeErr) = Inr b \<longleftrightarrow>
      (\<exists>s. x = JStr s \<and> b64decode True s = Some b)" for x e by (cases x) (auto simp: ok_iff)
  then show ?thesis by (auto simp: b64_item_def ok_iff item_ok)
qed

text \<open>What a client accepts: an envelope whose payload bytes are the canonical form of a valid manifest
  and whose signature one of the trusted keys verifies.\<close>

definition accepted :: "ed25519 \<Rightarrow> json \<Rightarrow> string list \<Rightarrow> manifest \<Rightarrow> bool" where
  "accepted E envelope keys m \<longleftrightarrow> (\<exists>raw sig key kb.
     b64_item envelope ''payloadBase64'' = Inr raw \<and> b64_item envelope ''signatureBase64'' = Inr sig \<and>
     length raw \<le> MAX_ENVELOPE_BYTES \<and> length sig = 64 \<and>
     key \<in> set keys \<and> b64decode True key = Some kb \<and> length kb = 32 \<and> ed_verify E kb sig raw \<and> canonical_of m raw)"

lemma verify_accepts:
  assumes "verify E envelope keys = Inr p"
  shows "\<exists>m. accepted E envelope keys m \<and> manifest_ok m \<and> p = manifest_json m"
proof -
  obtain raw sig where rs: "b64_item envelope ''payloadBase64'' = Inr raw" "b64_item envelope ''signatureBase64'' = Inr sig"
    "length raw \<le> MAX_ENVELOPE_BYTES" "length sig = 64" "verify_keys E raw sig keys = Inr p"
    using assms by (auto simp: verify_def ok_iff)
  then obtain key where "key \<in> set keys" "try_key E raw sig key = Inr p" using verify_keys_sound by blast
  then show ?thesis using rs unfolding try_key_ok accepted_def canonical_of_def by blast
qed

lemma sign_ok:
  assumes "wf_json p"
  shows "sign E p key = Inr envelope \<longleftrightarrow> (\<exists>m seed. manifest_ok m \<and> sort_json p = manifest_json m \<and> digits_ok p \<and>
    b64decode True key = Some seed \<and> length seed = 32 \<and>
    envelope = JObj [(''formatVersion'', JInt 1), (''payloadBase64'', JStr (b64encode (dumps_compact (manifest_json m)))),
      (''signatureBase64'', JStr (b64encode (ed_sign E seed (dumps_compact (manifest_json m)))))])"
  unfolding sign_def bindR_ok canonical_spec[OF assms] of_option_ok private_from_ok FORMAT_VERSION_def by auto

lemma verify_envelope:
  assumes "canonical_of m raw" "length raw \<le> MAX_ENVELOPE_BYTES" "length sig = 64"
    "b64decode True key = Some kb" "length kb = 32" "ed_verify E kb sig raw"
    "\<forall>k \<in> set pre. \<exists>kb. b64decode True k = Some kb \<and> length kb = 32"
  shows "verify E (JObj [(''formatVersion'', JInt 1), (''payloadBase64'', JStr (b64encode raw)),
      (''signatureBase64'', JStr (b64encode sig))]) (pre @ key # post) = Inr (manifest_json m)"
proof -
  have "try_key E raw sig key = Inr (manifest_json m)" using assms try_key_ok by blast
  then have "verify_keys E raw sig (pre @ key # post) = Inr (manifest_json m)"
    using assms verify_keys_complete by blast
  then show ?thesis using assms(2,3)
    by (simp add: verify_def keys_differ_def set_of_def same_keys_def item_not_int_def item_differs_def item_def
        is_int_def FORMAT_VERSION_def b64_item_def)
qed

lemma short_length: "length (split_head p s) \<le> length s"
  by (auto simp: split_head_def split: option.split dest!: str_cut_Some)

text \<open>The payload written by \<open>main\<close> never exceeds the size limit.\<close>

lemma quote_length: "length (json_quote s) \<le> 6 * length s + 2"
proof -
  have "length (json_esc c) \<le> 6" for c by (simp add: json_esc_def)
  then have "length (concat (map json_esc s)) \<le> 6 * length s"
    by (induction s) (auto intro: add_le_mono)
  then show ?thesis by (simp add: json_quote_def)
qed

lemma int_length: "length (nat_str (nat \<bar>i\<bar>)) \<le> 4300 \<Longrightarrow> length (str_int i) \<le> 4301"
  by (auto simp: str_int_def)

lemma default_requirements:
  "length (join '','' (map (dumps '','' '':'' \<circ> JStr) DEFAULT_CAPABILITIES)) \<le> 100"
  by (simp add: DEFAULT_CAPABILITIES_def json_quote_def json_esc_def)

lemma default_payload_length:
  assumes "manifest_ok m" "digits_ok (manifest_json m)" "mf_requirements m = DEFAULT_CAPABILITIES"
  shows "length (dumps_compact (manifest_json m)) \<le> 13000"
proof -
  have v: "length (mf_version m) \<le> 128" "length (mf_sha256 m) = 64" "length (mf_commit m) = 40"
    "length (mf_channel m) \<le> 8" using assms(1) by (auto simp: manifest_ok_def is_sha256_def)
  let ?s = "split_head ''+'' (mf_version m)"
  have s: "length ?s \<le> 128" using short_length[of "''+''" "mf_version m"] v(1) by linarith
  have i: "length (str_int (mf_size m)) \<le> 4301" "length (str_int (mf_schema m)) \<le> 4301"
    using assms(2) by (auto simp: manifest_json_def Let_def int_length)
  have one: "length (str_int 1) = 1" by (simp add: str_int_def nat_str.simps)
  have q: "length (json_quote (mf_channel m)) \<le> 50" "length (json_quote (mf_sha256 m)) \<le> 386"
    "length (json_quote (mf_commit m)) \<le> 242" "length (json_quote (mf_version m)) \<le> 770"
    "length (json_quote (''PlugAgente-Setup-'' @ ?s @ ''.exe'')) \<le> 896" "length (json_quote (''v'' @ ?s)) \<le> 776"
    using v s quote_length[of "mf_channel m"] quote_length[of "mf_sha256 m"] quote_length[of "mf_commit m"]
      quote_length[of "mf_version m"] quote_length[of "''PlugAgente-Setup-'' @ ?s @ ''.exe''"] quote_length[of "''v'' @ ?s"]
    by auto
  have k: "length (json_quote ''channel'') = 9" "length (json_quote ''data'') = 6" "length (json_quote ''formatVersion'') = 15"
    "length (json_quote ''installer'') = 11" "length (json_quote ''protocol'') = 10" "length (json_quote ''release'') = 9"
    "length (json_quote ''requirements'') = 14" "length (json_quote ''version'') = 9" "length (json_quote ''rollbackProtocol'') = 18"
    "length (json_quote ''schema'') = 8" "length (json_quote ''name'') = 6" "length (json_quote ''sha256'') = 8"
    "length (json_quote ''size'') = 6" "length (json_quote ''host'') = 6" "length (json_quote ''worker'') = 8"
    "length (json_quote ''commit'') = 8" "length (json_quote ''tag'') = 5"
    by (simp_all add: json_quote_def json_esc_def)
  show ?thesis
    using i q default_requirements unfolding manifest_json_def Let_def assms(3)
    by (simp add: one k del: append_assoc)
qed


subsection \<open>The command line and the release check\<close>

definition cli_manifest :: "bytes \<Rightarrow> string \<Rightarrow> string \<Rightarrow> int \<Rightarrow> string \<Rightarrow> manifest" where
  "cli_manifest content version channel schema commit =
     \<lparr>mf_version = version, mf_channel = channel, mf_size = int (length content), mf_sha256 = sha256_hex content,
      mf_requirements = DEFAULT_CAPABILITIES, mf_schema = schema, mf_commit = commit\<rparr>"

lemma cli_payload:
  "wf_json (manifest_payload name content version channel schema commit)"
  "sort_json (manifest_payload name content version channel schema commit) = manifest_json m \<Longrightarrow>
     m = cli_manifest content version channel schema commit"
proof -
  show "wf_json (manifest_payload name content version channel schema commit)"
    by (simp add: manifest_payload_def list_all_iff)
  assume "sort_json (manifest_payload name content version channel schema commit) = manifest_json m"
  then have "channel = mf_channel m" "schema = mf_schema m" "sha256_hex content = mf_sha256 m"
    "int (length content) = mf_size m" "commit = mf_commit m" "version = mf_version m"
    "map JStr DEFAULT_CAPABILITIES = map JStr (mf_requirements m)"
    by (simp_all add: manifest_payload_def manifest_json_def Let_def sort_key_def less_eq_list_code comp_def)
  then show "m = cli_manifest content version channel schema commit"
    by (auto simp: cli_manifest_def dest: map_injective[OF _ injI])
qed

lemma sort_envelope:
  "sort_json (JObj [(''formatVersion'', JInt a), (''payloadBase64'', JStr b), (''signatureBase64'', JStr c)]) =
     JObj [(''formatVersion'', JInt a), (''payloadBase64'', JStr b), (''signatureBase64'', JStr c)]"
  by (simp add: sort_key_def less_eq_list_code)

lemma b64_length: "3 * length (b64encode bs) \<le> 4 * length bs + 8"
  by (induction bs rule: b64encode.induct) (auto simp: Let_def add.commute)

definition envelope_json :: "bytes \<Rightarrow> bytes \<Rightarrow> json" where
  "envelope_json raw sig = JObj [(''formatVersion'', JInt 1), (''payloadBase64'', JStr (b64encode raw)),
      (''signatureBase64'', JStr (b64encode sig))]"

lemma manifest_main_ok:
  assumes "manifest_main E key fs installer version channel schema commit = Inr out"
  shows "\<exists>content raw seed. fs installer = Some content \<and> b64decode True key = Some seed \<and> length seed = 32 \<and>
    canonical_of (cli_manifest content version channel schema commit) raw \<and> length raw \<le> 13000 \<and>
    out = dumps_compact (envelope_json raw (ed_sign E seed raw)) @ newline"
proof -
  obtain content env where c: "fs installer = Some content"
    "sign E (manifest_payload (base_name installer) content version channel schema commit) key = Inr env"
    "out = dumps_compact (sort_json env) @ newline"
    using assms unfolding manifest_main_def read_file_def ok_iff by auto
  obtain m seed where m: "manifest_ok m" "sort_json (manifest_payload (base_name installer) content version channel schema commit) = manifest_json m"
    "digits_ok (manifest_payload (base_name installer) content version channel schema commit)"
    "b64decode True key = Some seed" "length seed = 32"
    "env = envelope_json (dumps_compact (manifest_json m)) (ed_sign E seed (dumps_compact (manifest_json m)))"
    using c(2) unfolding sign_ok[OF cli_payload(1)] envelope_json_def by blast
  have me: "m = cli_manifest content version channel schema commit" using m(2) by (rule cli_payload(2))
  have "digits_ok (manifest_json m)" using m(2,3) by (metis digits_ok_sort)
  moreover from this have "length (dumps_compact (manifest_json m)) \<le> 13000"
    using default_payload_length[OF m(1)] by (simp add: me cli_manifest_def)
  moreover have "sort_json env = env" by (simp only: m(6) envelope_json_def sort_envelope)
  ultimately show ?thesis using c m(1,4,5,6) me unfolding canonical_of_def by auto
qed

lemma manifest_text:
  assumes "length raw \<le> 13000" "length sig = 64"
  shows "length (dumps_compact (envelope_json raw sig) @ newline) \<le> 131072"
    "decode_text (dumps_compact (envelope_json raw sig) @ newline) = Inr (dumps_compact (envelope_json raw sig) @ newline)"
    "json_loads (dumps_compact (envelope_json raw sig) @ newline) = Inr (envelope_json raw sig)"
proof -
  have "length (json_quote (b64encode raw)) \<le> 104034" "length (json_quote (b64encode sig)) \<le> 530"
    using assms b64_length[of raw] b64_length[of sig] quote_length[of "b64encode raw"] quote_length[of "b64encode sig"]
    by linarith+
  moreover have "length (json_quote ''formatVersion'') = 15" "length (json_quote ''payloadBase64'') = 15"
    "length (json_quote ''signatureBase64'') = 17" "length (str_int 1) = 1"
    by (simp_all add: json_quote_def json_esc_def str_int_def nat_str.simps)
  ultimately show "length (dumps_compact (envelope_json raw sig) @ newline) \<le> 131072"
    by (simp add: envelope_json_def)
  have a: "ascii_json (envelope_json raw sig)" by (simp add: envelope_json_def visible_ascii b64encode_visible)
  then have "ascii (dumps_compact (envelope_json raw sig) @ newline)" by (simp add: ascii_dumps)
  moreover have "CHR 0x0D \<notin> set (dumps_compact (envelope_json raw sig) @ newline)"
    using dumps_no_cr[OF a] by simp
  ultimately show "decode_text (dumps_compact (envelope_json raw sig) @ newline) = Inr (dumps_compact (envelope_json raw sig) @ newline)"
    by (rule decode_text_ascii)
  show "json_loads (dumps_compact (envelope_json raw sig) @ newline) = Inr (envelope_json raw sig)"
    by (rule loads_dumps) (auto simp: envelope_json_def json_seps_compact nat_str.simps json_ws_def)
qed

lemma manifest_items:
  "item (manifest_json m) ''version'' = Inr (JStr (mf_version m))" "item (manifest_json m) ''channel'' = Inr (JStr (mf_channel m))"
  "item (manifest_json m) ''release'' = Inr (JObj [(''commit'', JStr (mf_commit m)), (''tag'', JStr (''v'' @ split_head ''+'' (mf_version m)))])"
  "item (manifest_json m) ''installer'' = Inr (JObj [(''name'', JStr (''PlugAgente-Setup-'' @ split_head ''+'' (mf_version m) @ ''.exe'')),
     (''sha256'', JStr (mf_sha256 m)), (''size'', JInt (mf_size m))])"
  by (simp_all add: manifest_json_def Let_def item_def)

lemma verify_release_ok:
  "verify_release E fs manifest installer keys version channel commit = Inr p \<longleftrightarrow>
    (\<exists>bytes body envelope content m. fs manifest = Some bytes \<and> length bytes \<le> 131072 \<and> decode_text bytes = Inr body \<and>
       json_loads body = Inr envelope \<and> verify E envelope (csv_keys keys) = Inr p \<and> fs installer = Some content \<and>
       p = manifest_json m \<and> mf_version m = version \<and> mf_channel m = channel \<and>
       (\<forall>c. commit = Some c \<longrightarrow> mf_commit m = c) \<and>
       mf_size m = int (length content) \<and> mf_sha256 m = sha256_hex content)" (is "?l \<longleftrightarrow> ?r")
proof
  assume l: ?l
  then obtain bytes body envelope content inst where a: "fs manifest = Some bytes" "length bytes \<le> 131072"
    "decode_text bytes = Inr body" "json_loads body = Inr envelope" "verify E envelope (csv_keys keys) = Inr p"
    "fs installer = Some content" "item_differs p ''version'' (JStr version) = Inr False"
    "item_differs p ''channel'' (JStr channel) = Inr False"
    "(case commit of None \<Rightarrow> Inr False | Some c \<Rightarrow> bindR (item p ''release'') (\<lambda>r. item_differs r ''commit'' (JStr c))) = Inr False"
    "item p ''installer'' = Inr inst" "item_differs inst ''size'' (JInt (int (length content))) = Inr False"
    "item_differs inst ''sha256'' (JStr (sha256_hex content)) = Inr False"
    unfolding verify_release_def read_file_def bindR_ok guard_ok raise_if_ok orR_False of_option_ok sum.inject not_less by blast
  obtain m where m: "p = manifest_json m" using verify_accepts[OF a(5)] by blast
  show ?r
    using a m by (auto simp: item_differs_def manifest_items item_obj py_eq_str split: option.splits intro!: exI[of _ m])
next
  assume ?r
  then show ?l
    by (elim exE conjE) (simp add: verify_release_def read_file_def item_differs_def manifest_items item_obj py_eq_str
      split: option.split)
qed


lemma manifest_json_inj: "manifest_json m = manifest_json m' \<Longrightarrow> m = m'"
proof -
  assume eq: "manifest_json m = manifest_json m'"
  then have "map JStr (mf_requirements m) = map JStr (mf_requirements m')"
    by (simp add: manifest_json_def Let_def)
  then have "mf_requirements m = mf_requirements m'" by (auto dest: map_injective[OF _ injI])
  moreover have "mf_version m = mf_version m'" "mf_channel m = mf_channel m'"
    using arg_cong[OF eq, of "\<lambda>j. item j ''version''"] arg_cong[OF eq, of "\<lambda>j. item j ''channel''"]
    by (simp_all add: manifest_items)
  moreover from this have "mf_size m = mf_size m'" "mf_sha256 m = mf_sha256 m'" "mf_commit m = mf_commit m'"
    using arg_cong[OF eq, of "\<lambda>j. item j ''installer''"] arg_cong[OF eq, of "\<lambda>j. item j ''release''"]
    by (simp_all add: manifest_items)
  moreover have "mf_schema m = mf_schema m'"
    using arg_cong[OF eq, of "\<lambda>j. item j ''data''"] by (simp add: manifest_json_def Let_def item_obj)
  ultimately show ?thesis by simp
qed

lemma canonical_loads: "canonical_of m raw \<Longrightarrow> loads_unique raw = Inr (manifest_json m)"
  by (simp add: canonical_of_def loads_canonical)

lemma canonical_inj: "canonical_of m raw \<Longrightarrow> canonical_of m' raw \<Longrightarrow> m = m'"
  using canonical_loads[of m raw] canonical_loads[of m' raw] manifest_json_inj by simp

subsection \<open>A concrete release\<close>

definition demo_seed :: bytes where
  "demo_seed = replicate 32 CHR ''A''"

definition demo_key :: string where
  "demo_key = b64encode demo_seed"

definition demo_commit :: string where
  "demo_commit = replicate 40 CHR ''a''"

definition demo_installer :: string where
  "demo_installer = ''dist/PlugAgente-Setup-1.2.3.exe''"

definition demo_payload :: json where
  "demo_payload = manifest_payload ''PlugAgente-Setup-1.2.3.exe'' ''MZ'' ''1.2.3+4'' ''stable'' 2 demo_commit"

definition demo_manifest :: manifest where
  "demo_manifest = cli_manifest ''MZ'' ''1.2.3+4'' ''stable'' 2 demo_commit"

lemma demo_key_decodes: "b64decode True demo_key = Some demo_seed" "length demo_seed = 32"
  by (simp_all add: demo_key_def demo_seed_def)

lemma demo_ok: "manifest_ok demo_manifest"
proof -
  have "list_all is_hex demo_commit" "length demo_commit = 40"
    by (simp_all add: demo_commit_def is_hex_def is_digit_def list_all_iff)
  moreover have "fullmatch rx_version4 ''1.2.3+4''"
    by (simp add: rx_version4_def rx_version3_def rx_digits_def r_plus_def r_chr_def seq_def alt_def is_digit_def)
  moreover have "\<forall>c \<in> set DEFAULT_CAPABILITIES. fullmatch rx_capability c"
    unfolding fullmatch_iff rx_capability_def seq_cls match_upto_cls
    by (simp add: DEFAULT_CAPABILITIES_def lower_letter_def)
  moreover have "distinct DEFAULT_CAPABILITIES" by (simp add: DEFAULT_CAPABILITIES_def)
  ultimately show ?thesis
    using sha256_hex_shape by (simp add: demo_manifest_def cli_manifest_def manifest_ok_def)
qed

lemma demo_payload_facts:
  "wf_json demo_payload" "sort_json demo_payload = manifest_json demo_manifest" "digits_ok demo_payload"
proof -
  show "wf_json demo_payload" by (simp add: demo_payload_def cli_payload)
  show "sort_json demo_payload = manifest_json demo_manifest"
    by (simp add: demo_payload_def demo_manifest_def cli_manifest_def manifest_payload_def manifest_json_def Let_def
        sort_key_def less_eq_list_code comp_def split_head_def startswith_def)
  show "digits_ok demo_payload"
    by (simp add: demo_payload_def manifest_payload_def list_all_iff nat_str.simps)
qed

lemma demo_canonical: "canonical_of demo_manifest (dumps_compact (manifest_json demo_manifest))"
  "length (dumps_compact (manifest_json demo_manifest)) \<le> 13000"
proof -
  have "digits_ok (manifest_json demo_manifest)" using demo_payload_facts(2,3) by (metis digits_ok_sort)
  then show "canonical_of demo_manifest (dumps_compact (manifest_json demo_manifest))"
    "length (dumps_compact (manifest_json demo_manifest)) \<le> 13000"
    using demo_ok default_payload_length by (auto simp: canonical_of_def demo_manifest_def cli_manifest_def)
qed


lemma demo_verifies: "\<exists>envelope. verify plain_scheme envelope [demo_key] = Inr (manifest_json demo_manifest)"
proof -
  let ?raw = "dumps_compact (manifest_json demo_manifest)"
  let ?sig = "ed_sign plain_scheme demo_seed ?raw"
  have e: "ed_public plain_scheme demo_seed = demo_seed" by (simp add: plain_scheme_def)
  have "verify plain_scheme (JObj [(''formatVersion'', JInt 1), (''payloadBase64'', JStr (b64encode ?raw)),
      (''signatureBase64'', JStr (b64encode ?sig))]) ([] @ demo_key # []) = Inr (manifest_json demo_manifest)"
    using demo_canonical demo_key_decodes ed_correctD[OF plain_scheme_correct demo_key_decodes(2)] e
    by (intro verify_envelope) (auto simp: MAX_ENVELOPE_BYTES_def)
  then show ?thesis by auto
qed

subsection \<open>The properties\<close>

text \<open>
  C1. Soundness of the updater contract: whatever \<open>verify\<close> returns is a valid manifest, it is the very
  value whose canonical bytes were signed, and one of the trusted keys verified the 64-byte signature over
  exactly those bytes (at most 65536 of them).
\<close>

theorem verify_sound:
  assumes "verify E envelope keys = Inr p"
  shows "\<exists>m raw sig key kb. manifest_ok m \<and> p = manifest_json m \<and> raw = dumps_compact (manifest_json m) \<and>
    b64_item envelope ''payloadBase64'' = Inr raw \<and> b64_item envelope ''signatureBase64'' = Inr sig \<and>
    length raw \<le> MAX_ENVELOPE_BYTES \<and> length sig = 64 \<and> key \<in> set keys \<and> b64decode True key = Some kb \<and>
    length kb = 32 \<and> ed_verify E kb sig raw"
  using verify_accepts[OF assms] unfolding accepted_def canonical_of_def by blast

text \<open>
  C2. Round trip: a payload that \<open>sign\<close> signed is returned by \<open>verify\<close>, with its keys sorted, under every list
  of trusted keys that holds the signer's public key after well-formed keys only.
\<close>

theorem sign_verify:
  assumes "ed_correct E" "wf_json p" "sign E p key = Inr envelope" "b64decode True key = Some seed"
    "length (dumps_compact (sort_json p)) \<le> MAX_ENVELOPE_BYTES"
    "\<forall>k \<in> set pre. \<exists>kb. b64decode True k = Some kb \<and> length kb = 32"
  shows "verify E envelope (pre @ b64encode (ed_public E seed) # post) = Inr (sort_json p)"
proof -
  obtain m where m: "manifest_ok m" "sort_json p = manifest_json m" "digits_ok p" "length seed = 32"
    "envelope = JObj [(''formatVersion'', JInt 1), (''payloadBase64'', JStr (b64encode (dumps_compact (manifest_json m)))),
      (''signatureBase64'', JStr (b64encode (ed_sign E seed (dumps_compact (manifest_json m)))))]"
    using assms(3,4) unfolding sign_ok[OF assms(2)] by auto
  have "canonical_of m (dumps_compact (manifest_json m))"
    using m(1-3) digits_ok_sort[of p] by (simp add: canonical_of_def)
  then show ?thesis
    unfolding m(2,5) using assms(5,6) ed_correctD[OF assms(1) m(4)] m(2) by (intro verify_envelope) auto
qed

theorem sign_verify_witness:
  "\<exists>envelope. sign plain_scheme demo_payload demo_key = Inr envelope \<and>
     verify plain_scheme envelope ([demo_key] @ b64encode (ed_public plain_scheme demo_seed) # []) = Inr (sort_json demo_payload)"
proof -
  obtain envelope where e: "sign plain_scheme demo_payload demo_key = Inr envelope"
    using sign_ok[OF demo_payload_facts(1)] demo_ok demo_payload_facts demo_key_decodes by blast
  have "length (dumps_compact (sort_json demo_payload)) \<le> MAX_ENVELOPE_BYTES"
    using demo_canonical(2) by (simp add: demo_payload_facts(2) MAX_ENVELOPE_BYTES_def)
  moreover have "\<forall>k \<in> set [demo_key]. \<exists>kb. b64decode True k = Some kb \<and> length kb = 32"
    using demo_key_decodes by simp
  ultimately show ?thesis
    using sign_verify[OF plain_scheme_correct demo_payload_facts(1) e demo_key_decodes(1)] e by blast
qed

theorem verify_sound_witness:
  "\<exists>envelope m raw sig key kb. verify plain_scheme envelope [demo_key] = Inr (manifest_json demo_manifest) \<and>
    manifest_ok m \<and> manifest_json demo_manifest = manifest_json m \<and> raw = dumps_compact (manifest_json m) \<and>
    b64_item envelope ''payloadBase64'' = Inr raw \<and> b64_item envelope ''signatureBase64'' = Inr sig \<and>
    length raw \<le> MAX_ENVELOPE_BYTES \<and> length sig = 64 \<and> key \<in> set [demo_key] \<and> b64decode True key = Some kb \<and>
    length kb = 32 \<and> ed_verify plain_scheme kb sig raw"
proof -
  obtain envelope where v: "verify plain_scheme envelope [demo_key] = Inr (manifest_json demo_manifest)"
    using demo_verifies by blast
  from verify_sound[OF this] v show ?thesis by blast
qed

text \<open>
  C3. \<open>validate_payload\<close> accepts a JSON value exactly when, with its keys sorted, it is the JSON form of an
  abstract manifest that satisfies the contract (and raises on everything else).
\<close>

theorem validate_payload_exact:
  assumes "wf_json p"
  shows "validate_payload p = Inr () \<longleftrightarrow> (\<exists>m. manifest_ok m \<and> sort_json p = manifest_json m)"
  using assms by (rule validate_payload_spec)

theorem validate_payload_exact_witness: "validate_payload demo_payload = Inr ()"
  using validate_payload_exact[OF demo_payload_facts(1)] demo_ok demo_payload_facts(2) by blast

text \<open>
  C4. A release passes \<open>verify_release\<close> only if the manifest is signed by a trusted key and describes the very
  installer on disk: its size, its SHA-256, the expected version, channel and, when given, source commit.
\<close>

theorem verify_release_sound:
  assumes "verify_release E fs manifest installer keys version channel commit = Inr p"
  shows "\<exists>m content bytes body envelope. fs installer = Some content \<and> fs manifest = Some bytes \<and>
    length bytes \<le> 131072 \<and> decode_text bytes = Inr body \<and> json_loads body = Inr envelope \<and>
    accepted E envelope (csv_keys keys) m \<and> manifest_ok m \<and> p = manifest_json m \<and>
    mf_version m = version \<and> mf_channel m = channel \<and> (\<forall>c. commit = Some c \<longrightarrow> mf_commit m = c) \<and>
    mf_size m = int (length content) \<and> mf_sha256 m = sha256_hex content"
proof -
  obtain bytes body envelope content m where a: "fs manifest = Some bytes" "length bytes \<le> 131072"
    "decode_text bytes = Inr body" "json_loads body = Inr envelope" "verify E envelope (csv_keys keys) = Inr p"
    "fs installer = Some content" "p = manifest_json m" "mf_version m = version" "mf_channel m = channel"
    "\<forall>c. commit = Some c \<longrightarrow> mf_commit m = c" "mf_size m = int (length content)" "mf_sha256 m = sha256_hex content"
    using assms unfolding verify_release_ok by blast
  moreover obtain m' where "accepted E envelope (csv_keys keys) m'" "manifest_ok m'" "p = manifest_json m'"
    using verify_accepts[OF a(5)] by blast
  moreover from this have "m' = m" using a(7) manifest_json_inj by simp
  ultimately show ?thesis by blast
qed

lemma release_roundtrip:
  assumes "ed_correct E" "manifest_main E key fs installer version channel schema commit = Inr out"
    "b64decode True key = Some seed" "fs' manifest = Some out" "fs' installer = fs installer"
    "csv_keys keys = pre @ b64encode (ed_public E seed) # post"
    "\<forall>k \<in> set pre. \<exists>kb. b64decode True k = Some kb \<and> length kb = 32"
  shows "\<exists>content. fs installer = Some content \<and>
    verify_release E fs' manifest installer keys version channel (Some commit) =
      Inr (manifest_json (cli_manifest content version channel schema commit))"
proof -
  obtain content raw where c: "fs installer = Some content" "length seed = 32"
    "canonical_of (cli_manifest content version channel schema commit) raw" "length raw \<le> 13000"
    "out = dumps_compact (envelope_json raw (ed_sign E seed raw)) @ newline"
    using manifest_main_ok[OF assms(2)] assms(3) by auto
  note ed = ed_correctD[OF assms(1) c(2)]
  have "verify E (envelope_json raw (ed_sign E seed raw)) (csv_keys keys) =
      Inr (manifest_json (cli_manifest content version channel schema commit))"
    unfolding assms(6) envelope_json_def using c ed assms(7)
    by (intro verify_envelope[where kb = "ed_public E seed"]) (auto simp: MAX_ENVELOPE_BYTES_def)
  then have "verify_release E fs' manifest installer keys version channel (Some commit) =
      Inr (manifest_json (cli_manifest content version channel schema commit))"
    unfolding verify_release_ok using manifest_text[OF c(4) ed(2), of raw] assms(4,5) c(1,5)
    by (intro exI conjI) (auto simp: cli_manifest_def)
  then show ?thesis using c(1) by blast
qed

text \<open>
  C5. End to end: the manifest that \<open>main\<close> of \<open>manifest.py\<close> writes for an installer passes \<open>verify_release\<close> against
  the same installer, version, channel and commit, whenever the trusted keys hold the signer's public key after
  well-formed keys only. No size limit can get in the way: they are met by every manifest \<open>main\<close> can write.
\<close>

theorem manifest_main_verifies:
  assumes "ed_correct E" "manifest_main E key fs installer version channel schema commit = Inr out"
    "b64decode True key = Some seed" "fs' manifest = Some out" "fs' installer = fs installer"
    "csv_keys keys = pre @ b64encode (ed_public E seed) # post"
    "\<forall>k \<in> set pre. \<exists>kb. b64decode True k = Some kb \<and> length kb = 32"
  shows "\<exists>content. fs installer = Some content \<and>
    verify_release E fs' manifest installer keys version channel (Some commit) =
      Inr (manifest_json (cli_manifest content version channel schema commit))"
  using assms by (rule release_roundtrip)

lemma csv_single: "list_all visible k \<Longrightarrow> k \<noteq> [] \<Longrightarrow> CHR '','' \<notin> set k \<Longrightarrow> csv_keys k = [k]"
proof -
  assume k: "list_all visible k" "k \<noteq> []" "CHR '','' \<notin> set k"
  from k(3) have "split_on '','' k = [k]" by (rule split_on_single)
  then show ?thesis using k by (simp add: csv_keys_def strip_visible)
qed

lemma demo_key_nonempty: "demo_key \<noteq> []"
  unfolding demo_key_def using demo_key_decodes(2) by (intro b64encode_nonempty) linarith

lemma demo_key_csv: "csv_keys demo_key = [] @ b64encode (ed_public plain_scheme demo_seed) # []"
proof -
  have "b64encode demo_seed \<noteq> []" using demo_key_nonempty by (simp add: demo_key_def)
  then show ?thesis
    using csv_single[OF b64encode_visible, of demo_seed] b64encode_no_comma[of demo_seed]
    by (simp add: demo_key_def plain_scheme_def)
qed

definition demo_fs :: files where
  "demo_fs = [demo_installer \<mapsto> ''MZ'']"

lemma demo_main: "\<exists>out. manifest_main plain_scheme demo_key demo_fs demo_installer ''1.2.3+4'' ''stable'' 2 demo_commit = Inr out"
proof -
  have n: "base_name demo_installer = ''PlugAgente-Setup-1.2.3.exe''"
    by (simp add: base_name_def rsplit_last_def demo_installer_def startswith_def)
  note demo_key_nonempty
  moreover obtain envelope where "sign plain_scheme demo_payload demo_key = Inr envelope"
    using sign_ok[OF demo_payload_facts(1)] demo_ok demo_payload_facts demo_key_decodes by blast
  ultimately show ?thesis
    by (simp add: manifest_main_def n demo_fs_def read_file_def demo_payload_def)
qed

theorem manifest_main_verifies_witness:
  "\<exists>out content. manifest_main plain_scheme demo_key demo_fs demo_installer ''1.2.3+4'' ''stable'' 2 demo_commit = Inr out \<and>
    verify_release plain_scheme (demo_fs(''manifest.json'' \<mapsto> out)) ''manifest.json'' demo_installer demo_key ''1.2.3+4'' ''stable''
      (Some demo_commit) = Inr (manifest_json (cli_manifest content ''1.2.3+4'' ''stable'' 2 demo_commit))"
proof -
  obtain out where out: "manifest_main plain_scheme demo_key demo_fs demo_installer ''1.2.3+4'' ''stable'' 2 demo_commit = Inr out"
    using demo_main by blast
  have "(demo_fs(''manifest.json'' \<mapsto> out)) demo_installer = demo_fs demo_installer" by (simp add: demo_installer_def)
  then show ?thesis
    using manifest_main_verifies[OF plain_scheme_correct out demo_key_decodes(1) _ _ demo_key_csv,
        of "demo_fs(''manifest.json'' \<mapsto> out)" "''manifest.json''"] out by auto
qed

theorem verify_release_sound_witness:
  "\<exists>out p m. verify_release plain_scheme (demo_fs(''manifest.json'' \<mapsto> out)) ''manifest.json'' demo_installer demo_key
      ''1.2.3+4'' ''stable'' (Some demo_commit) = Inr p \<and>
    manifest_ok m \<and> p = manifest_json m \<and> mf_commit m = demo_commit \<and> mf_sha256 m = sha256_hex ''MZ''"
proof -
  obtain out where out: "manifest_main plain_scheme demo_key demo_fs demo_installer ''1.2.3+4'' ''stable'' 2 demo_commit = Inr out"
    using demo_main by blast
  have i: "(demo_fs(''manifest.json'' \<mapsto> out)) demo_installer = demo_fs demo_installer" by (simp add: demo_installer_def)
  then obtain p where p: "verify_release plain_scheme (demo_fs(''manifest.json'' \<mapsto> out)) ''manifest.json'' demo_installer demo_key
      ''1.2.3+4'' ''stable'' (Some demo_commit) = Inr p"
    using release_roundtrip[OF plain_scheme_correct out demo_key_decodes(1) _ _ demo_key_csv,
        of "demo_fs(''manifest.json'' \<mapsto> out)" "''manifest.json''"] by auto
  from verify_release_sound[OF p] p i show ?thesis by (auto simp: demo_fs_def)
qed

text \<open>
  Nothing else can be signed by mistake: the canonical bytes determine the manifest, so two different
  manifests never have the same signed bytes.
\<close>

theorem canonical_payload_injective:
  assumes "wf_json p" "wf_json q" "canonical_payload p = Inr raw" "canonical_payload q = Inr raw"
  shows "sort_json p = sort_json q"
proof -
  obtain m n where "manifest_ok m" "sort_json p = manifest_json m" "digits_ok p" "raw = dumps_compact (manifest_json m)"
    "manifest_ok n" "sort_json q = manifest_json n" "digits_ok q" "raw = dumps_compact (manifest_json n)"
    using assms unfolding canonical_spec[OF assms(1)] canonical_spec[OF assms(2)] by blast
  moreover from this have "canonical_of m raw" "canonical_of n raw"
    using digits_ok_sort[of p] digits_ok_sort[of q] unfolding canonical_of_def by metis+
  ultimately show ?thesis using canonical_inj by metis
qed

theorem canonical_payload_injective_witness:
  "\<exists>raw. canonical_payload demo_payload = Inr raw \<and> canonical_payload (manifest_json demo_manifest) = Inr raw \<and>
     sort_json demo_payload = sort_json (manifest_json demo_manifest)"
proof -
  let ?raw = "dumps_compact (manifest_json demo_manifest)"
  note f = manifest_json_facts[OF demo_ok]
  have "canonical_payload demo_payload = Inr ?raw" "canonical_payload (manifest_json demo_manifest) = Inr ?raw"
    unfolding canonical_spec[OF demo_payload_facts(1)] canonical_spec[OF f(2)]
    using demo_ok demo_payload_facts f demo_canonical(1) unfolding canonical_of_def by blast+
  with canonical_payload_injective[OF demo_payload_facts(1) f(2) this] show ?thesis by blast
qed

text \<open>
  A malformed trusted key stops the verification: \<open>verify\<close> raises \<open>ValueError\<close> at the first key that is not 32
  bytes of base64, also for an envelope that a later key would accept.
\<close>

theorem malformed_key_stops:
  assumes "verify E envelope keys = Inr p"
    "b64decode True bad = None \<or> (\<exists>kb. b64decode True bad = Some kb \<and> length kb \<noteq> 32)"
  shows "\<exists>msg. verify E envelope (bad # keys) = Inl (ValueErr msg)"
proof -
  have "\<exists>msg. try_key E raw sig bad = Inl (ValueErr msg)" for raw sig
    using assms(2) by (auto simp: try_key_def public_from_def)
  then have "\<exists>msg. verify_keys E raw sig (bad # keys) = Inl (ValueErr msg)" for raw sig
    by (metis (no_types, lifting) reraised_value verify_keys_stop)
  then show ?thesis using assms(1) unfolding verify_def ok_iff by auto
qed

theorem malformed_key_stops_witness:
  "\<exists>envelope msg. verify plain_scheme envelope [demo_key] = Inr (manifest_json demo_manifest) \<and>
     verify plain_scheme envelope [''%'', demo_key] = Inl (ValueErr msg)"
proof -
  obtain envelope where v: "verify plain_scheme envelope [demo_key] = Inr (manifest_json demo_manifest)"
    using demo_verifies by blast
  have "b64decode True ''%'' = None" by (simp add: b64decode_def b64_val_def)
  with malformed_key_stops[OF v, of "''%''"] v show ?thesis by blast
qed

end
