(* ===== verification/Appcast_Signing.thy ===== *)
theory Appcast_Signing
  imports Ed25519_Api
begin

text \<open>
  \<open>tool/appcast/appcast_signing.py\<close>: the Ed25519 helpers of the update feed. The signed text has
  one \<open>key=value\<close> line per field, in lexicographic order of the keys. Verification tries every key of a
  comma separated list and never raises.
\<close>

definition ED25519_PUBLIC_KEY_BYTES :: nat where
  "ED25519_PUBLIC_KEY_BYTES = 32"

definition ED25519_SIGNATURE_BYTES :: nat where
  "ED25519_SIGNATURE_BYTES = 64"

record EnclosureSignaturePayload =
  ep_version :: string
  ep_os :: string
  ep_sha256 :: string
  ep_channel :: string
  ep_rollout_percentage :: int
  ep_asset_url :: string
  ep_asset_size :: int

text \<open>\<open>f"{key}={value}\n"\<close>\<close>

definition entry_line :: "string \<times> string \<Rightarrow> string" where
  "entry_line kv = fst kv @ ''='' @ snd kv @ newline"

definition payload_entries :: "EnclosureSignaturePayload \<Rightarrow> (string \<times> string) list" where
  "payload_entries p =
     [(''asset_size'', str_int (ep_asset_size p)),
      (''asset_url'', ep_asset_url p),
      (''channel'', ep_channel p),
      (''os'', ep_os p),
      (''rollout_percentage'', str_int (ep_rollout_percentage p)),
      (''sha256'', lower (ep_sha256 p)),
      (''version'', ep_version p)]"

definition canonical_payload_enc :: "EnclosureSignaturePayload \<Rightarrow> bytes res" where
  "canonical_payload_enc p = encode_utf8 (concat (map entry_line (sort_key fst (payload_entries p))))"

definition canonical_bytes :: "EnclosureSignaturePayload \<Rightarrow> bytes res" where
  "canonical_bytes p = canonical_payload_enc p"

text \<open>The random seed of \<open>Ed25519PrivateKey.generate()\<close> is an argument.\<close>

definition generate_keypair :: "ed25519 \<Rightarrow> bytes \<Rightarrow> string \<times> string" where
  "generate_keypair E seed = (b64encode seed, b64encode (ed_public E seed))"

definition derive_public_key_b64 :: "ed25519 \<Rightarrow> string \<Rightarrow> string res" where
  "derive_public_key_b64 E private_key_b64 =
     bindR (of_option (ValueErr ''binascii.Error'') (b64decode False private_key_b64)) (\<lambda>private_bytes.
     if length private_bytes \<noteq> ED25519_PUBLIC_KEY_BYTES then Inl (ValueErr ''Ed25519 private key seed'')
     else bindR (private_from private_bytes) (\<lambda>private. Inr (b64encode (ed_public E private))))"

text \<open>The payload is given by its \<open>canonical_bytes()\<close>, which may raise.\<close>

definition sign_payload :: "ed25519 \<Rightarrow> bytes res \<Rightarrow> string \<Rightarrow> string res" where
  "sign_payload E canonical private_key_b64 =
     bindR (of_option (ValueErr ''binascii.Error'') (b64decode False private_key_b64)) (\<lambda>private_bytes.
     if length private_bytes \<noteq> ED25519_PUBLIC_KEY_BYTES then Inl (ValueErr ''Ed25519 private key seed'')
     else bindR (private_from private_bytes) (\<lambda>private.
       bindR canonical (\<lambda>message.
       if length (ed_sign E private message) \<noteq> ED25519_SIGNATURE_BYTES
       then Inl (RuntimeErr ''non-standard signature size'')
       else Inr (b64encode (ed_sign E private message)))))"

definition verify_payload :: "ed25519 \<Rightarrow> bytes res \<Rightarrow> string \<Rightarrow> string \<Rightarrow> bool" where
  "verify_payload E canonical signature_b64 public_key_b64 =
     (case (b64decode False public_key_b64, b64decode False signature_b64) of
        (Some public_bytes, Some signature) \<Rightarrow>
          if length public_bytes \<noteq> ED25519_PUBLIC_KEY_BYTES \<or> length signature \<noteq> ED25519_SIGNATURE_BYTES then False
          else (case bindR (public_from public_bytes) (\<lambda>public.
                  bindR canonical (\<lambda>message. check_signature E public signature message)) of
                  Inr _ \<Rightarrow> True | Inl _ \<Rightarrow> False)
      | _ \<Rightarrow> False)"

definition parse_public_keys_csv :: "string option \<Rightarrow> string list" where
  "parse_public_keys_csv raw = (case raw of None \<Rightarrow> [] | Some r \<Rightarrow>
     if r = [] then [] else map strip (filter (\<lambda>e. strip e \<noteq> []) (split_on '','' r)))"

definition verify_with_any_key :: "ed25519 \<Rightarrow> bytes res \<Rightarrow> string \<Rightarrow> string \<Rightarrow> bool" where
  "verify_with_any_key E canonical signature_b64 public_keys_csv \<longleftrightarrow>
     list_ex (verify_payload E canonical signature_b64) (parse_public_keys_csv (Some public_keys_csv))"

subsection \<open>generate\_appcast\_signing\_key.py\<close>

definition generate_key_main :: "ed25519 \<Rightarrow> bytes \<Rightarrow> bool \<Rightarrow> string list" where
  "generate_key_main E seed export_shell =
     (let (private_b64, public_b64) = generate_keypair E seed;
          prefix = (if export_shell then ''export '' else []) in
      [prefix @ ''APPCAST_SIGNING_PRIVATE_KEY='' @ private_b64,
       prefix @ ''AUTO_UPDATE_FEED_PUBLIC_KEY='' @ public_b64,
       [],
       ''# Store APPCAST_SIGNING_PRIVATE_KEY in your CI secret manager.'',
       ''# Ship AUTO_UPDATE_FEED_PUBLIC_KEY with each release build'',
       ''# (--dart-define or .env on production installs).''])"

subsection \<open>The signed text\<close>

text \<open>Fields that stay on their line\<close>

definition one_line :: "string \<Rightarrow> bool" where
  "one_line s \<longleftrightarrow> CHR 0x0A \<notin> set s"

definition payload_ok :: "EnclosureSignaturePayload \<Rightarrow> bool" where
  "payload_ok p \<longleftrightarrow> one_line (ep_version p) \<and> one_line (ep_os p) \<and> one_line (ep_sha256 p) \<and>
     one_line (ep_channel p) \<and> one_line (ep_asset_url p)"

lemma line_cut: "one_line x \<Longrightarrow> one_line y \<Longrightarrow> x @ newline @ r = y @ newline @ s \<longleftrightarrow> x = y \<and> r = s"
proof (induction x arbitrary: y)
  case Nil
  then show ?case by (cases y) (auto simp: one_line_def)
next
  case (Cons c x)
  then show ?case by (cases y) (auto simp: one_line_def)
qed

lemma one_line_int: "one_line (str_int i)"
  using str_int_visible[of i] by (auto simp: one_line_def list_all_iff visible_def)

lemma lower_char_newline: "lower_char c = CHR 0x0A \<Longrightarrow> c = CHR 0x0A"
proof (cases "65 \<le> (of_char c :: nat) \<and> (of_char c :: nat) \<le> 90")
  case True
  assume "lower_char c = CHR 0x0A"
  then have "(of_char (lower_char c) :: nat) = of_char CHR 0x0A" by simp
  then show ?thesis using True by (simp add: lower_char_def of_char_of_small)
qed (auto simp: lower_char_def Let_def)

lemma one_line_lower: "one_line s \<Longrightarrow> one_line (lower s)"
  using lower_char_newline by (fastforce simp: one_line_def lower_def)

lemma canonical_text:
  "concat (map entry_line (sort_key fst (payload_entries p))) =
     ''asset_size='' @ str_int (ep_asset_size p) @ newline @ ''asset_url='' @ ep_asset_url p @ newline @
     ''channel='' @ ep_channel p @ newline @ ''os='' @ ep_os p @ newline @
     ''rollout_percentage='' @ str_int (ep_rollout_percentage p) @ newline @
     ''sha256='' @ lower (ep_sha256 p) @ newline @ ''version='' @ ep_version p @ newline"
  by (simp add: payload_entries_def sort_key_def less_eq_list_code entry_line_def)

lemma str_int_inj: "str_int i = str_int j \<Longrightarrow> i = j"
  by (metis int_of_str_int option.inject)

lemma canonical_enc_ok: "canonical_bytes p = Inr b \<longleftrightarrow>
    b = concat (map entry_line (sort_key fst (payload_entries p))) \<and> \<not> has_surrogate b"
  by (auto simp: canonical_bytes_def canonical_payload_enc_def encode_utf8_def)

lemma canonical_fields:
  assumes "canonical_bytes p = Inr b" "canonical_bytes q = Inr b" "payload_ok p" "payload_ok q"
  shows "q = p\<lparr>ep_sha256 := ep_sha256 q\<rparr> \<and> lower (ep_sha256 p) = lower (ep_sha256 q)"
proof -
  have eq: "concat (map entry_line (sort_key fst (payload_entries p))) = concat (map entry_line (sort_key fst (payload_entries q)))"
    using assms(1,2) by (simp add: canonical_enc_ok)
  note ol = one_line_int one_line_lower assms(3,4)[unfolded payload_ok_def]
  have "str_int (ep_asset_size p) = str_int (ep_asset_size q) \<and> ep_asset_url p = ep_asset_url q \<and>
      ep_channel p = ep_channel q \<and> ep_os p = ep_os q \<and>
      str_int (ep_rollout_percentage p) = str_int (ep_rollout_percentage q) \<and>
      lower (ep_sha256 p) = lower (ep_sha256 q) \<and> ep_version p = ep_version q"
    using eq ol unfolding canonical_text same_append_eq by (simp add: line_cut del: append.simps append_Cons append_Nil)
  then show ?thesis using str_int_inj by (auto intro!: EnclosureSignaturePayload.equality)
qed

subsection \<open>Signing and verifying\<close>

lemma verify_payload_iff:
  "verify_payload E canonical sig key \<longleftrightarrow> (\<exists>kb s m. b64decode False key = Some kb \<and> b64decode False sig = Some s \<and>
     length kb = 32 \<and> length s = 64 \<and> canonical = Inr m \<and> ed_verify E kb s m)"
  by (cases canonical) (auto simp: verify_payload_def ED25519_PUBLIC_KEY_BYTES_def ED25519_SIGNATURE_BYTES_def
      public_from_def check_signature_def split: option.splits sum.splits)

lemma sign_payload_iff:
  "sign_payload E canonical key = Inr sig \<longleftrightarrow> (\<exists>seed m. b64decode False key = Some seed \<and> length seed = 32 \<and>
     canonical = Inr m \<and> length (ed_sign E seed m) = 64 \<and> sig = b64encode (ed_sign E seed m))"
  by (auto simp: sign_payload_def ED25519_PUBLIC_KEY_BYTES_def ED25519_SIGNATURE_BYTES_def private_from_def ok_iff)

lemma parse_keys_Some: "k \<in> set (parse_public_keys_csv (Some r)) \<longleftrightarrow> r \<noteq> [] \<and> k \<noteq> [] \<and> (\<exists>e \<in> set (split_on '','' r). k = strip e)"
  by (auto simp: parse_public_keys_csv_def)

lemma sign_verify_any:
  assumes "ed_correct E" "sign_payload E canonical key = Inr sig" "derive_public_key_b64 E key = Inr pub"
    "pub \<in> set (parse_public_keys_csv (Some csv))"
  shows "verify_with_any_key E canonical sig csv"
proof -
  obtain seed m where s: "b64decode False key = Some seed" "length seed = 32" "canonical = Inr m"
    "sig = b64encode (ed_sign E seed m)" using assms(2) unfolding sign_payload_iff by blast
  have "pub = b64encode (ed_public E seed)"
    using assms(3) s by (simp add: derive_public_key_b64_def ED25519_PUBLIC_KEY_BYTES_def private_from_def)
  then have "verify_payload E canonical sig pub"
    using s ed_correctD[OF assms(1) s(2)] by (auto simp: verify_payload_iff)
  then show ?thesis using assms(4) by (auto simp: verify_with_any_key_def list_ex_iff)
qed


subsection \<open>The properties\<close>

text \<open>
  C6. The signed text of an enclosure frames its fields: when no field holds a line break, two payloads have the
  same signed bytes only if they agree on version, OS, channel, rollout, URL and size, and on the digest up to
  letter case. So a signature cannot be moved to another enclosure.
\<close>

theorem canonical_bytes_injective:
  assumes "canonical_bytes p = Inr b" "canonical_bytes q = Inr b" "payload_ok p" "payload_ok q"
  shows "q = p\<lparr>ep_sha256 := ep_sha256 q\<rparr> \<and> lower (ep_sha256 p) = lower (ep_sha256 q)"
  using assms by (rule canonical_fields)

definition demo_enclosure :: EnclosureSignaturePayload where
  "demo_enclosure = \<lparr>ep_version = ''1.2.3+4'', ep_os = ''windows'', ep_sha256 = ''AB'', ep_channel = ''stable'',
     ep_rollout_percentage = 100, ep_asset_url = ''https://h/a.exe'', ep_asset_size = 7\<rparr>"

theorem canonical_bytes_injective_witness:
  "\<exists>b. canonical_bytes demo_enclosure = Inr b \<and> canonical_bytes (demo_enclosure\<lparr>ep_sha256 := ''ab''\<rparr>) = Inr b \<and>
     lower (ep_sha256 demo_enclosure) = lower ''ab''"
proof -
  let ?q = "demo_enclosure\<lparr>ep_sha256 := ''ab''\<rparr>"
  have low: "lower ''AB'' = ''ab''" "lower ''ab'' = ''ab''" by code_simp+
  have "ascii (concat (map entry_line (sort_key fst (payload_entries demo_enclosure))))"
    using visible_ascii[OF str_int_visible] unfolding canonical_text by (simp add: demo_enclosure_def low)
  then obtain b where b: "canonical_bytes demo_enclosure = Inr b"
    using canonical_enc_ok ascii_no_surrogate by blast
  have "canonical_bytes ?q = canonical_bytes demo_enclosure"
    unfolding canonical_bytes_def canonical_payload_enc_def canonical_text
    by (simp add: demo_enclosure_def low)
  then have q: "canonical_bytes ?q = Inr b" using b by simp
  have "payload_ok demo_enclosure" "payload_ok ?q" by (simp_all add: payload_ok_def one_line_def demo_enclosure_def)
  from canonical_bytes_injective[OF b q this] b q show ?thesis by auto
qed

text \<open>
  Key rotation: an enclosure signed with a key is accepted by \<open>verify_with_any_key\<close> under every comma
  separated list that holds the derived public key, whatever else the list holds (malformed keys are skipped).
\<close>

theorem sign_payload_verifies:
  assumes "ed_correct E" "sign_payload E canonical key = Inr sig" "derive_public_key_b64 E key = Inr pub"
    "pub \<in> set (parse_public_keys_csv (Some csv))"
  shows "verify_with_any_key E canonical sig csv"
  using assms by (rule sign_verify_any)

lemma demo_seed_key: "b64decode False (b64encode (replicate 32 CHR ''A'')) = Some (replicate 32 CHR ''A'')"
  by simp

theorem sign_payload_verifies_witness:
  "\<exists>key sig pub csv. sign_payload plain_scheme (Inr ''text'') key = Inr sig \<and> derive_public_key_b64 plain_scheme key = Inr pub \<and>
     verify_with_any_key plain_scheme (Inr ''text'') sig csv"
proof -
  let ?seed = "replicate 32 CHR ''A''"
  let ?key = "b64encode ?seed"
  let ?sig = "b64encode (ed_sign plain_scheme ?seed ''text'')"
  have l: "length ?seed = 32" by simp
  have k: "b64decode False ?key = Some ?seed" by (rule demo_seed_key)
  have s: "sign_payload plain_scheme (Inr ''text'') ?key = Inr ?sig"
    unfolding sign_payload_iff using k l ed_correctD(2)[OF plain_scheme_correct l] by blast
  have d: "derive_public_key_b64 plain_scheme ?key = Inr ?key"
    unfolding derive_public_key_b64_def k by (simp add: ED25519_PUBLIC_KEY_BYTES_def private_from_def plain_scheme_def)
  have "?key \<noteq> []" by (rule b64encode_nonempty) simp
  moreover have "split_on '','' ?key = [?key]" by (rule split_on_single[OF b64encode_no_comma])
  ultimately have "?key \<in> set (parse_public_keys_csv (Some ?key))"
    unfolding parse_keys_Some using strip_visible[OF b64encode_visible] by simp
  from sign_payload_verifies[OF plain_scheme_correct s d this] s d show ?thesis by blast
qed

end
