(* ===== verification/Py_Url.thy ===== *)
theory Py_Url
  imports Py_Codec
begin

text \<open>
  The parts of \<open>urllib.parse\<close>, \<open>pathlib\<close> and \<open>shlex\<close> that the tools use: \<open>urlparse\<close> (its scheme, network
  location and path), the last component of a POSIX path and shell quoting. Not modelled: the syntax of an IPv6
  literal between matched brackets and the Unicode normalisation check of the host.
\<close>

definition is_letter :: "char \<Rightarrow> bool" where
  "is_letter c \<longleftrightarrow> (let n = of_char c :: nat in 65 \<le> n \<and> n \<le> 90 \<or> 97 \<le> n \<and> n \<le> 122)"

definition scheme_char :: "char \<Rightarrow> bool" where
  "scheme_char c \<longleftrightarrow> is_letter c \<or> is_digit c \<or> c \<in> set ''+-.''"

definition uses_params :: "string list" where
  "uses_params = [[], ''ftp'', ''hdl'', ''prospero'', ''http'', ''https'', ''imap'', ''shttp'', ''rtsp'', ''rtspu'',
     ''sip'', ''sips'', ''mms'', ''sftp'', ''tel'']"

definition url_clean :: "string \<Rightarrow> string" where
  "url_clean url = filter (\<lambda>c. c \<notin> {CHR 0x09, CHR 0x0A, CHR 0x0D}) (dropWhile (\<lambda>c. (of_char c :: nat) \<le> 32) url)"

definition url_scheme :: "string \<Rightarrow> string \<times> string" where
  "url_scheme url = (case str_cut '':'' url of
     Some (a, b) \<Rightarrow> if a \<noteq> [] \<and> is_letter (hd a) \<and> list_all scheme_char a then (lower a, b) else ([], url)
   | None \<Rightarrow> ([], url))"

definition url_netloc :: "string \<Rightarrow> string \<times> string" where
  "url_netloc url = (if startswith url ''//''
     then (takeWhile (\<lambda>c. c \<notin> set ''/?#'') (drop 2 url), dropWhile (\<lambda>c. c \<notin> set ''/?#'') (drop 2 url)) else ([], url))"

definition url_path :: "string \<Rightarrow> string \<Rightarrow> string" where
  "url_path scheme rest =
     (let p = split_head ''?'' (split_head ''#'' rest) in
      if scheme \<in> set uses_params
      then (let seg = rsplit_last ''/'' p in take (length p - length seg) p @ split_head '';'' seg)
      else p)"

text \<open>\<open>urlparse(url)\<close>: scheme, netloc and path\<close>

definition urlparse :: "string \<Rightarrow> (string \<times> string \<times> string) res" where
  "urlparse url = (let (scheme, rest) = url_scheme (url_clean url); (netloc, rest') = url_netloc rest in
     if (CHR ''['' \<in> set netloc) \<noteq> (CHR '']'' \<in> set netloc) then Inl (ValueErr ''Invalid IPv6 URL'')
     else Inr (scheme, netloc, url_path scheme rest'))"

text \<open>\<open>PurePosixPath(s).name\<close>\<close>

definition path_parts :: "string \<Rightarrow> string list" where
  "path_parts s = filter (\<lambda>p. p \<noteq> [] \<and> p \<noteq> ''.'') (split_on ''/'' s)"

definition path_name :: "string \<Rightarrow> string" where
  "path_name s = (case rev (path_parts s) of [] \<Rightarrow> [] | p # _ \<Rightarrow> p)"

text \<open>\<open>shlex.quote(s)\<close>\<close>

definition shell_safe :: "char \<Rightarrow> bool" where
  "shell_safe c \<longleftrightarrow> is_letter c \<or> is_digit c \<or> c \<in> set ''_@%+=:,./-''"

abbreviation (input) squote :: string where
  "squote \<equiv> [CHR 0x27]"

definition shlex_quote :: "string \<Rightarrow> string" where
  "shlex_quote s =
     (if s = [] then squote @ squote
      else if list_all shell_safe s then s
      else squote @ concat (map (\<lambda>c. if c = CHR 0x27 then squote @ [CHR 0x22] @ squote @ [CHR 0x22] @ squote else [c]) s) @ squote)"

text \<open>How a POSIX shell reads such a word back: bare characters, single quotes and double quotes (the last
  without expansions, which the quoted text never holds).\<close>

fun shell_word :: "char option \<Rightarrow> string \<Rightarrow> string option" where
  "shell_word None [] = Some []"
| "shell_word (Some q) [] = None"
| "shell_word None (c # cs) =
     (if c = CHR 0x27 \<or> c = CHR 0x22 then shell_word (Some c) cs
      else if shell_safe c then map_option (Cons c) (shell_word None cs) else None)"
| "shell_word (Some q) (c # cs) = (if c = q then shell_word None cs else map_option (Cons c) (shell_word (Some q) cs))"

lemma shell_word_safe: "list_all shell_safe s \<Longrightarrow> shell_word None s = Some s"
proof (induction s)
  case (Cons c s)
  have "\<not> shell_safe CHR 0x27" "\<not> shell_safe CHR 0x22" by (simp_all add: shell_safe_def is_letter_def is_digit_def)
  then show ?case using Cons by auto
qed simp

lemma shell_word_quoted:
  "shell_word (Some CHR 0x27) (concat (map (\<lambda>c. if c = CHR 0x27 then squote @ [CHR 0x22] @ squote @ [CHR 0x22] @ squote else [c]) s) @ squote)
     = Some s"
  by (induction s) auto

lemma shell_word_quote: "shell_word None (shlex_quote s) = Some s"
  using shell_word_quoted[of s] by (auto simp: shlex_quote_def shell_word_safe)

end
