(* ===== verification/Appcast_Manager.thy ===== *)
theory Appcast_Manager
  imports Appcast_Signing Py_Url
begin

text \<open>
  \<open>tool/appcast/appcast_manager.py\<close>: the update feed. A feed is an ElementTree; \<open>update_appcast_tree\<close> puts the
  item of a release first, \<open>validate_appcast_tree\<close> checks the feed that is about to be published and
  \<open>smoke_validate_feed\<close> the one that was. Reading and writing XML text (\<open>et.parse\<close>, \<open>et.indent\<close>, \<open>tree.write\<close>)
  and fetching the published feed are parameters.
\<close>

subsection \<open>Elements\<close>

datatype elem = Elem (tag: string) (attrs: "(string \<times> string) list") (elem_text: "string option") (kids: "elem list")

definition findall :: "string \<Rightarrow> elem \<Rightarrow> elem list" where
  "findall t e = filter (\<lambda>c. tag c = t) (kids e)"

definition find_elem :: "string \<Rightarrow> elem \<Rightarrow> elem option" where
  "find_elem t e = (case findall t e of [] \<Rightarrow> None | c # _ \<Rightarrow> Some c)"

text \<open>\<open>(e.findtext(t) or "")\<close>\<close>

definition findtext :: "string \<Rightarrow> elem \<Rightarrow> string" where
  "findtext t e = (case find_elem t e of None \<Rightarrow> [] | Some c \<Rightarrow> (case elem_text c of None \<Rightarrow> [] | Some s \<Rightarrow> s))"

definition attr_get :: "elem \<Rightarrow> string \<Rightarrow> string option" where
  "attr_get e k = map_of (attrs e) k"

text \<open>\<open>x or y\<close> for texts that may be absent\<close>

definition or_text :: "string option \<Rightarrow> string \<Rightarrow> string" where
  "or_text x y = (case x of None \<Rightarrow> y | Some s \<Rightarrow> if s = [] then y else s)"

definition attr_or :: "elem \<Rightarrow> string \<Rightarrow> string" where
  "attr_or e k = (case attr_get e k of None \<Rightarrow> [] | Some s \<Rightarrow> s)"

definition text_elem :: "string \<Rightarrow> string \<Rightarrow> elem" where
  "text_elem t s = Elem t [] (Some s) []"

subsection \<open>Constants and the release context\<close>

definition SPARKLE_NS :: string where
  "SPARKLE_NS = ''http://www.andymatuschak.org/xml-namespaces/sparkle''"

definition PLUG_NS :: string where
  "PLUG_NS = ''https://plug.se7esistemas.com/appcast''"

definition APPCAST_TITLE :: string where
  "APPCAST_TITLE = ''Plug Agente Updates''"

definition APPCAST_LINK :: string where
  "APPCAST_LINK = ''https://github.com/cesar-carlos/plug_agente/releases''"

definition APPCAST_DESCRIPTION :: string where
  "APPCAST_DESCRIPTION = ''Atualizacoes do Plug Agente''"

definition ENCLOSURE_MIME_TYPE :: string where
  "ENCLOSURE_MIME_TYPE = ''application/octet-stream''"

definition WINDOWS_OS_NAME :: string where
  "WINDOWS_OS_NAME = ''windows''"

definition DEFAULT_CHANNEL :: string where
  "DEFAULT_CHANNEL = ''stable''"

definition DEFAULT_ROLLOUT_PERCENTAGE :: int where
  "DEFAULT_ROLLOUT_PERCENTAGE = 100"

record AppcastContext =
  version_short :: string
  full_version :: string
  asset_url :: string
  asset_size :: string
  asset_sha256 :: string
  release_body :: string
  asset_name :: string
  cx_channel :: string
  rollout_percentage :: int
  max_items :: int
  manifest_url :: string
  manifest_sha256 :: string

text \<open>\<open>CONTROL_CHAR_RE\<close>: \<open>[\x00-\x08\x0B\x0C\x0E-\x1F]\<close>\<close>

definition control_char :: "char \<Rightarrow> bool" where
  "control_char c \<longleftrightarrow> (let n = of_char c :: nat in n \<le> 8 \<or> n = 11 \<or> n = 12 \<or> 14 \<le> n \<and> n \<le> 31)"

text \<open>\<open>s.lstrip("\ufeff")\<close>\<close>

fun lstrip_bom :: "string \<Rightarrow> string" where
  "lstrip_bom (a # b # c # r) =
     (if a = CHR 0xEF \<and> b = CHR 0xBB \<and> c = CHR 0xBF then lstrip_bom r else a # b # c # r)"
| "lstrip_bom s = s"

definition sanitize_release_notes :: "string \<Rightarrow> string" where
  "sanitize_release_notes raw =
     py_take 2000 (filter (\<lambda>c. \<not> control_char c) (universal_newlines (lstrip_bom raw)))"

definition normalize_sha256 :: "string \<Rightarrow> string res" where
  "normalize_sha256 value =
     (let n = lower (strip value);
          n' = (if startswith n ''sha256:'' then strip (drop 7 n) else n) in
      if is_sha256 n' then Inr n'
      else Inl (ValueErr ''asset SHA-256 must be a 64-character lowercase hexadecimal digest''))"

definition cx_version :: "AppcastContext \<Rightarrow> string" where
  "cx_version c = (if full_version c \<noteq> [] then full_version c else version_short c)"

definition expected_title :: "AppcastContext \<Rightarrow> string" where
  "expected_title c = ''Version '' @ cx_version c"

definition expected_description :: "AppcastContext \<Rightarrow> string" where
  "expected_description c =
     (if release_body c \<noteq> [] then sanitize_release_notes (release_body c)
      else ''Nova Versao '' @ cx_version c @ '' - Atualizacao automatica via GitHub Release.'')"

definition expected_asset_name :: "AppcastContext \<Rightarrow> string" where
  "expected_asset_name c =
     (if asset_name c \<noteq> [] then asset_name c
      else if asset_url c \<noteq> [] then rsplit_last ''/'' (asset_url c) else [])"

definition expected_asset_sha256 :: "AppcastContext \<Rightarrow> string res" where
  "expected_asset_sha256 c = normalize_sha256 (asset_sha256 c)"

definition expected_channel :: "AppcastContext \<Rightarrow> string" where
  "expected_channel c =
     (let ch = lower (strip (if cx_channel c \<noteq> [] then cx_channel c else DEFAULT_CHANNEL)) in
      if ch = [] then DEFAULT_CHANNEL else ch)"

definition expected_rollout_percentage :: "AppcastContext \<Rightarrow> int res" where
  "expected_rollout_percentage c =
     (if rollout_percentage c < 0 \<or> 100 < rollout_percentage c
      then Inl (ValueErr ''rollout percentage must be between 0 and 100'') else Inr (rollout_percentage c))"

subsection \<open>Reading an enclosure\<close>

definition sparkle_attr :: "string \<Rightarrow> string" where
  "sparkle_attr name = ''{'' @ SPARKLE_NS @ ''}'' @ name"

definition plug_attr :: "string \<Rightarrow> string" where
  "plug_attr name = ''{'' @ PLUG_NS @ ''}'' @ name"

definition sparkle_version :: "elem option \<Rightarrow> string" where
  "sparkle_version enclosure = (case enclosure of None \<Rightarrow> [] | Some e \<Rightarrow>
     strip (or_text (attr_get e (sparkle_attr ''version'')) (attr_or e ''sparkle:version'')))"

definition sparkle_os :: "elem option \<Rightarrow> string" where
  "sparkle_os enclosure = (case enclosure of None \<Rightarrow> [] | Some e \<Rightarrow>
     strip (or_text (attr_get e (sparkle_attr ''os'')) (attr_or e ''sparkle:os'')))"

definition plug_sha256 :: "elem option \<Rightarrow> string res" where
  "plug_sha256 enclosure = (case enclosure of None \<Rightarrow> Inr [] | Some e \<Rightarrow>
     normalize_sha256 (or_text (attr_get e (plug_attr ''sha256'')) (attr_or e ''plug:sha256'')))"

definition plug_channel :: "elem option \<Rightarrow> string" where
  "plug_channel enclosure = (case enclosure of None \<Rightarrow> DEFAULT_CHANNEL | Some e \<Rightarrow>
     (let raw = or_text (attr_get e (plug_attr ''channel'')) (or_text (attr_get e ''plug:channel'') DEFAULT_CHANNEL);
          ch = lower (strip raw) in
      if ch = [] then DEFAULT_CHANNEL else ch))"

definition plug_rollout_percentage :: "elem option \<Rightarrow> int res" where
  "plug_rollout_percentage enclosure = (case enclosure of None \<Rightarrow> Inr DEFAULT_ROLLOUT_PERCENTAGE | Some e \<Rightarrow>
     (let raw = or_text (attr_get e (plug_attr ''rolloutPercentage'')) (attr_or e ''plug:rolloutPercentage'') in
      if strip raw = [] then Inr DEFAULT_ROLLOUT_PERCENTAGE
      else bindR (of_option (ValueErr ''invalid literal for int()'') (int_of_str (strip raw))) (\<lambda>percentage.
        if percentage < 0 \<or> 100 < percentage
        then Inl (ValueErr ''plug:rolloutPercentage must be between 0 and 100'') else Inr percentage)))"

subsection \<open>The channel\<close>

definition default_heads :: "elem list" where
  "default_heads = [text_elem ''title'' APPCAST_TITLE, text_elem ''link'' APPCAST_LINK,
     text_elem ''description'' APPCAST_DESCRIPTION]"

definition ensure_channel :: "elem \<Rightarrow> elem" where
  "ensure_channel rss = (case find_elem ''channel'' rss of
     Some _ \<Rightarrow> rss
   | None \<Rightarrow> Elem (tag rss) (attrs rss) (elem_text rss) (kids rss @ [Elem ''channel'' [] None default_heads]))"

definition item_matches :: "AppcastContext \<Rightarrow> elem \<Rightarrow> bool" where
  "item_matches c it = (let enclosure = find_elem ''enclosure'' it in
     sparkle_version enclosure \<in> {cx_version c, version_short c} \<and>
     sparkle_os enclosure = WINDOWS_OS_NAME \<and> plug_channel enclosure = expected_channel c)"

definition find_matching_item :: "elem \<Rightarrow> AppcastContext \<Rightarrow> elem option" where
  "find_matching_item channel c = find (item_matches c) (findall ''item'' channel)"

subsection \<open>Validation\<close>

definition validate_item :: "elem \<Rightarrow> AppcastContext \<Rightarrow> unit res" where
  "validate_item it c = (case find_elem ''enclosure'' it of
     None \<Rightarrow> Inl (ValueErr ''missing <enclosure> in latest itemem'')
   | Some e \<Rightarrow>
     let title = strip (findtext ''title'' it); description = strip (findtext ''description'' it);
         version = sparkle_version (Some e); latest_url = strip (attr_or e ''url'');
         latest_size = strip (attr_or e ''length''); mime_type = strip (attr_or e ''type'');
         os_name = sparkle_os (Some e) in
     bindR (plug_sha256 (Some e)) (\<lambda>sha256.
     bindR (plug_rollout_percentage (Some e)) (\<lambda>rollout.
     if title \<noteq> expected_title c then Inl (ValueErr ''unexpected title'')
     else if description \<noteq> expected_description c
       then Inl (ValueErr ''latest item description does not match release body'')
     else if version \<noteq> cx_version c then Inl (ValueErr ''unexpected version'')
     else if latest_url \<noteq> asset_url c then Inl (ValueErr ''latest enclosure URL does not match release asset URL'')
     else if latest_size \<noteq> asset_size c
       then Inl (ValueErr ''latest enclosure length does not match release asset size'')
     else bindR (expected_asset_sha256 c) (\<lambda>expected_sha.
     if sha256 \<noteq> expected_sha
       then Inl (ValueErr ''latest enclosure plug:sha256 does not match release asset SHA-256'')
     else if plug_channel (Some e) \<noteq> expected_channel c
       then Inl (ValueErr ''latest enclosure plug:channel does not match release channel'')
     else bindR (expected_rollout_percentage c) (\<lambda>expected_rollout.
     if rollout \<noteq> expected_rollout
       then Inl (ValueErr ''latest enclosure plug:rolloutPercentage does not match release rollout percentage'')
     else if attr_or e (plug_attr ''manifestUrl'') \<noteq> manifest_url c \<or>
             attr_or e (plug_attr ''manifestSha256'') \<noteq> manifest_sha256 c
       then Inl (ValueErr ''latest enclosure manifest identity does not match publication context'')
     else if mime_type \<noteq> ENCLOSURE_MIME_TYPE then Inl (ValueErr ''invalid enclosure type'')
     else if os_name \<noteq> WINDOWS_OS_NAME then Inl (ValueErr ''invalid sparkle:os value'')
     else if expected_asset_name c \<noteq> [] \<and> \<not> contains latest_url (expected_asset_name c)
       then Inl (ValueErr ''latest enclosure URL does not include expected asset name'')
     else if \<not> (startswith latest_url ''https://'' \<and> endswith (lower latest_url) ''.exe'')
       then Inl (ValueErr ''invalid enclosure url'')
     else (case int_of_str latest_size of
         None \<Rightarrow> Inl (ValueErr ''invalid enclosure length'')
       | Some n \<Rightarrow> if n \<le> 0 then Inl (ValueErr ''invalid enclosure length'') else Inr ()))))))"

definition item_matches_context :: "elem \<Rightarrow> AppcastContext \<Rightarrow> bool" where
  "item_matches_context it c = (case validate_item it c of Inl _ \<Rightarrow> False | Inr _ \<Rightarrow> True)"

subsection \<open>Signatures\<close>

definition enclosure_payload :: "AppcastContext \<Rightarrow> EnclosureSignaturePayload res" where
  "enclosure_payload c =
     bindR (expected_asset_sha256 c) (\<lambda>sha256.
     bindR (expected_rollout_percentage c) (\<lambda>rollout.
     bindR (of_option (ValueErr ''invalid literal for int()'') (int_of_str (asset_size c))) (\<lambda>size.
     Inr \<lparr>ep_version = cx_version c, ep_os = WINDOWS_OS_NAME, ep_sha256 = sha256, ep_channel = expected_channel c,
       ep_rollout_percentage = rollout, ep_asset_url = asset_url c, ep_asset_size = size\<rparr>)))"

text \<open>\<open>ManifestBindingPayload(payload, url, sha256).canonical_bytes()\<close>\<close>

definition manifest_binding_bytes :: "EnclosureSignaturePayload \<Rightarrow> string \<Rightarrow> string \<Rightarrow> bytes res" where
  "manifest_binding_bytes payload url sha256 =
     bindR (canonical_bytes payload) (\<lambda>b.
     bindR (normalize_sha256 sha256) (\<lambda>h.
     bindR (encode_utf8 (''manifest_sha256='' @ h @ newline @ ''manifest_url='' @ url @ newline)) (\<lambda>t.
     Inr (b @ t))))"

definition validate_signatures :: "ed25519 \<Rightarrow> elem \<Rightarrow> AppcastContext \<Rightarrow> string \<Rightarrow> unit res" where
  "validate_signatures E it c public_keys =
     bindR (enclosure_payload c) (\<lambda>payload.
     case find_elem ''enclosure'' it of None \<Rightarrow> Inl AttributeErr | Some e \<Rightarrow>
     let signature = strip (attr_or e (plug_attr ''edSignature'')) in
     if signature = [] then Inl (ValueErr ''Feed signature is absent'')
     else if \<not> verify_with_any_key E (canonical_bytes payload) signature public_keys
       then Inl (ValueErr ''Feed signature is invalid'')
     else if manifest_url c = [] then Inr ()
     else if attr_get e (plug_attr ''manifestUrl'') \<noteq> Some (manifest_url c) \<or>
             attr_get e (plug_attr ''manifestSha256'') \<noteq> Some (manifest_sha256 c)
       then Inl (ValueErr ''Feed manifest identity mismatch'')
     else if \<not> verify_with_any_key E (manifest_binding_bytes payload (manifest_url c) (manifest_sha256 c))
               (attr_or e (plug_attr ''manifestSignature'')) public_keys
       then Inl (ValueErr ''Feed manifest signature is absent or invalid'')
     else Inr ())"

subsection \<open>Updating the feed\<close>

definition base_attrs :: "AppcastContext \<Rightarrow> string \<Rightarrow> int \<Rightarrow> (string \<times> string) list" where
  "base_attrs c sha256 rollout =
     [(''url'', asset_url c), (sparkle_attr ''version'', cx_version c), (sparkle_attr ''os'', WINDOWS_OS_NAME),
      (plug_attr ''sha256'', sha256), (plug_attr ''channel'', expected_channel c),
      (plug_attr ''rolloutPercentage'', str_int rollout), (''length'', asset_size c), (''type'', ENCLOSURE_MIME_TYPE)]"

definition manifest_attrs :: "AppcastContext \<Rightarrow> string \<Rightarrow> (string \<times> string) list res" where
  "manifest_attrs c signing_key =
     (if (manifest_url c \<noteq> []) \<noteq> (manifest_sha256 c \<noteq> [])
      then Inl (ValueErr ''Manifest URL and hash must be supplied together'')
      else if manifest_url c = [] then Inr []
      else bindR (urlparse (manifest_url c)) (\<lambda>(scheme, netloc, path).
        if scheme \<noteq> ''https'' \<or> netloc = [] \<or> \<not> endswith path ''.json''
        then Inl (ValueErr ''Manifest URL must be HTTPS JSON'')
        else if signing_key = [] then Inl (ValueErr ''Manifest feed binding requires signing'')
        else bindR (normalize_sha256 (manifest_sha256 c)) (\<lambda>h.
          Inr [(plug_attr ''manifestUrl'', manifest_url c), (plug_attr ''manifestSha256'', h)])))"

definition signature_attrs :: "ed25519 \<Rightarrow> AppcastContext \<Rightarrow> string \<Rightarrow> (string \<times> string) list res" where
  "signature_attrs E c signing_key =
     (if signing_key = [] then Inr []
      else bindR (enclosure_payload c) (\<lambda>payload.
        bindR (sign_payload E (canonical_bytes payload) signing_key) (\<lambda>sig.
        if manifest_url c = [] then Inr [(plug_attr ''edSignature'', sig)]
        else bindR (sign_payload E (manifest_binding_bytes payload (manifest_url c) (manifest_sha256 c)) signing_key) (\<lambda>msig.
          Inr [(plug_attr ''edSignature'', sig), (plug_attr ''manifestSignature'', msig)]))))"

definition build_appcast_item :: "ed25519 \<Rightarrow> AppcastContext \<Rightarrow> string \<Rightarrow> string \<Rightarrow> elem res" where
  "build_appcast_item E c pub_date signing_key =
     bindR (expected_asset_sha256 c) (\<lambda>sha256.
     bindR (expected_rollout_percentage c) (\<lambda>rollout.
     bindR (manifest_attrs c signing_key) (\<lambda>ma.
     bindR (signature_attrs E c signing_key) (\<lambda>sa.
     Inr (Elem ''item'' [] None
       [text_elem ''title'' (expected_title c), text_elem ''pubDate'' pub_date,
        text_elem ''description'' (expected_description c),
        Elem ''enclosure'' (base_attrs c sha256 rollout @ ma @ sa) None []])))))"

definition base_rss_root :: elem where
  "base_rss_root = Elem ''rss'' [(''version'', ''2.0'')] None []"

text \<open>\<open>xs[:n]\<close>\<close>

definition slice_to :: "int \<Rightarrow> 'a list \<Rightarrow> 'a list" where
  "slice_to n xs = (if 0 \<le> n then take (nat n) xs else take (nat (int (length xs) + n)) xs)"

text \<open>The children of the channel after an update with the item \<open>it\<close>\<close>

definition arranged :: "AppcastContext \<Rightarrow> elem list \<Rightarrow> elem list" where
  "arranged c cs =
     (let preserved = filter (\<lambda>k. tag k \<in> {''title'', ''link'', ''description''}) cs;
          items = slice_to (max_items c) (filter (\<lambda>k. tag k = ''item'') cs) in
      (if preserved \<noteq> [] then preserved else default_heads) @ items)"

definition existing_pub_date :: "elem \<Rightarrow> AppcastContext \<Rightarrow> string" where
  "existing_pub_date channel c = (case find_matching_item channel c of
     None \<Rightarrow> [] | Some m \<Rightarrow> strip (findtext ''pubDate'' m))"

definition item_to_publish :: "ed25519 \<Rightarrow> elem \<Rightarrow> AppcastContext \<Rightarrow> string \<Rightarrow> string \<Rightarrow> elem res" where
  "item_to_publish E channel c published_at signing_key =
     (let pub = existing_pub_date channel c;
          build = build_appcast_item E c (if pub \<noteq> [] then pub else published_at) signing_key in
      case find_matching_item channel c of
        None \<Rightarrow> build
      | Some m \<Rightarrow> if signing_key = [] \<and> pub \<noteq> [] \<and> item_matches_context m c then Inr m else build)"

definition update_channel :: "ed25519 \<Rightarrow> elem \<Rightarrow> AppcastContext \<Rightarrow> string \<Rightarrow> string \<Rightarrow> elem res" where
  "update_channel E channel c published_at signing_key =
     (let rest = filter (\<lambda>k. \<not> (tag k = ''item'' \<and> item_matches c k)) (kids channel) in
      bindR (item_to_publish E channel c published_at signing_key) (\<lambda>it.
      Inr (Elem (tag channel) (attrs channel) (elem_text channel) (arranged c (it # rest)))))"

text \<open>Replace the first element that satisfies \<open>P\<close>.\<close>

fun replace_first :: "('a \<Rightarrow> bool) \<Rightarrow> 'a \<Rightarrow> 'a list \<Rightarrow> 'a list" where
  "replace_first P y [] = []"
| "replace_first P y (x # xs) = (if P x then y # xs else x # replace_first P y xs)"

definition update_appcast_tree :: "ed25519 \<Rightarrow> elem \<Rightarrow> AppcastContext \<Rightarrow> string \<Rightarrow> string \<Rightarrow> elem res" where
  "update_appcast_tree E rss c published_at signing_key =
     (let rss' = ensure_channel rss in
      case find_elem ''channel'' rss' of
        None \<Rightarrow> Inl AttributeErr
      | Some channel \<Rightarrow>
        bindR (update_channel E channel c published_at signing_key) (\<lambda>channel'.
        Inr (Elem (tag rss') (attrs rss') (elem_text rss')
          (replace_first (\<lambda>k. tag k = ''channel'') channel' (kids rss')))))"

subsection \<open>Checking a feed\<close>

definition validate_appcast_tree :: "ed25519 \<Rightarrow> elem \<Rightarrow> AppcastContext \<Rightarrow> string \<Rightarrow> unit res" where
  "validate_appcast_tree E rss c public_keys = (case find_elem ''channel'' rss of
     None \<Rightarrow> Inl (ValueErr ''appcast.xml missing <channel>.'')
   | Some channel \<Rightarrow> (case findall ''item'' channel of
       [] \<Rightarrow> Inl (ValueErr ''appcast.xml missing <item>.'')
     | latest # others \<Rightarrow>
       if max_items c < int (length (latest # others)) then Inl (ValueErr ''invalid item count in appcast.xml'')
       else if sparkle_version (find_elem ''enclosure'' latest) \<noteq> cx_version c
         then Inl (ValueErr ''latest appcast item version mismatch'')
       else bindR (validate_item latest c) (\<lambda>_.
         if public_keys = [] then Inr () else validate_signatures E latest c public_keys)))"

definition context_from_latest_item :: "elem \<Rightarrow> int \<Rightarrow> AppcastContext res" where
  "context_from_latest_item it limit = (case find_elem ''enclosure'' it of
     None \<Rightarrow> Inl (ValueErr ''missing <enclosure> in latest item'')
   | Some e \<Rightarrow>
     let version = sparkle_version (Some e); url = strip (attr_or e ''url'') in
     if version = [] then Inl (ValueErr ''latest item missing sparkle:version'')
     else bindR (plug_sha256 (Some e)) (\<lambda>sha256.
       bindR (plug_rollout_percentage (Some e)) (\<lambda>rollout.
       bindR (urlparse url) (\<lambda>(scheme, netloc, path).
       let c = \<lparr>version_short = split_head ''+'' version, full_version = version, asset_url = url,
           asset_size = strip (attr_or e ''length''), asset_sha256 = sha256,
           release_body = strip (findtext ''description'' it), asset_name = path_name path,
           cx_channel = plug_channel (Some e), rollout_percentage = rollout, max_items = limit,
           manifest_url = attr_or e (plug_attr ''manifestUrl''),
           manifest_sha256 = attr_or e (plug_attr ''manifestSha256'')\<rparr> in
       bindR (validate_item it c) (\<lambda>_. Inr c)))))"

definition inspect_feed :: "ed25519 \<Rightarrow> elem res \<Rightarrow> int \<Rightarrow> string \<Rightarrow> AppcastContext res" where
  "inspect_feed E fetched limit public_keys =
     bindR fetched (\<lambda>rss. case find_elem ''channel'' rss of
       None \<Rightarrow> Inl (ValueErr ''missing <channel>'')
     | Some channel \<Rightarrow> (case findall ''item'' channel of
         [] \<Rightarrow> Inl (ValueErr ''missing <item>'')
       | latest # others \<Rightarrow>
         if limit < int (length (latest # others)) then Inl (ValueErr ''item count exceeds limit'')
         else bindR (context_from_latest_item latest limit) (\<lambda>c.
           if public_keys = [] then Inr c
           else bindR (validate_signatures E latest c public_keys) (\<lambda>_. Inr c))))"

text \<open>One attempt of the smoke test, on what the fetch returned\<close>

definition smoke_attempt :: "ed25519 \<Rightarrow> elem res \<Rightarrow> AppcastContext \<Rightarrow> string \<Rightarrow> unit res" where
  "smoke_attempt E fetched c public_keys =
     bindR fetched (\<lambda>rss. case find_elem ''channel'' rss of
       None \<Rightarrow> Inl (ValueErr ''missing <channel>'')
     | Some channel \<Rightarrow> (case findall ''item'' channel of
         [] \<Rightarrow> Inl (ValueErr ''missing <item>'')
       | latest # others \<Rightarrow>
         if max_items c < int (length (latest # others)) then Inl (ValueErr ''item count exceeds limit'')
         else bindR (validate_item latest c) (\<lambda>_.
           if public_keys = [] then Inr () else validate_signatures E latest c public_keys)))"

text \<open>The retry loop. \<open>fetch k\<close> is what the k-th request returns; the result comes with the number of requests
  and of pauses.\<close>

fun smoke_from :: "ed25519 \<Rightarrow> (nat \<Rightarrow> elem res) \<Rightarrow> AppcastContext \<Rightarrow> string \<Rightarrow> nat \<Rightarrow> nat \<Rightarrow> unit res \<times> nat \<times> nat" where
  "smoke_from E fetch c public_keys attempt 0 =
     (Inl (RuntimeErr ''published appcast smoke validation failed''), 0, 0)"
| "smoke_from E fetch c public_keys attempt (Suc left) =
     (case smoke_attempt E (fetch attempt) c public_keys of
        Inr _ \<Rightarrow> (Inr (), 1, 0)
      | Inl _ \<Rightarrow>
          (let (r, requests, pauses) = smoke_from E fetch c public_keys (Suc attempt) left in
           (r, Suc requests, if left = 0 then pauses else Suc pauses)))"

definition smoke_validate_feed :: "ed25519 \<Rightarrow> (nat \<Rightarrow> elem res) \<Rightarrow> AppcastContext \<Rightarrow> int \<Rightarrow> string \<Rightarrow> unit res \<times> nat \<times> nat" where
  "smoke_validate_feed E fetch c attempts public_keys = smoke_from E fetch c public_keys 1 (nat attempts)"

subsection \<open>Commands\<close>

record xml_api =
  xml_parse :: "bytes \<Rightarrow> elem res"
  xml_bytes :: "elem \<Rightarrow> bytes"

text \<open>The file system and what the commands print\<close>

record feed_world =
  fw_files :: files
  fw_log :: "string list"

definition say :: "string \<Rightarrow> (feed_world, unit) io" where
  "say line = updI (\<lambda>w. w\<lparr>fw_log := fw_log w @ [line]\<rparr>)"

definition put_file :: "string \<Rightarrow> bytes \<Rightarrow> (feed_world, unit) io" where
  "put_file path b = updI (\<lambda>w. w\<lparr>fw_files := (fw_files w)(path \<mapsto> b)\<rparr>)"

definition drop_file :: "string \<Rightarrow> (feed_world, unit) io" where
  "drop_file path = updI (\<lambda>w. w\<lparr>fw_files := (fw_files w)(path := None)\<rparr>)"

definition write_text :: "string \<Rightarrow> string \<Rightarrow> (feed_world, unit) io" where
  "write_text path t = bindI (liftI (encode_utf8 t)) (put_file path)"

text \<open>Where a write of the feed may fail\<close>

datatype write_fault = NoFault | FaultOpen | FaultWrite | FaultSync | FaultReplace

definition xml_declaration :: bytes where
  "xml_declaration = ''<?xml version='' @ [CHR 0x22] @ ''1.0'' @ [CHR 0x22] @ '' encoding='' @ [CHR 0x22] @ ''UTF-8'' @ [CHR 0x22] @ ''?>'' @ newline"

definition write_appcast_tree :: "xml_api \<Rightarrow> write_fault \<Rightarrow> string \<Rightarrow> elem \<Rightarrow> string \<Rightarrow> (feed_world, unit) io" where
  "write_appcast_tree X fault temporary tree appcast_path =
     bindI (guardI (fault = FaultOpen) (OSErr ''open'')) (\<lambda>_.
     bindI (put_file temporary []) (\<lambda>_.
     finallyI
       (bindI (guardI (fault = FaultWrite) (OSErr ''write'')) (\<lambda>_.
        bindI (put_file temporary (xml_declaration @ xml_bytes X tree)) (\<lambda>_.
        bindI (guardI (fault = FaultSync) (OSErr ''fsync'')) (\<lambda>_.
        bindI (guardI (fault = FaultReplace) (OSErr ''replace'')) (\<lambda>_.
        bindI (checkI (\<lambda>w. read_file (fw_files w) temporary)) (\<lambda>b.
        bindI (put_file appcast_path b) (\<lambda>_. drop_file temporary)))))))
       (drop_file temporary)))"

definition load_or_create_tree :: "xml_api \<Rightarrow> files \<Rightarrow> string \<Rightarrow> elem res" where
  "load_or_create_tree X fs appcast_path = (case fs appcast_path of
     Some b \<Rightarrow> xml_parse X b | None \<Rightarrow> Inr base_rss_root)"

definition load_release_body :: "files \<Rightarrow> string option \<Rightarrow> string res" where
  "load_release_body fs path = (case path of None \<Rightarrow> Inr [] | Some p \<Rightarrow>
     (case fs p of None \<Rightarrow> Inr [] | Some b \<Rightarrow> bindR (decode_text b) (\<lambda>t. Inr (strip t))))"

record feed_args =
  fa_appcast :: string
  fa_preserve_existing_rollout :: bool
  fa_github_output :: "string option"
  fa_signing_private_key :: string
  fa_version_short :: string
  fa_full_version :: string
  fa_asset_url :: string
  fa_asset_size :: string
  fa_asset_sha256 :: string
  fa_asset_name :: string
  fa_channel :: string
  fa_rollout_percentage :: int
  fa_release_body_file :: "string option"
  fa_max_items :: int
  fa_manifest_url :: string
  fa_manifest_sha256 :: string
  fa_public_keys :: string

definition build_context_from_args :: "files \<Rightarrow> feed_args \<Rightarrow> AppcastContext res" where
  "build_context_from_args fs a =
     bindR (load_release_body fs (fa_release_body_file a)) (\<lambda>body.
     Inr \<lparr>version_short = fa_version_short a, full_version = fa_full_version a, asset_url = fa_asset_url a,
       asset_size = fa_asset_size a, asset_sha256 = fa_asset_sha256 a, release_body = body,
       asset_name = fa_asset_name a, cx_channel = fa_channel a, rollout_percentage = fa_rollout_percentage a,
       max_items = fa_max_items a, manifest_url = fa_manifest_url a, manifest_sha256 = fa_manifest_sha256 a\<rparr>)"

text \<open>\<open>--preserve-existing-rollout\<close>\<close>

definition preserved_rollout :: "feed_args \<Rightarrow> elem \<Rightarrow> AppcastContext \<Rightarrow> AppcastContext res" where
  "preserved_rollout a tree c =
     (if fa_preserve_existing_rollout a then
        (case find_elem ''channel'' tree of None \<Rightarrow> Inr c | Some channel \<Rightarrow>
          (case find_matching_item channel c of None \<Rightarrow> Inr c | Some existing \<Rightarrow>
             bindR (plug_rollout_percentage (find_elem ''enclosure'' existing)) (\<lambda>r.
             Inr (c\<lparr>rollout_percentage := r\<rparr>))))
      else Inr c)"

definition append_output :: "string option \<Rightarrow> string \<Rightarrow> (feed_world, unit) io" where
  "append_output path t = (case path of None \<Rightarrow> retI () | Some p \<Rightarrow>
     bindI (readI (\<lambda>w. case fw_files w p of None \<Rightarrow> [] | Some b \<Rightarrow> b)) (\<lambda>b. put_file p (b @ t)))"

definition command_update :: "ed25519 \<Rightarrow> xml_api \<Rightarrow> write_fault \<Rightarrow> string \<Rightarrow> string \<Rightarrow> feed_args \<Rightarrow> (feed_world, int) io" where
  "command_update E X fault temporary now a =
     bindI (checkI (\<lambda>w. build_context_from_args (fw_files w) a)) (\<lambda>c0.
     bindI (checkI (\<lambda>w. load_or_create_tree X (fw_files w) (fa_appcast a))) (\<lambda>tree.
     bindI (liftI (preserved_rollout a tree c0)) (\<lambda>c.
     bindI (liftI (update_appcast_tree E tree c now (fa_signing_private_key a))) (\<lambda>tree'.
     bindI (write_appcast_tree X fault temporary tree' (fa_appcast a)) (\<lambda>_.
     bindI (case fa_github_output a of None \<Rightarrow> retI () | Some p \<Rightarrow>
       bindI (liftI (expected_rollout_percentage c)) (\<lambda>r.
       append_output (Some p) (''rollout_percentage='' @ str_int r @ newline))) (\<lambda>_.
     bindI (say (''Successfully updated '' @ fa_appcast a @ '' with version '' @ cx_version c @
       (if fa_signing_private_key a \<noteq> [] then '' (signed)'' else []))) (\<lambda>_. retI 0)))))))"

definition command_validate_file :: "ed25519 \<Rightarrow> xml_api \<Rightarrow> feed_args \<Rightarrow> (feed_world, int) io" where
  "command_validate_file E X a =
     bindI (checkI (\<lambda>w. build_context_from_args (fw_files w) a)) (\<lambda>c.
     bindI (checkI (\<lambda>w. bindR (read_file (fw_files w) (fa_appcast a)) (xml_parse X))) (\<lambda>tree.
     bindI (liftI (validate_appcast_tree E tree c (fa_public_keys a))) (\<lambda>_.
     bindI (say (''appcast.xml validation passed (version='' @ cx_version c @ '', item_count='' @
       (case find_elem ''channel'' tree of None \<Rightarrow> [] | Some ch \<Rightarrow> nat_str (length (findall ''item'' ch))) @ '')''))
     (\<lambda>_. retI 0))))"

definition command_smoke_validate_url ::
  "ed25519 \<Rightarrow> (nat \<Rightarrow> elem res) \<Rightarrow> string \<Rightarrow> int \<Rightarrow> feed_args \<Rightarrow> (feed_world, int) io" where
  "command_smoke_validate_url E fetch feed_url attempts a =
     bindI (checkI (\<lambda>w. build_context_from_args (fw_files w) a)) (\<lambda>c.
     bindI (liftI (fst (smoke_validate_feed E fetch c attempts (fa_public_keys a)))) (\<lambda>_.
     bindI (say (''Published appcast smoke validation passed (version='' @ cx_version c @ '', feed='' @ feed_url @ '').''))
     (\<lambda>_. retI 0)))"

definition shell_env :: "AppcastContext \<Rightarrow> string res" where
  "shell_env c =
     bindR (expected_asset_sha256 c) (\<lambda>sha256.
     bindR (expected_rollout_percentage c) (\<lambda>rollout.
     Inr (concat (map (\<lambda>(k, v). k @ ''='' @ shlex_quote v @ newline)
       [(''VERSION_SHORT'', version_short c), (''FULL_VERSION'', full_version c), (''ASSET_URL'', asset_url c),
        (''ASSET_SIZE'', asset_size c), (''ASSET_NAME'', expected_asset_name c), (''ASSET_SHA256'', sha256),
        (''CHANNEL'', expected_channel c), (''ROLLOUT_PERCENTAGE'', str_int rollout),
        (''MANIFEST_URL'', manifest_url c), (''MANIFEST_SHA256'', manifest_sha256 c)]))))"

definition write_shell_env :: "string \<Rightarrow> AppcastContext \<Rightarrow> (feed_world, unit) io" where
  "write_shell_env path c = bindI (liftI (shell_env c)) (write_text path)"

definition command_inspect_url ::
  "ed25519 \<Rightarrow> elem res \<Rightarrow> int \<Rightarrow> string \<Rightarrow> string \<Rightarrow> string \<Rightarrow> (feed_world, int) io" where
  "command_inspect_url E fetched limit public_keys env_file release_body_file =
     bindI (liftI (inspect_feed E fetched limit public_keys)) (\<lambda>c.
     bindI (write_shell_env env_file c) (\<lambda>_.
     bindI (write_text release_body_file (release_body c)) (\<lambda>_.
     bindI (say (''Current appcast inspection passed (version='' @ cx_version c @ '', asset='' @ expected_asset_name c @ '').''))
     (\<lambda>_. retI 0))))"

text \<open>\<open>main\<close>: every exception becomes exit code 1.\<close>

datatype feed_command =
    CmdUpdate feed_args
  | CmdValidateFile feed_args
  | CmdSmokeValidateUrl string int feed_args
  | CmdInspectUrl int string string string

definition appcast_main ::
  "ed25519 \<Rightarrow> xml_api \<Rightarrow> write_fault \<Rightarrow> string \<Rightarrow> string \<Rightarrow> (nat \<Rightarrow> elem res) \<Rightarrow> feed_command \<Rightarrow> (feed_world, int) io" where
  "appcast_main E X fault temporary now fetch cmd =
     catchI
       (case cmd of
          CmdUpdate a \<Rightarrow> command_update E X fault temporary now a
        | CmdValidateFile a \<Rightarrow> command_validate_file E X a
        | CmdSmokeValidateUrl url attempts a \<Rightarrow> command_smoke_validate_url E fetch url attempts a
        | CmdInspectUrl limit keys env body \<Rightarrow> command_inspect_url E (fetch 1) limit keys env body)
       (\<lambda>e. bindI (say ''Error'') (\<lambda>_. retI 1))"

end
