(* ===== verification/Appcast_Spec.thy ===== *)
theory Appcast_Spec
  imports Appcast_Manager
begin

text \<open>
  What the feed tools promise: an update is accepted by the check that follows it, keeps the other entries in
  order, leaves one entry per version, system and channel, and is idempotent; a signed update verifies; the
  smoke test is a bounded retry; the feed file is replaced atomically.
\<close>

subsection \<open>Names of attributes\<close>

lemma attr_names [simp]:
  "plug_attr a = plug_attr b \<longleftrightarrow> a = b" "sparkle_attr a = sparkle_attr b \<longleftrightarrow> a = b"
  "sparkle_attr a \<noteq> plug_attr b" "plug_attr b \<noteq> sparkle_attr a"
  by (simp_all add: plug_attr_def sparkle_attr_def SPARKLE_NS_def PLUG_NS_def)

lemma attr_names_plain [simp]:
  "plug_attr a \<noteq> ''url''" "plug_attr a \<noteq> ''length''" "plug_attr a \<noteq> ''type''" "plug_attr a \<noteq> ''plug:channel''"
  "plug_attr a \<noteq> ''plug:sha256''" "plug_attr a \<noteq> ''plug:rolloutPercentage''" "plug_attr a \<noteq> ''sparkle:version''"
  "sparkle_attr a \<noteq> ''url''" "sparkle_attr a \<noteq> ''length''" "sparkle_attr a \<noteq> ''type''"
  "sparkle_attr a \<noteq> ''sparkle:version''" "sparkle_attr a \<noteq> ''sparkle:os''" "plug_attr a \<noteq> ''sparkle:os''"
  by (simp_all add: plug_attr_def sparkle_attr_def)

lemmas attr_names_sym [simp] = attr_names_plain [symmetric]

subsection \<open>Digests\<close>

lemma is_sha256_facts: "is_sha256 h \<Longrightarrow> strip h = h \<and> lower h = h \<and> \<not> startswith h ''sha256:'' \<and> h \<noteq> []"
proof -
  assume h: "is_sha256 h"
  then have x: "list_all is_hex h" "length h = 64" by (auto simp: is_sha256_def)
  have "list_all visible h" using x(1) by (auto simp: list_all_iff is_hex_visible)
  moreover have "\<not> startswith h ''sha256:''"
  proof
    assume "startswith h ''sha256:''"
    then obtain t where t: "h = ''sha256:'' @ t" by (auto simp: startswith_iff)
    have "is_hex CHR ''s''" using x(1) by (simp add: t)
    then show False by (simp add: is_hex_def is_digit_def)
  qed
  ultimately show ?thesis using x strip_visible lower_hex by auto
qed

lemma normalize_sha256_shape: "normalize_sha256 v = Inr h \<Longrightarrow> is_sha256 h"
  by (auto simp: normalize_sha256_def Let_def split: if_splits)

lemma normalize_sha256_id: "is_sha256 h \<Longrightarrow> normalize_sha256 h = Inr h"
  using is_sha256_facts[of h] by (simp add: normalize_sha256_def Let_def)

subsection \<open>A context that can be published\<close>

definition publishable :: "AppcastContext \<Rightarrow> bool" where
  "publishable c \<longleftrightarrow>
     cx_version c \<noteq> [] \<and> list_all visible (cx_version c) \<and>
     strip (expected_description c) = expected_description c \<and>
     strip (asset_url c) = asset_url c \<and> startswith (asset_url c) ''https://'' \<and> endswith (lower (asset_url c)) ''.exe'' \<and>
     contains (asset_url c) (expected_asset_name c) \<and>
     strip (asset_size c) = asset_size c \<and> (\<exists>n. int_of_str (asset_size c) = Some n \<and> 0 < n) \<and>
     list_all visible (expected_channel c) \<and>
     (manifest_sha256 c \<noteq> [] \<longrightarrow> is_sha256 (manifest_sha256 c)) \<and>
     1 \<le> max_items c"

lemma expected_title_strip: "cx_version c \<noteq> [] \<Longrightarrow> list_all visible (cx_version c) \<Longrightarrow> strip (expected_title c) = expected_title c"
  by (rule strip_id) (auto simp: expected_title_def visible_def list_all_iff dest: last_in_set)

lemma expected_channel_lower: "lower (expected_channel c) = expected_channel c" "expected_channel c \<noteq> []"
proof -
  have "lower DEFAULT_CHANNEL = DEFAULT_CHANNEL" by code_simp
  then show "lower (expected_channel c) = expected_channel c" by (simp add: expected_channel_def Let_def)
  show "expected_channel c \<noteq> []" by (simp add: expected_channel_def Let_def DEFAULT_CHANNEL_def)
qed

lemma manifest_attrs_ok:
  assumes "manifest_attrs c key = Inr ma" "manifest_sha256 c \<noteq> [] \<longrightarrow> is_sha256 (manifest_sha256 c)"
  shows "ma = (if manifest_url c = [] then [] else [(plug_attr ''manifestUrl'', manifest_url c), (plug_attr ''manifestSha256'', manifest_sha256 c)])"
    "manifest_url c = [] \<longleftrightarrow> manifest_sha256 c = []" "manifest_url c \<noteq> [] \<Longrightarrow> key \<noteq> []"
  using assms by (auto simp: manifest_attrs_def ok_iff normalize_sha256_id split: if_splits prod.splits)

lemma signature_attrs_ok:
  assumes "signature_attrs E c key = Inr sa"
  shows "fst ` set sa \<subseteq> {plug_attr ''edSignature'', plug_attr ''manifestSignature''}"
  using assms by (auto simp: signature_attrs_def ok_iff split: if_splits)

lemma built_item:
  assumes "build_appcast_item E c pub key = Inr it" "publishable c"
  shows "\<exists>e sha sa. find_elem ''enclosure'' it = Some e \<and> findtext ''title'' it = expected_title c \<and> tag it = ''item'' \<and>
    findtext ''pubDate'' it = pub \<and> findtext ''description'' it = expected_description c \<and>
    expected_asset_sha256 c = Inr sha \<and> expected_rollout_percentage c = Inr (rollout_percentage c) \<and>
    signature_attrs E c key = Inr sa \<and>
    attr_get e ''url'' = Some (asset_url c) \<and> attr_get e (sparkle_attr ''version'') = Some (cx_version c) \<and>
    attr_get e (sparkle_attr ''os'') = Some WINDOWS_OS_NAME \<and> attr_get e (plug_attr ''sha256'') = Some sha \<and>
    attr_get e (plug_attr ''channel'') = Some (expected_channel c) \<and>
    attr_get e (plug_attr ''rolloutPercentage'') = Some (str_int (rollout_percentage c)) \<and>
    attr_get e ''length'' = Some (asset_size c) \<and> attr_get e ''type'' = Some ENCLOSURE_MIME_TYPE \<and>
    attr_get e (plug_attr ''manifestUrl'') = (if manifest_url c = [] then None else Some (manifest_url c)) \<and>
    attr_get e (plug_attr ''manifestSha256'') = (if manifest_url c = [] then None else Some (manifest_sha256 c)) \<and>
    attr_get e (plug_attr ''edSignature'') = map_of sa (plug_attr ''edSignature'') \<and>
    attr_get e (plug_attr ''manifestSignature'') = map_of sa (plug_attr ''manifestSignature'') \<and>
    (manifest_url c = [] \<longleftrightarrow> manifest_sha256 c = [])"
proof -
  obtain sha r ma sa where b: "expected_asset_sha256 c = Inr sha" "expected_rollout_percentage c = Inr r"
    "manifest_attrs c key = Inr ma" "signature_attrs E c key = Inr sa"
    "it = Elem ''item'' [] None [text_elem ''title'' (expected_title c), text_elem ''pubDate'' pub,
        text_elem ''description'' (expected_description c), Elem ''enclosure'' (base_attrs c sha r @ ma @ sa) None []]"
    using assms(1) unfolding build_appcast_item_def ok_iff by auto
  have r: "r = rollout_percentage c" using b(2) by (auto simp: expected_rollout_percentage_def split: if_splits)
  have m: "manifest_sha256 c \<noteq> [] \<longrightarrow> is_sha256 (manifest_sha256 c)" using assms(2) by (simp add: publishable_def)
  note ma = manifest_attrs_ok[OF b(3) m]
  have n: "map_of sa k = None" if "k \<noteq> plug_attr ''edSignature''" "k \<noteq> plug_attr ''manifestSignature''" for k
    using signature_attrs_ok[OF b(4)] that by (auto simp: map_of_eq_None_iff)
  let ?e = "Elem ''enclosure'' (base_attrs c sha r @ ma @ sa) None []"
  show ?thesis
    using b(1,2,4) ma(1,2)
    by (intro exI[of _ ?e] exI[of _ sha] exI[of _ sa])
      (simp add: b(5) r n find_elem_def findall_def findtext_def text_elem_def attr_get_def base_attrs_def map_add_def)
qed

lemma built_valid:
  assumes "build_appcast_item E c pub key = Inr it" "publishable c"
  shows "validate_item it c = Inr ()" "sparkle_version (find_elem ''enclosure'' it) = cx_version c"
    "item_matches c it" "tag it = ''item''" "findtext ''pubDate'' it = pub"
proof -
  note p = assms(2)[unfolded publishable_def]
  obtain e sha where e: "find_elem ''enclosure'' it = Some e" "findtext ''title'' it = expected_title c" "tag it = ''item''"
    "findtext ''pubDate'' it = pub" "findtext ''description'' it = expected_description c"
    "expected_asset_sha256 c = Inr sha" "expected_rollout_percentage c = Inr (rollout_percentage c)"
    "attr_get e ''url'' = Some (asset_url c)" "attr_get e (sparkle_attr ''version'') = Some (cx_version c)"
    "attr_get e (sparkle_attr ''os'') = Some WINDOWS_OS_NAME" "attr_get e (plug_attr ''sha256'') = Some sha"
    "attr_get e (plug_attr ''channel'') = Some (expected_channel c)"
    "attr_get e (plug_attr ''rolloutPercentage'') = Some (str_int (rollout_percentage c))"
    "attr_get e ''length'' = Some (asset_size c)" "attr_get e ''type'' = Some ENCLOSURE_MIME_TYPE"
    "attr_get e (plug_attr ''manifestUrl'') = (if manifest_url c = [] then None else Some (manifest_url c))"
    "attr_get e (plug_attr ''manifestSha256'') = (if manifest_url c = [] then None else Some (manifest_sha256 c))"
    "manifest_url c = [] \<longleftrightarrow> manifest_sha256 c = []"
    using built_item[OF assms] by (elim exE conjE) (rule that)
  have sha: "is_sha256 sha" using e(6) normalize_sha256_shape by (simp add: expected_asset_sha256_def)
  have v: "sparkle_version (Some e) = cx_version c"
    using p e(9) by (simp add: sparkle_version_def or_text_def strip_visible)
  have w: "strip WINDOWS_OS_NAME = WINDOWS_OS_NAME" "WINDOWS_OS_NAME \<noteq> []" "strip ENCLOSURE_MIME_TYPE = ENCLOSURE_MIME_TYPE"
    by (rule strip_visible, simp add: WINDOWS_OS_NAME_def visible_def) (simp add: WINDOWS_OS_NAME_def,
        rule strip_visible, simp add: ENCLOSURE_MIME_TYPE_def visible_def)
  then have os: "sparkle_os (Some e) = WINDOWS_OS_NAME" using e(10) by (simp add: sparkle_os_def or_text_def)
  have ps: "plug_sha256 (Some e) = Inr sha"
    using e(11) sha is_sha256_facts[OF sha] by (simp add: plug_sha256_def or_text_def normalize_sha256_id)
  have pc: "plug_channel (Some e) = expected_channel c"
    using p e(12) expected_channel_lower[of c] by (simp add: plug_channel_def or_text_def strip_visible Let_def)
  have "0 \<le> rollout_percentage c" "rollout_percentage c \<le> 100"
    using e(7) by (auto simp: expected_rollout_percentage_def split: if_splits)
  then have pr: "plug_rollout_percentage (Some e) = Inr (rollout_percentage c)"
    using e(13) str_int_nonempty[of "rollout_percentage c"] strip_visible[OF str_int_visible, of "rollout_percentage c"]
    by (simp add: plug_rollout_percentage_def or_text_def Let_def int_of_str_int)
  have ma: "attr_or e (plug_attr ''manifestUrl'') = manifest_url c" "attr_or e (plug_attr ''manifestSha256'') = manifest_sha256 c"
    using e(16-18) by (auto simp: attr_or_def)
  show "validate_item it c = Inr ()"
    using p e(1,2,5,6,7,8,14,15) v os ps pc pr ma w expected_title_strip[of c]
    unfolding validate_item_def by (auto simp: attr_or_def Let_def)
  show "sparkle_version (find_elem ''enclosure'' it) = cx_version c" "tag it = ''item''" "findtext ''pubDate'' it = pub"
    using e v by simp_all
  show "item_matches c it" using e v os pc by (simp add: item_matches_def Let_def)
qed

lemma find_Some_mem: "find P xs = Some x \<Longrightarrow> x \<in> set xs \<and> P x"
  by (induction xs) (auto split: if_splits)

lemma find_elem_mem: "find_elem t e = Some x \<Longrightarrow> x \<in> set (kids e) \<and> tag x = t"
proof -
  assume "find_elem t e = Some x"
  then obtain r where "findall t e = x # r" by (auto simp: find_elem_def split: list.splits)
  then have "x \<in> set (findall t e)" by simp
  then show ?thesis by (simp add: findall_def)
qed

lemma validate_item_version: "validate_item it c = Inr () \<Longrightarrow> sparkle_version (find_elem ''enclosure'' it) = cx_version c"
  by (auto simp: validate_item_def Let_def ok_iff split: option.splits)

lemma slice_to_pos: "1 \<le> n \<Longrightarrow> slice_to n (x # xs) = x # take (nat (n - 1)) xs"
proof -
  assume n: "1 \<le> n"
  then have "nat n = Suc (nat (n - 1))" by simp
  then show ?thesis using n by (simp add: slice_to_def)
qed

text \<open>The items of a channel after an update: the published one, then the others in their order.\<close>

definition other_items :: "AppcastContext \<Rightarrow> elem \<Rightarrow> elem list" where
  "other_items c channel = filter (\<lambda>k. \<not> item_matches c k) (findall ''item'' channel)"

lemma published_item:
  assumes "item_to_publish E channel c now key = Inr it" "publishable c"
  shows "validate_item it c = Inr ()" "item_matches c it" "tag it = ''item''"
    "key \<noteq> [] \<Longrightarrow> \<exists>pub. build_appcast_item E c pub key = Inr it"
proof -
  have "(\<exists>pub. build_appcast_item E c pub key = Inr it) \<or>
      find_matching_item channel c = Some it \<and> item_matches_context it c \<and> key = []"
    using assms(1) by (auto simp: item_to_publish_def Let_def split: option.splits if_splits)
  then show "validate_item it c = Inr ()" "item_matches c it" "tag it = ''item''"
      "key \<noteq> [] \<Longrightarrow> \<exists>pub. build_appcast_item E c pub key = Inr it"
    using built_valid[OF _ assms(2)]
    by (auto simp: find_matching_item_def findall_def item_matches_context_def dest!: find_Some_mem split: sum.splits)
qed

lemma arranged_items:
  "filter (\<lambda>k. tag k = ''item'') (arranged c cs) = slice_to (max_items c) (filter (\<lambda>k. tag k = ''item'') cs)"
proof -
  have "filter (\<lambda>k. tag k = ''item'') (slice_to n (filter (\<lambda>k. tag k = ''item'') xs)) =
      slice_to n (filter (\<lambda>k. tag k = ''item'') xs)" for n xs
    by (rule filter_True) (auto simp: slice_to_def dest!: in_set_takeD)
  moreover have "filter (\<lambda>k. tag k = ''item'') (filter (\<lambda>k. tag k \<in> {''title'', ''link'', ''description''}) xs) = []" for xs
    by (auto simp: filter_empty_conv)
  moreover have "filter (\<lambda>k. tag k = ''item'') default_heads = []" by (simp add: default_heads_def text_elem_def)
  ultimately show ?thesis by (simp add: arranged_def Let_def del: filter_filter filter.simps)
qed

lemma updated_channel:
  assumes "update_channel E channel c now key = Inr channel'" "publishable c"
  shows "\<exists>it. item_to_publish E channel c now key = Inr it \<and> tag channel' = tag channel \<and>
    findall ''item'' channel' = it # take (nat (max_items c - 1)) (other_items c channel)"
proof -
  obtain it where it: "item_to_publish E channel c now key = Inr it"
    "channel' = Elem (tag channel) (attrs channel) (elem_text channel)
       (arranged c (it # filter (\<lambda>k. \<not> (tag k = ''item'' \<and> item_matches c k)) (kids channel)))"
    using assms(1) unfolding update_channel_def Let_def ok_iff by blast
  have ti: "tag it = ''item''" using published_item[OF it(1) assms(2)] by simp
  have "filter (\<lambda>k. tag k = ''item'') (it # filter (\<lambda>k. \<not> (tag k = ''item'' \<and> item_matches c k)) (kids channel)) =
      it # other_items c channel"
    by (simp add: ti other_items_def findall_def conj_commute cong: conj_cong)
  then have "findall ''item'' channel' = slice_to (max_items c) (it # other_items c channel)"
    unfolding it(2) findall_def elem.sel arranged_items by simp
  then show ?thesis using it assms(2) by (auto simp: slice_to_pos publishable_def)
qed

lemma find_replace_first:
  assumes "find_elem t e = Some x" "tag y = t"
  shows "find_elem t (Elem a b d (replace_first (\<lambda>k. tag k = t) y (kids e))) = Some y"
proof -
  have "\<exists>x \<in> set ks. tag x = t \<Longrightarrow> \<exists>r. filter (\<lambda>k. tag k = t) (replace_first (\<lambda>k. tag k = t) y ks) = y # r" for ks
    using assms(2) by (induction ks) auto
  moreover have "\<exists>x \<in> set (kids e). tag x = t"
    using find_elem_mem[OF assms(1)] by blast
  ultimately obtain r where "filter (\<lambda>k. tag k = t) (replace_first (\<lambda>k. tag k = t) y (kids e)) = y # r" by blast
  then show ?thesis by (simp add: find_elem_def findall_def)
qed

text \<open>The channel that an update starts from\<close>

definition feed_channel :: "elem \<Rightarrow> elem" where
  "feed_channel rss = (case find_elem ''channel'' rss of Some ch \<Rightarrow> ch | None \<Rightarrow> Elem ''channel'' [] None default_heads)"

lemma ensure_channel_find: "find_elem ''channel'' (ensure_channel rss) = Some (feed_channel rss)"
  by (auto simp: ensure_channel_def feed_channel_def find_elem_def findall_def split: option.splits list.splits)

lemma updated_tree:
  assumes "update_appcast_tree E rss c now key = Inr rss'" "publishable c"
  shows "\<exists>channel' it. find_elem ''channel'' rss' = Some channel' \<and> update_channel E (feed_channel rss) c now key = Inr channel' \<and>
    item_to_publish E (feed_channel rss) c now key = Inr it \<and>
    findall ''item'' channel' = it # take (nat (max_items c - 1)) (other_items c (feed_channel rss))"
proof -
  obtain channel' where ch: "update_channel E (feed_channel rss) c now key = Inr channel'"
    "rss' = Elem (tag (ensure_channel rss)) (attrs (ensure_channel rss)) (elem_text (ensure_channel rss))
       (replace_first (\<lambda>k. tag k = ''channel'') channel' (kids (ensure_channel rss)))"
    using assms(1) by (auto simp: update_appcast_tree_def Let_def ensure_channel_find ok_iff)
  obtain it where it: "item_to_publish E (feed_channel rss) c now key = Inr it" "tag channel' = tag (feed_channel rss)"
    "findall ''item'' channel' = it # take (nat (max_items c - 1)) (other_items c (feed_channel rss))"
    using updated_channel[OF ch(1) assms(2)] by blast
  have "tag channel' = ''channel''" using it(2) find_elem_mem[OF ensure_channel_find] by simp
  then have "find_elem ''channel'' rss' = Some channel'"
    unfolding ch(2) by (rule find_replace_first[OF ensure_channel_find])
  then show ?thesis using ch(1) it by blast
qed

subsection \<open>Idempotence\<close>

lemma item_pub_date:
  assumes "item_to_publish E channel c now key = Inr it" "publishable c" "strip now \<noteq> []"
  shows "strip (findtext ''pubDate'' it) \<noteq> []"
proof -
  have e: "existing_pub_date channel c \<noteq> [] \<Longrightarrow> strip (existing_pub_date channel c) \<noteq> []"
    by (auto simp: existing_pub_date_def split: option.splits)
  show ?thesis
    using assms built_valid(5)[OF _ assms(2)] e
    by (auto simp: item_to_publish_def Let_def existing_pub_date_def split: option.splits if_splits)
qed

lemma arranged_again:
  assumes "tag it = ''item''" "item_matches c it" "1 \<le> max_items c"
    "ks = arranged c (it # filter (\<lambda>k. \<not> (tag k = ''item'' \<and> item_matches c k)) cs)"
  shows "arranged c (it # filter (\<lambda>k. \<not> (tag k = ''item'' \<and> item_matches c k)) ks) = ks"
proof -
  let ?h = "\<lambda>k. tag k \<in> {''title'', ''link'', ''description''}"
  let ?i = "\<lambda>k. tag k = ''item''"
  let ?m = "\<lambda>k. \<not> (?i k \<and> item_matches c k)"
  define others where "others = filter (\<lambda>k. ?i k \<and> \<not> item_matches c k) cs"
  define hd where "hd = (if filter ?h cs \<noteq> [] then filter ?h cs else default_heads)"
  have dh: "filter ?h default_heads = default_heads" "default_heads \<noteq> []" "filter ?i default_heads = []"
    by (simp_all add: default_heads_def text_elem_def)
  have h0: "filter ?h (it # filter ?m xs) = filter ?h xs" for xs
    using assms(1) by (auto intro: filter_cong)
  have i0: "filter ?i (it # filter ?m xs) = it # filter (\<lambda>k. ?i k \<and> \<not> item_matches c k) xs" for xs
    using assms(1) by (auto intro: filter_cong)
  have ks: "ks = hd @ it # take (nat (max_items c - 1)) others"
    unfolding assms(4) arranged_def Let_def h0 i0 slice_to_pos[OF assms(3)] hd_def others_def by simp
  have hh: "filter ?h hd = hd" "hd \<noteq> []" "filter (\<lambda>k. ?i k \<and> \<not> item_matches c k) hd = []"
    using dh by (auto simp: hd_def filter_empty_conv default_heads_def text_elem_def)
  have oi: "\<forall>k \<in> set (take n others). ?i k \<and> \<not> item_matches c k" for n
    by (auto simp: others_def dest!: in_set_takeD)
  have "filter ?h ks = hd" using hh(1) oi assms(1) by (auto simp: ks filter_empty_conv)
  moreover have "filter (\<lambda>k. ?i k \<and> \<not> item_matches c k) ks = take (nat (max_items c - 1)) others"
    using hh(3) oi assms(1,2) by (simp add: ks filter_id_conv)
  ultimately show ?thesis
    unfolding arranged_def Let_def h0 i0 slice_to_pos[OF assms(3)] using hh(2) by (simp add: ks)
qed

lemma replace_first_same: "find_elem t e = Some x \<Longrightarrow> replace_first (\<lambda>k. tag k = t) x (kids e) = kids e"
proof -
  have "filter (\<lambda>k. tag k = t) ks = x # r \<Longrightarrow> replace_first (\<lambda>k. tag k = t) x ks = ks" for ks r
    by (induction ks) (auto split: if_splits)
  then show "find_elem t e = Some x \<Longrightarrow> replace_first (\<lambda>k. tag k = t) x (kids e) = kids e"
    by (auto simp: find_elem_def findall_def split: list.splits)
qed

lemma update_again:
  assumes "update_appcast_tree E rss c now [] = Inr rss'" "publishable c" "strip now \<noteq> []"
  shows "update_appcast_tree E rss' c later [] = Inr rss'"
proof -
  obtain channel' it where u: "find_elem ''channel'' rss' = Some channel'"
    "update_channel E (feed_channel rss) c now [] = Inr channel'"
    "item_to_publish E (feed_channel rss) c now [] = Inr it"
    "findall ''item'' channel' = it # take (nat (max_items c - 1)) (other_items c (feed_channel rss))"
    using updated_tree[OF assms(1,2)] by blast
  note pi = published_item[OF u(3) assms(2)]
  have f: "find_matching_item channel' c = Some it"
    using pi(2) by (simp add: find_matching_item_def u(4))
  have "item_to_publish E channel' c later [] = Inr it"
    using item_pub_date[OF u(3) assms(2,3)] pi(1) f
    by (simp add: item_to_publish_def existing_pub_date_def Let_def item_matches_context_def)
  moreover have "arranged c (it # filter (\<lambda>k. \<not> (tag k = ''item'' \<and> item_matches c k)) (kids channel')) = kids channel'"
    using pi u(2,3) assms(2)
    by (intro arranged_again[where cs = "kids (feed_channel rss)"]) (auto simp: update_channel_def Let_def publishable_def)
  ultimately have "update_channel E channel' c later [] = Inr channel'"
    by (simp add: update_channel_def Let_def)
  moreover have "ensure_channel rss' = rss'" by (simp add: ensure_channel_def u(1))
  ultimately show ?thesis
    using u(1) replace_first_same[OF u(1)] by (simp add: update_appcast_tree_def Let_def)
qed

subsection \<open>Signed updates\<close>

lemma signed_item_verifies:
  assumes "build_appcast_item E c pub key = Inr it" "publishable c" "key \<noteq> []" "ed_correct E"
    "derive_public_key_b64 E key = Inr pk" "pk \<in> set (parse_public_keys_csv (Some csv))"
  shows "validate_signatures E it c csv = Inr ()"
proof -
  obtain e sha sa where e: "find_elem ''enclosure'' it = Some e" "signature_attrs E c key = Inr sa"
    "attr_get e (plug_attr ''manifestUrl'') = (if manifest_url c = [] then None else Some (manifest_url c))"
    "attr_get e (plug_attr ''manifestSha256'') = (if manifest_url c = [] then None else Some (manifest_sha256 c))"
    "attr_get e (plug_attr ''edSignature'') = map_of sa (plug_attr ''edSignature'')"
    "attr_get e (plug_attr ''manifestSignature'') = map_of sa (plug_attr ''manifestSignature'')"
    using built_item[OF assms(1,2)] by (elim exE conjE) (rule that)
  have sg: "verify_with_any_key E m s csv \<and> list_all visible s \<and> s \<noteq> []" if s: "sign_payload E m key = Inr s" for m s
  proof -
    obtain b where "s = b64encode b" "length b = 64" using s unfolding sign_payload_iff by blast
    then show ?thesis using sign_verify_any[OF assms(4) s assms(5,6)] b64encode_visible b64encode_nonempty[of b] by simp
  qed
  show ?thesis
  proof (cases "manifest_url c = []")
    case True
    then obtain payload s where s: "enclosure_payload c = Inr payload" "sign_payload E (canonical_bytes payload) key = Inr s"
      "sa = [(plug_attr ''edSignature'', s)]"
      using e(2) assms(3) by (auto simp: signature_attrs_def ok_iff)
    then show ?thesis using True e sg[OF s(2)] by (simp add: validate_signatures_def attr_or_def Let_def strip_visible)
  next
    case False
    then obtain payload s ms where s: "enclosure_payload c = Inr payload" "sign_payload E (canonical_bytes payload) key = Inr s"
      "sign_payload E (manifest_binding_bytes payload (manifest_url c) (manifest_sha256 c)) key = Inr ms"
      "sa = [(plug_attr ''edSignature'', s), (plug_attr ''manifestSignature'', ms)]"
      using e(2) assms(3) by (auto simp: signature_attrs_def ok_iff)
    then show ?thesis using False e sg[OF s(2)] sg[OF s(3)]
      by (simp add: validate_signatures_def attr_or_def Let_def strip_visible)
  qed
qed

lemma validated_tree:
  assumes "find_elem ''channel'' rss = Some channel" "findall ''item'' channel = it # take n others"
    "validate_item it c = Inr ()" "int n < max_items c"
    "csv \<noteq> [] \<Longrightarrow> validate_signatures E it c csv = Inr ()"
  shows "validate_appcast_tree E rss c csv = Inr ()"
proof -
  have "\<not> max_items c < int (length (it # take n others))" using assms(4) by auto
  then show ?thesis using assms validate_item_version[OF assms(3)] by (simp add: validate_appcast_tree_def)
qed

subsection \<open>The smoke test\<close>

lemma smoke_from_spec:
  "smoke_from E fetch c keys a n = (r, requests, pauses) \<Longrightarrow>
     (r = Inr () \<and> (\<exists>k < n. requests = Suc k \<and> pauses = k \<and> smoke_attempt E (fetch (a + k)) c keys = Inr () \<and>
        (\<forall>j < k. smoke_attempt E (fetch (a + j)) c keys \<noteq> Inr ()))) \<or>
     (\<exists>msg. r = Inl (RuntimeErr msg)) \<and> requests = n \<and> pauses = n - 1 \<and> (\<forall>j < n. smoke_attempt E (fetch (a + j)) c keys \<noteq> Inr ())"
proof (induction n arbitrary: a r requests pauses)
  case (Suc n)
  show ?case
  proof (cases "smoke_attempt E (fetch a) c keys")
    case (Inr u)
    then show ?thesis using Suc.prems by auto
  next
    case (Inl e)
    obtain r' q p where rec: "smoke_from E fetch c keys (Suc a) n = (r', q, p)" by (cases "smoke_from E fetch c keys (Suc a) n") auto
    have eq: "r = r'" "requests = Suc q" "pauses = (if n = 0 then p else Suc p)" using Suc.prems Inl rec by auto
    have fail: "(\<forall>j < Suc k. smoke_attempt E (fetch (a + j)) c keys \<noteq> Inr ()) \<longleftrightarrow>
        (\<forall>j < k. smoke_attempt E (fetch (Suc a + j)) c keys \<noteq> Inr ())" for k
      using Inl by (auto simp: less_Suc_eq_0_disj)
    from Suc.IH[OF rec] show ?thesis
    proof (elim disjE conjE exE)
      fix k assume k: "r' = Inr ()" "k < n" "q = Suc k" "p = k" "smoke_attempt E (fetch (Suc a + k)) c keys = Inr ()"
        "\<forall>j < k. smoke_attempt E (fetch (Suc a + j)) c keys \<noteq> Inr ()"
      then have "smoke_attempt E (fetch (a + Suc k)) c keys = Inr ()"
        "\<forall>j < Suc k. smoke_attempt E (fetch (a + j)) c keys \<noteq> Inr ()" using fail by auto
      then show ?thesis using k eq by (intro disjI1 conjI exI[of _ "Suc k"]) auto
    next
      fix msg assume "r' = Inl (RuntimeErr msg)" "q = n" "p = n - 1"
        "\<forall>j < n. smoke_attempt E (fetch (Suc a + j)) c keys \<noteq> Inr ()"
      then show ?thesis using eq fail[of n] by auto
    qed
  qed
qed simp

subsection \<open>A concrete feed\<close>

definition demo_context :: AppcastContext where
  "demo_context = \<lparr>version_short = ''1.2.3'', full_version = ''1.2.3+4'',
     asset_url = ''https://h/PlugAgente-Setup-1.2.3.exe'', asset_size = ''7'', asset_sha256 = replicate 64 CHR ''a'',
     release_body = [], asset_name = [], cx_channel = ''stable'', rollout_percentage = 100, max_items = 10,
     manifest_url = [], manifest_sha256 = []\<rparr>"

lemma demo_sha: "is_sha256 (replicate 64 CHR ''a'')"
  by (simp add: is_sha256_def list_all_iff is_hex_def is_digit_def)

lemma demo_size: "int_of_str ''7'' = Some 7"
  by code_simp

lemma demo_channel: "expected_channel demo_context = ''stable''"
proof -
  have "strip ''stable'' = ''stable''" by (rule strip_visible) (simp add: visible_def)
  moreover have "lower ''stable'' = ''stable''" by code_simp
  ultimately show ?thesis by (simp add: expected_channel_def demo_context_def)
qed

lemma demo_expected:
  "expected_asset_sha256 (demo_context\<lparr>release_body := b\<rparr>) = Inr (replicate 64 CHR ''a'')"
  "expected_rollout_percentage (demo_context\<lparr>release_body := b\<rparr>) = Inr 100"
  "manifest_attrs (demo_context\<lparr>release_body := b\<rparr>) key = Inr []"
  using normalize_sha256_id[OF demo_sha]
  by (simp_all add: expected_asset_sha256_def expected_rollout_percentage_def manifest_attrs_def demo_context_def)

lemma demo_same: "demo_context\<lparr>release_body := []\<rparr> = demo_context"
  by (simp add: demo_context_def)

lemma demo_publishable: "publishable demo_context"
proof -
  have v: "cx_version demo_context = ''1.2.3+4''" by (simp add: cx_version_def demo_context_def)
  have d: "strip (expected_description demo_context) = expected_description demo_context"
    by (rule strip_id) (simp_all add: expected_description_def v, simp_all add: demo_context_def visible_def)
  have u: "strip (asset_url demo_context) = asset_url demo_context"
    by (rule strip_visible) (simp add: demo_context_def visible_def)
  have z: "strip (asset_size demo_context) = asset_size demo_context"
    by (rule strip_visible) (simp add: demo_context_def visible_def)
  note n = demo_size
  have l: "endswith (lower (asset_url demo_context)) ''.exe''" unfolding demo_context_def by code_simp
  have a: "contains (asset_url demo_context) (expected_asset_name demo_context)" unfolding demo_context_def by code_simp
  show ?thesis unfolding publishable_def
    using v d u z n l a demo_channel by (simp add: demo_context_def startswith_def visible_def)
qed

lemma demo_feed: "find_matching_item (feed_channel base_rss_root) c = None"
  by (simp add: feed_channel_def base_rss_root_def find_elem_def findall_def find_matching_item_def default_heads_def text_elem_def)

lemma first_update:
  assumes "build_appcast_item E c now key = Inr it"
  shows "\<exists>rss. update_appcast_tree E base_rss_root c now key = Inr rss"
proof -
  have "existing_pub_date (feed_channel base_rss_root) c = []" by (simp add: existing_pub_date_def demo_feed)
  then have "item_to_publish E (feed_channel base_rss_root) c now key = Inr it"
    using assms by (simp add: item_to_publish_def demo_feed Let_def)
  then show ?thesis
    by (simp add: update_appcast_tree_def Let_def ensure_channel_find update_channel_def)
qed

lemma demo_update: "\<exists>rss. update_appcast_tree E base_rss_root (demo_context\<lparr>release_body := b\<rparr>) ''Mon'' [] = Inr rss"
  by (rule first_update) (simp add: build_appcast_item_def demo_expected signature_attrs_def)

lemma demo_signed: "\<exists>it. build_appcast_item plain_scheme demo_context ''Mon'' (b64encode (replicate 32 CHR ''A'')) = Inr it"
proof -
  let ?p = "\<lparr>ep_version = ''1.2.3+4'', ep_os = WINDOWS_OS_NAME, ep_sha256 = replicate 64 CHR ''a'', ep_channel = ''stable'',
     ep_rollout_percentage = 100, ep_asset_url = ''https://h/PlugAgente-Setup-1.2.3.exe'', ep_asset_size = 7\<rparr>"
  note n = demo_size
  have p: "enclosure_payload demo_context = Inr ?p"
    using demo_expected[of "[]"] demo_channel n by (simp add: enclosure_payload_def demo_same, simp add: demo_context_def cx_version_def)
  have "lower (replicate 64 CHR ''a'') = replicate 64 CHR ''a''" using is_sha256_facts[OF demo_sha] by blast
  moreover have "ascii (replicate 64 CHR ''a'')" by (simp add: ascii_def list_all_iff)
  ultimately have "ascii (concat (map entry_line (sort_key fst (payload_entries ?p))))"
    using visible_ascii[OF str_int_visible] unfolding canonical_text by (simp add: WINDOWS_OS_NAME_def)
  then obtain m where m: "canonical_bytes ?p = Inr m" using canonical_enc_ok ascii_no_surrogate by blast
  have l: "length (replicate 32 CHR ''A'') = 32" by simp
  obtain s where "sign_payload plain_scheme (canonical_bytes ?p) (b64encode (replicate 32 CHR ''A'')) = Inr s"
    unfolding sign_payload_iff m using demo_seed_key l ed_correctD(2)[OF plain_scheme_correct l] by blast
  then have "signature_attrs plain_scheme demo_context (b64encode (replicate 32 CHR ''A'')) =
      Inr [(plug_attr ''edSignature'', s)]"
    using p b64encode_nonempty[of "replicate 32 CHR ''A''"] by (simp add: signature_attrs_def, simp add: demo_context_def)
  then show ?thesis using demo_expected[of "[]"] by (simp add: build_appcast_item_def demo_same)
qed

subsection \<open>The properties\<close>

text \<open>
  C7. The check that follows an update accepts it: for a context that can be published, the tree that
  \<open>update_appcast_tree\<close> returns passes \<open>validate_appcast_tree\<close>, whatever the feed held before.
\<close>

theorem update_validates:
  assumes "update_appcast_tree E rss c now key = Inr rss'" "publishable c"
  shows "validate_appcast_tree E rss' c [] = Inr ()"
proof -
  obtain channel' it where u: "find_elem ''channel'' rss' = Some channel'"
    "item_to_publish E (feed_channel rss) c now key = Inr it"
    "findall ''item'' channel' = it # take (nat (max_items c - 1)) (other_items c (feed_channel rss))"
    using updated_tree[OF assms] by blast
  show ?thesis
    using published_item[OF u(2) assms(2)] assms(2) by (intro validated_tree[OF u(1,3)]) (auto simp: publishable_def)
qed

theorem update_validates_witness:
  "\<exists>rss'. update_appcast_tree plain_scheme base_rss_root demo_context ''Mon'' [] = Inr rss' \<and>
     validate_appcast_tree plain_scheme rss' demo_context [] = Inr ()"
  using demo_update[of plain_scheme "[]"] update_validates[OF _ demo_publishable] unfolding demo_same by blast

text \<open>
  C8. A signed update verifies: with a signing key, the check of the signatures (of the enclosure and, when
  present, of the manifest binding) succeeds under every list of trusted keys that holds the derived public key.
\<close>

theorem signed_update_verifies:
  assumes "update_appcast_tree E rss c now key = Inr rss'" "publishable c" "key \<noteq> []" "ed_correct E"
    "derive_public_key_b64 E key = Inr pk" "pk \<in> set (parse_public_keys_csv (Some csv))"
  shows "validate_appcast_tree E rss' c csv = Inr ()"
proof -
  obtain channel' it where u: "find_elem ''channel'' rss' = Some channel'"
    "item_to_publish E (feed_channel rss) c now key = Inr it"
    "findall ''item'' channel' = it # take (nat (max_items c - 1)) (other_items c (feed_channel rss))"
    using updated_tree[OF assms(1,2)] by blast
  note pi = published_item[OF u(2) assms(2)]
  obtain pub where "build_appcast_item E c pub key = Inr it" using pi(4) assms(3) by blast
  then have "validate_signatures E it c csv = Inr ()" using signed_item_verifies assms by blast
  then show ?thesis using pi assms(2) by (intro validated_tree[OF u(1,3)]) (auto simp: publishable_def)
qed

theorem signed_update_verifies_witness:
  "\<exists>key rss' csv. key \<noteq> [] \<and> csv \<noteq> [] \<and> update_appcast_tree plain_scheme base_rss_root demo_context ''Mon'' key = Inr rss' \<and>
     validate_appcast_tree plain_scheme rss' demo_context csv = Inr ()"
proof -
  let ?seed = "replicate 32 CHR ''A''"
  let ?key = "b64encode ?seed"
  have k: "?key \<noteq> []" by (rule b64encode_nonempty) simp
  obtain rss' where u: "update_appcast_tree plain_scheme base_rss_root demo_context ''Mon'' ?key = Inr rss'"
    using demo_signed first_update by blast
  have d: "derive_public_key_b64 plain_scheme ?key = Inr ?key"
    unfolding derive_public_key_b64_def demo_seed_key by (simp add: ED25519_PUBLIC_KEY_BYTES_def private_from_def plain_scheme_def)
  have "split_on '','' ?key = [?key]" by (rule split_on_single[OF b64encode_no_comma])
  then have "?key \<in> set (parse_public_keys_csv (Some ?key))"
    unfolding parse_keys_Some using k strip_visible[OF b64encode_visible] by simp
  from signed_update_verifies[OF u demo_publishable k plain_scheme_correct d this] u k show ?thesis by blast
qed

text \<open>The version, the system and the channel of an entry\<close>

definition entry_key :: "elem \<Rightarrow> string \<times> string \<times> string" where
  "entry_key it = (let e = find_elem ''enclosure'' it in (sparkle_version e, sparkle_os e, plug_channel e))"

lemma validated_key: "validate_item it c = Inr () \<Longrightarrow> entry_key it = (cx_version c, WINDOWS_OS_NAME, expected_channel c)"
  by (auto simp: validate_item_def entry_key_def Let_def ok_iff split: option.splits if_splits)

lemma other_key: "\<not> item_matches c k \<Longrightarrow> entry_key k \<noteq> (cx_version c, WINDOWS_OS_NAME, expected_channel c)"
  by (auto simp: item_matches_def entry_key_def Let_def)

text \<open>
  C9. What an update does to the entries: the published item comes first, the entries of other versions, systems
  or channels follow in their old order, and at most \<open>max_items\<close> remain. Exactly one entry is left for the version, system and
  channel of the release; and when no two entries of the feed agreed in these three before, none do after.
\<close>

theorem update_entries:
  assumes "update_appcast_tree E rss c now key = Inr rss'" "publishable c"
  shows "\<exists>channel it. find_elem ''channel'' rss' = Some channel \<and> item_matches c it \<and>
    findall ''item'' channel = it # take (nat (max_items c - 1)) (filter (\<lambda>k. \<not> item_matches c k) (findall ''item'' (feed_channel rss))) \<and>
    int (length (findall ''item'' channel)) \<le> max_items c \<and> filter (item_matches c) (findall ''item'' channel) = [it] \<and>
    entry_key it \<notin> entry_key ` set (tl (findall ''item'' channel)) \<and>
    (distinct (map entry_key (findall ''item'' (feed_channel rss))) \<longrightarrow> distinct (map entry_key (findall ''item'' channel)))"
proof -
  obtain channel' it where u: "find_elem ''channel'' rss' = Some channel'"
    "item_to_publish E (feed_channel rss) c now key = Inr it"
    "findall ''item'' channel' = it # take (nat (max_items c - 1)) (other_items c (feed_channel rss))"
    using updated_tree[OF assms] by blast
  have m: "item_matches c it" "entry_key it = (cx_version c, WINDOWS_OS_NAME, expected_channel c)"
    using published_item[OF u(2) assms(2)] validated_key by blast+
  have "1 \<le> max_items c" using assms(2) by (simp add: publishable_def)
  then have "int (length (findall ''item'' channel')) \<le> max_items c" by (simp add: u(3) min_def) linarith
  moreover have "filter (item_matches c) (findall ''item'' channel') = [it]"
    using m by (auto simp: u(3) other_items_def filter_empty_conv dest!: in_set_takeD)
  moreover have new: "entry_key it \<notin> entry_key ` set (tl (findall ''item'' channel'))"
    by (auto simp: u(3) m(2) other_items_def dest!: in_set_takeD dest: other_key[THEN not_sym])
  moreover have "distinct (map entry_key (findall ''item'' (feed_channel rss))) \<longrightarrow> distinct (map entry_key (findall ''item'' channel'))"
  proof
    assume d: "distinct (map entry_key (findall ''item'' (feed_channel rss)))"
    have "distinct (map entry_key (take (nat (max_items c - 1)) (other_items c (feed_channel rss))))"
      using distinct_map_filter[OF d] unfolding other_items_def take_map[symmetric] by (rule distinct_take)
    then show "distinct (map entry_key (findall ''item'' channel'))" using new by (simp add: u(3))
  qed
  ultimately show ?thesis using u(1,3) m by (auto simp: other_items_def)
qed

theorem update_entries_witness:
  "\<exists>rss' channel it. update_appcast_tree plain_scheme base_rss_root demo_context ''Mon'' [] = Inr rss' \<and>
     find_elem ''channel'' rss' = Some channel \<and> filter (item_matches demo_context) (findall ''item'' channel) = [it] \<and>
     distinct (map entry_key (findall ''item'' channel))"
proof -
  have "findall ''item'' (feed_channel base_rss_root) = []"
    by (simp add: feed_channel_def base_rss_root_def find_elem_def findall_def default_heads_def text_elem_def)
  then show ?thesis using demo_update[of plain_scheme "[]"] update_entries[OF _ demo_publishable, of plain_scheme base_rss_root] unfolding demo_same by fastforce
qed

text \<open>
  Idempotence: repeating an unsigned update, at any later time, leaves the feed as it is (the publication
  date of the first update is kept).
\<close>

theorem update_idempotent:
  assumes "update_appcast_tree E rss c now [] = Inr rss'" "publishable c" "strip now \<noteq> []"
  shows "update_appcast_tree E rss' c later [] = Inr rss'"
  using assms by (rule update_again)

theorem update_idempotent_witness:
  "\<exists>rss'. update_appcast_tree plain_scheme base_rss_root demo_context ''Mon'' [] = Inr rss' \<and>
     update_appcast_tree plain_scheme rss' demo_context ''Tue'' [] = Inr rss'"
proof -
  have "strip ''Mon'' = ''Mon''" by (rule strip_visible) (simp add: visible_def)
  then have "strip ''Mon'' \<noteq> []" by simp
  then show ?thesis
    using demo_update[of plain_scheme "[]"] update_idempotent[OF _ demo_publishable, of plain_scheme base_rss_root "''Mon''" _ "''Tue''"]
    unfolding demo_same by blast
qed

text \<open>
  C10. The smoke test is a bounded retry: it succeeds exactly when one of the allowed attempts does, after the
  fewest requests and with one pause between two of them; otherwise it raises \<open>RuntimeError\<close> after all attempts.
\<close>

theorem smoke_validate_feed_retries:
  "(\<exists>k < nat attempts. smoke_validate_feed E fetch c attempts keys = (Inr (), Suc k, k) \<and>
      smoke_attempt E (fetch (Suc k)) c keys = Inr () \<and> (\<forall>j < k. smoke_attempt E (fetch (Suc j)) c keys \<noteq> Inr ())) \<or>
   (\<exists>msg. smoke_validate_feed E fetch c attempts keys = (Inl (RuntimeErr msg), nat attempts, nat attempts - 1)) \<and>
      (\<forall>j < nat attempts. smoke_attempt E (fetch (Suc j)) c keys \<noteq> Inr ())"
proof -
  obtain r q p where s: "smoke_from E fetch c keys 1 (nat attempts) = (r, q, p)"
    by (cases "smoke_from E fetch c keys 1 (nat attempts)") auto
  from smoke_from_spec[OF s] show ?thesis unfolding smoke_validate_feed_def s by auto
qed

theorem smoke_validate_feed_retries_witness:
  "smoke_validate_feed plain_scheme (\<lambda>_. Inl (OSErr ''timeout'')) demo_context 2 [] = (Inl (RuntimeErr ''published appcast smoke validation failed''), 2, 1)"
  using smoke_validate_feed_retries[of 2 plain_scheme "\<lambda>_. Inl (OSErr ''timeout'')" demo_context "[]"]
  by (auto simp: smoke_validate_feed_def numeral_2_eq_2 smoke_attempt_def)

text \<open>
  C11. The feed file is replaced atomically: whatever step of \<open>write_appcast_tree\<close> fails, the feed holds its old
  content; when none fails it holds the whole new document; the temporary file is gone in every case, and no other
  file is touched.
\<close>

theorem write_appcast_tree_atomic:
  assumes "temporary \<noteq> path" "fw_files w temporary = None" "write_appcast_tree X fault temporary tree path w = (r, w')"
  shows "fw_files w' = (if fault = NoFault then (fw_files w)(path \<mapsto> xml_declaration @ xml_bytes X tree) else fw_files w)
    \<and> (r = Inr () \<longleftrightarrow> fault = NoFault)"
  using assms by (cases fault) (auto simp: write_appcast_tree_def io_defs put_file_def drop_file_def read_file_def fun_eq_iff)

theorem write_appcast_tree_atomic_witness:
  "\<exists>r w'. write_appcast_tree \<lparr>xml_parse = (\<lambda>_. Inl TypeErr), xml_bytes = (\<lambda>_. ''<rss/>'')\<rparr> FaultSync ''tmp'' base_rss_root ''appcast.xml''
      \<lparr>fw_files = [''appcast.xml'' \<mapsto> ''old''], fw_log = []\<rparr> = (r, w') \<and> fw_files w' ''appcast.xml'' = Some ''old''"
proof -
  let ?X = "\<lparr>xml_parse = (\<lambda>_. Inl TypeErr), xml_bytes = (\<lambda>_. ''<rss/>'')\<rparr> :: xml_api"
  let ?w = "\<lparr>fw_files = [''appcast.xml'' \<mapsto> ''old''], fw_log = []\<rparr> :: feed_world"
  obtain r w' where w': "write_appcast_tree ?X FaultSync ''tmp'' base_rss_root ''appcast.xml'' ?w = (r, w')"
    by (cases "write_appcast_tree ?X FaultSync ''tmp'' base_rss_root ''appcast.xml'' ?w") auto
  from write_appcast_tree_atomic[OF _ _ this] w' show ?thesis by auto
qed

definition long_notes :: string where
  "long_notes = replicate 1999 CHR ''a'' @ newline @ ''b''"

lemma long_notes_description:
  "expected_description (demo_context\<lparr>release_body := long_notes\<rparr>) = replicate 1999 CHR ''a'' @ newline"
proof -
  have "s \<noteq> [] \<Longrightarrow> hd s \<noteq> CHR 0xEF \<Longrightarrow> lstrip_bom s = s" for s by (cases s rule: lstrip_bom.cases) auto
  then have l: "lstrip_bom long_notes = long_notes" by (simp add: long_notes_def hd_append)
  have u: "universal_newlines long_notes = long_notes"
    by (rule universal_newlines_id) (simp add: long_notes_def)
  have f: "filter (\<lambda>c. \<not> control_char c) long_notes = long_notes"
    by (simp add: long_notes_def control_char_def filter_id_conv)
  have "py_take 2000 long_notes = take 2000 long_notes"
    by (rule py_take_ascii) (simp add: long_notes_def ascii_def list_all_iff)
  also have "\<dots> = replicate 1999 CHR ''a'' @ newline" by (simp add: long_notes_def)
  finally show ?thesis
    by (simp add: expected_description_def sanitize_release_notes_def l u f) (simp add: long_notes_def)
qed

lemma build_any_notes:
  assumes "build_appcast_item E (c\<lparr>release_body := b\<rparr>) now key = Inr it"
  shows "\<exists>it'. build_appcast_item E c pub key = Inr it'"
proof -
  have "expected_asset_sha256 (c\<lparr>release_body := b\<rparr>) = expected_asset_sha256 c" "expected_rollout_percentage (c\<lparr>release_body := b\<rparr>) = expected_rollout_percentage c"
    "manifest_attrs (c\<lparr>release_body := b\<rparr>) key = manifest_attrs c key" "signature_attrs E (c\<lparr>release_body := b\<rparr>) key = signature_attrs E c key"
    by (simp_all add: expected_asset_sha256_def expected_rollout_percentage_def manifest_attrs_def signature_attrs_def enclosure_payload_def expected_channel_def cx_version_def cong: if_cong)
  then show ?thesis using assms by (auto simp: build_appcast_item_def ok_iff)
qed

lemma update_when_built:
  assumes "\<And>pub. \<exists>it. build_appcast_item E c pub key = Inr it"
  shows "\<exists>rss'. update_appcast_tree E rss c now key = Inr rss'"
proof -
  have "\<exists>it. item_to_publish E (feed_channel rss) c now key = Inr it"
    using assms by (auto simp: item_to_publish_def Let_def split: option.splits)
  then show ?thesis by (auto simp: update_appcast_tree_def Let_def ensure_channel_find update_channel_def)
qed

lemma stripped_end: "rstrip (strip s) = strip s"
  by (simp add: rstrip_def drop_ws_done strip_end)

text \<open>
  C12. Release notes can be sanitized to a text that the check rejects: whenever the sanitized notes end in white space, as they do
  when the cut at 2000 characters falls there, every update that could be built with other notes succeeds, but no feed at all passes the
  check that follows, since the stored description is compared without its outer white space to the expected one with it.
\<close>

theorem long_notes_never_validate:
  assumes "build_appcast_item E (c\<lparr>release_body := b\<rparr>) now key = Inr it"
    and "rstrip (sanitize_release_notes (release_body c)) \<noteq> sanitize_release_notes (release_body c)"
  shows "(\<exists>rss'. update_appcast_tree E rss c now key = Inr rss') \<and> validate_appcast_tree E feed c keys \<noteq> Inr ()"
proof
  show "\<exists>rss'. update_appcast_tree E rss c now key = Inr rss'" using update_when_built build_any_notes[OF assms(1)] by blast
  have "release_body c \<noteq> []"
  proof
    assume "release_body c = []"
    moreover have "sanitize_release_notes [] = []" "rstrip [] = []" by code_simp+
    ultimately show False using assms(2) by simp
  qed
  then have d: "rstrip (expected_description c) \<noteq> expected_description c" using assms(2) by (simp add: expected_description_def)
  have "validate_item it c \<noteq> Inr ()" for it
  proof
    assume "validate_item it c = Inr ()"
    then have "strip (findtext ''description'' it) = expected_description c"
      by (auto simp: validate_item_def Let_def ok_iff split: option.splits)
    then show False using d stripped_end by metis
  qed
  then show "validate_appcast_tree E feed c keys \<noteq> Inr ()"
    by (auto simp: validate_appcast_tree_def ok_iff split: option.splits list.splits)
qed

theorem long_notes_never_validate_witness:
  "strip long_notes = long_notes \<and>
   (\<exists>rss'. update_appcast_tree plain_scheme base_rss_root (demo_context\<lparr>release_body := long_notes\<rparr>) ''Mon'' [] = Inr rss' \<and>
     validate_appcast_tree plain_scheme rss' (demo_context\<lparr>release_body := long_notes\<rparr>) [] \<noteq> Inr ())"
proof
  show "strip long_notes = long_notes"
    by (rule strip_id) (simp_all add: long_notes_def visible_def hd_append)
  obtain it where b: "build_appcast_item plain_scheme (demo_context\<lparr>release_body := long_notes, release_body := []\<rparr>) ''Mon'' [] = Inr it"
    using demo_expected[of "[]"] by (simp add: build_appcast_item_def signature_attrs_def)
  have s: "sanitize_release_notes long_notes = replicate 1999 CHR ''a'' @ newline"
    using long_notes_description by (simp add: expected_description_def) (simp add: long_notes_def)
  have "rstrip (replicate 1999 CHR ''a'' @ newline) \<noteq> replicate 1999 CHR ''a'' @ newline"
  proof
    let ?s = "replicate 1999 CHR ''a'' @ newline"
    assume e: "rstrip ?s = ?s"
    have "ws_len_end (rev (rstrip ?s)) = 0" unfolding rstrip_def rev_rev_ident by (rule drop_ws_final) (simp_all add: ws_len_end_def)
    then show False unfolding e by (simp add: ws_len_end_def ascii_ws_def)
  qed
  then have "rstrip (sanitize_release_notes (release_body (demo_context\<lparr>release_body := long_notes\<rparr>))) \<noteq> sanitize_release_notes (release_body (demo_context\<lparr>release_body := long_notes\<rparr>))"
    by (simp add: s)
  from long_notes_never_validate[OF b this, of base_rss_root _ "[]"]
  show "\<exists>rss'. update_appcast_tree plain_scheme base_rss_root (demo_context\<lparr>release_body := long_notes\<rparr>) ''Mon'' [] = Inr rss' \<and>
     validate_appcast_tree plain_scheme rss' (demo_context\<lparr>release_body := long_notes\<rparr>) [] \<noteq> Inr ()" by blast
qed

end
