(* ===== verification/Release_Changelog.thy ===== *)
theory Release_Changelog
  imports Py_JsonText
begin

text \<open>
  The gates on a release's source: \<open>tool/release/check_changelog.py\<close> (release history),
  \<open>tool/release/check_persona_release.py\<close> (coordinated cutover) and \<open>installer/update_version.py\<close> (the version
  of \<open>pubspec.yaml\<close> copied into the installer script and the application). The searches with regular
  expressions are written as scans over lines and positions.
\<close>

subsection \<open>Positions in a text\<close>

definition lines_of :: "string \<Rightarrow> string list" where
  "lines_of s = split_on newline s"

definition non_ws :: "string \<Rightarrow> bool" where
  "non_ws s \<longleftrightarrow> s \<noteq> [] \<and> ws_len s = 0"

text \<open>The longest prefix without white space (\<open>\S*\<close>) and the longest of white space (\<open>\s*\<close>)\<close>

fun word_prefix :: "string \<Rightarrow> string" where
  "word_prefix [] = []"
| "word_prefix (c # cs) = (if non_ws (c # cs) then c # word_prefix cs else [])"

definition ws_prefix :: "string \<Rightarrow> string" where
  "ws_prefix s = take (length s - length (lstrip s)) s"

text \<open>The suffixes of a text that start a line\<close>

fun line_starts :: "string \<Rightarrow> string list" where
  "line_starts [] = []"
| "line_starts (c # cs) = (if c = CHR 0x0A then cs # line_starts cs else line_starts cs)"

definition at_lines :: "string \<Rightarrow> string list" where
  "at_lines s = s # line_starts s"

text \<open>\<open>re.search\<close> for a pattern anchored at line starts: the first position where it matches\<close>

fun first_match :: "(string \<Rightarrow> 'a option) \<Rightarrow> string list \<Rightarrow> 'a option" where
  "first_match f [] = None"
| "first_match f (s # ss) = (case f s of Some x \<Rightarrow> Some x | None \<Rightarrow> first_match f ss)"

subsection \<open>check\_changelog.py\<close>

text \<open>The sections of \<open>re.split(r"(?m)^## ", text)[1:]\<close>, as lists of lines: a section that another one follows
  ends with an empty line, for its last line break.\<close>

definition is_section :: "string \<Rightarrow> bool" where
  "is_section l = startswith l ''## ''"

fun sections :: "string list \<Rightarrow> string list list" where
  "sections [] = []"
| "sections (l # ls) =
     (if is_section l
      then (drop 3 l # takeWhile (\<lambda>x. \<not> is_section x) ls @ (if list_ex is_section ls then [[]] else [])) # sections ls
      else sections ls)"

definition is_leap :: "nat \<Rightarrow> bool" where
  "is_leap y \<longleftrightarrow> y mod 4 = 0 \<and> (y mod 100 \<noteq> 0 \<or> y mod 400 = 0)"

definition days_in_month :: "nat \<Rightarrow> nat \<Rightarrow> nat" where
  "days_in_month y m = (if m = 2 then (if is_leap y then 29 else 28) else if m \<in> {4, 6, 9, 11} then 30 else 31)"

text \<open>\<open>date.fromisoformat\<close> on \<open>dddd-dd-dd\<close>\<close>

definition fromisoformat :: "string \<Rightarrow> (nat \<times> nat \<times> nat) option" where
  "fromisoformat s = (let y = digits_val (take 4 s); m = digits_val (take 2 (drop 5 s)); d = digits_val (drop 8 s) in
     if 1 \<le> y \<and> 1 \<le> m \<and> m \<le> 12 \<and> 1 \<le> d \<and> d \<le> days_in_month y m then Some (y, m, d) else None)"

definition triple_less :: "nat \<times> nat \<times> nat \<Rightarrow> nat \<times> nat \<times> nat \<Rightarrow> bool" where
  "triple_less a b = (case a of (a1, a2, a3) \<Rightarrow> case b of (b1, b2, b3) \<Rightarrow>
     a1 < b1 \<or> a1 = b1 \<and> (a2 < b2 \<or> a2 = b2 \<and> a3 < b3))"

definition rx_date :: rx where
  "rx_date = r_seqs [r_rep 4 (RCls is_digit), r_chr CHR ''-'', r_rep 2 (RCls is_digit), r_chr CHR ''-'', r_rep 2 (RCls is_digit)]"

text \<open>\<open>\[?(\d+\.\d+\.\d+)\]? - (\d{4}-\d{2}-\d{2})\<close>: number and day\<close>

definition parse_heading :: "string \<Rightarrow> (string \<times> string) option" where
  "parse_heading h = (let day = drop (length h - 10) h; pre = take (length h - 10) h;
       left = removesuffix pre '' - ''; number = removesuffix (removeprefix left ''['') '']'' in
     if fullmatch rx_date day \<and> endswith pre '' - '' \<and> fullmatch rx_version3 number then Some (number, day) else None)"

definition version_key :: "string \<Rightarrow> nat \<times> nat \<times> nat" where
  "version_key number = (case map digits_val (split_on ''.'' number) of [a, b, c] \<Rightarrow> (a, b, c) | _ \<Rightarrow> (0, 0, 0))"

definition has_status :: "string list \<Rightarrow> bool" where
  "has_status ls = list_ex (\<lambda>l. l \<in> set [''Status: tagged'', ''Status: local'', ''Status: baseline'', ''Status: prepared'']) ls"

definition has_build :: "string \<Rightarrow> string list \<Rightarrow> bool" where
  "has_build number ls = list_ex (\<lambda>l. startswith l (''Build: '' @ number) \<and>
     (let r = drop (length (''Build: '' @ number)) l in r = [] \<or> fullmatch (RSeq (r_chr CHR ''+'') rx_digits) r)) ls"

definition has_note :: "string list \<Rightarrow> bool" where
  "has_note ls = list_ex (\<lambda>l. startswith l ''- '' \<and> non_ws (drop 2 l)) ls"

record history =
  hs_entries :: "(string \<times> string) list"
  hs_previous :: "(nat \<times> nat \<times> nat) option"
  hs_previous_date :: "(nat \<times> nat \<times> nat) option"

text \<open>The body of the loop over the released sections\<close>

definition add_entry :: "history \<Rightarrow> string list \<Rightarrow> history res" where
  "add_entry h chunk = (let heading = hd chunk; body = tl chunk in
     case parse_heading heading of
       None \<Rightarrow> Inl (ValueErr ''Invalid CHANGELOG heading'')
     | Some (number, day) \<Rightarrow>
       bindR (of_option (ValueErr ''Invalid isoformat string'') (fromisoformat day)) (\<lambda>entry_date.
       if (case hs_previous_date h of None \<Rightarrow> False | Some p \<Rightarrow> triple_less p entry_date)
         then Inl (ValueErr ''CHANGELOG dates must be descending'')
       else if number \<in> fst ` set (hs_entries h) \<or>
           (case hs_previous h of None \<Rightarrow> False | Some p \<Rightarrow> \<not> triple_less (version_key number) p)
         then Inl (ValueErr ''CHANGELOG versions must be unique and descending'')
       else if \<not> has_status body then Inl (ValueErr ''Missing or invalid status'')
       else if \<not> has_build number body then Inl (ValueErr ''Missing or mismatched build'')
       else if \<not> has_note body then Inl (ValueErr ''Missing change notes'')
       else Inr \<lparr>hs_entries = hs_entries h @ [(number, join newline body)],
         hs_previous = Some (version_key number), hs_previous_date = Some entry_date\<rparr>))"

fun add_entries :: "history \<Rightarrow> string list list \<Rightarrow> history res" where
  "add_entries h [] = Inr h"
| "add_entries h (c # cs) = bindR (add_entry h c) (\<lambda>h'. add_entries h' cs)"

definition empty_history :: history where
  "empty_history = \<lparr>hs_entries = [], hs_previous = None, hs_previous_date = None\<rparr>"

text \<open>What is left of the \<open>Unreleased\<close> section without its \<open>###\<close> titles\<close>

definition pending_text :: "string list \<Rightarrow> string" where
  "pending_text ls = strip (join newline (map (\<lambda>l. if startswith l ''### '' then [] else l) ls))"

definition validate :: "string \<Rightarrow> string \<Rightarrow> bool \<Rightarrow> string res" where
  "validate t version release = (case sections (lines_of t) of
     [] \<Rightarrow> Inl (ValueErr ''CHANGELOG must start with one Unreleased section'')
   | first # chunks \<Rightarrow>
     (case splitlines (join newline first) of
        [] \<Rightarrow> Inl IndexErr
      | title # _ \<Rightarrow>
        if title \<notin> set [''Unreleased'', ''[Unreleased]''] then Inl (ValueErr ''CHANGELOG must start with one Unreleased section'')
        else bindR (add_entries empty_history chunks) (\<lambda>h.
          let short = split_head ''+'' version in
          case map_of (hs_entries h) short of
            None \<Rightarrow> Inl (ValueErr ''Missing CHANGELOG entry'')
          | Some body \<Rightarrow>
            if fst (hd (hs_entries h)) \<noteq> short then Inl (ValueErr ''Current version must be the latest CHANGELOG entry'')
            else if (''Build: '' @ version) \<notin> set (splitlines body) then Inl (ValueErr ''CHANGELOG build does not match'')
            else if release \<and> (''Status: prepared'' \<notin> set (splitlines body) \<or> pending_text (tl first) \<noteq> [])
              then Inl (ValueErr ''Release requires prepared notes and no pending Unreleased changes'')
            else Inr body)))"

definition check_changelog :: "files \<Rightarrow> string \<Rightarrow> bool \<Rightarrow> string res" where
  "check_changelog fs version release =
     bindR (read_file fs ''CHANGELOG.md'') (\<lambda>b. bindR (decode_text b) (\<lambda>t. validate t version release))"

text \<open>\<open>^version:\s*(\S+)\<close>\<close>

definition version_word :: "string \<Rightarrow> string option" where
  "version_word s = (if startswith s ''version:'' \<and> lstrip (drop 8 s) \<noteq> [] then Some (word_prefix (lstrip (drop 8 s))) else None)"

definition check_changelog_main :: "files \<Rightarrow> bool \<Rightarrow> string res" where
  "check_changelog_main fs release =
     bindR (read_file fs ''pubspec.yaml'') (\<lambda>b. bindR (decode_text b) (\<lambda>t.
     bindR (of_option AttributeErr (first_match version_word (at_lines t))) (\<lambda>version.
     case check_changelog fs version release of
       Inl (ValueErr _) \<Rightarrow> Inl (ExitCode 1)
     | Inl FileNotFoundErr \<Rightarrow> Inl (ExitCode 1)
     | Inl (OSErr _) \<Rightarrow> Inl (ExitCode 1)
     | Inl e \<Rightarrow> Inl e
     | Inr _ \<Rightarrow> Inr (''Changelog valid for '' @ version))))"

subsection \<open>check\_persona\_release.py\<close>

definition REQUIRED :: "string list" where
  "REQUIRED = [''shared-knowledge-and-compatibility'', ''identity-and-authorization'', ''training-and-local-query'',
     ''federation'', ''agent-operation-journal'', ''hub-operation-contract'', ''operation-approval-and-reconciliation'',
     ''external-rest-and-mcp'', ''oauth-and-console'', ''postgres-real'', ''mssql-real'', ''sybase-real'', ''coordinated-cutover'']"

definition ready :: "json \<Rightarrow> bool res" where
  "ready manifest =
     bindR (dget manifest ''generation'') (\<lambda>g. if \<not> py_eq g (JStr ''persona-v2'') then Inr False else
     bindR (dget manifest ''ready'') (\<lambda>r. if r \<noteq> JBool True then Inr False else
     bindR (dget manifest ''requiredGates'') (\<lambda>q. if \<not> py_eq q (JList (map JStr REQUIRED)) then Inr False else
     bindR (dget manifest ''completedGates'') (\<lambda>c. case c of
       JList vs \<Rightarrow> Inr (list_all (\<lambda>g. list_ex (\<lambda>v. py_eq v (JStr g)) vs) REQUIRED)
     | _ \<Rightarrow> Inr False))))"

definition ACCEPTED_RISK :: "(string \<times> string \<times> string) list" where
  "ACCEPTED_RISK = [(''v1.9.0'', ''1.9.0+1'', ''stable''), (''v1.9.1'', ''1.9.1+1'', ''stable'')]"

text \<open>One match of \<open>^version:\s*(\S+)\s*$\<close> at a line start: the word and the text after the match\<close>

definition version_entry :: "string \<Rightarrow> (string \<times> string) option" where
  "version_entry s = (if \<not> startswith s ''version:'' then None
     else let r = lstrip (drop 8 s); w = word_prefix r; t = drop (length w) r; sp = ws_prefix t in
       if w = [] then None
       else if length sp = length t then Some (w, [])
       else if CHR 0x0A \<in> set sp
         then Some (w, drop (length sp - Suc (length (takeWhile (\<lambda>c. c \<noteq> CHR 0x0A) (rev sp)))) t)
       else None)"

text \<open>\<open>re.findall\<close>, position by position; a match is never empty, so the length of the text is enough fuel.\<close>

fun find_versions :: "nat \<Rightarrow> bool \<Rightarrow> string \<Rightarrow> string list" where
  "find_versions 0 start s = []"
| "find_versions (Suc n) start s =
     (case (if start then version_entry s else None) of
        Some (w, r) \<Rightarrow> w # find_versions n False r
      | None \<Rightarrow> (case s of [] \<Rightarrow> [] | c # cs \<Rightarrow> find_versions n (c = CHR 0x0A) cs))"

definition accepted_risk :: "string \<Rightarrow> string \<Rightarrow> string \<Rightarrow> string \<Rightarrow> bool" where
  "accepted_risk tag build channel pubspec \<longleftrightarrow>
     (tag, build, channel) \<in> set ACCEPTED_RISK \<and> find_versions (Suc (length pubspec)) True pubspec = [build]"

definition persona_main :: "files \<Rightarrow> string \<Rightarrow> string \<Rightarrow> string \<Rightarrow> string option res" where
  "persona_main fs tag build channel =
     bindR (read_file fs ''contracts/persona-v2-release.json'') (\<lambda>b. bindR (decode_text b) (\<lambda>t.
     bindR (json_loads t) (\<lambda>manifest. bindR (ready manifest) (\<lambda>ok.
     if ok then Inr None
     else bindR (read_file fs ''pubspec.yaml'') (\<lambda>pb. bindR (decode_text pb) (\<lambda>pubspec.
       if accepted_risk tag build channel pubspec
       then Inr (Some (''Applying the documented '' @ tag @ '' stable risk acceptance. Persona-v2 gates remain open.''))
       else Inl (ExitErr ''Publication blocked: persona-v2 coordinated acceptance is incomplete.'')))))))"

subsection \<open>update\_version.py\<close>

definition drop_quote :: "string \<Rightarrow> string" where
  "drop_quote s = (if s \<noteq> [] \<and> hd s \<in> {CHR 0x22, CHR 0x27} then tl s else s)"

text \<open>\<open>\d+\.\d+\.\d+(?:\+\d+)?\<close> at the start of a text\<close>

definition digits_prefix :: "string \<Rightarrow> string" where
  "digits_prefix s = takeWhile is_digit s"

definition version_prefix :: "string \<Rightarrow> string option" where
  "version_prefix s =
     (let a = digits_prefix s; s1 = drop (length a) s;
          b = digits_prefix (drop 1 s1); s2 = drop (Suc (length b)) s1;
          c = digits_prefix (drop 1 s2); s3 = drop (Suc (length c)) s2;
          d = digits_prefix (drop 1 s3) in
      if a \<noteq> [] \<and> startswith s1 ''.'' \<and> b \<noteq> [] \<and> startswith s2 ''.'' \<and> c \<noteq> []
      then Some (a @ ''.'' @ b @ ''.'' @ c @ (if startswith s3 ''+'' \<and> d \<noteq> [] then ''+'' @ d else []))
      else None)"

text \<open>\<open>^version:\s*["']?(...)["']?\s*(?:#|$)\<close>\<close>

definition pubspec_version :: "string \<Rightarrow> string option" where
  "pubspec_version s = (if \<not> startswith s ''version:'' then None
     else let r = drop_quote (lstrip (drop 8 s)) in
       (case version_prefix r of None \<Rightarrow> None | Some v \<Rightarrow>
          let t = drop_quote (drop (length v) r); sp = ws_prefix t; u = drop (length sp) t in
          if u = [] \<or> startswith u ''#'' \<or> CHR 0x0A \<in> set sp then Some v else None))"

definition get_version_from_pubspec :: "files \<Rightarrow> (string \<times> string) res" where
  "get_version_from_pubspec fs = (case fs ''pubspec.yaml'' of
     None \<Rightarrow> Inl (ExitErr ''Error: pubspec.yaml not found'')
   | Some b \<Rightarrow> bindR (decode_text b) (\<lambda>content.
       case first_match pubspec_version (at_lines content) of
         None \<Rightarrow> Inl (ExitErr ''Error: version not found in pubspec.yaml'')
       | Some m \<Rightarrow> let full = strip m in Inr (split_head ''+'' full, full)))"

text \<open>One match of \<open>#define MyAppVersion\s+".*"\<close>: the text after it\<close>

definition define_match :: "string \<Rightarrow> string option" where
  "define_match s = (let pre = ''#define MyAppVersion''; t = drop (length pre) s; sp = ws_prefix t; u = drop (length sp) t;
       line = takeWhile (\<lambda>c. c \<noteq> CHR 0x0A) (tl u) in
     if startswith s pre \<and> sp \<noteq> [] \<and> u \<noteq> [] \<and> hd u = CHR 0x22 \<and> CHR 0x22 \<in> set line
     then Some (drop (length line - length (takeWhile (\<lambda>c. c \<noteq> CHR 0x22) (rev line))) (tl u)) else None)"

text \<open>\<open>re.subn\<close>: the new text and the number of replacements; a match is never empty.\<close>

fun define_subn :: "nat \<Rightarrow> string \<Rightarrow> string \<Rightarrow> string \<times> nat" where
  "define_subn 0 new s = (s, 0)"
| "define_subn (Suc n) new s = (case define_match s of
     Some r \<Rightarrow> (let (t, k) = define_subn n new r in (new @ t, Suc k))
   | None \<Rightarrow> (case s of [] \<Rightarrow> ([], 0) | c # cs \<Rightarrow> (let (t, k) = define_subn n new cs in (c # t, k))))"

definition define_line :: "string \<Rightarrow> string" where
  "define_line version = ''#define MyAppVersion '' @ [CHR 0x22] @ version @ [CHR 0x22]"

definition bom :: bytes where
  "bom = [CHR 0xEF, CHR 0xBB, CHR 0xBF]"

type_synonym 'a fileio = "(files, 'a) io"

definition update_setup_iss :: "string \<Rightarrow> unit fileio" where
  "update_setup_iss version =
     bindI (checkI (\<lambda>fs. of_option (ExitErr ''Error: setup.iss not found'') (fs ''installer/setup.iss''))) (\<lambda>b.
     bindI (liftI (decode_text (removeprefix b bom))) (\<lambda>content.
     let (new, k) = define_subn (length content) (define_line version) content in
     bindI (guardI (k \<noteq> 1) (ExitErr ''Error: expected exactly one MyAppVersion define in installer/setup.iss'')) (\<lambda>_.
     updI (\<lambda>fs. fs(''installer/setup.iss'' \<mapsto> bom @ new)))))"

definition dart_source :: "string \<Rightarrow> string" where
  "dart_source full_version = ''// Generated by installer/update_version.py - do not edit manually.'' @ newline @
     ''const String appVersion = '' @ [CHR 0x22] @ full_version @ [CHR 0x22] @ '';'' @ newline"

definition update_app_version_dart :: "string \<Rightarrow> unit fileio" where
  "update_app_version_dart full_version =
     updI (\<lambda>fs. fs(''lib/core/constants/app_version.g.dart'' \<mapsto> dart_source full_version))"

definition update_version_main :: "(string \<times> string) fileio" where
  "update_version_main =
     bindI (checkI get_version_from_pubspec) (\<lambda>(short, full).
     bindI (update_setup_iss short) (\<lambda>_.
     bindI (update_app_version_dart full) (\<lambda>_. retI (short, full))))"

end
