(* ===== verification/Py_Proc.thy ===== *)
theory Py_Proc
  imports Py_Url
begin

text \<open>
  Programs that run other programs (\<open>git\<close>, \<open>gh\<close>, \<open>cmake\<close>, \<open>powershell\<close>, ...). The world has the files, the
  commands issued so far and the printed lines. What a command answers and does to the files is a parameter that
  may depend on all the commands before it, so that a theorem about a run holds for every behaviour of the outside
  world. The last part has small logics for the commands that a program issues, the files it changes and what it keeps; their rules
  for composed programs come from the locale \<open>frame\<close>.
\<close>

record proc =
  p_code :: int
  p_out :: string
  p_err :: string

record pworld =
  pw_files :: files
  pw_trace :: "string list list"
  pw_log :: "string list"
  pw_env :: "string \<Rightarrow> string option"

text \<open>The outside world: the answer of a command (an exception when it cannot be started), the files after it, the
  paths of the files in the order in which the system lists them, and the program that \<open>shutil.which\<close> finds and
  the chunks that reading a URL gives. The directory in which a command runs is fixed by the code for each command and is not recorded.\<close>

record os_env =
  os_run :: "string list list \<Rightarrow> string list \<Rightarrow> proc res"
  os_effect :: "string list list \<Rightarrow> string list \<Rightarrow> files \<Rightarrow> files"
  os_list :: "files \<Rightarrow> string list"
  os_which :: "string \<Rightarrow> string option"
  os_fetch :: "string \<Rightarrow> bytes list res"

type_synonym 'a pio = "(pworld, 'a) io"

definition run_process :: "os_env \<Rightarrow> string list \<Rightarrow> proc pio" where
  "run_process S args w = (os_run S (pw_trace w) args,
     w\<lparr>pw_files := os_effect S (pw_trace w) args (pw_files w), pw_trace := pw_trace w @ [args]\<rparr>)"

text \<open>\<open>OSError\<close> and the errors of \<open>subprocess\<close>\<close>

definition is_os_err :: "exn \<Rightarrow> bool" where
  "is_os_err e = (case e of OSErr _ \<Rightarrow> True | FileNotFoundErr \<Rightarrow> True | FileExistsErr \<Rightarrow> True | ProcessErr _ \<Rightarrow> True | _ \<Rightarrow> False)"

definition print_line :: "string \<Rightarrow> unit pio" where
  "print_line line = updI (\<lambda>w. w\<lparr>pw_log := pw_log w @ [line]\<rparr>)"

definition read_bytes :: "string \<Rightarrow> bytes pio" where
  "read_bytes path = checkI (\<lambda>w. read_file (pw_files w) path)"

definition read_text :: "string \<Rightarrow> string pio" where
  "read_text path = checkI (\<lambda>w. bindR (read_file (pw_files w) path) decode_text)"

definition file_exists :: "string \<Rightarrow> bool pio" where
  "file_exists path = readI (\<lambda>w. pw_files w path \<noteq> None)"

definition write_bytes :: "string \<Rightarrow> bytes \<Rightarrow> unit pio" where
  "write_bytes path b = updI (\<lambda>w. w\<lparr>pw_files := (pw_files w)(path \<mapsto> b)\<rparr>)"

text \<open>\<open>path.write_text(text, encoding="utf-8")\<close>: the file is truncated before the text is encoded.\<close>

definition write_utf8 :: "string \<Rightarrow> string \<Rightarrow> unit pio" where
  "write_utf8 path t = (case encode_utf8 t of Inl e \<Rightarrow> bindI (write_bytes path []) (\<lambda>_. raiseI e) | Inr b \<Rightarrow> write_bytes path b)"

definition unlink :: "string \<Rightarrow> unit pio" where
  "unlink path = updI (\<lambda>w. w\<lparr>pw_files := (pw_files w)(path := None)\<rparr>)"

text \<open>\<open>shutil.rmtree(directory)\<close>, and the end of a temporary directory\<close>

definition remove_tree :: "string \<Rightarrow> unit pio" where
  "remove_tree dir = updI (\<lambda>w. w\<lparr>pw_files := (\<lambda>p. if startswith p (dir @ ''/'') then None else pw_files w p)\<rparr>)"

text \<open>\<open>directory / name\<close>\<close>

definition path_join :: "string \<Rightarrow> string \<Rightarrow> string" where
  "path_join dir name = dir @ ''/'' @ name"

text \<open>\<open>Path(p).name\<close> and \<open>Path(p).suffix\<close> for either separator\<close>

definition backslash :: string where
  "backslash = [CHR 0x5C]"

definition path_tail :: "string \<Rightarrow> string" where
  "path_tail p = rev (takeWhile (\<lambda>c. c \<noteq> CHR ''/'' \<and> c \<noteq> CHR 0x5C) (rev p))"

definition suffix_of :: "string \<Rightarrow> string" where
  "suffix_of p = (let n = path_tail p; ext = rsplit_last ''.'' n in
     if contains n ''.'' \<and> ext \<noteq> [] \<and> Suc (length ext) < length n then ''.'' @ ext else [])"

definition with_suffix :: "string \<Rightarrow> string \<Rightarrow> string" where
  "with_suffix p suffix = take (length p - length (suffix_of p)) p @ suffix"

text \<open>The files below a directory, in the order of the listing; a directory exists when it holds a file.\<close>

definition files_below :: "os_env \<Rightarrow> string \<Rightarrow> string list pio" where
  "files_below S dir = readI (\<lambda>w. filter (\<lambda>p. startswith p (dir @ ''/'')) (os_list S (pw_files w)))"

definition dir_exists :: "os_env \<Rightarrow> string \<Rightarrow> bool pio" where
  "dir_exists S dir = bindI (files_below S dir) (\<lambda>ps. retI (ps \<noteq> []))"

text \<open>\<open>shutil.copy2(source, target)\<close>. A copy and a write happen whole or not at all: a disk that fails in the middle of one is not modelled
  (the replacement of the feed, which the code makes safe against it, is modelled step by step in \<open>Appcast_Manager\<close>).\<close>

definition copy_file :: "string \<Rightarrow> string \<Rightarrow> unit pio" where
  "copy_file source target = bindI (read_bytes source) (write_bytes target)"

text \<open>The environment variables\<close>

type_synonym environ = "string \<Rightarrow> string option"

definition getenv :: "environ \<Rightarrow> string \<Rightarrow> string \<Rightarrow> string" where
  "getenv env name dflt = (case env name of None \<Rightarrow> dflt | Some v \<Rightarrow> v)"

definition env_get :: "string \<Rightarrow> string option pio" where
  "env_get key = readI (\<lambda>w. pw_env w key)"

definition env_set :: "string \<Rightarrow> string \<Rightarrow> unit pio" where
  "env_set key v = updI (\<lambda>w. w\<lparr>pw_env := (pw_env w)(key \<mapsto> v)\<rparr>)"

text \<open>\<open>a or b\<close> for optional texts: an empty text counts as absent.\<close>

definition or_else :: "string option \<Rightarrow> string option \<Rightarrow> string option" where
  "or_else a b = (case a of Some s \<Rightarrow> if s = [] then b else a | None \<Rightarrow> b)"

subsection \<open>Relations between the worlds before and after a program\<close>

text \<open>\<open>moves R m\<close>: however \<open>m\<close> ends, the world after it is related by \<open>R\<close> to the world before. For a reflexive and transitive relation this
  carries over to composed programs; the commands issued, the files changed and the observations kept are all of this kind.\<close>

definition moves :: "('s \<Rightarrow> 's \<Rightarrow> bool) \<Rightarrow> ('s, 'a) io \<Rightarrow> bool" where
  "moves R m \<longleftrightarrow> (\<forall>w r w'. m w = (r, w') \<longrightarrow> R w w')"

lemma movesD: "moves R m \<Longrightarrow> m w = (r, w') \<Longrightarrow> R w w'"
  by (simp add: moves_def)

locale frame =
  fixes R :: "'s \<Rightarrow> 's \<Rightarrow> bool"
  assumes stays: "R w w" and onward: "R u v \<Longrightarrow> R v w \<Longrightarrow> R u w"
begin

lemma moves_bind:
  assumes "moves R m" "\<And>x. moves R (f x)"
  shows "moves R (bindI m f)"
  unfolding moves_def
proof (intro allI impI)
  fix w r w' assume b: "bindI m f w = (r, w')"
  obtain q v where m: "m w = (q, v)" by (cases "m w")
  have "R w v" using movesD[OF assms(1) m] .
  then show "R w w'" using b m onward movesD[OF assms(2)] by (cases q) (auto simp: bindI_def)
qed

lemma moves_catch:
  assumes "moves R m" "\<And>e. moves R (h e)"
  shows "moves R (catchI m h)"
  unfolding moves_def
proof (intro allI impI)
  fix w r w' assume b: "catchI m h w = (r, w')"
  obtain q v where m: "m w = (q, v)" by (cases "m w")
  have "R w v" using movesD[OF assms(1) m] .
  then show "R w w'" using b m onward movesD[OF assms(2)] by (cases q) (auto simp: catchI_def)
qed

lemma moves_finally:
  assumes "moves R m" "moves R h"
  shows "moves R (finallyI m h)"
  unfolding moves_def
proof (intro allI impI)
  fix w r w' assume b: "finallyI m h w = (r, w')"
  obtain q v where m: "m w = (q, v)" by (cases "m w")
  obtain q' v' where h: "h v = (q', v')" by (cases "h v")
  have "w' = v'" using b m h by (auto simp: finallyI_def split: sum.splits)
  then show "R w w'" using onward movesD[OF assms(1) m] movesD[OF assms(2) h] by simp
qed

lemma moves_basic: "moves R (retI x)" "moves R (raiseI e)" "moves R (liftI r)" "moves R (readI f)" "moves R (checkI g)" "moves R (guardI b e)"
  using stays by (auto simp: moves_def io_defs split: if_splits)

lemma moves_for: "(\<And>x. moves R (f x)) \<Longrightarrow> moves R (forI xs f)"
  by (induction xs) (auto intro: moves_basic moves_bind)

end

subsection \<open>Which commands a program issues\<close>

text \<open>\<open>issues P m\<close>: every command that \<open>m\<close> issues satisfies \<open>P\<close>.\<close>

definition issues :: "(string list \<Rightarrow> bool) \<Rightarrow> 'a pio \<Rightarrow> bool" where
  "issues P m \<longleftrightarrow> (\<forall>w r w'. m w = (r, w') \<longrightarrow> (\<exists>ts. pw_trace w' = pw_trace w @ ts \<and> list_all P ts))"

named_theorems issues_intro \<open>rules for the commands a program issues\<close>

definition issued :: "(string list \<Rightarrow> bool) \<Rightarrow> pworld \<Rightarrow> pworld \<Rightarrow> bool" where
  "issued P w w' \<longleftrightarrow> (\<exists>ts. pw_trace w' = pw_trace w @ ts \<and> list_all P ts)"

interpretation tr: frame "issued P" for P
proof
  show "issued P u v \<Longrightarrow> issued P v w \<Longrightarrow> issued P u w" for u v w
    by (auto simp: issued_def)
qed (simp add: issued_def exI[of _ "[]"])

lemma issues_moves: "issues P m \<longleftrightarrow> moves (issued P) m"
  by (simp add: issues_def moves_def issued_def)

lemma issuesI:
  "(\<And>w r w'. m w = (r, w') \<Longrightarrow> \<exists>ts. pw_trace w' = pw_trace w @ ts \<and> list_all P ts) \<Longrightarrow> issues P m"
  by (auto simp: issues_def)

lemma issuesD: "issues P m \<Longrightarrow> m w = (r, w') \<Longrightarrow> \<exists>ts. pw_trace w' = pw_trace w @ ts \<and> list_all P ts"
  by (auto simp: issues_def)

lemma issues_silent: "(\<And>w r w'. m w = (r, w') \<Longrightarrow> pw_trace w' = pw_trace w) \<Longrightarrow> issues P m"
  by (rule issuesI) (simp add: exI[of _ "[]"])

lemma issues_basic [issues_intro]:
  "issues P (retI x)" "issues P (raiseI e)" "issues P (liftI r)" "issues P (readI f)" "issues P (checkI g)" "issues P (guardI b e)"
  by (rule issues_silent; auto simp: io_defs split: if_splits)+

lemma issues_file_ops [issues_intro]:
  "issues P (print_line s)" "issues P (read_bytes p)" "issues P (read_text p)" "issues P (file_exists p)"
  "issues P (write_bytes p b)" "issues P (unlink p)" "issues P (remove_tree p)"
  by (rule issues_silent;
      auto simp: print_line_def read_bytes_def read_text_def file_exists_def write_bytes_def unlink_def remove_tree_def io_defs)+

lemma issues_env [issues_intro]: "issues P (env_get k)" "issues P (env_set k v)" "issues P (files_below S d)"
  by (rule issues_silent; auto simp: env_get_def env_set_def files_below_def io_defs)+

lemma issues_process [issues_intro]: "P args \<Longrightarrow> issues P (run_process S args)"
  by (rule issuesI) (auto simp: run_process_def)

lemma issues_bind [issues_intro]: "issues P m \<Longrightarrow> (\<And>x. issues P (f x)) \<Longrightarrow> issues P (bindI m f)"
  unfolding issues_moves by (rule tr.moves_bind)

lemma issues_copy [issues_intro]: "issues P (copy_file a b)" "issues P (dir_exists S d)"
  unfolding copy_file_def dir_exists_def by (intro issues_intro)+

lemma issues_finally [issues_intro]: "issues P m \<Longrightarrow> issues P h \<Longrightarrow> issues P (finallyI m h)"
  unfolding issues_moves by (rule tr.moves_finally)

lemma issues_catch [issues_intro]: "issues P m \<Longrightarrow> (\<And>e. issues P (h e)) \<Longrightarrow> issues P (catchI m h)"
  unfolding issues_moves by (rule tr.moves_catch)

lemma issues_for [issues_intro]: "(\<And>x. issues P (f x)) \<Longrightarrow> issues P (forI xs f)"
  unfolding issues_moves by (rule tr.moves_for)

lemma issues_if [issues_intro]: "(b \<Longrightarrow> issues P m) \<Longrightarrow> (\<not> b \<Longrightarrow> issues P n) \<Longrightarrow> issues P (if b then m else n)"
  by simp

lemma issues_option [issues_intro]:
  "(x = None \<Longrightarrow> issues P m) \<Longrightarrow> (\<And>y. x = Some y \<Longrightarrow> issues P (f y)) \<Longrightarrow> issues P (case x of None \<Rightarrow> m | Some y \<Rightarrow> f y)"
  by (cases x) auto

lemma issues_mono: "issues P m \<Longrightarrow> (\<And>t. P t \<Longrightarrow> Q t) \<Longrightarrow> issues Q m"
  by (auto simp: issues_def list_all_iff) blast

text \<open>If a command of interest was issued and the first part cannot issue it, the first part returned.\<close>

definition reaches :: "(string list \<Rightarrow> bool) \<Rightarrow> pworld \<Rightarrow> pworld \<Rightarrow> bool" where
  "reaches Q w w' \<longleftrightarrow> (\<exists>ts. pw_trace w' = pw_trace w @ ts \<and> list_ex Q ts)"

lemma issues_not_reaches: "issues (\<lambda>t. \<not> Q t) m \<Longrightarrow> m w = (r, w') \<Longrightarrow> \<not> reaches Q w w'"
  by (auto simp: reaches_def list_all_iff list_ex_iff dest!: issuesD)

lemma bind_reaches:
  assumes "bindI m f w = (r, w')" "reaches Q w w'" "issues (\<lambda>t. \<not> Q t) m" "\<And>x. issues (\<lambda>_. True) (f x)"
  shows "\<exists>x v. m w = (Inr x, v) \<and> f x v = (r, w') \<and> reaches Q v w'"
proof -
  obtain q v where m: "m w = (q, v)" by (cases "m w")
  then obtain ts where ts: "pw_trace v = pw_trace w @ ts" "list_all (\<lambda>t. \<not> Q t) ts" using assms(3) by (blast dest: issuesD)
  obtain us where us: "pw_trace w' = pw_trace w @ us" "list_ex Q us" using assms(2) by (auto simp: reaches_def)
  show ?thesis
  proof (cases q)
    case (Inl e)
    then have "w' = v" using assms(1) m by (simp add: bindI_def)
    then show ?thesis using ts us by (auto simp: list_all_iff list_ex_iff)
  next
    case (Inr x)
    then have f: "f x v = (r, w')" using assms(1) m by (simp add: bindI_def)
    then obtain vs where vs: "pw_trace w' = pw_trace v @ vs" using assms(4) by (blast dest: issuesD)
    then have "list_ex Q vs" using ts us by (auto simp: list_all_iff list_ex_iff)
    then show ?thesis using m Inr f vs by (auto simp: reaches_def)
  qed
qed

subsection \<open>Which files a program changes\<close>

text \<open>\<open>touches A m\<close>: \<open>m\<close> leaves every file outside \<open>A\<close> as it is, whether it returns or raises.\<close>

definition touches :: "string set \<Rightarrow> 'a pio \<Rightarrow> bool" where
  "touches A m \<longleftrightarrow> (\<forall>w r w' p. m w = (r, w') \<longrightarrow> p \<notin> A \<longrightarrow> pw_files w' p = pw_files w p)"

named_theorems touches_intro \<open>rules for the files a program changes\<close>

definition agree :: "string set \<Rightarrow> pworld \<Rightarrow> pworld \<Rightarrow> bool" where
  "agree A w w' \<longleftrightarrow> (\<forall>p. p \<notin> A \<longrightarrow> pw_files w' p = pw_files w p)"

interpretation fs: frame "agree A" for A
  by unfold_locales (simp_all add: agree_def)

lemma touches_moves: "touches A m \<longleftrightarrow> moves (agree A) m"
  by (auto simp: touches_def moves_def agree_def)

lemma touchesD: "touches A m \<Longrightarrow> m w = (r, w') \<Longrightarrow> p \<notin> A \<Longrightarrow> pw_files w' p = pw_files w p"
  by (auto simp: touches_def)

lemma touches_basic [touches_intro]:
  "touches A (retI x)" "touches A (raiseI e)" "touches A (liftI r)" "touches A (readI f)" "touches A (checkI g)" "touches A (guardI b e)"
  "touches A (print_line s)" "touches A (read_bytes q)" "touches A (read_text q)" "touches A (file_exists q)"
  "touches A (env_get k)" "touches A (env_set k v)" "touches A (files_below S d)"
  by (auto simp: touches_def io_defs print_line_def read_bytes_def read_text_def file_exists_def env_get_def env_set_def files_below_def
      split: if_splits)

lemma touches_write [touches_intro]: "q \<in> A \<Longrightarrow> touches A (write_bytes q b)" "q \<in> A \<Longrightarrow> touches A (unlink q)"
  by (auto simp: touches_def io_defs write_bytes_def unlink_def)

lemma touches_bind [touches_intro]: "touches A m \<Longrightarrow> (\<And>x. touches A (f x)) \<Longrightarrow> touches A (bindI m f)"
  unfolding touches_moves by (rule fs.moves_bind)

lemma touches_finally [touches_intro]: "touches A m \<Longrightarrow> touches A h \<Longrightarrow> touches A (finallyI m h)"
  unfolding touches_moves by (rule fs.moves_finally)

lemma touches_catch [touches_intro]: "touches A m \<Longrightarrow> (\<And>e. touches A (h e)) \<Longrightarrow> touches A (catchI m h)"
  unfolding touches_moves by (rule fs.moves_catch)

lemma touches_if [touches_intro]: "(b \<Longrightarrow> touches A m) \<Longrightarrow> (\<not> b \<Longrightarrow> touches A n) \<Longrightarrow> touches A (if b then m else n)"
  by simp

lemma touches_option [touches_intro]:
  "(x = None \<Longrightarrow> touches A m) \<Longrightarrow> (\<And>y. x = Some y \<Longrightarrow> touches A (f y)) \<Longrightarrow> touches A (case x of None \<Rightarrow> m | Some y \<Rightarrow> f y)"
  by (cases x) auto

lemma touches_for [touches_intro]: "(\<And>x. touches A (f x)) \<Longrightarrow> touches A (forI xs f)"
  unfolding touches_moves by (rule fs.moves_for)

lemma touches_copy [touches_intro]: "b \<in> A \<Longrightarrow> touches A (copy_file a b)"
  unfolding copy_file_def by (intro touches_intro)

lemma touches_mono: "touches A m \<Longrightarrow> A \<subseteq> B \<Longrightarrow> touches B m"
  unfolding touches_def by blast

subsection \<open>Which parts of the world a program keeps\<close>

text \<open>\<open>keeps f m\<close>: the observation \<open>f\<close> of the world is the same before and after \<open>m\<close>, whether it returns or raises.\<close>

definition keeps :: "(pworld \<Rightarrow> 'b) \<Rightarrow> 'a pio \<Rightarrow> bool" where
  "keeps f m \<longleftrightarrow> (\<forall>w r w'. m w = (r, w') \<longrightarrow> f w' = f w)"

named_theorems keeps_intro \<open>rules for what a program keeps\<close>

definition same_view :: "(pworld \<Rightarrow> 'b) \<Rightarrow> pworld \<Rightarrow> pworld \<Rightarrow> bool" where
  "same_view f w w' \<longleftrightarrow> f w' = f w"

interpretation vw: frame "same_view f" for f
  by unfold_locales (simp_all add: same_view_def)

lemma keeps_moves: "keeps f m \<longleftrightarrow> moves (same_view f) m"
  by (simp add: keeps_def moves_def same_view_def)

lemma keepsD: "keeps f m \<Longrightarrow> m w = (r, w') \<Longrightarrow> f w' = f w"
  by (auto simp: keeps_def)

lemma keeps_basic [keeps_intro]:
  "keeps f (retI x)" "keeps f (raiseI e)" "keeps f (liftI r)" "keeps f (readI g)" "keeps f (checkI h)" "keeps f (guardI b e)"
  "keeps f (read_bytes q)" "keeps f (read_text q)" "keeps f (file_exists q)" "keeps f (env_get k)" "keeps f (files_below S d)"
  by (auto simp: keeps_def io_defs read_bytes_def read_text_def file_exists_def env_get_def files_below_def split: if_splits)

lemma keeps_env [keeps_intro]:
  "keeps (\<lambda>w. pw_env w k) (print_line s)" "keeps (\<lambda>w. pw_env w k) (write_bytes q b)" "keeps (\<lambda>w. pw_env w k) (unlink q)"
  "keeps (\<lambda>w. pw_env w k) (remove_tree q)" "keeps (\<lambda>w. pw_env w k) (run_process S args)"
  "k \<noteq> k' \<Longrightarrow> keeps (\<lambda>w. pw_env w k) (env_set k' v)"
  by (auto simp: keeps_def io_defs print_line_def write_bytes_def unlink_def remove_tree_def run_process_def env_set_def)

lemma keeps_bind [keeps_intro]: "keeps f m \<Longrightarrow> (\<And>x. keeps f (g x)) \<Longrightarrow> keeps f (bindI m g)"
  unfolding keeps_moves by (rule vw.moves_bind)

lemma keeps_finally [keeps_intro]: "keeps f m \<Longrightarrow> keeps f h \<Longrightarrow> keeps f (finallyI m h)"
  unfolding keeps_moves by (rule vw.moves_finally)

lemma keeps_catch [keeps_intro]: "keeps f m \<Longrightarrow> (\<And>e. keeps f (h e)) \<Longrightarrow> keeps f (catchI m h)"
  unfolding keeps_moves by (rule vw.moves_catch)

lemma keeps_if [keeps_intro]: "(b \<Longrightarrow> keeps f m) \<Longrightarrow> (\<not> b \<Longrightarrow> keeps f n) \<Longrightarrow> keeps f (if b then m else n)"
  by simp

lemma keeps_option [keeps_intro]:
  "(x = None \<Longrightarrow> keeps f m) \<Longrightarrow> (\<And>y. x = Some y \<Longrightarrow> keeps f (g y)) \<Longrightarrow> keeps f (case x of None \<Rightarrow> m | Some y \<Rightarrow> g y)"
  by (cases x) auto

lemma keeps_for [keeps_intro]: "(\<And>x. keeps f (g x)) \<Longrightarrow> keeps f (forI xs g)"
  unfolding keeps_moves by (rule vw.moves_for)

end
