(* ===== verification/Release_Publish.thy ===== *)
theory Release_Publish
  imports Updater_Manifest Release_Changelog Py_Proc
begin

text \<open>
  \<open>tool/release/publish_release.py\<close>: a release is tagged, drafted, uploaded, downloaded again and verified, and
  only then made public; a run that finds the release public only verifies it. \<open>git\<close> and \<open>gh\<close> are the outside
  world of \<open>Py_Proc\<close>.
\<close>

subsection \<open>The release\<close>

record Release =
  rl_version :: string
  rl_full_version :: string
  rl_channel :: string
  rl_repository :: string
  rl_public_keys :: string

definition word_char :: "char \<Rightarrow> bool" where
  "word_char c \<longleftrightarrow> is_letter c \<or> is_digit c \<or> c = CHR ''_''"

definition rx_repository :: rx where
  "rx_repository = (let part = r_plus (RCls (\<lambda>c. word_char c \<or> c = CHR ''.'' \<or> c = CHR ''-'')) in
     r_seqs [part, r_chr CHR ''/'', part])"

text \<open>\<open>__post_init__\<close>\<close>

definition make_release :: "string \<Rightarrow> string \<Rightarrow> string \<Rightarrow> string \<Rightarrow> string \<Rightarrow> Release res" where
  "make_release version full_version channel repository public_keys =
     (if \<not> fullmatch rx_version3 version then Inl (ValueErr ''VERSION_SHORT must contain three numeric components'')
      else if \<not> (startswith full_version version \<and>
                fullmatch (RSeq (r_chr CHR ''+'') rx_digits) (drop (length version) full_version))
        then Inl (ValueErr ''FULL_VERSION must match VERSION_SHORT and include a build number'')
      else if channel \<notin> set [''stable'', ''beta''] then Inl (ValueErr ''RELEASE_CHANNEL must be stable or beta'')
      else if \<not> fullmatch rx_repository repository
        then Inl (ValueErr ''GITHUB_REPOSITORY must identify the release repository'')
      else Inr \<lparr>rl_version = version, rl_full_version = full_version, rl_channel = channel,
        rl_repository = repository, rl_public_keys = public_keys\<rparr>)"

definition rl_tag :: "Release \<Rightarrow> string" where
  "rl_tag r = ''v'' @ rl_version r"

definition installer_name :: "Release \<Rightarrow> string" where
  "installer_name r = ''PlugAgente-Setup-'' @ rl_version r @ ''.exe''"

definition manifest_name :: "Release \<Rightarrow> string" where
  "manifest_name r = ''PlugAgente-Manifest-'' @ rl_version r @ ''.json''"

definition asset_names :: "Release \<Rightarrow> string list" where
  "asset_names r = [installer_name r, manifest_name r]"

subsection \<open>Commands\<close>

definition command :: "os_env \<Rightarrow> bool \<Rightarrow> string list \<Rightarrow> proc pio" where
  "command S check arguments =
     bindI (run_process S arguments) (\<lambda>p.
     if check \<and> p_code p \<noteq> 0 then raiseI (RuntimeErr (join '' '' (take 3 arguments) @ '' failed'')) else retI p)"

definition tag_ref :: "Release \<Rightarrow> string" where
  "tag_ref r = ''refs/tags/'' @ rl_tag r"

definition tagged_source :: "os_env \<Rightarrow> Release \<Rightarrow> string option pio" where
  "tagged_source S r =
     bindI (command S False [''git'', ''show-ref'', ''--verify'', ''--quiet'', tag_ref r]) (\<lambda>found.
     if p_code found = 1 then retI None
     else if p_code found \<noteq> 0 then raiseI (RuntimeErr ''Unable to inspect release tag'')
     else bindI (command S True [''git'', ''rev-parse'', tag_ref r @ ''^{commit}'']) (\<lambda>p.
       let commit = strip (p_out p) in
       bindI (command S False [''git'', ''diff'', ''--quiet'', commit, ''--'', ''.'', '':(exclude)appcast.xml'']) (\<lambda>difference.
       if p_code difference = 1 then raiseI (ValueErr ''Tag belongs to different source; use a new release version'')
       else if p_code difference \<noteq> 0 then raiseI (RuntimeErr ''Unable to compare release source'')
       else retI (Some commit))))"

text \<open>\<open>existing or command(["git", "rev-parse", "HEAD"])\<close>: an empty text counts as absent.\<close>

definition or_head :: "os_env \<Rightarrow> string option \<Rightarrow> string pio" where
  "or_head S existing = (case existing of Some c \<Rightarrow> if c \<noteq> [] then retI c
       else bindI (command S True [''git'', ''rev-parse'', ''HEAD'']) (\<lambda>p. retI (strip (p_out p)))
     | None \<Rightarrow> bindI (command S True [''git'', ''rev-parse'', ''HEAD'']) (\<lambda>p. retI (strip (p_out p))))"

definition source_commit :: "os_env \<Rightarrow> Release \<Rightarrow> string pio" where
  "source_commit S r = bindI (tagged_source S r) (or_head S)"

definition graphql_query :: string where
  "graphql_query = ''query($owner: String!, $repository: String!, $tag: String!) {'' @ newline @
     ''      repository(owner: $owner, name: $repository) {'' @ newline @
     ''        release(tagName: $tag) { tagName isDraft isPrerelease }'' @ newline @
     ''      }'' @ newline @ ''    }''"

text \<open>\<open>d.get(k, {})\<close>\<close>

definition dget_dict :: "json \<Rightarrow> string \<Rightarrow> json res" where
  "dget_dict v k = (case v of JObj kvs \<Rightarrow> Inr (case map_of kvs k of None \<Rightarrow> JObj [] | Some x \<Rightarrow> x) | _ \<Rightarrow> Inl AttributeErr)"

text \<open>The release as GitHub has it: \<open>None\<close>, or whether it is a draft\<close>

definition parse_metadata :: "Release \<Rightarrow> string \<Rightarrow> json option res" where
  "parse_metadata r out =
     bindR (json_loads out) (\<lambda>response.
     bindR (dget response ''errors'') (\<lambda>errors.
     if truthy errors then Inl (RuntimeErr ''Unable to inspect GitHub release'')
     else bindR (dget_dict response ''data'') (\<lambda>data.
     bindR (dget data ''repository'') (\<lambda>repository_data.
     if repository_data = JNull
       then Inl (RuntimeErr ''Release repository is unavailable; check GITHUB_REPOSITORY and token permissions'')
     else bindR (item repository_data ''release'') (\<lambda>entry.
     if entry = JNull then Inr None
     else bindR (item entry ''tagName'') (\<lambda>tag_name.
       bindR (item entry ''isDraft'') (\<lambda>draft.
       bindR (item entry ''isPrerelease'') (\<lambda>prerelease.
       if \<not> py_eq tag_name (JStr (rl_tag r)) \<or> \<not> py_eq prerelease (JBool (rl_channel r = ''beta''))
         then Inl (ValueErr ''Existing release tag or prerelease status does not match requested release'')
       else Inr (Some draft)))))))))"

definition release_metadata :: "os_env \<Rightarrow> Release \<Rightarrow> json option pio" where
  "release_metadata S r = (let owner = split_head ''/'' (rl_repository r);
       repository = drop (Suc (length owner)) (rl_repository r) in
     bindI (command S False [''gh'', ''api'', ''graphql'', ''-f'', ''query='' @ graphql_query, ''-f'', ''owner='' @ owner,
       ''-f'', ''repository='' @ repository, ''-f'', ''tag='' @ rl_tag r]) (\<lambda>p.
     if p_code p \<noteq> 0 then raiseI (RuntimeErr ''Unable to inspect GitHub release'')
     else liftI (parse_metadata r (p_out p))))"

subsection \<open>Verifying assets\<close>

text \<open>The digests of the installer (as the manifest states it) and of the manifest\<close>

type_synonym digests = "json \<times> string"

definition verify_assets_in :: "ed25519 \<Rightarrow> Release \<Rightarrow> string \<Rightarrow> string \<Rightarrow> files \<Rightarrow> digests res" where
  "verify_assets_in E r dir commit fs =
     (if strip (rl_public_keys r) = [] then Inl (ValueErr ''AUTO_UPDATE_FEED_PUBLIC_KEY is required to publish'')
      else bindR (verify_release E fs (path_join dir (manifest_name r)) (path_join dir (installer_name r))
                    (rl_public_keys r) (rl_full_version r) (rl_channel r) (Some commit)) (\<lambda>payload.
        bindR (read_file fs (path_join dir (manifest_name r))) (\<lambda>m.
        bindR (item payload ''installer'') (\<lambda>inst.
        bindR (item inst ''sha256'') (\<lambda>h. Inr (h, sha256_hex m))))))"

definition verify_assets :: "ed25519 \<Rightarrow> Release \<Rightarrow> string \<Rightarrow> string \<Rightarrow> digests pio" where
  "verify_assets E r dir commit = checkI (\<lambda>w. verify_assets_in E r dir commit (pw_files w))"

definition download_args :: "Release \<Rightarrow> string \<Rightarrow> string list" where
  "download_args r dir = [''gh'', ''release'', ''download'', rl_tag r, ''--repo'', rl_repository r, ''--dir'', dir,
     ''--pattern'', installer_name r, ''--pattern'', manifest_name r]"

definition verify_uploaded_assets :: "ed25519 \<Rightarrow> os_env \<Rightarrow> string \<Rightarrow> Release \<Rightarrow> string \<Rightarrow> digests option \<Rightarrow> unit pio" where
  "verify_uploaded_assets E S temporary r commit expected =
     finallyI
       (bindI (command S True (download_args r temporary)) (\<lambda>_.
        bindI (verify_assets E r temporary commit) (\<lambda>uploaded.
        case expected of None \<Rightarrow> retI ()
        | Some d \<Rightarrow> guardI (\<not> py_eq (fst d) (fst uploaded) \<or> snd d \<noteq> snd uploaded)
            (ValueErr ''Uploaded asset differs from verified local artifact''))))
       (remove_tree temporary)"

subsection \<open>Publishing\<close>

definition diff_args :: "string list \<Rightarrow> string list" where
  "diff_args scope = [''git'', ''diff'', ''--no-ext-diff'', ''--exit-code''] @ scope @ [''--'']"

definition check_clean :: "os_env \<Rightarrow> string list \<Rightarrow> unit pio" where
  "check_clean S scope =
     bindI (command S False (diff_args scope)) (\<lambda>difference.
     if p_code difference = 1 then
       bindI (command S True ([''git'', ''diff'', ''--name-only''] @ scope @ [''--''])) (\<lambda>_.
       raiseI (ValueErr ''Commit tracked source changes before publishing a new release''))
     else guardI (p_code difference \<noteq> 0) (RuntimeErr ''Unable to compare release source''))"

definition tag_args :: "Release \<Rightarrow> string \<Rightarrow> string list" where
  "tag_args r commit = [''git'', ''tag'', rl_tag r, commit]"

definition push_args :: "Release \<Rightarrow> string list" where
  "push_args r = [''git'', ''push'', ''--atomic'', ''origin'', ''HEAD:refs/heads/main'', tag_ref r]"

definition create_args :: "Release \<Rightarrow> string list" where
  "create_args r = [''gh'', ''release'', ''create'', rl_tag r, ''--repo'', rl_repository r, ''--draft'', ''--verify-tag'',
     ''--generate-notes'', ''--title'', ''Version '' @ rl_version r] @ (if rl_channel r = ''beta'' then [''--prerelease''] else [])"

definition upload_args :: "Release \<Rightarrow> string \<Rightarrow> string list" where
  "upload_args r dir = [''gh'', ''release'', ''upload'', rl_tag r, ''--repo'', rl_repository r] @
     map (path_join dir) (asset_names r) @ [''--clobber'']"

definition edit_args :: "Release \<Rightarrow> string list" where
  "edit_args r = [''gh'', ''release'', ''edit'', rl_tag r, ''--repo'', rl_repository r, ''--draft=false'',
     if rl_channel r = ''stable'' then ''--latest'' else ''--latest=false'']"

text \<open>The part before anything is changed: the changelog, the source, the local artifacts, the state on GitHub\<close>

definition inspect_release :: "ed25519 \<Rightarrow> os_env \<Rightarrow> Release \<Rightarrow> string \<Rightarrow> (string option \<times> string \<times> digests \<times> json option) pio" where
  "inspect_release E S r artifacts =
     bindI (checkI (\<lambda>w. check_changelog (pw_files w) (rl_full_version r) True)) (\<lambda>_.
     bindI (tagged_source S r) (\<lambda>existing.
     bindI (or_head S existing) (\<lambda>commit.
     bindI (verify_assets E r artifacts commit) (\<lambda>local_digests.
     bindI (release_metadata S r) (\<lambda>metadata.
     retI (existing, commit, local_digests, metadata))))))"

definition tag_source :: "os_env \<Rightarrow> Release \<Rightarrow> string \<Rightarrow> unit pio" where
  "tag_source S r commit =
     bindI (check_clean S [''--cached'']) (\<lambda>_.
     bindI (check_clean S []) (\<lambda>_.
     bindI (command S True (tag_args r commit)) (\<lambda>_.
     bindI (command S True (push_args r)) (\<lambda>_. retI ()))))"

definition publish_draft :: "ed25519 \<Rightarrow> os_env \<Rightarrow> string \<Rightarrow> Release \<Rightarrow> string \<Rightarrow> string \<Rightarrow> digests \<Rightarrow> json option \<Rightarrow> unit pio" where
  "publish_draft E S temporary r artifacts commit local_digests metadata =
     bindI (if metadata = None then bindI (command S True (create_args r)) (\<lambda>_. retI ()) else retI ()) (\<lambda>_.
     bindI (command S True (upload_args r artifacts)) (\<lambda>_.
     bindI (verify_uploaded_assets E S temporary r commit (Some local_digests)) (\<lambda>_.
     bindI (command S True (edit_args r)) (\<lambda>_.
     print_line (''Published and verified release '' @ rl_tag r)))))"

definition publish :: "ed25519 \<Rightarrow> os_env \<Rightarrow> string \<Rightarrow> Release \<Rightarrow> string \<Rightarrow> unit pio" where
  "publish E S temporary r artifacts =
     bindI (inspect_release E S r artifacts) (\<lambda>(existing, commit, local_digests, metadata).
     if (case metadata of None \<Rightarrow> False | Some draft \<Rightarrow> \<not> truthy draft) then
       bindI (guardI (existing = None) (ValueErr ''Published release has no checked-out tag; fetch tags before retrying'')) (\<lambda>_.
       bindI (verify_uploaded_assets E S temporary r commit None) (\<lambda>_.
       print_line (''Release '' @ rl_tag r @ '' is already published and verified; keeping its assets'')))
     else
       bindI (if existing = None then tag_source S r commit else retI ()) (\<lambda>_.
       publish_draft E S temporary r artifacts commit local_digests metadata))"

datatype publish_mode = CheckTag | SourceCommit | Publish

definition publish_main :: "ed25519 \<Rightarrow> os_env \<Rightarrow> string \<Rightarrow> environ \<Rightarrow> publish_mode \<Rightarrow> string \<Rightarrow> int pio" where
  "publish_main E S temporary env mode artifacts =
     catchI
       (bindI (liftI (make_release (getenv env ''VERSION_SHORT'' []) (getenv env ''FULL_VERSION'' [])
            (getenv env ''RELEASE_CHANNEL'' []) (getenv env ''GITHUB_REPOSITORY'' []) (getenv env ''AUTO_UPDATE_FEED_PUBLIC_KEY'' []))) (\<lambda>r.
        bindI (guardI (getenv env ''RELEASE_TAG'' (rl_tag r) \<noteq> rl_tag r) (ValueErr ''RELEASE_TAG does not match VERSION_SHORT'')) (\<lambda>_.
        bindI (case mode of
            CheckTag \<Rightarrow> bindI (tagged_source S r) (\<lambda>_. print_line (''Release tag '' @ rl_tag r @ '' source is compatible''))
          | SourceCommit \<Rightarrow> bindI (source_commit S r) print_line
          | Publish \<Rightarrow> publish E S temporary r artifacts) (\<lambda>_. retI 0))))
       (\<lambda>e. case e of
          ValueErr _ \<Rightarrow> bindI (print_line ''Release publication failed'') (\<lambda>_. retI 1)
        | RuntimeErr _ \<Rightarrow> bindI (print_line ''Release publication failed'') (\<lambda>_. retI 1)
        | OSErr _ \<Rightarrow> bindI (print_line ''Release publication failed'') (\<lambda>_. retI 1)
        | FileNotFoundErr \<Rightarrow> bindI (print_line ''Release publication failed'') (\<lambda>_. retI 1)
        | FileExistsErr \<Rightarrow> bindI (print_line ''Release publication failed'') (\<lambda>_. retI 1)
        | _ \<Rightarrow> raiseI e)"

end
