(* ===== verification/Release_ChangelogSpec.thy ===== *)
theory Release_ChangelogSpec
  imports Release_Changelog
begin

text \<open>
  What the release gates promise: an accepted changelog is in descending order and its first entry is the release,
  and the version update replaces one definition of the installer script and nothing else.
\<close>

subsection \<open>The order of the changelog\<close>

text \<open>The version and date of a section\<close>

definition released :: "string list \<Rightarrow> (string \<times> (nat \<times> nat \<times> nat)) option" where
  "released c = (case parse_heading (hd c) of None \<Rightarrow> None
     | Some (n, day) \<Rightarrow> (case fromisoformat day of None \<Rightarrow> None | Some d \<Rightarrow> Some (n, d)))"

definition later :: "string \<times> (nat \<times> nat \<times> nat) \<Rightarrow> string \<times> (nat \<times> nat \<times> nat) \<Rightarrow> bool" where
  "later x y \<longleftrightarrow> triple_less (version_key (fst y)) (version_key (fst x)) \<and> \<not> triple_less (snd x) (snd y)"

definition documented :: "string list \<Rightarrow> bool" where
  "documented c \<longleftrightarrow> has_status (tl c) \<and> has_note (tl c) \<and> (\<exists>n d. released c = Some (n, d) \<and> has_build n (tl c))"

lemma triple_less_trans: "triple_less a b \<Longrightarrow> triple_less b c \<Longrightarrow> triple_less a c"
  by (auto simp: triple_less_def split: prod.splits)

lemma triple_not_less_trans: "\<not> triple_less b a \<Longrightarrow> \<not> triple_less c b \<Longrightarrow> \<not> triple_less c a"
  by (auto simp: triple_less_def split: prod.splits)

lemma later_trans: "later x y \<Longrightarrow> later y z \<Longrightarrow> later x z"
  unfolding later_def using triple_less_trans triple_not_less_trans by blast

text \<open>What the history says about the sections that may follow\<close>

definition follows :: "history \<Rightarrow> string \<times> (nat \<times> nat \<times> nat) \<Rightarrow> bool" where
  "follows h x \<longleftrightarrow> (\<forall>p. hs_previous h = Some p \<longrightarrow> triple_less (version_key (fst x)) p) \<and>
     (\<forall>p. hs_previous_date h = Some p \<longrightarrow> \<not> triple_less p (snd x))"

lemma add_entry_ok:
  assumes "add_entry h c = Inr h'"
  shows "\<exists>n d. released c = Some (n, d) \<and> follows h (n, d) \<and> documented c \<and>
    h' = \<lparr>hs_entries = hs_entries h @ [(n, join newline (tl c))], hs_previous = Some (version_key n), hs_previous_date = Some d\<rparr>"
proof -
  obtain n day where p: "parse_heading (hd c) = Some (n, day)"
    using assms by (auto simp: add_entry_def Let_def split: option.splits)
  obtain d where d: "fromisoformat day = Some d"
    using assms unfolding add_entry_def Let_def p option.case prod.case bindR_ok of_option_ok by blast
  have "released c = Some (n, d)" by (simp add: released_def p d)
  then show ?thesis using assms unfolding add_entry_def Let_def p option.case prod.case d of_option_def bindR_def sum.case
    by (cases d) (auto simp: follows_def documented_def split: if_splits option.splits)
qed

lemma follows_later:
  "follows \<lparr>hs_entries = es, hs_previous = Some (version_key n), hs_previous_date = Some d\<rparr> x \<longleftrightarrow> later (n, d) x"
  by (simp add: follows_def later_def)

lemma follows_trans: "follows h x \<Longrightarrow> later x y \<Longrightarrow> follows h y"
  unfolding follows_def later_def using triple_less_trans triple_not_less_trans by blast

lemma add_entries_ok:
  "add_entries h cs = Inr h' \<Longrightarrow> \<exists>rs. map released cs = map Some rs \<and> sorted_wrt later rs \<and> list_all (follows h) rs \<and>
     list_all documented cs \<and> hs_entries h' = hs_entries h @ zip (map fst rs) (map (\<lambda>c. join newline (tl c)) cs)"
proof (induction cs arbitrary: h)
  case Nil
  then show ?case by simp
next
  case (Cons c cs)
  then obtain g where g: "add_entry h c = Inr g" "add_entries g cs = Inr h'" by (auto simp: bindR_ok)
  obtain n d where c: "released c = Some (n, d)" "follows h (n, d)" "documented c"
    "g = \<lparr>hs_entries = hs_entries h @ [(n, join newline (tl c))], hs_previous = Some (version_key n), hs_previous_date = Some d\<rparr>"
    using add_entry_ok[OF g(1)] by blast
  obtain rs where rs: "map released cs = map Some rs" "sorted_wrt later rs" "list_all (follows g) rs" "list_all documented cs"
    "hs_entries h' = hs_entries g @ zip (map fst rs) (map (\<lambda>c. join newline (tl c)) cs)"
    using Cons.IH[OF g(2)] by blast
  have "list_all (later (n, d)) rs" using rs(3) by (simp add: c(4) list_all_iff follows_later)
  then show ?case using c rs follows_trans[OF c(2)]
    by (intro exI[of _ "(n, d) # rs"]) (auto simp: list_all_iff)
qed

lemma validate_ok:
  assumes "validate t version release = Inr body"
  shows "\<exists>first chunks rs. sections (lines_of t) = first # chunks \<and> map released chunks = map Some rs \<and> sorted_wrt later rs \<and>
    list_all documented chunks \<and> chunks \<noteq> [] \<and> fst (hd rs) = split_head ''+'' version \<and> body = join newline (tl (hd chunks)) \<and>
    ''Build: '' @ version \<in> set (splitlines body) \<and>
    (release \<longrightarrow> ''Status: prepared'' \<in> set (splitlines body) \<and> pending_text (tl first) = [])"
proof -
  obtain first chunks where s: "sections (lines_of t) = first # chunks"
    using assms by (auto simp: validate_def split: list.splits)
  obtain h where h: "add_entries empty_history chunks = Inr h" "map_of (hs_entries h) (split_head ''+'' version) = Some body"
    "fst (hd (hs_entries h)) = split_head ''+'' version" "''Build: '' @ version \<in> set (splitlines body)"
    "release \<longrightarrow> ''Status: prepared'' \<in> set (splitlines body) \<and> pending_text (tl first) = []"
    using assms unfolding validate_def s
    by (auto simp: bindR_ok Let_def split: list.splits if_splits option.splits)
  obtain rs where rs: "map released chunks = map Some rs" "sorted_wrt later rs" "list_all documented chunks"
    "hs_entries h = zip (map fst rs) (map (\<lambda>c. join newline (tl c)) chunks)"
    using add_entries_ok[OF h(1)] by (auto simp: empty_history_def)
  have "chunks \<noteq> []" using h(2) rs(4) by auto
  then obtain c cs where c: "chunks = c # cs" by (cases chunks) auto
  then obtain n d rs' where r: "rs = (n, d) # rs'" using rs(1) by (cases rs) auto
  have "body = join newline (tl c)" using h(2,3) by (simp add: rs(4) c r)
  then show ?thesis using s rs h c r by (intro exI[of _ first] exI[of _ chunks] exI[of _ rs]) (simp add: rs(4))
qed

subsection \<open>The definition in the installer script\<close>

lemma define_subn_none: "snd (define_subn n new s) = 0 \<Longrightarrow> fst (define_subn n new s) = s"
  by (induction n new s rule: define_subn.induct) (auto split: option.splits list.splits prod.splits)

lemma take_ws_prefix: "take (length (ws_prefix t)) t = ws_prefix t"
  by (simp add: ws_prefix_def min_def)

lemma define_match_suffix: "define_match s = Some r \<Longrightarrow> \<exists>m. s = ''#define MyAppVersion'' @ m @ r"
proof -
  assume m: "define_match s = Some r"
  then obtain t where t: "s = ''#define MyAppVersion'' @ t"
    unfolding define_match_def Let_def by (metis option.distinct(1) startswith_iff)
  let ?u = "drop (length (ws_prefix t)) t"
  have "?u \<noteq> []" "\<exists>k. r = drop k (tl ?u)" using m by (auto simp: define_match_def t Let_def split: if_splits)
  then obtain k where "r = drop k (tl ?u)" "?u = hd ?u # tl ?u" by force
  moreover have "t = ws_prefix t @ ?u" by (metis append_take_drop_id take_ws_prefix)
  ultimately have "t = (ws_prefix t @ [hd ?u] @ take k (tl ?u)) @ r" by (metis append_Cons append_Nil append_assoc append_take_drop_id)
  then show ?thesis using t by metis
qed

lemma define_subn_one:
  "snd (define_subn n new s) = 1 \<Longrightarrow> \<exists>a m b. s = a @ m @ b \<and> define_match (m @ b) = Some b \<and> fst (define_subn n new s) = a @ new @ b"
proof (induction n new s rule: define_subn.induct)
  case (2 n new s)
  show ?case
  proof (cases "define_match s")
    case (Some r)
    then have "snd (define_subn n new r) = 0" using 2(3) by (auto split: prod.splits)
    then have "fst (define_subn n new r) = r" by (rule define_subn_none)
    moreover obtain m where "s = m @ r" using define_match_suffix[OF Some] append_assoc by metis
    ultimately show ?thesis using Some by (intro exI[of _ "[]"] exI[of _ m] exI[of _ r]) (auto split: prod.splits)
  next
    case None
    then obtain c cs where s: "s = c # cs" using 2(3) by (cases s) auto
    then have "snd (define_subn n new cs) = 1" using 2(3) None by (auto split: prod.splits)
    then obtain a m b where "cs = a @ m @ b" "define_match (m @ b) = Some b" "fst (define_subn n new cs) = a @ new @ b"
      using 2(1,2) None s by metis
    then show ?thesis using None s
      by (intro exI[of _ "c # a"] exI[of _ m] exI[of _ b]) (auto split: prod.splits)
  qed
qed simp

subsection \<open>The properties\<close>

text \<open>
  C16. If \<open>validate\<close> accepts a changelog for a version, then every released section has a heading with a version and a
  date, a status, its build and a note; versions strictly descend and dates never ascend down the whole file; the first
  section is the version's own, it states the exact build, and a release needs it prepared with nothing pending.
\<close>

theorem validate_descending:
  assumes "validate t version release = Inr body"
  shows "\<exists>first chunks rs. sections (lines_of t) = first # chunks \<and> map released chunks = map Some rs \<and> sorted_wrt later rs \<and>
    list_all documented chunks \<and> chunks \<noteq> [] \<and> fst (hd rs) = split_head ''+'' version \<and> body = join newline (tl (hd chunks)) \<and>
    ''Build: '' @ version \<in> set (splitlines body) \<and>
    (release \<longrightarrow> ''Status: prepared'' \<in> set (splitlines body) \<and> pending_text (tl first) = [])"
  using assms by (rule validate_ok)

text \<open>
  If \<open>update_setup_iss\<close> returns, the script had one match of the definition of \<open>MyAppVersion\<close>, and the new script is
  the old one with the match replaced by the new definition: no other byte of it and no other file changes.
\<close>

theorem update_setup_iss_replaces:
  assumes "update_setup_iss version fs = (Inr (), fs')"
  shows "\<exists>b pre m post. fs ''installer/setup.iss'' = Some b \<and> decode_text (removeprefix b bom) = Inr (pre @ m @ post) \<and>
    define_match (m @ post) = Some post \<and> fs' = fs(''installer/setup.iss'' \<mapsto> bom @ pre @ define_line version @ post)"
proof -
  obtain b s where b: "fs ''installer/setup.iss'' = Some b" "decode_text (removeprefix b bom) = Inr s"
    "snd (define_subn (length s) (define_line version) s) = 1"
    "fs' = fs(''installer/setup.iss'' \<mapsto> bom @ fst (define_subn (length s) (define_line version) s))"
    using assms unfolding update_setup_iss_def Let_def case_prod_unfold
    by (auto simp: ok_iff of_option_ok)
  then obtain pre m post where "s = pre @ m @ post" "define_match (m @ post) = Some post" 
    "fst (define_subn (length s) (define_line version) s) = pre @ define_line version @ post"
    using define_subn_one[OF b(3)] by metis
  then show ?thesis using b by metis
qed

definition demo_changelog :: string where
  "demo_changelog = ''## Unreleased'' @ newline @ ''## 1.2.3 - 2024-02-29'' @ newline @ ''Status: prepared'' @ newline @
     ''Build: 1.2.3+4'' @ newline @ ''- x'' @ newline @ ''## 1.2.2 - 2024-02-28'' @ newline @ ''Status: tagged'' @ newline @
     ''Build: 1.2.2'' @ newline @ ''- y'' @ newline"

lemma demo_changelog_valid: "\<exists>body. validate demo_changelog ''1.2.3+4'' True = Inr body"
proof -
  have "case validate demo_changelog ''1.2.3+4'' True of Inr _ \<Rightarrow> True | Inl _ \<Rightarrow> False" by code_simp
  then show ?thesis by (auto split: sum.splits)
qed

theorem validate_descending_witness:
  "\<exists>first chunks rs body. sections (lines_of demo_changelog) = first # chunks \<and> map released chunks = map Some rs \<and> sorted_wrt later rs \<and>
    list_all documented chunks \<and> chunks \<noteq> [] \<and> fst (hd rs) = split_head ''+'' ''1.2.3+4'' \<and> body = join newline (tl (hd chunks)) \<and>
    ''Build: '' @ ''1.2.3+4'' \<in> set (splitlines body) \<and>
    (True \<longrightarrow> ''Status: prepared'' \<in> set (splitlines body) \<and> pending_text (tl first) = [])"
proof -
  obtain body where "validate demo_changelog ''1.2.3+4'' True = Inr body" using demo_changelog_valid by blast
  from validate_descending[OF this] show ?thesis by metis
qed

definition demo_iss :: string where
  "demo_iss = ''; x'' @ newline @ define_line ''1.0'' @ newline"

theorem update_setup_iss_replaces_witness:
  "\<exists>b pre m post fs'. [''installer/setup.iss'' \<mapsto> demo_iss] ''installer/setup.iss'' = Some b \<and>
    decode_text (removeprefix b bom) = Inr (pre @ m @ post) \<and> define_match (m @ post) = Some post \<and>
    fs' = [''installer/setup.iss'' \<mapsto> demo_iss](''installer/setup.iss'' \<mapsto> bom @ pre @ define_line ''1.2.3'' @ post)"
proof -
  have d: "decode_text (removeprefix demo_iss bom) = Inr demo_iss"
    "define_subn (length demo_iss) (define_line ''1.2.3'') demo_iss = (''; x'' @ newline @ define_line ''1.2.3'' @ newline, 1)"
    by code_simp+
  then have "update_setup_iss ''1.2.3'' [''installer/setup.iss'' \<mapsto> demo_iss] =
    (Inr (), [''installer/setup.iss'' \<mapsto> demo_iss](''installer/setup.iss'' \<mapsto> bom @ ''; x'' @ newline @ define_line ''1.2.3'' @ newline))"
    by (simp add: update_setup_iss_def io_defs of_option_def)
  from update_setup_iss_replaces[OF this] show ?thesis by metis
qed

end
