(* ===== verification/Release_PublishSpec.thy ===== *)
theory Release_PublishSpec
  imports Release_Publish Updater_ManifestSpec Release_ChangelogSpec
begin

text \<open>
  What publication promises, for every behaviour of \<open>git\<close> and \<open>gh\<close>: nothing is changed before the release is
  known not to be public, a tag is created only where there was none, and the draft becomes public only after the
  uploaded assets were downloaded again and found to be the verified local ones.
\<close>

subsection \<open>Commands that change something\<close>

definition changes :: "string list \<Rightarrow> bool" where
  "changes t \<longleftrightarrow> take 2 t \<in> {[''git'', ''tag''], [''git'', ''push'']} \<or>
     take 3 t \<in> {[''gh'', ''release'', ''create''], [''gh'', ''release'', ''upload''], [''gh'', ''release'', ''edit'']}"

definition goes_public :: "string list \<Rightarrow> bool" where
  "goes_public t \<longleftrightarrow> take 3 t = [''gh'', ''release'', ''edit'']"

definition creates_tag :: "string list \<Rightarrow> bool" where
  "creates_tag t \<longleftrightarrow> take 2 t = [''git'', ''tag'']"

lemmas command_kinds = changes_def goes_public_def creates_tag_def download_args_def diff_args_def tag_args_def push_args_def
  create_args_def upload_args_def edit_args_def

lemma issues_command [issues_intro]: "P args \<Longrightarrow> issues P (command S check args)"
  unfolding command_def by (intro issues_intro)

lemma reads_only:
  "issues (\<lambda>t. \<not> changes t) (tagged_source S r)" "issues (\<lambda>t. \<not> changes t) (or_head S ex)"
  "issues (\<lambda>t. \<not> changes t) (release_metadata S r)" "issues (\<lambda>t. \<not> changes t) (verify_uploaded_assets E S tmp r commit d)"
  "issues (\<lambda>t. \<not> changes t) (verify_assets E r dir commit)" "issues (\<lambda>t. \<not> changes t) (check_clean S sc)"
  unfolding tagged_source_def or_head_def release_metadata_def verify_uploaded_assets_def verify_assets_def check_clean_def Let_def
  by (intro issues_intro; simp add: command_kinds)+

lemma inspect_reads_only: "issues (\<lambda>t. \<not> changes t) (inspect_release E S r art)"
  unfolding inspect_release_def by (intro issues_intro reads_only)

lemma issues_any: "issues P m \<Longrightarrow> issues (\<lambda>_. True) m"
  by (erule issues_mono) simp

lemma publish_draft_any: "issues (\<lambda>_. True) (publish_draft E S tmp r art commit d m)"
  unfolding publish_draft_def by (intro issues_intro issues_any[OF reads_only(4)]) simp_all

lemma tag_source_any: "issues (\<lambda>_. True) (tag_source S r commit)"
  unfolding tag_source_def by (intro issues_intro issues_any[OF reads_only(6)]) simp_all

definition publish_rest :: "ed25519 \<Rightarrow> os_env \<Rightarrow> string \<Rightarrow> Release \<Rightarrow> string \<Rightarrow> string option \<times> string \<times> digests \<times> json option \<Rightarrow> unit pio" where
  "publish_rest E S tmp r art x = (case x of (existing, commit, local_digests, metadata) \<Rightarrow>
     if (case metadata of None \<Rightarrow> False | Some draft \<Rightarrow> \<not> truthy draft) then
       bindI (guardI (existing = None) (ValueErr ''Published release has no checked-out tag; fetch tags before retrying'')) (\<lambda>_.
       bindI (verify_uploaded_assets E S tmp r commit None) (\<lambda>_.
       print_line (''Release '' @ rl_tag r @ '' is already published and verified; keeping its assets'')))
     else
       bindI (if existing = None then tag_source S r commit else retI ()) (\<lambda>_.
       publish_draft E S tmp r art commit local_digests metadata))"

lemma publish_split: "publish E S tmp r art = bindI (inspect_release E S r art) (publish_rest E S tmp r art)"
  unfolding publish_def publish_rest_def by (rule arg_cong[of _ _ "bindI _"]) (auto simp: fun_eq_iff)

lemma published_reads_only:
  "(case m of None \<Rightarrow> False | Some draft \<Rightarrow> \<not> truthy draft) \<Longrightarrow> issues (\<lambda>t. \<not> changes t) (publish_rest E S tmp r art (ex, commit, d, m))"
  unfolding publish_rest_def by (auto intro!: issues_intro reads_only)

lemma publish_rest_any: "issues (\<lambda>_. True) (publish_rest E S tmp r art x)"
  unfolding publish_rest_def
  by (auto split: prod.split intro!: issues_intro issues_any[OF reads_only(4)] tag_source_any publish_draft_any)

lemma publish_change_inspected:
  assumes "publish E S tmp r art w = (res, w')" "reaches changes w w'"
  shows "\<exists>ex commit d m v. inspect_release E S r art w = (Inr (ex, commit, d, m), v) \<and>
    (m = None \<or> (\<exists>draft. m = Some draft \<and> truthy draft)) \<and>
    bindI (if ex = None then tag_source S r commit else retI ()) (\<lambda>_. publish_draft E S tmp r art commit d m) v = (res, w') \<and>
    reaches changes v w'"
proof -
  obtain x v where x: "inspect_release E S r art w = (Inr x, v)" "publish_rest E S tmp r art x v = (res, w')" "reaches changes v w'"
    using bind_reaches[OF assms(1)[unfolded publish_split] assms(2) inspect_reads_only publish_rest_any] by blast
  obtain ex commit d m where x': "x = (ex, commit, d, m)" by (cases x)
  have "\<not> (case m of None \<Rightarrow> False | Some draft \<Rightarrow> \<not> truthy draft)"
    using published_reads_only x(2,3) issues_not_reaches unfolding x' by blast
  then show ?thesis using x unfolding x' publish_rest_def by (auto split: option.splits)
qed

lemma inspect_ok:
  assumes "inspect_release E S r art w = (Inr (ex, commit, d, m), v)"
  shows "\<exists>body w1 w2. check_changelog (pw_files w) (rl_full_version r) True = Inr body \<and> tagged_source S r w = (Inr ex, w1) \<and>
    or_head S ex w1 = (Inr commit, w2) \<and> verify_assets_in E r art commit (pw_files w2) = Inr d \<and>
    release_metadata S r w2 = (Inr m, v)"
  using assms unfolding inspect_release_def verify_assets_def ok_iff by auto

lemma verify_uploaded_ok:
  assumes "verify_uploaded_assets E S tmp r commit (Some d) w = (Inr (), v)"
  shows "\<exists>p w1 up. command S True (download_args r tmp) w = (Inr p, w1) \<and>
    verify_assets_in E r tmp commit (pw_files w1) = Inr up \<and> py_eq (fst d) (fst up) \<and> snd d = snd up \<and> pw_trace v = pw_trace w1"
  using assms unfolding verify_uploaded_assets_def finallyI_def remove_tree_def updI_def
  by (auto simp: verify_assets_def ok_iff split: prod.splits sum.splits)

lemma not_public:
  "issues (\<lambda>t. \<not> goes_public t) (tag_source S r commit)"
  "issues (\<lambda>t. \<not> goes_public t) (verify_uploaded_assets E S tmp r commit d)"
  unfolding tag_source_def
  by (intro issues_intro issues_mono[OF reads_only(6)]; simp add: command_kinds)
    (rule issues_mono[OF reads_only(4)], simp add: command_kinds)

lemma not_public_args [simp]: "\<not> goes_public (create_args r)" "\<not> goes_public (upload_args r art)"
  by (simp_all add: command_kinds)

lemma bind_reaches_after:
  assumes "bindI m f w = (r, w')" "reaches Q w w'" "issues (\<lambda>t. \<not> Q t) m" "\<And>x. issues (\<lambda>_. True) (f x)"
  shows "\<exists>x v. m w = (Inr x, v) \<and> f x v = (r, w') \<and> reaches Q v w' \<and> (\<exists>ts. pw_trace v = pw_trace w @ ts)"
  using bind_reaches[OF assms] issuesD[OF assms(3)] by blast

lemma assets_digests:
  assumes "verify_assets_in E r dir commit fs = Inr d"
  shows "\<exists>i m. fs (path_join dir (installer_name r)) = Some i \<and> fs (path_join dir (manifest_name r)) = Some m \<and> d = (JStr (sha256_hex i), sha256_hex m)"
proof -
  obtain payload m inst h where v: "verify_release E fs (path_join dir (manifest_name r)) (path_join dir (installer_name r))
      (rl_public_keys r) (rl_full_version r) (rl_channel r) (Some commit) = Inr payload" and
    d: "fs (path_join dir (manifest_name r)) = Some m" "item payload ''installer'' = Inr inst" "item inst ''sha256'' = Inr h" "d = (h, sha256_hex m)"
    using assms by (auto simp: verify_assets_in_def ok_iff read_file_def split: if_splits)
  obtain content mf where "fs (path_join dir (installer_name r)) = Some content" "payload = manifest_json mf" "mf_sha256 mf = sha256_hex content"
    using v unfolding verify_release_ok by blast
  then show ?thesis using d by (auto simp: manifest_items item_obj)
qed

lemma draft_verified:
  assumes "publish_draft E S tmp r art commit d m w = (res, w')" "reaches goes_public w w'"
  shows "\<exists>u v ts. verify_uploaded_assets E S tmp r commit (Some d) u = (Inr (), v) \<and> reaches goes_public v w' \<and> pw_trace u = pw_trace w @ ts"
proof -
  let ?edit = "bindI (command S True (edit_args r)) (\<lambda>_. print_line (''Published and verified release '' @ rl_tag r))"
  let ?verify = "bindI (verify_uploaded_assets E S tmp r commit (Some d)) (\<lambda>_. ?edit)"
  let ?upload = "bindI (command S True (upload_args r art)) (\<lambda>_. ?verify)"
  let ?create = "if m = None then bindI (command S True (create_args r)) (\<lambda>_. retI ()) else retI ()"
  have e: "issues (\<lambda>_. True) ?edit" by (intro issues_intro) simp
  have v: "issues (\<lambda>_. True) ?verify" by (rule issues_bind[OF issues_any[OF reads_only(4)] e])
  have u: "issues (\<lambda>_. True) ?upload" by (rule issues_bind[OF issues_command v]) simp
  have c: "issues (\<lambda>t. \<not> goes_public t) ?create" by (intro issues_intro) simp_all
  have up: "issues (\<lambda>t. \<not> goes_public t) (command S True (upload_args r art))" by (intro issues_intro) simp
  obtain w1 ts1 where w1: "?upload w1 = (res, w')" "reaches goes_public w1 w'" "pw_trace w1 = pw_trace w @ ts1"
    using bind_reaches_after[OF assms(1)[unfolded publish_draft_def] assms(2) c u] by blast
  obtain w2 ts2 where w2: "?verify w2 = (res, w')" "reaches goes_public w2 w'" "pw_trace w2 = pw_trace w1 @ ts2"
    using bind_reaches_after[OF w1(1,2) up v] by blast
  show ?thesis using bind_reaches[OF w2(1,2) not_public(2) e] w1(3) w2(3) by auto
qed

lemma goes_public_changes: "reaches goes_public w w' \<Longrightarrow> reaches changes w w'"
  by (auto simp: reaches_def list_ex_iff command_kinds)

lemma goes_public_verified:
  assumes "publish E S tmp r art w = (res, w')" "reaches goes_public w w'"
  shows "\<exists>ex commit d m v u u' ts. inspect_release E S r art w = (Inr (ex, commit, d, m), v) \<and>
    verify_uploaded_assets E S tmp r commit (Some d) u = (Inr (), u') \<and> reaches goes_public u' w' \<and> pw_trace u = pw_trace v @ ts"
proof -
  obtain x v where x: "inspect_release E S r art w = (Inr x, v)" "publish_rest E S tmp r art x v = (res, w')" "reaches goes_public v w'"
    using bind_reaches[OF assms(1)[unfolded publish_split] assms(2) issues_mono[OF inspect_reads_only] publish_rest_any]
    by (auto simp: command_kinds)
  obtain ex commit d m where x': "x = (ex, commit, d, m)" by (cases x)
  have "\<not> (case m of None \<Rightarrow> False | Some draft \<Rightarrow> \<not> truthy draft)"
    using published_reads_only x(2) goes_public_changes[OF x(3)] issues_not_reaches unfolding x' by blast
  then have b: "bindI (if ex = None then tag_source S r commit else retI ()) (\<lambda>_. publish_draft E S tmp r art commit d m) v = (res, w')"
    using x(2) unfolding x' publish_rest_def by (auto split: option.splits)
  obtain v1 ts1 where v1: "publish_draft E S tmp r art commit d m v1 = (res, w')" "reaches goes_public v1 w'" "pw_trace v1 = pw_trace v @ ts1"
    using bind_reaches_after[OF b x(3) issues_if[OF not_public(1) issues_basic(1)] publish_draft_any] by blast
  obtain u u' ts2 where "verify_uploaded_assets E S tmp r commit (Some d) u = (Inr (), u')" "reaches goes_public u' w'" "pw_trace u = pw_trace v1 @ ts2"
    using draft_verified[OF v1(1,2)] by blast
  then show ?thesis using x(1) v1(3) unfolding x' by (metis append.assoc)
qed

subsection \<open>A concrete publication\<close>

definition demo_release :: Release where
  "demo_release = \<lparr>rl_version = ''1.2.3'', rl_full_version = ''1.2.3+4'', rl_channel = ''stable'', rl_repository = ''o/r'',
     rl_public_keys = demo_key\<rparr>"

definition demo_out :: string where
  "demo_out = (case manifest_main plain_scheme demo_key demo_fs demo_installer ''1.2.3+4'' ''stable'' 2 demo_commit of
     Inr out \<Rightarrow> out | Inl _ \<Rightarrow> [])"

definition demo_files :: files where
  "demo_files = [''CHANGELOG.md'' \<mapsto> demo_changelog, demo_installer \<mapsto> ''MZ'', ''dist/PlugAgente-Manifest-1.2.3.json'' \<mapsto> demo_out]"

definition demo_answer :: string where
  "demo_answer = ''{'' @ json_quote ''data'' @ '':{'' @ json_quote ''repository'' @ '':{'' @ json_quote ''release'' @ '':null}}}''"

definition demo_system :: os_env where
  "demo_system = \<lparr>os_run = (\<lambda>_ t. Inr (
       if take 2 t = [''git'', ''show-ref''] then \<lparr>p_code = 1, p_out = [], p_err = []\<rparr>
       else if take 2 t = [''git'', ''rev-parse''] then \<lparr>p_code = 0, p_out = demo_commit, p_err = []\<rparr>
       else if take 2 t = [''gh'', ''api''] then \<lparr>p_code = 0, p_out = demo_answer, p_err = []\<rparr>
       else \<lparr>p_code = 0, p_out = [], p_err = []\<rparr>)),
     os_effect = (\<lambda>_ t fs. if take 3 t = [''gh'', ''release'', ''download''] then
       fs(''tmp/PlugAgente-Setup-1.2.3.exe'' := fs ''dist/PlugAgente-Setup-1.2.3.exe'',
          ''tmp/PlugAgente-Manifest-1.2.3.json'' := fs ''dist/PlugAgente-Manifest-1.2.3.json'') else fs),
     os_list = (\<lambda>_. []), os_which = Some, os_fetch = (\<lambda>_. Inl (OSErr ''URLError''))\<rparr>"

definition demo_world :: pworld where
  "demo_world = \<lparr>pw_files = demo_files, pw_trace = [], pw_log = [], pw_env = Map.empty\<rparr>"


lemma demo_changelog_text: "decode_text demo_changelog = Inr demo_changelog"
  unfolding decode_text_def by (simp add: demo_changelog_def decode_utf8_def) code_simp

lemma demo_changelog_ok:
  assumes "fs ''CHANGELOG.md'' = Some demo_changelog"
  shows "\<exists>body. check_changelog fs ''1.2.3+4'' True = Inr body"
  using assms demo_changelog_text demo_changelog_valid by (auto simp: check_changelog_def read_file_def)

lemma demo_answer_ok: "parse_metadata demo_release demo_answer = Inr None"
  by code_simp

lemma demo_out_ok: "manifest_main plain_scheme demo_key demo_fs demo_installer ''1.2.3+4'' ''stable'' 2 demo_commit = Inr demo_out"
  using demo_main by (auto simp: demo_out_def)

lemma verify_release_cong:
  assumes "fs m = fs' m'" "fs i = fs' i'"
  shows "verify_release E fs m i keys version channel c = verify_release E fs' m' i' keys version channel c"
  unfolding verify_release_def read_file_def assms ..

definition demo_digests :: digests where
  "demo_digests = (JStr (sha256_hex ''MZ''), sha256_hex demo_out)"

lemma demo_key_strip: "strip demo_key \<noteq> []"
  using demo_key_nonempty by (simp add: demo_key_def b64encode_visible strip_visible)

lemma demo_assets:
  assumes "fs (dir @ ''/PlugAgente-Setup-1.2.3.exe'') = Some ''MZ''" "fs (dir @ ''/PlugAgente-Manifest-1.2.3.json'') = Some demo_out"
  shows "verify_assets_in plain_scheme demo_release dir demo_commit fs = Inr demo_digests"
proof -
  have n: "path_join dir (manifest_name demo_release) = dir @ ''/PlugAgente-Manifest-1.2.3.json''"
    "path_join dir (installer_name demo_release) = dir @ ''/PlugAgente-Setup-1.2.3.exe''"
    by (simp_all add: path_join_def manifest_name_def installer_name_def demo_release_def)
  have "verify_release plain_scheme fs (dir @ ''/PlugAgente-Manifest-1.2.3.json'') (dir @ ''/PlugAgente-Setup-1.2.3.exe'')
      demo_key ''1.2.3+4'' ''stable'' (Some demo_commit) =
    verify_release plain_scheme (demo_fs(''m'' \<mapsto> demo_out)) ''m'' demo_installer demo_key ''1.2.3+4'' ''stable'' (Some demo_commit)"
    by (rule verify_release_cong) (simp_all add: assms demo_fs_def demo_installer_def)
  also have "\<dots> = Inr (manifest_json (cli_manifest ''MZ'' ''1.2.3+4'' ''stable'' 2 demo_commit))"
    using release_roundtrip[OF plain_scheme_correct demo_out_ok demo_key_decodes(1) _ _ demo_key_csv,
        of "demo_fs(''m'' \<mapsto> demo_out)" "''m''"] by (auto simp: demo_fs_def demo_installer_def)
  finally show ?thesis
    by (simp add: verify_assets_in_def demo_release_def demo_key_strip n[unfolded demo_release_def] read_file_def assms
      manifest_items item_obj cli_manifest_def demo_digests_def)
qed

lemma demo_commit_strip: "strip demo_commit = demo_commit"
  by code_simp

lemma demo_head: "or_head demo_system None w = (Inr demo_commit, w\<lparr>pw_trace := pw_trace w @ [[''git'', ''rev-parse'', ''HEAD'']]\<rparr>)"
  by (simp add: or_head_def command_def run_process_def io_defs demo_system_def demo_commit_strip)

lemma demo_untagged: "tagged_source demo_system demo_release w =
    (Inr None, w\<lparr>pw_trace := pw_trace w @ [[''git'', ''show-ref'', ''--verify'', ''--quiet'', ''refs/tags/v1.2.3'']]\<rparr>)"
  by (simp add: tagged_source_def command_def run_process_def io_defs demo_system_def tag_ref_def rl_tag_def demo_release_def)

lemma demo_metadata: "\<exists>t. release_metadata demo_system demo_release w = (Inr None, w\<lparr>pw_trace := pw_trace w @ [t]\<rparr>)"
  using demo_answer_ok by (auto simp: release_metadata_def Let_def command_def run_process_def io_defs demo_system_def)

lemma demo_inspected:
  "\<exists>t. inspect_release plain_scheme demo_system demo_release ''dist'' demo_world =
     (Inr (None, demo_commit, demo_digests, None), demo_world\<lparr>pw_trace := t\<rparr>)"
proof -
  have a: "verify_assets_in plain_scheme demo_release ''dist'' demo_commit demo_files = Inr demo_digests"
    by (rule demo_assets) (simp_all add: demo_files_def demo_installer_def)
  obtain body where b: "check_changelog demo_files ''1.2.3+4'' True = Inr body"
    using demo_changelog_ok[of demo_files] by (auto simp: demo_files_def demo_installer_def)
  have v: "rl_full_version demo_release = ''1.2.3+4''" by (simp add: demo_release_def)
  let ?w = "demo_world\<lparr>pw_trace := [[''git'', ''show-ref'', ''--verify'', ''--quiet'', ''refs/tags/v1.2.3''], [''git'', ''rev-parse'', ''HEAD'']]\<rparr>"
  obtain t where "release_metadata demo_system demo_release ?w = (Inr None, ?w\<lparr>pw_trace := pw_trace ?w @ [t]\<rparr>)"
    using demo_metadata by blast
  then show ?thesis
    using a b by (auto simp: inspect_release_def verify_assets_def io_defs demo_head demo_untagged v demo_world_def)
qed

lemma demo_tagging:
  "tag_source demo_system demo_release demo_commit w = (Inr (), w\<lparr>pw_trace := pw_trace w @
     [diff_args [''--cached''], diff_args [], tag_args demo_release demo_commit, push_args demo_release]\<rparr>)"
  by (simp add: tag_source_def check_clean_def command_def run_process_def io_defs demo_system_def diff_args_def tag_args_def push_args_def)

lemma demo_drafting:
  assumes "pw_files w = demo_files"
  shows "\<exists>v. publish_draft plain_scheme demo_system ''tmp'' demo_release ''dist'' demo_commit demo_digests None w = (Inr (), v) \<and>
    pw_trace v = pw_trace w @ [create_args demo_release, upload_args demo_release ''dist'', download_args demo_release ''tmp'', edit_args demo_release]"
proof -
  let ?fs = "demo_files(''tmp/PlugAgente-Setup-1.2.3.exe'' := demo_files ''dist/PlugAgente-Setup-1.2.3.exe'',
          ''tmp/PlugAgente-Manifest-1.2.3.json'' := demo_files ''dist/PlugAgente-Manifest-1.2.3.json'')"
  have "verify_assets_in plain_scheme demo_release ''tmp'' demo_commit ?fs = Inr demo_digests"
    by (rule demo_assets) (simp_all add: demo_files_def demo_installer_def)
  then show ?thesis using assms
    by (simp add: publish_draft_def verify_uploaded_assets_def verify_assets_def finallyI_def remove_tree_def print_line_def
      command_def run_process_def io_defs demo_system_def create_args_def upload_args_def download_args_def edit_args_def
      demo_digests_def py_eq_str)
qed

lemma demo_run:
  "\<exists>w'. publish plain_scheme demo_system ''tmp'' demo_release ''dist'' demo_world = (Inr (), w') \<and>
     reaches goes_public demo_world w' \<and> reaches creates_tag demo_world w'"
proof -
  obtain t where t: "inspect_release plain_scheme demo_system demo_release ''dist'' demo_world =
     (Inr (None, demo_commit, demo_digests, None), demo_world\<lparr>pw_trace := t\<rparr>)" using demo_inspected by blast
  let ?w = "demo_world\<lparr>pw_trace := t @ [diff_args [''--cached''], diff_args [], tag_args demo_release demo_commit, push_args demo_release]\<rparr>"
  obtain v where v: "publish_draft plain_scheme demo_system ''tmp'' demo_release ''dist'' demo_commit demo_digests None ?w = (Inr (), v)"
    "pw_trace v = pw_trace ?w @ [create_args demo_release, upload_args demo_release ''dist'', download_args demo_release ''tmp'', edit_args demo_release]"
    using demo_drafting[of ?w] by (auto simp: demo_world_def)
  then show ?thesis using t
    by (simp add: publish_def bindI_def demo_tagging demo_world_def reaches_def command_kinds)
qed

subsection \<open>The properties\<close>

text \<open>Both assets of a release are in two places, with contents of the same digest.\<close>

definition same_assets :: "Release \<Rightarrow> string \<Rightarrow> files \<Rightarrow> string \<Rightarrow> files \<Rightarrow> bool" where
  "same_assets r dir fs dir' fs' \<longleftrightarrow> (\<forall>name \<in> {installer_name r, manifest_name r}.
     \<exists>c c'. fs (path_join dir name) = Some c \<and> fs' (path_join dir' name) = Some c' \<and> sha256_hex c' = sha256_hex c)"

text \<open>
  C13. If a run of \<open>publish\<close> issues a command that changes a tag, a branch or a release, then before that command the
  changelog of the release was accepted, the local assets were verified against the source commit, and the release
  on GitHub was found absent or a draft: a public release is never touched.
\<close>

theorem publish_changes_only_unpublished:
  assumes "publish E S tmp r art w = (res, w')" "reaches changes w w'"
  shows "\<exists>ex commit d m v body w1 w2. inspect_release E S r art w = (Inr (ex, commit, d, m), v) \<and>
    (m = None \<or> (\<exists>draft. m = Some draft \<and> truthy draft)) \<and>
    check_changelog (pw_files w) (rl_full_version r) True = Inr body \<and> or_head S ex w1 = (Inr commit, w2) \<and>
    verify_assets_in E r art commit (pw_files w2) = Inr d \<and> reaches changes v w'"
proof -
  obtain ex commit d m v where a: "inspect_release E S r art w = (Inr (ex, commit, d, m), v)"
    "m = None \<or> (\<exists>draft. m = Some draft \<and> truthy draft)" "reaches changes v w'"
    using publish_change_inspected[OF assms] by metis
  obtain body w1 w2 where "check_changelog (pw_files w) (rl_full_version r) True = Inr body" "or_head S ex w1 = (Inr commit, w2)"
    "verify_assets_in E r art commit (pw_files w2) = Inr d"
    using inspect_ok[OF a(1)] by metis
  then show ?thesis using a by metis
qed

text \<open>
  C14. If a run of \<open>publish\<close> issues the command that makes a release public, then the installer and the manifest were downloaded from the
  draft before it and verified for the same commit, and each has the digest of the local file that this run verified before it changed anything.
\<close>

theorem publish_goes_public_verified:
  assumes "publish E S tmp r art w = (res, w')" "reaches goes_public w w'"
  shows "\<exists>ex commit w1 w2 d ts u p u1 up.
    tagged_source S r w = (Inr ex, w1) \<and> or_head S ex w1 = (Inr commit, w2) \<and> verify_assets_in E r art commit (pw_files w2) = Inr d \<and>
    pw_trace u = pw_trace w2 @ ts \<and> command S True (download_args r tmp) u = (Inr p, u1) \<and>
    verify_assets_in E r tmp commit (pw_files u1) = Inr up \<and> same_assets r art (pw_files w2) tmp (pw_files u1) \<and> reaches goes_public u1 w'"
proof -
  obtain ex commit d m v u u' ts where a: "inspect_release E S r art w = (Inr (ex, commit, d, m), v)"
    "verify_uploaded_assets E S tmp r commit (Some d) u = (Inr (), u')" "reaches goes_public u' w'" "pw_trace u = pw_trace v @ ts"
    using goes_public_verified[OF assms] by metis
  obtain p u1 up where b: "command S True (download_args r tmp) u = (Inr p, u1)"
    "verify_assets_in E r tmp commit (pw_files u1) = Inr up" "py_eq (fst d) (fst up)" "snd d = snd up" "pw_trace u' = pw_trace u1"
    using verify_uploaded_ok[OF a(2)] by metis
  obtain w1 w2 where c: "tagged_source S r w = (Inr ex, w1)" "or_head S ex w1 = (Inr commit, w2)"
    "verify_assets_in E r art commit (pw_files w2) = Inr d" "release_metadata S r w2 = (Inr m, v)"
    using inspect_ok[OF a(1)] by metis
  have "same_assets r art (pw_files w2) tmp (pw_files u1)"
    using assets_digests[OF c(3)] assets_digests[OF b(2)] b(3,4) unfolding same_assets_def by (auto simp: py_eq_str)
  moreover obtain ts' where "pw_trace v = pw_trace w2 @ ts'" using issuesD[OF reads_only(3) c(4)] by blast
  moreover have "reaches goes_public u1 w'" using a(3) b(5) by (simp add: reaches_def)
  ultimately show ?thesis using a(4) b(1,2) c(1-3) by (metis append.assoc)
qed

text \<open>
  C15. If a run of \<open>publish\<close> creates a tag, then \<open>git show-ref\<close> answered at the start of the run that the tag does not
  exist: a tag that exists is never moved, whatever commit it points at.
\<close>

theorem publish_never_moves_tag:
  assumes "publish E S tmp r art w = (res, w')" "reaches creates_tag w w'"
  shows "\<exists>p v. run_process S [''git'', ''show-ref'', ''--verify'', ''--quiet'', tag_ref r] w = (Inr p, v) \<and> p_code p = 1"
proof -
  have "reaches changes w w'" using assms(2) by (auto simp: reaches_def list_ex_iff command_kinds)
  then obtain ex commit d m v where a: "inspect_release E S r art w = (Inr (ex, commit, d, m), v)"
    "bindI (if ex = None then tag_source S r commit else retI ()) (\<lambda>_. publish_draft E S tmp r art commit d m) v = (res, w')"
    using publish_change_inspected[OF assms(1)] by metis
  have draft: "issues (\<lambda>t. \<not> creates_tag t) (publish_draft E S tmp r art commit d m)"
    unfolding publish_draft_def by (intro issues_intro issues_mono[OF reads_only(4)]) (simp_all add: command_kinds)
  have insp: "issues (\<lambda>t. \<not> creates_tag t) (inspect_release E S r art)"
    by (rule issues_mono[OF inspect_reads_only]) (simp add: command_kinds)
  have "ex = None"
  proof (rule ccontr)
    assume "ex \<noteq> None"
    then have "publish_draft E S tmp r art commit d m v = (res, w')" using a(2) by (cases ex) (simp_all add: bindI_def retI_def)
    then show False using issuesD[OF insp a(1)] issuesD[OF draft] assms(2)
      by (fastforce simp: reaches_def list_all_iff list_ex_iff)
  qed
  then obtain w1 where "tagged_source S r w = (Inr None, w1)" using inspect_ok[OF a(1)] by metis
  then show ?thesis unfolding tagged_source_def command_def
    by (auto simp: ok_iff Let_def split: if_splits)
qed

theorem publish_changes_only_unpublished_witness:
  "\<exists>w' ex commit d m v body w1 w2. reaches changes demo_world w' \<and>
    inspect_release plain_scheme demo_system demo_release ''dist'' demo_world = (Inr (ex, commit, d, m), v) \<and>
    (m = None \<or> (\<exists>draft. m = Some draft \<and> truthy draft)) \<and>
    check_changelog (pw_files demo_world) (rl_full_version demo_release) True = Inr body \<and> or_head demo_system ex w1 = (Inr commit, w2) \<and>
    verify_assets_in plain_scheme demo_release ''dist'' commit (pw_files w2) = Inr d \<and> reaches changes v w'"
proof -
  obtain w' where "publish plain_scheme demo_system ''tmp'' demo_release ''dist'' demo_world = (Inr (), w')"
    "reaches changes demo_world w'" using demo_run goes_public_changes by blast
  then show ?thesis using publish_changes_only_unpublished by metis
qed

theorem publish_goes_public_verified_witness:
  "\<exists>w' ex commit w1 w2 d ts u p u1 up. reaches goes_public demo_world w' \<and>
    tagged_source demo_system demo_release demo_world = (Inr ex, w1) \<and> or_head demo_system ex w1 = (Inr commit, w2) \<and>
    verify_assets_in plain_scheme demo_release ''dist'' commit (pw_files w2) = Inr d \<and> pw_trace u = pw_trace w2 @ ts \<and>
    command demo_system True (download_args demo_release ''tmp'') u = (Inr p, u1) \<and>
    verify_assets_in plain_scheme demo_release ''tmp'' commit (pw_files u1) = Inr up \<and>
    same_assets demo_release ''dist'' (pw_files w2) ''tmp'' (pw_files u1) \<and> reaches goes_public u1 w'"
proof -
  obtain w' where "publish plain_scheme demo_system ''tmp'' demo_release ''dist'' demo_world = (Inr (), w')"
    "reaches goes_public demo_world w'" using demo_run by blast
  then show ?thesis using publish_goes_public_verified by metis
qed

theorem publish_never_moves_tag_witness:
  "\<exists>p v. run_process demo_system [''git'', ''show-ref'', ''--verify'', ''--quiet'', tag_ref demo_release] demo_world = (Inr p, v) \<and> p_code p = 1"
proof -
  obtain w' where "publish plain_scheme demo_system ''tmp'' demo_release ''dist'' demo_world = (Inr (), w')"
    "reaches creates_tag demo_world w'" using demo_run by blast
  then show ?thesis by (rule publish_never_moves_tag)
qed

end
