(* ===== verification/Py_JsonOut.thy ===== *)
theory Py_JsonOut
  imports Py_JsonDict
begin

text \<open>
  \<open>json.dumps(value, indent=2)\<close> with its ASCII-only strings, and the texts of a JSON value in general: a text of the
  grammar \<open>json_text\<close> is read back as its value by \<open>json.loads\<close>, whatever white space it has.
\<close>

subsection \<open>Characters as code points and 16-bit units\<close>

definition char_point :: "string \<Rightarrow> nat" where
  "char_point ch = (case ch of [] \<Rightarrow> 0 | c # cs \<Rightarrow>
     let b = (of_char c :: nat); lead = (if b < 128 then b else if b < 0xE0 then b - 0xC0 else if b < 0xF0 then b - 0xE0 else b - 0xF0)
     in foldl (\<lambda>n d. n * 64 + ((of_char d :: nat) - 128)) lead cs)"

definition utf16_units :: "nat \<Rightarrow> nat list" where
  "utf16_units p = (if p < 0x10000 then [p] else let q = p - 0x10000 in [0xD800 + q div 1024, 0xDC00 + q mod 1024])"

definition hex_digits4 :: "nat \<Rightarrow> string" where
  "hex_digits4 n = map nibble [n div 4096 mod 16, n div 256 mod 16, n div 16 mod 16, n mod 16]"

lemma chars_of_ascii: "ascii s \<Longrightarrow> length s \<le> n \<Longrightarrow> chars_of n s = map (\<lambda>c. [c]) s"
proof (induction n arbitrary: s)
  case (Suc n)
  then show ?case by (cases s) (simp_all add: py_take_ascii del: py_take.simps)
qed simp

subsection \<open>Writing with indentation\<close>

definition ascii_esc :: "string \<Rightarrow> string" where
  "ascii_esc ch = (if length ch = 1 \<and> (of_char (hd ch) :: nat) < 127 then json_esc (hd ch)
     else concat (map (\<lambda>u. CHR 0x5C # CHR ''u'' # hex_digits4 u) (utf16_units (char_point ch))))"

definition json_quote_ascii :: "string \<Rightarrow> string" where
  "json_quote_ascii s = CHR 0x22 # concat (map ascii_esc (chars_of (length s) s)) @ [CHR 0x22]"

definition indent_at :: "nat \<Rightarrow> string" where
  "indent_at level = CHR 0x0A # replicate (2 * level) CHR '' ''"

fun dumps_indent :: "nat \<Rightarrow> json \<Rightarrow> string" where
  "dumps_indent level (JStr s) = json_quote_ascii s"
| "dumps_indent level (JList vs) = (if vs = [] then ''[]'' else
     ''['' @ indent_at (Suc level) @ join ('','' @ indent_at (Suc level)) (map (dumps_indent (Suc level)) vs) @
     indent_at level @ '']'')"
| "dumps_indent level (JObj kvs) = (if kvs = [] then ''{}'' else
     ''{'' @ indent_at (Suc level) @
     join ('','' @ indent_at (Suc level)) (map (\<lambda>(k, v). json_quote_ascii k @ '': '' @ dumps_indent (Suc level) v) kvs) @
     indent_at level @ ''}'')"
| "dumps_indent level v = dumps_default v"

text \<open>\<open>json.dumps(value, indent=2)\<close>\<close>

definition dumps2 :: "json \<Rightarrow> string" where
  "dumps2 v = dumps_indent 0 v"

subsection \<open>The texts of a value\<close>

inductive json_text :: "json \<Rightarrow> string \<Rightarrow> bool"
  and items_text :: "json list \<Rightarrow> string \<Rightarrow> bool"
  and members_text :: "(string \<times> json) list \<Rightarrow> string \<Rightarrow> bool" where
  atom: "writable v \<Longrightarrow> \<not> is_list v \<Longrightarrow> \<not> is_dict v \<Longrightarrow> json_text v (dumps_compact v)"
| list_nil: "list_all json_ws w \<Longrightarrow> json_text (JList []) (CHR ''['' # w @ '']'')"
| obj_nil: "list_all json_ws w \<Longrightarrow> json_text (JObj []) (CHR ''{'' # w @ ''}'')"
| list: "items_text vs t \<Longrightarrow> list_all json_ws w \<Longrightarrow> json_text (JList vs) (CHR ''['' # w @ t)"
| obj: "members_text kvs t \<Longrightarrow> list_all json_ws w \<Longrightarrow> json_text (JObj kvs) (CHR ''{'' # w @ t)"
| items_one: "json_text v s \<Longrightarrow> list_all json_ws w \<Longrightarrow> items_text [v] (s @ w @ '']'')"
| items_more: "json_text v s \<Longrightarrow> items_text vs t \<Longrightarrow> list_all json_ws w \<Longrightarrow> items_text (v # vs) (s @ CHR '','' # w @ t)"
| members_one: "json_text v s \<Longrightarrow> list_all json_ws w \<Longrightarrow> list_all json_ws w' \<Longrightarrow>
    members_text [(k, v)] (json_quote k @ CHR '':'' # w @ s @ w' @ ''}'')"
| members_more: "json_text v s \<Longrightarrow> members_text kvs t \<Longrightarrow> list_all json_ws w \<Longrightarrow> list_all json_ws w' \<Longrightarrow>
    members_text ((k, v) # kvs) (json_quote k @ CHR '':'' # w @ s @ CHR '','' # w' @ t)"

definition starts :: "string \<Rightarrow> bool" where
  "starts s \<longleftrightarrow> (\<exists>c t. s = c # t \<and> \<not> json_ws c \<and> c \<noteq> CHR '']'' \<and> c \<noteq> CHR ''}'')"

lemma starts_append: "starts s \<Longrightarrow> starts (s @ r)"
  by (auto simp: starts_def)

lemma starts_skip: "starts s \<Longrightarrow> skip_ws (s @ r) = s @ r"
  by (auto simp: starts_def skip_ws_head)

lemma starts_open: "starts s \<Longrightarrow> \<not> startswith (s @ r) '']'' \<and> \<not> startswith (s @ r) ''}''"
  by (auto simp: starts_def startswith_def)

lemma skip_ws_starts: "list_all json_ws w \<Longrightarrow> starts s \<Longrightarrow> skip_ws (w @ s @ r) = s @ r"
  by (simp add: skip_ws_append starts_skip)

lemma skip_ws_char: "list_all json_ws w \<Longrightarrow> \<not> json_ws c \<Longrightarrow> skip_ws (w @ c # r) = c # r"
  by (simp add: skip_ws_append skip_ws_head)

lemma atom_starts: "writable v \<Longrightarrow> \<not> is_list v \<Longrightarrow> \<not> is_dict v \<Longrightarrow> starts (dumps_compact v)"
proof (cases v)
  case (JInt i)
  have n: "\<not> is_digit CHR '']''" "\<not> is_digit CHR ''}''" "\<And>c. is_digit c \<Longrightarrow> \<not> json_ws c"
    by (auto simp: is_digit_def json_ws_def)
  obtain c cs where c: "nat_str (nat i) = c # cs" "is_digit c"
    using nat_str_ok[of "nat i"] by (cases "nat_str (nat i)") auto
  show ?thesis using JInt c n by (auto simp: starts_def str_int_def json_ws_def)
qed (auto simp: starts_def json_quote_def json_ws_def is_list_def is_dict_def)

definition reads :: "json \<Rightarrow> string \<Rightarrow> bool" where
  "reads v s \<longleftrightarrow> starts s \<and> cost v \<le> length s \<and>
     (\<forall>n r. cost v \<le> n \<longrightarrow> number_end r \<longrightarrow> scan_value n (s @ r) = Some (v, r))"

definition reads_items :: "json list \<Rightarrow> string \<Rightarrow> bool" where
  "reads_items vs s \<longleftrightarrow> starts s \<and> sum_list (map (\<lambda>v. Suc (cost v)) vs) \<le> length s \<and>
     (\<forall>n r. sum_list (map (\<lambda>v. Suc (cost v)) vs) \<le> n \<longrightarrow> scan_items n (s @ r) = Some (vs, r))"

definition reads_members :: "(string \<times> json) list \<Rightarrow> string \<Rightarrow> bool" where
  "reads_members kvs s \<longleftrightarrow> starts s \<and> sum_list (map (\<lambda>(k, v). Suc (cost v)) kvs) \<le> length s \<and>
     (\<forall>n r. sum_list (map (\<lambda>(k, v). Suc (cost v)) kvs) \<le> n \<longrightarrow> scan_members n (s @ r) = Some (kvs, r))"

lemma number_end_ws_char: "list_all json_ws w \<Longrightarrow> c \<in> set ''],}'' \<Longrightarrow> number_end (w @ c # r)"
  by (cases w) (auto simp: number_end_def json_ws_def is_digit_def)

lemma reads_atom: "writable v \<Longrightarrow> \<not> is_list v \<Longrightarrow> \<not> is_dict v \<Longrightarrow> reads v (dumps_compact v)"
  using atom_starts[of v] cost_le[of v "'',''" "'':''"] reads_back_all[OF json_seps_compact(1), of v]
  by (simp add: reads_def reads_back_def)

lemma reads_list:
  assumes "reads_items vs t" "list_all json_ws w"
  shows "reads (JList vs) (CHR ''['' # w @ t)"
proof -
  have "scan_value n (CHR ''['' # (w @ t) @ r) = Some (JList vs, r)" if n: "cost (JList vs) \<le> n" for n r
  proof -
    obtain m where m: "n = Suc m" using n by (cases n) auto
    have "scan_items m (t @ r) = Some (vs, r)" using assms(1) n m by (simp add: reads_items_def)
    then show ?thesis using assms starts_open[of t r]
      by (simp add: m reads_items_def skip_ws_starts)
  qed
  then show ?thesis using assms by (auto simp: reads_def reads_items_def starts_def[of "_ # _"] json_ws_def)
qed

lemma reads_obj:
  assumes "reads_members kvs t" "list_all json_ws w"
  shows "reads (JObj kvs) (CHR ''{'' # w @ t)"
proof -
  have "scan_value n (CHR ''{'' # (w @ t) @ r) = Some (JObj kvs, r)" if n: "cost (JObj kvs) \<le> n" for n r
  proof -
    obtain m where m: "n = Suc m" using n by (cases n) auto
    have "scan_members m (t @ r) = Some (kvs, r)" using assms(1) n m by (simp add: reads_members_def)
    then show ?thesis using assms starts_open[of t r]
      by (simp add: m reads_members_def skip_ws_starts)
  qed
  then show ?thesis using assms by (auto simp: reads_def reads_members_def starts_def[of "_ # _"] json_ws_def)
qed

lemma reads_nil: "list_all json_ws w \<Longrightarrow> reads (JList []) (CHR ''['' # w @ '']'') \<and> reads (JObj []) (CHR ''{'' # w @ ''}'')"
  by (auto simp: reads_def starts_def json_ws_def startswith_def skip_ws_char not_ws dest!: Suc_le_D)

lemma reads_items_one:
  assumes "reads v s" "list_all json_ws w"
  shows "reads_items [v] (s @ w @ '']'')"
proof -
  have "scan_items n (s @ w @ CHR '']'' # r) = Some ([v], r)" if n: "Suc (cost v) \<le> n" for n r
  proof -
    obtain m where m: "n = Suc m" "cost v \<le> m" using n by (cases n) auto
    have "scan_value m (s @ w @ CHR '']'' # r) = Some (v, w @ CHR '']'' # r)"
      using assms m number_end_ws_char[OF assms(2)] by (simp add: reads_def)
    then show ?thesis using assms(2) by (simp add: m skip_ws_char not_ws)
  qed
  then show ?thesis using assms(1) by (auto simp: reads_items_def reads_def intro: starts_append)
qed

lemma reads_items_more:
  assumes "reads v s" "reads_items vs t" "list_all json_ws w"
  shows "reads_items (v # vs) (s @ CHR '','' # w @ t)"
proof -
  have "scan_items n (s @ CHR '','' # w @ t @ r) = Some (v # vs, r)"
    if n: "sum_list (map (\<lambda>v. Suc (cost v)) (v # vs)) \<le> n" for n r
  proof -
    obtain m where m: "n = Suc m" "cost v \<le> m" "sum_list (map (\<lambda>v. Suc (cost v)) vs) \<le> m" using n by (cases n) auto
    have "scan_value m (s @ CHR '','' # w @ t @ r) = Some (v, CHR '','' # w @ t @ r)"
      using assms m number_ends(1) by (simp add: reads_def)
    moreover have "scan_items m (t @ r) = Some (vs, r)" using assms(2) m by (simp add: reads_items_def)
    ultimately show ?thesis using assms by (simp add: m skip_ws_head not_ws skip_ws_starts reads_items_def)
  qed
  then show ?thesis using assms by (auto simp: reads_items_def reads_def intro: starts_append)
qed

lemma quote_starts: "starts (json_quote k @ r)"
  by (simp add: starts_def json_quote_def json_ws_def)

lemma reads_members_one:
  assumes "reads v s" "list_all json_ws w" "list_all json_ws w'"
  shows "reads_members [(k, v)] (json_quote k @ CHR '':'' # w @ s @ w' @ ''}'')"
proof -
  have "scan_members n (json_quote k @ CHR '':'' # w @ s @ w' @ CHR ''}'' # r) = Some ([(k, v)], r)" if n: "Suc (cost v) \<le> n" for n r
  proof -
    obtain m where m: "n = Suc m" "cost v \<le> m" using n by (cases n) auto
    have "scan_value m (s @ w' @ CHR ''}'' # r) = Some (v, w' @ CHR ''}'' # r)"
      using assms m number_end_ws_char[OF assms(3)] by (simp add: reads_def)
    then show ?thesis using assms
      by (simp add: m json_quote_def scan_quoted skip_ws_head skip_ws_starts skip_ws_char not_ws reads_def)
  qed
  then show ?thesis using assms(1) by (auto simp: reads_members_def reads_def intro: quote_starts)
qed

lemma reads_members_more:
  assumes "reads v s" "reads_members kvs t" "list_all json_ws w" "list_all json_ws w'"
  shows "reads_members ((k, v) # kvs) (json_quote k @ CHR '':'' # w @ s @ CHR '','' # w' @ t)"
proof -
  have "scan_members n (json_quote k @ CHR '':'' # w @ s @ CHR '','' # w' @ t @ r) = Some ((k, v) # kvs, r)"
    if n: "sum_list (map (\<lambda>(k, v). Suc (cost v)) ((k, v) # kvs)) \<le> n" for n r
  proof -
    obtain m where m: "n = Suc m" "cost v \<le> m" "sum_list (map (\<lambda>(k, v). Suc (cost v)) kvs) \<le> m" using n by (cases n) auto
    have "scan_value m (s @ CHR '','' # w' @ t @ r) = Some (v, CHR '','' # w' @ t @ r)"
      using assms m number_ends(1) by (simp add: reads_def)
    moreover have "scan_members m (t @ r) = Some (kvs, r)" using assms(2) m by (simp add: reads_members_def)
    ultimately show ?thesis using assms
      by (simp add: m json_quote_def scan_quoted skip_ws_head skip_ws_starts not_ws reads_def reads_members_def)
  qed
  then show ?thesis using assms by (auto simp: reads_members_def reads_def intro: quote_starts)
qed

lemma text_reads:
  "(json_text v s \<longrightarrow> reads v s) \<and> (items_text vs t \<longrightarrow> reads_items vs t) \<and> (members_text kvs u \<longrightarrow> reads_members kvs u)"
  by (rule json_text_items_text_members_text.induct)
    (auto intro: reads_atom reads_nil[THEN conjunct1] reads_nil[THEN conjunct2] reads_list reads_obj reads_items_one reads_items_more
       reads_members_one reads_members_more)

text \<open>Every text of a value, with white space around it, is read back as the value.\<close>

lemma loads_text:
  assumes "json_text v s" "wf_json v" "list_all json_ws w" "list_all json_ws w'"
  shows "json_loads (w @ s @ w') = Inr v"
proof -
  have r: "reads v s" using text_reads assms(1) by blast
  then have "scan_value (Suc (length (w @ s @ w'))) (s @ w') = Some (v, w')"
    using number_end_ws[OF assms(4)] by (simp add: reads_def del: scan_value.simps)
  then have "parse_json (w @ s @ w') = Some v"
    using r assms(3,4) by (simp add: parse_json_def skip_ws_starts skip_ws_all reads_def del: scan_value.simps)
  then show ?thesis using assms(2) by (simp add: json_loads_def dictify_id)
qed

subsection \<open>Indented texts are texts of the value\<close>

definition plain :: "string \<Rightarrow> bool" where
  "plain s \<longleftrightarrow> list_all (\<lambda>c. (of_char c :: nat) < 127) s"

fun plain_json :: "json \<Rightarrow> bool" where
  "plain_json (JStr s) \<longleftrightarrow> plain s"
| "plain_json (JList vs) \<longleftrightarrow> list_all plain_json vs"
| "plain_json (JObj kvs) \<longleftrightarrow> list_all (\<lambda>(k, v). plain k \<and> plain_json v) kvs"
| "plain_json _ \<longleftrightarrow> True"

lemma plain_ascii: "plain s \<Longrightarrow> ascii s"
  by (auto simp: plain_def ascii_def list_all_iff)

lemma quote_plain: "plain s \<Longrightarrow> json_quote_ascii s = json_quote s"
proof -
  assume s: "plain s"
  have "map ascii_esc (map (\<lambda>c. [c]) s) = map json_esc s" using s by (auto simp: ascii_esc_def plain_def list_all_iff)
  then show ?thesis using chars_of_ascii[OF plain_ascii[OF s] order_refl] by (simp only: json_quote_ascii_def json_quote_def)
qed

lemma indent_ws [simp]: "list_all json_ws (indent_at n)"
  by (simp add: indent_at_def json_ws_def list_all_iff)

lemma items_join:
  "vs \<noteq> [] \<Longrightarrow> (\<And>v. v \<in> set vs \<Longrightarrow> json_text v (f v)) \<Longrightarrow> list_all json_ws w \<Longrightarrow> list_all json_ws w' \<Longrightarrow>
    items_text vs (join ('','' @ w) (map f vs) @ w' @ '']'')"
proof (induction vs)
  case (Cons v vs)
  show ?case
  proof (cases vs)
    case Nil
    then show ?thesis using Cons.prems items_one by auto
  next
    case (Cons u us)
    have "items_text (v # vs) (f v @ CHR '','' # w @ (join ('','' @ w) (map f vs) @ w' @ '']''))"
      using Cons Cons.IH Cons.prems by (intro items_more) auto
    then show ?thesis using Cons by simp
  qed
qed simp

lemma members_join:
  "kvs \<noteq> [] \<Longrightarrow> (\<And>k v. (k, v) \<in> set kvs \<Longrightarrow> json_text v (f v) \<and> q k = json_quote k) \<Longrightarrow> list_all json_ws w \<Longrightarrow> list_all json_ws w' \<Longrightarrow>
    members_text kvs (join ('','' @ w) (map (\<lambda>(k, v). q k @ '': '' @ f v) kvs) @ w' @ ''}'')"
proof (induction kvs)
  case (Cons p kvs)
  obtain k v where p: "p = (k, v)" by (cases p)
  have sp: "list_all json_ws '' ''" by (simp add: json_ws_def)
  have kv: "json_text v (f v)" "q k = json_quote k" using Cons.prems p by auto
  show ?case
  proof (cases kvs)
    case Nil
    then show ?thesis using members_one[OF kv(1) sp Cons.prems(4)] kv(2) by (simp add: p)
  next
    case (Cons u us)
    have "members_text ((k, v) # kvs) (json_quote k @ CHR '':'' # '' '' @ f v @ CHR '','' # w @
        (join ('','' @ w) (map (\<lambda>(k, v). q k @ '': '' @ f v) kvs) @ w' @ ''}''))"
      using Cons Cons.IH Cons.prems kv(1) sp by (intro members_more) auto
    then show ?thesis using Cons kv(2) by (simp add: p)
  qed
qed simp

lemma dumps_indent_text: "writable v \<Longrightarrow> plain_json v \<Longrightarrow> json_text v (dumps_indent level v)"
proof (induction v arbitrary: level)
  case (JList vs)
  have "items_text vs (join ('','' @ indent_at (Suc level)) (map (dumps_indent (Suc level)) vs) @ indent_at level @ '']'')" if "vs \<noteq> []"
    using JList that by (intro items_join indent_ws) (auto simp: list_all_iff)
  then show ?case using list[of vs _ "indent_at (Suc level)"] list_nil[of "[]"] by auto
next
  case (JObj kvs)
  have "members_text kvs (join ('','' @ indent_at (Suc level)) (map (\<lambda>(k, v). json_quote_ascii k @ '': '' @ dumps_indent (Suc level) v) kvs) @
      indent_at level @ ''}'')" if "kvs \<noteq> []"
    using JObj that by (intro members_join indent_ws) (fastforce simp: list_all_iff quote_plain)+
  then show ?case using obj[of kvs _ "indent_at (Suc level)"] obj_nil[of "[]"] by auto
next
  case (JStr s)
  then show ?case using atom[of "JStr s"] by (simp add: quote_plain is_list_def is_dict_def)
next
  case (JInt i)
  then show ?case using atom[of "JInt i"] by (simp add: is_list_def is_dict_def)
next
  case (JBool b)
  then show ?case using atom[of "JBool b"] by (simp add: is_list_def is_dict_def)
next
  case JNull
  then show ?case using atom[of JNull] by (simp add: is_list_def is_dict_def)
qed simp

lemma loads_dumps2: "writable v \<Longrightarrow> plain_json v \<Longrightarrow> wf_json v \<Longrightarrow> list_all json_ws w \<Longrightarrow> json_loads (dumps2 v @ w) = Inr v"
  using loads_text[OF dumps_indent_text, of v "[]" w] by (simp add: dumps2_def)

subsection \<open>Indented texts can be read from a file\<close>

definition clean :: "string \<Rightarrow> bool" where
  "clean s \<longleftrightarrow> ascii s \<and> CHR 0x0D \<notin> set s"

lemma clean_append [simp]: "clean (s @ t) \<longleftrightarrow> clean s \<and> clean t"
  by (auto simp: clean_def)

lemma clean_join: "clean sep \<Longrightarrow> list_all clean xs \<Longrightarrow> clean (join sep xs)"
  by (induction sep xs rule: join.induct) (auto simp: clean_def)

lemma clean_indent: "clean (indent_at n)"
  by (auto simp: clean_def indent_at_def ascii_def list_all_iff)

lemma clean_quote: "plain s \<Longrightarrow> clean (json_quote_ascii s)"
  using ascii_dumps[of "'',''" "'':''" "JStr s"] dumps_no_cr[of "JStr s" "'',''" "'':''"] plain_ascii[of s]
  by (simp add: clean_def quote_plain)

lemma clean_lits: "clean ''[]''" "clean ''{}''" "clean ''[''" "clean '']''" "clean ''{''" "clean ''}''" "clean '',''" "clean '': ''" "clean newline"
  by (simp_all add: clean_def)

lemma clean_dumps_indent: "writable v \<Longrightarrow> plain_json v \<Longrightarrow> clean (dumps_indent level v)"
proof (induction v arbitrary: level)
  case (JList vs)
  have "clean (join ('','' @ indent_at (Suc level)) (map (dumps_indent (Suc level)) vs))"
    using JList by (intro clean_join) (auto simp: clean_lits clean_indent list_all_iff simp del: append_Cons append_Nil)
  then show ?case by (simp add: clean_lits clean_indent del: append_Cons append_Nil)
next
  case (JObj kvs)
  have "clean (join ('','' @ indent_at (Suc level)) (map (\<lambda>(k, v). json_quote_ascii k @ '': '' @ dumps_indent (Suc level) v) kvs))"
    using JObj by (intro clean_join) (fastforce simp: clean_lits clean_indent clean_quote list_all_iff simp del: append_Cons append_Nil)+
  then show ?case by (simp add: clean_lits clean_indent del: append_Cons append_Nil)
next
  case (JInt i)
  then show ?case using visible_ascii[OF str_int_visible[of i]] str_int_visible[of i]
    by (auto simp: clean_def list_all_iff visible_def)
next
  case (JBool b)
  then show ?case by (cases b) (simp_all add: clean_def)
qed (simp_all add: clean_quote, simp add: clean_def)

lemma read_dumps2:
  assumes "writable v" "plain_json v" "wf_json v" "w \<in> {[], newline}"
  shows "bindR (decode_text (dumps2 v @ w)) json_loads = Inr v"
proof -
  have "clean (dumps2 v @ w)" using clean_dumps_indent[OF assms(1,2)] assms(4) clean_lits(9) by (auto simp: dumps2_def clean_def)
  then have "decode_text (dumps2 v @ w) = Inr (dumps2 v @ w)" by (intro decode_text_ascii) (simp_all add: clean_def)
  moreover have "list_all json_ws w" using assms(4) by (auto simp: json_ws_def)
  ultimately show ?thesis using loads_dumps2[OF assms(1-3)] by simp
qed

end
