(* ===== verification/Installer_Keys.thy ===== *)
theory Installer_Keys
  imports Py_Proc Py_JsonOut Updater_ManifestSpec
begin

text \<open>
  \<open>tool/release/installer_key_evidence.py\<close>: evidence that the built installer was packed from payloads that carry
  the update feed's public keys. \<open>record\<close> writes it after the build, \<open>verify\<close> checks it before publication.
\<close>

definition KEY_PAYLOADS :: "string list" where
  "KEY_PAYLOADS = [''data/app.so'', ''updater/plug_update_client.exe'']"

definition file_digest :: "files \<Rightarrow> string \<Rightarrow> string res" where
  "file_digest fs path = bindR (read_file fs path) (\<lambda>b. Inr (sha256_hex b))"

definition key_length_ok :: "string \<Rightarrow> bool res" where
  "key_length_ok key = bindR (of_option (ValueErr ''binascii.Error'') (b64decode True key)) (\<lambda>b. Inr (length b = 32))"

text \<open>\<open>any(... for key in keys)\<close>: a key that is not base64 raises, unless a key of another length comes before it.\<close>

fun any_bad_key :: "string list \<Rightarrow> bool res" where
  "any_bad_key [] = Inr False"
| "any_bad_key (k # ks) = bindR (key_length_ok k) (\<lambda>good. if good then any_bad_key ks else Inr True)"

definition payload_hash :: "files \<Rightarrow> string \<Rightarrow> string list \<Rightarrow> string \<Rightarrow> (string \<times> json) res" where
  "payload_hash fs bundle keys name =
     bindR (read_file fs (path_join bundle name)) (\<lambda>data.
     if list_ex (\<lambda>key. \<not> contains data key) keys
       then Inl (RuntimeErr (name @ '' is missing AUTO_UPDATE_FEED_PUBLIC_KEY''))
     else Inr (name, JStr (sha256_hex data)))"

definition inspect_payload :: "files \<Rightarrow> string \<Rightarrow> string \<Rightarrow> json res" where
  "inspect_payload fs bundle keys = (let ks = csv_keys keys in
     if ks = [] then Inl (ValueErr ''Expected base64 Ed25519 public keys'')
     else bindR (any_bad_key ks) (\<lambda>bad.
       if bad then Inl (ValueErr ''Expected base64 Ed25519 public keys'')
       else bindR (mapR (payload_hash fs bundle ks) KEY_PAYLOADS) (\<lambda>hashes. Inr (JObj hashes))))"

definition evidence_json :: "string \<Rightarrow> json \<Rightarrow> json" where
  "evidence_json d payloads = JObj [(''format'', JInt 1), (''installerSha256'', JStr d), (''payloads'', payloads)]"

definition evidence_path :: "string \<Rightarrow> string" where
  "evidence_path installer = with_suffix installer ''.keys.json''"

definition record_evidence :: "string \<Rightarrow> string \<Rightarrow> string \<Rightarrow> json \<Rightarrow> unit pio" where
  "record_evidence installer bundle keys before =
     bindI (checkI (\<lambda>w. inspect_payload (pw_files w) bundle keys)) (\<lambda>after.
     bindI (guardI (\<not> py_eq before after) (RuntimeErr ''Key-bearing payload changed during installer compilation'')) (\<lambda>_.
     bindI (checkI (\<lambda>w. file_digest (pw_files w) installer)) (\<lambda>d.
     write_bytes (evidence_path installer) (dumps2 (evidence_json d after) @ newline))))"

definition check_evidence :: "files \<Rightarrow> string \<Rightarrow> string \<Rightarrow> string \<Rightarrow> unit res" where
  "check_evidence fs installer bundle keys =
     bindR (read_file fs (evidence_path installer)) (\<lambda>b.
     bindR (decode_text b) (\<lambda>t.
     bindR (json_loads t) (\<lambda>evidence.
     bindR (dget evidence ''format'') (\<lambda>format.
     if \<not> py_eq format (JInt 1) then Inl (ValueErr ''Installer/payload evidence mismatch'')
     else bindR (dget evidence ''installerSha256'') (\<lambda>d.
       bindR (file_digest fs installer) (\<lambda>actual.
       if \<not> py_eq d (JStr actual) then Inl (ValueErr ''Installer/payload evidence mismatch'')
       else bindR (dget evidence ''payloads'') (\<lambda>payloads.
         bindR (inspect_payload fs bundle keys) (\<lambda>now.
         if \<not> py_eq payloads now then Inl (ValueErr ''Installer/payload evidence mismatch'') else Inr ()))))))))"

text \<open>\<open>verify\<close>: the exceptions it handles become one \<open>RuntimeError\<close>; others pass through.\<close>

definition verify_evidence :: "files \<Rightarrow> string \<Rightarrow> string \<Rightarrow> string \<Rightarrow> unit res" where
  "verify_evidence fs installer bundle keys = (case check_evidence fs installer bundle keys of
     Inr u \<Rightarrow> Inr u
   | Inl e \<Rightarrow> (case e of
       FileNotFoundErr \<Rightarrow> Inl (RuntimeErr ''Missing or invalid installer key evidence; rebuild with build_installer.py'')
     | FileExistsErr \<Rightarrow> Inl (RuntimeErr ''Missing or invalid installer key evidence; rebuild with build_installer.py'')
     | OSErr _ \<Rightarrow> Inl (RuntimeErr ''Missing or invalid installer key evidence; rebuild with build_installer.py'')
     | ValueErr _ \<Rightarrow> Inl (RuntimeErr ''Missing or invalid installer key evidence; rebuild with build_installer.py'')
     | TypeErr \<Rightarrow> Inl (RuntimeErr ''Missing or invalid installer key evidence; rebuild with build_installer.py'')
     | AttributeErr \<Rightarrow> Inl (RuntimeErr ''Missing or invalid installer key evidence; rebuild with build_installer.py'')
     | _ \<Rightarrow> Inl e))"

subsection \<open>Evidence and what it proves\<close>

lemma any_bad_key_ok:
  "any_bad_key ks = Inr False \<longleftrightarrow> (\<forall>k \<in> set ks. \<exists>kb. b64decode True k = Some kb \<and> length kb = 32)"
  by (induction ks) (auto simp: key_length_ok_def ok_iff)

lemma inspect_payload_ok:
  "inspect_payload fs bundle keys = Inr v \<longleftrightarrow> csv_keys keys \<noteq> [] \<and>
     (\<forall>k \<in> set (csv_keys keys). \<exists>kb. b64decode True k = Some kb \<and> length kb = 32) \<and>
     (\<exists>a c. fs (path_join bundle ''data/app.so'') = Some a \<and> fs (path_join bundle ''updater/plug_update_client.exe'') = Some c \<and>
       (\<forall>k \<in> set (csv_keys keys). contains a k \<and> contains c k) \<and>
       v = JObj [(''data/app.so'', JStr (sha256_hex a)), (''updater/plug_update_client.exe'', JStr (sha256_hex c))])"
proof -
  have p: "payload_hash fs bundle ks name = Inr y \<longleftrightarrow>
      (\<exists>b. fs (path_join bundle name) = Some b \<and> (\<forall>k \<in> set ks. contains b k) \<and> y = (name, JStr (sha256_hex b)))" for ks name y
    by (auto simp: payload_hash_def read_file_def ok_iff list_ex_iff)
  have b: "(if b then Inl e else m) = Inr v \<longleftrightarrow> \<not> b \<and> m = Inr v" for b :: bool and e :: exn and m :: "json res"
    by auto
  show ?thesis
    unfolding inspect_payload_def Let_def guard_ok bindR_ok KEY_PAYLOADS_def mapR.simps p
    using any_bad_key_ok[of "csv_keys keys"] by auto
qed

lemma sha256_plain: "plain (sha256_hex b)"
  using sha256_hex_shape[of b] by (auto simp: is_sha256_def plain_def list_all_iff is_hex_def is_digit_def Let_def)

lemma evidence_reads:
  assumes "inspect_payload fs bundle keys = Inr v"
  shows "bindR (decode_text (dumps2 (evidence_json (sha256_hex b) v) @ newline)) json_loads = Inr (evidence_json (sha256_hex b) v)"
  using assms sha256_plain unfolding inspect_payload_ok
  by (intro read_dumps2) (auto simp: evidence_json_def plain_def nat_str.simps)

lemma rsplit_no_dot: "CHR ''.'' \<notin> set (rsplit_last ''.'' s)"
proof -
  have "CHR ''.'' \<notin> set a" if "str_cut ''.'' t = Some (a, b)" for t a b
    using that by (induction t arbitrary: a) (auto simp: startswith_def split: if_splits)
  moreover have "CHR ''.'' \<notin> set t" if "str_cut ''.'' t = None" for t
    using that by (auto simp: str_cut_None contains_iff) (metis append_Cons append_Nil split_list)
  ultimately show ?thesis by (auto simp: rsplit_last_def split: option.splits) (metis set_rev)
qed

lemma suffix_of_end: "\<exists>q. p = q @ suffix_of p"
proof -
  have t: "\<exists>q. p = q @ path_tail p"
    unfolding path_tail_def by (metis rev_append rev_rev_ident takeWhile_dropWhile_id)
  have "\<exists>q. n = q @ ''.'' @ rsplit_last ''.'' n" if n: "contains n ''.''" for n
  proof -
    have "contains (rev n) ''.''" using n unfolding contains_iff by (metis rev_append rev_singleton_conv append_assoc)
    then obtain a b where "str_cut ''.'' (rev n) = Some (a, b)" using str_cut_None[of "''.''" "rev n"] by (cases "str_cut ''.'' (rev n)") auto
    moreover from str_cut_Some[OF this] have "n = rev b @ ''.'' @ rev a" by (metis append_assoc rev_append rev_rev_ident rev_singleton_conv)
    ultimately show ?thesis by (auto simp: rsplit_last_def)
  qed
  then have e: "\<exists>q. path_tail p = q @ suffix_of p" if "suffix_of p \<noteq> []"
    using that by (fastforce simp: suffix_of_def Let_def split: if_splits)
  show ?thesis
  proof (cases "suffix_of p = []")
    case False
    then obtain q q' where "path_tail p = q @ suffix_of p" "p = q' @ path_tail p" using e t by blast
    then have "p = (q' @ q) @ suffix_of p" by simp
    then show ?thesis by blast
  qed simp
qed

lemma evidence_path_new: "evidence_path p \<noteq> p" "evidence_path p \<noteq> path_join bundle ''data/app.so''"
    "evidence_path p \<noteq> path_join bundle ''updater/plug_update_client.exe''"
proof -
  obtain q where q: "p = q @ suffix_of p" using suffix_of_end by blast
  then have "evidence_path p = q @ ''.keys.json''"
    unfolding evidence_path_def with_suffix_def by (metis append_eq_conv_conj diff_add_inverse2 length_append)
  moreover have "suffix_of p \<noteq> ''.keys.json''"
    using rsplit_no_dot[of "path_tail p"] by (auto simp: suffix_of_def Let_def)
  ultimately show "evidence_path p \<noteq> p" using q by (metis same_append_eq)
  have "last (evidence_path p) = CHR ''n''" by (simp add: evidence_path_def with_suffix_def)
  then show "evidence_path p \<noteq> path_join bundle ''data/app.so''" "evidence_path p \<noteq> path_join bundle ''updater/plug_update_client.exe''"
    by (auto simp: path_join_def)
qed

subsection \<open>The properties\<close>

lemma record_evidence_ok:
  assumes "record_evidence installer bundle keys before w = (Inr (), w')"
  shows "\<exists>v content. inspect_payload (pw_files w) bundle keys = Inr v \<and> py_eq before v \<and> pw_files w installer = Some content \<and>
    pw_files w' = (pw_files w)(evidence_path installer \<mapsto> dumps2 (evidence_json (sha256_hex content) v) @ newline)"
  using assms unfolding record_evidence_def ok_iff write_bytes_def file_digest_def read_file_def by (auto simp: ok_iff)

lemma evidence_round:
  assumes "record_evidence installer bundle keys before w = (Inr (), w')"
  shows "verify_evidence (pw_files w') installer bundle keys = Inr ()"
proof -
  obtain v content where v: "inspect_payload (pw_files w) bundle keys = Inr v" "pw_files w installer = Some content"
    "pw_files w' = (pw_files w)(evidence_path installer \<mapsto> dumps2 (evidence_json (sha256_hex content) v) @ newline)"
    using record_evidence_ok[OF assms] by blast
  have same: "pw_files w' installer = Some content" "inspect_payload (pw_files w') bundle keys = Inr v"
    using v evidence_path_new[symmetric] unfolding inspect_payload_ok by simp_all
  obtain t where "decode_text (dumps2 (evidence_json (sha256_hex content) v) @ newline) = Inr t" "json_loads t = Inr (evidence_json (sha256_hex content) v)"
    using evidence_reads[OF v(1), of content] unfolding bindR_ok by blast
  moreover have "py_eq v v" using v(1) unfolding inspect_payload_ok by (auto simp: py_eq.simps)
  ultimately have "check_evidence (pw_files w') installer bundle keys = Inr ()"
    using same by (simp add: check_evidence_def v(3) read_file_def file_digest_def evidence_json_def dget_def py_eq_str)
  then show ?thesis by (simp add: verify_evidence_def)
qed

text \<open>
  C19. After \<open>record\<close> returns, \<open>verify\<close> accepts the same installer, bundle and keys: the evidence that the build writes
  is the evidence that the publication gate reads, and writing it touches none of the files it describes.
\<close>

theorem recorded_evidence_verifies:
  assumes "record_evidence installer bundle keys before w = (Inr (), w')"
  shows "verify_evidence (pw_files w') installer bundle keys = Inr ()"
  using assms by (rule evidence_round)

text \<open>
  C20. If \<open>verify\<close> accepts, every trusted key is a 32-byte key in base64 and occurs in both payloads of the bundle, and the
  evidence on disk names the digest of the installer and of both payloads as they are now.
\<close>

theorem verified_evidence_sound:
  assumes "verify_evidence fs installer bundle keys = Inr ()"
  shows "\<exists>content a c evidence. fs installer = Some content \<and> fs (path_join bundle ''data/app.so'') = Some a \<and>
    fs (path_join bundle ''updater/plug_update_client.exe'') = Some c \<and> csv_keys keys \<noteq> [] \<and>
    (\<forall>k \<in> set (csv_keys keys). contains a k \<and> contains c k \<and> (\<exists>kb. b64decode True k = Some kb \<and> length kb = 32)) \<and>
    bindR (read_file fs (evidence_path installer)) (\<lambda>b. bindR (decode_text b) json_loads) = Inr evidence \<and>
    dget evidence ''installerSha256'' = Inr (JStr (sha256_hex content)) \<and>
    (\<exists>p. dget evidence ''payloads'' = Inr p \<and>
      py_eq p (JObj [(''data/app.so'', JStr (sha256_hex a)), (''updater/plug_update_client.exe'', JStr (sha256_hex c))]))"
proof -
  have "check_evidence fs installer bundle keys = Inr ()"
    using assms by (auto simp: verify_evidence_def split: sum.splits exn.splits)
  then obtain b t evidence d actual p now where
    e: "read_file fs (evidence_path installer) = Inr b" "decode_text b = Inr t" "json_loads t = Inr evidence"
    "dget evidence ''installerSha256'' = Inr d" "file_digest fs installer = Inr actual" "py_eq d (JStr actual)"
    "dget evidence ''payloads'' = Inr p" "inspect_payload fs bundle keys = Inr now" "py_eq p now"
    unfolding check_evidence_def bindR_ok guard_ok by blast
  obtain content where c: "fs installer = Some content" "actual = sha256_hex content"
    using e(5) by (auto simp: file_digest_def read_file_def ok_iff)
  have "bindR (read_file fs (evidence_path installer)) (\<lambda>b. bindR (decode_text b) json_loads) = Inr evidence"
    using e by simp
  then show ?thesis using e(4,6,7,8,9) c unfolding inspect_payload_ok py_eq_str by blast
qed

definition demo_bundle :: files where
  "demo_bundle = [''out/setup.exe'' \<mapsto> ''MZ'', ''b/data/app.so'' \<mapsto> demo_key, ''b/updater/plug_update_client.exe'' \<mapsto> demo_key]"

definition demo_bundle_world :: pworld where
  "demo_bundle_world = \<lparr>pw_files = demo_bundle, pw_trace = [], pw_log = [], pw_env = Map.empty\<rparr>"

lemma demo_recorded: "\<exists>v w'. record_evidence ''out/setup.exe'' ''b'' demo_key v demo_bundle_world = (Inr (), w')"
proof -
  have k: "csv_keys demo_key = [demo_key]" using demo_key_csv by (simp add: demo_key_def plain_scheme_def)
  have c: "contains demo_key demo_key" unfolding contains_iff by (metis append_Nil append_Nil2)
  let ?v = "JObj [(''data/app.so'', JStr (sha256_hex demo_key)), (''updater/plug_update_client.exe'', JStr (sha256_hex demo_key))]"
  have v: "inspect_payload demo_bundle ''b'' demo_key = Inr ?v"
    unfolding inspect_payload_ok using k c demo_key_decodes by (auto simp: demo_bundle_def path_join_def)
  have f: "demo_bundle ''out/setup.exe'' = Some ''MZ''" by (simp add: demo_bundle_def)
  have "py_eq ?v ?v" by (simp add: py_eq.simps)
  then have "record_evidence ''out/setup.exe'' ''b'' demo_key ?v demo_bundle_world =
      (Inr (), demo_bundle_world\<lparr>pw_files := demo_bundle(evidence_path ''out/setup.exe'' \<mapsto> dumps2 (evidence_json (sha256_hex ''MZ'') ?v) @ newline)\<rparr>)"
    using v f by (simp add: record_evidence_def io_defs write_bytes_def file_digest_def read_file_def demo_bundle_world_def)
  then show ?thesis by blast
qed

theorem recorded_evidence_verifies_witness:
  "\<exists>v w'. record_evidence ''out/setup.exe'' ''b'' demo_key v demo_bundle_world = (Inr (), w') \<and>
    verify_evidence (pw_files w') ''out/setup.exe'' ''b'' demo_key = Inr ()"
proof -
  obtain v w' where r: "record_evidence ''out/setup.exe'' ''b'' demo_key v demo_bundle_world = (Inr (), w')" using demo_recorded by blast
  from recorded_evidence_verifies[OF r] r show ?thesis by blast
qed

theorem verified_evidence_sound_witness:
  "\<exists>fs content a c evidence. verify_evidence fs ''out/setup.exe'' ''b'' demo_key = Inr () \<and>
    fs ''out/setup.exe'' = Some content \<and> fs (path_join ''b'' ''data/app.so'') = Some a \<and>
    fs (path_join ''b'' ''updater/plug_update_client.exe'') = Some c \<and> csv_keys demo_key \<noteq> [] \<and>
    (\<forall>k \<in> set (csv_keys demo_key). contains a k \<and> contains c k \<and> (\<exists>kb. b64decode True k = Some kb \<and> length kb = 32)) \<and>
    bindR (read_file fs (evidence_path ''out/setup.exe'')) (\<lambda>b. bindR (decode_text b) json_loads) = Inr evidence \<and>
    dget evidence ''installerSha256'' = Inr (JStr (sha256_hex content))"
proof -
  obtain v w' where "record_evidence ''out/setup.exe'' ''b'' demo_key v demo_bundle_world = (Inr (), w')" using demo_recorded by blast
  then have r: "verify_evidence (pw_files w') ''out/setup.exe'' ''b'' demo_key = Inr ()" by (rule evidence_round)
  from verified_evidence_sound[OF r] r show ?thesis by blast
qed

end
