(* ===== verification/Script_Utils.thy ===== *)
theory Script_Utils
  imports Py_Proc Py_JsonDict "HOL-Library.AList"
begin

text \<open>
  \<open>tool/py/script_utils.py\<close>: console messages, running programs, environment files and the classification of ODBC
  drivers, shared by the command line tools. Whether the output is a terminal is the argument \<open>tty\<close>; the clock is
  the argument \<open>now\<close>.
\<close>

subsection \<open>Text of values\<close>

text \<open>\<open>repr\<close> and \<open>str\<close> of a value read from JSON; the characters outside ASCII are taken as printable.\<close>

definition repr_char :: "char \<Rightarrow> char \<Rightarrow> string" where
  "repr_char q c =
     (if c = q \<or> c = CHR 0x5C then [CHR 0x5C, c]
      else if c = CHR 0x0A then [CHR 0x5C, CHR ''n'']
      else if c = CHR 0x0D then [CHR 0x5C, CHR ''r'']
      else if c = CHR 0x09 then [CHR 0x5C, CHR ''t'']
      else if (of_char c :: nat) < 32 \<or> c = CHR 0x7F then [CHR 0x5C, CHR ''x'', nibble (of_char c div 16), nibble (of_char c mod 16)]
      else [c])"

definition repr_str :: "string \<Rightarrow> string" where
  "repr_str s = (let q = (if CHR 0x27 \<in> set s \<and> CHR 0x22 \<notin> set s then CHR 0x22 else CHR 0x27) in
     [q] @ concat (map (repr_char q) s) @ [q])"

definition repr_float :: "pyfloat \<Rightarrow> string" where
  "repr_float x = (case x of FNaN \<Rightarrow> ''nan'' | FInf \<Rightarrow> ''inf'' | FNegInf \<Rightarrow> ''-inf'' | FFin _ \<Rightarrow> float_repr x)"

fun repr_json :: "json \<Rightarrow> string" where
  "repr_json JNull = ''None''"
| "repr_json (JBool b) = (if b then ''True'' else ''False'')"
| "repr_json (JInt i) = str_int i"
| "repr_json (JFloat x) = repr_float x"
| "repr_json (JStr s) = repr_str s"
| "repr_json (JList vs) = ''['' @ join '', '' (map repr_json vs) @ '']''"
| "repr_json (JObj kvs) = ''{'' @ join '', '' (map (\<lambda>(k, v). repr_str k @ '': '' @ repr_json v) kvs) @ ''}''"

definition str_json :: "json \<Rightarrow> string" where
  "str_json v = (case v of JStr s \<Rightarrow> s | _ \<Rightarrow> repr_json v)"

text \<open>\<open>v or {}\<close>\<close>

definition or_dict :: "json \<Rightarrow> json" where
  "or_dict v = (if truthy v then v else JObj [])"

subsection \<open>Console\<close>

definition esc_seq :: "string \<Rightarrow> string" where
  "esc_seq code = [CHR 0x1B, CHR ''[''] @ code @ ''m''"

definition emit :: "bool \<Rightarrow> string \<Rightarrow> string \<Rightarrow> unit pio" where
  "emit tty color message = print_line (if tty then color @ message @ esc_seq ''0'' else message)"

definition console_step :: "bool \<Rightarrow> string \<Rightarrow> unit pio" where
  "console_step tty message = bindI (print_line []) (\<lambda>_. emit tty (esc_seq ''36'') (''==> '' @ message))"

definition console_pass :: "bool \<Rightarrow> string \<Rightarrow> unit pio" where
  "console_pass tty message = emit tty (esc_seq ''32'') (''  [ok] '' @ message)"

definition console_warn :: "bool \<Rightarrow> string \<Rightarrow> unit pio" where
  "console_warn tty message = emit tty (esc_seq ''33'') (''  [warn] '' @ message)"

definition console_fail :: "bool \<Rightarrow> string \<Rightarrow> unit pio" where
  "console_fail tty message = emit tty (esc_seq ''31'') (''  [fail] '' @ message)"

definition console_hint :: "bool \<Rightarrow> string \<Rightarrow> unit pio" where
  "console_hint tty message = emit tty (esc_seq ''90'') (''  [hint] '' @ message)"

subsection \<open>Programs\<close>

definition canonical_windows_executable :: "string \<Rightarrow> string" where
  "canonical_windows_executable path =
     (if lower (suffix_of path) = ''.exe'' \<and> suffix_of path \<noteq> ''.exe'' then with_suffix path ''.exe'' else path)"

definition is_batch :: "string \<Rightarrow> bool" where
  "is_batch path \<longleftrightarrow> lower (suffix_of path) \<in> set [''.bat'', ''.cmd'']"

text \<open>The directory of a path\<close>

definition path_parent :: "string \<Rightarrow> string" where
  "path_parent p = take (length p - Suc (length (path_tail p))) p"

definition resolve_dart_sdk_executable :: "os_env \<Rightarrow> string pio" where
  "resolve_dart_sdk_executable S =
     bindI (readI (\<lambda>w. case os_which S ''flutter'' of None \<Rightarrow> None
       | Some flutter \<Rightarrow> let sdk = path_parent flutter @ ''/cache/dart-sdk/bin/dart.exe'' in
           if is_batch flutter \<and> pw_files w sdk \<noteq> None then Some sdk else None)) (\<lambda>sdk_dart.
     retI (case sdk_dart of Some p \<Rightarrow> p | None \<Rightarrow>
       (case os_which S ''dart'' of Some d \<Rightarrow> canonical_windows_executable d | None \<Rightarrow> ''dart'')))"

definition resolve_command :: "os_env \<Rightarrow> string list \<Rightarrow> string list res" where
  "resolve_command S cmd = (case cmd of
     [] \<Rightarrow> Inl (RuntimeErr ''Command cannot be empty.'')
   | executable # args \<Rightarrow>
     let resolved = (case os_which S executable of Some p \<Rightarrow> p | None \<Rightarrow> executable) in
     Inr (if is_batch resolved then [''cmd.exe'', ''/d'', ''/c'', resolved] @ args
          else canonical_windows_executable resolved # args))"

definition run :: "os_env \<Rightarrow> bool \<Rightarrow> string list \<Rightarrow> proc pio" where
  "run S check cmd =
     bindI (liftI (resolve_command S cmd)) (\<lambda>args.
     bindI (run_process S args) (\<lambda>p.
     if check \<and> p_code p \<noteq> 0 then raiseI (ProcessErr (p_code p)) else retI p))"

definition ensure_utf8_stdio :: "unit pio" where
  "ensure_utf8_stdio = bindI (env_get ''PYTHONIOENCODING'') (\<lambda>v.
     case v of None \<Rightarrow> env_set ''PYTHONIOENCODING'' ''utf-8'' | Some _ \<Rightarrow> retI ())"

definition append_text :: "string \<Rightarrow> string \<Rightarrow> unit pio" where
  "append_text path t = updI (\<lambda>w. w\<lparr>pw_files := (pw_files w)(path \<mapsto> (case pw_files w path of None \<Rightarrow> [] | Some b \<Rightarrow> b) @ t)\<rparr>)"

definition run_streaming :: "os_env \<Rightarrow> string list \<Rightarrow> string option \<Rightarrow> int pio" where
  "run_streaming S cmd log_path =
     bindI ensure_utf8_stdio (\<lambda>_.
     bindI (liftI (resolve_command S cmd)) (\<lambda>args.
     bindI (run_process S args) (\<lambda>p.
     bindI (print_line (p_out p)) (\<lambda>_.
     bindI (case log_path of None \<Rightarrow> retI () | Some path \<Rightarrow> append_text path (p_out p)) (\<lambda>_.
     retI (p_code p))))))"

subsection \<open>Environment\<close>

text \<open>One line of an environment file: its key and value\<close>

definition dotenv_line :: "string \<Rightarrow> (string \<times> string) option" where
  "dotenv_line raw = (let line = strip raw in
     if line = [] \<or> startswith line ''#'' then None
     else case str_cut ''='' line of None \<Rightarrow> None
       | Some (k, v) \<Rightarrow> if strip k = [] then None else Some (strip k, strip v))"

definition set_if_unset :: "string \<times> string \<Rightarrow> unit pio" where
  "set_if_unset kv = bindI (env_get (fst kv)) (\<lambda>v.
     case v of Some s \<Rightarrow> if s = [] then env_set (fst kv) (snd kv) else retI () | None \<Rightarrow> env_set (fst kv) (snd kv))"

definition import_dotenv_if_present :: "string \<Rightarrow> unit pio" where
  "import_dotenv_if_present path =
     bindI (file_exists path) (\<lambda>present.
     if \<not> present then retI ()
     else bindI (read_text path) (\<lambda>t. forI (List.map_filter dotenv_line (splitlines t)) set_if_unset))"

definition is_absolute :: "string \<Rightarrow> bool" where
  "is_absolute p \<longleftrightarrow> startswith p ''/''"

definition resolve_env_path :: "string \<Rightarrow> string \<Rightarrow> string" where
  "resolve_env_path project_root env_path = (if is_absolute env_path then env_path else path_join project_root env_path)"

fun effective_env :: "environ \<Rightarrow> string list \<Rightarrow> string" where
  "effective_env env [] = []"
| "effective_env env (k # ks) = (case env k of
     Some v \<Rightarrow> if v \<noteq> [] \<and> strip v \<noteq> [] then strip v else effective_env env ks
   | None \<Rightarrow> effective_env env ks)"

definition get_effective_env_value :: "string list \<Rightarrow> string pio" where
  "get_effective_env_value keys = readI (\<lambda>w. effective_env (pw_env w) keys)"

definition get_git_commit_or_default :: "os_env \<Rightarrow> string pio" where
  "get_git_commit_or_default S =
     catchI
       (bindI (run S False [''git'', ''rev-parse'', ''--short'', ''HEAD'']) (\<lambda>p.
        retI (if p_code p = 0 \<and> p_out p \<noteq> [] \<and> strip (p_out p) \<noteq> [] then strip (p_out p) else ''(not resolved)'')))
       (\<lambda>e. case e of
          OSErr _ \<Rightarrow> retI ''(not resolved)'' | FileNotFoundErr \<Rightarrow> retI ''(not resolved)'' | FileExistsErr \<Rightarrow> retI ''(not resolved)''
        | ProcessErr _ \<Rightarrow> retI ''(not resolved)'' | _ \<Rightarrow> raiseI e)"

definition manifest_lines :: "string \<Rightarrow> string list" where
  "manifest_lines t = filter (\<lambda>l. l \<noteq> [] \<and> \<not> startswith l ''#'') (map strip (splitlines t))"

definition read_manifest_test_paths :: "string \<Rightarrow> string list pio" where
  "read_manifest_test_paths file_name =
     bindI (read_text (path_join ''tool/agent_actions/manifests'' file_name)) (\<lambda>t. retI (manifest_lines t))"

text \<open>\<open>invoke_step\<close>: success, start and end\<close>

definition invoke_step :: "bool \<Rightarrow> (pworld \<Rightarrow> string) \<Rightarrow> string \<Rightarrow> int pio \<Rightarrow> string option \<Rightarrow> (bool \<times> string \<times> string) pio" where
  "invoke_step tty now name step log_path =
     bindI (console_step tty name) (\<lambda>_.
     bindI (readI now) (\<lambda>started_at.
     bindI (case log_path of None \<Rightarrow> retI () | Some p \<Rightarrow> unlink p) (\<lambda>_.
     bindI step (\<lambda>exit_code.
     bindI (readI now) (\<lambda>finished_at.
     if exit_code \<noteq> 0 then bindI (console_fail tty (name @ '' failed.'')) (\<lambda>_. retI (False, started_at, finished_at))
     else bindI (console_pass tty (name @ '' completed.'')) (\<lambda>_. retI (True, started_at, finished_at)))))))"

subsection \<open>Drivers\<close>

definition get_dsn_driver_family :: "string \<Rightarrow> string" where
  "get_dsn_driver_family connection_string =
     (if connection_string = [] \<or> connection_string = ''(not configured)'' then ''(not configured)''
      else let up = upper connection_string in
        if contains up ''POSTGRE'' then ''PostgreSQL''
        else if contains up ''ANYWHERE'' \<or> contains up ''SYBASE'' \<or> contains up ''SQLA'' then ''SQL Anywhere''
        else if contains up ''SQL SERVER'' \<or> contains up ''ODBC DRIVER'' \<or> contains up ''NATIVE CLIENT'' then ''SQL Server''
        else ''unknown'')"

definition get_native_adaptive_eligibility :: "string \<Rightarrow> string" where
  "get_native_adaptive_eligibility driver_family =
     (if driver_family \<in> set [''SQL Server'', ''PostgreSQL''] then ''eligible''
      else if driver_family = ''SQL Anywhere'' then ''blocked (lease/direct path)'' else ''unknown'')"

definition get_driver_tuning_recommendation :: "string \<Rightarrow> string" where
  "get_driver_tuning_recommendation driver_family =
     (if driver_family = ''SQL Server'' then
        ''Validate native/adaptive pool with driver matrix; tune ODBC_POOL_SIZE and '' @
        ''SQL_QUEUE_MAX_WORKERS together, then watch transactional_native_pool_fallback.''
      else if driver_family = ''PostgreSQL'' then
        ''Validate native/adaptive pool with driver matrix; prefer batched streaming '' @
        ''for large SELECTs and watch pending saturation.''
      else if driver_family = ''SQL Anywhere'' then
        ''Keep lease/direct path; tune SQL queue, direct limiter and bulkInsert '' @ ''instead of native pool.''
      else ''Configure a representative DSN and run the driver matrix before changing pool defaults.'')"

type_synonym settings = "(string \<times> string) list"

text \<open>The settings are changed in place: an exception half way keeps what was set before it.\<close>

definition copy_setting :: "json \<Rightarrow> string \<times> string \<Rightarrow> (settings, unit) io" where
  "copy_setting source = (\<lambda>(key, context_key).
     bindI (liftI (dget source key)) (\<lambda>v. if v = JNull then retI () else updI (AList.update context_key (str_json v))))"

definition copy_settings :: "json \<Rightarrow> (string \<times> string) list \<Rightarrow> (settings, unit) io" where
  "copy_settings source keys = forI keys (copy_setting source)"

definition apply_snapshot :: "json \<Rightarrow> (settings, unit) io" where
  "apply_snapshot snapshot =
     bindI (liftI (dget snapshot ''odbc_runtime_tuning'')) (\<lambda>r.
     bindI (copy_settings (or_dict r) [(''pool_size'', ''OdbcPoolSize''), (''async_worker_count'', ''OdbcAsyncWorkerCount''),
       (''async_max_pending_requests'', ''OdbcAsyncMaxPendingRequests''), (''result_encoding'', ''OdbcResultEncoding'')]) (\<lambda>_.
     bindI (liftI (dget snapshot ''sql_queue'')) (\<lambda>q.
     bindI (copy_settings (or_dict q) [(''max_size'', ''SqlQueueMaxSize''), (''max_workers'', ''SqlQueueMaxWorkers''),
       (''enqueue_timeout_seconds'', ''SqlQueueTimeoutSec'')]) (\<lambda>_.
     bindI (liftI (dget snapshot ''pool'')) (\<lambda>p.
     copy_settings (or_dict p) [(''acquire_timeout_seconds'', ''PoolAcquireTimeoutSec'')])))))"

text \<open>The result is that of the update and the settings after it.\<close>

definition update_context_from_health_snapshot_template :: "bool \<Rightarrow> settings \<Rightarrow> string \<Rightarrow> (unit res \<times> settings) pio" where
  "update_context_from_health_snapshot_template tty c template_path =
     bindI (readI (\<lambda>w. pw_files w template_path)) (\<lambda>file.
     case file of None \<Rightarrow> retI (Inr (), c)
     | Some b \<Rightarrow> (case decode_text b of
         Inl e \<Rightarrow> retI (Inl e, c)
       | Inr t \<Rightarrow> (case json_loads t of
           Inl _ \<Rightarrow> bindI (console_warn tty ''Could not parse health snapshot template for effective tuning.'') (\<lambda>_. retI (Inr (), c))
         | Inr snapshot \<Rightarrow> retI (apply_snapshot snapshot c))))"

definition long_query_keys :: "string \<Rightarrow> string list" where
  "long_query_keys driver_family =
     (if driver_family = ''SQL Anywhere'' then [''ODBC_INTEGRATION_LONG_QUERY_SQL_ANYWHERE'', ''ODBC_INTEGRATION_LONG_QUERY'']
      else if driver_family = ''SQL Server'' then [''ODBC_INTEGRATION_LONG_QUERY_SQL_SERVER'', ''ODBC_INTEGRATION_LONG_QUERY'']
      else if driver_family = ''PostgreSQL'' then [''ODBC_INTEGRATION_LONG_QUERY_POSTGRESQL'', ''ODBC_INTEGRATION_LONG_QUERY'']
      else [''ODBC_INTEGRATION_LONG_QUERY''])"

definition get_long_query_for_driver :: "string \<Rightarrow> string pio" where
  "get_long_query_for_driver driver_family = get_effective_env_value (long_query_keys driver_family)"

text \<open>The directories above a path, nearest first; fuel is the number of its components.\<close>

fun parents :: "nat \<Rightarrow> string \<Rightarrow> string list" where
  "parents 0 p = []"
| "parents (Suc n) p = (if CHR ''/'' \<notin> set p then [] else path_parent p # parents n (path_parent p))"

text \<open>A path that is not absolute is below the project, which is the empty directory.\<close>

definition resolve_benchmark_package :: "string \<Rightarrow> files \<Rightarrow> (string \<times> string \<times> string) res" where
  "resolve_benchmark_package path fs = (let here = (\<lambda>d. d = [] \<and> \<not> is_absolute path) in
     bindR (read_file fs path) (\<lambda>_.
     case filter (\<lambda>d. fs (if here d then ''pubspec.yaml'' else path_join d ''pubspec.yaml'') \<noteq> None)
         (parents (length path) path @ (if is_absolute path then [] else [[]])) of
       [] \<Rightarrow> Inl (ValueErr ''No pubspec.yaml found above benchmark'')
     | package_root # _ \<Rightarrow> Inr (package_root, path, if here package_root then path else drop (Suc (length package_root)) path)))"

definition forward_script_args :: "bool \<Rightarrow> string list \<Rightarrow> string list" where
  "forward_script_args skip_help argv =
     (if skip_help \<and> ''--help'' \<in> set argv then [] else filter (\<lambda>a. a \<noteq> ''--'') argv)"

end
