(* ===== verification/Odbc_Native.thy ===== *)
theory Odbc_Native
  imports Release_Changelog Py_JsonOut Script_Utils
begin

text \<open>
  The native ODBC engine that the build uses: \<open>tool/odbc/prepare_package_native.py\<close> downloads the checksummed library of
  the locked package, \<open>tool/odbc/build_pinned_native.py\<close> builds it from a locked Git revision. All paths are relative to
  the project. What depends on the machine is an argument: \<open>nt\<close> says whether it runs Windows, \<open>package_dir\<close> gives the
  directory that a package URI means next to \<open>package_config.json\<close>, and \<open>untar\<close> the files of an archive.
\<close>

subsection \<open>The lock file\<close>

text \<open>The suffixes of a text\<close>

fun tails :: "string \<Rightarrow> string list" where
  "tails [] = [[]]"
| "tails (c # cs) = (c # cs) # tails cs"

definition word_start :: "string \<Rightarrow> bool" where
  "word_start s \<longleftrightarrow> s \<noteq> [] \<and> (let c = hd s in is_letter c \<or> is_digit c \<or> c = CHR ''_'')"

text \<open>\<open>^  odbc_fast:\n(.*?)(?=^  \w|^sdks:)\<close>: the text of the package's entry\<close>

definition ends_block :: "string \<Rightarrow> bool" where
  "ends_block s \<longleftrightarrow> startswith s ''sdks:'' \<or> startswith s ''  '' \<and> word_start (drop 2 s)"

definition package_block :: "string \<Rightarrow> string option" where
  "package_block s = (let head = ''  odbc_fast:'' @ newline in
     if \<not> startswith s head then None
     else let rest = drop (length head) s in
       case filter ends_block (at_lines rest) of [] \<Rightarrow> None | u # _ \<Rightarrow> Some (take (length rest - length u) rest))"

definition find_block :: "string \<Rightarrow> string option" where
  "find_block lock = first_match package_block (at_lines lock)"

definition rx_locked_version :: rx where
  "rx_locked_version = RSeq rx_version3
     (r_opt (RSeq (RCls (\<lambda>c. c = CHR ''-'' \<or> c = CHR ''+''))
       (r_plus (RCls (\<lambda>c. is_digit c \<or> is_letter c \<or> c = CHR ''.'' \<or> c = CHR ''-'')))))"

definition locked_version :: "string \<Rightarrow> string option" where
  "locked_version s = (let head = ''    version: '' @ [CHR 0x22]; rest = drop (length head) s; v = takeWhile (\<lambda>c. c \<noteq> CHR 0x22) rest in
     if startswith s head \<and> length v < length rest \<and> fullmatch rx_locked_version v then Some v else None)"

definition locked_digest :: "string \<Rightarrow> string option" where
  "locked_digest s = (let head = ''      sha256: ''; d = take 64 (drop_quote (drop (length head) s)) in
     if startswith s head \<and> length d = 64 \<and> list_all is_hex d then Some d else None)"

text \<open>\<open>next(p['rootUri'] for p in packages if p['name'] == 'odbc_fast')\<close>\<close>

fun find_root_uri :: "json list \<Rightarrow> json res" where
  "find_root_uri [] = Inl StopIteration"
| "find_root_uri (p # ps) = bindR (item p ''name'') (\<lambda>n. if py_eq n (JStr ''odbc_fast'') then item p ''rootUri'' else find_root_uri ps)"

definition package_uri :: "files \<Rightarrow> json res" where
  "package_uri fs =
     bindR (read_file fs ''.dart_tool/package_config.json'') (\<lambda>b. bindR (decode_text b) (\<lambda>t. bindR (json_loads t) (\<lambda>config.
     bindR (item config ''packages'') (\<lambda>ps. case ps of JList vs \<Rightarrow> find_root_uri vs | _ \<Rightarrow> Inl TypeErr))))"

definition locked_package :: "(json \<Rightarrow> string res) \<Rightarrow> files \<Rightarrow> (string \<times> string \<times> string) res" where
  "locked_package package_dir fs =
     bindR (read_file fs ''pubspec.lock'') (\<lambda>b. bindR (decode_text b) (\<lambda>lock.
     case find_block lock of
       None \<Rightarrow> Inl (ValueErr ''odbc_fast must be locked to its published pub.dev package'')
     | Some block \<Rightarrow>
       if \<not> contains block ''source: hosted'' \<or> \<not> contains block ''https://pub.dev''
         then Inl (ValueErr ''odbc_fast must be locked to its published pub.dev package'')
       else (case (first_match locked_version (at_lines block), first_match locked_digest (at_lines block)) of
           (Some version, Some digest) \<Rightarrow>
             bindR (package_uri fs) (\<lambda>uri. bindR (package_dir uri) (\<lambda>package.
             bindR (read_file fs (path_join package ''pubspec.yaml'')) (\<lambda>pb. bindR (decode_text pb) (\<lambda>pubspec.
             if first_match version_word (at_lines pubspec) \<noteq> Some version
               then Inl (ValueErr ''Resolved package version differs from pubspec.lock'')
             else Inr (package, version, digest)))))
         | _ \<Rightarrow> Inl (ValueErr ''The hosted lock must contain the exact version and package SHA-256''))))"

subsection \<open>prepare\_package\_native.py\<close>

fun save_chunks :: "string \<Rightarrow> nat \<Rightarrow> nat \<Rightarrow> bytes list \<Rightarrow> unit pio" where
  "save_chunks destination limit sofar [] = retI ()"
| "save_chunks destination limit sofar (c # cs) =
     (if c = [] then retI ()
      else if limit < sofar + length c then raiseI (ValueErr ''Published native asset exceeds its size limit'')
      else bindI (append_text destination c) (\<lambda>_. save_chunks destination limit (sofar + length c) cs))"

definition download :: "os_env \<Rightarrow> string \<Rightarrow> string \<Rightarrow> nat \<Rightarrow> unit pio" where
  "download S url destination limit =
     bindI (liftI (os_fetch S url)) (\<lambda>chunks.
     bindI (write_bytes destination []) (\<lambda>_. save_chunks destination limit 0 chunks))"

definition checksum :: "string \<Rightarrow> string pio" where
  "checksum path = bindI (read_bytes path) (\<lambda>b. retI (sha256_hex b))"

definition native_name :: "bool \<Rightarrow> string" where
  "native_name nt = (if nt then ''odbc_engine.dll'' else ''libodbc_engine.so'')"

definition native_dir :: "bool \<Rightarrow> string \<Rightarrow> string" where
  "native_dir nt version = ''build/odbc-native/packages/'' @ version @ (if nt then ''/windows_x64'' else ''/linux_x64'')"

definition native_url :: "bool \<Rightarrow> string \<Rightarrow> string" where
  "native_url nt version = ''https://github.com/cesar-carlos/dart_odbc_fast/releases/download/v'' @ version @ ''/'' @ native_name nt"

definition native_record :: "string \<Rightarrow> string \<Rightarrow> string \<Rightarrow> string \<Rightarrow> json" where
  "native_record version package_digest url d = JObj [(''source'', JStr ''pub.dev''), (''version'', JStr version),
     (''package_sha256'', JStr package_digest), (''url'', JStr url), (''sha256'', JStr d)]"

text \<open>The comparison of a cached library with its manifest\<close>

definition check_cached :: "string \<Rightarrow> string \<Rightarrow> string \<Rightarrow> bytes \<Rightarrow> json \<Rightarrow> unit res" where
  "check_cached version package_digest url binary_bytes rec =
     bindR (dget rec ''version'') (\<lambda>v. bindR (dget rec ''package_sha256'') (\<lambda>p.
     bindR (dget rec ''url'') (\<lambda>u. bindR (dget rec ''sha256'') (\<lambda>h.
     if \<not> py_eq v (JStr version) \<or> \<not> py_eq p (JStr package_digest) \<or> \<not> py_eq u (JStr url) \<or> \<not> py_eq h (JStr (sha256_hex binary_bytes))
       then Inl (ValueErr ''Cached published native asset differs from its manifest'') else Inr ()))))"

definition is_hex_any :: "char \<Rightarrow> bool" where
  "is_hex_any c \<longleftrightarrow> is_hex (lower_char c)"

text \<open>The first field of the checksum file\<close>

definition checksum_field :: "string \<Rightarrow> string res" where
  "checksum_field t = (let field = word_prefix (strip t) in
     if length field = 64 \<and> list_all is_hex_any field then Inr (lower field)
     else Inl (ValueErr ''Published native asset checksum is invalid''))"

definition part_path :: "bool \<Rightarrow> string \<Rightarrow> string" where
  "part_path nt version = path_join (native_dir nt version) (native_name nt @ ''.part'')"

definition sidecar_path :: "bool \<Rightarrow> string \<Rightarrow> string" where
  "sidecar_path nt version = path_join (native_dir nt version) (native_name nt @ ''.sha256.part'')"

definition native_path :: "bool \<Rightarrow> string \<Rightarrow> string" where
  "native_path nt version = path_join (native_dir nt version) (native_name nt)"

definition native_manifest :: "bool \<Rightarrow> string \<Rightarrow> string" where
  "native_manifest nt version = path_join (native_dir nt version) ''manifest.json''"

text \<open>The downloaded library, with the digest that was published for it\<close>

definition download_verified :: "os_env \<Rightarrow> bool \<Rightarrow> string \<Rightarrow> bytes pio" where
  "download_verified S nt version =
     bindI (download S (native_url nt version @ ''.sha256'') (sidecar_path nt version) 4096) (\<lambda>_.
     bindI (read_text (sidecar_path nt version)) (\<lambda>t.
     bindI (liftI (checksum_field t)) (\<lambda>expected.
     bindI (download S (native_url nt version) (part_path nt version) (128 * 1024 * 1024)) (\<lambda>_.
     bindI (read_bytes (part_path nt version)) (\<lambda>content.
     bindI (guardI (sha256_hex content \<noteq> expected) (ValueErr ''Published native asset SHA-256 mismatch'')) (\<lambda>_.
     retI content))))))"

definition fetch_native :: "os_env \<Rightarrow> bool \<Rightarrow> string \<Rightarrow> string \<Rightarrow> unit pio" where
  "fetch_native S nt version package_digest =
     finallyI
       (bindI (download_verified S nt version) (\<lambda>content.
        bindI (unlink (part_path nt version)) (\<lambda>_.
        bindI (write_bytes (native_path nt version) content) (\<lambda>_.
        write_bytes (native_manifest nt version)
          (dumps2 (native_record version package_digest (native_url nt version) (sha256_hex content)))))))
       (bindI (unlink (part_path nt version)) (\<lambda>_. unlink (sidecar_path nt version)))"

definition prepare_native_library :: "os_env \<Rightarrow> bool \<Rightarrow> (json \<Rightarrow> string res) \<Rightarrow> string pio" where
  "prepare_native_library S nt package_dir =
     bindI (checkI (\<lambda>w. locked_package package_dir (pw_files w))) (\<lambda>(package, version, package_digest).
     let binary = native_path nt version in
     bindI (readI (\<lambda>w. (pw_files w binary, pw_files w (native_manifest nt version)))) (\<lambda>cached.
     case cached of
       (Some content, Some m) \<Rightarrow>
         bindI (liftI (bindR (decode_text m) (\<lambda>t. bindR (json_loads t)
           (check_cached version package_digest (native_url nt version) content)))) (\<lambda>_. retI binary)
     | _ \<Rightarrow> bindI (fetch_native S nt version package_digest) (\<lambda>_. retI binary)))"

subsection \<open>build\_pinned\_native.py\<close>

definition locked_revision :: "string \<Rightarrow> string option" where
  "locked_revision s = (let head = ''resolved-ref: ''; d = take 40 (drop_quote (drop (length head) s)) in
     if startswith s head \<and> length d = 40 \<and> list_all is_hex d then Some d else None)"

definition check_output :: "os_env \<Rightarrow> string list \<Rightarrow> string pio" where
  "check_output S args = bindI (run_process S args) (\<lambda>p.
     if p_code p \<noteq> 0 then raiseI (ProcessErr (p_code p)) else retI (p_out p))"

definition pinned_revision :: "files \<Rightarrow> string res" where
  "pinned_revision fs =
     bindR (read_file fs ''pubspec.lock'') (\<lambda>b. bindR (decode_text b) (\<lambda>lock.
     case find_block lock of None \<Rightarrow> Inl (ValueErr ''odbc_fast must be locked to a full Git revision'')
     | Some block \<Rightarrow> (case first_match locked_revision (tails block) of
         None \<Rightarrow> Inl (ValueErr ''odbc_fast must be locked to a full Git revision'')
       | Some revision \<Rightarrow> if \<not> contains block ''source: git'' then Inl (ValueErr ''odbc_fast must be locked to a full Git revision'')
           else Inr revision)))"

definition pinned_package :: "os_env \<Rightarrow> (json \<Rightarrow> string res) \<Rightarrow> (string \<times> string) pio" where
  "pinned_package S package_dir =
     bindI (checkI (\<lambda>w. pinned_revision (pw_files w))) (\<lambda>revision.
     bindI (checkI (\<lambda>w. bindR (package_uri (pw_files w)) package_dir)) (\<lambda>package.
     bindI (check_output S [''git'', ''-C'', package, ''rev-parse'', ''HEAD'']) (\<lambda>out.
     if strip out \<noteq> revision then raiseI (ValueErr ''Resolved package checkout differs from pubspec.lock'')
     else retI (package, strip out))))"

definition stage_for_hook :: "string \<Rightarrow> string pio" where
  "stage_for_hook binary =
     (let artifact = path_join ''build/odbc-native/pinned'' (path_tail binary) in
      bindI (file_exists artifact) (\<lambda>present.
      bindI (if \<not> present then retI True
             else bindI (checksum artifact) (\<lambda>a. bindI (checksum binary) (\<lambda>b. retI (a \<noteq> b)))) (\<lambda>stale.
      bindI (if stale then copy_file binary artifact else retI ()) (\<lambda>_.
      bindI (copy_file (path_join (path_parent binary) ''manifest.json'') ''build/odbc-native/pinned/manifest.json'') (\<lambda>_.
      retI binary)))))"

text \<open>\<open>bundle.rglob(name)\<close>\<close>

definition verify_native_bundle :: "os_env \<Rightarrow> string \<Rightarrow> string \<Rightarrow> unit pio" where
  "verify_native_bundle S bundle binary =
     bindI (files_below S bundle) (\<lambda>ps.
     let matches = filter (\<lambda>p. path_tail p = path_tail binary) ps in
     bindI (guardI (matches = []) (ValueErr ''Flutter bundle does not contain the locked native artifact'')) (\<lambda>_.
     forI matches (\<lambda>p. bindI (checksum p) (\<lambda>a. bindI (checksum binary) (\<lambda>b.
       guardI (a \<noteq> b) (ValueErr ''Flutter bundle does not contain the locked native artifact''))))))"

definition provenance_json :: "string \<Rightarrow> string \<Rightarrow> string \<Rightarrow> bool \<Rightarrow> string \<Rightarrow> json" where
  "provenance_json revision d lock_digest locked rustc = JObj [(''revision'', JStr revision), (''sha256'', JStr d),
     (''cargo_lock_sha256'', JStr lock_digest), (''locked_dependencies'', JBool locked), (''rustc'', JStr rustc)]"

definition check_provenance :: "string \<Rightarrow> string \<Rightarrow> json \<Rightarrow> unit res" where
  "check_provenance revision d provenance =
     bindR (item provenance ''revision'') (\<lambda>r.
     if \<not> py_eq r (JStr revision) then Inl (ValueErr ''Existing native artifact differs from its manifest'')
     else bindR (item provenance ''sha256'') (\<lambda>h.
       if \<not> py_eq h (JStr d) then Inl (ValueErr ''Existing native artifact differs from its manifest'') else Inr ()))"

definition extract_all :: "string \<Rightarrow> (string \<times> bytes) list \<Rightarrow> unit pio" where
  "extract_all dir entries = forI entries (\<lambda>(name, content). write_bytes (path_join dir name) content)"

definition compile_native :: "os_env \<Rightarrow> (string \<Rightarrow> (string \<times> bytes) list res) \<Rightarrow> string \<Rightarrow> string \<Rightarrow> string \<Rightarrow> string \<Rightarrow> unit pio" where
  "compile_native S untar directory binary package revision =
     (let source = path_join directory ''source''; lock = path_join source ''native/Cargo.lock'' in
      bindI (check_output S [''git'', ''-C'', package, ''archive'', revision]) (\<lambda>archive.
      bindI (liftI (untar archive)) (\<lambda>entries.
      bindI (extract_all source entries) (\<lambda>_.
      bindI (file_exists lock) (\<lambda>locked_dependencies.
      bindI (liftI (resolve_command S ([''cargo'', ''build'', ''-p'', ''odbc_engine'', ''--release''] @
        (if locked_dependencies then [''--locked''] else [])))) (\<lambda>args.
      bindI (print_line (''Building odbc_fast '' @ revision)) (\<lambda>_.
      bindI (write_bytes (path_join directory ''build.log'') []) (\<lambda>_.
      bindI (run_process S args) (\<lambda>p.
      bindI (write_bytes (path_join directory ''build.log'') (p_out p)) (\<lambda>_.
      bindI (guardI (p_code p \<noteq> 0) (RuntimeErr ''Native build failed; see build.log'')) (\<lambda>_.
      bindI (copy_file (path_join source (''native/target/release/'' @ path_tail binary)) binary) (\<lambda>_.
      bindI (copy_file lock (path_join directory ''Cargo.lock'')) (\<lambda>_.
      bindI (checksum binary) (\<lambda>d.
      bindI (checksum lock) (\<lambda>l.
      bindI (check_output S [''rustc'', ''--version'']) (\<lambda>rustc.
      write_bytes (path_join directory ''manifest.json'')
        (dumps2 (provenance_json revision d l locked_dependencies (strip rustc)))))))))))))))))))"

definition build_source_native :: "os_env \<Rightarrow> bool \<Rightarrow> (string \<Rightarrow> (string \<times> bytes) list res) \<Rightarrow> string \<Rightarrow> string \<Rightarrow> string pio" where
  "build_source_native S nt untar package revision =
     (let directory = path_join ''build/odbc-native'' revision; binary = path_join directory (native_name nt);
          manifest = path_join directory ''manifest.json'' in
      bindI (readI (\<lambda>w. (pw_files w binary, pw_files w manifest))) (\<lambda>cached.
      case cached of
        (Some content, Some m) \<Rightarrow>
          bindI (liftI (bindR (decode_text m) (\<lambda>t. bindR (json_loads t) (check_provenance revision (sha256_hex content))))) (\<lambda>_.
          stage_for_hook binary)
      | _ \<Rightarrow> bindI (compile_native S untar directory binary package revision) (\<lambda>_. stage_for_hook binary)))"

definition build_pinned_native :: "os_env \<Rightarrow> bool \<Rightarrow> (json \<Rightarrow> string res) \<Rightarrow> (string \<Rightarrow> (string \<times> bytes) list res) \<Rightarrow> string pio" where
  "build_pinned_native S nt package_dir untar =
     bindI (pinned_package S package_dir) (\<lambda>(package, revision).
     bindI (file_exists (path_join package ''native/Cargo.lock'')) (\<lambda>present.
     if \<not> present then raiseI (ValueErr ''Pinned native source must contain its tracked Cargo.lock'')
     else build_source_native S nt untar package revision))"

text \<open>The end of both \<open>main\<close> functions: the optional check of a bundle and the line for the GitHub environment\<close>

definition publish_native :: "os_env \<Rightarrow> string \<Rightarrow> string option \<Rightarrow> string option \<Rightarrow> string \<Rightarrow> unit pio" where
  "publish_native S label github_env verify_bundle binary =
     bindI (case verify_bundle of None \<Rightarrow> retI () | Some bundle \<Rightarrow> verify_native_bundle S bundle binary) (\<lambda>_.
     bindI (print_line (label @ binary)) (\<lambda>_.
     case github_env of None \<Rightarrow> retI () | Some path \<Rightarrow> append_text path (''ODBC_FAST_NATIVE_LIBRARY='' @ binary @ newline)))"

definition prepare_main :: "os_env \<Rightarrow> bool \<Rightarrow> (json \<Rightarrow> string res) \<Rightarrow> string option \<Rightarrow> string option \<Rightarrow> unit pio" where
  "prepare_main S nt package_dir github_env verify_bundle =
     bindI (prepare_native_library S nt package_dir) (publish_native S ''Published odbc_fast native asset: '' github_env verify_bundle)"

definition pinned_main :: "os_env \<Rightarrow> bool \<Rightarrow> (json \<Rightarrow> string res) \<Rightarrow> (string \<Rightarrow> (string \<times> bytes) list res) \<Rightarrow> string option \<Rightarrow> string option \<Rightarrow> unit pio" where
  "pinned_main S nt package_dir untar github_env verify_bundle =
     bindI (build_pinned_native S nt package_dir untar) (publish_native S ''ODBC_FAST_NATIVE_LIBRARY='' github_env verify_bundle)"

end
