(* ===== verification/Release_Preflight.thy ===== *)
theory Release_Preflight
  imports Installer_Keys Release_Changelog Odbc_Native
begin

text \<open>
  \<open>tool/release/release_preflight.py\<close>: the gate before a release. It compares the versions of the sources, the working
  tree, the tags, the built installer and the tools, and runs the test suites. \<open>nt\<close> and \<open>package_dir\<close> are the
  arguments of \<open>prepare_native_library\<close>, \<open>tmp\<close> is the temporary directory of the script compilation.
\<close>

subsection \<open>Versions\<close>

definition ISCC_PATHS :: "string list" where
  "ISCC_PATHS = [''ISCC'', ''C:'' @ backslash @ ''Program Files (x86)'' @ backslash @ ''Inno Setup 6'' @ backslash @ ''ISCC.exe'',
     ''C:'' @ backslash @ ''Program Files'' @ backslash @ ''Inno Setup 6'' @ backslash @ ''ISCC.exe'']"

record VersionState =
  vs_full_version :: string
  vs_short_version :: string
  vs_setup_version :: string
  vs_generated_version :: string

definition resolve_command_preflight :: "os_env \<Rightarrow> string list \<Rightarrow> string list res" where
  "resolve_command_preflight S cmd = (case cmd of
     [] \<Rightarrow> Inl (RuntimeErr ''Command cannot be empty.'')
   | executable # args \<Rightarrow>
     let resolved = (case os_which S executable of Some p \<Rightarrow> p | None \<Rightarrow> executable) in
     Inr (if is_batch resolved then [''cmd.exe'', ''/d'', ''/c'', resolved] @ args else resolved # args))"

definition run_preflight :: "os_env \<Rightarrow> bool \<Rightarrow> string list \<Rightarrow> proc pio" where
  "run_preflight S check cmd =
     bindI (liftI (resolve_command_preflight S cmd)) (\<lambda>args.
     bindI (run_process S args) (\<lambda>p.
     if check \<and> p_code p \<noteq> 0 then raiseI (ProcessErr (p_code p)) else retI p))"

text \<open>\<open>^#define MyAppVersion\s+"([^"]+)"\<close> and \<open>^const String appVersion = "([^"]+)";\<close> at a line start: the group\<close>

definition quoted_text :: "string \<Rightarrow> string \<Rightarrow> string option" where
  "quoted_text after s = (let v = takeWhile (\<lambda>c. c \<noteq> CHR 0x22) (tl s); rest = drop (length v) (tl s) in
     if s \<noteq> [] \<and> hd s = CHR 0x22 \<and> v \<noteq> [] \<and> startswith rest (CHR 0x22 # after) then Some v else None)"

definition setup_define :: "string \<Rightarrow> string option" where
  "setup_define s = (let head = ''#define MyAppVersion''; t = drop (length head) s in
     if startswith s head \<and> ws_prefix t \<noteq> [] then quoted_text [] (drop (length (ws_prefix t)) t) else None)"

definition generated_const :: "string \<Rightarrow> string option" where
  "generated_const s = (let head = ''const String appVersion = '' in
     if startswith s head then quoted_text '';'' (drop (length head) s) else None)"

definition parse_required :: "(string \<Rightarrow> string option) \<Rightarrow> string \<Rightarrow> string \<Rightarrow> string res" where
  "parse_required pattern content label = (case first_match pattern (at_lines content) of
     None \<Rightarrow> Inl (ValueErr (''Unable to parse '' @ label @ ''.'')) | Some v \<Rightarrow> Inr (strip v))"

definition read_decoded :: "files \<Rightarrow> string \<Rightarrow> string res" where
  "read_decoded fs path = bindR (read_file fs path) decode_text"

definition read_decoded_sig :: "files \<Rightarrow> string \<Rightarrow> string res" where
  "read_decoded_sig fs path = bindR (read_file fs path) (\<lambda>b. decode_text (removeprefix b bom))"

definition load_version_state :: "files \<Rightarrow> VersionState res" where
  "load_version_state fs =
     bindR (bindR (read_decoded fs ''pubspec.yaml'') (\<lambda>t. parse_required pubspec_version t ''pubspec.yaml version'')) (\<lambda>full.
     bindR (bindR (read_decoded_sig fs ''installer/setup.iss'') (\<lambda>t. parse_required setup_define t ''installer/setup.iss MyAppVersion'')) (\<lambda>setup.
     bindR (bindR (read_decoded fs ''lib/core/constants/app_version.g.dart'')
       (\<lambda>t. parse_required generated_const t ''app_version.g.dart appVersion'')) (\<lambda>generated.
     Inr \<lparr>vs_full_version = full, vs_short_version = split_head ''+'' full, vs_setup_version = setup, vs_generated_version = generated\<rparr>)))"

definition ensure_version_sync :: "VersionState \<Rightarrow> string option \<Rightarrow> unit res" where
  "ensure_version_sync st expected_version =
     (if (case expected_version of None \<Rightarrow> False | Some v \<Rightarrow> v \<noteq> [] \<and> vs_short_version st \<noteq> v)
        then Inl (RuntimeErr ''pubspec short version does not match expected version'')
      else if vs_setup_version st \<noteq> vs_short_version st then Inl (RuntimeErr ''installer/setup.iss version does not match pubspec'')
      else if vs_generated_version st \<noteq> vs_full_version st then Inl (RuntimeErr ''app_version.g.dart version does not match pubspec'')
      else Inr ())"

subsection \<open>The working tree and the tools\<close>

definition ensure_clean_worktree :: "os_env \<Rightarrow> bool \<Rightarrow> unit pio" where
  "ensure_clean_worktree S allow_dirty =
     (if allow_dirty then retI ()
      else bindI (run_preflight S True [''git'', ''status'', ''--porcelain'']) (\<lambda>p.
        guardI (strip (p_out p) \<noteq> []) (RuntimeErr ''Working tree is not clean. Commit or stash changes, or pass --allow-dirty.'')))"

definition command_exists :: "os_env \<Rightarrow> string \<Rightarrow> bool" where
  "command_exists S c \<longleftrightarrow> os_which S c \<noteq> None"

fun first_iscc :: "os_env \<Rightarrow> files \<Rightarrow> string list \<Rightarrow> string option" where
  "first_iscc S fs [] = None"
| "first_iscc S fs (p # ps) =
     (if p = ''ISCC'' \<and> command_exists S ''ISCC'' then Some ''ISCC''
      else if p \<noteq> ''ISCC'' \<and> fs p \<noteq> None then Some p else first_iscc S fs ps)"

definition find_iscc_preflight :: "os_env \<Rightarrow> files \<Rightarrow> string option" where
  "find_iscc_preflight S fs = first_iscc S fs ISCC_PATHS"

definition compile_iss_syntax :: "os_env \<Rightarrow> string \<Rightarrow> unit pio" where
  "compile_iss_syntax S tmp =
     bindI (readI (\<lambda>w. find_iscc_preflight S (pw_files w))) (\<lambda>iscc.
     case iscc of None \<Rightarrow> raiseI (RuntimeErr ''ISCC is required for --compile-iss.'')
     | Some c \<Rightarrow> finallyI (bindI (run_preflight S True [c, ''/Q'', ''/DCOMPILE_SCRIPT_ONLY'', ''/O'' @ tmp, ''installer/setup.iss'']) (\<lambda>_. retI ()))
         (remove_tree tmp))"

definition missing_tools :: "os_env \<Rightarrow> files \<Rightarrow> string list \<Rightarrow> bool \<Rightarrow> bool \<Rightarrow> string list" where
  "missing_tools S fs names check_pages require_iscc = filter (\<lambda>c. \<not> command_exists S c) names @
     (if check_pages \<and> \<not> command_exists S ''gh'' then [''gh''] else []) @
     (if require_iscc \<and> find_iscc_preflight S fs = None then [''ISCC''] else [])"

definition ensure_tools :: "os_env \<Rightarrow> bool \<Rightarrow> bool \<Rightarrow> unit pio" where
  "ensure_tools S require_iscc check_pages =
     bindI (readI (\<lambda>w. missing_tools S (pw_files w) [''git'', ''python'', ''flutter''] check_pages require_iscc)) (\<lambda>missing.
     guardI (missing \<noteq> []) (RuntimeErr (''Missing required command(s): '' @ join '', '' missing)))"

definition ensure_early_tools :: "os_env \<Rightarrow> bool \<Rightarrow> unit pio" where
  "ensure_early_tools S require_iscc =
     bindI (readI (\<lambda>w. missing_tools S (pw_files w) [''git'', ''python''] False require_iscc)) (\<lambda>missing.
     guardI (missing \<noteq> []) (RuntimeErr (''Missing required command(s): '' @ join '', '' missing)))"

definition ensure_tag_available :: "os_env \<Rightarrow> string \<Rightarrow> unit pio" where
  "ensure_tag_available S tag =
     bindI (run_preflight S True [''git'', ''tag'', ''--list'', tag]) (\<lambda>p.
     bindI (guardI (strip (p_out p) \<noteq> []) (RuntimeErr (''Local tag already exists: '' @ tag))) (\<lambda>_.
     bindI (run_preflight S True [''git'', ''ls-remote'', ''--tags'', ''origin'', tag]) (\<lambda>q.
     guardI (strip (p_out q) \<noteq> []) (RuntimeErr (''Remote tag already exists: '' @ tag)))))"

definition setup_path :: "string \<Rightarrow> string" where
  "setup_path version = ''installer/dist/PlugAgente-Setup-'' @ version @ ''.exe''"

definition ensure_installer_exists :: "string \<Rightarrow> unit pio" where
  "ensure_installer_exists version =
     checkI (\<lambda>w. case pw_files w (setup_path version) of
       None \<Rightarrow> Inl (RuntimeErr ''Installer not found'')
     | Some b \<Rightarrow> if b = [] then Inl (RuntimeErr ''Installer is empty'') else Inr ())"

definition release_dir :: string where
  "release_dir = ''build/windows/x64/runner/Release''"

definition ensure_feed_public_key_embedded :: "string \<Rightarrow> string \<Rightarrow> unit pio" where
  "ensure_feed_public_key_embedded version keys =
     (if strip keys = [] then retI ()
      else checkI (\<lambda>w. verify_evidence (pw_files w) (setup_path version) release_dir keys))"

text \<open>\<open>str(payload.get("build_type") or "")\<close>\<close>

definition build_type_of :: "string \<Rightarrow> string res" where
  "build_type_of out = (case json_loads out of
     Inl _ \<Rightarrow> Inl (RuntimeErr ''Unable to parse GitHub Pages API response.'')
   | Inr payload \<Rightarrow> bindR (dget payload ''build_type'') (\<lambda>v. Inr (if truthy v then str_json v else [])))"

definition ensure_github_pages_workflow_ready :: "os_env \<Rightarrow> string \<Rightarrow> unit pio" where
  "ensure_github_pages_workflow_ready S repo =
     bindI (run_preflight S False [''gh'', ''api'', ''repos/'' @ repo @ ''/pages'']) (\<lambda>p.
     if p_code p \<noteq> 0 then raiseI (RuntimeErr ''GitHub Pages is not enabled for this repository.'')
     else bindI (liftI (build_type_of (p_out p))) (\<lambda>build_type.
       guardI (build_type \<noteq> ''workflow'') (RuntimeErr ''GitHub Pages must use GitHub Actions as the build source'')))"

definition ensure_appcast_signing_tests_not_skipped :: "os_env \<Rightarrow> unit pio" where
  "ensure_appcast_signing_tests_not_skipped S =
     bindI (run_preflight S False [''python'', ''-m'', ''unittest'', ''tool.appcast.test_appcast_signing'', ''-v'']) (\<lambda>p.
     if p_code p \<noteq> 0 then raiseI (RuntimeErr ''tool.appcast.test_appcast_signing failed. Install cryptography and re-run preflight.'')
     else guardI (contains (strip (p_out p)) ''skipped='') (RuntimeErr ''tool.appcast.test_appcast_signing reported skipped tests''))"

subsection \<open>The checks\<close>

record preflight_args =
  pa_version :: "string option"
  pa_allow_dirty :: bool
  pa_allow_existing_tag :: bool
  pa_require_iscc :: bool
  pa_compile_iss :: bool
  pa_check_installer :: bool
  pa_check_pages :: bool
  pa_repo :: string
  pa_signing_provider :: string
  pa_analyze :: bool
  pa_tests :: bool
  pa_tests_ci :: bool
  pa_architecture :: bool
  pa_appcast_tooling :: bool
  pa_gate :: bool
  pa_early :: bool
  pa_build_number :: string
  pa_print_publish_hints :: bool
  pa_check_secrets :: bool
  pa_feed_public_key :: string

definition run_early_checks :: "os_env \<Rightarrow> preflight_args \<Rightarrow> string \<Rightarrow> unit pio" where
  "run_early_checks S args version_short =
     bindI (ensure_early_tools S (pa_require_iscc args)) (\<lambda>_.
     if pa_allow_existing_tag args then retI () else ensure_tag_available S (''v'' @ version_short))"

definition logged_check :: "os_env \<Rightarrow> string list \<Rightarrow> string \<Rightarrow> unit pio" where
  "logged_check S cmd artifact =
     bindI (print_line (''Running '' @ join '' '' cmd)) (\<lambda>_.
     bindI (run_preflight S False cmd) (\<lambda>p.
     bindI (write_bytes (''build/release-preflight/'' @ artifact @ ''.log'') (p_out p)) (\<lambda>_.
     if p_code p \<noteq> 0 then raiseI (ProcessErr (p_code p))
     else print_line (''Passed '' @ artifact @ ''; evidence: build/release-preflight/'' @ artifact @ ''.log''))))"

definition whenI :: "bool \<Rightarrow> unit pio \<Rightarrow> unit pio" where
  "whenI b m = (if b then m else retI ())"

definition unittest_cmd :: "string list" where
  "unittest_cmd = [''python'', ''-m'', ''unittest'', ''tool.appcast.test_appcast_manager'', ''tool.appcast.test_validate_release'',
     ''tool.appcast.test_appcast_signing'', ''tool.appcast.test_validate_launcher_status'', ''tool.updater.test_manifest'',
     ''tool.updater.test_verify_release'', ''tool.updater.test_installer'', ''-v'']"

definition run_optional_checks :: "os_env \<Rightarrow> bool \<Rightarrow> (json \<Rightarrow> string res) \<Rightarrow> preflight_args \<Rightarrow> unit pio" where
  "run_optional_checks S nt package_dir args =
     bindI (whenI (pa_tests args \<or> pa_tests_ci args)
       (bindI (run_preflight S True [''flutter'', ''pub'', ''get'']) (\<lambda>_.
        bindI (prepare_native_library S nt package_dir) (env_set ''ODBC_FAST_NATIVE_LIBRARY'')))) (\<lambda>_.
     bindI (whenI (pa_analyze args) (logged_check S [''flutter'', ''analyze''] ''analyze'')) (\<lambda>_.
     bindI (whenI (pa_tests args) (logged_check S [''flutter'', ''test''] ''tests'')) (\<lambda>_.
     bindI (whenI (pa_tests_ci args) (logged_check S [''flutter'', ''test'', ''--exclude-tags'', ''live || slow || perf''] ''tests-ci'')) (\<lambda>_.
     bindI (whenI (pa_architecture args)
       (logged_check S [''flutter'', ''test'', ''test/architecture/layer_boundaries_test.dart''] ''architecture'')) (\<lambda>_.
     whenI (pa_appcast_tooling args)
       (bindI (logged_check S unittest_cmd ''appcast-tooling'') (\<lambda>_. ensure_appcast_signing_tests_not_skipped S)))))))"

text \<open>The names in the output of \<open>gh secret list\<close>\<close>

definition secret_names :: "string \<Rightarrow> string list" where
  "secret_names out = map (\<lambda>l. word_prefix (lstrip l)) (filter (\<lambda>l. strip l \<noteq> []) (splitlines out))"

definition list_github_actions_secrets :: "os_env \<Rightarrow> string \<Rightarrow> string list pio" where
  "list_github_actions_secrets S repo =
     bindI (run_preflight S False [''gh'', ''secret'', ''list'', ''--repo'', repo]) (\<lambda>p.
     retI (if p_code p \<noteq> 0 then [] else secret_names (p_out p)))"

definition signing_secret :: "string \<Rightarrow> string" where
  "signing_secret provider = (if provider = ''signpath'' then ''SIGNPATH_API_TOKEN'' else ''WINDOWS_CODE_SIGNING_CERT_BASE64'')"

definition secret_warnings :: "string list \<Rightarrow> string \<Rightarrow> string list" where
  "secret_warnings secrets provider =
     (if provider \<noteq> ''manifest'' \<and> signing_secret provider \<notin> set secrets
        then [signing_secret provider @ '' is not configured: production publication is blocked.''] else []) @
     (if provider = ''signpath'' then
        [''SignPath additionally requires approved organization/project/policy and both artifact configurations.''] else []) @
     (if ''AUTO_UPDATE_FEED_PUBLIC_KEY'' \<notin> set secrets then
        [''AUTO_UPDATE_FEED_PUBLIC_KEY is not configured: production publication is blocked.''] else []) @
     (if ''APPCAST_SIGNING_PRIVATE_KEY'' \<notin> set secrets then
        [''APPCAST_SIGNING_PRIVATE_KEY is not configured: signed manifest and feed publication is blocked.''] else [])"

definition collect_publish_secret_warnings :: "os_env \<Rightarrow> string \<Rightarrow> string \<Rightarrow> string list pio" where
  "collect_publish_secret_warnings S repo provider =
     bindI (list_github_actions_secrets S repo) (\<lambda>secrets. retI (secret_warnings secrets provider))"

definition print_publish_workflow_hints :: "os_env \<Rightarrow> string \<Rightarrow> string \<Rightarrow> string \<Rightarrow> string \<Rightarrow> unit pio" where
  "print_publish_workflow_hints S version_short build_number repo provider =
     bindI (list_github_actions_secrets S repo) (\<lambda>secrets.
     bindI (print_line (newline @ ''Publish workflow hints:'')) (\<lambda>_.
     bindI (print_line (''  1. Optional dry run: gh workflow run '' @ [CHR 0x22] @ ''Publish Windows Release'' @ [CHR 0x22] @ '' --ref main'')) (\<lambda>_.
     bindI (print_line (''     -f version='' @ version_short @ '' -f build_number='' @ build_number @ '' -f dry_run=true'')) (\<lambda>_.
     bindI (print_line ''  2. Production publish:'') (\<lambda>_.
     bindI (print_line (''     gh workflow run '' @ [CHR 0x22] @ ''Publish Windows Release'' @ [CHR 0x22] @ '' --ref main '' @
       ''-f version='' @ version_short @ '' -f build_number='' @ build_number @
       '' -f run_tests=true -f dry_run=false -f signing_provider=manifest'')) (\<lambda>_.
     bindI (whenI (provider \<noteq> ''manifest'' \<and> signing_secret provider \<notin> set secrets)
       (print_line (''  WARN: '' @ signing_secret provider @ '' is not configured; production requires trusted signing.''))) (\<lambda>_.
     print_line ''  Appcast publication uses workflow_call with GITHUB_TOKEN; no PAT is required.'')))))))"

definition apply_gate :: "preflight_args \<Rightarrow> preflight_args" where
  "apply_gate args = (if pa_gate args
     then args\<lparr>pa_analyze := True, pa_tests_ci := True, pa_architecture := True, pa_appcast_tooling := True\<rparr> else args)"

text \<open>The guarded part of \<open>main\<close>: the versions when the full checks passed, nothing after a shortened run\<close>

definition preflight_checks :: "os_env \<Rightarrow> bool \<Rightarrow> (json \<Rightarrow> string res) \<Rightarrow> string \<Rightarrow> preflight_args \<Rightarrow> VersionState option pio" where
  "preflight_checks S nt package_dir tmp args =
     bindI (whenI (pa_check_secrets args \<or> pa_print_publish_hints args \<or> pa_early args)
       (bindI (collect_publish_secret_warnings S (pa_repo args) (pa_signing_provider args)) (\<lambda>warnings.
        forI warnings (\<lambda>m. print_line (''WARN: '' @ m))))) (\<lambda>_.
     if pa_compile_iss args then
       bindI (compile_iss_syntax S tmp) (\<lambda>_.
       bindI (print_line ''ISCC syntax compile passed (COMPILE_SCRIPT_ONLY).'') (\<lambda>_. retI None))
     else if pa_early args then
       (case pa_version args of
          None \<Rightarrow> raiseI (RuntimeErr ''--early requires --version (target short version).'')
        | Some v \<Rightarrow> if v = [] then raiseI (RuntimeErr ''--early requires --version (target short version).'')
            else bindI (run_early_checks S args v) (\<lambda>_.
              bindI (print_line (''Early release preflight passed (target=v'' @ v @ '', tag_available='' @
                (if pa_allow_existing_tag args then ''True'' else ''False'') @ '').'')) (\<lambda>_. retI None)))
     else
       bindI (checkI (\<lambda>w. load_version_state (pw_files w))) (\<lambda>st.
       bindI (ensure_clean_worktree S (pa_allow_dirty args)) (\<lambda>_.
       bindI (liftI (ensure_version_sync st (pa_version args))) (\<lambda>_.
       bindI (checkI (\<lambda>w. check_changelog (pw_files w) (vs_full_version st) False)) (\<lambda>_.
       bindI (ensure_tools S (pa_require_iscc args) (pa_check_pages args)) (\<lambda>_.
       bindI (whenI (\<not> pa_allow_existing_tag args) (ensure_tag_available S (''v'' @ vs_short_version st))) (\<lambda>_.
       bindI (whenI (pa_check_installer args)
         (bindI (ensure_installer_exists (vs_short_version st)) (\<lambda>_.
          whenI (pa_feed_public_key args \<noteq> [])
            (ensure_feed_public_key_embedded (vs_short_version st) (pa_feed_public_key args))))) (\<lambda>_.
       bindI (whenI (pa_check_pages args) (ensure_github_pages_workflow_ready S (pa_repo args))) (\<lambda>_.
       bindI (run_optional_checks S nt package_dir args) (\<lambda>_. retI (Some st)))))))))))"

definition is_exit :: "exn \<Rightarrow> bool" where
  "is_exit e = (case e of ExitErr _ \<Rightarrow> True | ExitCode _ \<Rightarrow> True | _ \<Rightarrow> False)"

definition preflight_main :: "os_env \<Rightarrow> bool \<Rightarrow> (json \<Rightarrow> string res) \<Rightarrow> string \<Rightarrow> preflight_args \<Rightarrow> int pio" where
  "preflight_main S nt package_dir tmp args0 = (let args = apply_gate args0 in
     bindI (catchI (bindI (preflight_checks S nt package_dir tmp args) (\<lambda>st. retI (Some st)))
       (\<lambda>e. if is_exit e then raiseI e else bindI (print_line ''Release preflight failed'') (\<lambda>_. retI None))) (\<lambda>outcome.
     case outcome of
       None \<Rightarrow> retI 1
     | Some None \<Rightarrow> retI 0
     | Some (Some st) \<Rightarrow>
         bindI (print_line (''Release preflight passed (version='' @ vs_full_version st @ '', tag=v'' @ vs_short_version st @
           '', setup='' @ vs_setup_version st @ '').'')) (\<lambda>_.
         bindI (whenI (pa_print_publish_hints args)
           (bindI (list_github_actions_secrets S (pa_repo args)) (\<lambda>_.
            print_publish_workflow_hints S (case pa_version args of Some v \<Rightarrow> if v = [] then vs_short_version st else v | None \<Rightarrow> vs_short_version st)
              (if strip (pa_build_number args) = [] then ''1'' else strip (pa_build_number args)) (pa_repo args) (pa_signing_provider args)))) (\<lambda>_.
         retI 0))))"

end
