(* ===== verification/Windows_Version.thy ===== *)
theory Windows_Version
  imports Release_Changelog Py_Proc Py_JsonOut
begin

text \<open>
  \<open>tool/release/windows_version_info.py\<close>: the version resource of the Windows executables. The resource is built and
  the executable is parsed byte by byte; the functions of \<open>version.dll\<close> and \<open>kernel32.dll\<close> are the parameter
  \<open>winapi\<close>.
\<close>

subsection \<open>Binary fields\<close>

fun le_bytes :: "nat \<Rightarrow> nat \<Rightarrow> bytes" where
  "le_bytes 0 v = []"
| "le_bytes (Suc n) v = char_of (v mod 256) # le_bytes n (v div 256)"

text \<open>\<open>struct.pack\<close> of one unsigned field of \<open>n\<close> bytes\<close>

definition pack_le :: "nat \<Rightarrow> nat \<Rightarrow> bytes res" where
  "pack_le n v = (if v < 256 ^ n then Inr (le_bytes n v) else Inl StructErr)"

definition pack_fields :: "nat \<Rightarrow> nat list \<Rightarrow> bytes res" where
  "pack_fields n vs = bindR (mapR (pack_le n) vs) (\<lambda>bs. Inr (concat bs))"

text \<open>\<open>s.encode("utf-16-le")\<close>\<close>

definition encode_utf16 :: "string \<Rightarrow> bytes res" where
  "encode_utf16 s = (if has_surrogate s then Inl (ValueErr ''UnicodeEncodeError'')
     else Inr (concat (map (\<lambda>ch. concat (map (le_bytes 2) (utf16_units (char_point ch)))) (chars_of (length s) s))))"

text \<open>The text of 16-bit units (\<open>ctypes.wstring_at\<close>): a surrogate pair is one character.\<close>

fun utf16_text :: "nat list \<Rightarrow> string" where
  "utf16_text (a # b # us) =
     (if 0xD800 \<le> a \<and> a \<le> 0xDBFF \<and> 0xDC00 \<le> b \<and> b \<le> 0xDFFF
      then utf8_enc (0x10000 + (a - 0xD800) * 1024 + (b - 0xDC00)) @ utf16_text us
      else utf8_enc a @ utf16_text (b # us))"
| "utf16_text [a] = utf8_enc a"
| "utf16_text [] = []"

subsection \<open>Versions\<close>

definition PRODUCT_NAME :: string where
  "PRODUCT_NAME = ''Plug Agente''"

definition version_parts :: "string \<Rightarrow> nat list res" where
  "version_parts version =
     (if \<not> fullmatch rx_version4 version then Inl (ValueErr ''Invalid Windows product version'')
      else let parts = map digits_val (split_on ''.'' (replace_str ''+'' ''.'' version)) in
        if list_ex (\<lambda>part. 65535 < part) parts then Inl (ValueErr ''Windows version components must be at most 65535'')
        else Inr parts)"

text \<open>\<open>^version:\s*(\d+\.\d+\.\d+\+\d+)\s*$\<close> at a line start\<close>

definition build_version :: "string \<Rightarrow> string option" where
  "build_version s = (if \<not> startswith s ''version:'' then None
     else let r = lstrip (drop 8 s) in
       (case version_prefix r of None \<Rightarrow> None | Some v \<Rightarrow>
          let t = drop (length v) r; sp = ws_prefix t in
          if CHR ''+'' \<in> set v \<and> (length sp = length t \<or> CHR 0x0A \<in> set sp) then Some v else None))"

definition application_version :: "files \<Rightarrow> string res" where
  "application_version fs =
     bindR (read_file fs ''pubspec.yaml'') (\<lambda>b. bindR (decode_text b) (\<lambda>content.
     bindR (of_option (ValueErr ''Expected an application version including the build number'')
       (first_match build_version (at_lines content))) (\<lambda>version.
     bindR (version_parts version) (\<lambda>_. Inr version))))"

subsection \<open>The version resource\<close>

definition pad4 :: "bytes \<Rightarrow> bytes" where
  "pad4 body = body @ replicate (nat (- (int (length body) + 6) mod 4)) CHR 0x00"

text \<open>\<open>_block\<close>\<close>

definition block :: "string \<Rightarrow> bytes \<Rightarrow> bytes \<Rightarrow> bool \<Rightarrow> bytes res" where
  "block key val children is_text =
     bindR (encode_utf16 key) (\<lambda>k.
     let body = pad4 (pad4 (k @ [CHR 0x00, CHR 0x00]) @ val) @ children;
         val_length = (if is_text then length val div 2 else length val) in
     bindR (pack_fields 2 [length body + 6, val_length, if is_text then 1 else 0]) (\<lambda>h. Inr (h @ body)))"

text \<open>\<open>Path(filename).stem\<close>: the name without its last suffix\<close>

definition name_stem :: "string \<Rightarrow> string" where
  "name_stem name = (let ext = rsplit_last ''.'' name; i = length name - Suc (length ext) in
     if contains name ''.'' \<and> 0 < i \<and> ext \<noteq> [] then take i name else name)"

definition fixed_info :: "nat list \<Rightarrow> bytes res" where
  "fixed_info parts = (case parts of
     [major, minor, patch, build] \<Rightarrow>
       pack_fields 4 [0xFEEF04BD, 0x10000, or (push_bit 16 major) minor, or (push_bit 16 patch) build,
         or (push_bit 16 major) minor, or (push_bit 16 patch) build, 0x3F, 0, 0x40004, 1, 0, 0, 0]
   | _ \<Rightarrow> Inl (ValueErr ''not enough values to unpack''))"

definition string_values :: "string \<Rightarrow> string \<Rightarrow> (string \<times> string) list" where
  "string_values version filename =
     [(''CompanyName'', ''Se7e Sistemas''), (''FileDescription'', PRODUCT_NAME), (''FileVersion'', version),
      (''InternalName'', name_stem (path_name filename)), (''LegalCopyright'', ''Copyright (c) 2026 Se7e Sistemas''),
      (''OriginalFilename'', filename), (''ProductName'', PRODUCT_NAME), (''ProductVersion'', version)]"

definition version_resource :: "string \<Rightarrow> string \<Rightarrow> bytes res" where
  "version_resource version filename =
     bindR (version_parts version) (\<lambda>parts.
     bindR (fixed_info parts) (\<lambda>fixed.
     bindR (mapR (\<lambda>(key, val). bindR (encode_utf16 (val @ [CHR 0x00])) (\<lambda>v. block key v [] True))
       (string_values version filename)) (\<lambda>strings.
     bindR (block ''040904b0'' [] (concat strings) True) (\<lambda>table.
     bindR (block ''StringFileInfo'' [] table True) (\<lambda>string_info.
     bindR (pack_fields 2 [0x409, 1200]) (\<lambda>t.
     bindR (block ''Translation'' t [] False) (\<lambda>translation.
     bindR (block ''VarFileInfo'' [] translation True) (\<lambda>var_info.
     block ''VS_VERSION_INFO'' fixed (string_info @ var_info) False))))))))"

subsection \<open>Executables\<close>

text \<open>\<open>data[a:a + n]\<close>\<close>

definition slice :: "nat \<Rightarrow> nat \<Rightarrow> bytes \<Rightarrow> bytes" where
  "slice a n data = take n (drop a data)"

text \<open>The end of the sections, over the section headers from \<open>index\<close> on\<close>

fun sections_end :: "bytes \<Rightarrow> nat \<Rightarrow> nat \<Rightarrow> nat \<Rightarrow> nat res" where
  "sections_end data first_section 0 stop = Inr stop"
| "sections_end data section (Suc left) stop =
     bindR (unpack_le 4 data (section + 16)) (\<lambda>size.
     bindR (unpack_le 4 data (section + 20)) (\<lambda>offset.
     sections_end data (section + 40) left (max stop (offset + size))))"

definition executable_end :: "bytes \<Rightarrow> nat res" where
  "executable_end data =
     (if take 2 data \<noteq> ''MZ'' then Inl (ValueErr ''Not a Windows executable'')
      else bindR (unpack_le 4 data 0x3C) (\<lambda>pe.
        if slice pe 4 data \<noteq> [CHR ''P'', CHR ''E'', CHR 0x00, CHR 0x00] then Inl (ValueErr ''Invalid PE header'')
        else bindR (unpack_le 2 data (pe + 6)) (\<lambda>count.
          bindR (unpack_le 2 data (pe + 20)) (\<lambda>optional_size.
          let optional = pe + 24 in
          bindR (unpack_le 2 data optional) (\<lambda>magic.
          let directories = optional + (if magic = 0x20B then 112 else 96) in
          if magic \<notin> {0x10B, 0x20B} then Inl (ValueErr ''Unsupported PE format'')
          else bindR (unpack_le 4 data (directories + 4 * 8)) (\<lambda>certificate_offset.
            bindR (unpack_le 4 data (directories + 4 * 8 + 4)) (\<lambda>certificate_size.
            if certificate_offset \<noteq> 0 \<or> certificate_size \<noteq> 0
              then Inl (ValueErr ''Refusing to modify an already signed executable'')
            else bindR (unpack_le 4 data (optional + 60)) (\<lambda>headers_end.
              sections_end data (optional + optional_size) count headers_end))))))))"

definition executable_overlay :: "bytes \<Rightarrow> bytes res" where
  "executable_overlay data = bindR (executable_end data) (\<lambda>stop.
     if length data < stop then Inl (ValueErr ''Truncated executable'') else Inr (drop stop data))"

subsection \<open>The Windows interface\<close>

text \<open>
  What the code uses of Windows: whether it runs there; the size of the version resource of an executable and the
  resource block; the 16-bit units and the length that a query of a block answers; whether an update of a file can
  begin, whether the resource is accepted, and the file after the update ends (\<open>None\<close> when ending fails).
\<close>

record winapi =
  wa_nt :: bool
  wa_info_size :: "bytes \<Rightarrow> nat"
  wa_info :: "bytes \<Rightarrow> bytes option"
  wa_query :: "bytes \<Rightarrow> string \<Rightarrow> (nat list \<times> nat) option"
  wa_begin :: "bytes \<Rightarrow> bool"
  wa_update :: "bytes \<Rightarrow> bytes \<Rightarrow> bool"
  wa_end :: "bytes \<Rightarrow> bytes \<Rightarrow> bool \<Rightarrow> bytes option"

definition version_attribute :: "winapi \<Rightarrow> bytes \<Rightarrow> string \<Rightarrow> string \<Rightarrow> (string \<times> string) res" where
  "version_attribute A buffer table key =
     (case wa_query A buffer (backslash @ ''StringFileInfo'' @ backslash @ table @ backslash @ key) of
        None \<Rightarrow> Inl (ValueErr ''Missing version attribute'')
      | Some (units, len) \<Rightarrow> Inr (key, utf16_text (take (len - 1) units)))"

definition version_info_of :: "winapi \<Rightarrow> bytes \<Rightarrow> (string \<times> string) list res" where
  "version_info_of A file =
     (if wa_info_size A file = 0 then Inl (OSErr ''Missing version resource'')
      else case wa_info A file of None \<Rightarrow> Inl (OSErr ''WinError'')
      | Some buffer \<Rightarrow>
        (case wa_query A buffer (backslash @ ''VarFileInfo'' @ backslash @ ''Translation'') of
           None \<Rightarrow> Inl (ValueErr ''Missing version translation'')
         | Some (units, len) \<Rightarrow>
           (case units of
              language # encoding # _ \<Rightarrow>
                if len < 4 then Inl (ValueErr ''Missing version translation'')
                else mapR (version_attribute A buffer (hex_digits4 language @ hex_digits4 encoding))
                  [''ProductName'', ''ProductVersion'', ''OriginalFilename'']
            | _ \<Rightarrow> Inl (ValueErr ''Missing version translation''))))"

definition read_version_info :: "winapi \<Rightarrow> files \<Rightarrow> string \<Rightarrow> (string \<times> string) list res" where
  "read_version_info A fs path =
     (if \<not> wa_nt A then Inl (OSErr ''Windows version resources require Windows'')
      else bindR (read_file fs path) (version_info_of A))"

text \<open>The copy of the executable with the new resource, made in a temporary directory that is removed on every way
  out\<close>

definition updated_candidate :: "winapi \<Rightarrow> bytes \<Rightarrow> bytes \<Rightarrow> bytes res" where
  "updated_candidate A file resource =
     (if \<not> wa_begin A file then Inl (OSErr ''WinError'')
      else let updated = wa_update A file resource in
        case wa_end A file resource (\<not> updated) of
          None \<Rightarrow> Inl (OSErr ''WinError'')
        | Some candidate \<Rightarrow> if \<not> updated then Inl (OSErr ''WinError'') else Inr candidate)"

definition with_overlay :: "bytes \<Rightarrow> bytes \<Rightarrow> bytes res" where
  "with_overlay candidate overlay =
     bindR (executable_overlay candidate) (\<lambda>current.
     if current = overlay then Inr candidate
     else if current \<noteq> [] then Inl (ValueErr ''Resource editing changed the executable overlay unexpectedly'')
     else Inr (candidate @ overlay))"

definition versioned_file :: "winapi \<Rightarrow> string \<Rightarrow> bytes \<Rightarrow> string \<Rightarrow> bytes res" where
  "versioned_file A name file version =
     bindR (version_resource version name) (\<lambda>resource.
     bindR (executable_overlay file) (\<lambda>overlay.
     bindR (updated_candidate A file resource) (\<lambda>edited.
     bindR (with_overlay edited overlay) (\<lambda>candidate.
     bindR (version_info_of A candidate) (\<lambda>info.
     if map_of info ''ProductName'' \<noteq> Some PRODUCT_NAME \<or> map_of info ''ProductVersion'' \<noteq> Some version
       then Inl (ValueErr ''Windows product metadata verification failed'')
     else Inr candidate)))))"

definition set_version_info :: "winapi \<Rightarrow> string \<Rightarrow> string \<Rightarrow> unit fileio" where
  "set_version_info A path version =
     bindI (guardI (\<not> wa_nt A) (OSErr ''Windows version resources require Windows'')) (\<lambda>_.
     bindI (checkI (\<lambda>fs. read_file fs path)) (\<lambda>file.
     bindI (liftI (versioned_file A (path_name path) file version)) (\<lambda>candidate.
     updI (\<lambda>fs. fs(path \<mapsto> candidate)))))"

subsection \<open>Fields\<close>

lemma length_le_bytes [simp]: "length (le_bytes n v) = n"
  by (induction n v rule: le_bytes.induct) auto

lemma le_val_bytes: "v < 256 ^ n \<Longrightarrow> le_val (le_bytes n v) = v"
proof (induction n v rule: le_bytes.induct)
  case (2 n v)
  then have "v div 256 < 256 ^ n" by (simp add: less_mult_imp_div_less mult.commute)
  then show ?case using 2 by (simp add: of_char_of_small)
qed simp

lemma pack_le_ok: "pack_le n v = Inr b \<longleftrightarrow> v < 256 ^ n \<and> b = le_bytes n v"
  by (auto simp: pack_le_def)

lemma unpack_le_ok: "unpack_le n data pos = Inr v \<longleftrightarrow> pos + n \<le> length data \<and> v = le_val (take n (drop pos data))"
  by (auto simp: unpack_le_def)

lemma unpack_append: "unpack_le n data pos = Inr v \<Longrightarrow> unpack_le n (data @ tail) pos = Inr v"
  by (auto simp: unpack_le_ok)

lemma sections_end_append: "sections_end data s k acc = Inr x \<Longrightarrow> sections_end (data @ tail) s k acc = Inr x"
proof (induction k arbitrary: s acc)
  case (Suc k)
  then show ?case by (auto simp: bindR_ok dest!: unpack_append[where data = data and tail = tail])
qed simp

lemma slice_append: "length (slice a n data) = n \<Longrightarrow> slice a n (data @ tail) = slice a n data"
  by (auto simp: slice_def)

lemma executable_end_append: "executable_end data = Inr x \<Longrightarrow> executable_end (data @ tail) = Inr x"
proof -
  assume x: "executable_end data = Inr x"
  have mz: "take 2 data = ''MZ''" using x by (auto simp: executable_end_def split: if_splits)
  then have mz': "take 2 (data @ tail) = ''MZ''" by (cases data; cases "tl data") auto
  obtain pe where pe: "unpack_le 4 data 0x3C = Inr pe" "slice pe 4 data = [CHR ''P'', CHR ''E'', CHR 0x00, CHR 0x00]"
    using x mz unfolding executable_end_def bindR_ok guard_ok by blast
  have pe': "slice pe 4 (data @ tail) = [CHR ''P'', CHR ''E'', CHR 0x00, CHR 0x00]"
    using slice_append[of pe 4 data tail] pe(2) by simp
  note app = unpack_append[where data = data and tail = tail] sections_end_append[where data = data and tail = tail]
  show ?thesis
    using x unfolding executable_end_def Let_def unpack_append[OF pe(1)] pe(1) bindR_simps mz mz' pe(2) pe' bindR_ok guard_ok
    by (elim exE conjE) ((drule app)+, simp)
qed

text \<open>Appending the overlay to a file whose sections end the file gives a file with that overlay.\<close>

lemma overlay_append:
  assumes "executable_overlay data = Inr []"
  shows "executable_overlay (data @ tail) = Inr tail"
proof -
  obtain stop where "executable_end data = Inr stop" "stop = length data"
    using assms by (auto simp: executable_overlay_def bindR_ok split: if_splits)
  then show ?thesis using executable_end_append by (simp add: executable_overlay_def)
qed

lemma with_overlay_ok: "with_overlay c o1 = Inr f \<Longrightarrow> executable_overlay f = Inr o1"
  by (auto simp: with_overlay_def bindR_ok overlay_append split: if_splits)

subsection \<open>The properties\<close>

lemma versioned_file_ok:
  "versioned_file A name file version = Inr f \<Longrightarrow> \<exists>overlay info. executable_overlay file = Inr overlay \<and>
     executable_overlay f = Inr overlay \<and> version_info_of A f = Inr info \<and>
     map_of info ''ProductName'' = Some PRODUCT_NAME \<and> map_of info ''ProductVersion'' = Some version"
  unfolding versioned_file_def bindR_ok by (auto split: if_splits dest!: with_overlay_ok)

text \<open>
  C17. \<open>set_version_info\<close> either replaces the executable by one with exactly the same overlay (the payload after the PE
  sections) whose version resource reads back as the product name and the version, or changes no file at all.
\<close>

theorem set_version_info_preserves_overlay:
  assumes "set_version_info A path version fs = (r, fs')"
  shows "case r of Inl _ \<Rightarrow> fs' = fs
    | Inr _ \<Rightarrow> \<exists>old new overlay info. fs path = Some old \<and> fs' = fs(path \<mapsto> new) \<and>
        executable_overlay old = Inr overlay \<and> executable_overlay new = Inr overlay \<and>
        version_info_of A new = Inr info \<and> map_of info ''ProductName'' = Some PRODUCT_NAME \<and> map_of info ''ProductVersion'' = Some version"
proof (cases r)
  case (Inl e)
  then show ?thesis using assms
    by (auto simp: set_version_info_def io_defs split: if_splits sum.splits)
next
  case (Inr u)
  then have "set_version_info A path version fs = (Inr (), fs')" using assms by simp
  then obtain old new where "fs path = Some old" "versioned_file A (path_name path) old version = Inr new" "fs' = fs(path \<mapsto> new)"
    unfolding set_version_info_def ok_iff read_file_def by auto
  then show ?thesis using versioned_file_ok Inr by fastforce
qed

lemma or_push: "b < 65536 \<Longrightarrow> or (push_bit 16 a) b = a * 65536 + (b :: nat)"
proof -
  assume "b < 65536"
  then have b: "take_bit 16 b = b" by (simp add: take_bit_nat_eq_self)
  have "and (push_bit 16 a) (take_bit 16 b) = 0" by (rule bit_eqI) (auto simp: bit_simps)
  then have "push_bit 16 a + b = or (push_bit 16 a) b" unfolding b by (rule disjunctive_add_eq_or)
  then show ?thesis by (simp add: push_bit_eq_mult)
qed

lemma le_bytes_add: "le_bytes (m + n) v = le_bytes m v @ le_bytes n (v div 256 ^ m)"
  by (induction m arbitrary: v) (simp_all add: div_mult2_eq)

lemma le_bytes_mod: "le_bytes m (v mod 256 ^ m) = le_bytes m v"
proof (induction m arbitrary: v)
  case (Suc m)
  have "v mod (256 * 256 ^ m) mod 256 = v mod 256" by (simp add: mod_mult2_eq)
  moreover have "v mod (256 * 256 ^ m) div 256 = v div 256 mod 256 ^ m" by (simp add: mod_mult2_eq)
  ultimately show ?case using Suc[of "v div 256"] by simp
qed simp

lemma le_bytes_pair: "b < 65536 \<Longrightarrow> le_bytes 4 (a * 65536 + b) = le_bytes 2 b @ le_bytes 2 a"
proof -
  assume b: "b < 65536"
  have "le_bytes (2 + 2) (a * 65536 + b) = le_bytes 2 (a * 65536 + b) @ le_bytes 2 ((a * 65536 + b) div 256 ^ 2)"
    by (rule le_bytes_add)
  moreover have "le_bytes 2 (a * 65536 + b) = le_bytes 2 b" using le_bytes_mod[of 2 "a * 65536 + b"] b by simp
  ultimately show ?thesis using b by simp
qed

lemma version_parts_ok:
  "version_parts version = Inr parts \<Longrightarrow> list_all (\<lambda>x. x \<le> 65535) parts"
  by (auto simp: version_parts_def Let_def list_all_iff list_ex_iff not_less split: if_splits)

lemma fixed_info_ok:
  assumes "fixed_info parts = Inr f" "list_all (\<lambda>x. x \<le> 65535) parts"
  shows "\<exists>a b c d u v. parts = [a, b, c, d] \<and> length u = 8 \<and> length v = 28 \<and>
    f = u @ le_bytes 2 b @ le_bytes 2 a @ le_bytes 2 d @ le_bytes 2 c @ le_bytes 2 b @ le_bytes 2 a @ le_bytes 2 d @ le_bytes 2 c @ v"
proof -
  obtain a b c d where p: "parts = [a, b, c, d]"
    using assms(1) by (auto simp: fixed_info_def split: list.splits)
  have "b < 65536" "d < 65536" using assms(2) p by auto
  note lt = this le_bytes_pair[OF this(1)] le_bytes_pair[OF this(2)] or_push[OF this(1)] or_push[OF this(2)]
  let ?u = "le_bytes 4 0xFEEF04BD @ le_bytes 4 0x10000"
  let ?v = "le_bytes 4 0x3F @ le_bytes 4 0 @ le_bytes 4 0x40004 @ le_bytes 4 1 @ le_bytes 4 0 @ le_bytes 4 0 @ le_bytes 4 0"
  have "f = ?u @ le_bytes 2 b @ le_bytes 2 a @ le_bytes 2 d @ le_bytes 2 c @ le_bytes 2 b @ le_bytes 2 a @ le_bytes 2 d @ le_bytes 2 c @ ?v"
    using assms(1) unfolding p fixed_info_def list.case pack_fields_def bindR_ok mapR.simps pack_le_ok lt
    by (auto simp: lt)
  moreover have "length ?u = 8" "length ?v = 28" by simp_all
  ultimately show ?thesis using p by blast
qed

lemma encode_utf16_ascii: "ascii s \<Longrightarrow> encode_utf16 s = Inr (concat (map (\<lambda>ch. [ch, CHR 0x00]) s))"
proof -
  assume s: "ascii s"
  have z: "char_of (0 :: nat) = CHR 0x00" by (simp add: char_of_def)
  have "concat (map (le_bytes 2) (utf16_units (char_point [c]))) = [c, CHR 0x00]" if "c \<in> set s" for c
  proof -
    have "(of_char c :: nat) < 128" using that s by (simp add: ascii_def list_all_iff)
    then show ?thesis by (simp add: char_point_def utf16_units_def numeral_2_eq_2 z)
  qed
  then show ?thesis using s ascii_no_surrogate by (simp add: encode_utf16_def chars_of_ascii cong: map_cong)
qed

lemma block_ok:
  assumes "block key val children is_text = Inr r" "encode_utf16 key = Inr k"
  shows "\<exists>h t. length h = 4 \<and> length r < 65536 \<and> r = le_bytes 2 (length r) @ h @ pad4 (k @ [CHR 0x00, CHR 0x00]) @ val @ t"
proof -
  let ?body = "pad4 (pad4 (k @ [CHR 0x00, CHR 0x00]) @ val) @ children"
  obtain h where h: "r = h @ ?body" "pack_fields 2 [length ?body + 6, if is_text then length val div 2 else length val, if is_text then 1 else 0] = Inr h"
    using assms unfolding block_def assms(2) bindR_simps Let_def bindR_ok by blast
  obtain x y where xy: "h = le_bytes 2 (length ?body + 6) @ le_bytes 2 x @ le_bytes 2 y" "length ?body + 6 < 65536"
    using h(2) unfolding pack_fields_def bindR_ok mapR.simps pack_le_ok by auto
  obtain z where "pad4 (pad4 (k @ [CHR 0x00, CHR 0x00]) @ val) = (pad4 (k @ [CHR 0x00, CHR 0x00]) @ val) @ z"
    using pad4_def by blast
  then have "r = le_bytes 2 (length ?body + 6) @ (le_bytes 2 x @ le_bytes 2 y) @ pad4 (k @ [CHR 0x00, CHR 0x00]) @ val @ (z @ children)"
    using h(1) xy(1) by simp
  moreover have "length ?body + 6 = length r" using h(1) xy(1) by simp
  moreover have "length (le_bytes 2 x @ le_bytes 2 y) = 4" by simp
  ultimately show ?thesis using xy(2) by metis
qed

text \<open>
  C18. In the resource that \<open>version_resource\<close> returns, the first field is the length of the whole resource, and the
  fixed file and product versions hold the four components of the version, each at most 65535, without overlap.
\<close>

theorem version_resource_fields:
  assumes "version_resource version filename = Inr r"
  shows "\<exists>a b c d. version_parts version = Inr [a, b, c, d] \<and> list_all (\<lambda>x. x \<le> 65535) [a, b, c, d] \<and>
    unpack_le 2 r 0 = Inr (length r) \<and>
    unpack_le 2 r 48 = Inr b \<and> unpack_le 2 r 50 = Inr a \<and> unpack_le 2 r 52 = Inr d \<and> unpack_le 2 r 54 = Inr c \<and>
    unpack_le 2 r 56 = Inr b \<and> unpack_le 2 r 58 = Inr a \<and> unpack_le 2 r 60 = Inr d \<and> unpack_le 2 r 62 = Inr c"
proof -
  obtain parts fixed children where p: "version_parts version = Inr parts" "fixed_info parts = Inr fixed"
    "block ''VS_VERSION_INFO'' fixed children False = Inr r"
    using assms unfolding version_resource_def bindR_ok by blast
  have parts: "list_all (\<lambda>x. x \<le> 65535) parts" using p(1) by (rule version_parts_ok)
  obtain a b c d u v where f: "parts = [a, b, c, d]" "length u = 8"
    "fixed = u @ le_bytes 2 b @ le_bytes 2 a @ le_bytes 2 d @ le_bytes 2 c @ le_bytes 2 b @ le_bytes 2 a @ le_bytes 2 d @ le_bytes 2 c @ v"
    using fixed_info_ok[OF p(2) parts] by blast
  define k where "k = concat (map (\<lambda>ch. [ch, CHR 0x00]) ''VS_VERSION_INFO'')"
  have k: "encode_utf16 ''VS_VERSION_INFO'' = Inr k" unfolding k_def by (rule encode_utf16_ascii) simp
  obtain h t L where b: "length h = 4" "L = length r" "L < 65536" "r = le_bytes 2 L @ h @ pad4 (k @ [CHR 0x00, CHR 0x00]) @ fixed @ t"
    using block_ok[OF p(3) k] by blast
  have "length (pad4 (k @ [CHR 0x00, CHR 0x00])) = 34" by (simp add: k_def pad4_def)
  then have "unpack_le 2 r 0 = Inr L \<and> unpack_le 2 r 48 = Inr b \<and> unpack_le 2 r 50 = Inr a \<and> unpack_le 2 r 52 = Inr d \<and>
      unpack_le 2 r 54 = Inr c \<and> unpack_le 2 r 56 = Inr b \<and> unpack_le 2 r 58 = Inr a \<and> unpack_le 2 r 60 = Inr d \<and> unpack_le 2 r 62 = Inr c"
    unfolding b(4) f(3) using parts b(1,3) f(1,2) by (simp add: unpack_le_def le_val_bytes)
  then show ?thesis using p(1) parts f(1) b(2) by auto
qed

subsection \<open>Witnesses\<close>

lemma pad4_length: "length (pad4 b) \<le> length b + 3"
proof -
  have "- (int (length b) + 6) mod 4 < 4" by simp
  then show ?thesis by (simp add: pad4_def nat_le_iff del: minus_add_distrib)
qed

lemma block_total:
  assumes "ascii key" "length key * 2 + length val + length children + 14 < 65536"
  shows "\<exists>r. block key val children is_text = Inr r \<and> length r \<le> length key * 2 + length val + length children + 14"
proof -
  let ?k = "concat (map (\<lambda>ch. [ch, CHR 0x00]) key)"
  let ?body = "pad4 (pad4 (?k @ [CHR 0x00, CHR 0x00]) @ val) @ children"
  have "length ?k = length key * 2" by (simp add: length_concat comp_def sum_list_triv)
  then have l: "length ?body \<le> length key * 2 + length val + length children + 8"
    using pad4_length[of "?k @ [CHR 0x00, CHR 0x00]"] pad4_length[of "pad4 (?k @ [CHR 0x00, CHR 0x00]) @ val"] by simp
  define n where "n = (if is_text then length val div 2 else length val)"
  have "n < 65536" using assms(2) by (auto simp: n_def)
  then have "pack_fields 2 [length ?body + 6, n, if is_text then 1 else 0] =
      Inr (le_bytes 2 (length ?body + 6) @ le_bytes 2 n @ le_bytes 2 (if is_text then 1 else 0))"
    using l assms(2) by (simp add: pack_fields_def pack_le_def)
  then show ?thesis using l assms(2) by (simp add: block_def encode_utf16_ascii[OF assms(1)] Let_def n_def)
qed

lemma mapR_total:
  "(\<And>x. x \<in> set xs \<Longrightarrow> \<exists>y. f x = Inr y \<and> length y \<le> n) \<Longrightarrow> \<exists>ys. mapR f xs = Inr ys \<and> length (concat ys) \<le> length xs * n"
proof (induction xs)
  case (Cons x xs)
  obtain y where "f x = Inr y" "length y \<le> n" using Cons.prems by auto
  moreover obtain ys where "mapR f xs = Inr ys" "length (concat ys) \<le> length xs * n" using Cons by auto
  ultimately show ?case by (intro exI[of _ "y # ys"]) simp
qed simp

lemma name_stem_ok: "ascii f \<Longrightarrow> ascii (name_stem f) \<and> length (name_stem f) \<le> length f"
proof -
  assume "ascii f"
  then have "ascii (take n f)" for n by (simp add: ascii_def list_all_iff) (meson in_set_takeD)
  then show ?thesis using \<open>ascii f\<close> by (simp add: name_stem_def Let_def)
qed

text \<open>A version within bounds and an ASCII file name of an ordinary length always give a resource.\<close>

lemma version_resource_total:
  assumes "version_parts version = Inr [a, b, c, d]" "ascii version" "ascii filename" "path_name filename = filename"
    "length version \<le> 1000" "length filename \<le> 1000"
  shows "\<exists>r. version_resource version filename = Inr r"
proof -
  let ?f = "\<lambda>(key, val). bindR (encode_utf16 (val @ [CHR 0x00])) (\<lambda>v. block key v [] True)"
  have bd: "a \<le> 65535" "b \<le> 65535" "c \<le> 65535" "d \<le> 65535" using version_parts_ok[OF assms(1)] by simp_all
  have "\<exists>fixed. fixed_info [a, b, c, d] = Inr fixed \<and> length fixed = 52"
    using bd by (simp add: fixed_info_def pack_fields_def pack_le_def or_push)
  then obtain fixed where fixed: "fixed_info [a, b, c, d] = Inr fixed" "length fixed = 52" by blast
  have entry: "\<exists>y. ?f kv = Inr y \<and> length y \<le> 2100" if "kv \<in> set (string_values version filename)" for kv
  proof -
    obtain k v where kv: "kv = (k, v)" by (cases kv)
    have "ascii k \<and> ascii v \<and> length k \<le> 20 \<and> length v \<le> 1000"
      using that name_stem_ok[OF assms(3)] assms unfolding kv by (auto simp: string_values_def PRODUCT_NAME_def)
    then show ?thesis
      using block_total[of k "concat (map (\<lambda>ch. [ch, CHR 0x00]) (v @ [CHR 0x00]))" "[]" True]
      by (fastforce simp: kv encode_utf16_ascii length_concat comp_def sum_list_triv)
  qed
  have len: "length (string_values version filename) = 8" by (simp add: string_values_def)
  obtain strings where strings: "mapR ?f (string_values version filename) = Inr strings" "length (concat strings) \<le> 16800"
    using mapR_total[of "string_values version filename" ?f 2100, OF entry] unfolding len by auto
  obtain table where table: "block ''040904b0'' [] (concat strings) True = Inr table" "length table \<le> 17000"
    using block_total[of "''040904b0''" "[]" "concat strings" True] strings(2) by fastforce
  obtain info where info: "block ''StringFileInfo'' [] table True = Inr info" "length info \<le> 18000"
    using block_total[of "''StringFileInfo''" "[]" table True] table(2) by fastforce
  obtain t where t: "pack_fields 2 [0x409, 1200] = Inr t" "length t = 4" by (simp add: pack_fields_def pack_le_def)
  obtain tr where tr: "block ''Translation'' t [] False = Inr tr" "length tr \<le> 100"
    using block_total[of "''Translation''" t "[]" False] t(2) by fastforce
  obtain vi where vi: "block ''VarFileInfo'' [] tr True = Inr vi" "length vi \<le> 300"
    using block_total[of "''VarFileInfo''" "[]" tr True] tr(2) by fastforce
  obtain r where "block ''VS_VERSION_INFO'' fixed (info @ vi) False = Inr r"
    using block_total[of "''VS_VERSION_INFO''" fixed "info @ vi" False] info(2) vi(2) fixed(2) by fastforce
  then show ?thesis unfolding version_resource_def assms(1) bindR_simps fixed(1) strings(1) table(1) info(1) t(1) tr(1) vi(1) by blast
qed

definition demo_version :: string where
  "demo_version = ''1.2.3+4''"

lemma demo_version_parts: "version_parts demo_version = Inr [1, 2, 3, 4]"
proof -
  have "fullmatch rx_version4 demo_version" "map digits_val (split_on ''.'' (replace_str ''+'' ''.'' demo_version)) = [1, 2, 3, 4]"
    by code_simp+
  then show ?thesis by (simp only: version_parts_def Let_def) simp
qed

lemma demo_resource: "\<exists>r. version_resource demo_version ''a.exe'' = Inr r"
proof (rule version_resource_total[OF demo_version_parts])
  show "path_name ''a.exe'' = ''a.exe''" by code_simp
qed (simp_all add: demo_version_def)

theorem version_resource_fields_witness:
  "\<exists>r a b c d. version_resource demo_version ''a.exe'' = Inr r \<and>
    version_parts demo_version = Inr [a, b, c, d] \<and> list_all (\<lambda>x. x \<le> 65535) [a, b, c, d] \<and>
    unpack_le 2 r 0 = Inr (length r) \<and>
    unpack_le 2 r 48 = Inr b \<and> unpack_le 2 r 50 = Inr a \<and> unpack_le 2 r 52 = Inr d \<and> unpack_le 2 r 54 = Inr c \<and>
    unpack_le 2 r 56 = Inr b \<and> unpack_le 2 r 58 = Inr a \<and> unpack_le 2 r 60 = Inr d \<and> unpack_le 2 r 62 = Inr c"
proof -
  obtain r where r: "version_resource demo_version ''a.exe'' = Inr r" using demo_resource by blast
  from version_resource_fields[OF r] r show ?thesis by metis
qed

text \<open>A small executable without sections, followed by an overlay that the editing removes\<close>

definition demo_pe :: bytes where
  "demo_pe = ''MZ'' @ replicate 58 CHR 0x00 @ [CHR 0x40, CHR 0x00, CHR 0x00, CHR 0x00] @ ''PE'' @ replicate 22 CHR 0x00 @
     [CHR 0x0B, CHR 0x01] @ replicate 58 CHR 0x00 @ [CHR 0xE0, CHR 0x00, CHR 0x00, CHR 0x00] @ replicate 72 CHR 0x00"

lemma demo_pe_overlay: "executable_overlay demo_pe = Inr []"
  by code_simp

definition demo_winapi :: winapi where
  "demo_winapi = \<lparr>wa_nt = True, wa_info_size = (\<lambda>_. 1), wa_info = (\<lambda>_. Some []),
     wa_query = (\<lambda>_ path. if contains path ''Translation'' then Some ([0x409, 1200], 4)
       else if contains path ''ProductName'' then Some (map of_char PRODUCT_NAME, 12) else Some (map of_char demo_version, 8)),
     wa_begin = (\<lambda>_. True), wa_update = (\<lambda>_ _. True), wa_end = (\<lambda>file _ _. Some (take (length demo_pe) file))\<rparr>"

lemma demo_info: "\<exists>info. version_info_of demo_winapi f = Inr info \<and> map_of info ''ProductName'' = Some PRODUCT_NAME \<and>
    map_of info ''ProductVersion'' = Some demo_version"
proof -
  have "contains (backslash @ ''VarFileInfo'' @ backslash @ ''Translation'') ''Translation''" by code_simp
  moreover have "utf16_text (take (12 - 1) (map of_char PRODUCT_NAME)) = PRODUCT_NAME"
    "utf16_text (take (8 - 1) (map of_char demo_version)) = demo_version"
    by (simp_all add: PRODUCT_NAME_def demo_version_def utf8_enc_def char_of_def bit_0)
  moreover have "\<not> contains (backslash @ ''StringFileInfo'' @ backslash @ (hex_digits4 0x409 @ hex_digits4 1200) @ backslash @ k) ''Translation''"
    "contains (backslash @ ''StringFileInfo'' @ backslash @ (hex_digits4 0x409 @ hex_digits4 1200) @ backslash @ k) ''ProductName'' \<longleftrightarrow> k = ''ProductName''"
    if "k \<in> {''ProductName'', ''ProductVersion'', ''OriginalFilename''}" for k
    using that by (auto simp: backslash_def hex_digits4_def nibble_def startswith_def)
  ultimately show ?thesis
    by (simp add: version_info_of_def demo_winapi_def version_attribute_def)
qed

theorem set_version_info_preserves_overlay_witness:
  "\<exists>fs'. set_version_info demo_winapi ''a.exe'' demo_version [''a.exe'' \<mapsto> demo_pe @ ''DART''] = (Inr (), fs') \<and>
    (\<exists>old new overlay info. [''a.exe'' \<mapsto> demo_pe @ ''DART''] ''a.exe'' = Some old \<and> fs' = [''a.exe'' \<mapsto> demo_pe @ ''DART''](''a.exe'' \<mapsto> new) \<and>
        executable_overlay old = Inr overlay \<and> executable_overlay new = Inr overlay \<and>
        version_info_of demo_winapi new = Inr info \<and> map_of info ''ProductName'' = Some PRODUCT_NAME \<and> map_of info ''ProductVersion'' = Some demo_version)"
proof -
  obtain r where r: "version_resource demo_version ''a.exe'' = Inr r" using demo_resource by blast
  have n: "path_name ''a.exe'' = ''a.exe''" by code_simp
  have w: "wa_begin demo_winapi f" "wa_update demo_winapi f r" "wa_end demo_winapi f r b = Some (take (length demo_pe) f)" "wa_nt demo_winapi" for f b
    by (simp_all add: demo_winapi_def)
  obtain info where info: "version_info_of demo_winapi (demo_pe @ ''DART'') = Inr info" "map_of info ''ProductName'' = Some PRODUCT_NAME"
    "map_of info ''ProductVersion'' = Some demo_version" using demo_info by blast
  have "versioned_file demo_winapi ''a.exe'' (demo_pe @ ''DART'') demo_version = Inr (demo_pe @ ''DART'')"
    by (simp add: versioned_file_def r overlay_append[OF demo_pe_overlay] updated_candidate_def w with_overlay_def demo_pe_overlay info)
  then have s: "set_version_info demo_winapi ''a.exe'' demo_version [''a.exe'' \<mapsto> demo_pe @ ''DART''] = (Inr (), [''a.exe'' \<mapsto> demo_pe @ ''DART''])"
    by (simp add: set_version_info_def io_defs n w read_file_def)
  from set_version_info_preserves_overlay[OF s] s show ?thesis by auto
qed

end
