(* ===== verification/Installer_Build.thy ===== *)
theory Installer_Build
  imports Installer_Keys Odbc_Native Windows_Version
begin

text \<open>
  \<open>installer/build_installer.py\<close>: the build of the Windows installer. Settings come from the environment or from the
  file \<open>.env\<close>; \<open>main\<close> accepts only the manifest mode, sets the update policy, builds with Flutter, checks the bundle,
  stamps the versions, compiles the installer and records the key evidence. \<open>A\<close> is the Windows interface.
\<close>

subsection \<open>Settings\<close>

text \<open>\<open>s.strip(c)\<close> for one character\<close>

definition strip_char :: "char \<Rightarrow> string \<Rightarrow> string" where
  "strip_char c s = rev (dropWhile (\<lambda>x. x = c) (rev (dropWhile (\<lambda>x. x = c) s)))"

definition env_line_value :: "string \<Rightarrow> string \<Rightarrow> string option" where
  "env_line_value key raw_line = (let line = strip raw_line in
     if line = [] \<or> startswith line ''#'' then None
     else case str_cut ''='' line of None \<Rightarrow> None
       | Some (k, v) \<Rightarrow> if strip k \<noteq> key then None else Some (strip_char CHR 0x27 (strip_char CHR 0x22 (strip v))))"

definition env_file_value :: "string \<Rightarrow> string \<Rightarrow> string option" where
  "env_file_value t key = (case first_match (env_line_value key) (splitlines t) of
     None \<Rightarrow> None | Some v \<Rightarrow> if v = [] then None else Some v)"

definition read_env_value :: "string \<Rightarrow> string option pio" where
  "read_env_value key = bindI (readI (\<lambda>w. pw_files w ''.env'')) (\<lambda>file.
     case file of None \<Rightarrow> retI None | Some b \<Rightarrow> bindI (liftI (decode_text b)) (\<lambda>t. retI (env_file_value t key)))"

text \<open>\<open>os.environ.get(key) or read_env_value(key)\<close>\<close>

definition resolve_auto_update_define :: "string \<Rightarrow> string option pio" where
  "resolve_auto_update_define key = bindI (env_get key) (\<lambda>v.
     case v of Some s \<Rightarrow> if s = [] then read_env_value key else retI v | None \<Rightarrow> read_env_value key)"

definition resolve_auto_update_feed_url :: "string option pio" where
  "resolve_auto_update_feed_url = resolve_auto_update_define ''AUTO_UPDATE_FEED_URL''"

definition read_env_flag :: "string \<Rightarrow> bool \<Rightarrow> bool pio" where
  "read_env_flag key dflt = bindI (resolve_auto_update_define key) (\<lambda>v.
     retI (case v of None \<Rightarrow> dflt | Some s \<Rightarrow> lower (strip s) \<in> set [''1'', ''true'', ''yes'', ''on'']))"

text \<open>\<open>signing_cert_path\<close> (a leading \<open>~\<close> is not expanded), \<open>signing_password\<close> and \<open>timestamp_url\<close>\<close>

definition signing_cert_path :: "string option pio" where
  "signing_cert_path = bindI (resolve_auto_update_define ''WINDOWS_CODE_SIGNING_CERT_PATH'') (\<lambda>v.
     retI (or_else v None))"

definition signing_password :: "string option pio" where
  "signing_password = resolve_auto_update_define ''WINDOWS_CODE_SIGNING_CERT_PASSWORD''"

definition timestamp_url :: "string pio" where
  "timestamp_url = bindI (resolve_auto_update_define ''WINDOWS_CODE_SIGNING_TIMESTAMP_URL'') (\<lambda>v.
     retI (case or_else v None of Some s \<Rightarrow> s | None \<Rightarrow> ''http://timestamp.digicert.com''))"

definition should_sign_artifacts :: "bool pio" where
  "should_sign_artifacts = bindI signing_cert_path (\<lambda>c.
     if c \<noteq> None then retI True else read_env_flag ''WINDOWS_CODE_SIGNING_REQUIRED'' False)"

definition auto_update_requires_valid_signature :: "bool pio" where
  "auto_update_requires_valid_signature = bindI (resolve_auto_update_define ''AUTO_UPDATE_REQUIRE_VALID_SIGNATURE'') (\<lambda>v.
     retI (case v of None \<Rightarrow> True
       | Some s \<Rightarrow> strip s = [] \<or> lower (strip s) \<notin> set [''0'', ''false'', ''no'', ''nao'']))"

definition ensure_signing_matches_runtime :: "unit pio" where
  "ensure_signing_matches_runtime = bindI auto_update_requires_valid_signature (\<lambda>required.
     if \<not> required then retI ()
     else bindI should_sign_artifacts (\<lambda>signed.
       guardI (\<not> signed) (ExitErr ''Refusing to build: AUTO_UPDATE_REQUIRE_VALID_SIGNATURE resolves to true'')))"

subsection \<open>Feed keys\<close>

definition check_key :: "string \<Rightarrow> unit res" where
  "check_key key = (case b64decode True key of
     None \<Rightarrow> Inl (ExitErr ''AUTO_UPDATE_FEED_PUBLIC_KEY must contain base64 Ed25519 public keys.'')
   | Some b \<Rightarrow> if length b \<noteq> 32 then Inl (ExitErr ''AUTO_UPDATE_FEED_PUBLIC_KEY entries must decode to 32 bytes.'') else Inr ())"

definition configure_native_feed_keys :: "string option pio" where
  "configure_native_feed_keys = bindI (resolve_auto_update_define ''AUTO_UPDATE_FEED_PUBLIC_KEY'') (\<lambda>v.
     if (case v of None \<Rightarrow> True | Some s \<Rightarrow> s = [] \<or> strip s = []) then
       bindI should_sign_artifacts (\<lambda>signed.
       if signed then raiseI (ExitErr ''Refusing to build a signed installer without AUTO_UPDATE_FEED_PUBLIC_KEY.'') else retI None)
     else let keys = map strip (split_on '','' (case v of Some s \<Rightarrow> s | None \<Rightarrow> [])); normalized = join '','' keys in
       bindI (liftI (mapR check_key keys)) (\<lambda>_.
       bindI (env_set ''AUTO_UPDATE_FEED_PUBLIC_KEY'' normalized) (\<lambda>_. retI (Some normalized))))"

definition BUILD_DIR :: string where
  "BUILD_DIR = ''build/windows/x64/runner/Release''"

definition verify_native_feed_keys :: "string option \<Rightarrow> unit pio" where
  "verify_native_feed_keys keys = (case keys of None \<Rightarrow> retI ()
     | Some k \<Rightarrow> if k = [] then retI ()
         else checkI (\<lambda>w. case pw_files w (path_join BUILD_DIR ''updater/plug_update_client.exe'') of
             Some b \<Rightarrow> if contains b (k @ [CHR 0x00]) then Inr ()
               else Inl (ExitErr ''Native updater is missing the configured AUTO_UPDATE_FEED_PUBLIC_KEY.'')
           | None \<Rightarrow> Inl (ExitErr ''Native updater is missing the configured AUTO_UPDATE_FEED_PUBLIC_KEY.'')))"

subsection \<open>Tools\<close>

definition iscc_dirs :: "string list" where
  "iscc_dirs = [''C:'' @ backslash @ ''Program Files (x86)'' @ backslash @ ''Inno Setup 6'' @ backslash @ ''ISCC.exe'',
     ''C:'' @ backslash @ ''Program Files'' @ backslash @ ''Inno Setup 6'' @ backslash @ ''ISCC.exe'']"

definition find_iscc :: "os_env \<Rightarrow> string pio" where
  "find_iscc S = checkI (\<lambda>w. if os_which S ''ISCC'' \<noteq> None then Inr ''ISCC''
     else case filter (\<lambda>p. pw_files w p \<noteq> None) iscc_dirs of
       p # _ \<Rightarrow> Inr p | [] \<Rightarrow> Inl (ExitErr ''Inno Setup (ISCC) nao encontrado.''))"

definition kit_dirs :: "string list" where
  "kit_dirs = [''C:'' @ backslash @ ''Program Files (x86)'' @ backslash @ ''Windows Kits'' @ backslash @ ''10'' @ backslash @ ''bin'',
     ''C:'' @ backslash @ ''Program Files'' @ backslash @ ''Windows Kits'' @ backslash @ ''10'' @ backslash @ ''bin'']"

text \<open>\<open>root.glob(r"*\x64\signtool.exe")\<close>\<close>

definition signtools_below :: "string list \<Rightarrow> string \<Rightarrow> string list" where
  "signtools_below paths dir = filter (\<lambda>p. let tail = backslash @ ''x64'' @ backslash @ ''signtool.exe'';
       v = removesuffix (removeprefix p (dir @ backslash)) tail in
     p = dir @ backslash @ v @ tail \<and> v \<noteq> [] \<and> CHR 0x5C \<notin> set v) paths"

definition newest_signtool :: "string list \<Rightarrow> string \<Rightarrow> string option" where
  "newest_signtool paths dir = (case signtools_below paths dir of [] \<Rightarrow> None
     | cs \<Rightarrow> Some (last (sort_key (replace_str backslash ''/'') cs)))"

definition find_signtool :: "os_env \<Rightarrow> string option pio" where
  "find_signtool S = readI (\<lambda>w. if os_which S ''signtool'' \<noteq> None then Some ''signtool''
     else first_match (newest_signtool (os_list S (pw_files w))) kit_dirs)"

definition resolve_command_build :: "os_env \<Rightarrow> string list \<Rightarrow> string list res" where
  "resolve_command_build S cmd = (case cmd of
     [] \<Rightarrow> Inl (ExitErr ''Comando vazio'')
   | executable # args \<Rightarrow>
     let resolved = (if path_tail executable = executable then (case os_which S executable of Some p \<Rightarrow> p | None \<Rightarrow> executable) else executable) in
     Inr (if is_batch resolved then [''cmd.exe'', ''/d'', ''/c'', resolved] @ args else resolved # args))"

definition run_build :: "os_env \<Rightarrow> string list \<Rightarrow> unit pio" where
  "run_build S cmd =
     bindI (liftI (resolve_command_build S cmd)) (\<lambda>args.
     catchI (bindI (run_process S args) (\<lambda>p. if p_code p \<noteq> 0 then raiseI (ExitCode (p_code p)) else retI ()))
       (\<lambda>e. case e of FileNotFoundErr \<Rightarrow> raiseI (ExitErr ''Comando nao encontrado'') | _ \<Rightarrow> raiseI e))"

subsection \<open>The installer script\<close>

text \<open>\<open>^#define MyAppVersion "([0-9]+\.[0-9]+\.[0-9]+)"$\<close> at a line start\<close>

definition exact_define :: "string \<Rightarrow> string option" where
  "exact_define s = (let head = ''#define MyAppVersion '' @ [CHR 0x22]; line = takeWhile (\<lambda>c. c \<noteq> CHR 0x0A) s;
       v = removesuffix (removeprefix line head) [CHR 0x22] in
     if line = head @ v @ [CHR 0x22] \<and> fullmatch rx_version3 v then Some v else None)"

definition find_generated_installer :: "string pio" where
  "find_generated_installer =
     checkI (\<lambda>w. bindR (read_file (pw_files w) ''installer/setup.iss'') (\<lambda>b. bindR (decode_text b) (\<lambda>t.
       case first_match exact_define (at_lines t) of
         None \<Rightarrow> Inl (ExitErr ''Invalid installer version'')
       | Some v \<Rightarrow> let expected = ''installer/dist/PlugAgente-Setup-'' @ v @ ''.exe'' in
           if pw_files w expected = None then Inl (ExitErr ''Erro: instalador esperado nao encontrado'') else Inr expected)))"

definition build_iscc_signtool_command :: "os_env \<Rightarrow> string option pio" where
  "build_iscc_signtool_command S =
     bindI signing_cert_path (\<lambda>c. case c of None \<Rightarrow> retI None
     | Some cert_path \<Rightarrow>
       bindI (file_exists cert_path) (\<lambda>present.
       bindI (guardI (\<not> present) (ExitErr ''Certificado de assinatura nao encontrado'')) (\<lambda>_.
       bindI (find_signtool S) (\<lambda>tool. case tool of
           None \<Rightarrow> raiseI (ExitErr ''signtool nao encontrado. Instale Windows SDK ou coloque signtool no PATH.'')
         | Some signtool \<Rightarrow>
           bindI timestamp_url (\<lambda>url.
           bindI signing_password (\<lambda>password.
           retI (Some ([CHR 0x22] @ signtool @ [CHR 0x22] @ '' sign /f '' @ [CHR 0x22] @ cert_path @ [CHR 0x22] @ '' /fd SHA256 /tr '' @ url @
             '' /td SHA256'' @ (case or_else password None of None \<Rightarrow> [] | Some p \<Rightarrow> '' /p '' @ [CHR 0x22] @ p @ [CHR 0x22]) @ '' $f'')))))))) "

definition REQUIRED_VC_RUNTIME_DLLS :: "string list" where
  "REQUIRED_VC_RUNTIME_DLLS = [''msvcp140.dll'', ''vcruntime140.dll'', ''vcruntime140_1.dll'']"

definition verify_bundled_vc_runtime :: "unit pio" where
  "verify_bundled_vc_runtime = checkI (\<lambda>w.
     let missing = filter (\<lambda>n. case pw_files w (path_join BUILD_DIR n) of None \<Rightarrow> True | Some b \<Rightarrow> b = []) REQUIRED_VC_RUNTIME_DLLS in
     if missing \<noteq> [] then Inl (ExitErr (''Visual C++ runtime missing from the application bundle: '' @ join '', '' missing)) else Inr ())"

text \<open>The assets registered for the family \<open>Montserrat\<close>\<close>

definition family_fonts :: "json \<Rightarrow> json list res" where
  "family_fonts family = bindR (dget family ''family'') (\<lambda>n.
     if \<not> py_eq n (JStr ''Montserrat'') then Inr []
     else (case family of
         JObj kvs \<Rightarrow> (case map_of kvs ''fonts'' of None \<Rightarrow> Inr []
           | Some (JList fs) \<Rightarrow> mapR (\<lambda>f. item f ''asset'') fs | Some _ \<Rightarrow> Inl TypeErr)
       | _ \<Rightarrow> Inl AttributeErr))"

definition registered_fonts :: "json \<Rightarrow> json list res" where
  "registered_fonts manifest = (case manifest of
     JList families \<Rightarrow> bindR (mapR family_fonts families) (\<lambda>fss. Inr (concat fss)) | _ \<Rightarrow> Inl TypeErr)"

definition font_ok :: "files \<Rightarrow> json list \<Rightarrow> string \<Rightarrow> unit res" where
  "font_ok fs registered name = (let relative = ''assets/fonts/montserrat/'' @ name;
       stale = Inl (ExitErr (''Bundled Montserrat font is missing or stale: '' @ name)) in
     if JStr relative \<notin> set registered then stale
     else case fs (path_join BUILD_DIR (''data/flutter_assets/'' @ relative)) of
       None \<Rightarrow> stale
     | Some bundled \<Rightarrow> bindR (read_file fs relative) (\<lambda>source. if sha256_hex bundled \<noteq> sha256_hex source then stale else Inr ()))"

definition verify_bundled_fonts :: "unit pio" where
  "verify_bundled_fonts = checkI (\<lambda>w.
     bindR (read_file (pw_files w) (path_join BUILD_DIR ''data/flutter_assets/FontManifest.json'')) (\<lambda>b.
     bindR (decode_text b) (\<lambda>t. bindR (json_loads t) (\<lambda>manifest.
     bindR (registered_fonts manifest) (\<lambda>registered.
     bindR (font_ok (pw_files w) registered ''Montserrat.ttf'') (\<lambda>_.
     font_ok (pw_files w) registered ''Montserrat-Italic.ttf''))))))"

text \<open>\<open>readme.decode("utf-16-le")\<close>: pairs of bytes, no half pair and no lone surrogate\<close>

fun le_units :: "bytes \<Rightarrow> nat list option" where
  "le_units [] = Some []"
| "le_units [a] = None"
| "le_units (a # b # r) = map_option (\<lambda>us. (of_char a + 256 * of_char b) # us) (le_units r)"

definition decode_utf16 :: "bytes \<Rightarrow> string res" where
  "decode_utf16 b = (case le_units b of None \<Rightarrow> Inl (ValueErr ''UnicodeDecodeError'')
     | Some us \<Rightarrow> let t = utf16_text us in if has_surrogate t then Inl (ValueErr ''UnicodeDecodeError'') else Inr t)"

definition privacy_notice :: "bytes \<Rightarrow> string res" where
  "privacy_notice readme =
     bindR (if CHR 0x00 \<in> set (take 100 readme) then decode_utf16 readme else decode_utf8 readme) (\<lambda>t.
     case str_cut ''## Privacy policy'' t of
       None \<Rightarrow> Inl (ExitErr (''Installer requires the project'' @ [CHR 0x27] @ ''s privacy policy''))
     | Some (_, rest) \<Rightarrow> Inr (strip (split_head (newline @ ''## '') rest)))"

definition prepare_privacy_notice :: "string pio" where
  "prepare_privacy_notice =
     bindI (read_bytes ''readme.md'') (\<lambda>readme.
     bindI (liftI (privacy_notice readme)) (\<lambda>notice.
     bindI (write_bytes ''installer/dist/privacy-notice.txt'' (bom @ notice @ newline)) (\<lambda>_.
     retI ''installer/dist/privacy-notice.txt'')))"

definition build_iscc_command :: "os_env \<Rightarrow> string option \<Rightarrow> string list pio" where
  "build_iscc_command S signed_uninstaller_dir =
     bindI (find_iscc S) (\<lambda>iscc.
     bindI (read_text ''pubspec.yaml'') (\<lambda>pubspec.
     case first_match build_version (at_lines pubspec) of
       None \<Rightarrow> raiseI (ExitErr ''Installer worker requires the exact application version including build number'')
     | Some version \<Rightarrow>
       bindI (read_text ''installer/setup.iss'') (\<lambda>setup.
       bindI (guardI (first_match exact_define (at_lines setup) \<noteq> Some (split_head ''+'' version))
         (ExitErr ''Installer version differs from pubspec.yaml; run installer/update_version.py'')) (\<lambda>_.
       bindI (resolve_auto_update_define ''AUTO_UPDATE_CHANNEL'') (\<lambda>c.
       let channel = (case or_else c None of Some s \<Rightarrow> s | None \<Rightarrow> ''stable'') in
       bindI (guardI (channel \<notin> set [''stable'', ''beta'', ''internal'']) (ExitErr ''Invalid installer update channel'')) (\<lambda>_.
       bindI prepare_privacy_notice (\<lambda>notice.
       bindI (if signed_uninstaller_dir \<noteq> None then retI None else build_iscc_signtool_command S) (\<lambda>sign_command.
       bindI (case sign_command of None \<Rightarrow> retI () | Some _ \<Rightarrow> print_line ''   ISCC SignTool habilitado (SignedUninstaller).'') (\<lambda>_.
       retI ([iscc, ''/DMyAppWorkerVersion='' @ version, ''/DMyAppChannel='' @ channel, ''/DPrivacyNoticeFile='' @ notice] @
         (case signed_uninstaller_dir of None \<Rightarrow> [] | Some d \<Rightarrow> [''/DExternalSignedUninstallerDir='' @ d]) @
         (case sign_command of None \<Rightarrow> [] | Some s \<Rightarrow> [''/DSIGN_INSTALLER'', ''/Smysigntool='' @ s]) @
         [''installer/setup.iss'']))))))))))"

definition verify_signed_file :: "os_env \<Rightarrow> string \<Rightarrow> unit pio" where
  "verify_signed_file S path = bindI (find_signtool S) (\<lambda>tool. case tool of
     None \<Rightarrow> raiseI (ExitErr ''signtool nao encontrado. Instale Windows SDK ou coloque signtool no PATH.'')
   | Some signtool \<Rightarrow> run_build S [signtool, ''verify'', ''/pa'', ''/v'', path])"

definition sign_file :: "os_env \<Rightarrow> string \<Rightarrow> unit pio" where
  "sign_file S path =
     bindI signing_cert_path (\<lambda>c.
     bindI (read_env_flag ''WINDOWS_CODE_SIGNING_REQUIRED'' False) (\<lambda>required. case c of
       None \<Rightarrow> if required then raiseI (ExitErr ''WINDOWS_CODE_SIGNING_REQUIRED=true, mas WINDOWS_CODE_SIGNING_CERT_PATH nao foi definido.'')
         else print_line (''   Assinatura ignorada para '' @ path_tail path @ '': certificado nao configurado.'')
     | Some cert_path \<Rightarrow>
       bindI (file_exists cert_path) (\<lambda>present.
       bindI (guardI (\<not> present) (ExitErr ''Certificado de assinatura nao encontrado'')) (\<lambda>_.
       bindI (find_signtool S) (\<lambda>tool. case tool of
           None \<Rightarrow> raiseI (ExitErr ''signtool nao encontrado. Instale Windows SDK ou coloque signtool no PATH.'')
         | Some signtool \<Rightarrow>
           bindI timestamp_url (\<lambda>url.
           bindI signing_password (\<lambda>password.
           bindI (run_build S ([signtool, ''sign'', ''/f'', cert_path, ''/fd'', ''SHA256'', ''/tr'', url, ''/td'', ''SHA256''] @
             (case or_else password None of None \<Rightarrow> [] | Some p \<Rightarrow> [''/p'', p]) @ [path])) (\<lambda>_.
           verify_signed_file S path))))))))"

subsection \<open>main\<close>

record build_args =
  ba_sync_version :: bool
  ba_prepare_signpath :: bool

definition policy_true :: "string list" where
  "policy_true = [''1'', ''true'', ''yes'', ''sim'']"

definition policy_tokens :: "string list" where
  "policy_tokens = [''0'', ''false'', ''no'', ''nao''] @ policy_true"

definition set_policy :: "string \<times> bool \<Rightarrow> unit pio" where
  "set_policy ke = (case ke of (key, expected) \<Rightarrow>
     bindI (resolve_auto_update_define key) (\<lambda>v.
     bindI (guardI (case v of None \<Rightarrow> False
         | Some s \<Rightarrow> lower s \<notin> set policy_tokens \<or> (lower s \<in> set policy_true) \<noteq> expected)
       (ExitErr (''Conflicting '' @ key @ '': official builds require '' @ (if expected then ''true'' else ''false'')))) (\<lambda>_.
     env_set key (if expected then ''true'' else ''false''))))"

definition policy_keys :: "(string \<times> bool) list" where
  "policy_keys = [(''AUTO_UPDATE_REQUIRE_VALID_SIGNATURE'', False), (''WINDOWS_CODE_SIGNING_REQUIRED'', False),
     (''AUTO_UPDATE_REQUIRE_FEED_SIGNATURE'', True)]"

text \<open>The first part of \<open>main\<close>: refuses every mode but the manifest one, and returns the feed keys\<close>

definition configure_build :: "build_args \<Rightarrow> string pio" where
  "configure_build args =
     bindI (if ba_prepare_signpath args then retI True else bindI signing_cert_path (\<lambda>c. retI (c \<noteq> None))) (\<lambda>refuse.
     bindI (guardI refuse (ExitErr ''Manifest-only mode cannot use SignPath or a local signing certificate'')) (\<lambda>_.
     bindI (resolve_auto_update_define ''SIGNING_PROVIDER'') (\<lambda>p.
     bindI (guardI ((case or_else p None of Some s \<Rightarrow> s | None \<Rightarrow> ''manifest'') \<noteq> ''manifest'')
       (ExitErr ''Official builds require SIGNING_PROVIDER=manifest'')) (\<lambda>_.
     bindI (forI policy_keys set_policy) (\<lambda>_.
     bindI ensure_signing_matches_runtime (\<lambda>_.
     bindI configure_native_feed_keys (\<lambda>keys.
     case or_else keys None of
       None \<Rightarrow> raiseI (ExitErr ''Manifest-only updates require the Ed25519 feed public key'')
     | Some feed_keys \<Rightarrow>
         bindI auto_update_requires_valid_signature (\<lambda>required.
         bindI (env_set ''AUTO_UPDATE_REQUIRE_VALID_SIGNATURE'' (if required then ''true'' else ''false'')) (\<lambda>_.
         retI feed_keys)))))))))"

definition define_for :: "string \<Rightarrow> string list pio" where
  "define_for key = bindI (resolve_auto_update_define key) (\<lambda>v.
     case or_else v None of None \<Rightarrow> retI []
     | Some s \<Rightarrow> bindI (print_line (''   '' @ key @ '' injetado via --dart-define: '' @ s)) (\<lambda>_.
         retI [''--dart-define='' @ key @ ''='' @ s]))"

definition flutter_command :: "string list pio" where
  "flutter_command =
     bindI resolve_auto_update_feed_url (\<lambda>u.
     bindI (case or_else u None of
         Some url \<Rightarrow> bindI (print_line (''   AUTO_UPDATE_FEED_URL injetado via --dart-define: '' @ url)) (\<lambda>_.
           retI [''--dart-define=AUTO_UPDATE_FEED_URL='' @ url])
       | None \<Rightarrow> bindI (print_line ''   AUTO_UPDATE_FEED_URL nao encontrado no .env; usando feed oficial padrao'') (\<lambda>_. retI [])) (\<lambda>d0.
     bindI (define_for ''AUTO_UPDATE_CHANNEL'') (\<lambda>d1.
     bindI (define_for ''AUTO_UPDATE_REQUIRE_VALID_SIGNATURE'') (\<lambda>d2.
     bindI (define_for ''AUTO_UPDATE_FEED_PUBLIC_KEY'') (\<lambda>d3.
     bindI (define_for ''AUTO_UPDATE_REQUIRE_FEED_SIGNATURE'') (\<lambda>d4.
     retI ([''flutter'', ''build'', ''windows'', ''--release''] @ d0 @ d1 @ d2 @ d3 @ d4)))))))"

definition require_file :: "string \<Rightarrow> string \<Rightarrow> unit pio" where
  "require_file path message = bindI (file_exists path) (\<lambda>present. guardI (\<not> present) (ExitErr message))"

definition native_library :: "string pio" where
  "native_library = bindI (env_get ''ODBC_FAST_NATIVE_LIBRARY'') (\<lambda>v.
     case v of None \<Rightarrow> raiseI (KeyErr ''ODBC_FAST_NATIVE_LIBRARY'') | Some p \<Rightarrow> retI p)"

definition verify_bundle :: "os_env \<Rightarrow> string \<Rightarrow> unit pio" where
  "verify_bundle S feed_keys =
     bindI (dir_exists S BUILD_DIR) (\<lambda>present.
     bindI (guardI (\<not> present) (ExitErr ''Erro: pasta de build nao encontrada'')) (\<lambda>_.
     bindI verify_bundled_vc_runtime (\<lambda>_.
     bindI verify_bundled_fonts (\<lambda>_.
     bindI (verify_native_feed_keys (Some feed_keys)) (\<lambda>_.
     bindI native_library (\<lambda>native.
     bindI (verify_native_bundle S BUILD_DIR native) (\<lambda>_.
     copy_file (path_join (path_parent native) ''manifest.json'') (path_join BUILD_DIR ''data/odbc_native_manifest.json''))))))))"

definition PROJECT_EXECUTABLES :: "string list" where
  "PROJECT_EXECUTABLES = [''plug_agente.exe'', ''plug_update_helper.exe'', ''plug_install_check.exe'',
     ''plug_agente_elevated_runner.exe'', ''updater/plug_update_service.exe'', ''updater/plug_update_client.exe'',
     ''updater/plug_update_worker.exe'']"

definition on_files :: "'a fileio \<Rightarrow> 'a pio" where
  "on_files m w = (case m (pw_files w) of (r, fs) \<Rightarrow> (r, w\<lparr>pw_files := fs\<rparr>))"

definition stamp_versions :: "winapi \<Rightarrow> unit pio" where
  "stamp_versions A = forI PROJECT_EXECUTABLES (\<lambda>name.
     bindI (checkI (\<lambda>w. application_version (pw_files w))) (\<lambda>version.
     on_files (set_version_info A (path_join BUILD_DIR name) version)))"

definition elevated_script :: string where
  "elevated_script = ''tool/elevated/build_elevated_runner.py''"

definition updater_artifacts :: "string list" where
  "updater_artifacts = map (path_join BUILD_DIR) [''updater/plug_update_service.exe'', ''updater/plug_update_client.exe'', ''updater/plug_update_worker.exe'']"

definition require_executables :: "unit pio" where
  "require_executables =
     bindI (require_file (path_join BUILD_DIR ''plug_agente.exe'') ''Erro: plug_agente.exe nao encontrado no build'') (\<lambda>_.
     bindI (require_file (path_join BUILD_DIR ''plug_update_helper.exe'') ''Erro: plug_update_helper.exe nao encontrado no build'') (\<lambda>_.
     bindI (require_file (path_join BUILD_DIR ''plug_install_check.exe'') ''Erro: plug_install_check.exe nao encontrado no build'') (\<lambda>_.
     require_file (path_join BUILD_DIR ''plug_agente_elevated_runner.exe'') ''Erro: plug_agente_elevated_runner.exe nao encontrado no build.'')))"

definition sign_artifacts :: "os_env \<Rightarrow> unit pio" where
  "sign_artifacts S = bindI should_sign_artifacts (\<lambda>signed. if \<not> signed then retI ()
     else forI (map (path_join BUILD_DIR) [''plug_agente.exe'', ''plug_update_helper.exe'', ''plug_install_check.exe'',
       ''plug_agente_elevated_runner.exe''] @ updater_artifacts) (sign_file S))"

definition compile_installer :: "os_env \<Rightarrow> string \<Rightarrow> string pio" where
  "compile_installer S feed_keys =
     bindI (checkI (\<lambda>w. inspect_payload (pw_files w) BUILD_DIR feed_keys)) (\<lambda>key_payload.
     bindI (build_iscc_command S None) (\<lambda>cmd.
     bindI (run_build S cmd) (\<lambda>_.
     bindI find_generated_installer (\<lambda>installer_path.
     bindI (record_evidence installer_path BUILD_DIR feed_keys key_payload) (\<lambda>_.
     bindI should_sign_artifacts (\<lambda>signed.
     bindI (if \<not> signed then retI None else signing_cert_path) (\<lambda>c.
     bindI (if c = None then retI () else verify_signed_file S installer_path) (\<lambda>_.
     bindI (print_line (newline @ ''Instalador gerado em: '' @ installer_path)) (\<lambda>_. retI installer_path)))))))))"

text \<open>\<open>main\<close>; the branch for \<open>--prepare-signpath\<close> after the version stamps cannot be reached, since the option is refused
  at the start. \<open>python\<close> is \<open>sys.executable\<close>.\<close>

definition build_main :: "os_env \<Rightarrow> winapi \<Rightarrow> bool \<Rightarrow> (json \<Rightarrow> string res) \<Rightarrow> string \<Rightarrow> build_args \<Rightarrow> string pio" where
  "build_main S A nt package_dir python args =
     bindI (configure_build args) (\<lambda>feed_keys.
     bindI (run_build S [''flutter'', ''pub'', ''get'']) (\<lambda>_.
     bindI (prepare_native_library S nt package_dir) (\<lambda>native.
     bindI (env_set ''ODBC_FAST_NATIVE_LIBRARY'' native) (\<lambda>_.
     bindI (if ba_sync_version args then bindI (print_line ''1. Executando update_version.py...'') (\<lambda>_.
         run_build S [python, ''installer/update_version.py'']) else retI ()) (\<lambda>_.
     bindI (print_line (newline @ ''Build Flutter (windows --release)...'')) (\<lambda>_.
     bindI flutter_command (\<lambda>cmd.
     bindI (run_build S cmd) (\<lambda>_.
     bindI (verify_bundle S feed_keys) (\<lambda>_.
     bindI (print_line (newline @ ''Build elevated action runner helper...'')) (\<lambda>_.
     bindI (require_file elevated_script ''Erro: tool/elevated/build_elevated_runner.py nao encontrado'') (\<lambda>_.
     bindI (run_build S [python, elevated_script, ''--release-only'']) (\<lambda>_.
     bindI require_executables (\<lambda>_.
     bindI (stamp_versions A) (\<lambda>_.
     bindI (run_build S [path_join BUILD_DIR ''plug_agente_elevated_runner.exe'', ''--help'']) (\<lambda>_.
     bindI (forI updater_artifacts (\<lambda>p. require_file p ''Updater artifact missing'')) (\<lambda>_.
     bindI (sign_artifacts S) (\<lambda>_.
     bindI (print_line (newline @ ''Compilando instalador Inno Setup...'')) (\<lambda>_.
     compile_installer S feed_keys))))))))))))))))))"

end
