(* ===== verification/Installer_BuildSpec.thy ===== *)
theory Installer_BuildSpec
  imports Installer_Build
begin

text \<open>
  What the build promises: an official build compiles the application with the feed signature required and with
  validated public keys, and the evidence it records passes the publication gate.
\<close>

lemma keeps_env_value [keeps_intro]: "keeps f (read_env_value k)"
  unfolding read_env_value_def by (intro keeps_intro)

lemma keeps_define [keeps_intro]: "keeps f (resolve_auto_update_define k)"
  unfolding resolve_auto_update_define_def by (intro keeps_intro)

lemma keeps_settings [keeps_intro]:
  "keeps f signing_cert_path" "keeps f (read_env_flag k d)" "keeps f should_sign_artifacts" "keeps f auto_update_requires_valid_signature"
  "keeps f ensure_signing_matches_runtime"
  unfolding signing_cert_path_def read_env_flag_def should_sign_artifacts_def auto_update_requires_valid_signature_def
    ensure_signing_matches_runtime_def by (intro keeps_intro)+

text \<open>A variable of the environment that is set and not empty wins over the file.\<close>

lemma define_from_env: "pw_env w k = Some v \<Longrightarrow> v \<noteq> [] \<Longrightarrow> resolve_auto_update_define k w = (Inr (Some v), w)"
  by (simp add: resolve_auto_update_define_def env_get_def io_defs)

lemma set_policy_env: "set_policy (k, e) w = (Inr (), w') \<Longrightarrow> pw_env w' k = Some (if e then ''true'' else ''false'')"
  by (auto simp: set_policy_def env_set_def ok_iff)

lemma keeps_policy: "k \<noteq> fst ke \<Longrightarrow> keeps (\<lambda>w. pw_env w k) (set_policy ke)"
  unfolding set_policy_def by (cases ke) (auto intro!: keeps_intro)

lemma policy_env:
  assumes "forI policy_keys set_policy w = (Inr (), w')"
  shows "pw_env w' ''AUTO_UPDATE_REQUIRE_FEED_SIGNATURE'' = Some ''true'' \<and> pw_env w' ''AUTO_UPDATE_REQUIRE_VALID_SIGNATURE'' = Some ''false'' \<and>
    pw_env w' ''WINDOWS_CODE_SIGNING_REQUIRED'' = Some ''false''"
proof -
  obtain u v where s: "set_policy (''AUTO_UPDATE_REQUIRE_VALID_SIGNATURE'', False) w = (Inr (), u)"
    "set_policy (''WINDOWS_CODE_SIGNING_REQUIRED'', False) u = (Inr (), v)" "set_policy (''AUTO_UPDATE_REQUIRE_FEED_SIGNATURE'', True) v = (Inr (), w')"
    using assms by (auto simp: policy_keys_def ok_iff)
  have "pw_env u ''AUTO_UPDATE_REQUIRE_VALID_SIGNATURE'' = Some ''false''" "pw_env v ''WINDOWS_CODE_SIGNING_REQUIRED'' = Some ''false''"
    "pw_env w' ''AUTO_UPDATE_REQUIRE_FEED_SIGNATURE'' = Some ''true''"
    using set_policy_env[OF s(1)] set_policy_env[OF s(2)] set_policy_env[OF s(3)] by simp_all
  moreover have "pw_env w' ''AUTO_UPDATE_REQUIRE_VALID_SIGNATURE'' = pw_env v ''AUTO_UPDATE_REQUIRE_VALID_SIGNATURE''"
    "pw_env w' ''WINDOWS_CODE_SIGNING_REQUIRED'' = pw_env v ''WINDOWS_CODE_SIGNING_REQUIRED''"
    "pw_env v ''AUTO_UPDATE_REQUIRE_VALID_SIGNATURE'' = pw_env u ''AUTO_UPDATE_REQUIRE_VALID_SIGNATURE''"
    using keepsD[OF keeps_policy s(3)] keepsD[OF keeps_policy s(2)] by simp_all
  ultimately show ?thesis by simp
qed

lemma check_key_ok: "check_key k = Inr u \<longleftrightarrow> (\<exists>kb. b64decode True k = Some kb \<and> length kb = 32)"
  by (auto simp: check_key_def split: option.splits if_splits)

lemma mapR_check: "mapR check_key ks = Inr us \<Longrightarrow> k \<in> set ks \<Longrightarrow> \<exists>kb. b64decode True k = Some kb \<and> length kb = 32"
  by (induction ks arbitrary: us) (auto simp: ok_iff check_key_ok)

definition keys_valid :: "string \<Rightarrow> bool" where
  "keys_valid keys \<longleftrightarrow> (\<exists>ks. keys = join '','' ks \<and> ks \<noteq> [] \<and> (\<forall>k \<in> set ks. \<exists>kb. b64decode True k = Some kb \<and> length kb = 32))"

lemma split_nonempty: "split_on p s \<noteq> []"
  by (cases "length s") (auto simp: split_on_def split: option.splits)

lemma configure_keys_ok:
  assumes "configure_native_feed_keys w = (Inr (Some keys), w')"
  shows "keys_valid keys \<and> pw_env w' ''AUTO_UPDATE_FEED_PUBLIC_KEY'' = Some keys"
proof -
  obtain v w1 where v: "resolve_auto_update_define ''AUTO_UPDATE_FEED_PUBLIC_KEY'' w = (Inr v, w1)"
    using assms unfolding configure_native_feed_keys_def ok_iff by blast
  let ?ks = "map strip (split_on '','' (case v of Some s \<Rightarrow> s | None \<Rightarrow> []))"
  have "keys = join '','' ?ks \<and> w' = w1\<lparr>pw_env := (pw_env w1)(''AUTO_UPDATE_FEED_PUBLIC_KEY'' \<mapsto> keys)\<rparr> \<and> (\<exists>us. mapR check_key ?ks = Inr us)"
    using assms v by (auto simp: configure_native_feed_keys_def bindI_def[of "resolve_auto_update_define _"] ok_iff Let_def env_set_def split: if_splits)
  moreover have "?ks \<noteq> []" using split_nonempty by simp
  ultimately show ?thesis unfolding keys_valid_def using mapR_check by auto
qed

lemma keeps_configure_keys: "k \<noteq> ''AUTO_UPDATE_FEED_PUBLIC_KEY'' \<Longrightarrow> keeps (\<lambda>w. pw_env w k) configure_native_feed_keys"
  unfolding configure_native_feed_keys_def Let_def by (intro keeps_intro)

definition build_env :: "string \<Rightarrow> pworld \<Rightarrow> bool" where
  "build_env keys w \<longleftrightarrow> pw_env w ''AUTO_UPDATE_REQUIRE_FEED_SIGNATURE'' = Some ''true'' \<and>
     pw_env w ''AUTO_UPDATE_REQUIRE_VALID_SIGNATURE'' = Some ''false'' \<and> pw_env w ''AUTO_UPDATE_FEED_PUBLIC_KEY'' = Some keys \<and> keys \<noteq> []"

lemma signature_not_required: "pw_env w ''AUTO_UPDATE_REQUIRE_VALID_SIGNATURE'' = Some ''false'' \<Longrightarrow>
    auto_update_requires_valid_signature w = (Inr False, w)"
proof -
  assume e: "pw_env w ''AUTO_UPDATE_REQUIRE_VALID_SIGNATURE'' = Some ''false''"
  have "strip ''false'' = ''false''" "lower ''false'' = ''false''" by code_simp+
  then show ?thesis by (simp add: auto_update_requires_valid_signature_def bindI_def define_from_env[OF e] retI_def)
qed

lemma configure_build_ok:
  assumes "configure_build args w = (Inr keys, w')"
  shows "keys_valid keys \<and> build_env keys w'"
proof -
  obtain w1 w2 w3 w4 k where c: "forI policy_keys set_policy w1 = (Inr (), w2)" "ensure_signing_matches_runtime w2 = (Inr (), w3)"
    "configure_native_feed_keys w3 = (Inr k, w4)" and rest: "(case or_else k None of
       None \<Rightarrow> raiseI (ExitErr ''Manifest-only updates require the Ed25519 feed public key'')
     | Some feed_keys \<Rightarrow>
         bindI auto_update_requires_valid_signature (\<lambda>required.
         bindI (env_set ''AUTO_UPDATE_REQUIRE_VALID_SIGNATURE'' (if required then ''true'' else ''false'')) (\<lambda>_.
         retI feed_keys))) w4 = (Inr keys, w')"
    using assms unfolding configure_build_def ok_iff by auto
  obtain required w5 where "or_else k None = Some keys" "auto_update_requires_valid_signature w4 = (Inr required, w5)"
    "w' = w5\<lparr>pw_env := (pw_env w5)(''AUTO_UPDATE_REQUIRE_VALID_SIGNATURE'' \<mapsto> if required then ''true'' else ''false'')\<rparr>"
    using rest by (cases "or_else k None") (auto simp: ok_iff env_set_def)
  moreover from this have "w5 = w4" using keepsD[OF keeps_settings(4), of _ _ _ "\<lambda>w. w"] by blast
  ultimately have c': "or_else k None = Some keys" "auto_update_requires_valid_signature w4 = (Inr required, w4)"
    "w' = w4\<lparr>pw_env := (pw_env w4)(''AUTO_UPDATE_REQUIRE_VALID_SIGNATURE'' \<mapsto> if required then ''true'' else ''false'')\<rparr>" by simp_all
  have k: "k = Some keys" "keys \<noteq> []" using c'(1) by (auto simp: or_else_def split: option.splits if_splits)
  note env = policy_env[OF c(1)] keepsD[OF keeps_settings(5) c(2), of "\<lambda>w. pw_env w"] keepsD[OF keeps_configure_keys c(3)]
  have e4: "pw_env w4 ''AUTO_UPDATE_REQUIRE_FEED_SIGNATURE'' = Some ''true''" "pw_env w4 ''AUTO_UPDATE_REQUIRE_VALID_SIGNATURE'' = Some ''false''"
    using env by simp_all
  then have "\<not> required" using signature_not_required c'(2) by auto
  then show ?thesis using e4 configure_keys_ok[OF c(3)[unfolded k(1)]] k(2) c'(3) by (simp add: build_env_def)
qed

lemma define_for_env: "pw_env w k = Some v \<Longrightarrow> v \<noteq> [] \<Longrightarrow> \<exists>w'. define_for k w = (Inr [''--dart-define='' @ k @ ''='' @ v], w') \<and> pw_env w' = pw_env w"
  by (auto simp: define_for_def bindI_def define_from_env or_else_def print_line_def updI_def retI_def)

lemma keeps_define_for: "keeps (\<lambda>w. pw_env w k') (define_for k)" "keeps (\<lambda>w. pw_env w k') resolve_auto_update_feed_url"
  unfolding define_for_def resolve_auto_update_feed_url_def by (intro keeps_intro)+

definition enforced_defines :: "string \<Rightarrow> string list" where
  "enforced_defines keys = [''--dart-define=AUTO_UPDATE_REQUIRE_VALID_SIGNATURE=false'', ''--dart-define=AUTO_UPDATE_FEED_PUBLIC_KEY='' @ keys,
     ''--dart-define=AUTO_UPDATE_REQUIRE_FEED_SIGNATURE=true'']"

lemma flutter_command_ok:
  assumes "build_env keys w" "flutter_command w = (Inr cmd, w')"
  shows "take 4 cmd = [''flutter'', ''build'', ''windows'', ''--release''] \<and> set (enforced_defines keys) \<subseteq> set cmd"
proof -
  let ?url = "\<lambda>u. case or_else u None of
         Some url \<Rightarrow> bindI (print_line (''   AUTO_UPDATE_FEED_URL injetado via --dart-define: '' @ url)) (\<lambda>_.
           retI [''--dart-define=AUTO_UPDATE_FEED_URL='' @ url])
       | None \<Rightarrow> bindI (print_line ''   AUTO_UPDATE_FEED_URL nao encontrado no .env; usando feed oficial padrao'') (\<lambda>_. retI [])"
  obtain u w1 d0 w2 d1 w3 d2 w4 d3 w5 d4 w6 where c: "resolve_auto_update_feed_url w = (Inr u, w1)" "?url u w1 = (Inr d0, w2)"
    "define_for ''AUTO_UPDATE_CHANNEL'' w2 = (Inr d1, w3)" "define_for ''AUTO_UPDATE_REQUIRE_VALID_SIGNATURE'' w3 = (Inr d2, w4)"
    "define_for ''AUTO_UPDATE_FEED_PUBLIC_KEY'' w4 = (Inr d3, w5)" "define_for ''AUTO_UPDATE_REQUIRE_FEED_SIGNATURE'' w5 = (Inr d4, w6)"
    "cmd = [''flutter'', ''build'', ''windows'', ''--release''] @ d0 @ d1 @ d2 @ d3 @ d4"
    using assms(2) unfolding flutter_command_def ok_iff by blast
  have url: "keeps (\<lambda>w. pw_env w k) (?url u)" for k by (intro keeps_intro)
  have e3: "build_env keys w3"
    using assms(1) keepsD[OF keeps_define_for(2) c(1)] keepsD[OF url c(2)] keepsD[OF keeps_define_for(1) c(3)] by (simp add: build_env_def)
  then have e4: "build_env keys w4" using keepsD[OF keeps_define_for(1) c(4)] by (simp add: build_env_def)
  then have e5: "build_env keys w5" using keepsD[OF keeps_define_for(1) c(5)] by (simp add: build_env_def)
  have "d2 = [''--dart-define=AUTO_UPDATE_REQUIRE_VALID_SIGNATURE=false'']" using define_for_env[of w3] e3 c(4) by (fastforce simp: build_env_def)
  moreover have "d3 = [''--dart-define=AUTO_UPDATE_FEED_PUBLIC_KEY='' @ keys]" using define_for_env[of w4] e4 c(5) by (fastforce simp: build_env_def)
  moreover have "d4 = [''--dart-define=AUTO_UPDATE_REQUIRE_FEED_SIGNATURE=true'']" using define_for_env[of w5] e5 c(6) by (fastforce simp: build_env_def)
  ultimately show ?thesis using c(7) by (simp add: enforced_defines_def)
qed

subsection \<open>The rest of the build keeps the environment\<close>

lemma keeps_run_build [keeps_intro]: "keeps (\<lambda>w. pw_env w k) (run_build S cmd)"
proof -
  have "keeps (\<lambda>w. pw_env w k) (case e of FileNotFoundErr \<Rightarrow> raiseI x | _ \<Rightarrow> raiseI e)" for e x
    by (cases e) (auto intro: keeps_intro)
  then show ?thesis unfolding run_build_def by (intro keeps_intro)
qed

lemma keeps_append [keeps_intro]: "keeps (\<lambda>w. pw_env w k) (append_text p t)"
  by (auto simp: keeps_def append_text_def io_defs)

lemma keeps_chunks [keeps_intro]: "keeps (\<lambda>w. pw_env w k) (save_chunks d n m cs)"
  by (induction d n m cs rule: save_chunks.induct) (auto intro!: keeps_intro)

lemma keeps_native [keeps_intro]: "keeps (\<lambda>w. pw_env w k) (prepare_native_library S nt pd)"
proof -
  have "keeps (\<lambda>w. pw_env w k) (download S u d n)" for u d n unfolding download_def by (intro keeps_intro)
  then have "keeps (\<lambda>w. pw_env w k) (fetch_native S nt v d)" for v d
    unfolding fetch_native_def download_verified_def by (intro keeps_intro) auto
  then show ?thesis unfolding prepare_native_library_def Let_def
    by (auto intro!: keeps_intro split: prod.split option.split)
qed

lemma build_main_flutter:
  assumes "build_main S A nt pd py args w = (Inr p, w')"
  shows "\<exists>keys cmd v v'. keys_valid keys \<and> run_build S cmd v = (Inr (), v') \<and> build_env keys v \<and>
    take 4 cmd = [''flutter'', ''build'', ''windows'', ''--release''] \<and> set (enforced_defines keys) \<subseteq> set cmd"
proof -
  let ?sync = "if ba_sync_version args then bindI (print_line ''1. Executando update_version.py...'') (\<lambda>_.
         run_build S [py, ''installer/update_version.py'']) else retI ()"
  obtain keys w1 w2 native w3 w4 w5 w6 cmd w7 w8 where c: "configure_build args w = (Inr keys, w1)"
    "run_build S [''flutter'', ''pub'', ''get''] w1 = (Inr (), w2)" "prepare_native_library S nt pd w2 = (Inr native, w3)"
    "env_set ''ODBC_FAST_NATIVE_LIBRARY'' native w3 = (Inr (), w4)" "?sync w4 = (Inr (), w5)"
    "print_line (newline @ ''Build Flutter (windows --release)...'') w5 = (Inr (), w6)" "flutter_command w6 = (Inr cmd, w7)"
    "run_build S cmd w7 = (Inr (), w8)"
    using assms unfolding build_main_def ok_iff by auto
  have sync: "keeps (\<lambda>w. pw_env w k) ?sync" for k by (intro keeps_intro)
  have fl: "keeps (\<lambda>w. pw_env w k) flutter_command" for k
    unfolding flutter_command_def by (intro keeps_intro keeps_define_for)
  note k = keepsD[OF keeps_run_build c(2)] keepsD[OF keeps_native c(3)] keepsD[OF sync c(5)] keepsD[OF keeps_env(1) c(6)] keepsD[OF fl c(7)]
  have e4: "pw_env w4 x = pw_env w3 x" if "x \<noteq> ''ODBC_FAST_NATIVE_LIBRARY''" for x
    using c(4) that by (auto simp: env_set_def updI_def)
  have "build_env keys w6" "build_env keys w7" using configure_build_ok[OF c(1)] by (simp_all add: build_env_def k e4)
  then show ?thesis using flutter_command_ok[OF _ c(7)] configure_build_ok[OF c(1)] c(8) by blast
qed

end
