(* ===== verification/Odbc_NativeSpec.thy ===== *)
theory Odbc_NativeSpec
  imports Odbc_Native
begin

text \<open>
  The cache of the native library: a library that \<open>prepare_native_library\<close> returns has the published digest, a second run
  needs no network, and a failed run changes nothing but partial downloads.
\<close>

subsection \<open>Downloads\<close>

lemma touches_append [touches_intro]: "q \<in> A \<Longrightarrow> touches A (append_text q b)"
  by (auto simp: touches_def io_defs append_text_def)

lemma touches_chunks: "dst \<in> A \<Longrightarrow> touches A (save_chunks dst k n cs)"
  by (induction dst k n cs rule: save_chunks.induct) (auto intro!: touches_intro)

lemma touches_download [touches_intro]: "dst \<in> A \<Longrightarrow> touches A (download S url dst k)"
  unfolding download_def by (intro touches_intro touches_chunks)

lemma touches_verified: "touches {part_path nt v, sidecar_path nt v} (download_verified S nt v)"
  unfolding download_verified_def by (intro touches_intro) simp_all

lemma native_paths_distinct:
  "distinct [part_path nt v, sidecar_path nt v, native_path nt v, native_manifest nt v]"
  by (simp add: part_path_def sidecar_path_def native_path_def native_manifest_def path_join_def native_name_def)

text \<open>What reading a URL to its end gives\<close>

definition fetched :: "os_env \<Rightarrow> string \<Rightarrow> bytes \<Rightarrow> bool" where
  "fetched S url b \<longleftrightarrow> (\<exists>chunks. os_fetch S url = Inr chunks \<and> b = concat (takeWhile (\<lambda>c. c \<noteq> []) chunks))"

text \<open>The contents are those of the release asset, and they have the digest of the published checksum file.\<close>

definition published :: "os_env \<Rightarrow> bool \<Rightarrow> string \<Rightarrow> bytes \<Rightarrow> bool" where
  "published S nt v content \<longleftrightarrow> fetched S (native_url nt v) content \<and> length content \<le> 128 * 1024 * 1024 \<and>
     (\<exists>c. fetched S (native_url nt v @ ''.sha256'') c \<and> length c \<le> 4096 \<and> bindR (decode_text c) checksum_field = Inr (sha256_hex content))"

lemma save_chunks_ok:
  "save_chunks dst k n cs w = (Inr u, w') \<Longrightarrow> pw_files w dst = Some b \<Longrightarrow> n \<le> k \<Longrightarrow>
    pw_files w' dst = Some (b @ concat (takeWhile (\<lambda>c. c \<noteq> []) cs)) \<and> n + length (concat (takeWhile (\<lambda>c. c \<noteq> []) cs)) \<le> k"
proof (induction dst k n cs arbitrary: w b rule: save_chunks.induct)
  case (2 dst k n c cs)
  show ?case
  proof (cases "c = []")
    case False
    then obtain v where v: "append_text dst c w = (Inr (), v)" "save_chunks dst k (n + length c) cs v = (Inr u, w')" "n + length c \<le> k"
      using 2(2) by (auto simp: ok_iff split: if_splits)
    then have "pw_files v dst = Some (b @ c)" using 2(3) by (auto simp: append_text_def ok_iff)
    then show ?thesis using 2(1)[OF False _ v(2)] v(3) False by simp
  qed (use 2 in \<open>auto simp: ok_iff\<close>)
qed (auto simp: ok_iff)

lemma download_ok:
  assumes "download S url dst k w = (Inr u, w')"
  shows "\<exists>b. fetched S url b \<and> pw_files w' dst = Some b \<and> length b \<le> k"
proof -
  obtain cs v where c: "os_fetch S url = Inr cs" "write_bytes dst [] w = (Inr (), v)" "save_chunks dst k 0 cs v = (Inr u, w')"
    using assms unfolding download_def ok_iff by auto
  have "pw_files v dst = Some []" using c(2) by (auto simp: write_bytes_def ok_iff)
  then show ?thesis using save_chunks_ok[OF c(3)] c(1) by (auto simp: fetched_def)
qed

lemma download_verified_ok:
  assumes "download_verified S nt v w = (Inr content, w')"
  shows "published S nt v content"
proof -
  obtain w1 t w2 e w3 w4 where c: "download S (native_url nt v @ ''.sha256'') (sidecar_path nt v) 4096 w = (Inr (), w1)"
    "read_text (sidecar_path nt v) w1 = (Inr t, w2)" "checksum_field t = Inr e"
    "download S (native_url nt v) (part_path nt v) (128 * 1024 * 1024) w2 = (Inr (), w3)" "read_bytes (part_path nt v) w3 = (Inr content, w4)"
    "sha256_hex content = e"
    using assms unfolding download_verified_def ok_iff by auto
  obtain b where b: "fetched S (native_url nt v @ ''.sha256'') b" "pw_files w1 (sidecar_path nt v) = Some b" "length b \<le> 4096"
    using download_ok[OF c(1)] by blast
  obtain b' where b': "fetched S (native_url nt v) b'" "pw_files w3 (part_path nt v) = Some b'" "length b' \<le> 128 * 1024 * 1024"
    using download_ok[OF c(4)] by blast
  have "decode_text b = Inr t" "b' = content" using c(2,5) b(2) b'(2) by (auto simp: read_text_def read_bytes_def read_file_def ok_iff)
  then show ?thesis using b b' c(3,6) by (auto simp: published_def)
qed

lemma fetch_native_ok:
  assumes "fetch_native S nt v d w = (r, w')"
  shows "pw_files w' (part_path nt v) = None \<and> pw_files w' (sidecar_path nt v) = None \<and>
    (case r of Inl _ \<Rightarrow> \<forall>p. p \<notin> {part_path nt v, sidecar_path nt v} \<longrightarrow> pw_files w' p = pw_files w p
     | Inr _ \<Rightarrow> \<exists>content. pw_files w' (native_path nt v) = Some content \<and> published S nt v content \<and>
         pw_files w' (native_manifest nt v) = Some (dumps2 (native_record v d (native_url nt v) (sha256_hex content))) \<and>
         (\<forall>p. p \<notin> {part_path nt v, sidecar_path nt v, native_path nt v, native_manifest nt v} \<longrightarrow> pw_files w' p = pw_files w p))"
proof -
  obtain q u where q: "download_verified S nt v w = (q, u)" by (cases "download_verified S nt v w")
  note fr = touchesD[OF touches_verified q]
  have "\<And>p. p \<notin> {part_path nt v, sidecar_path nt v, native_path nt v, native_manifest nt v} \<Longrightarrow> pw_files u p = pw_files w p"
    using fr by blast
  moreover have "published S nt v content" if "q = Inr content" for content using download_verified_ok q that by simp
  ultimately show ?thesis using assms native_paths_distinct[of nt v] q fr
    by (cases q) (auto simp: fetch_native_def finallyI_def bindI_def unlink_def updI_def write_bytes_def)
qed

subsection \<open>The manifest of the cache\<close>

fun rx_all :: "(char \<Rightarrow> bool) \<Rightarrow> rx \<Rightarrow> bool" where
  "rx_all P (RCls Q) \<longleftrightarrow> (\<forall>c. Q c \<longrightarrow> P c)"
| "rx_all P (RAlt r q) \<longleftrightarrow> rx_all P r \<and> rx_all P q"
| "rx_all P (RSeq r q) \<longleftrightarrow> rx_all P r \<and> rx_all P q"
| "rx_all P (RStar r) \<longleftrightarrow> rx_all P r"
| "rx_all P _ \<longleftrightarrow> True"

lemma rx_all_match: "rx_match r s \<Longrightarrow> rx_all P r \<Longrightarrow> list_all P s"
  by (induction rule: rx_match.induct) auto

lemma version_char: "is_digit c \<or> is_letter c \<or> c \<in> {CHR ''.'', CHR ''-'', CHR ''+''} \<Longrightarrow> (of_char c :: nat) < 127"
  by (auto simp: is_digit_def is_letter_def Let_def)

lemma locked_version_plain: "locked_version s = Some v \<Longrightarrow> plain v"
proof -
  assume "locked_version s = Some v"
  then have "rx_match rx_locked_version v" by (auto simp: locked_version_def Let_def fullmatch_iff split: if_splits)
  moreover have "rx_all (\<lambda>c. (of_char c :: nat) < 127) rx_locked_version"
    using version_char by (auto simp: rx_locked_version_def rx_version3_def rx_digits_def r_plus_def r_opt_def r_chr_def)
  ultimately show ?thesis using rx_all_match by (auto simp: plain_def)
qed

lemma locked_digest_plain: "locked_digest s = Some d \<Longrightarrow> plain d"
  by (auto simp: locked_digest_def Let_def plain_def list_all_iff is_hex_def is_digit_def split: if_splits)

lemma first_match_some: "first_match f ss = Some x \<Longrightarrow> \<exists>s \<in> set ss. f s = Some x"
  by (induction ss) (auto split: option.splits)

lemma locked_package_plain:
  assumes "locked_package pd fs = Inr (pkg, v, d)"
  shows "plain v \<and> plain d"
proof -
  obtain b lock where l: "read_file fs ''pubspec.lock'' = Inr b" "decode_text b = Inr lock"
    using assms unfolding locked_package_def bindR_ok by blast
  obtain block where bl: "find_block lock = Some block"
    using assms l by (cases "find_block lock") (auto simp: locked_package_def)
  obtain v' where v: "first_match locked_version (at_lines block) = Some v'"
    using assms l bl by (cases "first_match locked_version (at_lines block)") (auto simp: locked_package_def split: if_splits)
  obtain d' where d: "first_match locked_digest (at_lines block) = Some d'"
    using assms l bl v by (cases "first_match locked_digest (at_lines block)") (auto simp: locked_package_def split: if_splits)
  have "v' = v" "d' = d" using assms l bl v d by (auto simp: locked_package_def ok_iff split: if_splits)
  then show ?thesis using v d locked_version_plain locked_digest_plain by (blast dest!: first_match_some)
qed

lemma plain_append [simp]: "plain (s @ t) \<longleftrightarrow> plain s \<and> plain t"
  by (simp add: plain_def)

lemma native_record_reads:
  assumes "plain v" "plain d"
  shows "bindR (decode_text (dumps2 (native_record v d (native_url nt v) (sha256_hex content)))) json_loads =
    Inr (native_record v d (native_url nt v) (sha256_hex content))"
proof -
  have "plain (sha256_hex content)"
    using sha256_hex_shape[of content] by (auto simp: is_sha256_def plain_def list_all_iff is_hex_def is_digit_def Let_def)
  moreover have "plain (native_url nt v)" using assms(1) by (simp add: native_url_def native_name_def plain_def)
  ultimately show ?thesis using read_dumps2[of "native_record v d (native_url nt v) (sha256_hex content)" "[]"] assms
    by (simp add: native_record_def plain_def)
qed

definition cache_ok :: "bool \<Rightarrow> string \<Rightarrow> string \<Rightarrow> bytes \<Rightarrow> bytes \<Rightarrow> bool" where
  "cache_ok nt v d content m \<longleftrightarrow>
     bindR (decode_text m) (\<lambda>t. bindR (json_loads t) (check_cached v d (native_url nt v) content)) = Inr ()"

lemma written_cache_ok:
  assumes "plain v" "plain d"
  shows "cache_ok nt v d content (dumps2 (native_record v d (native_url nt v) (sha256_hex content)))"
proof -
  obtain t where "decode_text (dumps2 (native_record v d (native_url nt v) (sha256_hex content))) = Inr t"
    "json_loads t = Inr (native_record v d (native_url nt v) (sha256_hex content))"
    using native_record_reads[OF assms] unfolding bindR_ok by blast
  then show ?thesis by (simp add: cache_ok_def check_cached_def native_record_def dget_def py_eq_str)
qed

lemma prepare_ok:
  assumes "prepare_native_library S nt pd w = (Inr p, w')"
  shows "\<exists>pkg v d content m. locked_package pd (pw_files w) = Inr (pkg, v, d) \<and> p = native_path nt v \<and>
    pw_files w' p = Some content \<and> pw_files w' (native_manifest nt v) = Some m \<and> cache_ok nt v d content m \<and>
    (w' = w \<or> published S nt v content)"
proof -
  obtain pkg v d where l: "locked_package pd (pw_files w) = Inr (pkg, v, d)"
    using assms unfolding prepare_native_library_def ok_iff by (auto simp: checkI_def)
  show ?thesis
  proof (cases "\<exists>content m. pw_files w (native_path nt v) = Some content \<and> pw_files w (native_manifest nt v) = Some m")
    case True
    then show ?thesis using assms l
      by (auto simp: prepare_native_library_def Let_def bindI_def checkI_def readI_def liftI_def retI_def cache_ok_def split: sum.splits)
  next
    case False
    then have "bindI (fetch_native S nt v d) (\<lambda>_. retI (native_path nt v)) w = (Inr p, w')"
      using assms l by (auto simp: prepare_native_library_def Let_def bindI_def checkI_def readI_def split: option.splits)
    then have f: "fetch_native S nt v d w = (Inr (), w')" "p = native_path nt v" by (auto simp: ok_iff)
    then show ?thesis using fetch_native_ok[OF f(1)] written_cache_ok locked_package_plain[OF l] l by auto
  qed
qed

subsection \<open>A second run\<close>

definition cache_paths :: "bool \<Rightarrow> string \<Rightarrow> string set" where
  "cache_paths nt v = {part_path nt v, sidecar_path nt v, native_path nt v, native_manifest nt v}"

lemma inputs_not_cached: "''pubspec.lock'' \<notin> cache_paths nt v" "''.dart_tool/package_config.json'' \<notin> cache_paths nt v"
    "path_join pkg ''pubspec.yaml'' \<notin> cache_paths nt v"
proof -
  have "hd p = CHR ''b''" "endswith p ''.part'' \<or> endswith p ''.dll'' \<or> endswith p ''.so'' \<or> endswith p ''.json''" if "p \<in> cache_paths nt v" for p
    using that by (auto simp: cache_paths_def part_path_def sidecar_path_def native_path_def native_manifest_def path_join_def
        native_dir_def native_name_def endswith_def startswith_def)
  note e = this
  show "''pubspec.lock'' \<notin> cache_paths nt v" "''.dart_tool/package_config.json'' \<notin> cache_paths nt v" by (auto dest: e(1))
  show "path_join pkg ''pubspec.yaml'' \<notin> cache_paths nt v"
    by (auto dest!: e(2) simp: path_join_def endswith_def startswith_def)
qed

lemma locked_package_frame:
  assumes "\<And>p. p \<notin> cache_paths nt v \<Longrightarrow> fs' p = fs p"
  shows "locked_package pd fs' = locked_package pd fs"
proof -
  have "package_uri fs' = package_uri fs" using assms inputs_not_cached by (simp add: package_uri_def read_file_def)
  moreover have "fs' ''pubspec.lock'' = fs ''pubspec.lock''" "\<And>pkg. fs' (path_join pkg ''pubspec.yaml'') = fs (path_join pkg ''pubspec.yaml'')"
    using assms inputs_not_cached by auto
  ultimately show ?thesis unfolding locked_package_def read_file_def by (simp only:)
qed

lemma prepare_touches:
  assumes "locked_package pd (pw_files w) = Inr (pkg, v, d)" "prepare_native_library S nt pd w = (r, w')" "p \<notin> cache_paths nt v"
  shows "pw_files w' p = pw_files w p"
proof -
  have "touches (cache_paths nt v) (fetch_native S nt v d)"
    unfolding fetch_native_def
    by (intro touches_intro touches_mono[OF touches_verified]) (auto simp: cache_paths_def)
  then have "touches (cache_paths nt v) (bindI (fetch_native S nt v d) (\<lambda>_. retI (native_path nt v)))"
    by (intro touches_intro)
  then show ?thesis using assms
    by (auto simp: prepare_native_library_def Let_def bindI_def[of "checkI _"] bindI_def[of "readI _"] checkI_def readI_def
        touches_def split: option.splits) (auto simp: io_defs split: sum.splits)
qed

lemma prepare_again:
  assumes "prepare_native_library S nt pd w = (Inr p, w')"
  shows "prepare_native_library S' nt pd w' = (Inr p, w')"
proof -
  obtain pkg v d content m where l: "locked_package pd (pw_files w) = Inr (pkg, v, d)" "p = native_path nt v"
    "pw_files w' p = Some content" "pw_files w' (native_manifest nt v) = Some m" "cache_ok nt v d content m"
    using prepare_ok[OF assms] by blast
  have "locked_package pd (pw_files w') = Inr (pkg, v, d)"
    using locked_package_frame[of nt v "pw_files w'" "pw_files w"] prepare_touches[OF l(1) assms] l(1) by simp
  then show ?thesis using l by (simp add: prepare_native_library_def Let_def io_defs cache_ok_def)
qed

lemma prepare_fails:
  assumes "prepare_native_library S nt pd w = (Inl e, w')"
  shows "\<forall>p. pw_files w' p = pw_files w p \<or> pw_files w' p = None \<and> (\<exists>v. p = part_path nt v \<or> p = sidecar_path nt v)"
proof (cases "locked_package pd (pw_files w)")
  case (Inl x)
  then show ?thesis using assms by (auto simp: prepare_native_library_def io_defs)
next
  case (Inr t)
  then obtain pkg v d where l: "locked_package pd (pw_files w) = Inr (pkg, v, d)" by (cases t) auto
  show ?thesis
  proof (cases "\<exists>content m. pw_files w (native_path nt v) = Some content \<and> pw_files w (native_manifest nt v) = Some m")
    case True
    then show ?thesis using assms l by (auto simp: prepare_native_library_def Let_def io_defs split: sum.splits)
  next
    case False
    then have "bindI (fetch_native S nt v d) (\<lambda>_. retI (native_path nt v)) w = (Inl e, w')"
      using assms l by (auto simp: prepare_native_library_def Let_def bindI_def checkI_def readI_def split: option.splits)
    then have f: "fetch_native S nt v d w = (Inl e, w')"
      by (auto simp: bindI_def retI_def split: prod.splits sum.splits)
    then show ?thesis using fetch_native_ok[OF f] by simp metis
  qed
qed

subsection \<open>The properties\<close>

text \<open>The manifest of the cache, as it lies in the file \<open>m\<close>, states the version and the package digest of the lock, the download URL and
  the digest of the library.\<close>

definition states_library :: "bytes \<Rightarrow> string \<Rightarrow> string \<Rightarrow> string \<Rightarrow> string \<Rightarrow> bool" where
  "states_library m version package url library_digest \<longleftrightarrow> (\<exists>t kvs. decode_text m = Inr t \<and> json_loads t = Inr (JObj kvs) \<and>
     map_of kvs ''version'' = Some (JStr version) \<and> map_of kvs ''package_sha256'' = Some (JStr package) \<and>
     map_of kvs ''url'' = Some (JStr url) \<and> map_of kvs ''sha256'' = Some (JStr library_digest))"

lemma dget_text: "dget v k = Inr (JStr s) \<longleftrightarrow> (\<exists>kvs. v = JObj kvs \<and> map_of kvs k = Some (JStr s))"
  by (cases v) (auto simp: dget_def split: option.splits)

lemma cache_ok_states: "cache_ok nt v d content m \<Longrightarrow> states_library m v d (native_url nt v) (sha256_hex content)"
  by (auto simp: cache_ok_def states_library_def check_cached_def bindR_ok py_eq_str dget_text split: if_splits)

text \<open>
  C21. When \<open>prepare_native_library\<close> returns a path, the file there has the digest that the manifest beside it states,
  and the manifest names the version and the package digest of the lock file and the download URL. Unless nothing was changed
  because both files were in the cache before, the file is the asset of the release and has the digest of the published checksum file.
\<close>

theorem native_library_verified:
  assumes "prepare_native_library S nt pd w = (Inr p, w')"
  shows "\<exists>pkg v d content m. locked_package pd (pw_files w) = Inr (pkg, v, d) \<and> p = native_path nt v \<and>
    pw_files w' p = Some content \<and> pw_files w' (native_manifest nt v) = Some m \<and>
    states_library m v d (native_url nt v) (sha256_hex content) \<and> (w' = w \<or> published S nt v content)"
  using prepare_ok[OF assms] cache_ok_states by blast

text \<open>
  C22. After \<open>prepare_native_library\<close> returned, running it again, with any network, returns the same path and changes
  nothing: a prepared library is used offline.
\<close>

theorem native_library_cached:
  assumes "prepare_native_library S nt pd w = (Inr p, w')"
  shows "prepare_native_library S' nt pd w' = (Inr p, w')"
  using assms by (rule prepare_again)

text \<open>
  When \<open>prepare_native_library\<close> raises, every file is as before, except that partial downloads are removed.
\<close>

theorem native_library_failure_keeps_files:
  assumes "prepare_native_library S nt pd w = (Inl e, w')"
  shows "\<forall>p. pw_files w' p = pw_files w p \<or> pw_files w' p = None \<and> (\<exists>v. p = part_path nt v \<or> p = sidecar_path nt v)"
  using assms by (rule prepare_fails)

subsection \<open>Witnesses\<close>

definition demo_digest :: string where
  "demo_digest = replicate 64 CHR ''a''"

definition demo_lock :: string where
  "demo_lock = ''packages:'' @ newline @ ''  odbc_fast:'' @ newline @ ''    description:'' @ newline @
     ''      sha256: '' @ demo_digest @ newline @ ''      url: https://pub.dev'' @ newline @ ''    source: hosted'' @ newline @
     ''    version: '' @ [CHR 0x22] @ ''1.2.3'' @ [CHR 0x22] @ newline @ ''sdks:'' @ newline"

definition demo_config :: string where
  "demo_config = dumps_default (JObj [(''packages'', JList [JObj [(''name'', JStr ''odbc_fast''), (''rootUri'', JStr ''pkg'')]])])"

definition demo_native_world :: pworld where
  "demo_native_world = \<lparr>pw_files = [''pubspec.lock'' \<mapsto> demo_lock, ''.dart_tool/package_config.json'' \<mapsto> demo_config,
       ''pkg/pubspec.yaml'' \<mapsto> ''version: 1.2.3''], pw_trace = [], pw_log = [], pw_env = Map.empty\<rparr>"

definition demo_dir :: "json \<Rightarrow> string res" where
  "demo_dir uri = (case uri of JStr s \<Rightarrow> Inr s | _ \<Rightarrow> Inl TypeErr)"

definition demo_net :: os_env where
  "demo_net = \<lparr>os_run = (\<lambda>_ _. Inl FileNotFoundErr), os_effect = (\<lambda>_ _ fs. fs), os_list = (\<lambda>_. []), os_which = (\<lambda>_. None),
     os_fetch = (\<lambda>url. Inr [if endswith url ''.sha256'' then sha256_hex ''lib'' else ''lib''])\<rparr>"

lemma demo_locked: "locked_package demo_dir (pw_files demo_native_world) = Inr (''pkg'', ''1.2.3'', demo_digest)"
  by code_simp

lemma demo_not_cached: "pw_files demo_native_world (native_path True ''1.2.3'') = None"
  by (simp add: demo_native_world_def native_path_def native_dir_def native_name_def path_join_def)

lemma demo_prepare: "prepare_native_library S True demo_dir demo_native_world =
    bindI (fetch_native S True ''1.2.3'' demo_digest) (\<lambda>_. retI (native_path True ''1.2.3'')) demo_native_world"
  using demo_locked demo_not_cached
  by (simp add: prepare_native_library_def Let_def bindI_def[of "checkI _"] bindI_def[of "readI _"] checkI_def readI_def)

lemma demo_failed: "\<exists>w'. prepare_native_library (demo_net\<lparr>os_fetch := \<lambda>_. Inl (OSErr ''URLError'')\<rparr>) True demo_dir demo_native_world =
    (Inl (OSErr ''URLError''), w')"
  unfolding demo_prepare by (simp add: io_defs fetch_native_def download_verified_def download_def unlink_def)

lemma sha256_text: "decode_text (sha256_hex b) = Inr (sha256_hex b)" "checksum_field (sha256_hex b) = Inr (sha256_hex b)"
proof -
  have h: "list_all is_hex (sha256_hex b)" "length (sha256_hex b) = 64" using sha256_hex_shape[of b] by (simp_all add: is_sha256_def)
  then have v: "list_all visible (sha256_hex b)" by (auto simp: list_all_iff is_hex_visible)
  then show "decode_text (sha256_hex b) = Inr (sha256_hex b)"
    by (intro decode_text_ascii visible_ascii) (auto simp: list_all_iff visible_def)
  have "word_prefix s = s" if "list_all visible s" for s
    using that by (induction s) (auto simp: non_ws_def ws_len_visible)
  then show "checksum_field (sha256_hex b) = Inr (sha256_hex b)"
    using h v by (auto simp: checksum_field_def strip_visible lower_hex is_hex_any_def lower_char_hex list_all_iff)
qed

lemma demo_fetched: "\<exists>w'. fetch_native demo_net True ''1.2.3'' demo_digest demo_native_world = (Inr (), w')"
proof -
  have u: "endswith (native_url True ''1.2.3'' @ ''.sha256'') ''.sha256''" "\<not> endswith (native_url True ''1.2.3'') ''.sha256''"
    by (simp_all add: native_url_def native_name_def endswith_def startswith_def)
  have d: "part_path True ''1.2.3'' \<noteq> sidecar_path True ''1.2.3''" using native_paths_distinct by auto
  have n: "sha256_hex ''lib'' \<noteq> []" "length (sha256_hex ''lib'') = 64"
    using sha256_hex_shape[of "''lib''"] by (auto simp: is_sha256_def)
  show ?thesis using u d n
    by (simp add: fetch_native_def download_verified_def download_def demo_net_def io_defs write_bytes_def append_text_def unlink_def
      read_text_def read_bytes_def read_file_def sha256_text)
qed

lemma demo_prepared: "\<exists>p w'. prepare_native_library demo_net True demo_dir demo_native_world = (Inr p, w')"
  unfolding demo_prepare using demo_fetched by (auto simp: bindI_def retI_def)

theorem native_library_verified_witness:
  "\<exists>p w' pkg v d content m. prepare_native_library demo_net True demo_dir demo_native_world = (Inr p, w') \<and>
    locked_package demo_dir (pw_files demo_native_world) = Inr (pkg, v, d) \<and> p = native_path True v \<and>
    pw_files w' p = Some content \<and> pw_files w' (native_manifest True v) = Some m \<and>
    states_library m v d (native_url True v) (sha256_hex content) \<and>
    (w' = demo_native_world \<or> published demo_net True v content)"
proof -
  obtain p w' where r: "prepare_native_library demo_net True demo_dir demo_native_world = (Inr p, w')" using demo_prepared by blast
  from native_library_verified[OF r] r show ?thesis by blast
qed

theorem native_library_cached_witness:
  "\<exists>p w'. prepare_native_library demo_net True demo_dir demo_native_world = (Inr p, w') \<and>
    prepare_native_library (demo_net\<lparr>os_fetch := \<lambda>_. Inl (OSErr ''URLError'')\<rparr>) True demo_dir w' = (Inr p, w')"
proof -
  obtain p w' where r: "prepare_native_library demo_net True demo_dir demo_native_world = (Inr p, w')" using demo_prepared by blast
  from native_library_cached[OF r] r show ?thesis by blast
qed

theorem native_library_failure_keeps_files_witness:
  "\<exists>w'. prepare_native_library (demo_net\<lparr>os_fetch := \<lambda>_. Inl (OSErr ''URLError'')\<rparr>) True demo_dir demo_native_world =
      (Inl (OSErr ''URLError''), w') \<and>
    (\<forall>p. pw_files w' p = pw_files demo_native_world p \<or> pw_files w' p = None \<and> (\<exists>v. p = part_path True v \<or> p = sidecar_path True v))"
proof -
  obtain w' where r: "prepare_native_library (demo_net\<lparr>os_fetch := \<lambda>_. Inl (OSErr ''URLError'')\<rparr>) True demo_dir demo_native_world =
    (Inl (OSErr ''URLError''), w')" using demo_failed by blast
  from native_library_failure_keeps_files[OF r] r show ?thesis by blast
qed

end
