(* ===== verification/Signpath_Staging.thy ===== *)
theory Signpath_Staging
  imports Installer_Build
begin

text \<open>
  \<open>installer/signpath_staging.py\<close>: unsigned executables are staged with a manifest of their digests; what comes back from
  the signing service replaces them only when nothing but the signature has changed. Paths are written relative to the
  root of the project (\<open>resolve()\<close> is the identity on them).
\<close>

definition STAGE :: string where
  "STAGE = ''installer/signpath-work''"

definition UNINSTALLER_ARTIFACT :: string where
  "UNINSTALLER_ARTIFACT = ''plug_agente_uninstaller.exe''"

definition unsigned_dir :: string where
  "unsigned_dir = path_join STAGE ''unsigned-components''"

definition cache_dir :: string where
  "cache_dir = path_join STAGE ''uninstaller-cache''"

definition stage_manifest :: string where
  "stage_manifest = path_join STAGE ''manifest.json''"

subsection \<open>Digests\<close>

definition file_sha256 :: "string \<Rightarrow> string pio" where
  "file_sha256 path = bindI (read_bytes path) (\<lambda>b. retI (sha256_hex b))"

fun hash_entries :: "string \<Rightarrow> string list \<Rightarrow> (string \<times> json) list pio" where
  "hash_entries base [] = retI []"
| "hash_entries base (p # ps) =
     bindI (file_sha256 p) (\<lambda>d. bindI (hash_entries base ps) (\<lambda>kvs. retI ((removeprefix p base, JStr d) # kvs)))"

text \<open>Paths are ordered by their parts.\<close>

definition sort_paths :: "string list \<Rightarrow> string list" where
  "sort_paths ps = sort_key (split_on ''/'') ps"

definition bundle_hashes :: "os_env \<Rightarrow> json pio" where
  "bundle_hashes S = bindI (files_below S BUILD_DIR) (\<lambda>ps.
     bindI (hash_entries (BUILD_DIR @ ''/'') (sort_paths ps)) (\<lambda>kvs. retI (JObj (dict_of kvs))))"

text \<open>\<open>directory.glob("*" + suffix)\<close>\<close>

definition glob_suffix :: "os_env \<Rightarrow> string \<Rightarrow> string \<Rightarrow> string list pio" where
  "glob_suffix S dir suffix = bindI (files_below S dir) (\<lambda>ps.
     retI (filter (\<lambda>p. CHR ''/'' \<notin> set (removeprefix p (dir @ ''/'')) \<and> endswith p suffix) ps))"

definition configuration_hashes :: "os_env \<Rightarrow> json pio" where
  "configuration_hashes S =
     bindI (glob_suffix S ''installer'' ''.iss'') (\<lambda>scripts.
     bindI (glob_suffix S ''installer/wizard'' ''.png'') (\<lambda>images.
     bindI (hash_entries [] (sort_paths (scripts @ [''readme.md'', ''LICENSE''] @ images @ [''windows/runner/resources/app_icon.ico'']))) (\<lambda>kvs.
     retI (JObj (dict_of kvs)))))"

definition require_metadata :: "winapi \<Rightarrow> string \<Rightarrow> json \<Rightarrow> unit pio" where
  "require_metadata A path version = checkI (\<lambda>w.
     bindR (read_version_info A (pw_files w) path) (\<lambda>info.
     bindR (of_option (KeyErr ''ProductName'') (map_of info ''ProductName'')) (\<lambda>n.
     if strip n \<noteq> PRODUCT_NAME then Inl (ValueErr ''Unexpected product metadata'')
     else bindR (of_option (KeyErr ''ProductVersion'') (map_of info ''ProductVersion'')) (\<lambda>v.
       if \<not> py_eq (JStr (strip v)) version then Inl (ValueErr ''Unexpected product metadata'') else Inr ()))))"

subsection \<open>The signed executable\<close>

text \<open>\<open>_certificate_directory\<close>: the positions of the checksum and of the directory entry, and the offset and the size of
  the certificate table\<close>

definition certificate_directory :: "bytes \<Rightarrow> (nat \<times> nat \<times> nat \<times> nat) res" where
  "certificate_directory data =
     (if take 2 data \<noteq> ''MZ'' then Inl (ValueErr ''Signing result is not a PE file'')
      else bindR (unpack_le 4 data 0x3C) (\<lambda>pe.
        if slice pe 4 data \<noteq> [CHR ''P'', CHR ''E'', CHR 0x00, CHR 0x00] then Inl (ValueErr ''Invalid PE header in signing result'')
        else let optional = pe + 24 in
          bindR (unpack_le 2 data optional) (\<lambda>magic.
          if magic \<notin> {0x10B, 0x20B} then Inl (ValueErr ''Unsupported signing result PE format'')
          else let directory = optional + (if magic = 0x20B then 112 else 96) + 4 * 8 in
            if length data < directory + 8 then Inl StructErr
            else bindR (unpack_le 4 data directory) (\<lambda>offset. bindR (unpack_le 4 data (directory + 4)) (\<lambda>size.
              Inr (optional + 64, directory, offset, size))))))"

text \<open>\<open>data[a:a + n] = b"\0" * n\<close>\<close>

definition blank :: "nat \<Rightarrow> nat \<Rightarrow> bytes \<Rightarrow> bytes" where
  "blank a n data = take a data @ replicate n CHR 0x00 @ drop (a + n) data"

definition unchanged_payload :: "bytes \<Rightarrow> bytes \<Rightarrow> unit res" where
  "unchanged_payload source result =
     bindR (certificate_directory result) (\<lambda>(checksum, directory, offset, size).
     bindR (certificate_directory source) (\<lambda>(source_checksum, source_directory, source_offset, source_size).
     if source_offset \<noteq> 0 \<or> source_size \<noteq> 0 then Inl (ValueErr ''Signing input was already signed'')
     else if size = 0 \<or> offset < length source \<or> offset + size \<noteq> length result \<or> 7 < offset - length source
       then Inl (ValueErr ''Invalid appended Authenticode signature'')
     else let s = blank source_directory 8 (blank source_checksum 4 source); r = blank directory 8 (blank checksum 4 result) in
       if take (length s) r \<noteq> s \<or> list_ex (\<lambda>c. c \<noteq> CHR 0x00) (take (offset - length s) (drop (length s) r))
         then Inl (ValueErr ''Signing changed executable content'')
       else Inr ()))"

definition require_unchanged_payload :: "string \<Rightarrow> string \<Rightarrow> unit pio" where
  "require_unchanged_payload original signed_path =
     bindI (read_bytes original) (\<lambda>source. bindI (read_bytes signed_path) (\<lambda>result. liftI (unchanged_payload source result)))"

definition thumbprint_script :: "string \<Rightarrow> string" where
  "thumbprint_script path = ''$signature=Get-AuthenticodeSignature -LiteralPath '' @ squote @ replace_str squote (squote @ squote) path @ squote @
     ''; if ($signature.Status -ne '' @ squote @ ''Valid'' @ squote @ '') { throw '' @ squote @ ''Invalid Authenticode signature'' @ squote @
     '' }; $signature.SignerCertificate.Thumbprint''"

definition signature_thumbprint :: "os_env \<Rightarrow> string \<Rightarrow> string pio" where
  "signature_thumbprint S path =
     bindI (run_process S [''powershell.exe'', ''-NoProfile'', ''-NonInteractive'', ''-Command'', thumbprint_script path]) (\<lambda>p.
     if p_code p \<noteq> 0 then raiseI (ProcessErr (p_code p))
     else let thumbprint = strip (p_out p) in
       if py_len thumbprint \<noteq> 40 \<or> list_ex (\<lambda>c. c \<notin> set ''0123456789ABCDEF'') thumbprint
         then raiseI (ValueErr ''Missing signing certificate identity'') else retI thumbprint)"

subsection \<open>The staging manifest\<close>

definition update_channel_setting :: "string pio" where
  "update_channel_setting = bindI (resolve_auto_update_define ''AUTO_UPDATE_CHANNEL'') (\<lambda>c.
     retI (case or_else c None of Some s \<Rightarrow> s | None \<Rightarrow> ''stable''))"

text \<open>The entries of \<open>manifest["inputs"].items()\<close>\<close>

definition dict_entries :: "json \<Rightarrow> (string \<times> json) list res" where
  "dict_entries v = (case v of JObj kvs \<Rightarrow> Inr kvs | _ \<Rightarrow> Inl AttributeErr)"

definition check_input :: "string \<times> json \<Rightarrow> unit pio" where
  "check_input kv = bindI (file_sha256 (path_join unsigned_dir (fst kv))) (\<lambda>d.
     guardI (\<not> py_eq (JStr d) (snd kv)) (ValueErr ''Signing input changed after staging''))"

definition read_stage_manifest :: "os_env \<Rightarrow> json pio" where
  "read_stage_manifest S =
     bindI (read_text stage_manifest) (\<lambda>t.
     bindI (liftI (json_loads t)) (\<lambda>manifest.
     bindI (liftI (item manifest ''version'')) (\<lambda>version.
     bindI (checkI (\<lambda>w. application_version (pw_files w))) (\<lambda>current.
     bindI (guardI (\<not> py_eq version (JStr current)) (ValueErr ''Application version or installer configuration changed after staging'')) (\<lambda>_.
     bindI (liftI (item manifest ''configuration'')) (\<lambda>configuration.
     bindI (configuration_hashes S) (\<lambda>hashes.
     bindI (guardI (\<not> py_eq configuration hashes) (ValueErr ''Application version or installer configuration changed after staging'')) (\<lambda>_.
     bindI (liftI (item manifest ''channel'')) (\<lambda>channel.
     bindI update_channel_setting (\<lambda>setting.
     bindI (guardI (\<not> py_eq channel (JStr setting)) (ValueErr ''Update channel changed after staging'')) (\<lambda>_.
     bindI (liftI (bindR (item manifest ''inputs'') dict_entries)) (\<lambda>inputs.
     bindI (forI inputs check_input) (\<lambda>_. retI manifest)))))))))))))"

subsection \<open>prepare\<close>

definition stage_empty :: "os_env \<Rightarrow> unit pio" where
  "stage_empty S =
     bindI (file_exists STAGE) (\<lambda>is_file. bindI (guardI is_file (OSErr ''NotADirectoryError'')) (\<lambda>_.
     bindI (dir_exists S STAGE) (\<lambda>full. guardI full (ValueErr ''Signing staging directory must be empty''))))"

definition stage_executable :: "winapi \<Rightarrow> string \<Rightarrow> string \<Rightarrow> unit pio" where
  "stage_executable A version name =
     bindI (require_metadata A (path_join BUILD_DIR name) (JStr version)) (\<lambda>_.
     copy_file (path_join BUILD_DIR name) (path_join unsigned_dir name))"

definition staged_names :: "string list" where
  "staged_names = PROJECT_EXECUTABLES @ [UNINSTALLER_ARTIFACT]"

definition stage_json :: "string \<Rightarrow> string \<Rightarrow> json \<Rightarrow> json \<Rightarrow> string \<Rightarrow> json \<Rightarrow> json" where
  "stage_json version channel configuration bundle uninstaller inputs =
     JObj [(''version'', JStr version), (''channel'', JStr channel), (''configuration'', configuration), (''bundle'', bundle),
       (''uninstaller'', JStr uninstaller), (''inputs'', inputs)]"

text \<open>The run of the compiler that is expected to stop with code 2 because the uninstaller has no signature yet\<close>

definition stage_uninstaller :: "os_env \<Rightarrow> winapi \<Rightarrow> string \<Rightarrow> string pio" where
  "stage_uninstaller S A version =
     bindI (build_iscc_command S (Some cache_dir)) (\<lambda>cmd.
     bindI (run_process S cmd) (\<lambda>result.
     bindI (glob_suffix S cache_dir ''.e32'') (\<lambda>uninstallers.
     case uninstallers of
       [uninstaller] \<Rightarrow>
         if p_code result \<noteq> 2 \<or> \<not> contains (p_err result) ''please attach your digital signature''
           then raiseI (ValueErr ''Could not stage the unsigned Inno uninstaller'')
         else bindI (require_metadata A uninstaller (JStr version)) (\<lambda>_.
           bindI (copy_file uninstaller (path_join unsigned_dir UNINSTALLER_ARTIFACT)) (\<lambda>_. retI (path_name uninstaller)))
     | _ \<Rightarrow> raiseI (ValueErr ''Could not stage the unsigned Inno uninstaller''))))"

definition prepare_stage :: "os_env \<Rightarrow> winapi \<Rightarrow> unit pio" where
  "prepare_stage S A =
     bindI (stage_empty S) (\<lambda>_.
     bindI (checkI (\<lambda>w. application_version (pw_files w))) (\<lambda>version.
     bindI (forI PROJECT_EXECUTABLES (stage_executable A version)) (\<lambda>_.
     bindI (stage_uninstaller S A version) (\<lambda>uninstaller.
     bindI (hash_entries (unsigned_dir @ ''/'') (map (path_join unsigned_dir) staged_names)) (\<lambda>inputs.
     bindI update_channel_setting (\<lambda>channel.
     bindI (configuration_hashes S) (\<lambda>configuration.
     bindI (bundle_hashes S) (\<lambda>bundle.
     bindI (write_bytes stage_manifest (dumps2 (stage_json version channel configuration bundle uninstaller (JObj inputs)))) (\<lambda>_.
     print_line (''SignPath unsigned inputs ready: '' @ unsigned_dir))))))))))"

subsection \<open>package\<close>

fun component_thumbprints :: "os_env \<Rightarrow> winapi \<Rightarrow> string \<Rightarrow> json \<Rightarrow> string list \<Rightarrow> string list pio" where
  "component_thumbprints S A signed_directory version [] = retI []"
| "component_thumbprints S A signed_directory version (name # names) =
     bindI (require_unchanged_payload (path_join unsigned_dir name) (path_join signed_directory name)) (\<lambda>_.
     bindI (require_metadata A (path_join signed_directory name) version) (\<lambda>_.
     bindI (verify_signed_file S (path_join signed_directory name)) (\<lambda>_.
     bindI (signature_thumbprint S (path_join signed_directory name)) (\<lambda>t.
     bindI (component_thumbprints S A signed_directory version names) (\<lambda>ts. retI (t # ts))))))"

definition manifest_entries :: "json \<Rightarrow> (string \<times> json) list" where
  "manifest_entries manifest = (case manifest of JObj kvs \<Rightarrow> kvs | _ \<Rightarrow> [])"

text \<open>The signed executables and the signed uninstaller go where the compiler finds them, and the installer is compiled.\<close>

definition compile_signed :: "os_env \<Rightarrow> string \<Rightarrow> json \<Rightarrow> string pio" where
  "compile_signed S signed_directory manifest =
     bindI (forI PROJECT_EXECUTABLES (\<lambda>name. copy_file (path_join signed_directory name) (path_join BUILD_DIR name))) (\<lambda>_.
     bindI (liftI (bindR (item manifest ''uninstaller'') str_of)) (\<lambda>uninstaller.
     bindI (copy_file (path_join signed_directory UNINSTALLER_ARTIFACT) (path_join cache_dir uninstaller)) (\<lambda>_.
     bindI (build_iscc_command S (Some cache_dir)) (\<lambda>cmd.
     bindI (run_build S cmd) (\<lambda>_.
     bindI find_generated_installer (\<lambda>installer.
     bindI (dir_exists S (path_join STAGE ''unsigned-installer'')) (\<lambda>present.
     bindI (guardI present FileExistsErr) (\<lambda>_.
     let unsigned_installer = path_join (path_join STAGE ''unsigned-installer'') (path_name installer) in
     bindI (copy_file installer unsigned_installer) (\<lambda>_. retI unsigned_installer)))))))))"

definition package_stage :: "os_env \<Rightarrow> winapi \<Rightarrow> string \<Rightarrow> unit pio" where
  "package_stage S A signed_directory =
     bindI (read_stage_manifest S) (\<lambda>manifest.
     bindI (bundle_hashes S) (\<lambda>bundle.
     bindI (liftI (item manifest ''bundle'')) (\<lambda>staged.
     bindI (guardI (\<not> py_eq bundle staged) (ValueErr ''Application bundle changed after staging'')) (\<lambda>_.
     bindI (files_below S signed_directory) (\<lambda>ps.
     bindI (liftI (bindR (item manifest ''inputs'') dict_entries)) (\<lambda>inputs.
     bindI (guardI (set (map (\<lambda>p. removeprefix p (signed_directory @ ''/'')) ps) \<noteq> set (map fst inputs))
       (ValueErr ''Returned signing artifact contains missing or unexpected files'')) (\<lambda>_.
     bindI (liftI (item manifest ''version'')) (\<lambda>version.
     bindI (component_thumbprints S A signed_directory version (map fst inputs)) (\<lambda>thumbprints.
     case remdups thumbprints of
       [thumbprint] \<Rightarrow>
         bindI (compile_signed S signed_directory manifest) (\<lambda>unsigned_installer.
         bindI (file_sha256 unsigned_installer) (\<lambda>digest.
         bindI (bundle_hashes S) (\<lambda>signed_bundle.
         bindI (write_bytes stage_manifest (dumps2 (JObj (dict_put ''signed_bundle'' signed_bundle
           (dict_put ''installer_sha256'' (JStr digest) (dict_put ''certificate'' (JStr thumbprint) (manifest_entries manifest))))))) (\<lambda>_.
         print_line (''SignPath installer signing input ready: '' @ unsigned_installer)))))
     | _ \<Rightarrow> raiseI (ValueErr ''All project components must use the same signing certificate''))))))))))"

subsection \<open>finalize\<close>

text \<open>The checks of \<open>finalize\<close>, with the installer to replace as the result\<close>

definition finalize_checks :: "os_env \<Rightarrow> winapi \<Rightarrow> string \<Rightarrow> string pio" where
  "finalize_checks S A signed_installer =
     bindI (read_stage_manifest S) (\<lambda>manifest.
     bindI (bundle_hashes S) (\<lambda>bundle.
     bindI (liftI (item manifest ''signed_bundle'')) (\<lambda>staged.
     bindI (guardI (\<not> py_eq bundle staged) (ValueErr ''Signed application bundle changed before final verification'')) (\<lambda>_.
     bindI find_generated_installer (\<lambda>generated.
     let original = path_join (path_join STAGE ''unsigned-installer'') (path_name generated) in
     bindI (file_sha256 original) (\<lambda>digest.
     bindI (liftI (item manifest ''installer_sha256'')) (\<lambda>recorded.
     bindI (guardI (\<not> py_eq (JStr digest) recorded) (ValueErr ''Installer signing input changed'')) (\<lambda>_.
     bindI (require_unchanged_payload original signed_installer) (\<lambda>_.
     bindI (liftI (item manifest ''version'')) (\<lambda>version.
     bindI (require_metadata A signed_installer version) (\<lambda>_.
     bindI (verify_signed_file S signed_installer) (\<lambda>_.
     bindI (signature_thumbprint S signed_installer) (\<lambda>thumbprint.
     bindI (liftI (item manifest ''certificate'')) (\<lambda>certificate.
     bindI (guardI (\<not> py_eq (JStr thumbprint) certificate) (ValueErr ''Installer and components must use the same signing certificate'')) (\<lambda>_.
     find_generated_installer)))))))))))))))"

definition finalize_stage :: "os_env \<Rightarrow> winapi \<Rightarrow> string \<Rightarrow> unit pio" where
  "finalize_stage S A signed_installer =
     bindI (finalize_checks S A signed_installer) (\<lambda>generated.
     bindI (copy_file signed_installer generated) (\<lambda>_.
     print_line ''All SignPath component, uninstaller and installer signatures verified''))"

subsection \<open>main\<close>

datatype stage_command = ShowParameters | PackageComponents string | FinalizeInstaller string

text \<open>\<open>json.dumps(v)\<close> of a text\<close>

definition show_parameters :: "os_env \<Rightarrow> winapi \<Rightarrow> unit pio" where
  "show_parameters S A =
     bindI (read_stage_manifest S) (\<lambda>manifest.
     bindI (checkI (\<lambda>w. read_version_info A (pw_files w) (path_join unsigned_dir UNINSTALLER_ARTIFACT))) (\<lambda>info.
     bindI (liftI (item manifest ''version'')) (\<lambda>version.
     bindI (liftI (str_of version)) (\<lambda>v.
     bindI (print_line (''version_json='' @ json_quote_ascii v)) (\<lambda>_.
     bindI (liftI (of_option (KeyErr ''ProductName'') (map_of info ''ProductName''))) (\<lambda>n.
     bindI (print_line (''inno_product_name_json='' @ json_quote_ascii n)) (\<lambda>_.
     bindI (liftI (of_option (KeyErr ''ProductVersion'') (map_of info ''ProductVersion''))) (\<lambda>pv.
     print_line (''inno_product_version_json='' @ json_quote_ascii pv)))))))))"

text \<open>\<open>except (OSError, ValueError, KeyError, subprocess.SubprocessError)\<close>\<close>

definition staging_error :: "exn \<Rightarrow> bool" where
  "staging_error e = (case e of ValueErr _ \<Rightarrow> True | KeyErr _ \<Rightarrow> True | FileNotFoundErr \<Rightarrow> True | FileExistsErr \<Rightarrow> True
     | OSErr _ \<Rightarrow> True | ProcessErr _ \<Rightarrow> True | _ \<Rightarrow> False)"

definition signpath_main :: "os_env \<Rightarrow> winapi \<Rightarrow> stage_command \<Rightarrow> unit pio" where
  "signpath_main S A cmd = catchI
     (case cmd of ShowParameters \<Rightarrow> show_parameters S A
       | PackageComponents d \<Rightarrow> package_stage S A d
       | FinalizeInstaller f \<Rightarrow> finalize_stage S A f)
     (\<lambda>e. if staging_error e then raiseI (ExitErr ''SignPath staging failed'') else raiseI e)"

end
