(* ===== verification/Signpath_Spec.thy ===== *)
theory Signpath_Spec
  imports Signpath_Staging Installer_BuildSpec
begin

text \<open>
  What the staging promises: an accepted signed executable is the staged one outside the checksum and the certificate
  entry, and \<open>finalize\<close> publishes only such an installer, signed with the certificate of the components.
\<close>

subsection \<open>The signed executable\<close>

lemma length_blank: "a + n \<le> length d \<Longrightarrow> length (blank a n d) = length d"
  by (simp add: blank_def)

lemma nth_blank: "a + n \<le> length d \<Longrightarrow> i < length d \<Longrightarrow> blank a n d ! i = (if a \<le> i \<and> i < a + n then CHR 0x00 else d ! i)"
  by (auto simp: blank_def nth_append)

lemma certificate_directory_ok:
  assumes "certificate_directory data = Inr (c, d, off, sz)"
  shows "\<exists>pe magic. unpack_le 4 data 0x3C = Inr pe \<and> unpack_le 2 data (pe + 24) = Inr magic \<and> c = pe + 88 \<and>
    d = pe + (if magic = 0x20B then 168 else 152) \<and> d + 8 \<le> length data"
proof -
  obtain pe magic where "unpack_le 4 data 0x3C = Inr pe" "unpack_le 2 data (pe + 24) = Inr magic"
    "c = pe + 24 + 64" "d = pe + 24 + (if magic = 0x20B then 112 else 96) + 4 * 8" "\<not> length data < d + 8"
    using assms unfolding certificate_directory_def Let_def ok_iff by blast
  then show ?thesis by (intro exI[of _ pe] exI[of _ magic]) simp
qed

lemma unpack_agree:
  assumes "unpack_le n a pos = Inr v" "unpack_le n b pos = Inr v'" "\<And>i. i < pos + n \<Longrightarrow> a ! i = b ! i"
  shows "v = v'"
proof -
  have "take n (drop pos a) = take n (drop pos b)" using assms by (intro nth_equalityI) (auto simp: unpack_le_ok)
  then show ?thesis using assms(1,2) by (simp add: unpack_le_ok)
qed

text \<open>Two executables that agree once their own checksum and certificate entry are blanked have them at the same place.\<close>

lemma same_places:
  assumes s: "certificate_directory source = Inr (c, d, off, sz)" and r: "certificate_directory result = Inr (c', d', off', sz')"
    and eq: "\<And>i. i < length source \<Longrightarrow> blank d 8 (blank c 4 source) ! i = blank d' 8 (blank c' 4 result) ! i"
    and le: "length source \<le> length result"
  shows "c' = c \<and> d' = d"
proof -
  obtain pe m where s1: "unpack_le 4 source 0x3C = Inr pe" "unpack_le 2 source (pe + 24) = Inr m" "c = pe + 88"
    "d = pe + (if m = 0x20B then 168 else 152)" "d + 8 \<le> length source" using certificate_directory_ok[OF s] by blast
  obtain pe' m' where r1: "unpack_le 4 result 0x3C = Inr pe'" "unpack_le 2 result (pe' + 24) = Inr m'" "c' = pe' + 88"
    "d' = pe' + (if m' = 0x20B then 168 else 152)" "d' + 8 \<le> length result" using certificate_directory_ok[OF r] by blast
  have agree: "source ! i = result ! i" if i: "i < pe + 88" "i < pe' + 88" for i
  proof -
    have "i < length source" "c + 4 \<le> length source" "c' + 4 \<le> length result" using i s1 r1 by (auto split: if_splits)
    then show ?thesis using eq[of i] i s1 r1 le by (auto simp: nth_blank length_blank split: if_splits)
  qed
  have "pe = pe'" using unpack_agree[OF s1(1) r1(1)] agree by simp
  then have "m = m'" using unpack_agree[OF s1(2), of result m'] r1(2) agree by simp
  then show ?thesis using \<open>pe = pe'\<close> s1(3,4) r1(3,4) by simp
qed

text \<open>The signed file differs from the source only in the checksum and the certificate entry, and appends at most
  seven zero bytes and the certificate table.\<close>

definition only_signed :: "bytes \<Rightarrow> bytes \<Rightarrow> bool" where
  "only_signed source result \<longleftrightarrow> (\<exists>c d off sz.
     certificate_directory source = Inr (c, d, 0, 0) \<and> certificate_directory result = Inr (c, d, off, sz) \<and>
     0 < sz \<and> off + sz = length result \<and> length source \<le> off \<and> off \<le> length source + 7 \<and>
     (\<forall>i < length source. (c \<le> i \<and> i < c + 4) \<or> (d \<le> i \<and> i < d + 8) \<or> result ! i = source ! i) \<and>
     (\<forall>i < off. length source \<le> i \<longrightarrow> result ! i = CHR 0x00))"

lemma unchanged_only_signed:
  assumes "unchanged_payload source result = Inr ()"
  shows "only_signed source result"
proof -
  obtain c' d' off sz c d where k: "certificate_directory result = Inr (c', d', off, sz)" "certificate_directory source = Inr (c, d, 0, 0)"
    "0 < sz" "length source \<le> off" "off + sz = length result" "off - length source \<le> 7" and
    eq: "take (length (blank d 8 (blank c 4 source))) (blank d' 8 (blank c' 4 result)) = blank d 8 (blank c 4 source)" and
    z: "\<not> list_ex (\<lambda>c. c \<noteq> CHR 0x00) (take (off - length (blank d 8 (blank c 4 source))) (drop (length (blank d 8 (blank c 4 source))) (blank d' 8 (blank c' 4 result))))"
    using assms by (auto simp: unchanged_payload_def ok_iff Let_def not_less)
  have ls: "c + 4 \<le> d" "d + 8 \<le> length source" "c' + 4 \<le> d'" "d' + 8 \<le> length result"
    using certificate_directory_ok[OF k(1)] certificate_directory_ok[OF k(2)] by (auto split: if_splits)
  then have len: "length (blank d 8 (blank c 4 source)) = length source" "length (blank d' 8 (blank c' 4 result)) = length result"
    by (simp_all add: length_blank)
  have le: "length source \<le> length result" using k by simp
  have eq': "blank d 8 (blank c 4 source) ! i = blank d' 8 (blank c' 4 result) ! i" if "i < length source" for i
    using that eq unfolding len by (metis nth_take)
  have same: "c' = c" "d' = d" using same_places[OF k(2,1) eq' le] by simp_all
  have body: "(c \<le> i \<and> i < c + 4) \<or> (d \<le> i \<and> i < d + 8) \<or> result ! i = source ! i" if "i < length source" for i
    using eq'[OF that] that ls le unfolding same by (auto simp: nth_blank length_blank split: if_splits)
  have "result ! i = CHR 0x00" if i: "i < off" "length source \<le> i" for i
  proof -
    have "take (off - length source) (drop (length source) (blank d' 8 (blank c' 4 result))) ! (i - length source) = CHR 0x00"
      using z i k(5) unfolding len list_ex_iff by (metis (no_types, lifting) diff_less_mono le_add1 len(2) length_drop length_take min.absorb2 diff_le_mono nth_mem)
    then have "blank d' 8 (blank c' 4 result) ! i = CHR 0x00" using i k(5) len(2) le by simp
    then show ?thesis using i k(5) ls le unfolding same by (auto simp: nth_blank length_blank split: if_splits)
  qed
  then show ?thesis using k body unfolding only_signed_def same by fastforce
qed


lemma only_signed_unchanged:
  assumes "only_signed source result"
  shows "unchanged_payload source result = Inr ()"
proof -
  obtain c d off sz where k: "certificate_directory source = Inr (c, d, 0, 0)" "certificate_directory result = Inr (c, d, off, sz)"
    "0 < sz" "off + sz = length result" "length source \<le> off" "off \<le> length source + 7" and
    body: "\<And>i. i < length source \<Longrightarrow> (c \<le> i \<and> i < c + 4) \<or> (d \<le> i \<and> i < d + 8) \<or> result ! i = source ! i" and
    pad: "\<And>i. i < off \<Longrightarrow> length source \<le> i \<Longrightarrow> result ! i = CHR 0x00"
    using assms unfolding only_signed_def by blast
  let ?s = "blank d 8 (blank c 4 source)" and ?r = "blank d 8 (blank c 4 result)"
  have ls: "c + 4 \<le> d" "d + 8 \<le> length source" "d + 8 \<le> length result"
    using certificate_directory_ok[OF k(1)] k by (auto split: if_splits)
  then have len: "length ?s = length source" "length ?r = length result" by (simp_all add: length_blank)
  have "take (length source) ?r ! i = ?s ! i" if "i < length source" for i
    using that body[OF that] ls k by (auto simp: nth_blank length_blank split: if_splits)
  then have eq: "take (length source) ?r = ?s" using k(4,5) len by (intro nth_equalityI) auto
  have "take (off - length source) (drop (length source) ?r) ! j = CHR 0x00" if "j < off - length source" for j
    using that pad[of "length source + j"] ls k by (auto simp: nth_blank length_blank split: if_splits)
  then have "\<not> list_ex (\<lambda>c. c \<noteq> CHR 0x00) (take (off - length source) (drop (length source) ?r))"
    using k(4) len by (auto simp: list_ex_iff in_set_conv_nth)
  then show ?thesis using k eq by (simp add: unchanged_payload_def len)
qed

text \<open>
  C23. A signed executable is accepted exactly when it has the checksum field and the certificate entry where the source
  has them, the source carries no certificate, every other byte of the source is unchanged, and only a padding of at
  most seven zero bytes and the certificate table follow it.
\<close>

theorem unchanged_payload_iff: "unchanged_payload source result = Inr () \<longleftrightarrow> only_signed source result"
  using unchanged_only_signed only_signed_unchanged by blast

subsection \<open>finalize\<close>

text \<open>The tools that check a signature write no file.\<close>

definition read_only_tools :: "os_env \<Rightarrow> bool" where
  "read_only_tools S \<longleftrightarrow> (\<forall>ts args fs. os_effect S ts args fs = fs)"

lemma keeps_process: "read_only_tools S \<Longrightarrow> keeps pw_files (run_process S args)"
  by (auto simp: keeps_def run_process_def read_only_tools_def)

lemma keeps_print_files [keeps_intro]: "keeps pw_files (print_line s)"
  by (auto simp: keeps_def print_line_def io_defs)

lemma keeps_sha [keeps_intro]: "keeps f (file_sha256 p)"
  unfolding file_sha256_def by (intro keeps_intro)

lemma keeps_hash_entries [keeps_intro]: "keeps f (hash_entries base ps)"
  by (induction base ps rule: hash_entries.induct) (auto intro!: keeps_intro)

lemma keeps_hashes [keeps_intro]: "keeps f (bundle_hashes S)" "keeps f (configuration_hashes S)"
  unfolding bundle_hashes_def configuration_hashes_def glob_suffix_def by (intro keeps_intro)+

lemma keeps_stage_manifest [keeps_intro]: "keeps f (read_stage_manifest S)"
  unfolding read_stage_manifest_def update_channel_setting_def check_input_def by (intro keeps_intro)

lemma keeps_find_installer [keeps_intro]: "keeps f find_generated_installer" "keeps f (find_signtool S)"
  "keeps f (require_metadata A p v)" "keeps f (require_unchanged_payload p q)"
  unfolding find_generated_installer_def find_signtool_def require_metadata_def require_unchanged_payload_def by (intro keeps_intro)+

lemma keeps_exn [keeps_intro]: "keeps f (case e of FileNotFoundErr \<Rightarrow> raiseI a | _ \<Rightarrow> raiseI e)"
  by (cases e) (auto intro: keeps_intro)

lemma keeps_verify: "read_only_tools S \<Longrightarrow> keeps pw_files (verify_signed_file S p)"
  unfolding verify_signed_file_def run_build_def by (intro keeps_intro keeps_process)

lemma keeps_thumbprint: "read_only_tools S \<Longrightarrow> keeps pw_files (signature_thumbprint S p)"
  unfolding signature_thumbprint_def Let_def by (intro keeps_intro keeps_process)

definition has_thumbprint :: "os_env \<Rightarrow> string \<Rightarrow> string \<Rightarrow> bool" where
  "has_thumbprint S path t \<longleftrightarrow> (\<exists>ts p. os_run S ts [''powershell.exe'', ''-NoProfile'', ''-NonInteractive'', ''-Command'', thumbprint_script path] = Inr p \<and>
     p_code p = 0 \<and> t = strip (p_out p))"

lemma thumbprint_ok: "signature_thumbprint S path w = (Inr t, w') \<Longrightarrow> has_thumbprint S path t"
  unfolding signature_thumbprint_def has_thumbprint_def ok_iff run_process_def Let_def by (auto simp: ok_iff split: if_splits)

text \<open>What \<open>finalize\<close> has checked when it replaces the generated installer\<close>

definition accepted_installer :: "os_env \<Rightarrow> files \<Rightarrow> string \<Rightarrow> string \<Rightarrow> bytes \<Rightarrow> bool" where
  "accepted_installer S fs signed_installer generated result \<longleftrightarrow> (\<exists>m manifest original recorded certificate t.
     fs stage_manifest = Some m \<and> bindR (decode_text m) json_loads = Inr manifest \<and>
     fs (path_join (path_join STAGE ''unsigned-installer'') (path_name generated)) = Some original \<and>
     item manifest ''installer_sha256'' = Inr recorded \<and> recorded = JStr (sha256_hex original) \<and>
     fs signed_installer = Some result \<and> only_signed original result \<and>
     item manifest ''certificate'' = Inr certificate \<and> certificate = JStr t \<and> has_thumbprint S signed_installer t)"

declare py_eq_str_left [simp]

lemma read_bytes_ok: "read_bytes p w = (Inr b, w') \<longleftrightarrow> w' = w \<and> pw_files w p = Some b"
  by (auto simp: read_bytes_def ok_iff read_file_def split: option.splits)

lemma stage_manifest_ok:
  assumes "read_stage_manifest S w = (Inr manifest, w')"
  shows "w' = w \<and> (\<exists>m. pw_files w stage_manifest = Some m \<and> bindR (decode_text m) json_loads = Inr manifest)"
proof -
  have "w' = w" using keepsD[OF keeps_stage_manifest assms, of "\<lambda>w. w"] .
  moreover obtain t w1 where "read_text stage_manifest w = (Inr t, w1)" "json_loads t = Inr manifest"
    using assms unfolding read_stage_manifest_def ok_iff by blast
  ultimately show ?thesis unfolding read_text_def ok_iff read_file_def by (auto split: option.splits)
qed

lemma payload_checked:
  assumes "require_unchanged_payload p q w = (Inr (), w')"
  shows "w' = w \<and> (\<exists>source result. pw_files w p = Some source \<and> pw_files w q = Some result \<and> only_signed source result)"
  using assms unfolding require_unchanged_payload_def ok_iff read_bytes_ok by (auto intro: unchanged_only_signed)

lemma keeps_checks: "read_only_tools S \<Longrightarrow> keeps pw_files (finalize_checks S A p)"
  unfolding finalize_checks_def Let_def by (intro keeps_intro keeps_verify keeps_thumbprint)

lemma sha_ok: "file_sha256 p w = (Inr d, w') \<longleftrightarrow> w' = w \<and> (\<exists>b. pw_files w p = Some b \<and> d = sha256_hex b)"
  by (auto simp: file_sha256_def ok_iff read_bytes_ok)

lemma generated_files: "pw_files w = pw_files v \<Longrightarrow> find_generated_installer w = (Inr x, w') \<Longrightarrow> find_generated_installer v = (Inr x, v)"
  unfolding find_generated_installer_def checkI_def by (simp cong: option.case_cong)

lemma finalize_checks_ok:
  assumes S: "read_only_tools S" and r: "finalize_checks S A p w = (Inr final, w')"
  shows "pw_files w' = pw_files w \<and> find_generated_installer w = (Inr final, w) \<and> (\<exists>result. accepted_installer S (pw_files w) p final result)"
proof -
  obtain manifest w1 b w2 generated w3 d w4 w5 w7 t w8 where
    c: "read_stage_manifest S w = (Inr manifest, w1)" "bundle_hashes S w1 = (Inr b, w2)" "find_generated_installer w2 = (Inr generated, w3)"
    "file_sha256 (path_join (path_join STAGE ''unsigned-installer'') (path_name generated)) w3 = (Inr d, w4)"
    "item manifest ''installer_sha256'' = Inr (JStr d)"
    "require_unchanged_payload (path_join (path_join STAGE ''unsigned-installer'') (path_name generated)) p w4 = (Inr (), w5)"
    and e: "signature_thumbprint S p w7 = (Inr t, w8)"
    "item manifest ''certificate'' = Inr (JStr t)" "find_generated_installer w8 = (Inr final, w')"
    using r unfolding finalize_checks_def Let_def ok_iff not_not by (auto simp: py_eq_str_left)
  have w: "w1 = w" "w2 = w" "w3 = w" "w4 = w" "w5 = w" "w' = w8"
    using keepsD[OF keeps_stage_manifest c(1), of "\<lambda>w. w"] keepsD[OF keeps_hashes(1) c(2), of "\<lambda>w. w"]
      keepsD[OF keeps_find_installer(1) c(3), of "\<lambda>w. w"] keepsD[OF keeps_sha c(4), of "\<lambda>w. w"]
      keepsD[OF keeps_find_installer(4) c(6), of "\<lambda>w. w"] keepsD[OF keeps_find_installer(1) e(3), of "\<lambda>w. w"] by simp_all
  have files: "pw_files w' = pw_files w" using keepsD[OF keeps_checks[OF S] r] .
  have final: "find_generated_installer w = (Inr final, w)" using generated_files[OF _ e(3), of w] files w(6) by simp
  then have "generated = final" using c(3) w by simp
  then have "accepted_installer S (pw_files w) p final result" if "pw_files w p = Some result" for result
    using that stage_manifest_ok[OF c(1)] c(4-6) payload_checked[OF c(6)] thumbprint_ok[OF e(1)] e(2) unfolding accepted_installer_def w sha_ok
    by auto
  then show ?thesis using payload_checked[OF c(6)] files final w by auto
qed

text \<open>
  C24. Whatever \<open>finalize\<close> meets: either it raises and no file has changed, or the only change is that the generated
  installer has been replaced by the returned file. In that case the returned file is the staged installer apart from
  its signature, the staged installer has the digest recorded in the manifest, and the certificate of the returned file
  is the one recorded for the components.
\<close>

theorem finalize_accepts:
  assumes "read_only_tools S" "finalize_stage S A p w = (r, w')"
  shows "(\<exists>e. r = Inl e \<and> pw_files w' = pw_files w) \<or>
    (\<exists>generated result. r = Inr () \<and> find_generated_installer w = (Inr generated, w) \<and>
       accepted_installer S (pw_files w) p generated result \<and> pw_files w' = (pw_files w)(generated \<mapsto> result))"
proof -
  obtain q v where q: "finalize_checks S A p w = (q, v)" by (cases "finalize_checks S A p w")
  show ?thesis
  proof (cases q)
    case (Inl e)
    then show ?thesis using assms(2) q keepsD[OF keeps_checks[OF assms(1)] q] by (auto simp: finalize_stage_def bindI_def)
  next
    case (Inr final)
    then obtain result where a: "accepted_installer S (pw_files w) p final result" "pw_files v = pw_files w" "find_generated_installer w = (Inr final, w)"
      using finalize_checks_ok[OF assms(1)] q by blast
    then have "pw_files v p = Some result" by (auto simp: accepted_installer_def)
    then have "r = Inr ()" "pw_files w' = (pw_files w)(final \<mapsto> result)"
      using assms(2) q Inr a(2) by (auto simp: finalize_stage_def copy_file_def read_bytes_def read_file_def write_bytes_def print_line_def io_defs)
    then show ?thesis using a by blast
  qed
qed

definition stage_signed :: bytes where
  "stage_signed = take 216 demo_pe @ [CHR 0xE0, CHR 0x00, CHR 0x00, CHR 0x00, CHR 0x08, CHR 0x00, CHR 0x00, CHR 0x00] @ ''SIGNATUR''"

lemma demo_signed_ok: "unchanged_payload demo_pe stage_signed = Inr ()"
  by code_simp

definition demo_pubspec :: string where
  "demo_pubspec = ''version: 1.2.3+4'' @ newline"

definition demo_script :: string where
  "demo_script = ''#define MyAppVersion '' @ [CHR 0x22] @ ''1.2.3'' @ [CHR 0x22] @ newline"

lemma demo_pubspec_ok: "decode_text demo_pubspec = Inr demo_pubspec" "first_match build_version (at_lines demo_pubspec) = Some demo_version"
  by code_simp+

lemma demo_script_ok: "decode_text demo_script = Inr demo_script" "first_match exact_define (at_lines demo_script) = Some ''1.2.3''"
  by code_simp+


definition demo_configuration :: json where
  "demo_configuration = JObj [(''LICENSE'', JStr (sha256_hex ''MIT'')), (''installer/setup.iss'', JStr (sha256_hex demo_script)),
     (''readme.md'', JStr (sha256_hex ''# Plug'')), (''windows/runner/resources/app_icon.ico'', JStr (sha256_hex ''icon''))]"

definition demo_thumbprint :: string where
  "demo_thumbprint = replicate 40 (CHR ''A'')"

definition demo_stage_json :: json where
  "demo_stage_json = JObj [(''version'', JStr demo_version), (''channel'', JStr ''stable''), (''configuration'', demo_configuration),
     (''inputs'', JObj []), (''installer_sha256'', JStr (sha256_hex demo_pe)), (''certificate'', JStr demo_thumbprint), (''signed_bundle'', JObj [])]"

definition demo_stage_files :: "(string \<times> bytes) list" where
  "demo_stage_files = [(stage_manifest, dumps2 demo_stage_json), (''pubspec.yaml'', demo_pubspec), (''installer/setup.iss'', demo_script),
     (''installer/dist/PlugAgente-Setup-1.2.3.exe'', ''old''), (''installer/signpath-work/unsigned-installer/PlugAgente-Setup-1.2.3.exe'', demo_pe),
     (''signed.exe'', stage_signed), (''readme.md'', ''# Plug''), (''LICENSE'', ''MIT''), (''windows/runner/resources/app_icon.ico'', ''icon'')]"

definition demo_stage_world :: pworld where
  "demo_stage_world = \<lparr>pw_files = map_of demo_stage_files, pw_trace = [], pw_log = [], pw_env = (\<lambda>_. None)\<rparr>"

definition demo_tools :: os_env where
  "demo_tools = \<lparr>os_run = (\<lambda>_ _. Inr \<lparr>p_code = 0, p_out = demo_thumbprint, p_err = []\<rparr>), os_effect = (\<lambda>_ _ fs. fs),
     os_list = (\<lambda>_. map fst demo_stage_files), os_which = Some, os_fetch = (\<lambda>_. Inl (OSErr ''URLError''))\<rparr>"

lemma demo_read: "pw_files demo_stage_world p = map_of demo_stage_files p" "pw_env demo_stage_world k = None"
  "os_list demo_tools fs = map fst demo_stage_files"
  by (simp_all add: demo_stage_world_def demo_tools_def)

lemma demo_file: "pw_files demo_stage_world stage_manifest = Some (dumps2 demo_stage_json)" "pw_files demo_stage_world ''pubspec.yaml'' = Some demo_pubspec"
  "pw_files demo_stage_world ''installer/setup.iss'' = Some demo_script" "pw_files demo_stage_world ''installer/dist/PlugAgente-Setup-1.2.3.exe'' = Some ''old''"
  "pw_files demo_stage_world ''installer/signpath-work/unsigned-installer/PlugAgente-Setup-1.2.3.exe'' = Some demo_pe"
  "pw_files demo_stage_world ''signed.exe'' = Some stage_signed" "pw_files demo_stage_world ''readme.md'' = Some ''# Plug''"
  "pw_files demo_stage_world ''LICENSE'' = Some ''MIT''" "pw_files demo_stage_world ''windows/runner/resources/app_icon.ico'' = Some ''icon''"
  "pw_files demo_stage_world ''.env'' = None"
  by (simp_all add: demo_read demo_stage_files_def stage_manifest_def STAGE_def path_join_def)

lemma demo_json_text: "bindR (decode_text (dumps2 demo_stage_json)) json_loads = Inr demo_stage_json"
proof -
  have p: "plain demo_version" "plain demo_thumbprint" "plain (sha256_hex b)" for b
    using sha256_plain by (simp_all add: plain_def demo_version_def demo_thumbprint_def list_all_iff)
  have "writable demo_stage_json" "wf_json demo_stage_json" "plain_json demo_stage_json"
    using p by (simp_all add: demo_stage_json_def demo_configuration_def) (simp_all add: plain_def)
  then show ?thesis using read_dumps2[of demo_stage_json "[]"] by simp
qed

lemma demo_application: "application_version (pw_files demo_stage_world) = Inr demo_version"
  by (simp add: application_version_def read_file_def demo_file demo_pubspec_ok demo_version_parts)

lemma demo_below: "files_below demo_tools BUILD_DIR demo_stage_world = (Inr [], demo_stage_world)"
  "glob_suffix demo_tools ''installer'' ''.iss'' demo_stage_world = (Inr [''installer/setup.iss''], demo_stage_world)"
  "glob_suffix demo_tools ''installer/wizard'' ''.png'' demo_stage_world = (Inr [], demo_stage_world)"
proof -
  have f: "map fst demo_stage_files = [''installer/signpath-work/manifest.json'', ''pubspec.yaml'', ''installer/setup.iss'',
     ''installer/dist/PlugAgente-Setup-1.2.3.exe'', ''installer/signpath-work/unsigned-installer/PlugAgente-Setup-1.2.3.exe'',
     ''signed.exe'', ''readme.md'', ''LICENSE'', ''windows/runner/resources/app_icon.ico'']"
    by (simp add: demo_stage_files_def stage_manifest_def STAGE_def path_join_def)
  show "files_below demo_tools BUILD_DIR demo_stage_world = (Inr [], demo_stage_world)"
    by (simp add: files_below_def io_defs demo_read f BUILD_DIR_def startswith_def)
  show "glob_suffix demo_tools ''installer'' ''.iss'' demo_stage_world = (Inr [''installer/setup.iss''], demo_stage_world)"
    "glob_suffix demo_tools ''installer/wizard'' ''.png'' demo_stage_world = (Inr [], demo_stage_world)"
    by (simp_all add: glob_suffix_def files_below_def io_defs demo_read f startswith_def endswith_def removeprefix_def)
qed

lemma stage_sha: "pw_files w p = Some b \<Longrightarrow> file_sha256 p w = (Inr (sha256_hex b), w)"
  by (simp add: sha_ok)

lemma demo_hashes: "bundle_hashes demo_tools demo_stage_world = (Inr (JObj []), demo_stage_world)"
  "configuration_hashes demo_tools demo_stage_world = (Inr demo_configuration, demo_stage_world)"
proof -
  have "sort_paths [''installer/setup.iss'', ''readme.md'', ''LICENSE'', ''windows/runner/resources/app_icon.ico''] =
      [''LICENSE'', ''installer/setup.iss'', ''readme.md'', ''windows/runner/resources/app_icon.ico'']" by code_simp
  then show "configuration_hashes demo_tools demo_stage_world = (Inr demo_configuration, demo_stage_world)"
    by (simp add: configuration_hashes_def bindI_def demo_below stage_sha[OF demo_file(3)] stage_sha[OF demo_file(7)] stage_sha[OF demo_file(8)]
      stage_sha[OF demo_file(9)] retI_def demo_configuration_def dict_of_def removeprefix_def startswith_def)
  show "bundle_hashes demo_tools demo_stage_world = (Inr (JObj []), demo_stage_world)"
    by (simp add: bundle_hashes_def bindI_def demo_below sort_paths_def retI_def dict_of_def)
qed

lemma stage_manifest_read: "read_stage_manifest demo_tools demo_stage_world = (Inr demo_stage_json, demo_stage_world)"
proof -
  have t: "\<exists>t. decode_text (dumps2 demo_stage_json) = Inr t \<and> json_loads t = Inr demo_stage_json"
    using demo_json_text by (simp add: bindR_ok)
  have c: "update_channel_setting demo_stage_world = (Inr ''stable'', demo_stage_world)"
    by (simp add: update_channel_setting_def resolve_auto_update_define_def env_get_def read_env_value_def io_defs demo_read(2) demo_file(10) or_else_def)
  have e: "py_eq demo_configuration demo_configuration" by (simp add: demo_configuration_def)
  show ?thesis using t
    by (auto simp: read_stage_manifest_def bindI_def read_text_def checkI_def read_file_def demo_file(1) liftI_def demo_application guardI_def
      demo_hashes(2) c e dict_entries_def retI_def item_def demo_stage_json_def)
qed

lemma demo_generated: "find_generated_installer demo_stage_world = (Inr ''installer/dist/PlugAgente-Setup-1.2.3.exe'', demo_stage_world)"
  by (simp add: find_generated_installer_def checkI_def read_file_def demo_file demo_script_ok)


lemma stage_run: "run_process demo_tools args w = (Inr \<lparr>p_code = 0, p_out = demo_thumbprint, p_err = []\<rparr>, w\<lparr>pw_trace := pw_trace w @ [args]\<rparr>)"
  by (simp add: run_process_def demo_tools_def)

lemma demo_which: "os_which demo_tools s = Some s"
  by (simp add: demo_tools_def)

lemma demo_finalized: "\<exists>w'. finalize_stage demo_tools demo_winapi ''signed.exe'' demo_stage_world = (Inr (), w')"
proof -
  obtain info where "version_info_of demo_winapi stage_signed = Inr info" "map_of info ''ProductName'' = Some PRODUCT_NAME"
    "map_of info ''ProductVersion'' = Some demo_version" using demo_info by blast
  moreover have "strip PRODUCT_NAME = PRODUCT_NAME" "strip demo_version = demo_version" by code_simp+
  ultimately have m: "require_metadata demo_winapi ''signed.exe'' (JStr demo_version) demo_stage_world = (Inr (), demo_stage_world)"
    by (simp add: require_metadata_def checkI_def read_version_info_def demo_winapi_def read_file_def demo_file)
  have n: "path_name ''installer/dist/PlugAgente-Setup-1.2.3.exe'' = ''PlugAgente-Setup-1.2.3.exe''" "path_tail ''signtool'' = ''signtool''"
    "\<not> is_batch ''signtool''" "strip demo_thumbprint = demo_thumbprint" "py_len demo_thumbprint = 40" by code_simp+
  have v: "\<exists>ts. verify_signed_file demo_tools ''signed.exe'' demo_stage_world = (Inr (), demo_stage_world\<lparr>pw_trace := ts\<rparr>)"
    using n by (simp add: verify_signed_file_def find_signtool_def run_build_def resolve_command_build_def stage_run demo_which io_defs) blast
  have t: "\<exists>us. signature_thumbprint demo_tools ''signed.exe'' (demo_stage_world\<lparr>pw_trace := ts\<rparr>) = (Inr demo_thumbprint, demo_stage_world\<lparr>pw_trace := us\<rparr>)" for ts
    using n by (simp add: signature_thumbprint_def stage_run bindI_def) (auto simp: demo_thumbprint_def list_ex_iff retI_def)
  from v obtain ts where ts: "verify_signed_file demo_tools ''signed.exe'' demo_stage_world = (Inr (), demo_stage_world\<lparr>pw_trace := ts\<rparr>)" by blast
  from t obtain us where us: "signature_thumbprint demo_tools ''signed.exe'' (demo_stage_world\<lparr>pw_trace := ts\<rparr>) =
    (Inr demo_thumbprint, demo_stage_world\<lparr>pw_trace := us\<rparr>)" by blast
  have g: "find_generated_installer (demo_stage_world\<lparr>pw_trace := us\<rparr>) = (Inr ''installer/dist/PlugAgente-Setup-1.2.3.exe'', demo_stage_world\<lparr>pw_trace := us\<rparr>)" for us
    using generated_files[OF _ demo_generated] by simp
  have "require_unchanged_payload ''installer/signpath-work/unsigned-installer/PlugAgente-Setup-1.2.3.exe'' ''signed.exe'' demo_stage_world = (Inr (), demo_stage_world)"
    by (simp add: require_unchanged_payload_def read_bytes_def read_file_def demo_file demo_signed_ok io_defs)
  then have "\<exists>us. finalize_checks demo_tools demo_winapi ''signed.exe'' demo_stage_world = (Inr ''installer/dist/PlugAgente-Setup-1.2.3.exe'', demo_stage_world\<lparr>pw_trace := us\<rparr>)"
    using n(1) m g ts us
    by (simp add: finalize_checks_def bindI_def Let_def stage_manifest_read demo_hashes demo_generated item_def demo_stage_json_def liftI_def guardI_def
      path_join_def STAGE_def stage_sha[OF demo_file(5)]) blast
  then show ?thesis
    by (auto simp: finalize_stage_def bindI_def copy_file_def read_bytes_def checkI_def read_file_def demo_file write_bytes_def updI_def print_line_def)
qed

theorem finalize_accepts_witness:
  "\<exists>w' generated result. read_only_tools demo_tools \<and> finalize_stage demo_tools demo_winapi ''signed.exe'' demo_stage_world = (Inr (), w') \<and>
     find_generated_installer demo_stage_world = (Inr generated, demo_stage_world) \<and>
     accepted_installer demo_tools (pw_files demo_stage_world) ''signed.exe'' generated result \<and>
     pw_files w' = (pw_files demo_stage_world)(generated \<mapsto> result)"
proof -
  have q: "read_only_tools demo_tools" by (simp add: read_only_tools_def demo_tools_def)
  obtain w' where w: "finalize_stage demo_tools demo_winapi ''signed.exe'' demo_stage_world = (Inr (), w')" using demo_finalized by blast
  from finalize_accepts[OF q w] q w show ?thesis by blast
qed

end
