(* ===== verification/Fixture_Tree.thy ===== *)
theory Fixture_Tree
  imports Py_Proc Py_JsonOut "HOL-Library.Sublist"
begin

text \<open>
  The file tree of the lifecycle fixtures. Here the code looks at more than contents: links and other reparse points,
  directories, hard links. A path is the list of its parts from the root of the file system; a tree lists its entries.
  The ownership checks of \<open>tool/updater/isolated_windows_fixture.py\<close> follow, and \<open>json.dumps\<close> with ASCII texts.
\<close>

subsection \<open>Paths\<close>

type_synonym path = "string list"

fun norm_parts :: "path \<Rightarrow> string list \<Rightarrow> path" where
  "norm_parts acc [] = acc"
| "norm_parts acc (p # ps) = norm_parts (if p = [] \<or> p = ''.'' then acc else if p = ''..'' then butlast acc else acc @ [p]) ps"

text \<open>\<open>os.path.abspath(s)\<close> in the working directory \<open>cwd\<close>\<close>

definition abspath :: "path \<Rightarrow> string \<Rightarrow> path" where
  "abspath cwd s = norm_parts (if startswith s ''/'' then [] else cwd) (split_on ''/'' s)"

definition path_str :: "path \<Rightarrow> string" where
  "path_str p = ''/'' @ join ''/'' p"

text \<open>\<open>Path(s) == p\<close> for an absolute \<open>p\<close>\<close>

definition same_path :: "string \<Rightarrow> path \<Rightarrow> bool" where
  "same_path s p \<longleftrightarrow> startswith s ''/'' \<and> path_parts s = p"

text \<open>\<open>p.name\<close> and \<open>p.parent\<close>\<close>

definition tail_name :: "path \<Rightarrow> string" where
  "tail_name p = (if p = [] then [] else last p)"

subsection \<open>Trees\<close>

text \<open>A regular file has its contents and the number of its hard links.\<close>

datatype node = Regular bytes nat | Folder | Linked | Special

type_synonym tree = "(path \<times> node) list"

definition lstat :: "tree \<Rightarrow> path \<Rightarrow> node res" where
  "lstat t p = of_option FileNotFoundErr (map_of t p)"

definition has_entry :: "tree \<Rightarrow> path \<Rightarrow> bool" where
  "has_entry t p \<longleftrightarrow> map_of t p \<noteq> None"

definition is_folder :: "tree \<Rightarrow> path \<Rightarrow> bool" where
  "is_folder t p \<longleftrightarrow> map_of t p = Some Folder"

definition is_regular :: "tree \<Rightarrow> path \<Rightarrow> bool" where
  "is_regular t p \<longleftrightarrow> (case map_of t p of Some (Regular _ _) \<Rightarrow> True | _ \<Rightarrow> False)"

text \<open>Reading a regular file with its number of links\<close>

definition regular_at :: "tree \<Rightarrow> path \<Rightarrow> (bytes \<times> nat) res" where
  "regular_at t p = (case map_of t p of Some (Regular b n) \<Rightarrow> Inr (b, n) | None \<Rightarrow> Inl FileNotFoundErr | _ \<Rightarrow> Inl (OSErr ''PermissionError''))"

text \<open>\<open>sorted(directory.iterdir())\<close>\<close>

definition children :: "tree \<Rightarrow> path \<Rightarrow> path list" where
  "children t d = sort (remdups (filter (\<lambda>p. p \<noteq> [] \<and> butlast p = d) (map fst t)))"

text \<open>\<open>open("x")\<close> with its contents: refuses every existing entry\<close>

definition create_new :: "path \<Rightarrow> bytes \<Rightarrow> tree \<Rightarrow> tree res" where
  "create_new p b t = (if has_entry t p then Inl FileExistsErr
     else if \<not> is_folder t (butlast p) then Inl FileNotFoundErr else Inr ((p, Regular b 1) # t))"

text \<open>\<open>rename\<close> on Windows: refuses an existing target\<close>

definition rename_new :: "path \<Rightarrow> path \<Rightarrow> tree \<Rightarrow> tree res" where
  "rename_new p q t = (case map_of t p of None \<Rightarrow> Inl FileNotFoundErr
     | Some n \<Rightarrow> if has_entry t q then Inl FileExistsErr else Inr ((q, n) # filter (\<lambda>e. fst e \<noteq> p) t))"

subsection \<open>Ownership\<close>

text \<open>What the fixture code uses of its process: the project, the working directory, whether it runs on Windows, and the
  random tokens\<close>

record fixture_env =
  fe_project :: path
  fe_cwd :: path
  fe_nt :: bool
  fe_token :: "nat \<Rightarrow> string"

definition r_str :: "string \<Rightarrow> rx" where
  "r_str s = foldr (\<lambda>c r. RSeq (r_chr c) r) s ROne"

lemma match_r_str: "rx_match (RSeq (r_str s) q) u \<longleftrightarrow> (\<exists>v. u = s @ v \<and> rx_match q v)"
proof (induction s arbitrary: u)
  case Nil
  then show ?case by (auto simp: r_str_def rx_match_seq)
next
  case (Cons c s)
  have "rx_match (RSeq (r_str (c # s)) q) u \<longleftrightarrow> (\<exists>w. u = c # w \<and> rx_match (RSeq (r_str s) q) w)"
    by (auto simp: r_str_def rx_match_seq seq_chr) (metis append_Cons)+
  then show ?case using Cons by auto
qed

definition rx_identity :: rx where
  "rx_identity = r_seqs [r_str ''PlugAgenteHomologacao_'', rx_hex 12]"

definition require_identity :: "json \<Rightarrow> string res" where
  "require_identity name = (case name of
     JStr s \<Rightarrow> if fullmatch rx_identity s then Inr s else Inl (ValueErr ''An exclusive PlugAgenteHomologacao_<12 hex> identity is required'')
   | _ \<Rightarrow> Inl TypeErr)"

definition reject_reparse :: "tree \<Rightarrow> path \<Rightarrow> unit res" where
  "reject_reparse t p = bindR (lstat t p) (\<lambda>n.
     if n = Linked then Inl (RuntimeErr ''Linked lifecycle fixture paths are not accepted'') else Inr ())"

text \<open>\<open>windows-lifecycle-[a-z0-9-]{1,80}\<close>\<close>

definition fixture_char :: "char \<Rightarrow> bool" where
  "fixture_char c \<longleftrightarrow> (CHR ''a'' \<le> c \<and> c \<le> CHR ''z'') \<or> is_digit c \<or> c = CHR ''-''"

definition rx_fixture_name :: rx where
  "rx_fixture_name = r_seqs [r_str ''windows-lifecycle-'', RCls fixture_char, r_upto 79 (RCls fixture_char)]"

definition check_candidate :: "bool \<Rightarrow> tree \<Rightarrow> path \<Rightarrow> unit res" where
  "check_candidate fresh t candidate = (case reject_reparse t candidate of
     Inl FileNotFoundErr \<Rightarrow> if fresh then Inr () else Inl FileNotFoundErr
   | Inl e \<Rightarrow> Inl e
   | Inr _ \<Rightarrow> if is_folder t candidate then Inr () else Inl (RuntimeErr ''Lifecycle fixture directory is invalid''))"

definition require_fixture_root :: "fixture_env \<Rightarrow> bool \<Rightarrow> tree \<Rightarrow> string \<Rightarrow> path res" where
  "require_fixture_root F fresh t p =
     (let owned = abspath (fe_cwd F) p; parent = fe_project F @ [''build'', ''homologation''] in
      if owned = [] \<or> butlast owned \<noteq> parent \<or> \<not> fullmatch rx_fixture_name (tail_name owned)
        then Inl (RuntimeErr ''Only an owned workspace lifecycle fixture is accepted'')
      else bindR (mapR (check_candidate fresh t) [fe_project F @ [''build''], parent, owned]) (\<lambda>_.
        if fresh \<and> has_entry t owned then Inl (RuntimeErr ''Refusing an existing lifecycle fixture'') else Inr owned))"

text \<open>The entries from the root of the fixture down to the artifact\<close>

definition descent :: "path \<Rightarrow> path \<Rightarrow> path list" where
  "descent base relative = map (\<lambda>i. base @ take i relative) [0..<Suc (length relative)]"

definition require_fixture_artifact :: "tree \<Rightarrow> path \<Rightarrow> path \<Rightarrow> path res" where
  "require_fixture_artifact t base artifact =
     (if \<not> prefix base artifact then Inl (RuntimeErr ''Lifecycle artifact is outside its owned fixture'')
      else bindR (mapR (reject_reparse t) (descent base (drop (length base) artifact))) (\<lambda>_.
        if is_regular t artifact then Inr artifact else Inl (RuntimeErr ''Lifecycle fixture artifact is not a regular file'')))"

subsection \<open>\<open>json.dumps\<close> with ASCII texts on one line\<close>

fun dumps_ascii :: "string \<Rightarrow> string \<Rightarrow> json \<Rightarrow> string" where
  "dumps_ascii sep ksep (JStr s) = json_quote_ascii s"
| "dumps_ascii sep ksep (JList vs) = ''['' @ join sep (map (dumps_ascii sep ksep) vs) @ '']''"
| "dumps_ascii sep ksep (JObj kvs) = ''{'' @ join sep (map (\<lambda>(k, v). json_quote_ascii k @ ksep @ dumps_ascii sep ksep v) kvs) @ ''}''"
| "dumps_ascii sep ksep v = dumps sep ksep v"

lemma dumps_ascii_plain: "plain_json v \<Longrightarrow> dumps_ascii sep ksep v = dumps sep ksep v"
proof (induction v)
  case (JObj kvs)
  then have "map (\<lambda>(k, v). json_quote_ascii k @ ksep @ dumps_ascii sep ksep v) kvs = map (\<lambda>(k, v). json_quote k @ ksep @ dumps sep ksep v) kvs"
    by (fastforce simp: list_all_iff quote_plain)
  then show ?case by (simp only: dumps_ascii.simps dumps.simps)
next
  case (JList vs)
  then have "map (dumps_ascii sep ksep) vs = map (dumps sep ksep) vs" by (auto simp: list_all_iff)
  then show ?case by (simp only: dumps_ascii.simps dumps.simps)
qed (simp_all add: quote_plain)

end
