(* ===== verification/Lifecycle_Payload.thy ===== *)
theory Lifecycle_Payload
  imports Fixture_Tree Installer_Build
begin

text \<open>
  \<open>tool/updater/lifecycle_payload.py\<close>: the inventory of a fixture payload. The loop of \<open>capture_payload\<close> runs on a stack of
  directories; it is given fuel, and one more than the number of entries of the tree is always enough.
\<close>

definition REQUIRED_PAYLOAD_FILES :: "string list" where
  "REQUIRED_PAYLOAD_FILES = PROJECT_EXECUTABLES @ [''data/app.so'']"

definition MAX_PAYLOAD_FILES :: nat where
  "MAX_PAYLOAD_FILES = 4096"

text \<open>\<open>[^\\:\x00-\x1f]+\<close>, not absolute, in the form that \<open>as_posix\<close> gives, without \<open>.\<close> and \<open>..\<close>\<close>

definition name_char :: "char \<Rightarrow> bool" where
  "name_char c \<longleftrightarrow> c \<noteq> CHR 0x5C \<and> c \<noteq> CHR '':'' \<and> \<not> c < CHR '' ''"

definition as_posix :: "string \<Rightarrow> string" where
  "as_posix name = (if path_parts name = [] then ''.'' else join ''/'' (path_parts name))"

definition payload_name :: "string \<Rightarrow> bool" where
  "payload_name name \<longleftrightarrow> fullmatch (r_plus (RCls name_char)) name \<and> \<not> startswith name ''/'' \<and> as_posix name = name \<and>
     ''..'' \<notin> set (path_parts name)"

definition payload_entry_ok :: "string \<times> json \<Rightarrow> bool" where
  "payload_entry_ok kv \<longleftrightarrow> payload_name (fst kv) \<and> (case snd kv of JStr d \<Rightarrow> fullmatch (rx_hex 64) d | _ \<Rightarrow> False)"

definition validate_payload_files :: "json \<Rightarrow> (string \<times> json) list res" where
  "validate_payload_files v = (case v of
     JObj kvs \<Rightarrow>
       if kvs = [] \<or> MAX_PAYLOAD_FILES < length kvs then Inl (RuntimeErr ''Invalid fixture payload inventory'')
       else if \<not> list_all payload_entry_ok kvs then Inl (RuntimeErr ''Invalid fixture payload inventory entry'')
       else if \<not> set REQUIRED_PAYLOAD_FILES \<subseteq> set (map fst kvs) then Inl (RuntimeErr ''Required fixture payload files are missing'')
       else Inr kvs
   | _ \<Rightarrow> Inl (RuntimeErr ''Invalid fixture payload inventory''))"

definition payload_tree_hash :: "json \<Rightarrow> string res" where
  "payload_tree_hash files = bindR (validate_payload_files files) (\<lambda>kvs.
     bindR (encode_utf8 (dumps '','' '':'' (sort_json (JObj kvs)))) (\<lambda>b. Inr (sha256_hex b)))"

text \<open>One directory: its entries in order, with the stack and the inventory as the loop variables\<close>

fun scan_entries :: "tree \<Rightarrow> path \<Rightarrow> path list \<Rightarrow> path list \<Rightarrow> (string \<times> json) list \<Rightarrow> (path list \<times> (string \<times> json) list) res" where
  "scan_entries t base [] pending files = Inr (pending, files)"
| "scan_entries t base (p # ps) pending files =
     bindR (reject_reparse t p) (\<lambda>_.
     case map_of t p of
       Some Folder \<Rightarrow> scan_entries t base ps (pending @ [p]) files
     | Some (Regular b links) \<Rightarrow>
         if links \<noteq> 1 then Inl (RuntimeErr ''Hard-linked or unproven fixture payload file is refused'')
         else if MAX_PAYLOAD_FILES \<le> length files then Inl (RuntimeErr ''Fixture payload inventory exceeds its limit'')
         else bindR (require_fixture_artifact t base p) (\<lambda>artifact.
           scan_entries t base ps pending (dict_put (join ''/'' (drop (Suc (length base)) artifact)) (JStr (sha256_hex b)) files))
     | _ \<Rightarrow> Inl (RuntimeErr ''Fixture payload contains a non-regular entry''))"

text \<open>The loop; \<open>None\<close> when the fuel does not last\<close>

fun capture_loop :: "nat \<Rightarrow> tree \<Rightarrow> path \<Rightarrow> path list \<Rightarrow> (string \<times> json) list \<Rightarrow> (string \<times> json) list res option" where
  "capture_loop 0 t base pending files = (if pending = [] then Some (Inr files) else None)"
| "capture_loop (Suc fuel) t base pending files = (if pending = [] then Some (Inr files)
     else case scan_entries t base (children t (last pending)) (butlast pending) files of
       Inl e \<Rightarrow> Some (Inl e)
     | Inr (pending', files') \<Rightarrow> capture_loop fuel t base pending' files')"

definition capture_fuel :: "tree \<Rightarrow> nat" where
  "capture_fuel t = Suc (length t)"

definition capture_payload :: "fixture_env \<Rightarrow> tree \<Rightarrow> string \<Rightarrow> json res" where
  "capture_payload F t p =
     bindR (require_fixture_root F False t p) (\<lambda>base.
     bindR (reject_reparse t (base @ [''payload''])) (\<lambda>_.
     if \<not> is_folder t (base @ [''payload'']) then Inl (RuntimeErr ''Fixture payload directory is missing'')
     else case capture_loop (capture_fuel t) t base [base @ [''payload'']] [] of
       None \<Rightarrow> Inl (RuntimeErr ''out of fuel'')
     | Some r \<Rightarrow> bindR r (\<lambda>files. bindR (validate_payload_files (JObj files)) (\<lambda>kvs. Inr (JObj kvs)))))"

definition verify_fixture_payload :: "fixture_env \<Rightarrow> tree \<Rightarrow> string \<Rightarrow> json \<Rightarrow> json \<Rightarrow> unit res" where
  "verify_fixture_payload F t p expected tree_hash =
     bindR (validate_payload_files expected) (\<lambda>files.
     bindR (if is_str tree_hash then bindR (payload_tree_hash (JObj files)) (\<lambda>h. Inr (tree_hash \<noteq> JStr h)) else Inr True) (\<lambda>differs.
     if differs then Inl (RuntimeErr ''Fixture payload inventory hash mismatch'')
     else bindR (capture_payload F t p) (\<lambda>actual.
       if \<not> py_eq actual (JObj files) then Inl (RuntimeErr ''Fixture payload changed; reprovision before lifecycle execution'') else Inr ())))"

end
