(* ===== verification/Lifecycle_PayloadSpec.thy ===== *)
theory Lifecycle_PayloadSpec
  imports Lifecycle_Payload
begin

text \<open>
  The loop of \<open>capture_payload\<close> ends, and the inventory it returns is exact: every file below the payload directory with
  the digest of its contents, and nothing else.
\<close>

subsection \<open>The loop ends\<close>

definition below :: "tree \<Rightarrow> path \<Rightarrow> path set" where
  "below t d = {p \<in> fst ` set t. strict_prefix d p}"

definition weight :: "tree \<Rightarrow> path \<Rightarrow> nat" where
  "weight t d = Suc (card (below t d))"

lemma finite_below [simp]: "finite (below t d)"
  by (simp add: below_def)

lemma children_set: "set (children t d) = {p \<in> fst ` set t. p \<noteq> [] \<and> butlast p = d}"
  by (auto simp: children_def)

lemma child_prefix: "p \<noteq> [] \<Longrightarrow> butlast p = d \<Longrightarrow> strict_prefix d p \<and> length p = Suc (length d)"
  by (metis append_butlast_last_id length_append_singleton prefix_order.dual_order.strict_iff_order prefixI not_Cons_self2 append_self_conv)

lemma same_length_prefix: "prefix c p \<Longrightarrow> prefix c' p \<Longrightarrow> length c = length c' \<Longrightarrow> c = c'"
  by (metis prefix_length_prefix prefix_order.eq_iff order_refl)

lemma weights_children:
  assumes "distinct ds" "set ds \<subseteq> set (children t d)"
  shows "sum_list (map (weight t) ds) \<le> card (below t d)"
proof -
  let ?B = "\<lambda>c. insert c (below t c)"
  have w: "weight t c = card (?B c)" for c by (simp add: weight_def below_def)
  have len: "strict_prefix d c \<and> length c = Suc (length d) \<and> c \<in> fst ` set t" if "c \<in> set ds" for c
    using that assms(2) child_prefix[of c d] by (auto simp: children_set)
  have disj: "?B c \<inter> ?B c' = {}" if "c \<in> set ds" "c' \<in> set ds" "c \<noteq> c'" for c c'
  proof -
    have "c = c'" if "p \<in> ?B c" "p \<in> ?B c'" for p
      using that len \<open>c \<in> set ds\<close> \<open>c' \<in> set ds\<close> same_length_prefix[of c p c'] by (auto simp: below_def strict_prefix_def)
    then show ?thesis using that(3) by blast
  qed
  have "sum_list (map (weight t) ds) = (\<Sum>c \<in> set ds. card (?B c))"
    using assms(1) by (simp add: w sum_list_distinct_conv_sum_set)
  also have "\<dots> = card (\<Union>c \<in> set ds. ?B c)" using disj by (intro card_UN_disjoint[symmetric]) auto
  also have "\<dots> \<le> card (below t d)"
  proof (rule card_mono)
    show "(\<Union>c \<in> set ds. ?B c) \<subseteq> below t d"
      using len by (auto simp: below_def dest: prefix_order.less_trans)
  qed simp
  finally show ?thesis .
qed

definition rel_name :: "path \<Rightarrow> path \<Rightarrow> string" where
  "rel_name base p = join ''/'' (drop (Suc (length base)) p)"

lemma artifact_ok: "require_fixture_artifact t base p = Inr q \<Longrightarrow> q = p"
  by (auto simp: require_fixture_artifact_def ok_iff split: if_splits)

lemma scan_cons:
  assumes "scan_entries t base (p # ps) pending files = Inr r"
  shows "map_of t p = Some Folder \<and> scan_entries t base ps (pending @ [p]) files = Inr r \<or>
    (\<exists>b. map_of t p = Some (Regular b 1) \<and> scan_entries t base ps pending (dict_put (rel_name base p) (JStr (sha256_hex b)) files) = Inr r)"
proof -
  obtain n where n: "map_of t p = Some n" "n \<noteq> Linked" "n \<noteq> Special"
    using assms by (cases "map_of t p") (auto simp: reject_reparse_def lstat_def ok_iff split: if_splits node.splits)
  then have r: "reject_reparse t p = Inr ()" by (simp add: reject_reparse_def lstat_def of_option_def)
  show ?thesis
  proof (cases n)
    case (Regular b links)
    then show ?thesis using assms n(1) r artifact_ok by (auto simp: ok_iff rel_name_def split: if_splits)
  qed (use assms n r in auto)
qed

lemma scan_pending:
  "scan_entries t base ps pending files = Inr (pending', files') \<Longrightarrow> pending' = pending @ filter (is_folder t) ps"
proof (induction ps arbitrary: pending files)
  case (Cons p ps)
  from scan_cons[OF Cons.prems] show ?case by (elim disjE exE conjE) (auto dest!: Cons.IH simp: is_folder_def)
qed simp

lemma capture_loop_ends:
  "sum_list (map (weight t) pending) \<le> fuel \<Longrightarrow> \<exists>r. capture_loop fuel t base pending files = Some r"
proof (induction fuel arbitrary: pending files)
  case 0
  then show ?case by (cases pending) (auto simp: weight_def)
next
  case (Suc fuel)
  show ?case
  proof (cases pending rule: rev_cases)
    case (snoc ds d)
    show ?thesis
    proof (cases "scan_entries t base (children t d) ds files")
      case (Inr r)
      obtain pending' files' where r: "r = (pending', files')" by (cases r)
      let ?new = "filter (is_folder t) (children t d)"
      have p: "pending' = ds @ ?new" using scan_pending Inr unfolding r by blast
      have "sum_list (map (weight t) ?new) \<le> card (below t d)"
        by (rule weights_children) (auto simp: children_def)
      then have "sum_list (map (weight t) pending') \<le> fuel" using Suc.prems snoc by (simp add: p weight_def[of t d])
      then show ?thesis using Suc.IH snoc Inr r by simp
    qed (use snoc in simp)
  qed simp
qed

text \<open>
  C26. The loop that walks the payload ends: with one step more than the tree has entries it returns, with an inventory or
  with an error, whatever the tree holds.
\<close>

theorem capture_loop_terminates:
  assumes "capture_fuel t \<le> fuel"
  shows "\<exists>r. capture_loop fuel t base [d] files = Some r"
proof -
  have "card (below t d) \<le> card (fst ` set t)" by (rule card_mono) (auto simp: below_def)
  also have "\<dots> \<le> length t" using card_image_le[of "set t" fst] card_length[of t] by simp
  finally show ?thesis using assms by (intro capture_loop_ends) (simp add: weight_def capture_fuel_def)
qed

theorem capture_loop_terminates_witness:
  "\<exists>r. capture_loop (capture_fuel [([], Folder), ([''payload''], Folder), ([''payload'', ''a''], Regular ''x'' 1)])
     [([], Folder), ([''payload''], Folder), ([''payload'', ''a''], Regular ''x'' 1)] [] [[''payload'']] [] = Some r"
  using capture_loop_terminates[OF order_refl] .


subsection \<open>The inventory is exact\<close>

text \<open>The parts of a path are names, and every entry lies in a directory.\<close>

definition name_ok :: "string \<Rightarrow> bool" where
  "name_ok x \<longleftrightarrow> x \<noteq> [] \<and> CHR ''/'' \<notin> set x"

definition wf_tree :: "tree \<Rightarrow> bool" where
  "wf_tree t \<longleftrightarrow> (\<forall>p \<in> fst ` set t. list_all name_ok p \<and> (p \<noteq> [] \<longrightarrow> is_folder t (butlast p)))"

lemma wf_treeD: "wf_tree t \<Longrightarrow> map_of t p = Some n \<Longrightarrow> p \<noteq> [] \<Longrightarrow> is_folder t (butlast p)"
  by (auto simp: wf_tree_def dest!: map_of_SomeD)

lemma wf_ancestor: "wf_tree t \<Longrightarrow> map_of t p = Some n \<Longrightarrow> strict_prefix d p \<Longrightarrow> is_folder t d"
proof (induction "length p" arbitrary: p n)
  case (Suc k)
  then have p: "p \<noteq> []" by auto
  have f: "map_of t (butlast p) = Some Folder" using wf_treeD[OF Suc.prems(1,2) p] by (simp add: is_folder_def)
  have "prefix d (butlast p)" using Suc.prems(3) p
    by (metis append_butlast_last_id prefix_snoc strict_prefix_def)
  then show ?case using Suc.hyps(1)[OF _ Suc.prems(1) f] Suc.hyps(2) f by (cases "d = butlast p") (auto simp: is_folder_def strict_prefix_def)
qed (simp add: strict_prefix_def)

lemma slash_split: "x @ CHR ''/'' # a = y @ CHR ''/'' # b \<Longrightarrow> CHR ''/'' \<notin> set x \<Longrightarrow> CHR ''/'' \<notin> set y \<Longrightarrow> x = y \<and> a = b"
  by (induction x arbitrary: y) (auto simp: Cons_eq_append_conv append_eq_Cons_conv)

lemma join_cons: "join ''/'' (x # xs) = (if xs = [] then x else x @ CHR ''/'' # join ''/'' xs)"
  by (cases xs) auto

lemma join_inj: "list_all name_ok ps \<Longrightarrow> list_all name_ok qs \<Longrightarrow> join ''/'' ps = join ''/'' qs \<Longrightarrow> ps = qs"
proof (induction ps arbitrary: qs)
  case Nil
  then show ?case by (cases qs) (auto simp: join_cons name_ok_def split: if_splits)
next
  case (Cons x ps)
  obtain y qs' where qs: "qs = y # qs'" using Cons.prems by (cases qs) (auto simp: join_cons name_ok_def split: if_splits)
  have ok: "CHR ''/'' \<notin> set x" "CHR ''/'' \<notin> set y" using Cons.prems qs by (auto simp: name_ok_def)
  show ?case using Cons.prems ok slash_split[of x "join ''/'' ps" y "join ''/'' qs'"] Cons.IH[of qs'] unfolding qs
    by (cases "ps = []"; cases "qs' = []") (auto simp: join_cons)
qed

definition recorded :: "tree \<Rightarrow> path \<Rightarrow> (string \<times> json) list \<Rightarrow> path \<Rightarrow> bool" where
  "recorded t base files q \<longleftrightarrow> is_folder t q \<or> (\<exists>b. map_of t q = Some (Regular b 1) \<and> map_of files (rel_name base q) = Some (JStr (sha256_hex b)))"

definition scan_inv :: "tree \<Rightarrow> path \<Rightarrow> path list \<Rightarrow> path list \<Rightarrow> (string \<times> json) list \<Rightarrow> bool" where
  "scan_inv t base ps pending files \<longleftrightarrow>
     (\<forall>q n. map_of t q = Some n \<longrightarrow> strict_prefix (base @ [''payload'']) q \<longrightarrow>
        recorded t base files q \<or> (\<exists>d \<in> set pending. strict_prefix d q) \<or> (\<exists>c \<in> set ps. prefix c q)) \<and>
     (\<forall>k v. map_of files k = Some v \<longrightarrow> (\<exists>q b. map_of t q = Some (Regular b 1) \<and> strict_prefix (base @ [''payload'']) q \<and>
        k = rel_name base q \<and> v = JStr (sha256_hex b))) \<and>
     distinct (map fst files)"

lemma rel_name_inj:
  assumes "wf_tree t" "map_of t p = Some n" "map_of t q = Some n'" "strict_prefix (base @ [''payload'']) p" "strict_prefix (base @ [''payload'']) q"
    "rel_name base p = rel_name base q"
  shows "p = q"
proof -
  have "list_all name_ok p" "list_all name_ok q"
    using assms(1-3) by (auto simp: wf_tree_def dest!: map_of_SomeD)
  then have "list_all name_ok (drop (Suc (length base)) p)"
    "list_all name_ok (drop (Suc (length base)) q)"
    by (auto simp: list_all_iff dest: in_set_dropD)
  then have "drop (Suc (length base)) p = drop (Suc (length base)) q" using join_inj assms(6) by (simp add: rel_name_def)
  moreover have "take (Suc (length base)) p = take (Suc (length base)) q"
    using assms(4,5) by (auto simp: strict_prefix_def prefix_def)
  ultimately show ?thesis by (metis append_take_drop_id)
qed

lemma scan_keeps_inv:
  assumes "wf_tree t"
  shows "scan_entries t base ps pending files = Inr (pending', files') \<Longrightarrow> (\<forall>p \<in> set ps. strict_prefix (base @ [''payload'']) p) \<Longrightarrow>
    scan_inv t base ps pending files \<Longrightarrow> scan_inv t base [] pending' files'"
proof (induction ps arbitrary: pending files)
  case (Cons p ps)
  have P: "strict_prefix (base @ [''payload'']) p" using Cons.prems by simp
  from scan_cons[OF Cons.prems(1)] show ?case
  proof (elim disjE exE conjE)
    assume f: "map_of t p = Some Folder" and s: "scan_entries t base ps (pending @ [p]) files = Inr (pending', files')"
    have r: "recorded t base files p" using f by (simp add: recorded_def is_folder_def)
    have "recorded t base files q \<or> (\<exists>d \<in> set (pending @ [p]). strict_prefix d q) \<or> (\<exists>c \<in> set ps. prefix c q)"
      if "recorded t base files q \<or> (\<exists>d \<in> set pending. strict_prefix d q) \<or> (\<exists>c \<in> set (p # ps). prefix c q)" for q
      using that r by (cases "q = p") (auto simp: strict_prefix_def)
    then have "scan_inv t base ps (pending @ [p]) files" using Cons.prems(3) unfolding scan_inv_def by blast
    then show ?thesis using Cons.IH[OF s] Cons.prems(2) by simp
  next
    fix b assume f: "map_of t p = Some (Regular b 1)"
      and s: "scan_entries t base ps pending (dict_put (rel_name base p) (JStr (sha256_hex b)) files) = Inr (pending', files')"
    have only: "q = p" if "prefix p q" "map_of t q = Some n" for q n
      using wf_ancestor[OF assms that(2), of p] that(1) f by (auto simp: strict_prefix_def is_folder_def)
    have rec: "recorded t base (dict_put (rel_name base p) (JStr (sha256_hex b)) files) q"
      if "map_of t q = Some n" "strict_prefix (base @ [''payload'']) q" "recorded t base files q \<or> q = p" for q n
    proof (cases "q = p")
      case False
      then have "rel_name base q \<noteq> rel_name base p" if "\<not> is_folder t q"
        using rel_name_inj[OF assms \<open>map_of t q = Some n\<close> f \<open>strict_prefix (base @ [''payload'']) q\<close> P] by blast
      then show ?thesis using that(3) False by (auto simp: recorded_def map_of_dict_put)
    qed (use f in \<open>simp add: recorded_def map_of_dict_put\<close>)
    have "scan_inv t base ps pending (dict_put (rel_name base p) (JStr (sha256_hex b)) files)"
      using Cons.prems(3) f P only rec unfolding scan_inv_def
      by (auto simp: map_of_dict_put distinct_dict_put split: if_splits)
    then show ?thesis using Cons.IH[OF s] Cons.prems(2) by simp
  qed
qed simp


lemma pop_inv:
  assumes "wf_tree t" "scan_inv t base [] (ds @ [d]) files" 
  shows "scan_inv t base (children t d) ds files"
proof -
  have "\<exists>c \<in> set (children t d). prefix c q" if q: "map_of t q = Some n" "strict_prefix d q" for q n
  proof -
    obtain z zs where z: "q = d @ z # zs" using q(2) by (auto elim: strict_prefixE')
    let ?c = "d @ [z]"
    have c: "prefix ?c q" "?c \<noteq> []" "butlast ?c = d" by (simp_all add: z)
    have "\<exists>n. map_of t ?c = Some n"
      using wf_ancestor[OF assms(1) q(1), of ?c] q(1) c(1) by (cases "?c = q") (auto simp: strict_prefix_def is_folder_def)
    then have "?c \<in> fst ` set t" by (force dest: map_of_SomeD)
    then show ?thesis using c by (intro bexI[of _ ?c]) (simp_all add: children_set)
  qed
  then have step: "recorded t base files q \<or> (\<exists>d \<in> set ds. strict_prefix d q) \<or> (\<exists>c \<in> set (children t d). prefix c q)"
    if "map_of t q = Some n" "recorded t base files q \<or> (\<exists>d \<in> set (ds @ [d]). strict_prefix d q) \<or> (\<exists>c \<in> set []. prefix c q)" for q n
    using that by auto
  show ?thesis using assms(2) step unfolding scan_inv_def by blast
qed

lemma loop_inv:
  assumes "wf_tree t"
  shows "capture_loop fuel t base pending files = Some (Inr files') \<Longrightarrow> scan_inv t base [] pending files \<Longrightarrow>
    (\<forall>d \<in> set pending. prefix (base @ [''payload'']) d) \<Longrightarrow> scan_inv t base [] [] files'"
proof (induction fuel arbitrary: pending files)
  case 0
  then show ?case by (auto split: if_splits)
next
  case (Suc fuel)
  show ?case
  proof (cases pending rule: rev_cases)
    case Nil
    then show ?thesis using Suc.prems by simp
  next
    case (snoc ds d)
    obtain pending2 files2 where s: "scan_entries t base (children t d) ds files = Inr (pending2, files2)"
      "capture_loop fuel t base pending2 files2 = Some (Inr files')"
      using Suc.prems(1) snoc by (auto split: sum.splits)
    have below: "strict_prefix (base @ [''payload'']) c" if "c \<in> set (children t d)" for c
      using that Suc.prems(3) snoc child_prefix[of c d] by (auto simp: children_set dest: prefix_order.le_less_trans)
    have "scan_inv t base [] pending2 files2"
      using scan_keeps_inv[OF assms s(1)] below pop_inv[OF assms] Suc.prems(2) snoc by blast
    moreover have "prefix (base @ [''payload'']) c" if "c \<in> set pending2" for c
      using that scan_pending[OF s(1)] below Suc.prems(3) snoc by (auto simp: strict_prefix_def)
    ultimately show ?thesis using Suc.IH[OF s(2)] by blast
  qed
qed

text \<open>The inventory of the payload below \<open>base\<close>: every entry is a directory or a file with no second link whose digest is
  recorded, and every record is such a file.\<close>

definition exact_inventory :: "tree \<Rightarrow> path \<Rightarrow> (string \<times> json) list \<Rightarrow> bool" where
  "exact_inventory t base files \<longleftrightarrow>
     (\<forall>q n. map_of t q = Some n \<longrightarrow> strict_prefix (base @ [''payload'']) q \<longrightarrow> recorded t base files q) \<and>
     (\<forall>k v. map_of files k = Some v \<longrightarrow> (\<exists>q b. map_of t q = Some (Regular b 1) \<and> strict_prefix (base @ [''payload'']) q \<and>
        k = rel_name base q \<and> v = JStr (sha256_hex b)))"

lemma capture_exact:
  assumes "wf_tree t" "capture_payload F t p = Inr v"
  shows "\<exists>base files. require_fixture_root F False t p = Inr base \<and> v = JObj files \<and> distinct (map fst files) \<and> exact_inventory t base files"
proof -
  obtain base where base: "require_fixture_root F False t p = Inr base" using assms(2) by (auto simp: capture_payload_def ok_iff)
  obtain r files where r: "capture_loop (capture_fuel t) t base [base @ [''payload'']] [] = Some (Inr files)" "validate_payload_files (JObj files) = Inr r" "v = JObj r"
    using assms(2) base by (auto simp: capture_payload_def ok_iff split: option.splits if_splits)
  have "r = files" using r(2) by (auto simp: validate_payload_files_def split: if_splits)
  moreover have "scan_inv t base [] [base @ [''payload'']] []" by (simp add: scan_inv_def)
  then have "scan_inv t base [] [] files" using loop_inv[OF assms(1) r(1)] by simp
  ultimately show ?thesis using base r(3) by (auto simp: scan_inv_def exact_inventory_def)
qed


lemma py_eq_objD:
  assumes "py_eq (JObj a) (JObj b)" "distinct (map fst a)" "distinct (map fst b)" "\<And>k v. map_of a k = Some v \<Longrightarrow> \<exists>s. v = JStr s"
  shows "map_of a = map_of b"
proof -
  have sub: "map_of b k = Some v" if kv: "map_of a k = Some v" for k v
  proof -
    obtain s where s: "v = JStr s" using assms(4)[OF kv] by blast
    have "case map_of b k of None \<Rightarrow> False | Some w \<Rightarrow> py_eq v w" using assms(1) map_of_SomeD[OF kv] by auto
    then show ?thesis by (auto simp: s py_eq_str_left split: option.splits)
  qed
  have "dom (map_of a) \<subseteq> dom (map_of b)" using sub by (auto simp: dom_def)
  then have "fst ` set a \<subseteq> fst ` set b" by (simp add: dom_map_of_conv_image_fst)
  moreover have "card (fst ` set a) = card (fst ` set b)"
    using assms(1) distinct_card[OF assms(2)] distinct_card[OF assms(3)] by simp
  ultimately have "fst ` set a = fst ` set b" by (simp add: card_subset_eq)
  then have "map_of b k = None" if "map_of a k = None" for k using that by (simp add: map_of_eq_None_iff)
  then show ?thesis using sub by (intro ext) (metis not_None_eq)
qed

text \<open>
  C27. When the payload of a fixture is accepted against an expected inventory, the inventory is exact: every entry below the payload
  directory is a directory or a file with a single link whose contents have the digest of the inventory under its relative
  name, no link or special entry is there, and the inventory names no other file.
\<close>

theorem verify_fixture_payload_exact:
  assumes "wf_tree t" "verify_fixture_payload F t p (JObj expected) tree_hash = Inr ()" "distinct (map fst expected)"
  shows "\<exists>base. require_fixture_root F False t p = Inr base \<and> exact_inventory t base expected"
proof -
  obtain actual where a: "capture_payload F t p = Inr actual" "py_eq actual (JObj expected)"
    using assms(2) by (auto simp: verify_fixture_payload_def validate_payload_files_def ok_iff split: if_splits)
  obtain base files where f: "require_fixture_root F False t p = Inr base" "actual = JObj files" "distinct (map fst files)" "exact_inventory t base files"
    using capture_exact[OF assms(1) a(1)] by blast
  have strs: "\<exists>s. v = JStr s" if "map_of files k = Some v" for k v using f(4) that unfolding exact_inventory_def by blast
  have "map_of files = map_of expected"
    using py_eq_objD[OF a(2)[unfolded f(2)] f(3) assms(3)] strs by blast
  then show ?thesis using f(1,4) by (simp add: exact_inventory_def recorded_def)
qed

subsection \<open>Witness\<close>

definition demo_fixture :: fixture_env where
  "demo_fixture = \<lparr>fe_project = [''p''], fe_cwd = [], fe_nt = True, fe_token = (\<lambda>_. replicate 64 CHR ''a'')\<rparr>"

definition demo_fixture_root :: path where
  "demo_fixture_root = [''p'', ''build'', ''homologation'', ''windows-lifecycle-a'']"

definition demo_tree :: tree where
  "demo_tree = map (\<lambda>p. (p, Folder)) ([[], [''p''], [''p'', ''build''], [''p'', ''build'', ''homologation''], demo_fixture_root] @
       map (\<lambda>p. demo_fixture_root @ p) [[''payload''], [''payload'', ''data''], [''payload'', ''updater'']]) @
     map (\<lambda>n. (demo_fixture_root @ ''payload'' # split_on ''/'' n, Regular n 1)) REQUIRED_PAYLOAD_FILES"

definition demo_inventory :: "(string \<times> json) list" where
  "demo_inventory = map (\<lambda>n. (n, JStr (sha256_hex n))) REQUIRED_PAYLOAD_FILES"

lemma demo_tree_eq: "demo_tree = map (\<lambda>p. (p, Folder)) [[], [''p''], [''p'', ''build''], [''p'', ''build'', ''homologation''], demo_fixture_root,
    demo_fixture_root @ [''payload''], demo_fixture_root @ [''payload'', ''data''], demo_fixture_root @ [''payload'', ''updater'']] @
  map (\<lambda>(p, n). (demo_fixture_root @ ''payload'' # p, Regular n 1)) [([''plug_agente.exe''], ''plug_agente.exe''), ([''plug_update_helper.exe''], ''plug_update_helper.exe''),
    ([''plug_install_check.exe''], ''plug_install_check.exe''), ([''plug_agente_elevated_runner.exe''], ''plug_agente_elevated_runner.exe''),
    ([''updater'', ''plug_update_service.exe''], ''updater/plug_update_service.exe''), ([''updater'', ''plug_update_client.exe''], ''updater/plug_update_client.exe''),
    ([''updater'', ''plug_update_worker.exe''], ''updater/plug_update_worker.exe''), ([''data'', ''app.so''], ''data/app.so'')]"
  by code_simp

lemma demo_wf: "wf_tree demo_tree"
  by code_simp

lemma demo_children:
  "children demo_tree (demo_fixture_root @ [''payload'']) = map (\<lambda>n. demo_fixture_root @ [''payload'', n])
     [''data'', ''plug_agente.exe'', ''plug_agente_elevated_runner.exe'', ''plug_install_check.exe'', ''plug_update_helper.exe'', ''updater'']"
  "children demo_tree (demo_fixture_root @ [''payload'', ''data'']) = [demo_fixture_root @ [''payload'', ''data'', ''app.so'']]"
  "children demo_tree (demo_fixture_root @ [''payload'', ''updater'']) = map (\<lambda>n. demo_fixture_root @ [''payload'', ''updater'', n])
     [''plug_update_client.exe'', ''plug_update_service.exe'', ''plug_update_worker.exe'']"
  by code_simp+

lemma demo_root: "require_fixture_root demo_fixture False demo_tree ''/p/build/homologation/windows-lifecycle-a'' = Inr demo_fixture_root"
  by code_simp


lemma demo_lookup:
  "map_of demo_tree (demo_fixture_root @ [''payload'']) = Some Folder"
  "map_of demo_tree (demo_fixture_root @ [''payload'', n]) = (if n \<in> {''data'', ''updater''} then Some Folder
     else if n \<in> {''plug_agente.exe'', ''plug_update_helper.exe'', ''plug_install_check.exe'', ''plug_agente_elevated_runner.exe''} then Some (Regular n 1) else None)"
  "map_of demo_tree (demo_fixture_root @ [''payload'', d, n]) = (if d = ''updater'' \<and> n \<in> {''plug_update_service.exe'', ''plug_update_client.exe'', ''plug_update_worker.exe''}
     then Some (Regular (''updater/'' @ n) 1) else if d = ''data'' \<and> n = ''app.so'' then Some (Regular ''data/app.so'' 1) else None)"
  unfolding demo_tree_eq by (auto simp: demo_fixture_root_def)

lemma demo_artifact: "list_all (\<lambda>p. require_fixture_artifact demo_tree demo_fixture_root (demo_fixture_root @ ''payload'' # p) = Inr (demo_fixture_root @ ''payload'' # p))
    [[''plug_agente.exe''], [''plug_update_helper.exe''], [''plug_install_check.exe''], [''plug_agente_elevated_runner.exe''], [''updater'', ''plug_update_service.exe''],
     [''updater'', ''plug_update_client.exe''], [''updater'', ''plug_update_worker.exe''], [''data'', ''app.so'']]"
  by code_simp

definition demo_found :: "string list \<Rightarrow> (string \<times> json) list" where
  "demo_found ns = map (\<lambda>n. (n, JStr (sha256_hex n))) ns"

lemma demo_scans:
  "scan_entries demo_tree demo_fixture_root (children demo_tree (demo_fixture_root @ [''payload''])) [] [] =
     Inr ([demo_fixture_root @ [''payload'', ''data''], demo_fixture_root @ [''payload'', ''updater'']],
       demo_found [''plug_agente.exe'', ''plug_agente_elevated_runner.exe'', ''plug_install_check.exe'', ''plug_update_helper.exe''])"
  "scan_entries demo_tree demo_fixture_root (children demo_tree (demo_fixture_root @ [''payload'', ''updater''])) ds
     (demo_found [''plug_agente.exe'', ''plug_agente_elevated_runner.exe'', ''plug_install_check.exe'', ''plug_update_helper.exe'']) =
   Inr (ds, demo_found [''plug_agente.exe'', ''plug_agente_elevated_runner.exe'', ''plug_install_check.exe'', ''plug_update_helper.exe'',
     ''updater/plug_update_client.exe'', ''updater/plug_update_service.exe'', ''updater/plug_update_worker.exe''])"
  "scan_entries demo_tree demo_fixture_root (children demo_tree (demo_fixture_root @ [''payload'', ''data''])) ds
     (demo_found [''plug_agente.exe'', ''plug_agente_elevated_runner.exe'', ''plug_install_check.exe'', ''plug_update_helper.exe'',
     ''updater/plug_update_client.exe'', ''updater/plug_update_service.exe'', ''updater/plug_update_worker.exe'']) =
   Inr (ds, demo_found [''plug_agente.exe'', ''plug_agente_elevated_runner.exe'', ''plug_install_check.exe'', ''plug_update_helper.exe'',
     ''updater/plug_update_client.exe'', ''updater/plug_update_service.exe'', ''updater/plug_update_worker.exe'', ''data/app.so''])"
  using demo_artifact
  by (simp_all add: demo_children reject_reparse_def lstat_def demo_lookup of_option_def MAX_PAYLOAD_FILES_def demo_found_def)

lemma demo_loop: "capture_loop (capture_fuel demo_tree) demo_tree demo_fixture_root [demo_fixture_root @ [''payload'']] [] =
    Some (Inr (demo_found [''plug_agente.exe'', ''plug_agente_elevated_runner.exe'', ''plug_install_check.exe'', ''plug_update_helper.exe'',
     ''updater/plug_update_client.exe'', ''updater/plug_update_service.exe'', ''updater/plug_update_worker.exe'', ''data/app.so'']))"
proof -
  have "capture_fuel demo_tree = 17" by code_simp
  then show ?thesis by (simp add: demo_scans numeral_eq_Suc)
qed

lemma demo_names: "list_all payload_name REQUIRED_PAYLOAD_FILES"
  by code_simp

lemma demo_valid: "validate_payload_files (JObj demo_inventory) = Inr demo_inventory"
  using sha256_hex_shape demo_names
  by (auto simp: validate_payload_files_def demo_inventory_def MAX_PAYLOAD_FILES_def payload_entry_ok_def list_all_iff match_hex is_sha256_def
    REQUIRED_PAYLOAD_FILES_def PROJECT_EXECUTABLES_def)


lemma ascii_sort_json: "ascii_json v \<Longrightarrow> ascii_json (sort_json v)"
  by (induction v) (auto simp: list_all_iff)

lemma demo_hash: "\<exists>h. payload_tree_hash (JObj demo_inventory) = Inr h"
proof -
  have "ascii_json (JObj demo_inventory)"
    using plain_ascii sha256_plain by (auto simp: demo_inventory_def list_all_iff REQUIRED_PAYLOAD_FILES_def PROJECT_EXECUTABLES_def)
  then have "ascii (dumps '','' '':'' (sort_json (JObj demo_inventory)))" by (intro ascii_dumps ascii_sort_json) simp_all
  then show ?thesis using ascii_no_surrogate by (simp add: payload_tree_hash_def demo_valid encode_utf8_def)
qed

lemma demo_verified: "\<exists>h. verify_fixture_payload demo_fixture demo_tree ''/p/build/homologation/windows-lifecycle-a'' (JObj demo_inventory) h = Inr ()"
proof -
  obtain h where h: "payload_tree_hash (JObj demo_inventory) = Inr h" using demo_hash by blast
  have v: "validate_payload_files (JObj (demo_found [''plug_agente.exe'', ''plug_agente_elevated_runner.exe'', ''plug_install_check.exe'', ''plug_update_helper.exe'',
     ''updater/plug_update_client.exe'', ''updater/plug_update_service.exe'', ''updater/plug_update_worker.exe'', ''data/app.so''])) = 
     Inr (demo_found [''plug_agente.exe'', ''plug_agente_elevated_runner.exe'', ''plug_install_check.exe'', ''plug_update_helper.exe'',
     ''updater/plug_update_client.exe'', ''updater/plug_update_service.exe'', ''updater/plug_update_worker.exe'', ''data/app.so''])"
    using sha256_hex_shape demo_names
    by (auto simp: validate_payload_files_def demo_found_def MAX_PAYLOAD_FILES_def payload_entry_ok_def list_all_iff match_hex is_sha256_def
      REQUIRED_PAYLOAD_FILES_def PROJECT_EXECUTABLES_def)
  have "verify_fixture_payload demo_fixture demo_tree ''/p/build/homologation/windows-lifecycle-a'' (JObj demo_inventory) (JStr h) = Inr ()"
    by (simp add: verify_fixture_payload_def demo_valid h is_str_def capture_payload_def demo_root reject_reparse_def lstat_def demo_lookup of_option_def is_folder_def demo_loop v)
      (simp add: demo_found_def demo_inventory_def REQUIRED_PAYLOAD_FILES_def PROJECT_EXECUTABLES_def)
  then show ?thesis by blast
qed

theorem verify_fixture_payload_exact_witness:
  "\<exists>h base. wf_tree demo_tree \<and> verify_fixture_payload demo_fixture demo_tree ''/p/build/homologation/windows-lifecycle-a'' (JObj demo_inventory) h = Inr () \<and>
    distinct (map fst demo_inventory) \<and> require_fixture_root demo_fixture False demo_tree ''/p/build/homologation/windows-lifecycle-a'' = Inr base \<and>
    exact_inventory demo_tree base demo_inventory"
proof -
  obtain h where h: "verify_fixture_payload demo_fixture demo_tree ''/p/build/homologation/windows-lifecycle-a'' (JObj demo_inventory) h = Inr ()" using demo_verified by blast
  have d: "distinct (map fst demo_inventory)" by (simp add: demo_inventory_def REQUIRED_PAYLOAD_FILES_def PROJECT_EXECUTABLES_def)
  from verify_fixture_payload_exact[OF demo_wf h d] demo_wf h d show ?thesis by blast
qed

end
