(* ===== verification/Lifecycle_Handoff.thy ===== *)
theory Lifecycle_Handoff
  imports Lifecycle_PayloadSpec
begin

text \<open>
  \<open>tool/updater/lifecycle_handoff.py\<close>: the two phases of a lifecycle run, one elevated and one not, meet through files of
  the fixture. The administrator creates a handoff, the other phase claims it and writes a result, the administrator
  verifies it. The state of the model is the file tree and the number of random tokens drawn.
\<close>

subsection \<open>Operations\<close>

record lworld =
  lw_tree :: tree
  lw_draws :: nat

type_synonym 'a lio = "(lworld, 'a) io"

definition READY :: string where
  "READY = ''standard-phase-ready''"

definition CLAIM :: string where
  "CLAIM = ''standard-phase-claim.json''"

definition RESULT :: string where
  "RESULT = ''standard-result.json''"

definition CHECKS :: "string list" where
  "CHECKS = [''real_scm_pipe_identity_and_activation_gate'', ''control_directory_write_denied'', ''protected_policy_read_denied'',
     ''unregistered_client_image_refused'', ''administrative_transitions_denied'', ''real_user_dpapi_roundtrip'',
     ''replay_channel_capability_and_signature_refused'', ''real_signed_staging_idempotence_blocked_apply_and_cancel'',
     ''twenty_signed_prepare_cancel_cycles'']"

text \<open>\<open>Path(state["root"])\<close>\<close>

definition state_root :: "json \<Rightarrow> string res" where
  "state_root state = bindR (item state ''root'') str_of"

definition evidence_names :: "string list" where
  "evidence_names = [READY, CLAIM, RESULT, RESULT @ ''.tmp'']"

definition assert_fresh :: "fixture_env \<Rightarrow> tree \<Rightarrow> json \<Rightarrow> unit res" where
  "assert_fresh F t state = bindR (state_root state) (\<lambda>s.
     if list_ex (\<lambda>name. has_entry t (abspath (fe_cwd F) s @ [name])) evidence_names
       then Inl (RuntimeErr ''Refusing previous standard-user phase evidence; provision a new fixture'') else Inr ())"

definition read_owned :: "tree \<Rightarrow> path \<Rightarrow> string \<Rightarrow> json res" where
  "read_owned t base name =
     bindR (require_fixture_artifact t base (base @ [name])) (\<lambda>p.
     bindR (regular_at t p) (\<lambda>(b, links).
     if links \<noteq> 1 \<or> 8192 < length b then Inl (RuntimeErr ''Invalid lifecycle phase evidence file'')
     else bindR (decode_text b) (\<lambda>s. bindR (json_loads s) (\<lambda>v.
       if is_dict v then Inr v else Inl (RuntimeErr ''Invalid lifecycle phase evidence object'')))))"

definition fixture_binding :: "fixture_env \<Rightarrow> tree \<Rightarrow> json \<Rightarrow> string res" where
  "fixture_binding F t state =
     bindR (state_root state) (\<lambda>s.
     bindR (require_fixture_root F False t s) (\<lambda>base.
     bindR (require_fixture_artifact t base (base @ [''fixture.json''])) (\<lambda>manifest.
     bindR (regular_at t manifest) (\<lambda>(b, links).
     if links \<noteq> 1 \<or> 256 * 1024 < length b then Inl (RuntimeErr ''Invalid lifecycle manifest for phase binding'')
     else bindR (item state ''identity'') (\<lambda>identity.
       bindR (item state ''installerSha256'') (\<lambda>installer.
       bindR (item state ''payloadTreeSha256'') (\<lambda>payload.
       Inr (sha256_hex (dumps_ascii '','' '':'' (sort_json (JObj [(''root'', JStr (path_str base)), (''manifest'', JStr (sha256_hex b)),
         (''identity'', identity), (''installer'', installer), (''payload'', payload)])))))))))))"

definition handoff_json :: "string \<Rightarrow> string \<Rightarrow> json" where
  "handoff_json phase binding = JObj [(''format'', JStr ''isolated-lifecycle-handoff-v1''), (''phaseId'', JStr phase), (''fixtureBinding'', JStr binding)]"

definition on_tree :: "(tree \<Rightarrow> 'a res) \<Rightarrow> 'a lio" where
  "on_tree f = checkI (\<lambda>w. f (lw_tree w))"

definition change_tree :: "(tree \<Rightarrow> tree res) \<Rightarrow> unit lio" where
  "change_tree f w = (case f (lw_tree w) of Inl e \<Rightarrow> (Inl e, w) | Inr t \<Rightarrow> (Inr (), w\<lparr>lw_tree := t\<rparr>))"

definition token_hex :: "fixture_env \<Rightarrow> string lio" where
  "token_hex F w = (Inr (fe_token F (lw_draws w)), w\<lparr>lw_draws := Suc (lw_draws w)\<rparr>)"

definition create_handoff :: "fixture_env \<Rightarrow> json \<Rightarrow> json lio" where
  "create_handoff F state =
     bindI (on_tree (\<lambda>t. assert_fresh F t state)) (\<lambda>_.
     bindI (on_tree (\<lambda>t. bindR (state_root state) (require_fixture_root F False t))) (\<lambda>base.
     bindI (token_hex F) (\<lambda>phase.
     bindI (on_tree (\<lambda>t. fixture_binding F t state)) (\<lambda>binding.
     bindI (change_tree (create_new (base @ [READY]) (dumps_ascii '', '' '': '' (handoff_json phase binding)))) (\<lambda>_.
     retI (handoff_json phase binding))))))"

definition handoff_shape :: "json \<Rightarrow> bool" where
  "handoff_shape h \<longleftrightarrow> (case h of
     JObj kvs \<Rightarrow> set (map fst kvs) = {''format'', ''phaseId'', ''fixtureBinding''} \<and>
       map_of kvs ''format'' = Some (JStr ''isolated-lifecycle-handoff-v1'') \<and>
       (case map_of kvs ''phaseId'' of Some (JStr s) \<Rightarrow> fullmatch (rx_hex 64) s | _ \<Rightarrow> False)
   | _ \<Rightarrow> False)"

definition claim_handoff :: "fixture_env \<Rightarrow> json \<Rightarrow> json lio" where
  "claim_handoff F state =
     bindI (on_tree (\<lambda>t. bindR (state_root state) (require_fixture_root F False t))) (\<lambda>base.
     bindI (on_tree (\<lambda>t. if has_entry t (base @ [''lifecycle-result.json''])
       then Inl (RuntimeErr ''Administrator phase already ended; never resume the standard-user phase'')
       else if has_entry t (base @ [RESULT]) then Inl (RuntimeErr ''Standard-user result already exists; never repeat the phase'') else Inr ())) (\<lambda>_.
     bindI (on_tree (\<lambda>t. read_owned t base READY)) (\<lambda>handoff.
     bindI (guardI (\<not> handoff_shape handoff) (RuntimeErr ''Standard-user handoff does not match the current fixture'')) (\<lambda>_.
     bindI (on_tree (\<lambda>t. fixture_binding F t state)) (\<lambda>binding.
     bindI (on_tree (\<lambda>t. bindR (dget handoff ''fixtureBinding'') (\<lambda>b. if py_eq b (JStr binding) then Inr ()
       else Inl (RuntimeErr ''Standard-user handoff does not match the current fixture'')))) (\<lambda>_.
     bindI (change_tree (create_new (base @ [CLAIM]) (dumps_ascii '', '' '': '' handoff))) (\<lambda>_.
     retI handoff)))))))"

definition result_binding :: "json \<Rightarrow> (string \<times> json) list res" where
  "result_binding handoff = bindR (item handoff ''phaseId'') (\<lambda>phase. bindR (item handoff ''fixtureBinding'') (\<lambda>binding.
     Inr [(''format'', JStr ''isolated-standard-result-v1''), (''phaseId'', phase), (''fixtureBinding'', binding)]))"

text \<open>The conditions on the result, with the entries that bind it to the handoff\<close>

definition result_ok :: "(string \<times> json) list \<Rightarrow> json \<Rightarrow> bool" where
  "result_ok bound result \<longleftrightarrow> (case result of
     JObj kvs \<Rightarrow>
       list_all (\<lambda>(k, v). py_eq (case map_of kvs k of None \<Rightarrow> JNull | Some x \<Rightarrow> x) v) bound \<and>
       map_of kvs ''status'' = Some (JStr ''passed'') \<and> map_of kvs ''elevated'' = Some (JBool False) \<and>
       (case map_of kvs ''checks'' of
          Some (JList cs) \<Rightarrow> list_all is_str cs \<and> length cs = length CHECKS \<and> set cs = set (map JStr CHECKS)
        | _ \<Rightarrow> False)
   | _ \<Rightarrow> False)"

definition verify_result :: "fixture_env \<Rightarrow> tree \<Rightarrow> json \<Rightarrow> json \<Rightarrow> unit res" where
  "verify_result F t state handoff =
     bindR (bindR (state_root state) (require_fixture_root F False t)) (\<lambda>base.
     bindR (item handoff ''fixtureBinding'') (\<lambda>bound.
     bindR (fixture_binding F t state) (\<lambda>binding.
     if \<not> py_eq bound (JStr binding) then Inl (RuntimeErr ''Standard-user phase binding changed'')
     else bindR (read_owned t base CLAIM) (\<lambda>claim.
       if \<not> py_eq claim handoff then Inl (RuntimeErr ''Standard-user phase binding changed'')
       else bindR (read_owned t base RESULT) (\<lambda>result.
         bindR (result_binding handoff) (\<lambda>entries.
         if \<not> result_ok entries result then Inl (RuntimeErr ''Standard-user phase evidence is incomplete or belongs to another attempt'')
         else Inr ()))))))"

definition write_result :: "fixture_env \<Rightarrow> json \<Rightarrow> json \<Rightarrow> unit lio" where
  "write_result F state result =
     bindI (guardI (\<not> fe_nt F) (RuntimeErr ''Atomic lifecycle result publication requires Windows'')) (\<lambda>_.
     bindI (on_tree (\<lambda>t. bindR (state_root state) (require_fixture_root F False t))) (\<lambda>base.
     bindI (on_tree (\<lambda>t. if has_entry t (base @ [RESULT]) then Inl (RuntimeErr ''Standard-user result already exists; never overwrite evidence'') else Inr ())) (\<lambda>_.
     bindI (change_tree (create_new (base @ [RESULT @ ''.tmp'']) (dumps2 result))) (\<lambda>_.
     change_tree (rename_new (base @ [RESULT @ ''.tmp'']) (base @ [RESULT]))))))"

end
