(* ===== verification/Lifecycle_HandoffSpec.thy ===== *)
theory Lifecycle_HandoffSpec
  imports Lifecycle_Handoff
begin

text \<open>
  The runs of the two phases as a transition system: any number of processes try to create, claim, write and verify, in any
  order, and may fail; other programs may change everything but the evidence. A fixture is used for one attempt only.
\<close>

subsection \<open>Effects of the operations\<close>

lemma create_new_ok: "create_new p b t = Inr t' \<Longrightarrow> map_of t p = None \<and> map_of t' = (map_of t)(p \<mapsto> Regular b 1)"
  by (auto simp: create_new_def has_entry_def fun_eq_iff split: if_splits)

lemma map_of_without: "map_of (filter (\<lambda>e. fst e \<noteq> p) t) x = (if x = p then None else map_of t x)"
  by (induction t) auto

lemma rename_new_ok: "rename_new p q t = Inr t' \<Longrightarrow> p \<noteq> q \<Longrightarrow> \<exists>n. map_of t p = Some n \<and> map_of t q = None \<and> map_of t' = (map_of t)(p := None, q \<mapsto> n)"
  by (auto simp: rename_new_def has_entry_def map_of_without fun_eq_iff split: option.splits if_splits)

lemma root_abspath: "require_fixture_root F fresh t s = Inr base \<Longrightarrow> base = abspath (fe_cwd F) s"
  by (auto simp: require_fixture_root_def Let_def ok_iff split: if_splits)

lemma on_tree_ok: "on_tree f w = (Inr x, w') \<longleftrightarrow> w' = w \<and> f (lw_tree w) = Inr x"
  by (auto simp: on_tree_def ok_iff)

lemma change_tree_ok: "change_tree f w = (Inr u, w') \<longleftrightarrow> (\<exists>t. f (lw_tree w) = Inr t \<and> w' = w\<lparr>lw_tree := t\<rparr>)"
  by (auto simp: change_tree_def split: sum.splits)

text \<open>A state that names the fixture at \<open>base\<close>\<close>

definition of_fixture :: "fixture_env \<Rightarrow> path \<Rightarrow> json \<Rightarrow> bool" where
  "of_fixture F base state \<longleftrightarrow> (\<exists>s. state_root state = Inr s \<and> abspath (fe_cwd F) s = base)"

lemma of_fixture_root: "of_fixture F base state \<Longrightarrow> bindR (state_root state) (require_fixture_root F fresh t) = Inr base' \<Longrightarrow> base' = base"
  by (auto simp: of_fixture_def dest: root_abspath)

definition keeps_tree :: "'a lio \<Rightarrow> bool" where
  "keeps_tree m \<longleftrightarrow> (\<forall>w. lw_tree (snd (m w)) = lw_tree w)"

lemma keeps_tree_on: "keeps_tree (on_tree f)" "keeps_tree (token_hex F)" "keeps_tree (guardI b e)"
  by (auto simp: keeps_tree_def on_tree_def token_hex_def io_defs split: sum.splits)

lemma bind_tree:
  assumes "bindI m f w = (Inl e, w')" "keeps_tree m" "\<And>x v. f x v = (Inl e, w') \<Longrightarrow> lw_tree w' = lw_tree v"
  shows "lw_tree w' = lw_tree w"
proof -
  obtain q v where m: "m w = (q, v)" by (cases "m w")
  have "lw_tree v = lw_tree w" using assms(2) m by (metis keeps_tree_def snd_conv)
  then show ?thesis using assms(1,3) m by (cases q) (auto simp: bindI_def)
qed

lemma change_failed: "bindI (change_tree f) (\<lambda>_. retI x) w = (Inl e, w') \<Longrightarrow> lw_tree w' = lw_tree w"
  by (auto simp: bindI_def change_tree_def retI_def split: sum.splits)

lemma create_failed: "create_handoff F state w = (Inl e, w') \<Longrightarrow> lw_tree w' = lw_tree w"
  unfolding create_handoff_def by (erule bind_tree, rule keeps_tree_on)+ (erule change_failed)

lemma claim_failed: "claim_handoff F state w = (Inl e, w') \<Longrightarrow> lw_tree w' = lw_tree w"
  unfolding claim_handoff_def by (erule bind_tree, rule keeps_tree_on)+ (erule change_failed)

definition hex_tokens :: "fixture_env \<Rightarrow> bool" where
  "hex_tokens F \<longleftrightarrow> (\<forall>n. is_sha256 (fe_token F n))"

text \<open>A handoff as \<open>create_handoff\<close> writes it\<close>

definition sane :: "json \<Rightarrow> bool" where
  "sane h \<longleftrightarrow> (\<exists>phase binding. h = handoff_json phase binding \<and> is_sha256 phase \<and> is_sha256 binding)"

definition handoff_text :: "json \<Rightarrow> string" where
  "handoff_text h = dumps_ascii '', '' '': '' h"

lemma create_ok:
  assumes "create_handoff F state w = (Inr h, w')" "of_fixture F base state" "hex_tokens F"
  shows "sane h \<and> map_of (lw_tree w) (base @ [READY]) = None \<and>
    map_of (lw_tree w') = (map_of (lw_tree w))(base @ [READY] \<mapsto> Regular (handoff_text h) 1)"
proof -
  obtain base' w2 b w3 where c: "bindR (state_root state) (require_fixture_root F False (lw_tree w)) = Inr base'"
    "w2 = w\<lparr>lw_draws := Suc (lw_draws w)\<rparr>" "fixture_binding F (lw_tree w) state = Inr b" "h = handoff_json (fe_token F (lw_draws w)) b"
    "create_new (base' @ [READY]) (dumps_ascii '', '' '': '' h) (lw_tree w) = Inr (lw_tree w')"
    using assms(1) unfolding create_handoff_def ok_iff on_tree_ok change_tree_ok token_hex_def by auto
  have "base' = base" using of_fixture_root[OF assms(2) c(1)] .
  moreover have "is_sha256 b" using c(3) sha256_hex_shape by (auto simp: fixture_binding_def ok_iff split: prod.splits if_splits)
  ultimately show ?thesis using c(4) create_new_ok[OF c(5)] assms(3) by (auto simp: sane_def hex_tokens_def handoff_text_def)
qed

lemma claim_ok:
  assumes "claim_handoff F state w = (Inr h, w')" "of_fixture F base state"
  shows "read_owned (lw_tree w) base READY = Inr h \<and> map_of (lw_tree w) (base @ [CLAIM]) = None \<and>
    map_of (lw_tree w') = (map_of (lw_tree w))(base @ [CLAIM] \<mapsto> Regular (handoff_text h) 1)"
proof -
  obtain base' where c: "bindR (state_root state) (require_fixture_root F False (lw_tree w)) = Inr base'" "read_owned (lw_tree w) base' READY = Inr h"
    "create_new (base' @ [CLAIM]) (dumps_ascii '', '' '': '' h) (lw_tree w) = Inr (lw_tree w')"
    using assms(1) unfolding claim_handoff_def ok_iff on_tree_ok change_tree_ok by auto
  have "base' = base" using of_fixture_root[OF assms(2) c(1)] .
  then show ?thesis using c(2) create_new_ok[OF c(3)] by (simp add: handoff_text_def)
qed

lemma names_distinct: "distinct evidence_names"
  by code_simp

lemma write_ok:
  assumes "write_result F state r w = (Inr (), w')" "of_fixture F base state"
  shows "map_of (lw_tree w) (base @ [RESULT]) = None \<and>
    map_of (lw_tree w') = (map_of (lw_tree w))(base @ [RESULT @ ''.tmp''] := None, base @ [RESULT] \<mapsto> Regular (dumps2 r) 1)"
proof -
  obtain base' t where c: "bindR (state_root state) (require_fixture_root F False (lw_tree w)) = Inr base'"
    "create_new (base' @ [RESULT @ ''.tmp'']) (dumps2 r) (lw_tree w) = Inr t"
    "rename_new (base' @ [RESULT @ ''.tmp'']) (base' @ [RESULT]) t = Inr (lw_tree w')"
    using assms(1) unfolding write_result_def ok_iff on_tree_ok change_tree_ok by auto
  have "base' = base" using of_fixture_root[OF assms(2) c(1)] .
  then show ?thesis using create_new_ok[OF c(2)] rename_new_ok[OF c(3)] by auto
qed

lemma change_tree_failed: "change_tree f w = (Inl e, w') \<Longrightarrow> w' = w"
  by (auto simp: change_tree_def split: sum.splits)

lemma bind_failed: "bindI m f w = (Inl e, w') \<longleftrightarrow> m w = (Inl e, w') \<or> (\<exists>x v. m w = (Inr x, v) \<and> f x v = (Inl e, w'))"
  by (cases "m w"; cases "fst (m w)") (auto simp: bindI_def)

lemma write_failed:
  assumes "write_result F state r w = (Inl e, w')" "of_fixture F base state" "p \<noteq> base @ [RESULT @ ''.tmp'']"
  shows "map_of (lw_tree w') p = map_of (lw_tree w) p"
proof -
  have "lw_tree w' = lw_tree w \<or> (\<exists>base' v. bindR (state_root state) (require_fixture_root F False (lw_tree w)) = Inr base' \<and>
      change_tree (create_new (base' @ [RESULT @ ''.tmp'']) (dumps2 r)) w = (Inr (), v) \<and> w' = v)"
    using assms(1) unfolding write_result_def bind_failed
    by (auto simp: on_tree_ok change_tree_failed guardI_ok dest!: change_tree_failed) (auto simp: on_tree_def guardI_def checkI_def split: if_splits sum.splits)
  then show ?thesis
  proof (elim disjE exE conjE)
    fix base' v assume b: "bindR (state_root state) (require_fixture_root F False (lw_tree w)) = Inr base'"
      "change_tree (create_new (base' @ [RESULT @ ''.tmp'']) (dumps2 r)) w = (Inr (), v)" "w' = v"
    have "base' = base" using of_fixture_root[OF assms(2) b(1)] .
    then show ?thesis using b(2,3) assms(3) by (auto simp: change_tree_ok dest!: create_new_ok)
  qed simp
qed


subsection \<open>Runs\<close>

datatype phase_event = Created json | Claimed json | Wrote json | Verified json

inductive phase_run :: "fixture_env \<Rightarrow> path \<Rightarrow> lworld \<Rightarrow> phase_event list \<Rightarrow> lworld \<Rightarrow> bool" for F base w where
  start: "phase_run F base w [] w"
| create: "phase_run F base w evs u \<Longrightarrow> of_fixture F base state \<Longrightarrow> create_handoff F state u = (Inr h, v) \<Longrightarrow>
    phase_run F base w (evs @ [Created h]) v"
| create_refused: "phase_run F base w evs u \<Longrightarrow> of_fixture F base state \<Longrightarrow> create_handoff F state u = (Inl e, v) \<Longrightarrow>
    phase_run F base w evs v"
| claim: "phase_run F base w evs u \<Longrightarrow> of_fixture F base state \<Longrightarrow> claim_handoff F state u = (Inr h, v) \<Longrightarrow>
    phase_run F base w (evs @ [Claimed h]) v"
| claim_refused: "phase_run F base w evs u \<Longrightarrow> of_fixture F base state \<Longrightarrow> claim_handoff F state u = (Inl e, v) \<Longrightarrow>
    phase_run F base w evs v"
| answer: "phase_run F base w evs u \<Longrightarrow> of_fixture F base state \<Longrightarrow> write_result F state r u = (Inr (), v) \<Longrightarrow>
    phase_run F base w (evs @ [Wrote r]) v"
| answer_refused: "phase_run F base w evs u \<Longrightarrow> of_fixture F base state \<Longrightarrow> write_result F state r u = (Inl e, v) \<Longrightarrow>
    phase_run F base w evs v"
| verify: "phase_run F base w evs u \<Longrightarrow> of_fixture F base state \<Longrightarrow> verify_result F (lw_tree u) state h = Inr () \<Longrightarrow>
    phase_run F base w (evs @ [Verified h]) u"
| other: "phase_run F base w evs u \<Longrightarrow> \<forall>n \<in> set evidence_names. map_of (lw_tree v) (base @ [n]) = map_of (lw_tree u) (base @ [n]) \<Longrightarrow>
    phase_run F base w evs v"

fun created :: "phase_event list \<Rightarrow> json list" where
  "created [] = []"
| "created (Created h # evs) = h # created evs"
| "created (_ # evs) = created evs"

fun claimed :: "phase_event list \<Rightarrow> json list" where
  "claimed [] = []"
| "claimed (Claimed h # evs) = h # claimed evs"
| "claimed (_ # evs) = claimed evs"

fun wrote :: "phase_event list \<Rightarrow> json list" where
  "wrote [] = []"
| "wrote (Wrote r # evs) = r # wrote evs"
| "wrote (_ # evs) = wrote evs"

lemma created_append [simp]: "created (a @ b) = created a @ created b"
  by (induction a rule: created.induct) simp_all

lemma claimed_append [simp]: "claimed (a @ b) = claimed a @ claimed b"
  by (induction a rule: claimed.induct) simp_all

lemma wrote_append [simp]: "wrote (a @ b) = wrote a @ wrote b"
  by (induction a rule: wrote.induct) simp_all

text \<open>An evidence file is there exactly when its event has happened, once, and holds the value of the event.\<close>

definition slot :: "tree \<Rightarrow> path \<Rightarrow> string \<Rightarrow> (json \<Rightarrow> string) \<Rightarrow> json list \<Rightarrow> bool" where
  "slot t base name show_json vs \<longleftrightarrow> (vs = [] \<and> map_of t (base @ [name]) = None) \<or>
     (\<exists>v. vs = [v] \<and> map_of t (base @ [name]) = Some (Regular (show_json v) 1))"

text \<open>A verified handoff was created, claimed and answered before, by the same attempt.\<close>

definition answered :: "phase_event list \<Rightarrow> json \<Rightarrow> bool" where
  "answered evs h \<longleftrightarrow> (\<exists>c r v entries. created evs = [c] \<and> claimed evs = [c] \<and> wrote evs = [r] \<and> py_eq c h \<and>
     bindR (decode_text (dumps2 r)) json_loads = Inr v \<and> result_binding h = Inr entries \<and> result_ok entries v)"

definition allowed_after :: "phase_event list \<Rightarrow> phase_event \<Rightarrow> bool" where
  "allowed_after evs ev \<longleftrightarrow> (case ev of Created _ \<Rightarrow> created evs = [] | Claimed h \<Rightarrow> created evs = [h] \<and> claimed evs = []
     | Wrote _ \<Rightarrow> wrote evs = [] | Verified h \<Rightarrow> answered evs h)"

definition ordered :: "phase_event list \<Rightarrow> bool" where
  "ordered evs \<longleftrightarrow> (\<forall>i < length evs. allowed_after (take i evs) (evs ! i))"

definition phase_inv :: "path \<Rightarrow> phase_event list \<Rightarrow> lworld \<Rightarrow> bool" where
  "phase_inv base evs w \<longleftrightarrow> slot (lw_tree w) base READY handoff_text (created evs) \<and> slot (lw_tree w) base CLAIM handoff_text (claimed evs) \<and>
     slot (lw_tree w) base RESULT dumps2 (wrote evs) \<and> list_all sane (created evs) \<and> set (claimed evs) \<subseteq> set (created evs) \<and> ordered evs"

lemma ordered_snoc: "ordered (evs @ [ev]) \<longleftrightarrow> ordered evs \<and> allowed_after evs ev"
  by (auto simp: ordered_def less_Suc_eq nth_append)

lemma sane_plain: "sane h \<Longrightarrow> plain_json h \<and> writable h \<and> wf_json h \<and> ascii_json h"
proof -
  assume "sane h"
  then obtain a b where h: "h = handoff_json a b" "is_sha256 a" "is_sha256 b" by (auto simp: sane_def)
  have "plain a" "plain b" using h(2,3) by (auto simp: is_sha256_def plain_def list_all_iff is_hex_def is_digit_def Let_def)
  then show ?thesis using plain_ascii by (simp add: h(1) handoff_json_def) (simp add: plain_def)
qed

lemma sane_text: "sane h \<Longrightarrow> bindR (decode_text (handoff_text h)) json_loads = Inr h"
proof -
  assume h: "sane h"
  have t: "handoff_text h = dumps '', '' '': '' h" using dumps_ascii_plain sane_plain[OF h] by (simp add: handoff_text_def)
  have "decode_text (handoff_text h) = Inr (handoff_text h)"
    using ascii_dumps[of "'', ''" "'': ''" h] dumps_no_cr[of h "'', ''" "'': ''"] sane_plain[OF h] unfolding t by (intro decode_text_ascii) auto
  moreover have "json_seps '', '' '': ''" by (simp add: json_seps_def json_ws_def)
  ultimately show ?thesis using loads_dumps[of "'', ''" "'': ''" h "[]"] sane_plain[OF h] by (simp add: t)
qed

lemma read_owned_ok:
  assumes "read_owned t base n = Inr v"
  shows "\<exists>b. map_of t (base @ [n]) = Some (Regular b 1) \<and> bindR (decode_text b) json_loads = Inr v"
proof -
  obtain p b links where r: "require_fixture_artifact t base (base @ [n]) = Inr p" "regular_at t p = Inr (b, links)" "links = 1" "bindR (decode_text b) json_loads = Inr v"
    using assms unfolding read_owned_def by (auto simp: ok_iff split: if_splits)
  have "p = base @ [n]" using artifact_ok[OF r(1)] .
  then show ?thesis using r(2-4) by (auto simp: regular_at_def split: option.splits node.splits)
qed

lemma slot_other: "map_of t' (base @ [n]) = map_of t (base @ [n]) \<Longrightarrow> slot t' base n f vs \<longleftrightarrow> slot t base n f vs"
  by (simp add: slot_def)

lemma slot_new: "slot t base n f vs \<Longrightarrow> map_of t (base @ [n]) = None \<Longrightarrow> map_of t' (base @ [n]) = Some (Regular (f v) 1) \<Longrightarrow>
    vs = [] \<and> slot t' base n f [v]"
  by (auto simp: slot_def)

lemma name_neq: "READY \<noteq> CLAIM" "READY \<noteq> RESULT" "CLAIM \<noteq> RESULT" "RESULT @ ''.tmp'' \<noteq> READY" "RESULT @ ''.tmp'' \<noteq> CLAIM"
  by (simp_all add: READY_def CLAIM_def RESULT_def)

lemma inv_same:
  assumes "phase_inv base evs u" "\<And>n. n \<in> {READY, CLAIM, RESULT} \<Longrightarrow> map_of (lw_tree v) (base @ [n]) = map_of (lw_tree u) (base @ [n])"
  shows "phase_inv base evs v"
  using assms slot_other[of "lw_tree v" base _ "lw_tree u"] by (simp add: phase_inv_def)

lemma verified_answered:
  assumes "phase_inv base evs u" "of_fixture F base state" "verify_result F (lw_tree u) state h = Inr ()"
  shows "answered evs h"
proof -
  obtain base' claim result entries where c: "bindR (state_root state) (require_fixture_root F False (lw_tree u)) = Inr base'"
    "read_owned (lw_tree u) base' CLAIM = Inr claim" "py_eq claim h" "read_owned (lw_tree u) base' RESULT = Inr result"
    "result_binding h = Inr entries" "result_ok entries result"
    using assms(3) unfolding verify_result_def by (auto simp: ok_iff split: if_splits)
  have b: "base' = base" using of_fixture_root[OF assms(2) c(1)] .
  obtain tc where tc: "map_of (lw_tree u) (base @ [CLAIM]) = Some (Regular tc 1)" "bindR (decode_text tc) json_loads = Inr claim"
    using read_owned_ok[OF c(2)] b by blast
  obtain tr where tr: "map_of (lw_tree u) (base @ [RESULT]) = Some (Regular tr 1)" "bindR (decode_text tr) json_loads = Inr result"
    using read_owned_ok[OF c(4)] b by blast
  obtain k r where k: "claimed evs = [k]" "tc = handoff_text k" "wrote evs = [r]" "tr = dumps2 r"
    using assms(1) tc(1) tr(1) by (auto simp: phase_inv_def slot_def)
  have "created evs = [k]" "sane k" using assms(1) k(1) by (auto simp: phase_inv_def slot_def)
  then have "claim = k" using sane_text tc(2) k(2) by simp
  then show ?thesis using k c(3,5,6) tr(2) \<open>created evs = [k]\<close> by (auto simp: answered_def)
qed

lemma run_inv:
  assumes "phase_run F base w evs u" "hex_tokens F" "phase_inv base [] w"
  shows "phase_inv base evs u"
  using assms(1)
proof induction
  case start
  show ?case using assms(3) .
next
  case (create evs u state h v)
  note c = create_ok[OF create.hyps(3,2) assms(2)]
  have "created evs = [] \<and> slot (lw_tree v) base READY handoff_text [h]"
    using create.IH c by (intro slot_new[of "lw_tree u"]) (simp_all add: phase_inv_def)
  then show ?case using create.IH c name_neq slot_other[of "lw_tree v" base _ "lw_tree u"]
    by (auto simp: phase_inv_def ordered_snoc allowed_after_def)
next
  case (claim evs u state h v)
  note c = claim_ok[OF claim.hyps(3,2)]
  have s: "claimed evs = [] \<and> slot (lw_tree v) base CLAIM handoff_text [h]"
    using claim.IH c by (intro slot_new[of "lw_tree u"]) (simp_all add: phase_inv_def)
  obtain b where b: "map_of (lw_tree u) (base @ [READY]) = Some (Regular b 1)" "bindR (decode_text b) json_loads = Inr h"
    using read_owned_ok c by blast
  then obtain k where "created evs = [k]" "b = handoff_text k" "sane k" using claim.IH by (auto simp: phase_inv_def slot_def)
  then have "created evs = [h]" using sane_text b(2) by simp
  then show ?case using claim.IH c s name_neq slot_other[of "lw_tree v" base _ "lw_tree u"]
    by (auto simp: phase_inv_def ordered_snoc allowed_after_def)
next
  case (answer evs u state r v)
  note c = write_ok[OF answer.hyps(3,2)]
  have "wrote evs = [] \<and> slot (lw_tree v) base RESULT dumps2 [r]"
    using answer.IH c by (intro slot_new[of "lw_tree u"]) (simp_all add: phase_inv_def)
  then show ?case using answer.IH c name_neq slot_other[of "lw_tree v" base _ "lw_tree u"]
    by (auto simp: phase_inv_def ordered_snoc allowed_after_def)
next
  case (verify evs u state h)
  have "answered evs h" using verified_answered[OF verify.IH verify.hyps(2,3)] .
  then show ?case using verify.IH by (simp add: phase_inv_def ordered_snoc allowed_after_def)
next
  case (create_refused evs u state e v)
  then show ?case using create_failed by (intro inv_same[OF create_refused.IH]) simp
next
  case (claim_refused evs u state e v)
  then show ?case using claim_failed by (intro inv_same[OF claim_refused.IH]) simp
next
  case (answer_refused evs u state r e v)
  then show ?case using write_failed[OF answer_refused.hyps(3,2)] name_neq by (intro inv_same[OF answer_refused.IH]) auto
next
  case (other evs u v)
  then show ?case by (intro inv_same[OF other.IH]) (auto simp: evidence_names_def)
qed


text \<open>
  C25. One attempt per fixture: in every run from a fixture without evidence, whatever processes try and in whatever order, a
  handoff is created at most once, claimed at most once and answered at most once; only the created handoff can be
  claimed; and a verification succeeds only after the handoff it verifies was created, claimed and answered with all
  the required checks in the same run.
\<close>

theorem single_attempt:
  assumes "phase_run F base w evs u" "hex_tokens F" "\<forall>n \<in> set evidence_names. map_of (lw_tree w) (base @ [n]) = None"
  shows "length (created evs) \<le> 1 \<and> length (claimed evs) \<le> 1 \<and> length (wrote evs) \<le> 1 \<and>
    (\<forall>i < length evs. allowed_after (take i evs) (evs ! i))"
proof -
  have "phase_inv base [] w" using assms(3) by (simp add: phase_inv_def slot_def ordered_def evidence_names_def)
  then have "phase_inv base evs u" using run_inv[OF assms(1,2)] by blast
  then show ?thesis by (auto simp: phase_inv_def slot_def ordered_def)
qed

subsection \<open>Witness: the four steps of a run\<close>

definition word_text :: "string \<Rightarrow> bool" where
  "word_text s \<longleftrightarrow> list_all (\<lambda>c. is_letter c \<or> is_digit c \<or> c = CHR ''_'' \<or> c = CHR ''-'') s"

lemma quote_word: "word_text s \<Longrightarrow> json_quote_ascii s = CHR 0x22 # s @ [CHR 0x22] \<and> plain s"
proof -
  assume s: "word_text s"
  then have p: "plain s" by (fastforce simp: word_text_def plain_def list_all_iff is_letter_def is_digit_def Let_def)
  have "json_esc c = [c]" if "is_letter c \<or> is_digit c \<or> c = CHR ''_'' \<or> c = CHR ''-''" for c
  proof -
    have "45 \<le> (of_char c :: nat)" "(of_char c :: nat) \<noteq> 92"
      using that unfolding is_letter_def is_digit_def Let_def by (elim disjE conjE; simp)+
    moreover from this have "c \<noteq> CHR 0x22" "c \<noteq> CHR 0x5C" "c \<noteq> CHR 0x0A" "c \<noteq> CHR 0x0D" "c \<noteq> CHR 0x09" "c \<noteq> CHR 0x08" "c \<noteq> CHR 0x0C"
      by (safe; simp)+
    ultimately show ?thesis by (simp add: json_esc_def)
  qed
  then have "concat (map json_esc s) = s" using s by (induction s) (auto simp: word_text_def)
  then show ?thesis using quote_plain[OF p] p by (simp add: json_quote_def)
qed


definition demo_state :: json where
  "demo_state = JObj [(''root'', JStr ''/p/build/homologation/windows-lifecycle-a''), (''identity'', JStr ''PlugAgenteHomologacao_0123456789ab''),
     (''installerSha256'', JStr (replicate 64 CHR ''b'')), (''payloadTreeSha256'', JStr (replicate 64 CHR ''c''))]"

definition demo_start :: lworld where
  "demo_start = \<lparr>lw_tree = (demo_fixture_root @ [''fixture.json''], Regular ''{}'' 1) # demo_tree, lw_draws = 0\<rparr>"

text \<open>The trees of the run: the evidence in front of the start\<close>

definition demo_at :: "(string \<times> bytes) list \<Rightarrow> tree" where
  "demo_at es = map (\<lambda>(n, b). (demo_fixture_root @ [n], Regular b 1)) es @ lw_tree demo_start"

lemma demo_at_root: "require_fixture_root demo_fixture False (demo_at es) ''/p/build/homologation/windows-lifecycle-a'' = Inr demo_fixture_root"
proof -
  have o: "map_of (demo_at es) q = map_of (lw_tree demo_start) q" if "length q < 5" for q
    using that by (induction es) (auto simp: demo_at_def demo_fixture_root_def)
  have b: "abspath (fe_cwd demo_fixture) ''/p/build/homologation/windows-lifecycle-a'' = demo_fixture_root" "fullmatch rx_fixture_name (tail_name demo_fixture_root)"
    "fe_project demo_fixture = [''p'']" by code_simp+
  have m: "map_of (lw_tree demo_start) [''p'', ''build''] = Some Folder" "map_of (lw_tree demo_start) [''p'', ''build'', ''homologation''] = Some Folder"
    "map_of (lw_tree demo_start) demo_fixture_root = Some Folder" by code_simp+
  have len: "length demo_fixture_root < 5" "butlast demo_fixture_root = [''p'', ''build'', ''homologation'']" "demo_fixture_root \<noteq> []"
    by (simp_all add: demo_fixture_root_def)
  show ?thesis using b m len o
    by (simp add: require_fixture_root_def check_candidate_def reject_reparse_def lstat_def of_option_def is_folder_def)
qed

lemma demo_at_folder: "map_of (demo_at es) demo_fixture_root = Some Folder"
proof -
  have "map_of (lw_tree demo_start) demo_fixture_root = Some Folder" by code_simp
  then show ?thesis by (induction es) (auto simp: demo_at_def)
qed

lemma demo_at_name: "map_of (demo_at es) (demo_fixture_root @ [n]) = (case map_of es n of Some b \<Rightarrow> Some (Regular b 1)
    | None \<Rightarrow> map_of (lw_tree demo_start) (demo_fixture_root @ [n]))"
  by (induction es) (auto simp: demo_at_def)

lemma demo_none: "map_of (lw_tree demo_start) (demo_fixture_root @ [n]) = (if n = ''fixture.json'' then Some (Regular ''{}'' 1) else if n = ''payload'' then Some Folder else None)"
  unfolding demo_start_def demo_tree_eq by (auto simp: demo_fixture_root_def)

lemma demo_at_artifact: "map_of (demo_at es) (demo_fixture_root @ [n]) = Some (Regular b 1) \<Longrightarrow>
    require_fixture_artifact (demo_at es) demo_fixture_root (demo_fixture_root @ [n]) = Inr (demo_fixture_root @ [n])"
  using demo_at_folder[of es]
  by (simp add: require_fixture_artifact_def descent_def reject_reparse_def lstat_def of_option_def is_regular_def)

lemma demo_state_root: "state_root demo_state = Inr ''/p/build/homologation/windows-lifecycle-a''"
  by (simp add: state_root_def demo_state_def item_def str_of_def of_option_def)

definition demo_bound :: string where
  "demo_bound = sha256_hex (dumps_ascii '','' '':'' (sort_json (JObj [(''root'', JStr (path_str demo_fixture_root)), (''manifest'', JStr (sha256_hex ''{}'')),
     (''identity'', JStr ''PlugAgenteHomologacao_0123456789ab''), (''installer'', JStr (replicate 64 CHR ''b'')), (''payload'', JStr (replicate 64 CHR ''c''))])))"

lemma demo_binding: "map_of es ''fixture.json'' = None \<Longrightarrow> fixture_binding demo_fixture (demo_at es) demo_state = Inr demo_bound"
proof -
  assume "map_of es ''fixture.json'' = None"
  then have m: "map_of (demo_at es) (demo_fixture_root @ [''fixture.json'']) = Some (Regular ''{}'' 1)" by (simp add: demo_at_name demo_none)
  show ?thesis
    unfolding fixture_binding_def demo_state_root bindR_simps demo_at_root demo_at_artifact[OF m]
    using m by (simp add: regular_at_def demo_state_def item_def of_option_def demo_bound_def)
qed

definition demo_handoff :: json where
  "demo_handoff = handoff_json (replicate 64 CHR ''a'') demo_bound"

definition demo_result :: json where
  "demo_result = JObj [(''status'', JStr ''passed''), (''elevated'', JBool False), (''checks'', JList (map JStr CHECKS)),
     (''format'', JStr ''isolated-standard-result-v1''), (''phaseId'', JStr (replicate 64 CHR ''a'')), (''fixtureBinding'', JStr demo_bound)]"

lemma hex_word: "is_sha256 s \<Longrightarrow> word_text s \<and> length s = 64"
  by (auto simp: is_sha256_def word_text_def list_all_iff is_hex_def is_letter_def Let_def)

lemma demo_words: "word_text demo_bound" "length demo_bound = 64" "word_text (replicate 64 CHR ''a'')" "is_sha256 (replicate 64 CHR ''a'')"
  using hex_word[OF sha256_hex_shape] by (simp_all add: demo_bound_def is_sha256_def word_text_def is_letter_def is_hex_def list_all_iff Let_def)

lemma demo_sane: "sane demo_handoff"
  using demo_words(4) sha256_hex_shape by (auto simp: sane_def demo_handoff_def demo_bound_def)

lemma demo_create: "create_handoff demo_fixture demo_state demo_start = (Inr demo_handoff, \<lparr>lw_tree = demo_at [(READY, handoff_text demo_handoff)], lw_draws = 1\<rparr>)"
proof -
  have a: "lw_tree demo_start = demo_at []" by (simp add: demo_at_def)
  have f: "assert_fresh demo_fixture (lw_tree demo_start) demo_state = Inr ()" by code_simp
  show ?thesis
    unfolding create_handoff_def bindI_def on_tree_def checkI_def f demo_state_root bindR_simps token_hex_def
    using demo_at_root[of "[]"] demo_binding[of "[]"] demo_at_folder[of "[]"] demo_at_name[of "[]" READY] demo_none[of READY] unfolding a[symmetric]
    by (simp add: change_tree_def create_new_def has_entry_def is_folder_def retI_def demo_handoff_def handoff_text_def demo_at_def demo_fixture_def demo_start_def)
      (simp add: READY_def)
qed

lemma demo_text_length: "length (handoff_text demo_handoff) \<le> 8192"
proof -
  have w: "word_text ''format''" "word_text ''isolated-lifecycle-handoff-v1''" "word_text ''phaseId''" "word_text ''fixtureBinding''" by code_simp+
  show ?thesis using w[THEN quote_word] demo_words(1,3)[THEN quote_word] demo_words(2)
    by (simp add: handoff_text_def demo_handoff_def handoff_json_def)
qed

lemma demo_read_owned:
  assumes "map_of es n = Some b" "length b \<le> 8192" "bindR (decode_text b) json_loads = Inr v" "is_dict v"
  shows "read_owned (demo_at es) demo_fixture_root n = Inr v"
proof -
  have m: "map_of (demo_at es) (demo_fixture_root @ [n]) = Some (Regular b 1)" using assms(1) by (simp add: demo_at_name)
  show ?thesis unfolding read_owned_def demo_at_artifact[OF m] using assms(2-4) m by (auto simp: regular_at_def ok_iff)
qed

lemma demo_handoff_dict: "is_dict demo_handoff"
  by (simp add: demo_handoff_def handoff_json_def is_dict_def)

lemma demo_shape: "handoff_shape demo_handoff"
  using demo_words(4) by (auto simp: handoff_shape_def demo_handoff_def handoff_json_def match_hex is_sha256_def)

lemma demo_claim: "claim_handoff demo_fixture demo_state \<lparr>lw_tree = demo_at [(READY, handoff_text demo_handoff)], lw_draws = 1\<rparr> =
    (Inr demo_handoff, \<lparr>lw_tree = demo_at [(CLAIM, handoff_text demo_handoff), (READY, handoff_text demo_handoff)], lw_draws = 1\<rparr>)"
proof -
  let ?es = "[(READY, handoff_text demo_handoff)]"
  have r: "read_owned (demo_at ?es) demo_fixture_root READY = Inr demo_handoff"
    by (rule demo_read_owned[OF _ demo_text_length sane_text[OF demo_sane] demo_handoff_dict]) simp
  have n: "\<not> has_entry (demo_at ?es) (demo_fixture_root @ [''lifecycle-result.json''])" "\<not> has_entry (demo_at ?es) (demo_fixture_root @ [RESULT])"
    "\<not> has_entry (demo_at ?es) (demo_fixture_root @ [CLAIM])"
    by (simp_all add: has_entry_def demo_at_name demo_none) (simp_all add: READY_def RESULT_def CLAIM_def)
  have b: "fixture_binding demo_fixture (demo_at ?es) demo_state = Inr demo_bound" by (rule demo_binding) (simp add: READY_def)
  show ?thesis
    unfolding claim_handoff_def using r n b demo_shape demo_at_folder[of ?es]
    by (simp add: bindI_def on_tree_def checkI_def demo_state_root demo_at_root guardI_def change_tree_def create_new_def is_folder_def retI_def handoff_text_def
      demo_handoff_def handoff_json_def dget_def) (simp add: demo_at_def)
qed

lemma demo_result_plain: "plain_json demo_result" "writable demo_result" "wf_json demo_result"
proof -
  have "plain demo_bound" "plain (replicate 64 CHR ''a'')" using demo_words quote_word by blast+
  then show "plain_json demo_result" by (simp add: demo_result_def CHECKS_def) (simp add: plain_def)
qed (simp_all add: demo_result_def CHECKS_def)

lemma demo_result_text: "bindR (decode_text (dumps2 demo_result)) json_loads = Inr demo_result"
  using read_dumps2[OF demo_result_plain(2,1,3), of "[]"] by simp

lemma demo_result_length: "length (dumps2 demo_result) \<le> 8192"
proof -
  have w: "word_text s" if "s \<in> set (CHECKS @ [''status'', ''passed'', ''elevated'', ''checks'', ''format'', ''isolated-standard-result-v1'', ''phaseId'', ''fixtureBinding''])" for s
  proof -
    have "list_all word_text (CHECKS @ [''status'', ''passed'', ''elevated'', ''checks'', ''format'', ''isolated-standard-result-v1'', ''phaseId'', ''fixtureBinding''])" by code_simp
    then show ?thesis using that by (simp only: list_all_iff)
  qed
  have q: "length (json_quote_ascii s) = length s + 2" if "word_text s" for s using quote_word[OF that] by simp
  show ?thesis using w[unfolded CHECKS_def] demo_words
    by (simp add: dumps2_def demo_result_def CHECKS_def q indent_at_def)
qed

lemma demo_nt: "fe_nt demo_fixture"
  by (simp add: demo_fixture_def)

lemma demo_write: "write_result demo_fixture demo_state demo_result \<lparr>lw_tree = demo_at [(CLAIM, handoff_text demo_handoff), (READY, handoff_text demo_handoff)], lw_draws = 1\<rparr> =
    (Inr (), \<lparr>lw_tree = demo_at [(RESULT, dumps2 demo_result), (CLAIM, handoff_text demo_handoff), (READY, handoff_text demo_handoff)], lw_draws = 1\<rparr>)"
proof -
  let ?es = "[(CLAIM, handoff_text demo_handoff), (READY, handoff_text demo_handoff)]"
  have n: "map_of (demo_at ?es) (demo_fixture_root @ [RESULT @ ''.tmp'']) = None" "map_of (demo_at ?es) (demo_fixture_root @ [RESULT]) = None"
    by (simp_all add: demo_at_name demo_none) (simp_all add: READY_def RESULT_def CLAIM_def)
  then have "filter (\<lambda>e. fst e \<noteq> demo_fixture_root @ [RESULT @ ''.tmp'']) (demo_at ?es) = demo_at ?es"
    by (intro filter_True) (force simp: map_of_eq_None_iff image_iff)
  then show ?thesis
    unfolding write_result_def using n demo_at_folder[of ?es]
    by (simp add: bindI_def on_tree_def checkI_def demo_state_root demo_at_root guardI_def change_tree_def create_new_def rename_new_def is_folder_def has_entry_def demo_nt)
      (simp add: demo_at_def)
qed


lemma demo_verify: "verify_result demo_fixture (demo_at [(RESULT, dumps2 demo_result), (CLAIM, handoff_text demo_handoff), (READY, handoff_text demo_handoff)])
    demo_state demo_handoff = Inr ()"
proof -
  let ?es = "[(RESULT, dumps2 demo_result), (CLAIM, handoff_text demo_handoff), (READY, handoff_text demo_handoff)]"
  have c: "read_owned (demo_at ?es) demo_fixture_root CLAIM = Inr demo_handoff"
    by (rule demo_read_owned[OF _ demo_text_length sane_text[OF demo_sane] demo_handoff_dict]) (simp add: CLAIM_def RESULT_def)
  have r: "read_owned (demo_at ?es) demo_fixture_root RESULT = Inr demo_result"
    by (rule demo_read_owned[OF _ demo_result_length demo_result_text]) (simp_all add: demo_result_def is_dict_def)
  have b: "fixture_binding demo_fixture (demo_at ?es) demo_state = Inr demo_bound"
    by (rule demo_binding) (simp add: READY_def CLAIM_def RESULT_def)
  have ok: "result_binding demo_handoff = Inr [(''format'', JStr ''isolated-standard-result-v1''), (''phaseId'', JStr (replicate 64 CHR ''a'')), (''fixtureBinding'', JStr demo_bound)]"
    by (simp add: result_binding_def demo_handoff_def handoff_json_def item_def of_option_def)
  have "result_ok [(''format'', JStr ''isolated-standard-result-v1''), (''phaseId'', JStr (replicate 64 CHR ''a'')), (''fixtureBinding'', JStr demo_bound)] demo_result"
    by (simp add: result_ok_def demo_result_def) (simp add: CHECKS_def is_str_def)
  moreover have "item demo_handoff ''fixtureBinding'' = Inr (JStr demo_bound)" "py_eq demo_handoff demo_handoff"
    by (simp_all add: demo_handoff_def handoff_json_def item_def of_option_def)
  ultimately show ?thesis
    by (simp add: verify_result_def demo_state_root demo_at_root b c r ok)
qed

theorem single_attempt_witness:
  "\<exists>u. phase_run demo_fixture demo_fixture_root demo_start [Created demo_handoff, Claimed demo_handoff, Wrote demo_result, Verified demo_handoff] u \<and>
    hex_tokens demo_fixture \<and> (\<forall>n \<in> set evidence_names. map_of (lw_tree demo_start) (demo_fixture_root @ [n]) = None) \<and>
    allowed_after [Created demo_handoff, Claimed demo_handoff, Wrote demo_result] (Verified demo_handoff)"
proof -
  have o: "of_fixture demo_fixture demo_fixture_root demo_state"
    unfolding of_fixture_def demo_state_root by (intro exI conjI, rule refl) code_simp
  have "phase_run demo_fixture demo_fixture_root demo_start [Created demo_handoff] \<lparr>lw_tree = demo_at [(READY, handoff_text demo_handoff)], lw_draws = 1\<rparr>"
    using phase_run.create[OF phase_run.start o demo_create] by simp
  note r1 = phase_run.claim[OF this o demo_claim]
  note r2 = phase_run.answer[OF r1 o demo_write]
  note r3 = phase_run.verify[OF r2 o, of demo_handoff]
  have run: "\<exists>u. phase_run demo_fixture demo_fixture_root demo_start [Created demo_handoff, Claimed demo_handoff, Wrote demo_result, Verified demo_handoff] u"
    using r3 demo_verify by auto
  have h: "hex_tokens demo_fixture" using demo_words(4) by (simp add: hex_tokens_def demo_fixture_def)
  have f: "\<forall>n \<in> set evidence_names. map_of (lw_tree demo_start) (demo_fixture_root @ [n]) = None"
    by (simp add: evidence_names_def demo_none) (simp add: READY_def CLAIM_def RESULT_def)
  from run obtain u where u: "phase_run demo_fixture demo_fixture_root demo_start [Created demo_handoff, Claimed demo_handoff, Wrote demo_result, Verified demo_handoff] u" by blast
  from single_attempt[OF u h f] have "\<forall>i < 4. allowed_after (take i [Created demo_handoff, Claimed demo_handoff, Wrote demo_result, Verified demo_handoff])
    ([Created demo_handoff, Claimed demo_handoff, Wrote demo_result, Verified demo_handoff] ! i)" by simp
  then have "allowed_after [Created demo_handoff, Claimed demo_handoff, Wrote demo_result] (Verified demo_handoff)" by (auto dest: spec[of _ 3])
  then show ?thesis using u h f by blast
qed

end
