(* ===== verification/Py_Num.thy ===== *)
theory Py_Num
  imports Py_JsonDict
begin

text \<open>
  Arithmetic as Python does it on values of unknown type: the operations on \<open>float\<close>, the mixed
  comparisons of \<open>int\<close>, \<open>float\<close> and \<open>bool\<close> with the exceptions they raise, \<open>float(text)\<close>,
  \<open>math.isfinite\<close>, \<open>math.isclose\<close> and \<open>statistics.median\<close>; iteration over a value and
  conditions that may raise.
\<close>

subsection \<open>Operations on \<open>float\<close>\<close>

definition float_neg :: "pyfloat \<Rightarrow> pyfloat" where
  "float_neg x = (case x of FFin a \<Rightarrow> FFin (- a) | FInf \<Rightarrow> FNegInf | FNegInf \<Rightarrow> FInf | FNaN \<Rightarrow> FNaN)"

definition float_abs :: "pyfloat \<Rightarrow> pyfloat" where
  "float_abs x = (case x of FFin a \<Rightarrow> FFin \<bar>a\<bar> | FNegInf \<Rightarrow> FInf | _ \<Rightarrow> x)"

definition float_add :: "pyfloat \<Rightarrow> pyfloat \<Rightarrow> pyfloat" where
  "float_add x y = (case (x, y) of
     (FFin a, FFin b) \<Rightarrow> fl (a + b)
   | (FNaN, _) \<Rightarrow> FNaN | (_, FNaN) \<Rightarrow> FNaN
   | (FInf, FNegInf) \<Rightarrow> FNaN | (FNegInf, FInf) \<Rightarrow> FNaN
   | (FFin _, _) \<Rightarrow> y | _ \<Rightarrow> x)"

definition float_sub :: "pyfloat \<Rightarrow> pyfloat \<Rightarrow> pyfloat" where
  "float_sub x y = float_add x (float_neg y)"

text \<open>An infinity times or divided by a finite value: the sign of the other factor decides; the sign of a zero
  is not kept, so that a zero counts as positive.\<close>

definition signed_inf :: "bool \<Rightarrow> pyfloat" where
  "signed_inf neg = (if neg then FNegInf else FInf)"

definition is_neg :: "pyfloat \<Rightarrow> bool" where
  "is_neg x = (case x of FFin a \<Rightarrow> a < 0 | FNegInf \<Rightarrow> True | _ \<Rightarrow> False)"

definition float_mul :: "pyfloat \<Rightarrow> pyfloat \<Rightarrow> pyfloat" where
  "float_mul x y = (case (x, y) of
     (FFin a, FFin b) \<Rightarrow> fl (a * b)
   | (FNaN, _) \<Rightarrow> FNaN | (_, FNaN) \<Rightarrow> FNaN
   | _ \<Rightarrow> if x = FFin 0 \<or> y = FFin 0 then FNaN else signed_inf (is_neg x \<noteq> is_neg y))"

text \<open>\<open>x / y\<close>: a zero divisor raises whatever the dividend.\<close>

definition float_div :: "pyfloat \<Rightarrow> pyfloat \<Rightarrow> pyfloat res" where
  "float_div x y = (if y = FFin 0 then Inl ZeroDivisionErr else Inr (case (x, y) of
     (FFin a, FFin b) \<Rightarrow> fl (a / b)
   | (FNaN, _) \<Rightarrow> FNaN | (_, FNaN) \<Rightarrow> FNaN
   | (FFin _, _) \<Rightarrow> FFin 0
   | (_, FFin b) \<Rightarrow> signed_inf (is_neg x \<noteq> (b < 0))
   | _ \<Rightarrow> FNaN))"

text \<open>\<open>math.isclose(a, b)\<close> with its default relative tolerance\<close>

definition rel_tol :: pyfloat where
  "rel_tol = fl (1 / 10 ^ 9)"

definition float_isclose :: "pyfloat \<Rightarrow> pyfloat \<Rightarrow> bool" where
  "float_isclose a b \<longleftrightarrow>
     (if float_eq a b then True
      else if a \<in> {FInf, FNegInf} \<or> b \<in> {FInf, FNegInf} then False
      else (let d = float_abs (float_sub b a) in
        float_le d (float_abs (float_mul rel_tol b)) \<or> float_le d (float_abs (float_mul rel_tol a)) \<or> float_le d (FFin 0)))"

subsection \<open>\<open>float(text)\<close>\<close>

definition digits_or_empty :: "string \<Rightarrow> string option" where
  "digits_or_empty s = (if s = [] then Some [] else digit_groups False s)"

definition signed_body :: "string \<Rightarrow> bool \<times> string" where
  "signed_body s = (if startswith s ''-'' then (True, drop 1 s) else if startswith s ''+'' then (False, drop 1 s) else (False, s))"

definition decimal_of_str :: "string \<Rightarrow> rat option" where
  "decimal_of_str s =
     (let m = takeWhile (\<lambda>c. c \<notin> {CHR ''e'', CHR ''E''}) s; ex = drop (length m) s;
        (ip, fp) = (case str_cut ''.'' m of None \<Rightarrow> (m, []) | Some (a, b) \<Rightarrow> (a, b));
        (eneg, eds) = signed_body (drop 1 ex) in
      case (digits_or_empty ip, digits_or_empty fp, if ex = [] then Some ''0'' else digit_groups False eds) of
        (Some i, Some f, Some e) \<Rightarrow>
          if i = [] \<and> f = [] then None
          else Some (of_nat (digits_val (i @ f)) * pow10 ((if eneg then - int (digits_val e) else int (digits_val e)) - int (length f)))
      | _ \<Rightarrow> None)"

definition float_of_str :: "string \<Rightarrow> pyfloat option" where
  "float_of_str t =
     (let (neg, s) = signed_body (strip t) in
      if lower s \<in> {''inf'', ''infinity''} then Some (signed_inf neg)
      else if lower s = ''nan'' then Some FNaN
      else map_option (\<lambda>r. fl (if neg then - r else r)) (decimal_of_str s))"

definition floatR :: "string \<Rightarrow> pyfloat res" where
  "floatR s = of_option (ValueErr ''could not convert string to float'') (float_of_str s)"

subsection \<open>Numbers of unknown type\<close>

text \<open>\<open>isinstance(v, (int, float))\<close>: a \<open>bool\<close> is an \<open>int\<close>.\<close>

definition is_number :: "json \<Rightarrow> bool" where
  "is_number v \<longleftrightarrow> num_of v \<noteq> None"

definition is_bool :: "json \<Rightarrow> bool" where
  "is_bool v = (case v of JBool _ \<Rightarrow> True | _ \<Rightarrow> False)"

text \<open>The conversion of a number to \<open>float\<close>: an \<open>int\<close> is rounded, and raises when it is too large.\<close>

definition float_of_int :: "int \<Rightarrow> pyfloat res" where
  "float_of_int i = (let x = fl (of_int i) in if isfinite x then Inr x else Inl OverflowErr)"

definition to_float :: "json \<Rightarrow> pyfloat res" where
  "to_float v = (case v of JFloat x \<Rightarrow> Inr x | JInt i \<Rightarrow> float_of_int i
     | JBool b \<Rightarrow> Inr (FFin (if b then 1 else 0)) | _ \<Rightarrow> Inl TypeErr)"

text \<open>\<open>float(v)\<close>\<close>

definition float_of :: "json \<Rightarrow> pyfloat res" where
  "float_of v = (case v of JStr s \<Rightarrow> floatR s | _ \<Rightarrow> to_float v)"

text \<open>\<open>math.isfinite(v)\<close>\<close>

definition isfiniteR :: "json \<Rightarrow> bool res" where
  "isfiniteR v = bindR (to_float v) (\<lambda>x. Inr (isfinite x))"

text \<open>\<open>v < c\<close>, \<open>v <= c\<close> and \<open>v > c\<close> for a number \<open>c\<close>: exact on all numbers, \<open>TypeError\<close> on anything else.\<close>

definition cmpR :: "(pyfloat \<Rightarrow> pyfloat \<Rightarrow> bool) \<Rightarrow> json \<Rightarrow> pyfloat \<Rightarrow> bool res" where
  "cmpR f v c = (case num_of v of None \<Rightarrow> Inl TypeErr | Some x \<Rightarrow> Inr (f x c))"

abbreviation ltR :: "json \<Rightarrow> pyfloat \<Rightarrow> bool res" where "ltR \<equiv> cmpR float_lt"

abbreviation leR :: "json \<Rightarrow> pyfloat \<Rightarrow> bool res" where "leR \<equiv> cmpR float_le"

abbreviation gtR :: "json \<Rightarrow> pyfloat \<Rightarrow> bool res" where "gtR \<equiv> cmpR (\<lambda>x c. float_lt c x)"

text \<open>\<open>v * c\<close> for a \<open>float\<close> \<open>c\<close>\<close>

definition mulR :: "json \<Rightarrow> pyfloat \<Rightarrow> pyfloat res" where
  "mulR v c = bindR (to_float v) (\<lambda>x. Inr (float_mul x c))"

definition iscloseR :: "json \<Rightarrow> pyfloat \<Rightarrow> bool res" where
  "iscloseR v c = bindR (to_float v) (\<lambda>x. Inr (float_isclose x c))"

text \<open>\<open>int(v)\<close>\<close>

definition trunc_rat :: "rat \<Rightarrow> int" where
  "trunc_rat r = (if 0 \<le> r then \<lfloor>r\<rfloor> else - \<lfloor>- r\<rfloor>)"

definition int_of :: "json \<Rightarrow> int res" where
  "int_of v = (case v of JInt i \<Rightarrow> Inr i | JBool b \<Rightarrow> Inr (if b then 1 else 0)
     | JFloat x \<Rightarrow> (case x of FFin r \<Rightarrow> Inr (trunc_rat r) | FNaN \<Rightarrow> Inl (ValueErr ''cannot convert float NaN to integer'') | _ \<Rightarrow> Inl OverflowErr)
     | JStr s \<Rightarrow> of_option (ValueErr ''invalid literal for int()'') (int_of_str s) | _ \<Rightarrow> Inl TypeErr)"

text \<open>\<open>x.is_integer()\<close>\<close>

definition is_integer :: "pyfloat \<Rightarrow> bool" where
  "is_integer x = (case x of FFin r \<Rightarrow> of_int \<lfloor>r\<rfloor> = r | _ \<Rightarrow> False)"

text \<open>\<open>s.strip(chars)\<close>\<close>

definition strip_chars :: "string \<Rightarrow> string \<Rightarrow> string" where
  "strip_chars cs s = rev (dropWhile (\<lambda>c. c \<in> set cs) (rev (dropWhile (\<lambda>c. c \<in> set cs) s)))"

subsection \<open>Iteration and conditions\<close>

text \<open>\<open>for x in v\<close>\<close>

definition iter_of :: "json \<Rightarrow> json list res" where
  "iter_of v = (case v of JList vs \<Rightarrow> Inr vs | JObj kvs \<Rightarrow> Inr (map (JStr \<circ> fst) kvs)
     | JStr s \<Rightarrow> Inr (map JStr (chars_of (length s) s)) | _ \<Rightarrow> Inl TypeErr)"

text \<open>\<open>d.get(k, x)\<close>\<close>

definition dget_or :: "json \<Rightarrow> string \<Rightarrow> json \<Rightarrow> json res" where
  "dget_or v k x = (case v of JObj kvs \<Rightarrow> Inr (case map_of kvs k of None \<Rightarrow> x | Some y \<Rightarrow> y) | _ \<Rightarrow> Inl AttributeErr)"

text \<open>\<open>a and b\<close>, and \<open>all(...)\<close> over a list, with conditions that may raise\<close>

definition andR :: "bool res \<Rightarrow> bool res \<Rightarrow> bool res" where
  "andR a b = bindR a (\<lambda>x. if x then b else Inr False)"

definition notR :: "bool res \<Rightarrow> bool res" where
  "notR a = bindR a (\<lambda>x. Inr (\<not> x))"

fun allR :: "('a \<Rightarrow> bool res) \<Rightarrow> 'a list \<Rightarrow> bool res" where
  "allR f [] = Inr True"
| "allR f (x # xs) = andR (f x) (allR f xs)"

fun anyR :: "('a \<Rightarrow> bool res) \<Rightarrow> 'a list \<Rightarrow> bool res" where
  "anyR f [] = Inr False"
| "anyR f (x # xs) = orR (f x) (anyR f xs)"

text \<open>A loop that changes a value and may raise\<close>

fun foldR :: "('a \<Rightarrow> 'b \<Rightarrow> 'b res) \<Rightarrow> 'a list \<Rightarrow> 'b \<Rightarrow> 'b res" where
  "foldR f [] b = Inr b"
| "foldR f (x # xs) b = bindR (f x b) (foldR f xs)"

lemma andR_ok [ok_iff]: "andR a b = Inr True \<longleftrightarrow> a = Inr True \<and> b = Inr True"
  by (auto simp: andR_def ok_iff)

lemma notR_ok [ok_iff]: "notR a = Inr b \<longleftrightarrow> a = Inr (\<not> b)"
  by (auto simp: notR_def ok_iff)

lemma allR_ok: "allR f xs = Inr True \<longleftrightarrow> (\<forall>x \<in> set xs. f x = Inr True)"
  by (induction xs) (auto simp: ok_iff)

lemma anyR_ok: "anyR f xs = Inr False \<longleftrightarrow> (\<forall>x \<in> set xs. f x = Inr False)"
  by (induction xs) (auto simp: ok_iff)

lemma foldR_append: "foldR f (xs @ ys) b = bindR (foldR f xs b) (foldR f ys)"
proof (induction xs arbitrary: b)
  case (Cons x xs)
  show ?case by (cases "f x b") (simp_all add: Cons.IH)
qed simp

lemma list_all2_left: "list_all2 P xs ys \<Longrightarrow> x \<in> set xs \<Longrightarrow> \<exists>y \<in> set ys. P x y"
  by (induction rule: list_all2_induct) auto

lemma list_all2_right: "list_all2 P xs ys \<Longrightarrow> y \<in> set ys \<Longrightarrow> \<exists>x \<in> set xs. P x y"
  by (induction rule: list_all2_induct) auto

text \<open>An invariant of a loop\<close>

lemma foldR_invariant:
  "foldR f xs b = Inr c \<Longrightarrow> I b \<Longrightarrow> (\<And>x b b'. x \<in> set xs \<Longrightarrow> I b \<Longrightarrow> f x b = Inr b' \<Longrightarrow> I b') \<Longrightarrow> I c"
proof (induction xs arbitrary: b)
  case (Cons x xs)
  then show ?case by (auto simp: ok_iff)
qed simp

text \<open>What a computation returns, if it returns\<close>

definition yields :: "('a \<Rightarrow> bool) \<Rightarrow> 'a res \<Rightarrow> bool" where
  "yields P r \<longleftrightarrow> (\<forall>x. r = Inr x \<longrightarrow> P x)"

lemma yields_ret [intro]: "P x \<Longrightarrow> yields P (Inr x)"
  by (simp add: yields_def)

lemma yields_raise [intro, simp]: "yields P (Inl e)"
  by (simp add: yields_def)

lemma yields_bind: "(\<And>x. m = Inr x \<Longrightarrow> yields P (f x)) \<Longrightarrow> yields P (bindR m f)"
  by (auto simp: yields_def bindR_ok)

lemma yields_if: "(b \<Longrightarrow> yields P m) \<Longrightarrow> (\<not> b \<Longrightarrow> yields P n) \<Longrightarrow> yields P (if b then m else n)"
  by simp

lemma yields_foldR: "P b \<Longrightarrow> (\<And>x b. P b \<Longrightarrow> yields P (f x b)) \<Longrightarrow> yields P (foldR f xs b)"
proof (induction xs arbitrary: b)
  case (Cons x xs)
  have "P b'" if "f x b = Inr b'" for b' using Cons.prems(2)[OF Cons.prems(1), of x] that by (simp add: yields_def)
  then show ?case using Cons.IH Cons.prems(2) by (simp add: yields_bind)
qed auto

lemmas yields_rules = yields_bind yields_if yields_foldR

subsection \<open>\<open>statistics.median\<close>\<close>

text \<open>The stable order of numbers by \<open><\<close>. A value that holds anything but numbers makes either the sort or the test of
  the result that follows in the code raise \<open>TypeError\<close>, which is raised here at once.\<close>

fun insert_num :: "json \<Rightarrow> json list \<Rightarrow> json list" where
  "insert_num v [] = [v]"
| "insert_num v (w # ws) =
     (if float_lt (the (num_of w)) (the (num_of v)) then w # insert_num v ws else v # w # ws)"

fun sort_nums :: "json list \<Rightarrow> json list" where
  "sort_nums [] = []"
| "sort_nums (v # vs) = insert_num v (sort_nums vs)"

definition median_odd :: "json list \<Rightarrow> json res" where
  "median_odd vs = (if list_all is_number vs then Inr (sort_nums vs ! (length vs div 2)) else Inl TypeErr)"

end
