(* ===== verification/Py_Search.thy ===== *)
theory Py_Search
  imports Py_Text
begin

text \<open>
  \<open>re.search\<close>, \<open>re.finditer\<close> and \<open>re.findall\<close>: expressions with groups, greedy and lazy repetition of a
  character class, the anchors \<open>^\<close> (multi-line) and \<open>\b\<close>. The matcher lists all matches at a position in the order in
  which a backtracking matcher tries them, so that its first element is the one Python reports.

  A token consumes the bytes of one character: its function gives their number, and zero when the token does not match.
\<close>

datatype sx =
    SEps
  | STok "string \<Rightarrow> nat"
  | SStar bool "string \<Rightarrow> nat"
  | SSeq sx sx
  | SAlt sx sx
  | SGroup string sx
  | SBol
  | SWordB

text \<open>The position in the text: the bytes before it, last one first, and those after it.\<close>

type_synonym spos = "string \<times> string"

type_synonym groups = "(string \<times> string) list"

definition move :: "nat \<Rightarrow> spos \<Rightarrow> spos" where
  "move n p = (rev (take n (snd p)) @ fst p, drop n (snd p))"

text \<open>All numbers of repetitions of a token, most first; the length of the text is enough.\<close>

fun reps :: "nat \<Rightarrow> (string \<Rightarrow> nat) \<Rightarrow> spos \<Rightarrow> spos list" where
  "reps 0 f p = [p]"
| "reps (Suc n) f p = (if f (snd p) = 0 then [p] else reps n f (move (f (snd p)) p) @ [p])"

definition word_byte :: "char \<Rightarrow> bool" where
  "word_byte c \<longleftrightarrow> is_digit c \<or> c = CHR ''_'' \<or> (CHR ''a'' \<le> lower_char c \<and> lower_char c \<le> CHR ''z'')"

definition head_word :: "string \<Rightarrow> bool" where
  "head_word s = (case s of [] \<Rightarrow> False | c # _ \<Rightarrow> word_byte c)"

fun matches :: "sx \<Rightarrow> spos \<Rightarrow> (groups \<times> spos) list" where
  "matches SEps p = [([], p)]"
| "matches (STok f) p = (if f (snd p) = 0 then [] else [([], move (f (snd p)) p)])"
| "matches (SStar greedy f) p =
     map (\<lambda>q. ([], q)) ((if greedy then id else rev) (reps (length (snd p)) f p))"
| "matches (SSeq a b) p =
     concat (map (\<lambda>(g, q). map (\<lambda>(h, r). (g @ h, r)) (matches b q)) (matches a p))"
| "matches (SAlt a b) p = matches a p @ matches b p"
| "matches (SGroup n a) p =
     map (\<lambda>(g, q). ((n, take (length (snd p) - length (snd q)) (snd p)) # g, q)) (matches a p)"
| "matches SBol p = (if fst p = [] \<or> hd (fst p) = CHR 0x0A then [([], p)] else [])"
| "matches SWordB p = (if head_word (fst p) \<noteq> head_word (snd p) then [([], p)] else [])"

text \<open>The first match at or after a position\<close>

fun find_match :: "sx \<Rightarrow> string \<Rightarrow> string \<Rightarrow> (groups \<times> spos) option" where
  "find_match r pre [] = (case matches r (pre, []) of m # _ \<Rightarrow> Some m | [] \<Rightarrow> None)"
| "find_match r pre (c # cs) =
     (case matches r (pre, c # cs) of m # _ \<Rightarrow> Some m | [] \<Rightarrow> find_match r (c # pre) cs)"

definition search :: "sx \<Rightarrow> string \<Rightarrow> groups option" where
  "search r s = map_option fst (find_match r [] s)"

text \<open>The matches one after the other. The expressions of the code consume at least one byte, so that the length of
  the text bounds their number.\<close>

fun find_iter :: "nat \<Rightarrow> sx \<Rightarrow> spos \<Rightarrow> groups list" where
  "find_iter 0 r p = []"
| "find_iter (Suc n) r p = (case find_match r (fst p) (snd p) of None \<Rightarrow> [] | Some (g, q) \<Rightarrow> g # find_iter n r q)"

definition finditer :: "sx \<Rightarrow> string \<Rightarrow> groups list" where
  "finditer r s = find_iter (length s) r ([], s)"

definition grp :: "string \<Rightarrow> groups \<Rightarrow> string" where
  "grp n g = (case map_of g n of None \<Rightarrow> [] | Some t \<Rightarrow> t)"

subsection \<open>Tokens\<close>

definition t_cls :: "(char \<Rightarrow> bool) \<Rightarrow> string \<Rightarrow> nat" where
  "t_cls P s = (case s of [] \<Rightarrow> 0 | c # _ \<Rightarrow> if P c then 1 else 0)"

text \<open>\<open>\s\<close>, and \<open>.\<close> (any character but a newline)\<close>

definition t_space :: "string \<Rightarrow> nat" where
  "t_space s = ws_len s"

definition t_any :: "string \<Rightarrow> nat" where
  "t_any s = (case s of [] \<Rightarrow> 0 | c # _ \<Rightarrow> if c = CHR 0x0A then 0 else length (py_take 1 s))"

definition s_some :: "(string \<Rightarrow> nat) \<Rightarrow> sx" where
  "s_some f = SSeq (STok f) (SStar True f)"

definition s_space :: sx where
  "s_space = SStar True t_space"

definition num_byte :: "char \<Rightarrow> bool" where
  "num_byte c \<longleftrightarrow> is_digit c \<or> c = CHR ''.''"

text \<open>\<open>[0-9.]+\<close> and \<open>\d+\<close>\<close>

definition s_num :: sx where
  "s_num = s_some (t_cls num_byte)"

definition s_digits :: sx where
  "s_digits = s_some (t_cls is_digit)"

text \<open>A literal text, and one matched without regard to case\<close>

fun s_lit :: "string \<Rightarrow> sx" where
  "s_lit [] = SEps"
| "s_lit (c # cs) = SSeq (STok (t_cls ((=) c))) (s_lit cs)"

fun s_word :: "string \<Rightarrow> sx" where
  "s_word [] = SEps"
| "s_word (c # cs) = SSeq (STok (t_cls (\<lambda>d. lower_char d = lower_char c))) (s_word cs)"

fun s_seq :: "sx list \<Rightarrow> sx" where
  "s_seq [] = SEps"
| "s_seq [a] = a"
| "s_seq (a # as) = SSeq a (s_seq as)"

fun s_alts :: "sx list \<Rightarrow> sx" where
  "s_alts [] = SEps"
| "s_alts [a] = a"
| "s_alts (a # as) = SAlt a (s_alts as)"

definition s_opt :: "sx \<Rightarrow> sx" where
  "s_opt a = SAlt a SEps"

subsection \<open>Facts\<close>

text \<open>Every match splits the rest of the text at the position where it ends.\<close>

definition extends :: "spos \<Rightarrow> spos \<Rightarrow> bool" where
  "extends p q \<longleftrightarrow> (\<exists>u. snd p = u @ snd q \<and> fst q = rev u @ fst p)"

lemma extends_refl: "extends p p"
  by (simp add: extends_def)

lemma extends_trans: "extends p q \<Longrightarrow> extends q r \<Longrightarrow> extends p r"
  by (fastforce simp: extends_def)

lemma extends_move: "extends p (move n p)"
  unfolding extends_def move_def by (rule exI[of _ "take n (snd p)"]) simp

lemma reps_extend: "q \<in> set (reps n f p) \<Longrightarrow> extends p q"
  by (induction n f p rule: reps.induct) (auto simp: extends_refl split: if_splits intro: extends_trans[OF extends_move])

lemma matches_extend: "(g, q) \<in> set (matches r p) \<Longrightarrow> extends p q"
proof (induction r arbitrary: p g q)
  case (SSeq a b)
  from SSeq.prems obtain g1 q1 g2 where "(g1, q1) \<in> set (matches a p)" "(g2, q) \<in> set (matches b q1)"
    by auto
  then show ?case using SSeq.IH extends_trans by blast
next
  case (SStar greedy f)
  then show ?case by (auto dest: reps_extend split: if_splits)
qed (auto simp: extends_refl extends_move split: if_splits)

text \<open>A group captures a part of the text.\<close>

lemma matches_groups: "(g, q) \<in> set (matches r p) \<Longrightarrow> (n, t) \<in> set g \<Longrightarrow> \<exists>a b. snd p = a @ t @ b"
proof (induction r arbitrary: p g q)
  case (SSeq a b)
  from SSeq.prems obtain g1 q1 g2 where ab: "(g1, q1) \<in> set (matches a p)" "(g2, q) \<in> set (matches b q1)" "g = g1 @ g2"
    by auto
  obtain u where u: "snd p = u @ snd q1" using matches_extend[OF ab(1)] by (auto simp: extends_def)
  show ?case
  proof (cases "(n, t) \<in> set g1")
    case True
    then show ?thesis using SSeq.IH(1)[OF ab(1)] by blast
  next
    case False
    then obtain c d where "snd q1 = c @ t @ d" using SSeq.IH(2)[OF ab(2)] SSeq.prems(2) ab(3) by auto
    then have "snd p = (u @ c) @ t @ d" using u by simp
    then show ?thesis by blast
  qed
next
  case (SGroup m a)
  from SGroup.prems obtain g1 where a: "(g1, q) \<in> set (matches a p)"
    "g = (m, take (length (snd p) - length (snd q)) (snd p)) # g1" by auto
  show ?case
  proof (cases "(n, t) \<in> set g1")
    case True
    then show ?thesis using SGroup.IH[OF a(1)] by blast
  next
    case False
    then have "t = take (length (snd p) - length (snd q)) (snd p)" using a(2) SGroup.prems(2) by auto
    then show ?thesis by (metis append_Nil append_take_drop_id)
  qed
qed (auto split: if_splits)

end
