(* ===== verification/Bench_Gate.thy ===== *)
theory Bench_Gate
  imports Py_Num Py_Search Py_Proc "HOL-Library.AList"
begin

text \<open>
  \<open>tool/py/odbc_benchmark_gate.py\<close>: the scenarios in the output of the native ODBC benchmarks, and the gates
  on fallbacks, columnar speedup and streaming speedup. The result of a gate is its exit code; a
  \<open>SystemExit\<close> is \<open>ExitCode\<close>. The explanations printed on standard error are left out. An integer of more than 4300
  digits counts as a JSON error.
\<close>

subsection \<open>Scenarios\<close>

text \<open>The fields that the code takes from JSON without a check keep their JSON type.\<close>

record AsyncBenchmarkScenario =
  as_label :: json
  as_duration_ms :: pyfloat
  as_encoding :: json
  as_fallbacks :: int

record StreamingBenchmarkScenario =
  st_label :: json
  st_rows_per_second :: pyfloat

definition rx_async_scenario :: sx where
  "rx_async_scenario = s_seq [SBol, SGroup ''label'' (SSeq (STok t_any) (SStar False t_any)), s_lit '': '', SGroup ''ms'' s_num, s_lit '' ms,'',
     SStar False t_any, s_lit ''encoding='', SGroup ''encoding'' (s_some (t_cls (\<lambda>c. CHR ''a'' \<le> lower_char c \<and> lower_char c \<le> CHR ''z''))), s_lit '','',
     SStar False t_any, s_lit ''fallbacks='', SGroup ''fallbacks'' s_digits]"

definition stream_label :: sx where
  "stream_label = SGroup ''label'' (s_alts [s_word ''streamQueryBatched'', s_word ''streamQueryBuffer'', s_word ''streamQuery''])"

definition rx_stream_rows_per_sec :: sx where
  "rx_stream_rows_per_sec = s_seq [stream_label, s_space, s_lit '':'', SStar False t_any, s_word ''rowsPerSecond='', SGroup ''rows_per_sec'' s_num]"

definition rx_stream_rows_fallback :: sx where
  "rx_stream_rows_fallback = s_seq [stream_label, s_space, s_lit '':'', s_space, SGroup ''ms'' s_num, s_space, s_word ''ms,'', s_space,
     s_word ''rows='', SGroup ''rows'' s_digits]"

text \<open>The first line that is the JSON report of a benchmark\<close>

fun first_report :: "string \<Rightarrow> (string \<Rightarrow> string) \<Rightarrow> string list \<Rightarrow> json option" where
  "first_report name clean_line [] = None"
| "first_report name clean_line (line # rest) =
     (case json_loads (clean_line line) of
        Inr (JObj kvs) \<Rightarrow> if (case map_of kvs ''benchmark'' of Some b \<Rightarrow> py_eq b (JStr name) | None \<Rightarrow> False) then Some (JObj kvs)
          else first_report name clean_line rest
      | _ \<Rightarrow> first_report name clean_line rest)"

definition async_row :: "json \<Rightarrow> AsyncBenchmarkScenario res" where
  "async_row row = bindR (item row ''scenario'') (\<lambda>l. bindR (bindR (item row ''elapsed_ms'') float_of) (\<lambda>ms.
     bindR (item row ''encoding'') (\<lambda>e. bindR (bindR (item row ''fallbacks'') int_of) (\<lambda>f.
     Inr \<lparr>as_label = l, as_duration_ms = ms, as_encoding = e, as_fallbacks = f\<rparr>))))"

definition async_match :: "groups \<Rightarrow> AsyncBenchmarkScenario res" where
  "async_match g = bindR (floatR (grp ''ms'' g)) (\<lambda>ms. bindR (int_of (JStr (grp ''fallbacks'' g))) (\<lambda>f.
     Inr \<lparr>as_label = JStr (strip (grp ''label'' g)), as_duration_ms = ms, as_encoding = JStr (grp ''encoding'' g), as_fallbacks = f\<rparr>))"

definition async_text :: "string \<Rightarrow> string" where
  "async_text output = join [CHR 0x0A] (map (\<lambda>line. strip (removeprefix (strip line) ''Shell:'')) (splitlines output))"

definition parse_async_benchmark_scenarios :: "string \<Rightarrow> AsyncBenchmarkScenario list res" where
  "parse_async_benchmark_scenarios output =
     (case first_report ''native_odbc_async'' (\<lambda>line. strip (removeprefix line ''Shell:'')) (splitlines output) of
        Some payload \<Rightarrow> bindR (item payload ''scenarios'') (\<lambda>rows. bindR (iter_of rows) (mapR async_row))
      | None \<Rightarrow> mapR async_match (finditer rx_async_scenario (async_text output)))"

definition rows_per_second_from_match :: "int \<Rightarrow> pyfloat \<Rightarrow> pyfloat res" where
  "rows_per_second_from_match rows elapsed_ms =
     (if float_le elapsed_ms (FFin 0) then Inr (FFin 0)
      else bindR (float_div elapsed_ms (FFin 1000)) (\<lambda>s. bindR (float_of_int rows) (\<lambda>n. float_div n s)))"

definition stream_row :: "json \<Rightarrow> StreamingBenchmarkScenario res" where
  "stream_row row = bindR (item row ''scenario'') (\<lambda>l. bindR (bindR (item row ''rows_per_second'') float_of) (\<lambda>x.
     Inr \<lparr>st_label = l, st_rows_per_second = x\<rparr>))"

text \<open>The dict \<open>by_label\<close>: a repeated label keeps its place and takes the last value.\<close>

definition put_rate :: "groups \<Rightarrow> (string \<times> pyfloat) list \<Rightarrow> (string \<times> pyfloat) list res" where
  "put_rate g d = bindR (floatR (grp ''rows_per_sec'' g)) (\<lambda>x. Inr (AList.update (grp ''label'' g) x d))"

definition put_fallback :: "groups \<Rightarrow> (string \<times> pyfloat) list \<Rightarrow> (string \<times> pyfloat) list res" where
  "put_fallback g d = (if map_of d (grp ''label'' g) \<noteq> None then Inr d
     else bindR (int_of (JStr (grp ''rows'' g))) (\<lambda>rows. bindR (floatR (grp ''ms'' g)) (\<lambda>ms.
       bindR (rows_per_second_from_match rows ms) (\<lambda>x. Inr (AList.update (grp ''label'' g) x d)))))"

definition parse_streaming_benchmark_scenarios :: "string \<Rightarrow> StreamingBenchmarkScenario list res" where
  "parse_streaming_benchmark_scenarios output =
     (case first_report ''native_odbc_streaming'' (\<lambda>line. strip (removeprefix (strip line) ''Shell:'')) (splitlines output) of
        Some payload \<Rightarrow> bindR (item payload ''scenarios'') (\<lambda>rows. bindR (iter_of rows) (mapR stream_row))
      | None \<Rightarrow> bindR (foldR put_rate (finditer rx_stream_rows_per_sec output) []) (\<lambda>d.
          bindR (foldR put_fallback (finditer rx_stream_rows_fallback output) d) (\<lambda>d'.
          Inr (map (\<lambda>(l, x). \<lparr>st_label = JStr l, st_rows_per_second = x\<rparr>) d'))))"

subsection \<open>Gates\<close>

definition benchmark_gates_enabled :: "environ \<Rightarrow> bool" where
  "benchmark_gates_enabled env \<longleftrightarrow> lower (strip (getenv env ''BENCHMARK_ENFORCE_ODBC_GATES'' [])) \<in> {''1'', ''true'', ''yes''}"

definition read_positive_float_env :: "string \<Rightarrow> environ \<Rightarrow> pyfloat option \<Rightarrow> bool \<Rightarrow> pyfloat option res" where
  "read_positive_float_env name env dflt allow_zero = (let raw = strip (getenv env name []) in
     if raw = [] then Inr dflt else
     (case float_of_str raw of None \<Rightarrow> Inl (ExitCode 2)
      | Some v \<Rightarrow> if \<not> isfinite v \<or> float_lt v (FFin 0) \<or> float_eq v (FFin 0) \<and> \<not> allow_zero then Inl (ExitCode 2)
          else Inr (Some v)))"

definition find_async_scenario :: "AsyncBenchmarkScenario list \<Rightarrow> string \<Rightarrow> string \<Rightarrow> AsyncBenchmarkScenario option" where
  "find_async_scenario scenarios label encoding =
     find (\<lambda>s. py_eq (as_label s) (JStr label) \<and> py_eq (as_encoding s) (JStr encoding)) scenarios"

definition columnar_speedup :: "pyfloat \<Rightarrow> pyfloat \<Rightarrow> pyfloat res" where
  "columnar_speedup row_major_ms encoding_ms =
     (if float_le encoding_ms (FFin 0) then Inr (FFin 0) else float_div row_major_ms encoding_ms)"

text \<open>The largest allowed number of fallbacks\<close>

definition fallbacks_max :: "environ \<Rightarrow> int res" where
  "fallbacks_max env =
     (if benchmark_gates_enabled env \<or> strip (getenv env ''BENCHMARK_ODBC_FALLBACKS_MAX'' []) \<noteq> [] then
        bindR (read_positive_float_env ''BENCHMARK_ODBC_FALLBACKS_MAX'' env (Some (FFin 0)) True) (\<lambda>m.
          let maximum = (case m of Some x \<Rightarrow> x | None \<Rightarrow> FFin 0) in
          if \<not> is_integer maximum then Inl (ExitCode 2) else int_of (JFloat maximum))
      else Inr 0)"

text \<open>The speedups of the columnar encodings that were measured\<close>

definition speedups_of :: "AsyncBenchmarkScenario list \<Rightarrow> pyfloat \<Rightarrow> pyfloat list res" where
  "speedups_of scenarios row_ms = mapR (\<lambda>s. columnar_speedup row_ms (as_duration_ms s))
     ((case find_async_scenario scenarios ''workerCount=4 columnar'' ''columnar'' of None \<Rightarrow> [] | Some s \<Rightarrow> [s]) @
      (case find_async_scenario scenarios ''workerCount=4 columnar compressed'' ''columnarCompressed'' of None \<Rightarrow> [] | Some s \<Rightarrow> [s]))"

text \<open>\<open>max\<close>: the first of the largest\<close>

fun float_max :: "pyfloat \<Rightarrow> pyfloat list \<Rightarrow> pyfloat" where
  "float_max x [] = x"
| "float_max x (y # ys) = float_max (if float_lt x y then y else x) ys"

definition columnar_gate :: "bool \<Rightarrow> AsyncBenchmarkScenario list \<Rightarrow> pyfloat \<Rightarrow> int res" where
  "columnar_gate gates scenarios min_speedup =
     (case find_async_scenario scenarios ''workerCount=4'' ''rowMajor'' of None \<Rightarrow> Inr (if gates then 3 else 2)
      | Some row_major \<Rightarrow> bindR (speedups_of scenarios (as_duration_ms row_major)) (\<lambda>speedups.
          case speedups of [] \<Rightarrow> Inr (if gates then 3 else 2)
          | x # xs \<Rightarrow> Inr (if float_lt (float_max x xs) min_speedup then 3 else 0)))"

definition enforce_async_benchmark_gates :: "environ \<Rightarrow> string \<Rightarrow> int res" where
  "enforce_async_benchmark_gates env output = bindR (parse_async_benchmark_scenarios output) (\<lambda>scenarios.
     let gates = benchmark_gates_enabled env in
     if scenarios = [] then Inr (if gates then 3 else 0) else
     bindR (fallbacks_max env) (\<lambda>max_fallbacks.
     if max_fallbacks < sum_list (map as_fallbacks scenarios) then Inr 3 else
     bindR (read_positive_float_env ''BENCHMARK_COLUMNAR_MIN_SPEEDUP'' env (if gates then Some (fl (130 / 100)) else None) False) (\<lambda>m.
     case m of None \<Rightarrow> Inr 0 | Some min_speedup \<Rightarrow> columnar_gate gates scenarios min_speedup)))"

text \<open>\<open>{scenario.label: scenario ...}.get(label)\<close>\<close>

definition last_labelled :: "StreamingBenchmarkScenario list \<Rightarrow> string \<Rightarrow> StreamingBenchmarkScenario option" where
  "last_labelled scenarios label = find (\<lambda>s. py_eq (st_label s) (JStr label)) (rev scenarios)"

definition enforce_streaming_benchmark_gates :: "environ \<Rightarrow> string \<Rightarrow> int res" where
  "enforce_streaming_benchmark_gates env output = bindR (parse_streaming_benchmark_scenarios output) (\<lambda>scenarios.
     if \<not> list_all (hashable \<circ> st_label) scenarios then Inl TypeErr else
     let gates = benchmark_gates_enabled env in
     bindR (read_positive_float_env ''BENCHMARK_STREAMING_MIN_SPEEDUP'' env (if gates then Some (FFin 2) else None) False) (\<lambda>m.
     case m of None \<Rightarrow> Inr 0 | Some min_speedup \<Rightarrow>
       (case ((case last_labelled scenarios ''streamQueryBuffer'' of None \<Rightarrow> last_labelled scenarios ''streamQuery'' | Some s \<Rightarrow> Some s),
              last_labelled scenarios ''streamQueryBatched'') of
          (Some stream, Some batched) \<Rightarrow>
            if float_le (st_rows_per_second stream) (FFin 0) then Inr 3
            else bindR (float_div (st_rows_per_second batched) (st_rows_per_second stream)) (\<lambda>speedup.
              Inr (if float_lt speedup min_speedup then 3 else 0))
        | _ \<Rightarrow> Inr (if gates then 3 else 2))))"

end
