(* ===== verification/Bench_GateSpec.thy ===== *)
theory Bench_GateSpec
  imports Bench_Gate
begin

text \<open>
  The gate of the native asynchronous benchmark: with the gates enabled, exit code 0 means that the scenarios were
  recognised, that the fallbacks are within the limit, and that a columnar encoding is faster by the required factor.
\<close>

text \<open>What the environment asks for: the text of the variable, or the default.\<close>

lemma read_positive_ok:
  assumes "read_positive_float_env name env dflt zero = Inr (Some m)"
  shows "dflt = Some m \<and> strip (getenv env name []) = [] \<or>
    float_of_str (strip (getenv env name [])) = Some m \<and> isfinite m \<and> (float_lt (FFin 0) m \<or> zero \<and> m = FFin 0)"
  using assms by (cases m) (auto simp: read_positive_float_env_def Let_def isfinite_def float_eq_def float_lt_def float_le_def split: if_splits option.splits)

lemma float_max_in: "float_max x xs \<in> set (x # xs)"
  by (induction x xs rule: float_max.induct) auto

lemma find_async_ok: "find_async_scenario ss label enc = Some s \<Longrightarrow> s \<in> set ss \<and> as_label s = JStr label \<and> as_encoding s = JStr enc"
  by (auto simp: find_async_scenario_def find_Some_iff py_eq_str)

definition columnar_kinds :: "(string \<times> string) list" where
  "columnar_kinds = [(''workerCount=4 columnar'', ''columnar''), (''workerCount=4 columnar compressed'', ''columnarCompressed'')]"

lemma columnar_gate_ok:
  assumes "columnar_gate True ss m = Inr 0"
  obtains row enc l e x where "row \<in> set ss" "as_label row = JStr ''workerCount=4''" "as_encoding row = JStr ''rowMajor''"
    "enc \<in> set ss" "(l, e) \<in> set columnar_kinds" "as_label enc = JStr l" "as_encoding enc = JStr e"
    "columnar_speedup (as_duration_ms row) (as_duration_ms enc) = Inr x" "\<not> float_lt x m"
proof -
  obtain row where row: "find_async_scenario ss ''workerCount=4'' ''rowMajor'' = Some row"
    using assms by (cases "find_async_scenario ss ''workerCount=4'' ''rowMajor''") (auto simp: columnar_gate_def)
  obtain xs where sp: "speedups_of ss (as_duration_ms row) = Inr xs" using assms by (auto simp: columnar_gate_def row bindR_ok)
  have xs: "xs \<noteq> []" "\<not> float_lt (float_max (hd xs) (tl xs)) m" using assms by (cases xs; auto simp: columnar_gate_def row sp split: if_splits)+
  let ?es = "(case find_async_scenario ss ''workerCount=4 columnar'' ''columnar'' of None \<Rightarrow> [] | Some s \<Rightarrow> [s]) @
      (case find_async_scenario ss ''workerCount=4 columnar compressed'' ''columnarCompressed'' of None \<Rightarrow> [] | Some s \<Rightarrow> [s])"
  have x: "float_max (hd xs) (tl xs) \<in> set xs" using float_max_in[of "hd xs" "tl xs"] xs(1) by simp
  have "list_all2 (\<lambda>s x. columnar_speedup (as_duration_ms row) (as_duration_ms s) = Inr x) ?es xs"
    using sp by (simp only: speedups_of_def mapR_ok)
  then obtain enc where enc: "enc \<in> set ?es" "columnar_speedup (as_duration_ms row) (as_duration_ms enc) = Inr (float_max (hd xs) (tl xs))"
    using list_all2_right[OF _ x] by blast
  have "find_async_scenario ss ''workerCount=4 columnar'' ''columnar'' = Some enc \<or>
      find_async_scenario ss ''workerCount=4 columnar compressed'' ''columnarCompressed'' = Some enc"
    using enc(1) by (auto split: option.splits)
  then have "\<exists>l e. (l, e) \<in> set columnar_kinds \<and> find_async_scenario ss l e = Some enc"
    by (metis columnar_kinds_def list.set_intros(1) list.set_intros(2))
  then obtain l e where le: "(l, e) \<in> set columnar_kinds" "find_async_scenario ss l e = Some enc" by blast
  show thesis
    using that[of row enc l e "float_max (hd xs) (tl xs)"] find_async_ok[OF row] find_async_ok[OF le(2)] le(1) enc(2) xs(2) by blast
qed

lemma async_gate_ok:
  assumes "enforce_async_benchmark_gates env output = Inr 0" "benchmark_gates_enabled env"
  obtains ss k m where "parse_async_benchmark_scenarios output = Inr ss" "fallbacks_max env = Inr k" "sum_list (map as_fallbacks ss) \<le> k"
    "read_positive_float_env ''BENCHMARK_COLUMNAR_MIN_SPEEDUP'' env (Some (fl (130 / 100))) False = Inr (Some m)" "columnar_gate True ss m = Inr 0"
proof -
  from assms obtain ss where ss: "parse_async_benchmark_scenarios output = Inr ss" "ss \<noteq> []"
    by (cases "parse_async_benchmark_scenarios output") (auto simp: enforce_async_benchmark_gates_def Let_def split: if_splits)
  obtain k where k: "fallbacks_max env = Inr k" "sum_list (map as_fallbacks ss) \<le> k"
    using assms ss by (cases "fallbacks_max env") (auto simp: enforce_async_benchmark_gates_def Let_def split: if_splits)
  let ?read = "read_positive_float_env ''BENCHMARK_COLUMNAR_MIN_SPEEDUP'' env (Some (fl (130 / 100))) False"
  have r: "bindR ?read (\<lambda>m. case m of None \<Rightarrow> Inr 0 | Some x \<Rightarrow> columnar_gate True ss x) = Inr 0"
    using assms ss k by (simp add: enforce_async_benchmark_gates_def)
  obtain m where m: "?read = Inr (Some m)"
    using r by (cases ?read) (auto simp: read_positive_float_env_def Let_def split: if_splits option.splits)
  show thesis using that[OF ss(1) k m] r[unfolded m] by simp
qed

text \<open>
  C30. With the gates enabled, exit code 0 of the asynchronous gate means: the fallbacks of all recognised scenarios
  together are within the configured maximum, and there are a row-major and a columnar (or compressed columnar)
  scenario with four workers whose speedup is not below the configured minimum, which is positive and by default 1.30.
\<close>

theorem async_gate_sound:
  assumes "enforce_async_benchmark_gates env output = Inr 0" "benchmark_gates_enabled env"
  shows "\<exists>ss k m row enc l e x.
    parse_async_benchmark_scenarios output = Inr ss \<and> fallbacks_max env = Inr k \<and> sum_list (map as_fallbacks ss) \<le> k
    \<and> (m = fl (130 / 100) \<and> strip (getenv env ''BENCHMARK_COLUMNAR_MIN_SPEEDUP'' []) = [] \<or>
       float_of_str (strip (getenv env ''BENCHMARK_COLUMNAR_MIN_SPEEDUP'' [])) = Some m \<and> isfinite m \<and> float_lt (FFin 0) m)
    \<and> row \<in> set ss \<and> as_label row = JStr ''workerCount=4'' \<and> as_encoding row = JStr ''rowMajor''
    \<and> enc \<in> set ss \<and> (l, e) \<in> {(''workerCount=4 columnar'', ''columnar''), (''workerCount=4 columnar compressed'', ''columnarCompressed'')}
    \<and> as_label enc = JStr l \<and> as_encoding enc = JStr e
    \<and> columnar_speedup (as_duration_ms row) (as_duration_ms enc) = Inr x \<and> \<not> float_lt x m"
proof -
  obtain ss k m where g: "parse_async_benchmark_scenarios output = Inr ss" "fallbacks_max env = Inr k" "sum_list (map as_fallbacks ss) \<le> k"
    "read_positive_float_env ''BENCHMARK_COLUMNAR_MIN_SPEEDUP'' env (Some (fl (130 / 100))) False = Inr (Some m)" "columnar_gate True ss m = Inr 0"
    using async_gate_ok[OF assms] .
  obtain row enc l e x where c: "row \<in> set ss" "as_label row = JStr ''workerCount=4''" "as_encoding row = JStr ''rowMajor''"
    "enc \<in> set ss" "(l, e) \<in> set columnar_kinds" "as_label enc = JStr l" "as_encoding enc = JStr e"
    "columnar_speedup (as_duration_ms row) (as_duration_ms enc) = Inr x" "\<not> float_lt x m"
    using columnar_gate_ok[OF g(5)] .
  have kinds: "(l, e) \<in> {(''workerCount=4 columnar'', ''columnar''), (''workerCount=4 columnar compressed'', ''columnarCompressed'')}"
    using c(5) by (simp add: columnar_kinds_def)
  show ?thesis using g(1-3) read_positive_ok[OF g(4)] c kinds by blast
qed

definition demo_gate_env :: environ where
  "demo_gate_env = [''BENCHMARK_ENFORCE_ODBC_GATES'' \<mapsto> ''1'', ''BENCHMARK_COLUMNAR_MIN_SPEEDUP'' \<mapsto> ''2'']"

definition demo_gate_output :: string where
  "demo_gate_output = ''workerCount=4: 4 ms, encoding=rowMajor, fallbacks=0'' @ [CHR 0x0A] @ ''workerCount=4 columnar: 2 ms, encoding=columnar, fallbacks=0''"

lemma demo_gate_scenarios: "parse_async_benchmark_scenarios demo_gate_output = Inr
    [\<lparr>as_label = JStr ''workerCount=4'', as_duration_ms = FFin 4, as_encoding = JStr ''rowMajor'', as_fallbacks = 0\<rparr>,
     \<lparr>as_label = JStr ''workerCount=4 columnar'', as_duration_ms = FFin 2, as_encoding = JStr ''columnar'', as_fallbacks = 0\<rparr>]"
  by code_simp

lemma demo_gate_settings: "benchmark_gates_enabled demo_gate_env" "fallbacks_max demo_gate_env = Inr 0"
  "read_positive_float_env ''BENCHMARK_COLUMNAR_MIN_SPEEDUP'' demo_gate_env d False = Inr (Some (FFin 2))"
  by code_simp+

lemma demo_gate_passes: "enforce_async_benchmark_gates demo_gate_env demo_gate_output = Inr 0"
proof -
  have "columnar_gate True
    [\<lparr>as_label = JStr ''workerCount=4'', as_duration_ms = FFin 4, as_encoding = JStr ''rowMajor'', as_fallbacks = 0\<rparr>,
     \<lparr>as_label = JStr ''workerCount=4 columnar'', as_duration_ms = FFin 2, as_encoding = JStr ''columnar'', as_fallbacks = 0\<rparr>] (FFin 2) = Inr 0"
    by code_simp
  then show ?thesis by (simp add: enforce_async_benchmark_gates_def demo_gate_scenarios demo_gate_settings)
qed

theorem async_gate_sound_witness:
  "\<exists>ss k. parse_async_benchmark_scenarios demo_gate_output = Inr ss \<and> fallbacks_max demo_gate_env = Inr k \<and> sum_list (map as_fallbacks ss) \<le> k"
  using async_gate_sound[OF demo_gate_passes demo_gate_settings(1)] by blast

end
