(* ===== verification/Bench_Metrics.thy ===== *)
theory Bench_Metrics
  imports Bench_Gate Script_Utils Py_JsonOut
begin

text \<open>
  The metrics of \<open>tool/py/benchmark_common.py\<close>: how they are read from the output of the benchmarks, their
  metadata, the summaries that hold them, and the acceptance of a native report and of a controlled comparison.
  A dict of metrics is a list of items in insertion order. The sums are those of Python 3.11, which
  the workflows of the repository use.
\<close>

type_synonym dict = "(string \<times> json) list"

definition put_float :: "string \<Rightarrow> pyfloat \<Rightarrow> dict \<Rightarrow> dict" where
  "put_float k x d = dict_put k (JFloat x) d"

text \<open>\<open>if isinstance(value, (int, float)): metrics[key] = float(value)\<close>\<close>

definition put_number :: "string \<Rightarrow> json \<Rightarrow> dict \<Rightarrow> dict res" where
  "put_number k v d = (if is_number v then bindR (to_float v) (\<lambda>x. Inr (put_float k x d)) else Inr d)"

definition field :: "dict \<Rightarrow> string \<Rightarrow> json" where
  "field kvs k = (case map_of kvs k of None \<Rightarrow> JNull | Some v \<Rightarrow> v)"

definition field_or :: "dict \<Rightarrow> string \<Rightarrow> json \<Rightarrow> json" where
  "field_or kvs k x = (case map_of kvs k of None \<Rightarrow> x | Some v \<Rightarrow> v)"

subsection \<open>Lines\<close>

definition strip_shell_log_prefix :: "string \<Rightarrow> string" where
  "strip_shell_log_prefix line = (let c = strip line in if startswith c ''Shell:'' then strip (drop 6 c) else c)"

definition is_dart_ffi_compile_failure :: "int \<Rightarrow> string \<Rightarrow> bool" where
  "is_dart_ffi_compile_failure code output \<longleftrightarrow>
     code = 252 \<or> contains output ''InvalidType'' \<or> contains output ''_FfiUseSiteTransformer''"

text \<open>The cells of a row of a Markdown table\<close>

definition table_cells :: "string \<Rightarrow> string list" where
  "table_cells c = map strip (split_on ''|'' (strip_chars ''|'' c))"

definition is_table_row :: "string \<Rightarrow> bool" where
  "is_table_row c \<longleftrightarrow> startswith c ''|'' \<and> \<not> startswith c ''| ---''"

subsection \<open>Transport metrics\<close>

definition timing_group :: "string \<Rightarrow> sx" where
  "timing_group n = SGroup n (SSeq s_num (s_opt (SAlt (s_lit ''ms'') (s_lit ''us''))))"

definition rx_timing_triple :: sx where
  "rx_timing_triple = s_seq [timing_group ''p50'', s_space, s_lit ''/'', s_space, timing_group ''p95'', s_space, s_lit ''/'', s_space, timing_group ''p99'']"

definition timing_to_micros :: "string \<Rightarrow> pyfloat res" where
  "timing_to_micros v = (let t = lower (strip v); number = take (length t - 2) t in
     if endswith t ''ms'' then bindR (floatR number) (\<lambda>x. Inr (float_mul x (FFin 1000)))
     else if endswith t ''us'' then floatR number
     else bindR (floatR t) (\<lambda>x. Inr (float_mul x (FFin 1000))))"

definition put_timings :: "string \<Rightarrow> string \<Rightarrow> dict \<Rightarrow> dict res" where
  "put_timings prefix cell d = (case search rx_timing_triple cell of None \<Rightarrow> Inr d
     | Some g \<Rightarrow> foldR (\<lambda>p d. bindR (timing_to_micros (grp p g)) (\<lambda>x. Inr (put_float (prefix @ p @ ''_us'') x d))) [''p50'', ''p95'', ''p99''] d)"

definition bool_str :: "bool \<Rightarrow> string" where
  "bool_str b = (if b then ''True'' else ''False'')"

definition scenario_prefix :: "string \<Rightarrow> string \<Rightarrow> string \<Rightarrow> bool \<Rightarrow> string" where
  "scenario_prefix scen path mode is_signed = scen @ ''.'' @ path @ ''.'' @ mode @ ''.signed_'' @ bool_str is_signed"

definition transport_row :: "string list \<Rightarrow> dict \<Rightarrow> dict res" where
  "transport_row parts d = (let prefix = scenario_prefix (parts ! 0) (parts ! 1) (parts ! 2) (lower (parts ! 3) = ''true'') in
     bindR (put_timings (prefix @ ''.send_'') (parts ! 8) d) (\<lambda>d1.
     bindR (put_timings (prefix @ ''.receive_'') (parts ! 9) d1) (\<lambda>d2.
     if 10 < length parts \<and> parts ! 10 \<noteq> [] \<and> list_all is_digit (parts ! 10)
     then bindR (floatR (parts ! 10)) (\<lambda>x. Inr (put_float (prefix @ ''.isolate_operations'') x d2)) else Inr d2)))"

definition transport_line :: "string \<Rightarrow> dict \<Rightarrow> dict res" where
  "transport_line line d = (let c = strip_shell_log_prefix line; parts = table_cells c in
     if \<not> is_table_row c \<or> contains (lower c) ''case |'' \<or> contains (lower c) ''send p50'' \<or> length parts < 10 then Inr d
     else transport_row parts d)"

definition parse_transport_markdown_metrics :: "string \<Rightarrow> dict res" where
  "parse_transport_markdown_metrics output = foldR transport_line (splitlines output) []"

definition transport_keys :: "string list" where
  "transport_keys = [''send_p50_us'', ''send_p95_us'', ''send_p99_us'', ''receive_p50_us'', ''receive_p95_us'', ''receive_p99_us'',
     ''isolate_operations'', ''wire_bytes'', ''original_bytes'', ''bytes_saved'']"

definition transport_result :: "string \<Rightarrow> json \<Rightarrow> dict \<Rightarrow> dict res" where
  "transport_result path v d = (case v of JObj kvs \<Rightarrow>
       (let prefix = scenario_prefix (str_json (field_or kvs ''case'' (JStr ''unknown''))) path
          (str_json (field_or kvs ''requested_compression'' (JStr ''unknown''))) (truthy (field kvs ''signed'')) in
        foldR (\<lambda>k. put_number (prefix @ ''.'' @ k) (field kvs k)) transport_keys d)
     | _ \<Rightarrow> Inr d)"

definition parse_transport_json_metrics :: "json \<Rightarrow> dict res" where
  "parse_transport_json_metrics payload = bindR (dget_or payload ''path'' (JStr ''unknown'')) (\<lambda>p.
     bindR (dget_or payload ''results'' (JList [])) (\<lambda>rs. bindR (iter_of rs) (\<lambda>vs. foldR (transport_result (str_json p)) vs [])))"

subsection \<open>Reports in JSON\<close>

text \<open>The last line that is a JSON object\<close>

fun find_object :: "string list \<Rightarrow> dict option" where
  "find_object [] = None"
| "find_object (line # rest) = (let c = strip_shell_log_prefix line in
     if \<not> startswith c ''{'' then find_object rest
     else (case json_loads c of Inr (JObj kvs) \<Rightarrow> Some kvs | _ \<Rightarrow> find_object rest))"

definition extract_json_object_from_output :: "string \<Rightarrow> dict option" where
  "extract_json_object_from_output output = find_object (rev (splitlines output))"

definition parse_metric_cell :: "string \<Rightarrow> pyfloat option" where
  "parse_metric_cell v = (let t = strip v in if t = [] \<or> t = ''-'' then None else float_of_str (replace_str '','' [] t))"

definition put_cell :: "string \<Rightarrow> nat \<Rightarrow> string list \<Rightarrow> dict \<Rightarrow> dict" where
  "put_cell k i parts d = (if length parts \<le> i then d else
     (case parse_metric_cell (parts ! i) of None \<Rightarrow> d | Some x \<Rightarrow> put_float k x d))"

definition stack_keys :: "string list" where
  "stack_keys = [''median_us'', ''p95_us'', ''speedup'', ''rows_per_sec'']"

definition stack_json_row :: "json \<Rightarrow> dict \<Rightarrow> dict res" where
  "stack_json_row v d = (case v of JObj kvs \<Rightarrow>
       (case (field kvs ''scenario'', field kvs ''variant'') of
          (JStr s, JStr t) \<Rightarrow> foldR (\<lambda>k. put_number (s @ ''.'' @ t @ ''.'' @ k) (field kvs k)) stack_keys d
        | _ \<Rightarrow> Inr d)
     | _ \<Rightarrow> Inr d)"

definition stack_table_row :: "string list \<Rightarrow> dict \<Rightarrow> dict" where
  "stack_table_row parts d = (let prefix = parts ! 0 @ ''.'' @ parts ! 1 @ ''.'' in
     put_cell (prefix @ ''rows_per_sec'') 6 parts (put_cell (prefix @ ''speedup'') 5 parts
       (put_cell (prefix @ ''p95_us'') 4 parts (put_cell (prefix @ ''median_us'') 3 parts d))))"

definition stack_start :: string where
  "stack_start = ''{'' @ [CHR 0x22] @ ''benchmark'' @ [CHR 0x22] @ '':'' @ [CHR 0x22] @ ''plug_agente_stack'' @ [CHR 0x22]"

definition stack_line :: "string \<Rightarrow> dict \<Rightarrow> dict res" where
  "stack_line line d = (let c = strip_shell_log_prefix line; parts = table_cells c in
     if startswith c stack_start then
       (case json_loads c of Inl _ \<Rightarrow> Inr d
        | Inr payload \<Rightarrow> bindR (dget_or payload ''rows'' (JList [])) (\<lambda>rs. bindR (iter_of rs) (\<lambda>vs. foldR stack_json_row vs d)))
     else if \<not> is_table_row c \<or> contains (lower c) ''scenario |'' \<or> length parts < 4 then Inr d
     else Inr (stack_table_row parts d))"

definition parse_plug_agente_stack_metrics :: "string \<Rightarrow> dict res" where
  "parse_plug_agente_stack_metrics output = foldR stack_line (splitlines output) []"

definition gateway_scenario :: "json \<Rightarrow> dict \<Rightarrow> dict res" where
  "gateway_scenario v d = (case v of JObj kvs \<Rightarrow>
       (case field kvs ''scenario'' of
          JStr name \<Rightarrow> if is_number (field kvs ''median_us'') then
              bindR (put_number (''median_us_'' @ name) (field kvs ''median_us'') d)
                (foldR (\<lambda>k. put_number (name @ ''.'' @ k) (field kvs k)) [''rows'', ''iterations''])
            else Inr d
        | _ \<Rightarrow> Inr d)
     | _ \<Rightarrow> Inr d)"

definition parse_gateway_encoding_metrics :: "string \<Rightarrow> dict res" where
  "parse_gateway_encoding_metrics output = (case extract_json_object_from_output output of None \<Rightarrow> Inr []
     | Some payload \<Rightarrow> bindR (iter_of (field_or payload ''scenarios'' (JList []))) (\<lambda>vs. foldR gateway_scenario vs []))"

subsection \<open>ODBC metrics\<close>

text \<open>The patterns, all without regard to case; the number is the group \<open>v\<close>.\<close>

definition s_value :: sx where
  "s_value = SGroup ''v'' s_num"

definition s_colon :: sx where
  "s_colon = STok (t_cls (\<lambda>c. c = CHR '':'' \<or> c = CHR ''=''))"

definition rate_pattern :: "string \<Rightarrow> sx" where
  "rate_pattern u = s_seq [s_value, s_some t_space, s_word u]"

definition percentile_pattern :: "string \<Rightarrow> sx" where
  "percentile_pattern p = s_seq [s_word p, s_space, s_colon, s_space, s_value, s_space, s_word ''ms'']"

definition odbc_patterns :: "(string \<times> sx) list" where
  "odbc_patterns = [
     (''wall_ms'', s_seq [SAlt (s_word ''wall'') (s_word ''total''), s_space, s_opt (s_word ''time''), s_space, s_colon, s_space, s_value, s_space, s_word ''ms'']),
     (''ops_per_sec'', rate_pattern ''ops/s''),
     (''rows_per_sec'', rate_pattern ''rows/s''),
     (''throughput_mbps'', rate_pattern ''MB/s''),
     (''p50_ms'', percentile_pattern ''p50''),
     (''p95_ms'', percentile_pattern ''p95''),
     (''p99_ms'', percentile_pattern ''p99'')]"

definition put_average :: "string \<times> sx \<Rightarrow> string \<Rightarrow> dict \<Rightarrow> dict res" where
  "put_average np output d = bindR (mapR (\<lambda>g. floatR (grp ''v'' g)) (finditer (snd np) output)) (\<lambda>values.
     case values of [] \<Rightarrow> Inr d
     | x # xs \<Rightarrow> bindR (float_div (foldl float_add (FFin 0) values) (fl (of_nat (length values)))) (\<lambda>avg.
         let d1 = put_float (fst np) avg d in
         Inr (if xs = [] then d1 else put_float (fst np @ ''_max'') (float_max x xs) d1)))"

text \<open>The numbers of a scenario, without its booleans\<close>

definition put_scenario :: "json \<Rightarrow> dict \<Rightarrow> dict res" where
  "put_scenario v d = (case v of JObj kvs \<Rightarrow>
       (case field kvs ''scenario'' of
          JStr name \<Rightarrow> foldR (\<lambda>(k, x). if is_bool x then Inr else put_number (name @ ''.'' @ k) x) kvs d
        | _ \<Rightarrow> Inr d)
     | _ \<Rightarrow> Inl AttributeErr)"

definition put_scenarios :: "dict \<Rightarrow> dict \<Rightarrow> dict res" where
  "put_scenarios payload d = bindR (iter_of (field_or payload ''scenarios'' (JList []))) (\<lambda>vs. foldR put_scenario vs d)"

definition line_fields :: "(string \<times> string) list" where
  "line_fields = [(''workers'', ''workers''), (''poolSize'', ''pool_size''), (''maxInFlight'', ''max_in_flight''), (''units'', ''units''),
     (''routed'', ''routed''), (''timeouts'', ''timeouts'')]"

text \<open>The text of a label: \<open>f"{label}"\<close>; concatenation with a label that is not a text raises.\<close>

definition put_line_fields :: "string \<Rightarrow> string \<Rightarrow> dict \<Rightarrow> dict res" where
  "put_line_fields prefix line d = foldR (\<lambda>(source, target) d.
     case search (s_seq [SWordB, s_lit (source @ ''=''), SGroup ''v'' s_digits]) line of None \<Rightarrow> Inr d
     | Some g \<Rightarrow> bindR (floatR (grp ''v'' g)) (\<lambda>x. Inr (put_float (prefix @ ''.'' @ target) x d))) line_fields d"

definition put_async_scenario :: "string \<Rightarrow> AsyncBenchmarkScenario \<Rightarrow> dict \<Rightarrow> dict res" where
  "put_async_scenario output s d = (let prefix = str_json (as_label s) @ ''.'' @ str_json (as_encoding s) in
     bindR (float_of_int (as_fallbacks s)) (\<lambda>f.
     let d1 = put_float (prefix @ ''.fallbacks'') f (put_float (prefix @ ''.elapsed_ms'') (as_duration_ms s) d);
       ls = map strip_shell_log_prefix (splitlines output) in
     if ls = [] then put_line_fields prefix [] d1 else
     bindR (str_of (as_label s)) (\<lambda>label.
     put_line_fields prefix (case find (\<lambda>l. startswith l (label @ '':'')) ls of None \<Rightarrow> [] | Some l \<Rightarrow> l) d1)))"

definition is_report :: "string \<Rightarrow> dict option \<Rightarrow> bool" where
  "is_report name payload = (case payload of None \<Rightarrow> False | Some kvs \<Rightarrow> py_eq (field kvs ''benchmark'') (JStr name))"

definition parse_odbc_benchmark_metrics :: "string \<Rightarrow> dict res" where
  "parse_odbc_benchmark_metrics output = bindR (foldR (\<lambda>np. put_average np output) odbc_patterns []) (\<lambda>d.
     let payload = extract_json_object_from_output output in
     if is_report ''native_odbc_async'' payload then put_scenarios (the payload) d
     else bindR (parse_async_benchmark_scenarios output) (\<lambda>ss. foldR (put_async_scenario output) ss d))"

definition rx_streaming_result :: sx where
  "rx_streaming_result = s_seq [stream_label, s_lit '':'', s_space, SGroup ''elapsed_ms'' s_num, s_space, s_word ''ms,'', s_space,
     s_word ''rows='', SGroup ''rows'' s_digits, s_lit '','', s_space, s_word ''chunks='', SGroup ''chunks'' s_digits, s_lit '','', s_space,
     s_word ''rowsPerSecond='', SGroup ''rows_per_second'' s_num, s_lit '','', s_space,
     s_word ''fetchSize='', SGroup ''fetch_size'' s_digits, s_lit '','', s_space, s_word ''chunkSize='', SGroup ''chunk_size'' s_digits]"

definition put_stream_match :: "groups \<Rightarrow> dict \<Rightarrow> dict res" where
  "put_stream_match g d = foldR (\<lambda>k d. bindR (floatR (grp k g)) (\<lambda>x. Inr (put_float (grp ''label'' g @ ''.'' @ k) x d)))
     [''elapsed_ms'', ''rows'', ''chunks'', ''rows_per_second'', ''fetch_size'', ''chunk_size''] d"

definition parse_odbc_streaming_benchmark_metrics :: "string \<Rightarrow> dict res" where
  "parse_odbc_streaming_benchmark_metrics output = (let payload = extract_json_object_from_output output in
     if is_report ''native_odbc_streaming'' payload then put_scenarios (the payload) []
     else foldR put_stream_match (finditer rx_streaming_result output) [])"

subsection \<open>A valid native report\<close>

definition expected_scenarios :: "string \<Rightarrow> string list" where
  "expected_scenarios mode = (if mode = ''streaming'' then [''streamQueryBuffer'', ''streamQueryBatched'']
     else [''workerCount=1'', ''workerCount=4'', ''workerCount=4 columnar'', ''workerCount=4 columnar compressed'', ''native pool'', ''prepared reuse''])"

definition expected_encoding :: "string \<Rightarrow> string" where
  "expected_encoding scenario = (if endswith scenario ''compressed'' then ''columnarCompressed''
     else if endswith scenario ''columnar'' then ''columnar'' else ''rowMajor'')"

text \<open>The fields of one sample that depend on the mode\<close>

definition async_sample_ok :: "string \<Rightarrow> dict \<Rightarrow> bool" where
  "async_sample_ok scenario kvs \<longleftrightarrow> py_eq (field kvs ''timeouts'') (JInt 0) \<and> py_eq (field kvs ''fallbacks'') (JInt 0) \<and>
     py_eq (field kvs ''encoding'') (JStr (expected_encoding scenario)) \<and> py_eq (field kvs ''actual_encoding'') (JStr (expected_encoding scenario))"

definition stream_sample_ok :: "string \<Rightarrow> dict \<Rightarrow> bool res" where
  "stream_sample_ok scenario kvs = (let chunks = field kvs ''chunks'' in
     if \<not> (is_int chunks \<or> is_bool chunks) then Inr False else
     andR (notR (leR chunks (FFin 0))) (andR (notR (leR (field_or kvs ''chunk_size'' (JInt 0)) (FFin 0)))
       (if scenario = ''streamQueryBatched'' then notR (leR (field_or kvs ''fetch_size'' (JInt 0)) (FFin 0)) else Inr True)))"

definition sample_ok :: "string \<Rightarrow> string \<Rightarrow> json \<Rightarrow> bool res" where
  "sample_ok mode scenario v = (case v of JObj kvs \<Rightarrow>
       (let elapsed = field kvs ''elapsed_ms'' in
        if \<not> py_eq (field kvs ''rows'') (JInt 8000) \<or> \<not> is_number elapsed then Inr False else
        andR (isfiniteR elapsed) (andR (notR (leR elapsed (FFin 0)))
          (if mode = ''async'' then Inr (async_sample_ok scenario kvs) else stream_sample_ok scenario kvs)))
     | _ \<Rightarrow> Inr False)"

definition native_row_ok :: "string \<Rightarrow> json \<Rightarrow> json \<Rightarrow> bool res" where
  "native_row_ok mode repeats row = bindR (dget row ''samples'') (\<lambda>samples. case samples of
       JList vs \<Rightarrow> if \<not> py_eq (JInt (int (length vs))) repeats then Inr False
         else bindR (bindR (item row ''scenario'') str_of) (\<lambda>s. allR (sample_ok mode s) (row # vs))
     | _ \<Rightarrow> Inr False)"

definition native_header_ok :: "string \<Rightarrow> dict \<Rightarrow> bool" where
  "native_header_ok mode kvs \<longleftrightarrow> kvs \<noteq> [] \<and> py_eq (field kvs ''benchmark'') (JStr (''native_odbc_'' @ mode)) \<and> py_eq (field kvs ''harness_version'') (JInt 2) \<and>
     py_eq (field kvs ''workload'') (JStr ''deterministic_8000_rows_v1'') \<and> py_eq (field kvs ''rows'') (JInt 8000) \<and> py_eq (field kvs ''warmup'') (JInt 1) \<and>
     (py_eq (field kvs ''repeats'') (JInt 3) \<or> py_eq (field kvs ''repeats'') (JInt 9))"

definition valid_native_benchmark_report :: "string \<Rightarrow> string \<Rightarrow> bool res" where
  "valid_native_benchmark_report output mode = (case extract_json_object_from_output output of None \<Rightarrow> Inr False
     | Some kvs \<Rightarrow> if \<not> native_header_ok mode kvs then Inr False else
       (case field_or kvs ''scenarios'' (JList []) of
          JList rows \<Rightarrow>
            if \<not> list_all is_dict rows \<or> length rows \<noteq> length (expected_scenarios mode) then Inr False else
            bindR (mapR (\<lambda>row. dget row ''scenario'') rows) (\<lambda>names.
            if \<not> list_all hashable names then Inl TypeErr
            else if \<not> same_keys (expected_scenarios mode) names then Inr False
            else allR (native_row_ok mode (field kvs ''repeats'')) rows)
        | _ \<Rightarrow> Inr False))"

end
