(* ===== verification/Bench_Summary.thy ===== *)
theory Bench_Summary
  imports Bench_Metrics
begin

text \<open>
  The summaries of \<open>tool/py/benchmark_common.py\<close>: metadata of a metric, comparable suites, the flat view of a summary
  and the acceptance of a controlled comparison.
\<close>

subsection \<open>Metrics\<close>

definition has_any :: "string list \<Rightarrow> string \<Rightarrow> bool" where
  "has_any ts s \<longleftrightarrow> list_ex (contains s) ts"

definition metadata :: "string \<Rightarrow> string \<Rightarrow> string \<Rightarrow> dict" where
  "metadata cat un dir = [(''category'', JStr cat), (''unit'', JStr un), (''direction'', JStr dir)]"

definition metric_metadata :: "string \<Rightarrow> dict" where
  "metric_metadata key = (let s = lower key in
     if s = ''wall_ms'' then metadata ''configuration'' ''ms'' ''none''
     else if endswith s ''_us'' \<or> endswith s ''_ms'' \<or> contains s ''median_us_'' then
       metadata ''latency'' (if contains s ''_us'' then ''us'' else ''ms'') ''lower''
     else if has_any [''rows_per_sec'', ''queries_per_sec'', ''ops_per_sec'', ''throughput'', ''speedup''] s then
       metadata ''throughput'' (if contains s ''speedup'' then ''ratio'' else if contains s ''queries_per_sec'' then ''queries/s''
         else if contains s ''rows_per_sec'' then ''rows/s'' else ''ops/s'') ''higher''
     else if has_any [''heap_growth'', ''rss_peak''] s then metadata ''memory'' ''bytes'' ''lower''
     else metadata (if has_any [''errors'', ''timeouts'', ''fallbacks'', ''chunks'', ''routed'', ''completed_requests'', ''failed_requests''] s
         then ''counter'' else ''configuration'')
       (if endswith s ''_bytes'' \<or> contains s ''chunk_size'' then ''bytes''
        else if endswith s ''.rows'' \<or> s = ''rows'' \<or> contains s ''fetch_size'' then ''rows'' else ''count'') ''none'')"

definition metric_lower_is_better :: "string \<Rightarrow> bool" where
  "metric_lower_is_better key \<longleftrightarrow>
     (if field (metric_metadata key) ''direction'' = JStr ''higher'' then False
      else let s = lower key in
        if endswith s ''_ms'' \<or> endswith s ''_us'' \<or> has_any [''latency'', ''duration'', ''median_us'', ''p50'', ''p95'', ''p99''] s then True
        else if has_any [''rows_per_sec'', ''ops_per_sec'', ''throughput'', ''ops/s'', ''rows/s'', ''speedup''] s then False
        else True)"

subsection \<open>Suites that can be compared\<close>

definition suites_by_id :: "json \<Rightarrow> dict res" where
  "suites_by_id summary = bindR (dget_or summary ''suites'' (JList [])) (\<lambda>v. bindR (iter_of v) (\<lambda>vs.
     Inr (dict_of (concat (map (\<lambda>v. case v of JObj kvs \<Rightarrow> (case field kvs ''id'' of JStr i \<Rightarrow> [(i, v)] | _ \<Rightarrow> []) | _ \<Rightarrow> []) vs)))))"

definition comparison_identity :: "json \<Rightarrow> dict option" where
  "comparison_identity suite = (case suite of JObj kvs \<Rightarrow>
       (case field kvs ''comparison_identity'' of JObj raw \<Rightarrow>
          (let ident = filter (\<lambda>(k, v). case v of JStr s \<Rightarrow> s \<noteq> [] | _ \<Rightarrow> False) raw in if ident = [] then None else Some ident)
        | _ \<Rightarrow> None)
     | _ \<Rightarrow> None)"

definition suite_reason :: "json \<Rightarrow> json \<Rightarrow> json \<Rightarrow> json \<Rightarrow> string option res" where
  "suite_reason baseline current bs cs = (case (comparison_identity bs, comparison_identity cs) of
       (Some b, Some c) \<Rightarrow>
         if \<not> py_eq (JObj b) (JObj c) then Inr (Some ''comparison identity differs'')
         else bindR (dget baseline ''machine'') (\<lambda>m. bindR (dget current ''machine'') (\<lambda>m'.
           Inr (if \<not> py_eq m m' then Some ''machine or SDK differs'' else None)))
     | _ \<Rightarrow> Inr (Some ''missing comparison identity''))"

definition incompatible_benchmark_suite_reasons :: "json \<Rightarrow> json \<Rightarrow> (string \<times> string) list res" where
  "incompatible_benchmark_suite_reasons baseline current = bindR (suites_by_id baseline) (\<lambda>b. bindR (suites_by_id current) (\<lambda>c.
     bindR (mapR (\<lambda>i. bindR (suite_reason baseline current (field b i) (field c i)) (\<lambda>r. Inr (i, r)))
       (sort (filter (\<lambda>i. map_of c i \<noteq> None) (map fst b)))) (\<lambda>rs.
     Inr (concat (map (\<lambda>(i, r). case r of None \<Rightarrow> [] | Some t \<Rightarrow> [(i, t)]) rs)))))"

subsection \<open>The flat view\<close>

definition flatten_metric :: "string \<Rightarrow> dict \<Rightarrow> string \<times> json \<Rightarrow> dict \<Rightarrow> dict res" where
  "flatten_metric suite_id suite kv d = (case kv of (key, v) \<Rightarrow>
     if is_bool v \<or> \<not> is_number v then Inr d else
     bindR (dget_or (field_or suite ''metric_metadata'' (JObj [])) key (JObj (metric_metadata key))) (\<lambda>meta.
     bindR (bindR (dget meta ''category'') (in_strs [''latency'', ''throughput'', ''memory''])) (\<lambda>measured.
     if \<not> measured then Inr d else
     bindR (isfiniteR v) (\<lambda>fin. if fin then put_number (suite_id @ ''.'' @ key) v d else Inr d))))"

definition flatten_suite :: "string list \<Rightarrow> json \<Rightarrow> dict \<Rightarrow> dict res" where
  "flatten_suite excluded suite d = (case suite of JObj kvs \<Rightarrow>
       (let suite_id = str_json (field_or kvs ''id'' (JStr ''unknown'')) in
        if suite_id \<in> set excluded \<or> \<not> py_eq (field_or kvs ''status'' (JStr ''pass'')) (JStr ''pass'') then Inr d
        else (case field kvs ''metrics'' of JObj ms \<Rightarrow> foldR (flatten_metric suite_id kvs) ms d | _ \<Rightarrow> Inr d))
     | _ \<Rightarrow> Inr d)"

definition flatten_suite_metrics :: "json \<Rightarrow> string list \<Rightarrow> dict res" where
  "flatten_suite_metrics summary excluded = bindR (dget_or summary ''suites'' (JList [])) (\<lambda>v. bindR (iter_of v) (\<lambda>vs.
     foldR (flatten_suite excluded) vs []))"

subsection \<open>The controlled comparison\<close>

text \<open>The scenarios that every comparison covers\<close>

type_synonym scen_key = "json \<times> json \<times> json"

definition transport_cases :: "string list" where
  "transport_cases = [''small_sql_repetitive'', ''large_sql_low_compressibility'', ''large_incompressible_blob'']"

definition transport_modes :: "string list" where
  "transport_modes = [''none'', ''auto'', ''gzip'']"

definition expected_keys :: "scen_key list" where
  "expected_keys = concat (map (\<lambda>c. concat (map (\<lambda>m. map (\<lambda>b. (JStr c, JStr m, JBool b)) [False, True]) transport_modes)) transport_cases)"

definition key_eq :: "scen_key \<Rightarrow> scen_key \<Rightarrow> bool" where
  "key_eq a b = (case (a, b) of ((x, y, z), (x', y', z')) \<Rightarrow> py_eq x x' \<and> py_eq y y' \<and> py_eq z z')"

definition key_hashable :: "scen_key \<Rightarrow> bool" where
  "key_hashable a = (case a of (x, y, z) \<Rightarrow> hashable x \<and> hashable y \<and> hashable z)"

text \<open>\<open>{...} == expected\<close> for a set of keys\<close>

definition expected_set :: "scen_key list \<Rightarrow> bool" where
  "expected_set ks \<longleftrightarrow> list_all (\<lambda>k. list_ex (key_eq k) expected_keys) ks \<and> list_all (\<lambda>k. list_ex (\<lambda>k'. key_eq k' k) ks) expected_keys"

definition row_key :: "string \<Rightarrow> json \<Rightarrow> scen_key res" where
  "row_key mode row = bindR (item row ''case'') (\<lambda>a. bindR (item row mode) (\<lambda>b. bindR (item row ''signed'') (\<lambda>c. Inr (a, b, c))))"

text \<open>The measured value may not be above the limit, which belongs to the measured base.\<close>

definition valid_measure :: "json \<Rightarrow> bool res" where
  "valid_measure v = (if is_bool v \<or> \<not> is_number v then Inr False else andR (isfiniteR v) (notR (ltR v (FFin 0))))"

definition within_limit :: "json \<times> pyfloat \<Rightarrow> bool res" where
  "within_limit mf = (case mf of (metrics, factor) \<Rightarrow>
     bindR (item metrics ''base'') (\<lambda>old. bindR (item metrics ''candidate'') (\<lambda>after.
     andR (valid_measure old) (andR (valid_measure after)
       (bindR (item metrics ''limit'') (\<lambda>l. bindR (mulR old factor) (\<lambda>bound.
        andR (iscloseR l bound) (bindR (mulR old factor) (\<lambda>bound. notR (gtR after bound))))))))))"

definition heap_factor :: pyfloat where "heap_factor = fl (110 / 100)"

definition latency_factor :: pyfloat where "latency_factor = fl (105 / 100)"

definition min_throughput :: pyfloat where "min_throughput = fl (85 / 100)"

definition section_status_ok :: "json \<Rightarrow> bool res" where
  "section_status_ok section = bindR (dget section ''status'') (\<lambda>st. bindR (dget section ''failures'') (\<lambda>f.
     bindR (dget section ''pending_metrics'') (\<lambda>p. bindR (dget section ''heap_gate_evaluated'') (\<lambda>h.
     Inr (py_eq st (JStr ''pass'') \<and> py_eq f (JList []) \<and> py_eq p (JList []) \<and> h = JBool True)))))"

definition section_scenarios_ok :: "json \<Rightarrow> bool res" where
  "section_scenarios_ok scenarios = bindR (len_of scenarios) (\<lambda>n. if n \<noteq> length expected_keys then Inr False
     else bindR (bindR (iter_of scenarios) (mapR (row_key ''compression''))) (\<lambda>ks.
       if \<not> list_all key_hashable ks then Inl TypeErr else Inr (expected_set ks)))"

definition section_pairs :: "json \<Rightarrow> json list \<Rightarrow> (json \<times> pyfloat) list res" where
  "section_pairs section rows = bindR (item section ''heap_growth_bytes'') (\<lambda>h.
     bindR (mapR (\<lambda>row. mapR (\<lambda>f. bindR (item row f) (\<lambda>x. Inr (x, latency_factor))) [''send_p95_us'', ''receive_p95_us'']) rows) (\<lambda>ps.
     Inr ((h, heap_factor) # concat ps)))"

definition section_ok :: "json \<Rightarrow> string \<Rightarrow> bool res" where
  "section_ok report name = bindR (item report name) (\<lambda>section.
     andR (section_status_ok section) (bindR (item section ''scenarios'') (\<lambda>scenarios.
     andR (section_scenarios_ok scenarios) (
     andR (bindR (item section ''throughput_ratio'') (\<lambda>t. andR (isfiniteR t) (notR (ltR t min_throughput)))) (
     bindR (bindR (iter_of scenarios) (section_pairs section)) (allR within_limit))))))"

definition approved_controlled_comparison :: "json \<Rightarrow> bool res" where
  "approved_controlled_comparison report = bindR (dget report ''status'') (\<lambda>st.
     if \<not> py_eq st (JStr ''pass'') then Inr False
     else (case allR (section_ok report) [''control'', ''forward'', ''reverse''] of
        Inl e \<Rightarrow> (case e of KeyErr _ \<Rightarrow> Inr False | TypeErr \<Rightarrow> Inr False | ValueErr _ \<Rightarrow> Inr False | AttributeErr \<Rightarrow> Inr False | _ \<Rightarrow> Inl e)
      | Inr b \<Rightarrow> Inr b))"

subsection \<open>Files\<close>

text \<open>\<open>json.dumps(value, indent=2, ensure_ascii=False)\<close>\<close>

fun dumps_pretty :: "nat \<Rightarrow> json \<Rightarrow> string" where
  "dumps_pretty level (JList vs) = (if vs = [] then ''[]'' else
     ''['' @ indent_at (Suc level) @ join ('','' @ indent_at (Suc level)) (map (dumps_pretty (Suc level)) vs) @ indent_at level @ '']'')"
| "dumps_pretty level (JObj kvs) = (if kvs = [] then ''{}'' else
     ''{'' @ indent_at (Suc level) @
     join ('','' @ indent_at (Suc level)) (map (\<lambda>(k, v). json_quote k @ '': '' @ dumps_pretty (Suc level) v) kvs) @ indent_at level @ ''}'')"
| "dumps_pretty level v = dumps_default v"

definition write_json :: "string \<Rightarrow> json \<Rightarrow> unit pio" where
  "write_json path payload = write_utf8 path (dumps_pretty 0 payload @ [CHR 0x0A])"

definition load_summary :: "string \<Rightarrow> json pio" where
  "load_summary path = bindI (read_text path) (\<lambda>t. liftI (bindR (json_loads t) (\<lambda>summary.
     bindR (dget_or summary ''schema_version'' (JInt 1)) (\<lambda>v.
     if py_eq v (JInt 1) \<or> py_eq v (JInt 2) then Inr summary else Inl (ValueErr ''Unsupported benchmark summary version'')))))"

end
