(* ===== verification/Bench_Transport.thy ===== *)
theory Bench_Transport
  imports Bench_Summary
begin

text \<open>
  \<open>tool/benchmarks/compare_transport_repetitions.py\<close> and \<open>qualify\<close> of \<open>run_transport_comparison.py\<close>: the comparison of two
  reports of the transport harness, nine repetitions each, and the verdict over an A/A control and two A/B
  comparisons.
\<close>

subsection \<open>Profiles: the rows of each scenario over the repetitions\<close>

type_synonym profile = "(scen_key \<times> json list) list"

fun add_row :: "scen_key \<Rightarrow> json \<Rightarrow> profile \<Rightarrow> profile" where
  "add_row key row [] = [(key, [row])]"
| "add_row key row ((k, rows) # r) = (if key_eq k key then (k, rows @ [row]) # r else (k, rows) # add_row key row r)"

fun distinct_keys :: "scen_key list \<Rightarrow> bool" where
  "distinct_keys [] = True"
| "distinct_keys (k # ks) = (\<not> list_ex (key_eq k) ks \<and> distinct_keys ks)"

definition incomplete :: exn where
  "incomplete = ValueErr ''Incomplete transport scenario set''"

definition timing_ok :: "json \<Rightarrow> string \<Rightarrow> bool res" where
  "timing_ok row f = bindR (item row f) (\<lambda>v. andR (isfiniteR v) (notR (ltR v (FFin 0))))"

definition check_row :: "json \<Rightarrow> json \<Rightarrow> unit res" where
  "check_row iterations row = bindR (item row ''iterations'') (\<lambda>n.
     bindR (andR (Inr (py_eq n iterations)) (andR (bindR (dget row ''send_sample_count'') (\<lambda>c. Inr (py_eq c n)))
       (andR (bindR (dget row ''receive_sample_count'') (\<lambda>c. Inr (py_eq c n))) (allR (timing_ok row) [''send_p95_us'', ''receive_p95_us''])))) (\<lambda>good.
     if \<not> good then Inl (ValueErr ''Invalid timing or sample count'') else
     bindR (bindR (item row ''summary'') (\<lambda>s. item s ''error_count'')) (\<lambda>e.
     if truthy e then Inl (ValueErr ''Codec errors'') else Inr ())))"

definition add_repetition :: "json \<Rightarrow> json \<Rightarrow> scen_key list option \<times> profile \<Rightarrow> (scen_key list option \<times> profile) res" where
  "add_repetition config rep st = (case st of (expected, acc) \<Rightarrow>
     bindR (iter_of rep) (\<lambda>rows. bindR (mapR (row_key ''requested_compression'') rows) (\<lambda>ks.
     if \<not> list_all key_hashable ks then Inl TypeErr
     else if \<not> expected_set ks then Inl incomplete
     else if \<not> distinct_keys ks \<or> (case expected of None \<Rightarrow> False | Some es \<Rightarrow> \<not> list_all2 key_eq ks es) then
       Inl (ValueErr ''Scenario order or membership differs between repetitions'')
     else bindR (foldR (\<lambda>(k, row) acc. bindR (item config ''iterations'') (\<lambda>n. bindR (check_row n row) (\<lambda>_. Inr (add_row k row acc)))) (zip ks rows) acc) (\<lambda>acc'.
       Inr (Some ks, acc')))))"

definition profiles :: "json \<Rightarrow> profile res" where
  "profiles report = bindR (item report ''repetitions'') (\<lambda>reps. bindR (len_of reps) (\<lambda>n.
     if n \<noteq> 9 then Inl (ValueErr ''Incomplete repetitions'') else
     bindR (bindR (item report ''elapsed_us'') len_of) (\<lambda>m.
     if m \<noteq> 9 then Inl (ValueErr ''Incomplete repetitions'') else
     bindR (item report ''config'') (\<lambda>config.
     bindR (bindR (iter_of reps) (\<lambda>rs. foldR (add_repetition config) rs (None, []))) (\<lambda>st. Inr (snd st))))))"

subsection \<open>Comparison\<close>

definition check_same :: "json \<Rightarrow> json \<Rightarrow> string \<Rightarrow> unit res" where
  "check_same base candidate name = bindR (item base name) (\<lambda>b. bindR (item candidate name) (\<lambda>c.
     if py_eq b c then Inr () else Inl (ValueErr ''measurements cannot be compared'')))"

definition check_config :: "json \<Rightarrow> unit res" where
  "check_config base = bindR (item base ''config'') (\<lambda>config. bindR (item config ''repeats'') (\<lambda>r.
     if \<not> py_eq r (JInt 9) then Inl (ValueErr ''Nine repetitions are required'') else
     bindR (item base ''harness_version'') (\<lambda>h.
     bindR (orR (Inr (\<not> py_eq h (JInt 2))) (orR (bindR (item config ''iterations'') (\<lambda>n. ltR n (FFin 100)))
       (bindR (dget_or config ''warmup_iterations'' (JInt 0)) (\<lambda>w. ltR w (FFin 10))))) (\<lambda>bad.
     if bad then Inl (ValueErr ''Qualification requires v2, 100 measurements and ten warmup iterations'') else Inr ()))))"

definition key_repr :: "scen_key \<Rightarrow> string" where
  "key_repr k = (case k of (a, b, c) \<Rightarrow> ''('' @ repr_json a @ '', '' @ repr_json b @ '', '' @ repr_json c @ '')'')"

definition same_field :: "json list \<Rightarrow> json list \<Rightarrow> string \<Rightarrow> unit res" where
  "same_field rows updated f = bindR (anyR (\<lambda>row. bindR (item row f) (\<lambda>v. bindR (item (hd rows) f) (\<lambda>v0. Inr (\<not> py_eq v v0)))) (rows @ updated)) (\<lambda>differs.
     if differs then Inl (ValueErr ''Different dataset or wire profile'') else Inr ())"

definition median_field :: "json list \<Rightarrow> string \<Rightarrow> json res" where
  "median_field rows f = bindR (mapR (\<lambda>row. item row f) rows) median_odd"

definition compare_field :: "scen_key \<Rightarrow> json list \<Rightarrow> json list \<Rightarrow> string \<Rightarrow> (json \<times> string list) res" where
  "compare_field key rows updated f = bindR (median_field rows f) (\<lambda>before. bindR (median_field updated f) (\<lambda>current.
     bindR (mulR before latency_factor) (\<lambda>bound. bindR (gtR current bound) (\<lambda>worse.
     Inr (JObj [(''base'', before), (''candidate'', current), (''limit'', JFloat bound)],
       if worse then [key_repr key @ '' '' @ f @ '': '' @ repr_json current @ '' > '' @ repr_float bound] else [])))))"

definition compare_scenario :: "profile \<Rightarrow> scen_key \<times> json list \<Rightarrow> (json \<times> string list) res" where
  "compare_scenario after kr = (case kr of (key, rows) \<Rightarrow>
     bindR (of_option (KeyErr ''key'') (map_option snd (find (\<lambda>(k, _). key_eq k key) after))) (\<lambda>updated.
     bindR (mapR (same_field rows updated) [''iterations'', ''original_bytes'', ''wire_bytes'', ''effective_compression'']) (\<lambda>_.
     bindR (compare_field key rows updated ''send_p95_us'') (\<lambda>(s, fs). bindR (compare_field key rows updated ''receive_p95_us'') (\<lambda>(r, fr).
     Inr (JObj [(''case'', fst key), (''compression'', fst (snd key)), (''signed'', snd (snd key)), (''send_p95_us'', s), (''receive_p95_us'', r)], fs @ fr))))))"

text \<open>\<open>a / b\<close> of two numbers: two integers are divided exactly before rounding.\<close>

definition int_val :: "json \<Rightarrow> int option" where
  "int_val v = (case v of JInt i \<Rightarrow> Some i | JBool b \<Rightarrow> Some (if b then 1 else 0) | _ \<Rightarrow> None)"

definition divR :: "json \<Rightarrow> json \<Rightarrow> pyfloat res" where
  "divR a b = (case (int_val a, int_val b) of
     (Some i, Some j) \<Rightarrow> if j = 0 then Inl ZeroDivisionErr
       else (let x = fl (of_int i / of_int j) in if isfinite x then Inr x else Inl OverflowErr)
   | _ \<Rightarrow> bindR (to_float a) (\<lambda>x. bindR (to_float b) (float_div x)))"

definition median_of :: "json \<Rightarrow> json res" where
  "median_of v = bindR (iter_of v) median_odd"

definition throughput :: "json \<Rightarrow> json \<Rightarrow> pyfloat res" where
  "throughput base candidate = bindR (bindR (item base ''elapsed_us'') median_of) (\<lambda>b. bindR (bindR (item candidate ''elapsed_us'') median_of) (\<lambda>c.
     bindR (andR (isfiniteR b) (andR (isfiniteR c) (andR (notR (leR b (FFin 0))) (notR (leR c (FFin 0)))))) (\<lambda>good.
     if good then divR b c else Inl (ValueErr ''Invalid elapsed time''))))"

definition has_key :: "json \<Rightarrow> string \<Rightarrow> bool" where
  "has_key v k = (case v of JObj kvs \<Rightarrow> map_of kvs k \<noteq> None | _ \<Rightarrow> False)"

definition heap_ok :: "json \<Rightarrow> bool res" where
  "heap_ok v = (if is_number v then andR (isfiniteR v) (notR (ltR v (FFin 0))) else Inr False)"

text \<open>The failures, the pending metrics and the report of the heap gate\<close>

definition heap_gate :: "json \<Rightarrow> json \<Rightarrow> (string list \<times> string list \<times> json) res" where
  "heap_gate base candidate =
     (if \<not> (has_key base ''heap_growth_bytes'' \<and> has_key candidate ''heap_growth_bytes'') then Inr ([], [''Dart heap growth''], JNull)
      else bindR (item base ''heap_growth_bytes'') (\<lambda>b. bindR (item candidate ''heap_growth_bytes'') (\<lambda>c.
        bindR (andR (heap_ok b) (heap_ok c)) (\<lambda>good. if \<not> good then Inl (ValueErr ''Invalid Dart heap growth'') else
        bindR (mulR b heap_factor) (\<lambda>bound. bindR (gtR c bound) (\<lambda>worse.
        Inr (if worse then [''Heap growth exceeds 110% of base''] else [],
          if py_eq b (JInt 0) then [''Zero heap baseline requires repeated retention diagnostics''] else [],
          JObj [(''base'', b), (''candidate'', c), (''limit'', JFloat bound)])))))))"

definition comparison_status :: "string list \<Rightarrow> string list \<Rightarrow> string" where
  "comparison_status pending failures = (if pending \<noteq> [] then ''inconclusive'' else if failures \<noteq> [] then ''fail'' else ''pass'')"

definition comparison_report :: "json list \<Rightarrow> pyfloat \<Rightarrow> json \<Rightarrow> json \<Rightarrow> json \<Rightarrow> string list \<Rightarrow> string list \<Rightarrow> json" where
  "comparison_report scenarios ratio rss_b rss_c heap pending failures =
     JObj [(''status'', JStr (comparison_status pending failures)), (''scenarios'', JList scenarios), (''throughput_ratio'', JFloat ratio),
       (''rss_peak_bytes'', JObj [(''base'', rss_b), (''candidate'', rss_c)]), (''heap_gate_evaluated'', JBool (heap \<noteq> JNull)),
       (''heap_growth_bytes'', heap), (''pending_metrics'', JList (map JStr pending)), (''failures'', JList (map JStr failures))]"

definition compare :: "json \<Rightarrow> json \<Rightarrow> json res" where
  "compare base candidate =
     bindR (mapR (check_same base candidate) [''harness_version'', ''dart_version'', ''platform'', ''config'']) (\<lambda>_.
     bindR (check_config base) (\<lambda>_.
     bindR (profiles base) (\<lambda>before. bindR (profiles candidate) (\<lambda>after.
     if \<not> list_all2 key_eq (map fst before) (map fst after) then Inl (ValueErr ''Scenario sets differ'') else
     bindR (mapR (compare_scenario after) before) (\<lambda>scs.
     bindR (throughput base candidate) (\<lambda>ratio.
     bindR (heap_gate base candidate) (\<lambda>(heap_failures, pending, heap).
     bindR (item base ''rss_peak_bytes'') (\<lambda>rb. bindR (item candidate ''rss_peak_bytes'') (\<lambda>rc.
     let failures = concat (map snd scs)
           @ (if float_lt ratio min_throughput then [''Whole harness throughput ratio '' @ repr_float ratio @ '' < 0.85''] else []) @ heap_failures in
     Inr (comparison_report (map fst scs) ratio rb rc heap pending failures))))))))))"

definition is_argument_err :: "exn \<Rightarrow> bool" where
  "is_argument_err e = (case e of ValueErr _ \<Rightarrow> True | KeyErr _ \<Rightarrow> True | ZeroDivisionErr \<Rightarrow> True | _ \<Rightarrow> False)"

definition status_code :: "string \<Rightarrow> int res" where
  "status_code st = (if st = ''pass'' then Inr 0 else if st = ''fail'' then Inr 1 else if st = ''inconclusive'' then Inr 2 else Inl (KeyErr st))"

definition read_json :: "string \<Rightarrow> json pio" where
  "read_json path = bindI (read_text path) (\<lambda>t. liftI (json_loads t))"

text \<open>\<open>main\<close>: \<open>parser.error\<close> is the exit code 2.\<close>

definition compare_main :: "string \<Rightarrow> string \<Rightarrow> string \<Rightarrow> int pio" where
  "compare_main base candidate output =
     bindI (catchI (bindI (read_json base) (\<lambda>b. bindI (read_json candidate) (\<lambda>c. liftI (compare b c))))
       (\<lambda>e. raiseI (if is_argument_err e then ExitCode 2 else e))) (\<lambda>report.
     bindI (write_utf8 output (dumps2 report)) (\<lambda>_.
     bindI (liftI (bindR (item report ''failures'') iter_of)) (\<lambda>fs. bindI (forI fs (\<lambda>f. print_line (str_json f))) (\<lambda>_.
     bindI (liftI (bindR (bindR (item report ''pending_metrics'') iter_of) (mapR str_of))) (\<lambda>ps.
     bindI (if ps = [] then retI () else print_line (''Not fully validated: '' @ join '', '' ps)) (\<lambda>_.
     liftI (bindR (bindR (item report ''status'') str_of) status_code)))))))"

subsection \<open>Qualification\<close>

text \<open>\<open>qualify\<close> of \<open>run_transport_comparison.py\<close>\<close>

definition any_truthy :: "json \<Rightarrow> string list \<Rightarrow> bool res" where
  "any_truthy v ks = anyR (\<lambda>k. bindR (item v k) (\<lambda>x. Inr (truthy x))) ks"

definition qualify :: "json \<Rightarrow> json \<Rightarrow> json \<Rightarrow> json res" where
  "qualify control forward reverse = bindR (any_truthy control [''failures'', ''pending_metrics'']) (\<lambda>bad.
     if bad then Inr (JObj [(''status'', JStr ''inconclusive''), (''reason'', JStr ''Identical-code control violated limits or has missing measurements''),
       (''control'', control), (''forward'', forward), (''reverse'', reverse)]) else
     bindR (orR (any_truthy forward [''pending_metrics'']) (any_truthy reverse [''pending_metrics''])) (\<lambda>pending.
     bindR (if pending then Inr ''inconclusive'' else bindR (orR (any_truthy forward [''failures'']) (any_truthy reverse [''failures''])) (\<lambda>failed.
       Inr (if failed then ''fail'' else ''pass''))) (\<lambda>st.
     Inr (JObj [(''status'', JStr st), (''control'', control), (''forward'', forward), (''reverse'', reverse)]))))"

end
