(* ===== verification/Bench_Compare.thy ===== *)
theory Bench_Compare
  imports Bench_Transport
begin

text \<open>
  \<open>tool/benchmarks/compare_benchmark_summary.py\<close>, \<open>promote_benchmark_baseline.py\<close> and the completeness of a suite in
  \<open>run_benchmark_suite.py\<close>: the comparison of two summaries and the promotion of a run to the baseline. What the
  commands print is left out; the directory of the project is the empty path.
\<close>

subsection \<open>Comparison of metrics\<close>

record MetricDiff =
  md_metric :: string
  md_baseline :: pyfloat
  md_current :: pyfloat
  md_delta_pct :: "pyfloat option"
  md_direction :: string
  md_regression :: bool

text \<open>The value of a flat metric, always a \<open>float\<close>\<close>

definition metric_val :: "dict \<Rightarrow> string \<Rightarrow> pyfloat" where
  "metric_val d k = (case field d k of JFloat x \<Rightarrow> x | _ \<Rightarrow> FNaN)"

definition float_min :: "pyfloat \<Rightarrow> pyfloat \<Rightarrow> pyfloat" where
  "float_min x y = (if float_lt y x then y else x)"

definition metric_limit :: "string \<Rightarrow> pyfloat \<Rightarrow> pyfloat" where
  "metric_limit key threshold =
     (if contains (lower key) ''p95'' then float_min threshold (fl (5 / 100))
      else if field (metric_metadata key) ''category'' = JStr ''throughput'' then float_min threshold (fl (15 / 100))
      else if contains (lower key) ''heap_growth'' then float_min threshold (fl (10 / 100))
      else threshold)"

definition delta_pct :: "pyfloat \<Rightarrow> pyfloat \<Rightarrow> pyfloat option res" where
  "delta_pct b c = (if float_eq b (FFin 0) then Inr (if float_eq c (FFin 0) then Some (FFin 0) else None)
     else bindR (float_div (float_sub c b) b) (\<lambda>x. Inr (Some (float_mul x (FFin 100)))))"

definition is_regression :: "string \<Rightarrow> pyfloat \<Rightarrow> pyfloat \<Rightarrow> pyfloat \<Rightarrow> bool" where
  "is_regression key b c l = (if metric_lower_is_better key then float_lt (float_mul b (float_add (FFin 1) l)) c
     else float_lt c (float_mul b (float_sub (FFin 1) l)))"

definition metric_diff :: "dict \<Rightarrow> dict \<Rightarrow> pyfloat \<Rightarrow> string \<Rightarrow> MetricDiff res" where
  "metric_diff base current threshold key = (let b = metric_val base key; c = metric_val current key in
     bindR (delta_pct b c) (\<lambda>d. Inr \<lparr>md_metric = key, md_baseline = b, md_current = c, md_delta_pct = d,
       md_direction = (if metric_lower_is_better key then ''lower is better'' else ''higher is better''),
       md_regression = is_regression key b c (metric_limit key threshold)\<rparr>))"

definition compare_metrics :: "dict \<Rightarrow> dict \<Rightarrow> pyfloat \<Rightarrow> MetricDiff list res" where
  "compare_metrics base current threshold =
     mapR (metric_diff base current threshold) (sort (filter (\<lambda>k. map_of current k \<noteq> None) (map fst base)))"

subsection \<open>The latest results\<close>

definition RESULTS_DIR :: string where "RESULTS_DIR = ''benchmarks/results''"

definition BASELINE_PATH :: string where "BASELINE_PATH = ''benchmarks/baseline/summary.json''"

text \<open>The directories in a directory: the first parts of the longer paths below it\<close>

definition subdirectories :: "string \<Rightarrow> string list \<Rightarrow> string list" where
  "subdirectories dir paths = remdups (concat (map (\<lambda>p. case str_cut ''/'' (drop (Suc (length dir)) p) of Some (a, _) \<Rightarrow> [a] | None \<Rightarrow> []) paths))"

definition resolve_latest_results_summary :: "os_env \<Rightarrow> string \<Rightarrow> string option pio" where
  "resolve_latest_results_summary S dir = bindI (files_below S dir) (\<lambda>paths. readI (\<lambda>w.
     find (\<lambda>p. pw_files w p \<noteq> None) (map (\<lambda>name. path_join (path_join dir name) ''summary.json'') (rev (sort (subdirectories dir paths))))))"

subsection \<open>Comparison of summaries\<close>

definition bad_status :: "json \<Rightarrow> bool res" where
  "bad_status suite = bindR (dget_or suite ''status'' (JStr ''pass'')) (\<lambda>st. notR (in_strs [''pass'', ''skipped''] st))"

text \<open>The revision and the source digest that a summary states\<close>

definition source_identity :: "json \<Rightarrow> dict res" where
  "source_identity summary = bindR (dget_or summary ''git'' (JObj [])) (\<lambda>g.
     mapR (\<lambda>k. bindR (dget g k) (\<lambda>v. Inr (k, v))) [''commit_sha'', ''source_sha256''])"

definition comparison_qualified :: "json \<Rightarrow> bool res" where
  "comparison_qualified summary = bindR (dget_or summary ''comparison'' (JObj [])) (\<lambda>comparison.
     bindR (source_identity summary) (\<lambda>src.
     andR (bindR (dget summary ''qualification'') (\<lambda>q. Inr (py_eq q (JStr ''pass''))))
       (andR (approved_controlled_comparison comparison)
         (andR (Inr (list_all (truthy \<circ> snd) src)) (bindR (dget comparison ''candidate'') (\<lambda>c. Inr (py_eq c (JObj src))))))))"

definition compare_summaries :: "json \<Rightarrow> json \<Rightarrow> pyfloat \<Rightarrow> int res" where
  "compare_summaries baseline current threshold =
     bindR (incompatible_benchmark_suite_reasons baseline current) (\<lambda>excluded.
     bindR (flatten_suite_metrics baseline (map fst excluded)) (\<lambda>bm. bindR (flatten_suite_metrics current (map fst excluded)) (\<lambda>cm.
     bindR (compare_metrics bm cm threshold) (\<lambda>diffs.
     bindR (bindR (bindR (dget_or current ''suites'' (JList [])) iter_of) (anyR bad_status)) (\<lambda>invalid.
     bindR (comparison_qualified current) (\<lambda>qualified.
     if diffs = [] \<or> excluded \<noteq> [] \<or> set (map fst bm) \<noteq> set (map fst cm) \<or> invalid \<or> \<not> qualified then Inr 2
     else Inr (if list_ex md_regression diffs then 1 else 0)))))))"

definition compare_summary_main :: "os_env \<Rightarrow> string \<Rightarrow> string option \<Rightarrow> pyfloat \<Rightarrow> int pio" where
  "compare_summary_main S baseline current threshold =
     (if \<not> isfinite threshold \<or> float_lt threshold (FFin 0) then raiseI (ExitCode 2) else
      bindI (case current of Some p \<Rightarrow> retI (Some p) | None \<Rightarrow> resolve_latest_results_summary S RESULTS_DIR) (\<lambda>path.
      case path of None \<Rightarrow> retI 2
      | Some p \<Rightarrow> bindI (load_summary baseline) (\<lambda>b. bindI (load_summary p) (\<lambda>c. liftI (compare_summaries b c threshold)))))"

subsection \<open>Complete suites\<close>

text \<open>A suite that the runner leaves out: \<open>skipped_suite\<close> of \<open>run_benchmark_suite.py\<close>\<close>

definition skipped_suite :: "string \<Rightarrow> string \<Rightarrow> string \<Rightarrow> json" where
  "skipped_suite suite_id kind reason = JObj [(''id'', JStr suite_id), (''kind'', JStr kind), (''status'', JStr ''skipped''), (''reason'', JStr reason)]"

definition cross :: "string list \<Rightarrow> string list \<Rightarrow> string list" where
  "cross as bs = concat (map (\<lambda>a. map (\<lambda>b. a @ b) bs) as)"

definition required_metric_keys :: "string \<Rightarrow> string list" where
  "required_metric_keys suite_id =
     (if suite_id = ''transport_pipeline'' then
        cross (cross (cross (cross (cross transport_cases [''.async.'']) transport_modes) [''.signed_False.'', ''.signed_True.'']) [''send'', ''receive''])
          [''_p50_us'', ''_p95_us'', ''_p99_us'']
      else if suite_id = ''odbc_hot_paths'' then
        cross [''health_snapshot'', ''pagination_materialization'', ''bulk_insert_planning'', ''construct_and_execute_empty_batch'',
          ''batch_executor_construction'', ''empty_batch_first_execution'', ''empty_batch_warmed_execution''] [''.p50_us'', ''.p95_us'', ''.p99_us'']
      else if suite_id = ''plug_agente_stack'' then
        cross (cross [''config_metadata_cache'', ''odbc_connection_string_ttl_cache''] [''.cold'', ''.warm'']
          @ cross [''columnar_stream_emitter''] [''.row_map'', ''.wire_only'']
          @ cross [''backpressure_stream_emitter''] [''.sequential_admission'', ''.concurrent_admission'']
          @ [''queued_database_gateway.execute_query'']
          @ cross [''sql_rpc_db_streaming_executor''] [''.cold_config_cache'', ''.warm_config_cache'']) [''.median_us'']
      else if suite_id = ''odbc_gateway_encoding'' then [''median_us_balancedServer_rowMajor'', ''median_us_highThroughput_rowMajor'']
      else if suite_id = ''odbc_streaming'' then
        cross [''streamQueryBuffer'', ''streamQueryBatched''] [''.elapsed_ms'', ''.rows'', ''.rows_per_second'', ''.fetch_size'', ''.chunk_size'']
      else if suite_id = ''odbc_async'' then
        cross (expected_scenarios ''async'') [''.elapsed_ms'', ''.rows'', ''.queries_per_second'', ''.timeouts'', ''.fallbacks'', ''.failed_requests'']
      else [])"

definition numeric :: "json \<Rightarrow> bool res" where
  "numeric v = (if is_number v \<and> \<not> is_bool v then andR (isfiniteR v) (notR (ltR v (FFin 0))) else Inr False)"

definition metric_ok :: "string \<times> json \<Rightarrow> bool res" where
  "metric_ok kv = orR (numeric (snd kv)) (Inr (is_str (snd kv) \<and> field (metric_metadata (fst kv)) ''category'' = JStr ''configuration''))"

text \<open>Metrics that are not a dict make the test false or raise, by the rules for iteration and subscripts.\<close>

definition complete_suite_metrics :: "json \<Rightarrow> bool res" where
  "complete_suite_metrics suite = bindR (dget_or suite ''metrics'' (JObj [])) (\<lambda>m. bindR (item suite ''id'') (\<lambda>i.
     let required = (case i of JStr n \<Rightarrow> required_metric_keys n | _ \<Rightarrow> []) in
     if \<not> truthy m then Inr False else
     (case m of JObj ms \<Rightarrow>
        if \<not> list_all (\<lambda>k. map_of ms k \<noteq> None) required then Inr False
        else andR (allR (\<lambda>k. numeric (field ms k)) required) (allR metric_ok ms)
      | _ \<Rightarrow> bindR (iter_of m) (\<lambda>vs. if \<not> list_all (\<lambda>k. JStr k \<in> set vs) required then Inr False
          else if required = [] then Inl AttributeErr else Inl TypeErr))))"

subsection \<open>Promotion\<close>

definition machine_fields :: "string list" where
  "machine_fields = [''dart_version'', ''flutter_version'', ''dependencies_sha256'', ''host_fingerprint'']"

definition check_machine :: "json \<Rightarrow> unit res" where
  "check_machine summary = bindR (dget summary ''dependencies'') (\<lambda>d.
     bindR (if \<not> truthy d then Inr False else bindR (dget_or summary ''machine'' (JObj [])) (\<lambda>m.
       allR (\<lambda>k. bindR (dget m k) (\<lambda>v. Inr (truthy v))) machine_fields)) (\<lambda>good.
     if good then Inr () else Inl (ValueErr ''Promotion requires SDK, dependency versions and host metadata'')))"

definition check_qualified :: "json \<Rightarrow> unit res" where
  "check_qualified summary = bindR (andR (bindR (dget summary ''qualification'') (\<lambda>q. Inr (py_eq q (JStr ''pass''))))
     (bindR (dget_or summary ''comparison'' (JObj [])) approved_controlled_comparison)) (\<lambda>good.
     if good then Inr () else Inl (ValueErr ''Promotion requires valid measurements and an approved controlled comparison''))"

definition check_source :: "json \<Rightarrow> unit res" where
  "check_source summary = bindR (source_identity summary) (\<lambda>src.
     bindR (andR (Inr (list_all (truthy \<circ> snd) src)) (bindR (bindR (item summary ''comparison'') (\<lambda>c. dget c ''candidate'')) (\<lambda>c. Inr (py_eq c (JObj src))))) (\<lambda>good.
     if good then Inr () else Inl (ValueErr ''Controlled comparison must identify the same measured source'')))"

definition not_skipped :: "json \<Rightarrow> bool res" where
  "not_skipped suite = bindR (dget suite ''status'') (\<lambda>st. Inr (\<not> py_eq st (JStr ''skipped'')))"

definition suite_promotable :: "json \<Rightarrow> bool res" where
  "suite_promotable suite = andR (bindR (dget suite ''status'') (\<lambda>st. Inr (py_eq st (JStr ''pass''))))
     (andR (complete_suite_metrics suite) (andR (bindR (dget suite ''comparison_identity'') (\<lambda>v. Inr (truthy v)))
       (bindR (dget suite ''metric_metadata'') (\<lambda>v. Inr (truthy v)))))"

fun filterR :: "('a \<Rightarrow> bool res) \<Rightarrow> 'a list \<Rightarrow> 'a list res" where
  "filterR f [] = Inr []"
| "filterR f (x # xs) = bindR (f x) (\<lambda>b. bindR (filterR f xs) (\<lambda>ys. Inr (if b then x # ys else ys)))"

definition check_suites :: "json \<Rightarrow> unit res" where
  "check_suites summary = bindR (bindR (dget_or summary ''suites'' (JList [])) iter_of) (\<lambda>vs. bindR (filterR not_skipped vs) (\<lambda>measured.
     bindR (if measured = [] then Inr False else allR suite_promotable measured) (\<lambda>good.
     if good then Inr () else Inl (ValueErr ''Incomplete or failed benchmark suites cannot be promoted''))))"

text \<open>The checks of \<open>promote_summary\<close>\<close>

definition promotable :: "json \<Rightarrow> unit res" where
  "promotable summary = bindR (dget summary ''schema_version'') (\<lambda>v.
     if \<not> py_eq v (JInt 2) then Inl (ValueErr ''Only complete v2 measurements can be promoted; v1 remains readable history'') else
     bindR (check_machine summary) (\<lambda>_. bindR (check_qualified summary) (\<lambda>_. bindR (check_source summary) (\<lambda>_.
     bindR (check_suites summary) (\<lambda>_. bindR (flatten_suite_metrics summary []) (\<lambda>m.
     if m = [] then Inl (ValueErr ''No performance metrics available for promotion'') else Inr ()))))))"

text \<open>\<open>list(summary.get("notes") or [])\<close>\<close>

definition promoted_summary :: "string \<Rightarrow> string \<Rightarrow> dict \<Rightarrow> dict res" where
  "promoted_summary source now kvs = bindR (let n = field kvs ''notes'' in if truthy n then iter_of n else Inr []) (\<lambda>notes.
     Inr (dict_put ''notes'' (JList (notes @ [JStr (''Promoted from '' @ source)]))
       (dict_put ''captured_at'' (JStr now) (dict_put ''$schema'' (JStr ''../schema/summary.schema.json'') (dict_put ''run_id'' (JStr ''baseline'') kvs)))))"

definition promote_summary :: "string \<Rightarrow> bool \<Rightarrow> string \<Rightarrow> string pio" where
  "promote_summary now dry_run source = bindI (load_summary source) (\<lambda>summary.
     bindI (liftI (promotable summary)) (\<lambda>_.
     bindI (liftI (case summary of JObj kvs \<Rightarrow> promoted_summary source now kvs | _ \<Rightarrow> Inl TypeErr)) (\<lambda>new.
     if dry_run then retI BASELINE_PATH
     else bindI (write_json BASELINE_PATH (JObj new)) (\<lambda>_. retI BASELINE_PATH))))"

definition promote_main :: "os_env \<Rightarrow> string \<Rightarrow> bool \<Rightarrow> string option \<Rightarrow> int pio" where
  "promote_main S now dry_run source =
     bindI (case source of Some p \<Rightarrow> retI (Some p) | None \<Rightarrow> resolve_latest_results_summary S RESULTS_DIR) (\<lambda>path.
     case path of None \<Rightarrow> retI 2
     | Some p \<Rightarrow> bindI (file_exists p) (\<lambda>there. if \<not> there then retI 2 else
         catchI (bindI (promote_summary now dry_run p) (\<lambda>_. retI 0)) (\<lambda>e. if is_value_err e then retI 2 else raiseI e)))"

end
