(* ===== verification/Bench_TransportSpec.thy ===== *)
theory Bench_TransportSpec
  imports Bench_Transport
begin

text \<open>
  A comparison that \<open>compare\<close> reports as passed is one that \<open>approved_controlled_comparison\<close> accepts: the two
  programs agree on the scenarios, the limits and the meaning of a missing measurement.
\<close>

subsection \<open>Equality of numbers and of keys\<close>

lemma float_eq_fin [simp]: "float_eq x (FFin r) \<longleftrightarrow> x = FFin r"
  by (cases x) (auto simp: float_eq_def float_le_def)

lemma float_eq_refl: "x \<noteq> FNaN \<Longrightarrow> float_eq x x"
  by (cases x) (auto simp: float_eq_def float_le_def)

lemma py_eq_num: "num_of w = Some y \<Longrightarrow> py_eq v w \<longleftrightarrow> (case num_of v of Some x \<Rightarrow> float_eq x y | None \<Rightarrow> False)"
  by (cases v; cases w) (auto simp: py_eq.simps num_of_def)

lemma py_eq_fin: "num_of w = Some (FFin r) \<Longrightarrow> py_eq v w \<longleftrightarrow> num_of v = Some (FFin r)"
  by (auto simp: py_eq_num split: option.splits)

definition bool_rat :: "bool \<Rightarrow> rat" where
  "bool_rat b = (if b then 1 else 0)"

lemma num_of_bool [simp]: "num_of (JBool b) = Some (FFin (bool_rat b))"
  by (simp add: num_of_def bool_rat_def)

lemma bool_rat_inj [simp]: "bool_rat a = bool_rat b \<longleftrightarrow> a = b"
  by (auto simp: bool_rat_def)

text \<open>A key that equals an expected one\<close>

definition means :: "scen_key \<Rightarrow> string \<times> string \<times> bool \<Rightarrow> bool" where
  "means k e = (case (k, e) of ((x, y, z), (c, m, b)) \<Rightarrow> x = JStr c \<and> y = JStr m \<and> num_of z = Some (FFin (bool_rat b)))"

definition json_key :: "string \<times> string \<times> bool \<Rightarrow> scen_key" where
  "json_key e = (case e of (c, m, b) \<Rightarrow> (JStr c, JStr m, JBool b))"

definition all_keys :: "(string \<times> string \<times> bool) list" where
  "all_keys = concat (map (\<lambda>c. concat (map (\<lambda>m. map (\<lambda>b. (c, m, b)) [False, True]) transport_modes)) transport_cases)"

lemma expected_keys_all: "expected_keys = map json_key all_keys"
  by (simp add: expected_keys_def all_keys_def json_key_def transport_modes_def transport_cases_def)

lemma all_keys_distinct: "distinct all_keys" "length all_keys = 18"
  by (simp_all add: all_keys_def transport_modes_def transport_cases_def)

lemma key_eq_expected: "key_eq k (json_key e) \<longleftrightarrow> means k e"
  by (cases k; cases e) (auto simp: key_eq_def json_key_def means_def py_eq_str py_eq_fin)

lemma means_eq: "key_eq k' k \<Longrightarrow> means k e \<Longrightarrow> means k' e"
  by (cases k; cases k'; cases e) (auto simp: key_eq_def means_def py_eq_str py_eq_fin)

lemma means_unique: "means k e \<Longrightarrow> means k e' \<Longrightarrow> e = e'"
  by (cases k; cases e; cases e') (auto simp: means_def)

lemma means_key_eq: "means k e \<Longrightarrow> means k' e \<Longrightarrow> key_eq k k'"
  by (cases k; cases k'; cases e) (auto simp: key_eq_def means_def py_eq_fin)

lemma means_hashable: "means k e \<Longrightarrow> key_hashable k"
  by (cases k; cases e) (auto simp: means_def key_hashable_def hashable_def num_of_def split: json.splits)

definition covers :: "scen_key list \<Rightarrow> bool" where
  "covers ks \<longleftrightarrow> (\<forall>e \<in> set all_keys. \<exists>k \<in> set ks. means k e)"

definition only_expected :: "scen_key list \<Rightarrow> bool" where
  "only_expected ks \<longleftrightarrow> (\<forall>k \<in> set ks. \<exists>e \<in> set all_keys. means k e)"

lemma expected_set_iff: "expected_set ks \<longleftrightarrow> only_expected ks \<and> covers ks"
  by (auto simp: expected_set_def only_expected_def covers_def expected_keys_all list_all_iff list_ex_iff key_eq_expected)

lemma distinct_keys_snoc: "distinct_keys (ks @ [k]) \<longleftrightarrow> distinct_keys ks \<and> (\<forall>k' \<in> set ks. \<not> key_eq k' k)"
  by (induction ks) (auto simp: list_ex_iff)

text \<open>Distinct keys that are exactly the expected ones are eighteen.\<close>

lemma distinct_meanings: "distinct_keys ks \<Longrightarrow> only_expected ks \<Longrightarrow> \<exists>es. list_all2 means ks es \<and> distinct es \<and> set es \<subseteq> set all_keys"
proof (induction ks)
  case (Cons k ks)
  then obtain es where es: "list_all2 means ks es" "distinct es" "set es \<subseteq> set all_keys" by (auto simp: only_expected_def)
  obtain e where e: "e \<in> set all_keys" "means k e" using Cons.prems by (auto simp: only_expected_def)
  have "e \<notin> set es"
  proof
    assume "e \<in> set es"
    then obtain k' where "k' \<in> set ks" "means k' e" using list_all2_right[OF es(1)] by blast
    then show False using Cons.prems(1) means_key_eq[OF e(2), of k'] by (auto simp: list_ex_iff)
  qed
  then show ?case using es e by (intro exI[of _ "e # es"]) auto
qed simp

lemma expected_length: "distinct_keys ks \<Longrightarrow> only_expected ks \<Longrightarrow> covers ks \<Longrightarrow> length ks = 18"
proof -
  assume ks: "distinct_keys ks" "only_expected ks" "covers ks"
  obtain es where es: "list_all2 means ks es" "distinct es" "set es \<subseteq> set all_keys" using distinct_meanings[OF ks(1,2)] by blast
  have "set all_keys \<subseteq> set es"
  proof
    fix e assume "e \<in> set all_keys"
    then obtain k where k: "k \<in> set ks" "means k e" using ks(3) by (auto simp: covers_def)
    then obtain e' where "e' \<in> set es" "means k e'" using list_all2_left[OF es(1)] by blast
    then show "e \<in> set es" using means_unique[OF k(2)] by auto
  qed
  then have "length es = 18" using es all_keys_distinct by (metis distinct_card subset_antisym)
  then show ?thesis using es(1) by (auto dest: list_all2_lengthD)
qed

subsection \<open>Profiles\<close>

lemma add_row_keys:
  "map fst (add_row key row acc) = (if \<exists>k \<in> fst ` set acc. key_eq k key then map fst acc else map fst acc @ [key])"
  by (induction key row acc rule: add_row.induct) auto

lemma add_row_found: "\<exists>k \<in> set (map fst (add_row key row acc)). key_eq k key \<or> k = key"
  by (auto simp: add_row_keys)

lemma add_row_rows: "(k, rows) \<in> set (add_row key row acc) \<Longrightarrow> rows = [row] \<or> (\<exists>rs. (k, rs) \<in> set acc \<and> (rows = rs \<or> rows = rs @ [row]))"
proof (induction key row acc rule: add_row.induct)
  case (2 key row k' rows' r)
  then show ?case by (cases "key_eq k' key") (simp_all, blast+)
qed simp

definition row_ok :: "json \<Rightarrow> bool" where
  "row_ok row \<longleftrightarrow> timing_ok row ''send_p95_us'' = Inr True \<and> timing_ok row ''receive_p95_us'' = Inr True"

definition profile_ok :: "profile \<Rightarrow> bool" where
  "profile_ok acc \<longleftrightarrow> distinct_keys (map fst acc) \<and> only_expected (map fst acc) \<and> (\<forall>(k, rows) \<in> set acc. rows \<noteq> [] \<and> list_all row_ok rows)"

lemma check_row_ok: "check_row n row = Inr u \<Longrightarrow> row_ok row"
  by (auto simp: check_row_def ok_iff row_ok_def allR_ok)

lemma profile_ok_add: "profile_ok acc \<Longrightarrow> row_ok row \<Longrightarrow> e \<in> set all_keys \<Longrightarrow> means key e \<Longrightarrow> profile_ok (add_row key row acc)"
  unfolding profile_ok_def
  by (auto simp: add_row_keys distinct_keys_snoc only_expected_def dest!: add_row_rows)

lemma add_rows_ok:
  assumes "foldR (\<lambda>(k, row) acc. bindR (item config ''iterations'') (\<lambda>n. bindR (check_row n row) (\<lambda>_. Inr (add_row k row acc)))) krs acc = Inr acc'"
    and "profile_ok acc" "only_expected (map fst krs)"
  shows "profile_ok acc' \<and> (\<forall>k \<in> set (map fst acc @ map fst krs). \<exists>k' \<in> set (map fst acc'). key_eq k' k \<or> k' = k)"
  using assms
proof (induction krs arbitrary: acc)
  case (Cons p krs)
  obtain k row where p: "p = (k, row)" by (cases p)
  from Cons.prems obtain n u where step: "check_row n row = Inr u"
    and rest: "foldR (\<lambda>(k, row) acc. bindR (item config ''iterations'') (\<lambda>n. bindR (check_row n row) (\<lambda>_. Inr (add_row k row acc)))) krs (add_row k row acc) = Inr acc'"
    by (auto simp: p ok_iff)
  obtain e where e: "e \<in> set all_keys" "means k e" using Cons.prems(3) by (auto simp: p only_expected_def)
  have ok: "profile_ok (add_row k row acc)" using profile_ok_add[OF Cons.prems(2) check_row_ok[OF step] e] .
  have ih: "profile_ok acc' \<and> (\<forall>k' \<in> set (map fst (add_row k row acc) @ map fst krs). \<exists>k'' \<in> set (map fst acc'). key_eq k'' k' \<or> k'' = k')"
    using Cons.IH[OF rest ok] Cons.prems(3) by (auto simp: p only_expected_def)
  have old: "\<exists>k'' \<in> set (map fst acc'). key_eq k'' x \<or> k'' = x" if "x \<in> set (map fst acc)" for x
    using ih that by (auto simp: add_row_keys)
  obtain k' where k': "k' \<in> set (map fst (add_row k row acc))" "key_eq k' k \<or> k' = k" using add_row_found by blast
  obtain k'' where k'': "k'' \<in> set (map fst acc')" "key_eq k'' k' \<or> k'' = k'" using ih k'(1) by (metis UnI1 set_append)
  have "means k'' e" using e(2) k'(2) k''(2) means_eq by metis
  then have "key_eq k'' k" using means_key_eq e(2) by blast
  then have new: "\<exists>k'' \<in> set (map fst acc'). key_eq k'' k \<or> k'' = k" using k''(1) by blast
  have "\<exists>k'' \<in> set (map fst acc'). key_eq k'' x \<or> k'' = x" if x: "x \<in> set (map fst acc @ map fst (p # krs))" for x
  proof -
    from x consider "x \<in> set (map fst acc)" | "x = k" | "x \<in> set (map fst krs)" by (auto simp: p)
    then show ?thesis
    proof cases
      case 3
      then show ?thesis using ih by (metis UnI2 set_append)
    qed (use old new in blast)+
  qed
  then show ?case using ih by blast
qed auto

definition profile_state :: "scen_key list option \<times> profile \<Rightarrow> bool" where
  "profile_state st \<longleftrightarrow> profile_ok (snd st) \<and> (fst st \<noteq> None \<longrightarrow> covers (map fst (snd st)))"

lemma add_repetition_ok: "add_repetition config rep st = Inr st' \<Longrightarrow> profile_state st \<Longrightarrow> profile_state st' \<and> fst st' \<noteq> None"
proof -
  assume step: "add_repetition config rep st = Inr st'" and st: "profile_state st"
  obtain ex acc where s: "st = (ex, acc)" by (cases st)
  from step obtain rows ks acc' where rows: "mapR (row_key ''requested_compression'') rows = Inr ks" and set: "expected_set ks"
    and fold: "foldR (\<lambda>(k, row) acc. bindR (item config ''iterations'') (\<lambda>n. bindR (check_row n row) (\<lambda>_. Inr (add_row k row acc)))) (zip ks rows) acc = Inr acc'"
    and st': "st' = (Some ks, acc')"
    by (auto simp: add_repetition_def s ok_iff)
  have len: "length ks = length rows" using rows by (auto simp: mapR_ok dest: list_all2_lengthD)
  have "profile_ok acc' \<and> (\<forall>k \<in> set (map fst acc @ map fst (zip ks rows)). \<exists>k' \<in> set (map fst acc'). key_eq k' k \<or> k' = k)"
    using add_rows_ok[OF fold] st set len by (simp add: profile_state_def s expected_set_iff)
  then have ok: "profile_ok acc'" and found: "\<And>k. k \<in> set ks \<Longrightarrow> \<exists>k' \<in> set (map fst acc'). key_eq k' k \<or> k' = k" using len by auto
  have "covers (map fst acc')"
    unfolding covers_def
  proof
    fix e assume "e \<in> set all_keys"
    then obtain k where "k \<in> set ks" "means k e" using set by (auto simp: expected_set_iff covers_def)
    then show "\<exists>k \<in> set (map fst acc'). means k e" using found means_eq by metis
  qed
  then show ?thesis using ok by (simp add: st' profile_state_def)
qed

lemma chars_empty: "chars_of (length s) s = [] \<longleftrightarrow> s = []"
  by (cases s) auto

lemma profiles_ok: "profiles report = Inr acc \<Longrightarrow> profile_ok acc \<and> covers (map fst acc)"
proof -
  assume "profiles report = Inr acc"
  then obtain reps rs config st where r: "len_of reps = Inr 9" "iter_of reps = Inr rs"
    and st: "foldR (add_repetition config) rs (None, []) = Inr st" and acc: "acc = snd st"
    by (auto simp: profiles_def ok_iff)
  have "rs \<noteq> []"
    using r by (cases reps) (auto simp: len_of_def iter_of_def py_len_def chars_empty)
  then obtain rs' x where rs: "rs = rs' @ [x]" by (cases rs rule: rev_cases) auto
  obtain st1 where st1: "foldR (add_repetition config) rs' (None, []) = Inr st1" "add_repetition config x st1 = Inr st"
    using st by (auto simp: rs foldR_append ok_iff)
  have "profile_state st1"
  proof (rule foldR_invariant[OF st1(1)])
    show "profile_state (None, [])" by (simp add: profile_state_def profile_ok_def only_expected_def)
  next
    fix r s s' assume "profile_state s" "add_repetition config r s = Inr s'"
    then show "profile_state s'" using add_repetition_ok by blast
  qed
  then show ?thesis using add_repetition_ok[OF st1(2)] by (auto simp: acc profile_state_def)
qed

subsection \<open>A passed comparison\<close>

text \<open>The median of an odd number of values is one of them.\<close>

lemma set_insert_num: "set (insert_num v ws) = insert v (set ws)"
  by (induction v ws rule: insert_num.induct) auto

lemma length_insert_num: "length (insert_num v ws) = Suc (length ws)"
  by (induction v ws rule: insert_num.induct) auto

lemma sort_nums_set: "set (sort_nums vs) = set vs" "length (sort_nums vs) = length vs"
  by (induction vs) (auto simp: set_insert_num length_insert_num)

lemma median_odd_in: "median_odd vs = Inr v \<Longrightarrow> vs \<noteq> [] \<Longrightarrow> v \<in> set vs"
proof -
  assume m: "median_odd vs = Inr v" "vs \<noteq> []"
  then have "v = sort_nums vs ! (length vs div 2)" by (simp add: median_odd_def split: if_splits)
  moreover have "length vs div 2 < length (sort_nums vs)" using m(2) by (simp add: sort_nums_set)
  ultimately have "v \<in> set (sort_nums vs)" by simp
  then show ?thesis by (simp add: sort_nums_set)
qed

definition good_number :: "json \<Rightarrow> bool" where
  "good_number v \<longleftrightarrow> isfiniteR v = Inr True \<and> ltR v (FFin 0) = Inr False"

lemma timing_ok_iff: "timing_ok row f = Inr True \<longleftrightarrow> (\<exists>v. item row f = Inr v \<and> good_number v)"
  by (auto simp: timing_ok_def good_number_def ok_iff)

lemma median_field_good:
  assumes "median_field rows f = Inr v" "rows \<noteq> []" "\<forall>row \<in> set rows. timing_ok row f = Inr True"
  shows "good_number v"
proof -
  obtain vs where vs: "mapR (\<lambda>row. item row f) rows = Inr vs" "median_odd vs = Inr v" using assms(1) by (auto simp: median_field_def ok_iff)
  have l: "list_all2 (\<lambda>row v. item row f = Inr v) rows vs" using vs(1) by (simp add: mapR_ok)
  then have "vs \<noteq> []" using assms(2) by auto
  then have "v \<in> set vs" using median_odd_in[OF vs(2)] by blast
  then obtain row where "row \<in> set rows" "item row f = Inr v" using list_all2_right[OF l] by blast
  then show ?thesis using assms(3) by (auto simp: timing_ok_iff)
qed

lemma isfinite_iff: "isfinite x \<longleftrightarrow> (\<exists>r. x = FFin r)"
  by (cases x) (auto simp: isfinite_def)

lemma good_number_float: "good_number v \<Longrightarrow> \<exists>r. to_float v = Inr (FFin r)"
  by (auto simp: good_number_def isfiniteR_def ok_iff isfinite_iff)

lemma good_number_number: "good_number v \<Longrightarrow> is_number v"
  by (auto simp: good_number_def is_number_def cmpR_def split: option.splits)

lemma valid_measure_good: "good_number v \<Longrightarrow> \<not> is_bool v \<Longrightarrow> valid_measure v = Inr True"
  using good_number_number[of v] by (auto simp: valid_measure_def good_number_def ok_iff)

lemma isclose_bound: "mulR v c = Inr bound \<Longrightarrow> to_float v = Inr (FFin r) \<Longrightarrow> c = FFin q \<Longrightarrow> iscloseR (JFloat bound) bound = Inr True"
proof -
  have "fl x \<noteq> FNaN" for x by (auto simp: fl_def Let_def split: if_splits)
  then show "mulR v c = Inr bound \<Longrightarrow> to_float v = Inr (FFin r) \<Longrightarrow> c = FFin q \<Longrightarrow> iscloseR (JFloat bound) bound = Inr True"
    by (auto simp: mulR_def iscloseR_def to_float_def[of "JFloat bound"] float_isclose_def float_mul_def float_eq_refl)
qed

text \<open>The row of a measurement, its limit and the verdict of the gate agree.\<close>

definition measure_row :: "json \<Rightarrow> json \<Rightarrow> pyfloat \<Rightarrow> json" where
  "measure_row b c l = JObj [(''base'', b), (''candidate'', c), (''limit'', JFloat l)]"

lemma within_limit_row:
  assumes "good_number b" "good_number c" "\<not> is_bool b" "\<not> is_bool c" "mulR b factor = Inr bound" "gtR c bound = Inr False" "factor = FFin q"
  shows "within_limit (measure_row b c bound, factor) = Inr True"
proof -
  obtain r where "to_float b = Inr (FFin r)" using good_number_float assms(1) by blast
  then have "iscloseR (JFloat bound) bound = Inr True" using isclose_bound assms(5,7) by blast
  then show ?thesis
    using assms by (simp add: within_limit_def measure_row_def item_def valid_measure_good andR_def notR_def)
qed

text \<open>The limits as doubles\<close>

lemma quotient_frac: "0 < b \<Longrightarrow> gcd a b = 1 \<Longrightarrow> quotient_of (of_int a / of_int b) = (a, b)"
  by (metis Fract_of_int_quotient coprime_iff_gcd_eq_1 normalize_stable quotient_of_Fract)

lemma quotients: "quotient_of (21 / 20) = (21, 20)" "quotient_of (11 / 10) = (11, 10)" "quotient_of (17 / 20) = (17, 20)"
  "quotient_of (2476979795053773 / 2251799813685248) = (2476979795053773, 2251799813685248)"
  using quotient_frac[of 20 21] quotient_frac[of 10 11] quotient_frac[of 20 17] quotient_frac[of 2251799813685248 2476979795053773]
  by (simp_all add: gcd_non_0_int)

lemma floors: "\<lfloor>23643898043695104 / 5 :: rat\<rfloor> = 4728779608739020" "\<lfloor>24769797950537728 / 5 :: rat\<rfloor> = 4953959590107545" "\<lfloor>38280596832649216 / 5 :: rat\<rfloor> = 7656119366529843"
  by (rule floor_unique; simp)+

lemma factors: "latency_factor = FFin (4728779608739021 / 4503599627370496)" "heap_factor = FFin (2476979795053773 / 2251799813685248)"
  "min_throughput = FFin (7656119366529843 / 9007199254740992)"
  by (simp_all add: latency_factor_def heap_factor_def min_throughput_def fl_def ilog2_def quotients nlog2.simps pow2_def round_even_def floors Let_def)

lemma fl_one: "fl 1 = FFin 1"
  by (simp add: fl_def ilog2_def nlog2.simps pow2_def round_even_def floors Let_def)

text \<open>What the gate needs beyond the comparison: no boolean in place of a number, and a finite ratio.\<close>

definition plain_measure :: "json \<Rightarrow> bool" where
  "plain_measure m = (case m of JObj kvs \<Rightarrow> \<not> is_bool (field kvs ''base'') \<and> \<not> is_bool (field kvs ''candidate'') | _ \<Rightarrow> True)"

definition plain_scenario :: "json \<Rightarrow> bool" where
  "plain_scenario s = (case s of JObj kvs \<Rightarrow> plain_measure (field kvs ''send_p95_us'') \<and> plain_measure (field kvs ''receive_p95_us'') | _ \<Rightarrow> True)"

definition plain_report :: "json \<Rightarrow> bool" where
  "plain_report r = (case r of JObj kvs \<Rightarrow> plain_measure (field kvs ''heap_growth_bytes'')
       \<and> (case field kvs ''scenarios'' of JList ss \<Rightarrow> list_all plain_scenario ss | _ \<Rightarrow> True)
       \<and> isfiniteR (field kvs ''throughput_ratio'') = Inr True
     | _ \<Rightarrow> False)"

lemma compare_field_ok:
  assumes "compare_field key rows updated f = Inr (m, [])" "rows \<noteq> []" "updated \<noteq> []"
    and "\<forall>row \<in> set rows. timing_ok row f = Inr True" "\<forall>row \<in> set updated. timing_ok row f = Inr True" "plain_measure m"
  shows "within_limit (m, latency_factor) = Inr True"
proof -
  from assms(1) obtain b c bound where bc: "median_field rows f = Inr b" "median_field updated f = Inr c" "mulR b latency_factor = Inr bound"
    "gtR c bound = Inr False" and m: "m = measure_row b c bound"
    by (auto simp: compare_field_def ok_iff measure_row_def split: if_splits)
  have "good_number b" "good_number c" using median_field_good[OF bc(1) assms(2,4)] median_field_good[OF bc(2) assms(3,5)] .
  then show ?thesis using within_limit_row[OF _ _ _ _ bc(3,4) factors(1)] assms(6) by (simp add: m plain_measure_def measure_row_def field_def)
qed

lemma heap_gate_ok:
  assumes "heap_gate base candidate = Inr ([], [], h)" "plain_measure h"
  shows "within_limit (h, heap_factor) = Inr True" "h \<noteq> JNull"
proof -
  from assms(1) obtain b c bound where bc: "heap_ok b = Inr True" "heap_ok c = Inr True" "mulR b heap_factor = Inr bound"
    "gtR c bound = Inr False" and h: "h = measure_row b c bound"
    by (auto simp: heap_gate_def ok_iff measure_row_def split: if_splits)
  have g: "good_number v" if "heap_ok v = Inr True" for v using that by (auto simp: heap_ok_def good_number_def ok_iff split: if_splits)
  show "within_limit (h, heap_factor) = Inr True"
    using within_limit_row[OF g[OF bc(1)] g[OF bc(2)] _ _ bc(3,4) factors(2)] assms(2) by (simp add: h plain_measure_def measure_row_def field_def)
  show "h \<noteq> JNull" by (simp add: h measure_row_def)
qed

definition scenario_row :: "scen_key \<Rightarrow> json \<Rightarrow> json \<Rightarrow> json" where
  "scenario_row key x y = JObj [(''case'', fst key), (''compression'', fst (snd key)), (''signed'', snd (snd key)), (''send_p95_us'', x), (''receive_p95_us'', y)]"

lemma scenario_row_items:
  "row_key ''compression'' (scenario_row key x y) = Inr key"
  "item (scenario_row key x y) ''send_p95_us'' = Inr x" "item (scenario_row key x y) ''receive_p95_us'' = Inr y"
  by (simp_all add: scenario_row_def row_key_def item_def)

lemma compare_scenario_ok:
  assumes "compare_scenario after (key, rows) = Inr (s, [])" "plain_scenario s"
    and "rows \<noteq> []" "list_all row_ok rows" "profile_ok after"
  obtains x y where "s = scenario_row key x y" "within_limit (x, latency_factor) = Inr True" "within_limit (y, latency_factor) = Inr True"
proof -
  from assms(1) obtain kk upd x y where upd: "find (\<lambda>(k, _). key_eq k key) after = Some (kk, upd)"
    and xy: "compare_field key rows upd ''send_p95_us'' = Inr (x, [])" "compare_field key rows upd ''receive_p95_us'' = Inr (y, [])"
    and s: "s = scenario_row key x y"
    by (auto simp: compare_scenario_def ok_iff scenario_row_def)
  have "(kk, upd) \<in> set after" using upd by (metis find_Some_iff nth_mem)
  then have u: "upd \<noteq> []" "list_all row_ok upd" using assms(5) by (auto simp: profile_ok_def)
  have p: "plain_measure x" "plain_measure y" using assms(2) by (simp_all add: s plain_scenario_def scenario_row_def field_def)
  have t: "\<forall>row \<in> set rows. timing_ok row f = Inr True" "\<forall>row \<in> set upd. timing_ok row f = Inr True"
    if "f = ''send_p95_us'' \<or> f = ''receive_p95_us''" for f
    using that assms(4) u(2) by (auto simp: list_all_iff row_ok_def)
  show thesis
    using that[OF s compare_field_ok[OF xy(1) assms(3) u(1) t p(1)] compare_field_ok[OF xy(2) assms(3) u(1) t p(2)]] by simp
qed

text \<open>All scenarios of a comparison without failures\<close>

lemma scenarios_ok:
  assumes "mapR (compare_scenario after) ps = Inr scs" "concat (map snd scs) = []" "list_all plain_scenario (map fst scs)"
    and "\<forall>(k, rows) \<in> set ps. rows \<noteq> [] \<and> list_all row_ok rows" "profile_ok after"
  shows "mapR (row_key ''compression'') (map fst scs) = Inr (map fst ps) \<and>
    (\<exists>pairs. mapR (\<lambda>row. mapR (\<lambda>f. bindR (item row f) (\<lambda>x. Inr (x, latency_factor))) [''send_p95_us'', ''receive_p95_us'']) (map fst scs) = Inr pairs
      \<and> (\<forall>q \<in> set (concat pairs). within_limit q = Inr True))"
  using assms
proof (induction ps arbitrary: scs)
  case (Cons p ps)
  obtain key rows where p: "p = (key, rows)" by (cases p)
  from Cons.prems(1) obtain s fs rest where sc: "compare_scenario after p = Inr (s, fs)" and rest: "mapR (compare_scenario after) ps = Inr rest"
    and scs: "scs = (s, fs) # rest"
    by (auto simp: ok_iff)
  have fs: "fs = []" and more: "concat (map snd rest) = []" using Cons.prems(2) by (simp_all add: scs)
  have pl: "plain_scenario s" "list_all plain_scenario (map fst rest)" using Cons.prems(3) by (simp_all add: scs)
  have pr: "rows \<noteq> []" "list_all row_ok rows" "\<forall>(k, rows) \<in> set ps. rows \<noteq> [] \<and> list_all row_ok rows" using Cons.prems(4) by (auto simp: p)
  obtain x y where s: "s = scenario_row key x y" and w: "within_limit (x, latency_factor) = Inr True" "within_limit (y, latency_factor) = Inr True"
    using compare_scenario_ok[OF sc[unfolded p fs] pl(1) pr(1,2) Cons.prems(5)] .
  obtain pairs where ih: "mapR (row_key ''compression'') (map fst rest) = Inr (map fst ps)"
    "mapR (\<lambda>row. mapR (\<lambda>f. bindR (item row f) (\<lambda>x. Inr (x, latency_factor))) [''send_p95_us'', ''receive_p95_us'']) (map fst rest) = Inr pairs"
    "\<forall>q \<in> set (concat pairs). within_limit q = Inr True"
    using Cons.IH[OF rest more pl(2) pr(3) Cons.prems(5)] by blast
  show ?case using ih w by (simp add: scs p s scenario_row_items)
qed auto

lemma hashable_keys: "only_expected ks \<Longrightarrow> list_all key_hashable ks"
  using means_hashable by (auto simp: only_expected_def list_all_iff)

text \<open>The report of a comparison without failures and without pending metrics\<close>

lemma compare_section:
  assumes "compare base candidate = Inr r" "item r ''failures'' = Inr (JList [])" "item r ''pending_metrics'' = Inr (JList [])" "plain_report r"
    and "item report name = Inr r"
  shows "section_ok report name = Inr True"
proof -
  define verdict where "verdict scs ratio hf = concat (map snd scs)
     @ (if float_lt ratio min_throughput then [''Whole harness throughput ratio '' @ repr_float ratio @ '' < 0.85''] else []) @ hf"
    for scs :: "(json \<times> string list) list" and ratio hf
  from assms(1) obtain before after scs ratio hf pending heap rb rc
    where prof: "profiles base = Inr before" "profiles candidate = Inr after"
      and scs: "mapR (compare_scenario after) before = Inr scs" and hg: "heap_gate base candidate = Inr (hf, pending, heap)"
      and r: "r = comparison_report (map fst scs) ratio rb rc heap pending (verdict scs ratio hf)"
    by (simp add: compare_def ok_iff verdict_def Let_def split_beta del: mapR.simps) (metis prod.collapse)
  have pend: "pending = []" and f0: "verdict scs ratio hf = []" using assms(2,3) by (simp_all add: r comparison_report_def item_def)
  have parts: "concat (map snd scs) = []" "\<not> float_lt ratio min_throughput" "hf = []" using f0 by (simp_all add: verdict_def split: if_splits)
  have plain: "plain_measure heap" "list_all plain_scenario (map fst scs)" "isfiniteR (JFloat ratio) = Inr True"
    using assms(4) by (simp_all add: r plain_report_def comparison_report_def field_def)
  have p1: "profile_ok before" "covers (map fst before)" and p2: "profile_ok after" using profiles_ok prof by blast+
  have keys: "distinct_keys (map fst before)" "only_expected (map fst before)" using p1(1) by (simp_all add: profile_ok_def)
  obtain pairs where sc: "mapR (row_key ''compression'') (map fst scs) = Inr (map fst before)"
    and pairs: "mapR (\<lambda>row. mapR (\<lambda>f. bindR (item row f) (\<lambda>x. Inr (x, latency_factor))) [''send_p95_us'', ''receive_p95_us'']) (map fst scs) = Inr pairs"
      "\<forall>q \<in> set (concat pairs). within_limit q = Inr True"
    using scenarios_ok[OF scs parts(1) plain(2) _ p2] p1(1) by (auto simp: profile_ok_def)
  have heap: "within_limit (heap, heap_factor) = Inr True" "heap \<noteq> JNull"
    using heap_gate_ok[OF hg[unfolded pend parts(3)] plain(1)] by blast+
  have len: "length (map fst scs) = 18" using expected_length[OF keys p1(2)] scs by (auto simp: mapR_ok dest: list_all2_lengthD)
  have st: "section_status_ok r = Inr True" using heap(2)
    by (simp add: section_status_ok_def r comparison_report_def comparison_status_def pend f0 dget_def)
  have scen: "section_scenarios_ok (JList (map fst scs)) = Inr True"
    using len sc hashable_keys[OF keys(2)] keys(2) p1(2)
    by (simp add: section_scenarios_ok_def len_of_def iter_of_def expected_set_iff expected_keys_all all_keys_distinct)
  have items: "item r ''scenarios'' = Inr (JList (map fst scs))" "item r ''throughput_ratio'' = Inr (JFloat ratio)" "item r ''heap_growth_bytes'' = Inr heap"
    by (simp_all add: r comparison_report_def item_def)
  have sp: "bindR (iter_of (JList (map fst scs))) (section_pairs r) = Inr ((heap, heap_factor) # concat pairs)"
    using pairs(1) by (simp add: iter_of_def section_pairs_def items)
  have lim: "allR within_limit ((heap, heap_factor) # concat pairs) = Inr True" unfolding allR_ok using heap(1) pairs(2) by simp
  have thr: "ltR (JFloat ratio) min_throughput = Inr False" using parts(2) by (simp add: cmpR_def num_of_def)
  show ?thesis
    unfolding section_ok_def assms(5) bindR_simps st items(1,2) scen sp lim by (simp add: andR_def notR_def plain(3) thr lim)
qed

lemma compare_lists:
  assumes "compare base candidate = Inr r"
  obtains fs ps where "item r ''failures'' = Inr (JList (map JStr fs))" "item r ''pending_metrics'' = Inr (JList (map JStr ps))"
proof -
  from assms obtain scs ratio rb rc heap pending fs where "r = comparison_report scs ratio rb rc heap pending fs"
    by (auto simp: compare_def ok_iff Let_def split_beta simp del: mapR.simps)
  then show thesis using that by (simp add: comparison_report_def item_def)
qed

lemma compare_clean: "compare base candidate = Inr r \<Longrightarrow> any_truthy r [k] = Inr False \<Longrightarrow> k \<in> {''failures'', ''pending_metrics''} \<Longrightarrow> item r k = Inr (JList [])"
  by (erule compare_lists) (auto simp: any_truthy_def truthy_def ok_iff)

lemma qualify_parts:
  assumes "qualify control forward reverse = Inr report" "item report ''status'' = Inr (JStr ''pass'')"
  shows "any_truthy control [''failures''] = Inr False" "any_truthy control [''pending_metrics''] = Inr False"
    "any_truthy forward [''failures''] = Inr False" "any_truthy forward [''pending_metrics''] = Inr False"
    "any_truthy reverse [''failures''] = Inr False" "any_truthy reverse [''pending_metrics''] = Inr False"
    "report = JObj [(''status'', JStr ''pass''), (''control'', control), (''forward'', forward), (''reverse'', reverse)]"
  using assms by (auto simp: qualify_def ok_iff item_def any_truthy_def split: if_splits)

lemma qualified_approved:
  assumes "compare b1 c1 = Inr control" "compare b2 c2 = Inr forward" "compare b3 c3 = Inr reverse"
    and "qualify control forward reverse = Inr report" "item report ''status'' = Inr (JStr ''pass'')"
    and "plain_report control" "plain_report forward" "plain_report reverse"
  shows "approved_controlled_comparison report = Inr True"
proof -
  note q = qualify_parts[OF assms(4,5)]
  have c: "item control ''failures'' = Inr (JList [])" "item control ''pending_metrics'' = Inr (JList [])"
    using compare_clean[OF assms(1)] q by blast+
  have f: "item forward ''failures'' = Inr (JList [])" "item forward ''pending_metrics'' = Inr (JList [])"
    using compare_clean[OF assms(2)] q by blast+
  have v: "item reverse ''failures'' = Inr (JList [])" "item reverse ''pending_metrics'' = Inr (JList [])"
    using compare_clean[OF assms(3)] q by blast+
  have "section_ok report ''control'' = Inr True" "section_ok report ''forward'' = Inr True" "section_ok report ''reverse'' = Inr True"
    using compare_section[OF assms(1) c assms(6)] compare_section[OF assms(2) f assms(7)] compare_section[OF assms(3) v assms(8)]
    by (simp_all add: q(7) item_def)
  then show ?thesis by (simp add: approved_controlled_comparison_def q(7) dget_def andR_def)
qed

subsection \<open>An example\<close>

definition demo_transport_row :: "string \<times> string \<times> bool \<Rightarrow> json" where
  "demo_transport_row e = (case e of (c, m, b) \<Rightarrow> JObj [(''case'', JStr c), (''requested_compression'', JStr m), (''signed'', JBool b),
     (''iterations'', JInt 100), (''send_sample_count'', JInt 100), (''receive_sample_count'', JInt 100), (''send_p95_us'', JInt 0), (''receive_p95_us'', JInt 0),
     (''summary'', JObj [(''error_count'', JInt 0)]), (''original_bytes'', JInt 5), (''wire_bytes'', JInt 5), (''effective_compression'', JStr m)])"

definition demo_transport :: json where
  "demo_transport = JObj [(''harness_version'', JInt 2), (''dart_version'', JStr ''3''), (''platform'', JStr ''windows''),
     (''config'', JObj [(''repeats'', JInt 9), (''iterations'', JInt 100), (''warmup_iterations'', JInt 10)]),
     (''repetitions'', JList (replicate 9 (JList (map demo_transport_row all_keys)))), (''elapsed_us'', JList (replicate 9 (JInt 1))),
     (''heap_growth_bytes'', JInt 1), (''rss_peak_bytes'', JInt 7)]"

lemma json_key_eq: "key_eq (json_key a) (json_key b) \<longleftrightarrow> a = b"
  unfolding key_eq_expected by (cases a; cases b) (auto simp: json_key_def means_def)

lemma add_row_old: "distinct es \<Longrightarrow> e \<in> set es \<Longrightarrow>
    add_row (json_key e) row (map (\<lambda>x. (json_key x, R x)) es) = map (\<lambda>x. (json_key x, if x = e then R x @ [row] else R x)) es"
  by (induction es) (auto simp: json_key_eq)

lemma add_row_new: "e \<notin> set es \<Longrightarrow> add_row (json_key e) row (map (\<lambda>x. (json_key x, R x)) es) = map (\<lambda>x. (json_key x, R x)) es @ [(json_key e, [row])]"
  by (induction es) (auto simp: json_key_eq)

text \<open>A repetition whose rows are given by their keys\<close>

definition rep_of :: "(string \<times> string \<times> bool \<Rightarrow> json) \<Rightarrow> json" where
  "rep_of row = JList (map row all_keys)"

definition keyed :: "(string \<times> string \<times> bool \<Rightarrow> json) \<Rightarrow> json \<Rightarrow> bool" where
  "keyed row n \<longleftrightarrow> (\<forall>e. row_key ''requested_compression'' (row e) = Inr (json_key e) \<and> check_row n (row e) = Inr ())"

lemma keyedD: "keyed row n \<Longrightarrow> row_key ''requested_compression'' (row e) = Inr (json_key e)" "keyed row n \<Longrightarrow> check_row n (row e) = Inr ()"
  unfolding keyed_def by blast+

abbreviation rows_step :: "json \<Rightarrow> scen_key \<times> json \<Rightarrow> profile \<Rightarrow> profile res" where
  "rows_step config \<equiv> \<lambda>(k, row) acc. bindR (item config ''iterations'') (\<lambda>n. bindR (check_row n row) (\<lambda>_. Inr (add_row k row acc)))"

lemma first_rows:
  "keyed row n \<Longrightarrow> item config ''iterations'' = Inr n \<Longrightarrow> distinct (ds @ es) \<Longrightarrow>
    foldR (rows_step config) (zip (map json_key es) (map row es)) (map (\<lambda>x. (json_key x, [row x])) ds)
      = Inr (map (\<lambda>x. (json_key x, [row x])) (ds @ es))"
proof (induction es arbitrary: ds)
  case (Cons e es)
  have a: "add_row (json_key e) (row e) (map (\<lambda>x. (json_key x, [row x])) ds) = map (\<lambda>x. (json_key x, [row x])) (ds @ [e])"
    using Cons.prems(3) by (simp add: add_row_new[where R = "\<lambda>x. [row x]"])
  show ?case using Cons.IH[of "ds @ [e]"] Cons.prems by (simp add: keyedD a)
qed simp

lemma next_rows:
  "keyed row n \<Longrightarrow> item config ''iterations'' = Inr n \<Longrightarrow> distinct all \<Longrightarrow> distinct es \<Longrightarrow> set es \<subseteq> set all \<Longrightarrow>
    foldR (rows_step config) (zip (map json_key es) (map row es)) (map (\<lambda>x. (json_key x, R x)) all)
      = Inr (map (\<lambda>x. (json_key x, if x \<in> set es then R x @ [row x] else R x)) all)"
proof (induction es arbitrary: R)
  case (Cons e es)
  have a: "add_row (json_key e) (row e) (map (\<lambda>x. (json_key x, R x)) all) = map (\<lambda>x. (json_key x, if x = e then R x @ [row e] else R x)) all"
    using add_row_old[OF Cons.prems(3)] Cons.prems(5) by simp
  have "foldR (rows_step config) (zip (map json_key (e # es)) (map row (e # es))) (map (\<lambda>x. (json_key x, R x)) all)
      = foldR (rows_step config) (zip (map json_key es) (map row es)) (map (\<lambda>x. (json_key x, if x = e then R x @ [row e] else R x)) all)"
    using Cons.prems(1,2) by (simp add: keyedD a)
  also have "\<dots> = Inr (map (\<lambda>x. (json_key x, if x \<in> set es then (if x = e then R x @ [row e] else R x) @ [row x] else if x = e then R x @ [row e] else R x)) all)"
    using Cons.IH[of "\<lambda>x. if x = e then R x @ [row e] else R x"] Cons.prems by simp
  also have "\<dots> = Inr (map (\<lambda>x. (json_key x, if x \<in> set (e # es) then R x @ [row x] else R x)) all)"
    using Cons.prems(4) by auto
  finally show ?case .
qed simp

lemma json_keys_ok: "list_all key_hashable (map json_key all_keys)" "expected_set (map json_key all_keys)" "distinct_keys (map json_key all_keys)"
  "list_all2 key_eq (map json_key all_keys) (map json_key all_keys)"
proof -
  have m: "means (json_key e) e" for e by (cases e) (simp add: means_def json_key_def)
  have o: "only_expected (map json_key all_keys)" using m by (auto simp: only_expected_def)
  show "list_all key_hashable (map json_key all_keys)" by (rule hashable_keys[OF o])
  show "expected_set (map json_key all_keys)" using o m by (auto simp: expected_set_iff covers_def)
  have "distinct es \<Longrightarrow> distinct_keys (map json_key es)" for es by (induction es) (auto simp: list_ex_iff json_key_eq)
  then show "distinct_keys (map json_key all_keys)" using all_keys_distinct by blast
  show "list_all2 key_eq (map json_key all_keys) (map json_key all_keys)" by (auto simp: list_all2_conv_all_nth json_key_eq)
qed

lemma keyed_rows: "keyed row n \<Longrightarrow> mapR (row_key ''requested_compression'') (map row all_keys) = Inr (map json_key all_keys)"
  unfolding mapR_ok by (auto simp: list_all2_conv_all_nth keyedD)

lemma repeated_reps:
  assumes "keyed row n" "item config ''iterations'' = Inr n"
  shows "foldR (add_repetition config) (replicate k (rep_of row)) (Some (map json_key all_keys), map (\<lambda>x. (json_key x, replicate m (row x))) all_keys)
    = Inr (Some (map json_key all_keys), map (\<lambda>x. (json_key x, replicate (m + k) (row x))) all_keys)"
proof (induction k arbitrary: m)
  case (Suc k)
  have "add_repetition config (rep_of row) (Some (map json_key all_keys), map (\<lambda>x. (json_key x, replicate m (row x))) all_keys)
      = Inr (Some (map json_key all_keys), map (\<lambda>x. (json_key x, replicate (Suc m) (row x))) all_keys)"
    using next_rows[OF assms all_keys_distinct(1) all_keys_distinct(1) subset_refl, of "\<lambda>x. replicate m (row x)"] keyed_rows[OF assms(1)] json_keys_ok
    by (simp add: add_repetition_def rep_of_def iter_of_def replicate_append_same)
  then show ?case using Suc.IH[of "Suc m"] by simp
qed simp

lemma all_reps:
  assumes "keyed row n" "item config ''iterations'' = Inr n"
  shows "foldR (add_repetition config) (replicate (Suc k) (rep_of row)) (None, [])
    = Inr (Some (map json_key all_keys), map (\<lambda>x. (json_key x, replicate (Suc k) (row x))) all_keys)"
proof -
  have "add_repetition config (rep_of row) (None, []) = Inr (Some (map json_key all_keys), map (\<lambda>x. (json_key x, replicate 1 (row x))) all_keys)"
    using first_rows[OF assms, of "[]" all_keys] all_keys_distinct(1) keyed_rows[OF assms(1)] json_keys_ok
    by (simp add: add_repetition_def rep_of_def iter_of_def)
  then show ?thesis using repeated_reps[OF assms, of k 1] by simp
qed

lemma demo_keyed: "keyed demo_transport_row (JInt 100)"
proof -
  have "row_key ''requested_compression'' (demo_transport_row (c, m, b)) = Inr (json_key (c, m, b)) \<and> check_row (JInt 100) (demo_transport_row (c, m, b)) = Inr ()" for c m b
    by (simp add: demo_transport_row_def row_key_def json_key_def item_def check_row_def dget_def timing_ok_def isfiniteR_def to_float_def float_of_int_def
        fl_def isfinite_def cmpR_def num_of_def float_lt_def float_le_def andR_def notR_def truthy_def)
  then show ?thesis by (simp add: keyed_def)
qed

lemma demo_profiles: "profiles demo_transport = Inr (map (\<lambda>e. (json_key e, replicate 9 (demo_transport_row e))) all_keys)"
  using all_reps[OF demo_keyed, of "JObj [(''repeats'', JInt 9), (''iterations'', JInt 100), (''warmup_iterations'', JInt 10)]" 8]
  by (simp add: profiles_def demo_transport_def item_def len_of_def iter_of_def rep_of_def numeral_eq_Suc)

definition zero_measure :: json where
  "zero_measure = measure_row (JInt 0) (JInt 0) (FFin 0)"

definition demo_comparison :: json where
  "demo_comparison = comparison_report (map (\<lambda>e. scenario_row (json_key e) zero_measure zero_measure) all_keys) (FFin 1) (JInt 7) (JInt 7)
     (measure_row (JInt 1) (JInt 1) (FFin (2476979795053773 / 2251799813685248))) [] []"

lemma demo_median: "median_odd (replicate 9 (JInt 0)) = Inr (JInt 0)" "median_odd (replicate 9 (JInt 1)) = Inr (JInt 1)"
  by code_simp+

lemma zero_mul: "mulR (JInt 0) latency_factor = Inr (FFin 0)"
  by (simp add: mulR_def to_float_def float_of_int_def fl_def isfinite_def factors float_mul_def)

lemma demo_field: "f \<in> {''send_p95_us'', ''receive_p95_us''} \<Longrightarrow>
    compare_field k (replicate 9 (demo_transport_row e)) (replicate 9 (demo_transport_row e)) f = Inr (zero_measure, [])"
proof -
  assume f: "f \<in> {''send_p95_us'', ''receive_p95_us''}"
  have i: "item (demo_transport_row e) f = Inr (JInt 0)" using f by (cases e) (auto simp: demo_transport_row_def item_def)
  have "mapR (\<lambda>row. item row f) (replicate n (demo_transport_row e)) = Inr (replicate n (JInt 0))" for n by (induction n) (simp_all add: i)
  then show ?thesis
    by (simp add: compare_field_def median_field_def demo_median zero_mul cmpR_def num_of_def float_lt_def float_le_def zero_measure_def measure_row_def)
qed

lemma transport_same_ok: "f \<in> {''iterations'', ''original_bytes'', ''wire_bytes'', ''effective_compression''} \<Longrightarrow>
    same_field (replicate 9 (demo_transport_row e)) (replicate 9 (demo_transport_row e)) f = Inr ()"
proof -
  assume f: "f \<in> {''iterations'', ''original_bytes'', ''wire_bytes'', ''effective_compression''}"
  obtain v where v: "item (demo_transport_row e) f = Inr v" "py_eq v v" using f by (cases e) (auto simp: demo_transport_row_def item_def)
  have "anyR (\<lambda>row. bindR (item row f) (\<lambda>v. bindR (item (hd (replicate 9 (demo_transport_row e))) f) (\<lambda>v0. Inr (\<not> py_eq v v0))))
      (replicate 9 (demo_transport_row e) @ replicate 9 (demo_transport_row e)) = Inr False"
    unfolding anyR_ok by (simp add: v)
  then show ?thesis by (simp add: same_field_def)
qed

lemma find_key: "e \<in> set es \<Longrightarrow> find (\<lambda>(k, _). key_eq k (json_key e)) (map (\<lambda>e. (json_key e, R e)) es) = Some (json_key e, R e)"
  by (induction es) (auto simp: json_key_eq)

lemma demo_scenarios: "mapR (compare_scenario (map (\<lambda>e. (json_key e, replicate 9 (demo_transport_row e))) all_keys))
    (map (\<lambda>e. (json_key e, replicate 9 (demo_transport_row e))) all_keys)
  = Inr (map (\<lambda>e. (scenario_row (json_key e) zero_measure zero_measure, [])) all_keys)"
proof -
  have "compare_scenario (map (\<lambda>e. (json_key e, replicate 9 (demo_transport_row e))) all_keys) (json_key e, replicate 9 (demo_transport_row e))
      = Inr (scenario_row (json_key e) zero_measure zero_measure, [])" if "e \<in> set all_keys" for e
    using find_key[OF that, of "\<lambda>e. replicate 9 (demo_transport_row e)"]
    by (simp add: compare_scenario_def transport_same_ok demo_field scenario_row_def)
  then show ?thesis unfolding mapR_ok by (auto simp: list_all2_conv_all_nth)
qed

lemma heap_double: "fl (2476979795053773 / 2251799813685248) = FFin (2476979795053773 / 2251799813685248)"
proof -
  have n: "nlog2 (nat 2476979795053773) = 51" "nlog2 (nat 2251799813685248) = 51" by (simp_all add: nlog2.simps)
  have "ilog2 (2476979795053773 / 2251799813685248) = 0" unfolding ilog2_def quotients prod.case n by (simp add: pow2_def)
  moreover have "round_even 4953959590107546 = 4953959590107546" by (simp add: round_even_def)
  ultimately show ?thesis by (simp add: fl_def Let_def pow2_def)
qed

lemma heap_mul: "mulR (JInt 1) heap_factor = Inr (FFin (2476979795053773 / 2251799813685248))"
  by (simp add: mulR_def to_float_def float_of_int_def isfinite_def factors float_mul_def fl_one heap_double)

lemma demo_heap: "heap_gate demo_transport demo_transport = Inr ([], [], measure_row (JInt 1) (JInt 1) (FFin (2476979795053773 / 2251799813685248)))"
  by (simp add: heap_gate_def has_key_def demo_transport_def item_def heap_mul heap_ok_def is_number_def num_of_def isfiniteR_def to_float_def
      float_of_int_def fl_one isfinite_def cmpR_def float_lt_def float_le_def andR_def notR_def measure_row_def)

lemma demo_throughput: "throughput demo_transport demo_transport = Inr (FFin 1)"
  by (simp add: throughput_def demo_transport_def item_def median_of_def iter_of_def demo_median isfiniteR_def to_float_def float_of_int_def fl_one
      isfinite_def cmpR_def num_of_def float_le_def andR_def notR_def divR_def int_val_def)

lemma demo_ratio: "\<not> float_lt (FFin 1) min_throughput"
  by (simp add: factors float_lt_def float_le_def)

lemma transport_config_ok: "mapR (check_same demo_transport demo_transport) [''harness_version'', ''dart_version'', ''platform'', ''config''] = Inr [(), (), (), ()]"
  "check_config demo_transport = Inr ()"
  by (simp_all add: check_same_def demo_transport_def item_def check_config_def orR_def dget_or_def cmpR_def num_of_def float_lt_def float_le_def)

lemma no_failures: "concat (map (\<lambda>x. []) es) = []"
  by (induction es) auto

lemma demo_compare: "compare demo_transport demo_transport = Inr demo_comparison"
proof -
  have "item demo_transport ''rss_peak_bytes'' = Inr (JInt 7)" by (simp add: demo_transport_def item_def)
  then show ?thesis
    unfolding compare_def transport_config_ok demo_profiles bindR_simps demo_throughput demo_heap demo_scenarios
    using json_keys_ok(4) by (simp add: comp_def demo_ratio demo_comparison_def no_failures)
qed

lemma demo_plain: "plain_report demo_comparison"
  by (simp add: plain_report_def demo_comparison_def comparison_report_def field_def measure_row_def plain_measure_def is_bool_def list_all_iff
      plain_scenario_def scenario_row_def zero_measure_def isfiniteR_def to_float_def isfinite_def)

definition demo_report :: json where
  "demo_report = JObj [(''status'', JStr ''pass''), (''control'', demo_comparison), (''forward'', demo_comparison), (''reverse'', demo_comparison)]"

lemma demo_qualify: "qualify demo_comparison demo_comparison demo_comparison = Inr demo_report"
  by (simp add: qualify_def any_truthy_def demo_comparison_def comparison_report_def item_def truthy_def orR_def demo_report_def)

text \<open>
  C28. The report of a qualified run is approved: when the A/A control and the two A/B comparisons were computed by
  \<open>compare\<close> and \<open>qualify\<close> reports \<open>pass\<close>, then \<open>approved_controlled_comparison\<close> accepts the report, provided that no
  measurement is a boolean and the throughput ratio is finite.
\<close>

theorem qualified_run_approved:
  assumes "compare b1 c1 = Inr control" "compare b2 c2 = Inr forward" "compare b3 c3 = Inr reverse"
    and "qualify control forward reverse = Inr report" "item report ''status'' = Inr (JStr ''pass'')"
    and "plain_report control" "plain_report forward" "plain_report reverse"
  shows "approved_controlled_comparison report = Inr True"
  using assms by (rule qualified_approved)

theorem qualified_run_approved_witness:
  "compare demo_transport demo_transport = Inr demo_comparison \<and> qualify demo_comparison demo_comparison demo_comparison = Inr demo_report
    \<and> approved_controlled_comparison demo_report = Inr True"
proof -
  have "item demo_report ''status'' = Inr (JStr ''pass'')" by (simp add: demo_report_def item_def)
  then show ?thesis
    using qualified_run_approved[OF demo_compare demo_compare demo_compare demo_qualify _ demo_plain demo_plain demo_plain] demo_compare demo_qualify by blast
qed

end
