(* ===== verification/Bench_CompareSpec.thy ===== *)
theory Bench_CompareSpec
  imports Bench_Compare Bench_TransportSpec
begin

text \<open>
  The flat view of a summary holds only measured metrics; only complete and approved runs are promoted; the gate of the native
  benchmark does what it says; and a suite that was skipped in two runs makes their comparison inconclusive.
\<close>

subsection \<open>The flat view\<close>

text \<open>An entry of the flat view is the finite value of a latency, throughput or memory metric of a passing suite that is not excluded.\<close>

definition measured_metric :: "json list \<Rightarrow> string list \<Rightarrow> string \<times> json \<Rightarrow> bool" where
  "measured_metric suites excluded kv \<longleftrightarrow> (\<exists>suite ms key x meta category r.
     JObj suite \<in> set suites \<and> str_json (field_or suite ''id'' (JStr ''unknown'')) \<notin> set excluded \<and>
     field_or suite ''status'' (JStr ''pass'') = JStr ''pass'' \<and> field suite ''metrics'' = JObj ms \<and> (key, x) \<in> set ms \<and>
     \<not> is_bool x \<and> to_float x = Inr (FFin r) \<and>
     dget_or (field_or suite ''metric_metadata'' (JObj [])) key (JObj (metric_metadata key)) = Inr meta \<and>
     dget meta ''category'' = Inr (JStr category) \<and> category \<in> set [''latency'', ''throughput'', ''memory''] \<and>
     kv = (str_json (field_or suite ''id'' (JStr ''unknown'')) @ ''.'' @ key, JFloat (FFin r)))"

definition flat_ok :: "json list \<Rightarrow> string list \<Rightarrow> dict \<Rightarrow> bool" where
  "flat_ok suites excluded d \<longleftrightarrow> distinct (map fst d) \<and> list_all (measured_metric suites excluded) d"

lemma in_strs_True: "in_strs ss v = Inr True \<Longrightarrow> \<exists>s. v = JStr s \<and> s \<in> set ss"
  by (auto simp: in_strs_def split: if_splits)

lemma flat_ok_put: "flat_ok vs ex d \<Longrightarrow> measured_metric vs ex (k, v) \<Longrightarrow> flat_ok vs ex (dict_put k v d)"
  using dict_put_subset[of k v d] by (auto simp: flat_ok_def distinct_dict_put list_all_iff)

lemma yields_foldR_in: "P b \<Longrightarrow> (\<And>x b. x \<in> set xs \<Longrightarrow> P b \<Longrightarrow> yields P (f x b)) \<Longrightarrow> yields P (foldR f xs b)"
proof (induction xs arbitrary: b)
  case (Cons x xs)
  have "P b'" if "f x b = Inr b'" for b' using Cons.prems(2)[of x b] Cons.prems(1) that by (simp add: yields_def)
  then show ?case using Cons.IH Cons.prems(2) by (simp add: yields_bind)
qed (auto simp: yields_def)

lemma flatten_metric_ok:
  assumes "flat_ok vs ex d" "JObj suite \<in> set vs" "str_json (field_or suite ''id'' (JStr ''unknown'')) \<notin> set ex"
    "field_or suite ''status'' (JStr ''pass'') = JStr ''pass''" "field suite ''metrics'' = JObj ms" "kv \<in> set ms"
  shows "yields (flat_ok vs ex) (flatten_metric (str_json (field_or suite ''id'' (JStr ''unknown''))) suite kv d)"
proof -
  obtain key x where kv: "kv = (key, x)" by (cases kv)
  have put: "yields (flat_ok vs ex) (put_number (str_json (field_or suite ''id'' (JStr ''unknown'')) @ ''.'' @ key) x d)"
    if "\<not> is_bool x" "isfiniteR x = Inr True" "dget_or (field_or suite ''metric_metadata'' (JObj [])) key (JObj (metric_metadata key)) = Inr meta"
      "bindR (dget meta ''category'') (in_strs [''latency'', ''throughput'', ''memory'']) = Inr True" for meta
  proof -
    note h = that
    obtain cat where c: "dget meta ''category'' = Inr (JStr cat)" "cat \<in> set [''latency'', ''throughput'', ''memory'']"
      using h(4) in_strs_True unfolding bindR_ok by blast
    have "measured_metric vs ex (str_json (field_or suite ''id'' (JStr ''unknown'')) @ ''.'' @ key, JFloat f)" if "to_float x = Inr f" for f
    proof -
      obtain r where "f = FFin r" using h(2) \<open>to_float x = Inr f\<close> by (auto simp: isfiniteR_def isfinite_iff bindR_ok)
      then show ?thesis unfolding measured_metric_def using assms(2-6) h(1,3) that c unfolding kv by blast
    qed
    then show ?thesis unfolding put_number_def put_float_def using assms(1) flat_ok_put by (auto simp: yields_def bindR_ok split: if_splits)
  qed
  show ?thesis unfolding flatten_metric_def kv prod.case using assms(1) put by (intro yields_rules) auto
qed

lemma flatten_suite_ok:
  assumes "flat_ok vs ex d" "suite \<in> set vs"
  shows "yields (flat_ok vs ex) (flatten_suite ex suite d)"
  using assms by (cases suite) (auto simp: flatten_suite_def Let_def py_eq_str intro!: yields_foldR_in flatten_metric_ok split: json.splits)

text \<open>
  C31. The flat view of a summary is well typed and invents nothing: every key occurs once, every value is a finite \<open>float\<close>, and it is
  the value of a latency, throughput or memory metric, not a boolean, of a passing suite of the summary that is not excluded.
\<close>

theorem flat_metrics_typed:
  assumes "flatten_suite_metrics summary excluded = Inr d"
  shows "\<exists>v suites. dget_or summary ''suites'' (JList []) = Inr v \<and> iter_of v = Inr suites \<and>
    distinct (map fst d) \<and> (\<forall>kv \<in> set d. measured_metric suites excluded kv)"
proof -
  obtain v suites where s: "dget_or summary ''suites'' (JList []) = Inr v" "iter_of v = Inr suites" "foldR (flatten_suite excluded) suites [] = Inr d"
    using assms by (auto simp: flatten_suite_metrics_def bindR_ok)
  have "yields (flat_ok suites excluded) (foldR (flatten_suite excluded) suites [])"
    by (intro yields_foldR_in flatten_suite_ok) (simp_all add: flat_ok_def)
  then show ?thesis using s by (auto simp: yields_def flat_ok_def list_all_iff)
qed

subsection \<open>Skipped suites\<close>

lemma skipped_no_identity: "comparison_identity (skipped_suite i kind reason) = None"
  by (simp add: comparison_identity_def skipped_suite_def field_def)

lemma missing_identity_excluded:
  assumes "suites_by_id baseline = Inr b" "suites_by_id current = Inr c" "map_of b i = Some s" "map_of c i = Some s'" "comparison_identity s = None"
    and "incompatible_benchmark_suite_reasons baseline current = Inr excluded"
  shows "excluded \<noteq> []"
proof -
  let ?ids = "sort (filter (\<lambda>i. map_of c i \<noteq> None) (map fst b))"
  let ?reason = "\<lambda>i. bindR (suite_reason baseline current (field b i) (field c i)) (\<lambda>r. Inr (i, r))"
  obtain rs where rs: "mapR ?reason ?ids = Inr rs" and ex: "excluded = concat (map (\<lambda>(i, r). case r of None \<Rightarrow> [] | Some t \<Rightarrow> [(i, t)]) rs)"
    using assms(6) unfolding incompatible_benchmark_suite_reasons_def assms(1,2) bindR_simps by (cases "mapR ?reason ?ids") simp_all
  have "i \<in> fst ` set b" using assms(3) by (metis domI dom_map_of_conv_image_fst)
  then have "i \<in> set ?ids" using assms(4) by simp
  then obtain p where p: "p \<in> set rs" "?reason i = Inr p" using list_all2_left[OF rs[unfolded mapR_ok]] by blast
  have "p = (i, Some ''missing comparison identity'')" using p(2) assms(3,5) by (simp add: suite_reason_def field_def)
  then have "(i, ''missing comparison identity'') \<in> set excluded" using p(1) by (force simp: ex)
  then show ?thesis by auto
qed

text \<open>
  C32. A suite that was skipped in both runs makes every comparison of the two summaries inconclusive or an error:
  \<open>compare_summaries\<close> never answers 0 or 1, whatever the measured suites hold. A default run of
  \<open>run_benchmark_suite.py\<close> always has a skipped suite.
\<close>

theorem skipped_suite_blocks_comparison:
  assumes "suites_by_id baseline = Inr b" "suites_by_id current = Inr c"
    and "map_of b i = Some (skipped_suite i kind reason)" "map_of c i = Some (skipped_suite i kind' reason')"
  shows "compare_summaries baseline current threshold \<noteq> Inr 0 \<and> compare_summaries baseline current threshold \<noteq> Inr 1"
proof -
  have "excluded \<noteq> []" if "incompatible_benchmark_suite_reasons baseline current = Inr excluded" for excluded
    using missing_identity_excluded[OF assms skipped_no_identity that] .
  then show ?thesis by (auto simp: compare_summaries_def ok_iff)
qed

subsection \<open>Promotion\<close>

lemma filterR_ok: "filterR f xs = Inr ys \<Longrightarrow> x \<in> set xs \<Longrightarrow> f x = Inr False \<or> x \<in> set ys"
  by (induction xs arbitrary: ys) (auto simp: bindR_ok split: if_splits)

text \<open>A suite that counts as measured: it passed, and each required metric is a finite number that is not negative.\<close>

definition suite_measured :: "json \<Rightarrow> bool" where
  "suite_measured suite \<longleftrightarrow> (\<exists>kvs ms. suite = JObj kvs \<and> field kvs ''status'' = JStr ''pass'' \<and> field_or kvs ''metrics'' (JObj []) = JObj ms \<and>
     (\<forall>i. map_of kvs ''id'' = Some (JStr i) \<longrightarrow> (\<forall>k \<in> set (required_metric_keys i). numeric (field ms k) = Inr True)) \<and> (\<forall>kv \<in> set ms. metric_ok kv = Inr True))"

lemma dget_field: "dget v k = Inr x \<longleftrightarrow> (\<exists>kvs. v = JObj kvs \<and> x = field kvs k)"
  by (cases v) (auto simp: dget_def field_def)

lemma dget_or_field: "dget_or v k d = Inr x \<longleftrightarrow> (\<exists>kvs. v = JObj kvs \<and> x = field_or kvs k d)"
  by (cases v) (auto simp: dget_or_def field_or_def)

lemma item_field: "item v k = Inr x \<longleftrightarrow> (\<exists>kvs. v = JObj kvs \<and> map_of kvs k = Some x)"
  by (rule item_ok)

lemma complete_metrics: "complete_suite_metrics (JObj kvs) = Inr True \<Longrightarrow> \<exists>ms. field_or kvs ''metrics'' (JObj []) = JObj ms \<and>
    (\<forall>i. map_of kvs ''id'' = Some (JStr i) \<longrightarrow> (\<forall>k \<in> set (required_metric_keys i). numeric (field ms k) = Inr True)) \<and> (\<forall>kv \<in> set ms. metric_ok kv = Inr True)"
  unfolding complete_suite_metrics_def bindR_ok dget_or_field item_field Let_def
  by (auto simp: andR_ok allR_ok bindR_ok simp del: truthy_def split: if_splits json.splits)

lemma promotable_suite: "suite_promotable suite = Inr True \<Longrightarrow> suite_measured suite"
  unfolding suite_promotable_def andR_ok bindR_ok dget_field suite_measured_def
  by (auto simp: py_eq_str dest: complete_metrics)

text \<open>The summaries that may become the baseline\<close>

definition approved_summary :: "dict \<Rightarrow> bool" where
  "approved_summary kvs \<longleftrightarrow>
     field kvs ''qualification'' = JStr ''pass'' \<and> approved_controlled_comparison (field_or kvs ''comparison'' (JObj [])) = Inr True \<and>
     (\<exists>src c. source_identity (JObj kvs) = Inr src \<and> list_all (truthy \<circ> snd) src \<and> map_of kvs ''comparison'' = Some (JObj c) \<and> py_eq (field c ''candidate'') (JObj src)) \<and>
     (\<exists>vs. iter_of (field_or kvs ''suites'' (JList [])) = Inr vs \<and> (\<forall>suite \<in> set vs. not_skipped suite = Inr False \<or> suite_measured suite))"

lemma promotable_approved: "promotable (JObj kvs) = Inr u \<Longrightarrow> approved_summary kvs"
proof -
  assume "promotable (JObj kvs) = Inr u"
  then have c: "check_qualified (JObj kvs) = Inr ()" "check_source (JObj kvs) = Inr ()" "check_suites (JObj kvs) = Inr ()"
    by (auto simp: promotable_def bindR_ok split: if_splits)
  have q: "field kvs ''qualification'' = JStr ''pass''" "approved_controlled_comparison (field_or kvs ''comparison'' (JObj [])) = Inr True"
    using c(1) by (auto simp: check_qualified_def bindR_ok andR_ok dget_field dget_or_field py_eq_str split: if_splits)
  have s: "\<exists>src c. source_identity (JObj kvs) = Inr src \<and> list_all (truthy \<circ> snd) src \<and> map_of kvs ''comparison'' = Some (JObj c) \<and> py_eq (field c ''candidate'') (JObj src)"
    using c(2) by (auto simp: check_source_def bindR_ok andR_ok dget_field item_field split: if_splits)
  obtain vs measured where vs: "iter_of (field_or kvs ''suites'' (JList [])) = Inr vs" "filterR not_skipped vs = Inr measured" "allR suite_promotable measured = Inr True"
    using c(3) by (auto simp: check_suites_def bindR_ok dget_or_field split: if_splits)
  have "not_skipped suite = Inr False \<or> suite_measured suite" if "suite \<in> set vs" for suite
    using filterR_ok[OF vs(2) that] vs(3) promotable_suite by (auto simp: allR_ok)
  then show ?thesis using q s vs(1) by (auto simp: approved_summary_def)
qed

lemma load_keeps: "load_summary p w = (r, w') \<Longrightarrow> w' = w"
  by (auto simp: load_summary_def bindI_def read_text_def checkI_def liftI_def split: prod.splits sum.splits)

text \<open>What the write leaves: the whole text, or an empty file when it cannot be encoded.\<close>

lemma write_json_files: "write_json path v w = (r, w') \<Longrightarrow> (\<forall>q. q \<noteq> path \<longrightarrow> pw_files w' q = pw_files w q) \<and>
    (\<forall>u. r = Inr u \<longrightarrow> pw_files w' path = Some (dumps_pretty 0 v @ [CHR 0x0A]))"
  by (auto simp: write_json_def write_utf8_def encode_utf8_def write_bytes_def bindI_def updI_def raiseI_def split: sum.splits if_splits)

lemma promote_summary_files:
  assumes "promote_summary now dry_run p w = (r, w')"
  shows "w' = w \<or> \<not> dry_run \<and> (\<exists>kvs new. load_summary p w = (Inr (JObj kvs), w) \<and> approved_summary kvs \<and> promoted_summary p now kvs = Inr new \<and>
    (\<forall>q. q \<noteq> BASELINE_PATH \<longrightarrow> pw_files w' q = pw_files w q) \<and> (\<forall>u. r = Inr u \<longrightarrow> pw_files w' BASELINE_PATH = Some (dumps_pretty 0 (JObj new) @ [CHR 0x0A])))"
proof -
  obtain l w1 where l: "load_summary p w = (l, w1)" by fastforce
  have w1: "w1 = w" by (rule load_keeps[OF l])
  show ?thesis
  proof (cases "\<exists>kvs u new. l = Inr (JObj kvs) \<and> promotable (JObj kvs) = Inr u \<and> promoted_summary p now kvs = Inr new \<and> \<not> dry_run")
    case True
    then obtain kvs u new where k: "l = Inr (JObj kvs)" "promotable (JObj kvs) = Inr u" "promoted_summary p now kvs = Inr new" "\<not> dry_run" by blast
    obtain r2 w2 where wr: "write_json BASELINE_PATH (JObj new) w = (r2, w2)" by fastforce
    have "w' = w2 \<and> (\<forall>u. r = Inr u \<longrightarrow> (\<exists>v. r2 = Inr v))"
      using assms k wr by (auto simp: promote_summary_def bindI_def l w1 liftI_def retI_def split: sum.splits)
    then have "\<not> dry_run \<and> load_summary p w = (Inr (JObj kvs), w) \<and> approved_summary kvs \<and> promoted_summary p now kvs = Inr new \<and>
      (\<forall>q. q \<noteq> BASELINE_PATH \<longrightarrow> pw_files w' q = pw_files w q) \<and> (\<forall>u. r = Inr u \<longrightarrow> pw_files w' BASELINE_PATH = Some (dumps_pretty 0 (JObj new) @ [CHR 0x0A]))"
      using write_json_files[OF wr] promotable_approved[OF k(2)] k l w1 by auto
    then show ?thesis by blast
  next
    case False
    then have "w' = w"
      using assms by (auto simp: promote_summary_def bindI_def l w1 liftI_def retI_def split: sum.splits json.splits if_splits)
    then show ?thesis ..
  qed
qed

lemma latest_keeps: "resolve_latest_results_summary S dir w = (r, w') \<Longrightarrow> w' = w"
  by (auto simp: resolve_latest_results_summary_def bindI_def files_below_def readI_def)

text \<open>
  C29. The baseline is replaced only by an approved run: if a run of \<open>promote_main\<close> changes any file, then it was not a
  dry run, the summary that it read has the qualification \<open>pass\<close>, an approved controlled comparison of exactly the
  measured source, and only suites that were skipped or measured completely; only the baseline changes, and on exit code 0
  it holds the promoted summary.
\<close>

theorem baseline_only_from_approved:
  assumes "promote_main S now dry_run source w = (r, w')" "pw_files w' \<noteq> pw_files w"
  shows "\<not> dry_run \<and> (\<exists>p kvs new. load_summary p w = (Inr (JObj kvs), w) \<and> approved_summary kvs \<and> promoted_summary p now kvs = Inr new \<and>
    (\<forall>q. q \<noteq> BASELINE_PATH \<longrightarrow> pw_files w' q = pw_files w q) \<and> (r = Inr 0 \<longrightarrow> pw_files w' BASELINE_PATH = Some (dumps_pretty 0 (JObj new) @ [CHR 0x0A])))"
proof -
  obtain path w1 where p: "(case source of Some p \<Rightarrow> retI (Some p) | None \<Rightarrow> resolve_latest_results_summary S RESULTS_DIR) w = (path, w1)" by fastforce
  have w1: "w1 = w" using p latest_keeps by (cases source) (auto simp: retI_def)
  show ?thesis
  proof (cases path)
    case (Inr x)
    then obtain q where q: "path = Inr (Some q)" using assms w1 p by (cases x) (auto simp: promote_main_def bindI_def retI_def)
    obtain r2 w2 where s: "promote_summary now dry_run q w = (r2, w2)" by fastforce
    have "w2 = w' \<and> (r = Inr 0 \<longrightarrow> (\<exists>u. r2 = Inr u))"
      using assms p q s unfolding promote_main_def bindI_def w1
      by (auto simp: file_exists_def readI_def catchI_def bindI_def retI_def raiseI_def split: if_splits sum.splits)
    then show ?thesis using promote_summary_files[OF s] assms(2) by metis
  qed (use assms p w1 in \<open>simp add: promote_main_def bindI_def\<close>)
qed

subsection \<open>Examples\<close>

lemma mapR_map: "(\<And>e. f (g e) = Inr (h e)) \<Longrightarrow> mapR f (map g es) = Inr (map h es)"
  by (induction es) auto

definition zero_entry :: json where
  "zero_entry = JObj [(''base'', JInt 0), (''candidate'', JInt 0), (''limit'', JInt 0)]"

lemma zero_float: "to_float (JInt 0) = Inr (FFin 0)"
  by (simp add: to_float_def float_of_int_def fl_def isfinite_def)

lemma zero_within: "within_limit (zero_entry, FFin q) = Inr True"
  by (simp add: within_limit_def zero_entry_def item_def valid_measure_def is_bool_def is_number_def num_of_def isfiniteR_def zero_float isfinite_def
      cmpR_def float_lt_def float_le_def mulR_def float_mul_def fl_def iscloseR_def float_isclose_def andR_def notR_def)

definition demo_section :: json where
  "demo_section = JObj [(''status'', JStr ''pass''), (''scenarios'', JList (map (\<lambda>e. scenario_row (json_key e) zero_entry zero_entry) all_keys)),
     (''throughput_ratio'', JInt 1), (''heap_gate_evaluated'', JBool True), (''heap_growth_bytes'', zero_entry), (''pending_metrics'', JList []), (''failures'', JList [])]"

lemma demo_section_ok: "item report name = Inr demo_section \<Longrightarrow> section_ok report name = Inr True"
proof -
  let ?rows = "map (\<lambda>e. scenario_row (json_key e) zero_entry zero_entry) all_keys"
  assume r: "item report name = Inr demo_section"
  have k: "mapR (row_key ''compression'') ?rows = Inr (map json_key all_keys)" by (rule mapR_map) (simp add: scenario_row_items)
  have st: "section_status_ok demo_section = Inr True" by (simp add: section_status_ok_def demo_section_def dget_def)
  have sc: "section_scenarios_ok (JList ?rows) = Inr True"
    using k json_keys_ok by (simp add: section_scenarios_ok_def len_of_def iter_of_def expected_keys_all)
  have items: "item demo_section ''scenarios'' = Inr (JList ?rows)" "item demo_section ''throughput_ratio'' = Inr (JInt 1)" "item demo_section ''heap_growth_bytes'' = Inr zero_entry"
    by (simp_all add: demo_section_def item_def)
  have p: "mapR (\<lambda>row. mapR (\<lambda>f. bindR (item row f) (\<lambda>x. Inr (x, latency_factor))) [''send_p95_us'', ''receive_p95_us'']) ?rows
      = Inr (map (\<lambda>e. [(zero_entry, latency_factor), (zero_entry, latency_factor)]) all_keys)"
    by (rule mapR_map) (simp add: scenario_row_items)
  have pairs: "bindR (iter_of (JList ?rows)) (section_pairs demo_section)
      = Inr ((zero_entry, heap_factor) # concat (map (\<lambda>e. [(zero_entry, latency_factor), (zero_entry, latency_factor)]) all_keys))"
    using p by (simp add: iter_of_def section_pairs_def items)
  have l: "allR within_limit ((zero_entry, heap_factor) # concat (map (\<lambda>e. [(zero_entry, latency_factor), (zero_entry, latency_factor)]) all_keys)) = Inr True"
    unfolding allR_ok factors by (auto simp: zero_within)
  have t: "isfiniteR (JInt 1) = Inr True" "ltR (JInt 1) min_throughput = Inr False"
    by (simp_all add: isfiniteR_def to_float_def float_of_int_def fl_one isfinite_def cmpR_def num_of_def factors float_lt_def float_le_def)
  show ?thesis unfolding section_ok_def r bindR_simps st items(1,2) sc pairs l by (simp add: andR_def notR_def t l)
qed

definition demo_source :: dict where
  "demo_source = [(''commit_sha'', JStr ''c''), (''source_sha256'', JStr ''s'')]"

definition demo_controlled :: json where
  "demo_controlled = JObj [(''status'', JStr ''pass''), (''control'', demo_section), (''forward'', demo_section), (''reverse'', demo_section), (''candidate'', JObj demo_source)]"

lemma demo_controlled_ok: "approved_controlled_comparison demo_controlled = Inr True"
proof -
  have "section_ok demo_controlled n = Inr True" if "n \<in> {''control'', ''forward'', ''reverse''}" for n
    using that by (intro demo_section_ok) (auto simp: demo_controlled_def item_def)
  then have "allR (section_ok demo_controlled) [''control'', ''forward'', ''reverse''] = Inr True" unfolding allR_ok by simp
  then show ?thesis unfolding approved_controlled_comparison_def by (simp add: demo_controlled_def dget_def)
qed

definition demo_suite :: dict where
  "demo_suite = [(''id'', JStr ''odbc_gateway_encoding''), (''status'', JStr ''pass''),
     (''metrics'', JObj [(''median_us_balancedServer_rowMajor'', JInt 1), (''median_us_highThroughput_rowMajor'', JInt 1)]),
     (''comparison_identity'', JObj [(''profile'', JStr ''v2'')]), (''metric_metadata'', JObj [(''x'', JNull)])]"

definition demo_summary :: dict where
  "demo_summary = [(''schema_version'', JInt 2), (''qualification'', JStr ''pass''), (''dependencies'', JObj [(''a'', JStr ''1'')]),
     (''machine'', JObj (map (\<lambda>k. (k, JStr ''x'')) machine_fields)), (''git'', JObj demo_source), (''comparison'', demo_controlled), (''suites'', JList [JObj demo_suite])]"

lemma one_numeric: "numeric (JInt 1) = Inr True" "to_float (JInt 1) = Inr (FFin 1)" "isfiniteR (JInt 1) = Inr True"
  by (simp_all add: numeric_def is_number_def num_of_def is_bool_def isfiniteR_def to_float_def float_of_int_def fl_one isfinite_def cmpR_def float_lt_def
      float_le_def andR_def notR_def)

lemma demo_complete: "complete_suite_metrics (JObj demo_suite) = Inr True"
  by (simp add: complete_suite_metrics_def demo_suite_def dget_or_def item_def truthy_def required_metric_keys_def field_def one_numeric metric_ok_def andR_def)

lemma demo_metric_latency: "field (metric_metadata ''median_us_balancedServer_rowMajor'') ''category'' = JStr ''latency''"
  "field (metric_metadata ''median_us_highThroughput_rowMajor'') ''category'' = JStr ''latency''"
  by code_simp+

lemma demo_suite_fields: "field_or demo_suite ''id'' (JStr ''unknown'') = JStr ''odbc_gateway_encoding''" "field_or demo_suite ''status'' (JStr ''pass'') = JStr ''pass''"
  "field demo_suite ''metrics'' = JObj [(''median_us_balancedServer_rowMajor'', JInt 1), (''median_us_highThroughput_rowMajor'', JInt 1)]"
  by (simp_all add: demo_suite_def field_or_def field_def)

lemma demo_flat_metrics: "flatten_suite_metrics (JObj demo_summary) [] = Inr
    [(''odbc_gateway_encoding.median_us_balancedServer_rowMajor'', JFloat (FFin 1)), (''odbc_gateway_encoding.median_us_highThroughput_rowMajor'', JFloat (FFin 1))]"
proof -
  let ?m = "[(''median_us_balancedServer_rowMajor'', JInt 1), (''median_us_highThroughput_rowMajor'', JInt 1)]"
  have "flatten_metric ''odbc_gateway_encoding'' demo_suite (k, JInt 1) d = Inr (put_float (''odbc_gateway_encoding.'' @ k) (FFin 1) d)"
    if "k \<in> fst ` set ?m" for k d
    using that demo_metric_latency
    by (auto simp: flatten_metric_def is_bool_def is_number_def num_of_def demo_suite_def field_or_def dget_or_def dget_def in_strs_def hashable_def one_numeric
        put_number_def field_def[of "metric_metadata _"])
  then have "foldR (flatten_metric ''odbc_gateway_encoding'' demo_suite) ?m [] =
      Inr (put_float ''odbc_gateway_encoding.median_us_highThroughput_rowMajor'' (FFin 1) (put_float ''odbc_gateway_encoding.median_us_balancedServer_rowMajor'' (FFin 1) []))"
    by simp
  then show ?thesis
    by (simp add: flatten_suite_metrics_def demo_summary_def dget_or_def iter_of_def flatten_suite_def Let_def put_float_def str_json_def
        demo_suite_fields)
qed

lemma demo_promotable: "promotable (JObj demo_summary) = Inr ()"
proof -
  have m: "check_machine (JObj demo_summary) = Inr ()"
    by (simp add: check_machine_def demo_summary_def dget_def dget_or_def machine_fields_def truthy_def andR_def)
  have q: "check_qualified (JObj demo_summary) = Inr ()"
    by (simp add: check_qualified_def demo_summary_def dget_def dget_or_def andR_def demo_controlled_ok)
  have src: "source_identity (JObj demo_summary) = Inr demo_source"
    by (simp add: source_identity_def demo_summary_def dget_or_def dget_def demo_source_def)
  have c: "dget demo_controlled ''candidate'' = Inr (JObj demo_source)" by (simp add: demo_controlled_def dget_def)
  have s: "check_source (JObj demo_summary) = Inr ()"
    unfolding check_source_def src bindR_simps by (simp add: demo_summary_def item_def c) (simp add: demo_source_def truthy_def andR_def)
  have p: "suite_promotable (JObj demo_suite) = Inr True"
    unfolding suite_promotable_def demo_complete by (simp add: demo_suite_def dget_def truthy_def andR_def)
  have n: "not_skipped (JObj demo_suite) = Inr True" by (simp add: not_skipped_def demo_suite_def dget_def)
  have u: "check_suites (JObj demo_summary) = Inr ()"
    by (simp add: check_suites_def demo_summary_def dget_or_def iter_of_def n p andR_def)
  have "dget (JObj demo_summary) ''schema_version'' = Inr (JInt 2)" by (simp add: demo_summary_def dget_def)
  then show ?thesis by (simp add: promotable_def m q s u demo_flat_metrics)
qed

definition bench_world :: pworld where
  "bench_world = \<lparr>pw_files = [''run.json'' \<mapsto> dumps2 (JObj demo_summary)], pw_trace = [], pw_log = [], pw_env = Map.empty\<rparr>"

lemma all_keys_plain: "(c, m, b) \<in> set all_keys \<Longrightarrow> plain c \<and> plain m"
proof -
  have "list_all plain (transport_cases @ transport_modes)" by code_simp
  moreover assume "(c, m, b) \<in> set all_keys"
  ultimately show ?thesis by (auto simp: all_keys_def list_all_iff)
qed

lemma key_words: "list_all plain [''base'', ''candidate'', ''limit'', ''case'', ''compression'', ''signed'', ''send_p95_us'', ''receive_p95_us'', ''status'', ''pass'', ''scenarios'',
    ''throughput_ratio'', ''heap_gate_evaluated'', ''heap_growth_bytes'', ''pending_metrics'', ''failures'']"
  by code_simp

lemma small_ints: "length (nat_str 0) \<le> 4300" "length (nat_str (Suc 0)) \<le> 4300" "length (nat_str 2) \<le> 4300"
  by code_simp+

lemma zero_entry_text: "writable zero_entry" "plain_json zero_entry" "wf_json zero_entry"
  using key_words by (simp_all add: zero_entry_def small_ints)

lemma demo_row_text:
  assumes "e \<in> set all_keys"
  shows "writable (scenario_row (json_key e) zero_entry zero_entry)" "plain_json (scenario_row (json_key e) zero_entry zero_entry)"
    "wf_json (scenario_row (json_key e) zero_entry zero_entry)"
proof -
  obtain c m b where e: "e = (c, m, b)" by (cases e)
  have "plain c" "plain m" using all_keys_plain assms e by blast+
  then show "writable (scenario_row (json_key e) zero_entry zero_entry)" "plain_json (scenario_row (json_key e) zero_entry zero_entry)"
      "wf_json (scenario_row (json_key e) zero_entry zero_entry)"
    using key_words by (simp_all add: e scenario_row_def json_key_def zero_entry_text)
qed

lemma demo_section_text: "writable demo_section" "plain_json demo_section" "wf_json demo_section"
  using key_words by (simp_all add: demo_section_def demo_row_text zero_entry_text list_all_iff small_ints)

lemma summary_words: "list_all plain [''commit_sha'', ''c'', ''source_sha256'', ''s'', ''control'', ''forward'', ''reverse'', ''id'', ''odbc_gateway_encoding'', ''metrics'',
    ''median_us_balancedServer_rowMajor'', ''median_us_highThroughput_rowMajor'', ''comparison_identity'', ''profile'', ''v2'', ''metric_metadata'', ''x'', ''schema_version'',
    ''qualification'', ''dependencies'', ''a'', ''1'', ''machine'', ''dart_version'', ''flutter_version'', ''dependencies_sha256'', ''host_fingerprint'', ''git'', ''comparison'', ''suites'']"
  by code_simp

lemma demo_controlled_text: "writable demo_controlled" "plain_json demo_controlled" "wf_json demo_controlled"
  using key_words summary_words by (simp_all add: demo_controlled_def demo_section_text demo_source_def)

lemma demo_summary_text: "writable (JObj demo_summary)" "plain_json (JObj demo_summary)" "wf_json (JObj demo_summary)"
  using key_words summary_words by (simp_all add: demo_summary_def demo_controlled_text demo_source_def demo_suite_def machine_fields_def small_ints)

lemma demo_load: "load_summary ''run.json'' bench_world = (Inr (JObj demo_summary), bench_world)"
proof -
  have "bindR (decode_text (dumps2 (JObj demo_summary))) json_loads = Inr (JObj demo_summary)"
    using read_dumps2[OF demo_summary_text, of "[]"] by simp
  then obtain t where t: "decode_text (dumps2 (JObj demo_summary)) = Inr t" "json_loads t = Inr (JObj demo_summary)" by (auto simp: bindR_ok)
  have v: "dget_or (JObj demo_summary) ''schema_version'' (JInt 1) = Inr (JInt 2)" by (simp add: demo_summary_def dget_or_def)
  show ?thesis by (simp add: load_summary_def bindI_def read_text_def checkI_def liftI_def bench_world_def read_file_def t v)
qed

lemma demo_promoted: "\<exists>new. promoted_summary ''run.json'' ''now'' demo_summary = Inr new"
  by (simp add: promoted_summary_def demo_summary_def field_def truthy_def)

lemma demo_baseline_written:
  "\<exists>r w'. promote_main S ''now'' False (Some ''run.json'') bench_world = (r, w') \<and> pw_files w' \<noteq> pw_files bench_world"
proof -
  obtain new where new: "promoted_summary ''run.json'' ''now'' demo_summary = Inr new" using demo_promoted by blast
  obtain r w' where wr: "write_json BASELINE_PATH (JObj new) bench_world = (r, w')" by fastforce
  have "pw_files w' BASELINE_PATH \<noteq> None"
    using wr by (auto simp: write_json_def write_utf8_def write_bytes_def bindI_def updI_def raiseI_def split: sum.splits)
  moreover have "pw_files bench_world BASELINE_PATH = None" by (simp add: bench_world_def BASELINE_PATH_def)
  ultimately have ch: "pw_files w' \<noteq> pw_files bench_world" by metis
  have s: "\<exists>r2. promote_summary ''now'' False ''run.json'' bench_world = (r2, w')"
    using wr by (simp add: promote_summary_def bindI_def demo_load liftI_def demo_promotable new retI_def split: sum.splits)
  have "\<exists>r3. promote_main S ''now'' False (Some ''run.json'') bench_world = (r3, w')"
  proof -
    have "pw_files bench_world ''run.json'' \<noteq> None" by (simp add: bench_world_def)
    then show ?thesis using s
      by (auto simp: promote_main_def bindI_def retI_def file_exists_def readI_def catchI_def raiseI_def split: sum.splits)
  qed
  then show ?thesis using ch by blast
qed

theorem baseline_only_from_approved_witness:
  "\<exists>p kvs. load_summary p bench_world = (Inr (JObj kvs), bench_world) \<and> approved_summary kvs"
  using demo_baseline_written baseline_only_from_approved by metis

theorem flat_metrics_typed_witness:
  "\<exists>d v suites. flatten_suite_metrics (JObj demo_summary) [] = Inr d \<and> dget_or (JObj demo_summary) ''suites'' (JList []) = Inr v \<and> iter_of v = Inr suites \<and>
    distinct (map fst d) \<and> (\<forall>kv \<in> set d. measured_metric suites [] kv) \<and>
    (''odbc_gateway_encoding.median_us_balancedServer_rowMajor'', JFloat (FFin 1)) \<in> set d"
  using flat_metrics_typed[OF demo_flat_metrics] demo_flat_metrics by auto
definition demo_skipped :: json where
  "demo_skipped = JObj [(''suites'', JList [skipped_suite ''transport_pipeline_json'' ''dart_tool'' ''plain dart run''])]"

lemma demo_skipped_suites: "suites_by_id demo_skipped = Inr [(''transport_pipeline_json'', skipped_suite ''transport_pipeline_json'' ''dart_tool'' ''plain dart run'')]"
  by (simp add: suites_by_id_def demo_skipped_def dget_or_def iter_of_def skipped_suite_def field_def dict_of_def)

theorem skipped_suite_blocks_comparison_witness: "compare_summaries demo_skipped demo_skipped (FFin 0) \<noteq> Inr 0"
  using skipped_suite_blocks_comparison[OF demo_skipped_suites demo_skipped_suites, of "''transport_pipeline_json''"] by simp

end
