(* ===== verification/Bench_Env.thy ===== *)
theory Bench_Env
  imports Bench_Summary Odbc_Native Fixture_Tree
begin

text \<open>
  The environment of a benchmark run in \<open>tool/py/benchmark_common.py\<close>: the revision and the digest of the sources, the
  locked dependencies, the machine, the flags taken from environment variables, and the place of the native package.
  Paths are relative to the project, and \<open>resolve()\<close> keeps them. What \<open>platform\<close> tells is the argument
  \<open>host\<close>, the home directory (absent when it cannot be found) the argument \<open>home\<close>.
\<close>

subsection \<open>Sources\<close>

definition unresolved :: string where "unresolved = ''(not resolved)''"

definition run_git :: "os_env \<Rightarrow> string list \<Rightarrow> string pio" where
  "run_git S args = catchI (bindI (run_process S (''git'' # args)) (\<lambda>p.
       retI (if p_code p = 0 \<and> p_out p \<noteq> [] then strip (p_out p) else unresolved)))
     (\<lambda>e. if is_os_err e then retI unresolved else raiseI e)"

definition git_dirty :: "os_env \<Rightarrow> bool pio" where
  "git_dirty S = catchI (bindI (run_process S [''git'', ''status'', ''--porcelain'']) (\<lambda>p. retI (strip (p_out p) \<noteq> [])))
     (\<lambda>e. if is_os_err e then retI False else raiseI e)"

text \<open>\<open>root / name\<close>, where the empty path is the project\<close>

definition under :: "string \<Rightarrow> string \<Rightarrow> string" where
  "under base name = (if base = [] then name else path_join base name)"

text \<open>The bytes whose digest identifies the sources: the name and the content of each file\<close>

fun digest_files :: "string \<Rightarrow> string list \<Rightarrow> bytes pio" where
  "digest_files base [] = retI []"
| "digest_files base (name # names) = bindI (read_bytes (under base name)) (\<lambda>b. bindI (digest_files base names) (\<lambda>r. retI (name @ b @ r)))"

definition source_files :: "os_env \<Rightarrow> string \<Rightarrow> string list pio" where
  "source_files S base = bindI (files_below S (under base ''lib'')) (\<lambda>ps.
     retI (map (\<lambda>p. if base = [] then p else drop (Suc (length base)) p) (sort_key (split_on ''/'') (filter (\<lambda>p. endswith p ''.dart'') ps))
       @ [''pubspec.yaml'', ''pubspec.lock'']))"

definition collect_source_identity :: "os_env \<Rightarrow> string \<Rightarrow> string option \<Rightarrow> (string \<times> string) pio" where
  "collect_source_identity S base revision =
     bindI (source_files S base) (\<lambda>names. bindI (digest_files base names) (\<lambda>b.
     bindI (case revision of Some r \<Rightarrow> retI r
       | None \<Rightarrow> bindI (run_process S [''git'', ''rev-parse'', ''HEAD'']) (\<lambda>p.
           if p_code p \<noteq> 0 then raiseI (ProcessErr (p_code p)) else retI (strip (p_out p)))) (\<lambda>r.
     retI (r, sha256_hex b))))"

definition collect_git_metadata :: "os_env \<Rightarrow> json pio" where
  "collect_git_metadata S = bindI (git_dirty S) (\<lambda>dirty. bindI (run_git S [''rev-parse'', ''HEAD'']) (\<lambda>commit.
     bindI (run_git S [''rev-parse'', ''--abbrev-ref'', ''HEAD'']) (\<lambda>branch. bindI (collect_source_identity S [] None) (\<lambda>ident.
     retI (JObj [(''commit_sha'', JStr commit), (''branch'', JStr branch), (''dirty'', JBool dirty), (''source_sha256'', JStr (snd ident))])))))"

subsection \<open>Dependencies\<close>

text \<open>A line that opens the entry of a package\<close>

definition opens_package :: "string \<Rightarrow> bool" where
  "opens_package line \<longleftrightarrow> startswith line ''  '' \<and> \<not> startswith line ''    '' \<and> endswith line '':''"

definition package_of :: "string \<Rightarrow> string" where
  "package_of line = removesuffix (strip line) '':''"

text \<open>The loop of \<open>collect_dependency_versions\<close>; no package is the empty text.\<close>

fun versions_loop :: "string list \<Rightarrow> string \<Rightarrow> dict \<Rightarrow> dict" where
  "versions_loop [] package d = d"
| "versions_loop (line # rest) package d =
     (if opens_package line then versions_loop rest (package_of line) d
      else if package \<noteq> [] \<and> startswith line ''    version:'' then
        versions_loop rest package (dict_put package (JStr (strip_chars [CHR 0x22, CHR 0x27]
          (strip (case str_cut '':'' line of Some (_, v) \<Rightarrow> v | None \<Rightarrow> [])))) d)
      else versions_loop rest package d)"

definition collect_dependency_versions :: "string \<Rightarrow> json pio" where
  "collect_dependency_versions base = bindI (read_text (under base ''pubspec.lock'')) (\<lambda>t. retI (JObj (versions_loop (splitlines t) [] [])))"

text \<open>The loop of \<open>collect_dependency_provenance\<close>: the package, its lines so far, the entries\<close>

fun provenance_loop :: "string list \<Rightarrow> string \<Rightarrow> string list \<Rightarrow> dict \<Rightarrow> dict" where
  "provenance_loop [] package lines d = (if package \<noteq> [] then dict_put package (JStr (join [CHR 0x0A] lines)) d else d)"
| "provenance_loop (line # rest) package lines d =
     (if opens_package line then provenance_loop rest (package_of line) []
          (if package \<noteq> [] then dict_put package (JStr (join [CHR 0x0A] lines)) d else d)
      else if package \<noteq> [] \<and> startswith line ''    '' then provenance_loop rest package (lines @ [strip line]) d
      else if package \<noteq> [] \<and> line \<noteq> [] \<and> \<not> startswith line '' '' then
        provenance_loop rest [] lines (dict_put package (JStr (join [CHR 0x0A] lines)) d)
      else provenance_loop rest package lines d)"

definition collect_dependency_provenance :: "string \<Rightarrow> json pio" where
  "collect_dependency_provenance base = bindI (read_text (under base ''pubspec.lock'')) (\<lambda>t. retI (JObj (provenance_loop (splitlines t) [] [] [])))"

subsection \<open>The machine\<close>

record host =
  h_platform :: string
  h_machine :: string
  h_processor :: string
  h_python :: string
  h_node :: string

definition tool_version :: "os_env \<Rightarrow> string \<Rightarrow> string pio" where
  "tool_version S executable = bindI (liftI (resolve_command S [executable, ''--version''])) (\<lambda>args.
     bindI (run_process S args) (\<lambda>p. retI (strip (if p_out p \<noteq> [] then p_out p else p_err p))))"

definition collect_machine_metadata :: "os_env \<Rightarrow> host \<Rightarrow> json pio" where
  "collect_machine_metadata S h = bindI (tool_version S ''dart'') (\<lambda>dart. bindI (tool_version S ''flutter'') (\<lambda>flutter.
     bindI (collect_dependency_versions []) (\<lambda>versions.
     retI (JObj [(''platform'', JStr (h_platform h)), (''machine'', JStr (h_machine h)),
       (''processor'', JStr (if h_processor h \<noteq> [] then h_processor h else ''(unknown)'')), (''python_version'', JStr (h_python h)),
       (''dart_version'', JStr dart), (''flutter_version'', JStr flutter),
       (''dependencies_sha256'', JStr (sha256_hex (dumps_ascii '', '' '': '' (sort_json versions)))), (''host_fingerprint'', JStr (sha256_hex (h_node h)))]))))"

subsection \<open>Flags\<close>

definition SAFE_ENV_KEYS :: "string list" where
  "SAFE_ENV_KEYS = [''ODBC_POOL_SIZE'', ''ODBC_ASYNC_WORKER_COUNT'', ''ODBC_ASYNC_MAX_PENDING_REQUESTS'', ''ODBC_STREAM_BENCH_FETCH_SIZE'',
     ''ODBC_STREAM_BENCH_CHUNK_SIZE'', ''RUN_LIVE_API_TESTS'', ''ODBC_E2E_DML_PERF_ROW_COUNT'', ''ODBC_E2E_DML_BULK_ROW_COUNT'']"

definition odbc_dsn_configured :: "environ \<Rightarrow> bool" where
  "odbc_dsn_configured env \<longleftrightarrow> list_ex (\<lambda>k. strip (getenv env k []) \<noteq> [])
     [''ODBC_TEST_DSN_SQL_SERVER'', ''ODBC_DSN_SQL_SERVER'', ''ODBC_TEST_DSN'', ''ODBC_DSN'']"

text \<open>The value of one flag\<close>

definition flag_value :: "string \<Rightarrow> json" where
  "flag_value v =
     (if lower v \<in> {''true'', ''false''} then JBool (lower v = ''true'')
      else if contains v ''.'' then (case float_of_str v of Some x \<Rightarrow> if isfinite x then JFloat x else JStr ''invalid'' | None \<Rightarrow> JStr ''invalid'')
      else (case int_of_str v of Some i \<Rightarrow> JInt i | None \<Rightarrow> JStr ''invalid''))"

definition put_flag :: "environ \<Rightarrow> string \<Rightarrow> dict \<Rightarrow> dict" where
  "put_flag env key d = (case env key of None \<Rightarrow> d
     | Some raw \<Rightarrow> if strip raw = [] then d else dict_put (lower key) (flag_value (strip raw)) d)"

definition collect_env_flags :: "environ \<Rightarrow> json" where
  "collect_env_flags env = (let d = [(''odbc_test_dsn_configured'', JBool (odbc_dsn_configured env))];
     d1 = (if odbc_dsn_configured env then dict_put ''odbc_driver_family'' (JStr (get_dsn_driver_family
         (case or_else (env ''ODBC_TEST_DSN'') (env ''ODBC_DSN'') of Some s \<Rightarrow> s | None \<Rightarrow> []))) d else d) in
     JObj (fold (put_flag env) SAFE_ENV_KEYS d1))"

subsection \<open>The native package\<close>

text \<open>The version in the lock file: the first version line inside the entry\<close>

fun find_locked :: "bool \<Rightarrow> string list \<Rightarrow> string option" where
  "find_locked inside [] = None"
| "find_locked inside (line # rest) =
     (if startswith line ''  odbc_fast:'' then find_locked True rest
      else if inside \<and> startswith line ''  '' \<and> \<not> startswith line ''    '' then None
      else if inside \<and> startswith (strip line) ''version:'' then
        Some (strip_chars [CHR 0x27] (strip_chars [CHR 0x22] (strip (case str_cut '':'' line of Some (_, v) \<Rightarrow> v | None \<Rightarrow> []))))
      else find_locked inside rest)"

definition resolve_locked_odbc_fast_version :: "string option pio" where
  "resolve_locked_odbc_fast_version = bindI (file_exists ''pubspec.lock'') (\<lambda>there.
     if \<not> there then retI None else bindI (read_text ''pubspec.lock'') (\<lambda>t. retI (find_locked False (splitlines t))))"

definition published_odbc_fast_candidates :: "string option \<Rightarrow> environ \<Rightarrow> string \<Rightarrow> string list" where
  "published_odbc_fast_candidates home env version =
     (let cache = strip (getenv env ''PUB_CACHE'' []); local = strip (getenv env ''LOCALAPPDATA'' []);
        roots = (if cache \<noteq> [] then [cache] else []) @ (if local \<noteq> [] then [local @ ''/Pub/Cache''] else [])
          @ (case home of Some h \<Rightarrow> [h @ ''/.pub-cache''] | None \<Rightarrow> []) in
      map (\<lambda>c. c @ ''/hosted/pub.dev/odbc_fast-'' @ version) roots)"

definition fallback_roots :: "string list" where
  "fallback_roots = [''D:'' @ backslash @ ''Developer'' @ backslash @ ''dart_odbc_fast'', ''../dart_odbc_fast'']"

text \<open>A package from Git is built, or, without \<open>prepare_native\<close>, only its place is told.\<close>

definition git_package_root :: "os_env \<Rightarrow> bool \<Rightarrow> (json \<Rightarrow> string res) \<Rightarrow> (string \<Rightarrow> (string \<times> bytes) list res) \<Rightarrow> bool \<Rightarrow> string \<Rightarrow> string pio" where
  "git_package_root S nt package_dir untar prepare_native block =
     (if \<not> prepare_native then
        (case first_match locked_revision (tails block) of None \<Rightarrow> raiseI (ValueErr ''A full native Git revision is required'')
         | Some revision \<Rightarrow> retI (''build/odbc-native/'' @ revision @ ''/source''))
      else bindI (build_pinned_native S nt package_dir untar) (\<lambda>binary.
        bindI (env_set ''ODBC_FAST_NATIVE_LIBRARY'' binary) (\<lambda>_. retI (path_join (path_parent binary) ''source''))))"

text \<open>The first candidate that is a package: the configured one, the published ones, the development checkouts\<close>

definition find_package_root :: "string option \<Rightarrow> environ \<Rightarrow> string option pio" where
  "find_package_root home env = (let configured = strip (getenv env ''DART_ODBC_FAST_ROOT'' []) in
     bindI resolve_locked_odbc_fast_version (\<lambda>v. readI (\<lambda>w. find (\<lambda>c. pw_files w (path_join c ''pubspec.yaml'') \<noteq> None)
       ((if configured \<noteq> [] then [configured] else [])
        @ (case v of Some x \<Rightarrow> if x \<noteq> [] then published_odbc_fast_candidates home env x else [] | None \<Rightarrow> []) @ fallback_roots))))"

definition resolve_dart_odbc_fast_root ::
  "os_env \<Rightarrow> bool \<Rightarrow> (json \<Rightarrow> string res) \<Rightarrow> (string \<Rightarrow> (string \<times> bytes) list res) \<Rightarrow> string option \<Rightarrow> bool \<Rightarrow> string option pio" where
  "resolve_dart_odbc_fast_root S nt package_dir untar home prepare_native =
     bindI (readI pw_env) (\<lambda>env. bindI (file_exists ''pubspec.lock'') (\<lambda>there.
     bindI (if there then bindI (read_text ''pubspec.lock'') (\<lambda>t. retI (find_block t)) else retI None) (\<lambda>block.
     case block of
       Some b \<Rightarrow> if contains b ''source: git'' then bindI (git_package_root S nt package_dir untar prepare_native b) (\<lambda>r. retI (Some r))
         else find_package_root home env
     | None \<Rightarrow> find_package_root home env)))"

definition bootstrap_env :: "string \<Rightarrow> unit pio" where
  "bootstrap_env env_path = bindI (import_dotenv_if_present env_path) (\<lambda>_.
     bindI (env_get ''ODBC_TEST_DSN'') (\<lambda>t. bindI (env_get ''ODBC_DSN'') (\<lambda>d.
     case or_else t None of Some _ \<Rightarrow> retI ()
     | None \<Rightarrow> (case or_else d None of Some s \<Rightarrow> env_set ''ODBC_TEST_DSN'' s | None \<Rightarrow> retI ()))))"

subsection \<open>Flags are plain values\<close>

definition plain_flag :: "json \<Rightarrow> bool" where
  "plain_flag v = (case v of JBool _ \<Rightarrow> True | JInt _ \<Rightarrow> True | JStr _ \<Rightarrow> True | JFloat x \<Rightarrow> isfinite x | _ \<Rightarrow> False)"

lemma flag_value_plain: "plain_flag (flag_value v)"
  by (simp add: flag_value_def plain_flag_def split: option.splits)

end
