(* ===== verification/Bench_Qualify.thy ===== *)
theory Bench_Qualify
  imports Bench_Env Bench_Transport
begin

text \<open>
  \<open>tool/benchmarks/measurement_guard.py\<close> and \<open>run_transport_comparison.py\<close>: the identities of files and native binaries,
  the detection of a suspended machine, and the controlled comparison of two checkouts. The readings of the
  monotonic clock, the name of the temporary directory and the description of the machine are arguments; the wakefulness
  request to Windows and the environment of the child processes are left out.
\<close>

subsection \<open>Identities\<close>

fun digest_set :: "string \<Rightarrow> string list \<Rightarrow> bytes pio" where
  "digest_set base [] = retI []"
| "digest_set base (name # names) = bindI (read_bytes (under base name)) (\<lambda>b. bindI (digest_set base names) (\<lambda>r.
     retI (name @ [CHR 0x00] @ b @ [CHR 0x00] @ r)))"

definition file_set_identity :: "string \<Rightarrow> string list \<Rightarrow> string pio" where
  "file_set_identity base filenames = bindI (digest_set base (sort filenames)) (\<lambda>b. retI (sha256_hex b))"

definition provenance_keys :: "string list" where
  "provenance_keys = [''source'', ''version'', ''package_sha256'', ''url'']"

text \<open>Whether the manifest of a published library is refused\<close>

definition bad_manifest :: "json \<Rightarrow> string \<Rightarrow> string \<Rightarrow> bool res" where
  "bad_manifest manifest name digest = bindR (dget_or manifest ''version'' (JStr [])) (\<lambda>version.
     let url = ''https://github.com/cesar-carlos/dart_odbc_fast/releases/download/v'' @ str_json version @ ''/'' @ name in
     orR (bindR (dget manifest ''source'') (\<lambda>s. Inr (\<not> py_eq s (JStr ''pub.dev''))))
       (orR (notR (fullmatch_of rx_locked_version version))
         (orR (notR (bindR (dget_or manifest ''package_sha256'' (JStr [])) (fullmatch_of (rx_hex 64))))
           (orR (bindR (dget manifest ''url'') (\<lambda>u. Inr (\<not> py_eq u (JStr url)))) (bindR (dget manifest ''sha256'') (\<lambda>s. Inr (\<not> py_eq s (JStr digest))))))))"

definition native_identity :: "string \<Rightarrow> string option \<Rightarrow> json pio" where
  "native_identity path revision = bindI (read_bytes path) (\<lambda>b. let digest = sha256_hex b in
     bindI (case revision of
       Some r \<Rightarrow> if fullmatch (rx_hex 40) r then retI [(''revision'', JStr r)] else raiseI (ValueErr ''A full native source revision is required'')
     | None \<Rightarrow> bindI (read_json (path_join (path_parent path) ''manifest.json'')) (\<lambda>manifest.
         bindI (liftI (bad_manifest manifest (path_tail path) digest)) (\<lambda>bad.
         if bad then raiseI (ValueErr ''Published native provenance is invalid or differs from the binary'')
         else liftI (mapR (\<lambda>k. bindR (item manifest k) (\<lambda>v. Inr (k, v))) provenance_keys)))) (\<lambda>provenance.
     retI (JObj (provenance @ [(''path'', JStr path), (''sha256'', JStr digest)]))))"

definition dependency_differences :: "dict \<Rightarrow> dict \<Rightarrow> string list" where
  "dependency_differences base candidate =
     filter (\<lambda>k. \<not> py_eq (field base k) (field candidate k)) (remdups (map fst base @ map fst candidate))"

definition validate_dependency_change :: "dict \<Rightarrow> dict \<Rightarrow> bool \<Rightarrow> unit res" where
  "validate_dependency_change base candidate allow_odbc = (let ds = dependency_differences base candidate in
     if ds \<noteq> [] \<and> (\<not> allow_odbc \<or> ds \<noteq> [''odbc_fast'']) then Inl (ValueErr ''Unexpected dependency differences'') else Inr ())"

subsection \<open>The guard\<close>

text \<open>The largest gap between two readings of the heartbeat\<close>

fun watch :: "pyfloat \<Rightarrow> pyfloat \<Rightarrow> pyfloat list \<Rightarrow> pyfloat" where
  "watch largest previous [] = largest"
| "watch largest previous (now # rest) =
     watch (if float_lt largest (float_sub now previous) then float_sub now previous else largest) now rest"

definition largest_gap :: "pyfloat list \<Rightarrow> pyfloat" where
  "largest_gap readings = (case readings of [] \<Rightarrow> FFin 0 | r # rs \<Rightarrow> watch (FFin 0) r rs)"

definition interrupted :: "pyfloat list \<Rightarrow> bool" where
  "interrupted readings \<longleftrightarrow> float_lt (FFin 60) (largest_gap readings)"

subsection \<open>Measurements\<close>

definition HARNESS_FILES :: "string list" where
  "HARNESS_FILES = [''tool/benchmarks/benchmark_transport_pipeline.dart'', ''tool/benchmarks/benchmark_transport_pipeline_async_impl.dart'',
     ''tool/benchmarks/benchmark_transport_pipeline_async_stub.dart'', ''tool/benchmarks/benchmark_vm_diagnostics.dart'',
     ''test/infrastructure/codecs/transport_repeated_benchmark_test.dart'', ''test/infrastructure/codecs/transport_diagnostics_benchmark_test.dart'']"

definition copy_if_other :: "string \<Rightarrow> string \<Rightarrow> unit pio" where
  "copy_if_other source target = (if source = target then retI () else copy_file source target)"

definition stage_legacy :: "string \<Rightarrow> string \<Rightarrow> unit pio" where
  "stage_legacy base library = bindI (copy_if_other library (under base (''native/target/release/'' @ path_tail library))) (\<lambda>_.
     copy_if_other library (under base (''build/odbc-native/pinned/'' @ path_tail library)))"

definition run_measurement :: "os_env \<Rightarrow> string \<Rightarrow> string \<Rightarrow> bool \<Rightarrow> string option \<Rightarrow> bool \<Rightarrow> string \<Rightarrow> json pio" where
  "run_measurement S output base diagnostics library legacy name =
     (let target = under output (name @ ''.json''); log = under output (name @ ''.log'');
        test = (if diagnostics then ''transport_diagnostics_benchmark_test.dart'' else ''transport_repeated_benchmark_test.dart'') in
      bindI (case library of Some l \<Rightarrow> if legacy then stage_legacy base l else retI () | None \<Rightarrow> retI ()) (\<lambda>_.
      bindI (print_line (''Measuring '' @ name)) (\<lambda>_.
      bindI (write_bytes log []) (\<lambda>_.
      bindI (liftI (resolve_command S ([''flutter'', ''test'', ''test/infrastructure/codecs/'' @ test] @ (if diagnostics then [''--enable-vmservice''] else [])))) (\<lambda>args.
      bindI (run_process S args) (\<lambda>p. bindI (write_bytes log (p_out p)) (\<lambda>_.
      bindI (file_exists target) (\<lambda>there.
      if p_code p \<noteq> 0 \<or> \<not> there then raiseI (ValueErr ''measurement failed'') else read_json target))))))))"

record compare_args =
  ca_base :: string
  ca_base_revision :: "string option"
  ca_candidate :: string
  ca_output :: string
  ca_allow_odbc :: bool
  ca_base_native :: "string option"
  ca_candidate_native :: "string option"
  ca_base_odbc_revision :: "string option"
  ca_candidate_odbc_revision :: "string option"

text \<open>What \<open>main\<close> asks of its arguments before it starts\<close>

definition bad_arguments :: "compare_args \<Rightarrow> bool" where
  "bad_arguments a \<longleftrightarrow> (let both = (ca_base_native a \<noteq> None \<and> ca_candidate_native a \<noteq> None);
       some = (ca_base_native a \<noteq> None \<or> ca_candidate_native a \<noteq> None \<or> or_else (ca_base_odbc_revision a) None \<noteq> None \<or> or_else (ca_candidate_odbc_revision a) None \<noteq> None) in
     ca_allow_odbc a \<and> \<not> both \<or> some \<and> \<not> both \<or> ca_base a = ca_candidate a)"

text \<open>The files of the archive are the blobs of the revision.\<close>

definition blob_text :: "bytes \<Rightarrow> bytes" where
  "blob_text content = ''blob '' @ nat_str (length content) @ [CHR 0x00] @ content"

definition check_blob :: "string \<Rightarrow> string \<Rightarrow> unit pio" where
  "check_blob base line = (case str_cut [CHR 0x09] line of None \<Rightarrow> raiseI (ValueErr ''not enough values to unpack'')
     | Some (description, filename) \<Rightarrow> bindI (read_bytes (under base filename)) (\<lambda>content.
         let ws = filter (\<lambda>u. u \<noteq> []) (split_on '' '' description) in
         if length ws < 3 then raiseI IndexErr
         else if sha1_hex (blob_text content) \<noteq> ws ! 2 then raiseI (ValueErr ''Archive source differs from reference'') else retI ()))"

definition checked_output :: "os_env \<Rightarrow> string list \<Rightarrow> string pio" where
  "checked_output S args = bindI (run_process S args) (\<lambda>p. if p_code p \<noteq> 0 then raiseI (ProcessErr (p_code p)) else retI (p_out p))"

definition base_revision :: "os_env \<Rightarrow> compare_args \<Rightarrow> string option pio" where
  "base_revision S a = (case or_else (ca_base_revision a) None of None \<Rightarrow> retI None
     | Some r \<Rightarrow> bindI (checked_output S [''git'', ''rev-parse'', r @ ''^{commit}'']) (\<lambda>out.
         bindI (checked_output S [''git'', ''ls-tree'', ''-r'', strip out, ''lib'']) (\<lambda>tree.
         bindI (forI (splitlines tree) (check_blob (ca_base a))) (\<lambda>_. retI (Some (strip out))))))"

definition pub_get :: "os_env \<Rightarrow> unit pio" where
  "pub_get S = bindI (liftI (resolve_command S [''flutter'', ''pub'', ''get''])) (\<lambda>args. bindI (checked_output S args) (\<lambda>_. retI ()))"

definition native_pair :: "compare_args \<Rightarrow> dict pio" where
  "native_pair a = (case (ca_base_native a, ca_candidate_native a) of
       (Some b, Some c) \<Rightarrow> bindI (native_identity b (ca_base_odbc_revision a)) (\<lambda>x. bindI (native_identity c (ca_candidate_odbc_revision a)) (\<lambda>y.
         retI [(''base'', x), (''candidate'', y)]))
     | _ \<Rightarrow> retI [])"

text \<open>\<open>shutil.copytree\<close> without the directories and files that are ignored by name\<close>

definition ignored_names :: "string list" where
  "ignored_names = [''.git'', ''.dart_tool'', ''build'', ''.env'', ''artifacts'', ''node_modules'', ''ephemeral'', ''.plugin_symlinks'', ''target'']"

definition copy_tree :: "os_env \<Rightarrow> string \<Rightarrow> string \<Rightarrow> unit pio" where
  "copy_tree S base target = bindI (files_below S base) (\<lambda>ps.
     forI (filter (\<lambda>p. \<not> list_ex (\<lambda>n. n \<in> set ignored_names) (split_on ''/'' (drop (Suc (length base)) p))) ps)
       (\<lambda>p. copy_file p (path_join target (drop (Suc (length base)) p))))"

definition identity_json :: "string \<times> string \<Rightarrow> json" where
  "identity_json i = JObj [(''commit_sha'', JStr (fst i)), (''source_sha256'', JStr (snd i))]"

definition is_candidate :: "string \<Rightarrow> bool" where
  "is_candidate name \<longleftrightarrow> startswith name ''candidate''"

text \<open>The six measurements in their order\<close>

fun measure_all :: "os_env \<Rightarrow> compare_args \<Rightarrow> (string \<times> string) list \<Rightarrow> dict pio" where
  "measure_all S a [] = retI []"
| "measure_all S a ((name, base) # rest) =
     bindI (run_measurement S (ca_output a) base False (if is_candidate name then ca_candidate_native a else ca_base_native a) (\<not> is_candidate name) name) (\<lambda>m.
     bindI (measure_all S a rest) (\<lambda>ms. retI ((name, m) # ms)))"

definition measure_heap :: "os_env \<Rightarrow> compare_args \<Rightarrow> string \<times> string \<Rightarrow> json pio" where
  "measure_heap S a nb = run_measurement S (ca_output a) (snd nb) True (if is_candidate (fst nb) then ca_candidate_native a else ca_base_native a)
     (\<not> is_candidate (fst nb)) (fst nb @ ''-diagnostics'')"

definition heap_version_ok :: "json \<Rightarrow> bool res" where
  "heap_version_ok d = bindR (dget d ''diagnostics_version'') (\<lambda>v. Inr (py_eq v (JInt 2)))"

definition set_item :: "json \<Rightarrow> string \<Rightarrow> json \<Rightarrow> json res" where
  "set_item v k x = (case v of JObj kvs \<Rightarrow> Inr (JObj (dict_put k x kvs)) | _ \<Rightarrow> Inl TypeErr)"

text \<open>Each measurement gets the heap growth of its diagnostics and is written again.\<close>

fun add_heap :: "compare_args \<Rightarrow> json \<times> json \<times> json \<times> json \<Rightarrow> dict \<Rightarrow> dict pio" where
  "add_heap a heaps [] = retI []"
| "add_heap a heaps ((name, m) # rest) = (case heaps of (h1, h2, hb, hc) \<Rightarrow>
     let d = (if name = ''control-1'' then h1 else if name = ''control-2'' then h2 else if is_candidate name then hc else hb) in
     bindI (liftI (bindR (item d ''heap_growth_bytes'') (set_item m ''heap_growth_bytes''))) (\<lambda>m'.
     bindI (write_utf8 (under (ca_output a) (name @ ''.json'')) (dumps2 m')) (\<lambda>_.
     bindI (add_heap a heaps rest) (\<lambda>ms. retI ((name, m') # ms)))))"

text \<open>\<open>report.update(...)\<close>\<close>

definition update_report :: "dict \<Rightarrow> dict \<Rightarrow> dict" where
  "update_report kvs report = fold (\<lambda>(k, v). dict_put k v) kvs report"

definition inconclusive :: "string \<Rightarrow> dict" where
  "inconclusive reason = [(''status'', JStr ''inconclusive''), (''reason'', JStr reason)]"

definition update_if :: "bool \<Rightarrow> string \<Rightarrow> dict \<Rightarrow> dict" where
  "update_if b reason report = (if b then update_report (inconclusive reason) report else report)"

text \<open>The verdict from the measurements\<close>

definition verdict_of :: "dict \<Rightarrow> dict res" where
  "verdict_of ms = (let m = field ms in
     bindR (compare (m ''control-1'') (m ''control-2'')) (\<lambda>c. bindR (compare (m ''base-forward'') (m ''candidate-forward'')) (\<lambda>f.
     bindR (compare (m ''base-reverse'') (m ''candidate-reverse'')) (\<lambda>r. bindR (qualify c f r) (\<lambda>report.
     bindR (compare (m ''control-2'') (m ''control-1'')) (\<lambda>cr.
     bindR (set_item report ''control_reverse'' cr) (\<lambda>report'. bindR (any_truthy cr [''failures'', ''pending_metrics'']) (\<lambda>bad.
     case report' of JObj kvs \<Rightarrow> Inr (update_if bad ''Identical-code reverse control is unstable or incomplete'' kvs) | _ \<Rightarrow> Inl TypeErr))))))))"

definition names_and_roots :: "compare_args \<Rightarrow> string \<Rightarrow> (string \<times> string) list" where
  "names_and_roots a control = [(''control-1'', ca_base a), (''control-2'', control), (''base-forward'', ca_base a),
     (''candidate-forward'', ca_candidate a), (''candidate-reverse'', ca_candidate a), (''base-reverse'', ca_base a)]"

text \<open>The measurements of a run, after the control copy was found identical to the base\<close>

definition measure_run :: "os_env \<Rightarrow> compare_args \<Rightarrow> string \<Rightarrow> dict pio" where
  "measure_run S a control =
     bindI (measure_all S a (names_and_roots a control)) (\<lambda>ms.
     bindI (measure_heap S a (''control-1'', ca_base a)) (\<lambda>h1. bindI (measure_heap S a (''control-2'', control)) (\<lambda>h2.
     bindI (measure_heap S a (''base'', ca_base a)) (\<lambda>hb. bindI (measure_heap S a (''candidate'', ca_candidate a)) (\<lambda>hc.
     bindI (liftI (allR heap_version_ok [h1, h2, hb, hc])) (\<lambda>good.
     if \<not> good then raiseI (ValueErr ''Heap qualification requires diagnostics v2 without retained allocation profiles'')
     else bindI (add_heap a (h1, h2, hb, hc) ms) (\<lambda>ms'. liftI (verdict_of ms'))))))))"

text \<open>The checks after the measurements: nothing changed meanwhile\<close>

definition native_changed :: "compare_args \<Rightarrow> dict \<Rightarrow> bool pio" where
  "native_changed a native = (case (ca_base_native a, ca_candidate_native a) of
       (Some b, Some c) \<Rightarrow> bindI (native_identity b (ca_base_odbc_revision a)) (\<lambda>x.
         if \<not> py_eq (field native ''base'') x then retI True
         else bindI (native_identity c (ca_candidate_odbc_revision a)) (\<lambda>y. retI (\<not> py_eq (field native ''candidate'') y)))
     | _ \<Rightarrow> retI False)"

definition recheck :: "os_env \<Rightarrow> compare_args \<Rightarrow> string \<Rightarrow> string \<Rightarrow> string option \<Rightarrow> (string \<times> string) \<times> (string \<times> string) \<Rightarrow> dict \<Rightarrow> dict \<Rightarrow> dict pio" where
  "recheck S a control harness revision idents native report =
     bindI (native_changed a native) (\<lambda>changed.
     let report = update_if changed ''Native binaries changed during measurement'' report in
     bindI (collect_source_identity S (ca_base a) revision) (\<lambda>b.
     bindI (if b \<noteq> fst idents then retI True else bindI (collect_source_identity S (ca_candidate a) None) (\<lambda>c. retI (c \<noteq> snd idents))) (\<lambda>moved.
     let report = update_if moved ''Application sources changed during measurement'' report in
     bindI (file_set_identity (ca_base a) HARNESS_FILES) (\<lambda>x.
     bindI (if x \<noteq> harness then retI True else bindI (file_set_identity (ca_candidate a) HARNESS_FILES) (\<lambda>y.
       if y \<noteq> harness then retI True else bindI (file_set_identity control HARNESS_FILES) (\<lambda>z. retI (z \<noteq> harness)))) (\<lambda>other.
     retI (update_if other ''Measurement harness changed during measurement'' report))))))"

definition report_details :: "dict \<Rightarrow> dict \<Rightarrow> dict \<Rightarrow> json \<Rightarrow> pyfloat list \<Rightarrow> string \<Rightarrow> (string \<times> string) \<times> (string \<times> string) \<Rightarrow> dict" where
  "report_details bd cd native machine readings harness idents =
     [(''base'', identity_json (fst idents)), (''candidate'', identity_json (snd idents)),
      (''dependencies'', JObj [(''base'', JObj bd), (''candidate'', JObj cd)]), (''native'', JObj native), (''machine'', machine),
      (''largest_heartbeat_gap_seconds'', JFloat (largest_gap readings)), (''heap_diagnostics_version'', JInt 2), (''harness_sha256'', JStr harness)]"

definition the_dict :: "json \<Rightarrow> dict res" where
  "the_dict v = (case v of JObj kvs \<Rightarrow> Inr kvs | _ \<Rightarrow> Inl TypeErr)"

definition comparison_run :: "os_env \<Rightarrow> host \<Rightarrow> pyfloat list \<Rightarrow> string \<Rightarrow> compare_args \<Rightarrow> string \<Rightarrow> dict pio" where
  "comparison_run S h readings control a harness =
     bindI (base_revision S a) (\<lambda>revision. bindI (pub_get S) (\<lambda>_.
     bindI (bindI (collect_dependency_provenance (ca_base a)) (\<lambda>v. liftI (the_dict v))) (\<lambda>bd.
     bindI (bindI (collect_dependency_provenance (ca_candidate a)) (\<lambda>v. liftI (the_dict v))) (\<lambda>cd.
     bindI (liftI (validate_dependency_change bd cd (ca_allow_odbc a))) (\<lambda>_.
     bindI (native_pair a) (\<lambda>native.
     bindI (collect_source_identity S (ca_base a) revision) (\<lambda>bi. bindI (collect_source_identity S (ca_candidate a) None) (\<lambda>ci.
     bindI (copy_tree S (ca_base a) control) (\<lambda>_. bindI (pub_get S) (\<lambda>_.
     bindI (collect_source_identity S control (Some (fst bi))) (\<lambda>ctl.
     if ctl \<noteq> bi then raiseI (ValueErr ''Identical-code control copy differs from base sources'') else
     bindI (measure_run S a control) (\<lambda>report.
     bindI (collect_machine_metadata S h) (\<lambda>machine.
     let report = update_if (interrupted readings) ''Measurement crossed a suspension or heartbeat interruption''
       (update_report (report_details bd cd native machine readings harness (bi, ci)) report) in
     recheck S a control harness revision (bi, ci) native report)))))))))))))"

definition caught_by_run :: "exn \<Rightarrow> bool" where
  "caught_by_run e \<longleftrightarrow> is_os_err e \<or> is_value_err e \<or> (case e of KeyErr _ \<Rightarrow> True | TypeErr \<Rightarrow> True | _ \<Rightarrow> False)"

text \<open>\<open>main\<close>; the text of an error in the report is the argument \<open>message\<close>.\<close>

definition transport_main :: "os_env \<Rightarrow> host \<Rightarrow> pyfloat list \<Rightarrow> (exn \<Rightarrow> string) \<Rightarrow> string \<Rightarrow> compare_args \<Rightarrow> int pio" where
  "transport_main S h readings message tmp a = (if bad_arguments a then raiseI (ExitCode 2) else
     bindI (file_set_identity (ca_candidate a) HARNESS_FILES) (\<lambda>harness.
     let target = under (ca_output a) ''comparison.json'' in
     bindI (write_utf8 target (dumps_ascii '', '' '': '' (JObj (inconclusive ''Measurement in progress'')))) (\<lambda>_.
     bindI (forI HARNESS_FILES (\<lambda>name. copy_file (under (ca_candidate a) name) (under (ca_base a) name))) (\<lambda>_.
     bindI (finallyI (catchI (comparison_run S h readings (path_join tmp ''source'') a harness)
         (\<lambda>e. if caught_by_run e then retI (inconclusive (message e)) else raiseI e)) (remove_tree tmp)) (\<lambda>report.
     bindI (write_utf8 target (dumps2 (JObj report))) (\<lambda>_.
     bindI (print_line (''Transport qualification: '' @ str_json (field report ''status''))) (\<lambda>_.
     liftI (bindR (str_of (field report ''status'')) status_code))))))))"

end
