(* ===== verification/Bench_Migrate.thy ===== *)
theory Bench_Migrate
  imports Bench_Env Release_Changelog
begin

text \<open>
  \<open>tool/py/benchmark_migrate.py\<close>: the conversion of old result files to summaries. The configuration of an old file may
  hold connection strings and addresses; only flags of a fixed list pass.
\<close>

subsection \<open>The time of a run\<close>

definition s_two :: "(char \<Rightarrow> bool) \<Rightarrow> (char \<Rightarrow> bool) \<Rightarrow> sx" where
  "s_two P Q = SSeq (STok (t_cls P)) (STok (t_cls Q))"

definition one_to_nine :: "char \<Rightarrow> bool" where
  "one_to_nine c \<longleftrightarrow> is_digit c \<and> c \<noteq> CHR ''0''"

definition s_chr :: "char \<Rightarrow> sx" where
  "s_chr c = STok (t_cls ((=) c))"

text \<open>The directives of \<open>strptime\<close>, with their alternatives in the order in which it tries them\<close>

definition d_year :: sx where "d_year = SSeq (s_two is_digit is_digit) (s_two is_digit is_digit)"

definition d_month :: sx where
  "d_month = s_alts [s_two ((=) CHR ''1'') (\<lambda>c. c \<in> set ''012''), s_two ((=) CHR ''0'') one_to_nine, STok (t_cls one_to_nine)]"

definition d_day :: sx where
  "d_day = s_alts [s_two ((=) CHR ''3'') (\<lambda>c. c \<in> set ''01''), s_two (\<lambda>c. c \<in> set ''12'') is_digit, s_two ((=) CHR ''0'') one_to_nine, STok (t_cls one_to_nine),
     s_two ((=) CHR '' '') one_to_nine]"

definition d_hour :: sx where
  "d_hour = s_alts [s_two ((=) CHR ''2'') (\<lambda>c. c \<in> set ''0123''), s_two (\<lambda>c. c \<in> set ''01'') is_digit, STok (t_cls is_digit)]"

definition d_minute :: sx where
  "d_minute = s_alts [s_two (\<lambda>c. c \<in> set ''012345'') is_digit, STok (t_cls is_digit)]"

definition d_second :: sx where
  "d_second = s_alts [s_two ((=) CHR ''6'') (\<lambda>c. c \<in> set ''01''), s_two (\<lambda>c. c \<in> set ''012345'') is_digit, STok (t_cls is_digit)]"

definition rx_run_timestamp :: sx where
  "rx_run_timestamp = s_seq [SGroup ''Y'' d_year, SGroup ''m'' d_month, SGroup ''d'' d_day, s_chr CHR ''_'', SGroup ''H'' d_hour, SGroup ''M'' d_minute, SGroup ''S'' d_second]"

definition pad2 :: "nat \<Rightarrow> string" where
  "pad2 n = (if n < 10 then ''0'' else []) @ nat_str n"

definition run_timestamp_to_iso :: "string \<Rightarrow> string" where
  "run_timestamp_to_iso t = (case matches rx_run_timestamp ([], t) of
       (g, q) # _ \<Rightarrow>
         (let n = (\<lambda>k. digits_val (strip (grp k g))) in
          if snd q \<noteq> [] \<or> n ''Y'' = 0 \<or> days_in_month (n ''Y'') (n ''m'') < n ''d'' \<or> 59 < n ''S'' then t
          else grp ''Y'' g @ ''-'' @ pad2 (n ''m'') @ ''-'' @ pad2 (n ''d'') @ ''T'' @ pad2 (n ''H'') @ '':'' @ pad2 (n ''M'') @ '':'' @ pad2 (n ''S''))
     | [] \<Rightarrow> t)"

subsection \<open>The configuration\<close>

text \<open>
  Lower case as far as these texts need it: the Kelvin sign becomes k, and \<open>re.IGNORECASE\<close> also takes the long s and the
  dotted and dotless i as s and i.
\<close>

definition lower_key :: "string \<Rightarrow> string" where
  "lower_key s = lower (replace_str (map char_of [226, 132, 170 :: nat]) ''k'' s)"

definition fold_case :: "string \<Rightarrow> string" where
  "fold_case s = lower_key (replace_str (map char_of [197, 191 :: nat]) ''s''
     (replace_str (map char_of [196, 176 :: nat]) ''i'' (replace_str (map char_of [196, 177 :: nat]) ''i'' s)))"

definition has_secret_word :: "string \<Rightarrow> bool" where
  "has_secret_word s = has_any [''url'', ''token'', ''secret'', ''password'', ''dsn'', ''jwt'', ''credential'', ''connection_string''] (fold_case s)"

definition has_url :: "string \<Rightarrow> bool" where
  "has_url s = has_any [''http://'', ''https://''] (fold_case s)"

definition extra_flags :: "string list" where
  "extra_flags = [''odbc_e2e_dml_stress_tests'', ''odbc_e2e_dml_bulk_tests'', ''odbc_e2e_codcliente_tests'', ''odbc_e2e_transactional_batch'',
     ''odbc_e2e_dml_bulk_chunk_size'', ''method'']"

definition allowed_flags :: "string list" where
  "allowed_flags = map lower SAFE_ENV_KEYS @ extra_flags"

text \<open>The value that is kept of a text or number; \<open>None\<close> leaves the flag out.\<close>

definition text_flag :: "string \<Rightarrow> json option" where
  "text_flag t =
     (if lower t \<in> {''true'', ''false''} then Some (JBool (lower t = ''true''))
      else if has_url t then None
      else case (if contains t ''.'' then map_option JFloat (float_of_str t) else map_option JInt (int_of_str t)) of
        Some v \<Rightarrow> Some v
      | None \<Rightarrow> if t \<noteq> [] \<and> py_len t < 64 then Some (JStr t) else None)"

definition clean_value :: "json \<Rightarrow> json option" where
  "clean_value v = (case v of JStr s \<Rightarrow> text_flag (strip s) | JBool b \<Rightarrow> Some v | JInt i \<Rightarrow> Some v | JFloat x \<Rightarrow> Some v | _ \<Rightarrow> None)"

definition clean_item :: "string \<times> json \<Rightarrow> dict \<Rightarrow> dict" where
  "clean_item kv d = (if has_secret_word (fst kv) \<or> has_url (str_json (snd kv)) \<or> lower_key (fst kv) \<notin> set allowed_flags then d
     else case clean_value (snd kv) of None \<Rightarrow> d | Some v \<Rightarrow> dict_put (lower_key (fst kv)) v d)"

definition sanitize_config :: "dict option \<Rightarrow> dict" where
  "sanitize_config config = (case config of None \<Rightarrow> [] | Some kvs \<Rightarrow> if kvs = [] then [] else
     (let flags = fold clean_item kvs [] in
      if map_of flags ''odbc_test_dsn_configured'' = None then dict_put ''odbc_test_dsn_configured'' (JBool True) flags else flags))"

subsection \<open>Suites\<close>

definition METRIC_KEYS :: "string list" where
  "METRIC_KEYS = [''wall_ms'', ''wall_s'', ''insert_ms'', ''update_ms'', ''delete_ms'', ''total_ms'', ''queued_elapsed_ms'', ''create_ms'', ''drop_ms'',
     ''insert_rows_per_sec'', ''update_rows_per_sec'', ''delete_rows_per_sec'', ''passed'', ''failed'', ''skipped'', ''cases'', ''rows'', ''concurrency'',
     ''bulk_insert_parallel_total'', ''bulk_insert_chunked_total'']"

definition legacy_status :: "string \<Rightarrow> string" where
  "legacy_status s = (if s = ''partial_fail'' \<or> s = ''fail_on_sql_server_run'' then ''fail''
     else if s \<in> {''pass'', ''fail'', ''skipped'', ''error''} then s else ''error'')"

definition extract_metric :: "string \<times> json \<Rightarrow> dict \<Rightarrow> dict res" where
  "extract_metric kv d = (if fst kv \<in> set METRIC_KEYS \<and> is_number (snd kv) then bindR (to_float (snd kv)) (\<lambda>x.
       Inr (if fst kv = ''wall_s'' then put_float ''wall_ms'' (float_mul x (FFin 1000)) d else put_float (fst kv) x d))
     else Inr d)"

definition extract_metrics :: "dict \<Rightarrow> dict res" where
  "extract_metrics entry = foldR extract_metric entry []"

definition put_if :: "bool \<Rightarrow> string \<Rightarrow> json \<Rightarrow> dict \<Rightarrow> dict" where
  "put_if b k v d = (if b then dict_put k v d else d)"

definition or_json :: "json \<Rightarrow> json \<Rightarrow> json" where
  "or_json a b = (if truthy a then a else b)"

definition base_suite :: "string \<Rightarrow> string \<Rightarrow> dict \<Rightarrow> dict" where
  "base_suite suite_id status metrics = put_if (map_of metrics ''wall_ms'' \<noteq> None) ''wall_ms'' (field metrics ''wall_ms'')
     (put_if (metrics \<noteq> []) ''metrics'' (JObj metrics) [(''id'', JStr suite_id), (''kind'', JStr ''flutter_test''), (''status'', JStr status)])"

text \<open>A number in \<open>wall_s\<close> always gives the metric \<open>wall_ms\<close>, so that the second source of \<open>wall_ms\<close> is never used.\<close>

definition suite_from_result :: "dict \<Rightarrow> json res" where
  "suite_from_result entry = (let status = legacy_status (str_json (field_or entry ''status'' (JStr ''error'')));
       reason = or_json (field entry ''reason'') (field entry ''note'') in
     bindR (extract_metrics entry) (\<lambda>metrics.
     Inr (JObj (put_if (truthy reason \<and> status \<in> {''skipped'', ''fail'', ''error''}) ''reason'' (JStr (py_take 500 (str_json reason)))
       (base_suite (str_json (field_or entry ''test'' (JStr ''unknown'')) @ ''.'' @ str_json (field_or entry ''driver'' (JStr ''unknown''))) status metrics)))))"

definition suite_from_suite_result :: "string \<Rightarrow> dict \<Rightarrow> json res" where
  "suite_from_suite_result suite_id entry = (let status = legacy_status (str_json (field_or entry ''status'' (JStr ''error'')));
       log = field entry ''log''; failures = field entry ''failures'' in
     bindR (extract_metrics entry) (\<lambda>metrics.
     let suite = put_if (is_str log \<and> truthy log) ''log_file'' log (base_suite suite_id status metrics) in
     if truthy failures then bindR (iter_of failures) (\<lambda>fs. Inr (JObj (dict_put ''reason'' (JStr (py_take 500 (join ''; '' (map str_json fs)))) suite)))
     else Inr (JObj suite)))"

subsection \<open>The summary\<close>

definition legacy_suites :: "dict \<Rightarrow> json list res" where
  "legacy_suites legacy = bindR (iter_of (field_or legacy ''results'' (JList []))) (\<lambda>entries.
     bindR (mapR (\<lambda>e. case e of JObj kvs \<Rightarrow> bindR (suite_from_result kvs) (\<lambda>s. Inr [s]) | _ \<Rightarrow> Inr []) entries) (\<lambda>a.
     bindR (case field legacy ''suite_results'' of
       JObj rs \<Rightarrow> mapR (\<lambda>(i, e). case e of JObj kvs \<Rightarrow> if i = ''totals'' then Inr [] else bindR (suite_from_suite_result i kvs) (\<lambda>s. Inr [s]) | _ \<Rightarrow> Inr []) rs
     | _ \<Rightarrow> Inr []) (\<lambda>b. Inr (concat a @ concat b))))"

definition migration_notes :: "dict \<Rightarrow> string option \<Rightarrow> string list" where
  "migration_notes legacy source = [''Migrated from legacy benchmark_logs/ E2E summary (schema v1).'', ''Connection strings, URLs, tokens and host-specific config were stripped.'']
     @ (if truthy (field legacy ''scope'') then [''Legacy scope: '' @ str_json (field legacy ''scope'')] else [])
     @ (case source of None \<Rightarrow> [] | Some p \<Rightarrow> [''Source: '' @ p])"

definition migrate_legacy_summary :: "json \<Rightarrow> string option \<Rightarrow> json res" where
  "migrate_legacy_summary legacy source = (case legacy of JObj kvs \<Rightarrow>
       (let run_id = str_json (or_json (or_json (field kvs ''run_timestamp'') (field kvs ''run_id'')) (JStr ''unknown'')) in
        bindR (legacy_suites kvs) (\<lambda>suites.
        Inr (JObj [(''$schema'', JStr ''../schema/summary.schema.json''), (''schema_version'', JInt 1), (''run_id'', JStr run_id),
          (''captured_at'', JStr (run_timestamp_to_iso run_id)),
          (''git'', JObj [(''commit_sha'', JStr ''migrated-legacy''), (''branch'', JStr ''migrated-legacy''), (''dirty'', JBool False)]),
          (''machine'', JObj [(''platform'', JStr ''legacy-e2e''), (''machine'', JStr ''migrated''), (''processor'', JStr ''benchmark_logs-import'')]),
          (''env_flags'', JObj (sanitize_config (case field kvs ''config'' of JObj c \<Rightarrow> Some c | _ \<Rightarrow> None))),
          (''suites'', JList suites), (''notes'', JList (map JStr (migration_notes kvs source)))])))
     | _ \<Rightarrow> Inl AttributeErr)"

definition migrate_legacy_file :: "string \<Rightarrow> string \<Rightarrow> string pio" where
  "migrate_legacy_file source output_dir = bindI (read_text source) (\<lambda>t. bindI (liftI (json_loads t)) (\<lambda>legacy.
     bindI (liftI (migrate_legacy_summary legacy (Some source))) (\<lambda>summary.
     bindI (liftI (bindR (item summary ''run_id'') str_of)) (\<lambda>run_id.
     let destination = path_join (path_join output_dir run_id) ''summary.json'' in
     bindI (write_json destination summary) (\<lambda>_. retI destination)))))"

subsection \<open>What the flags may hold\<close>

definition clean_flags :: "dict \<Rightarrow> bool" where
  "clean_flags d \<longleftrightarrow> (\<forall>(k, v) \<in> set d. k \<in> set (''odbc_test_dsn_configured'' # allowed_flags) \<and>
     (case v of JStr s \<Rightarrow> \<not> has_url s \<and> py_len s < 64 | JBool _ \<Rightarrow> True | JInt _ \<Rightarrow> True | JFloat _ \<Rightarrow> True | _ \<Rightarrow> False))"

lemma clean_value_ok: "clean_value x = Some v \<Longrightarrow> (case v of JStr s \<Rightarrow> \<not> has_url s \<and> py_len s < 64 | JBool _ \<Rightarrow> True | JInt _ \<Rightarrow> True | JFloat _ \<Rightarrow> True | _ \<Rightarrow> False)"
  by (auto simp: clean_value_def text_flag_def split: json.splits if_splits option.splits)

lemma clean_item_ok: "clean_flags d \<Longrightarrow> clean_flags (clean_item kv d)"
proof -
  assume d: "clean_flags d"
  show ?thesis
  proof (cases "has_secret_word (fst kv) \<or> has_url (str_json (snd kv)) \<or> lower_key (fst kv) \<notin> set allowed_flags \<or> clean_value (snd kv) = None")
    case True
    then show ?thesis using d by (auto simp: clean_item_def split: option.splits)
  next
    case False
    then obtain v where v: "clean_value (snd kv) = Some v" "lower_key (fst kv) \<in> set allowed_flags" by auto
    have "clean_item kv d = dict_put (lower_key (fst kv)) v d" using False v by (simp add: clean_item_def)
    then show ?thesis using dict_put_subset[of "lower_key (fst kv)" v d] d clean_value_ok[OF v(1)] v(2) by (auto simp: clean_flags_def)
  qed
qed

lemma clean_items_ok: "clean_flags d \<Longrightarrow> clean_flags (fold clean_item kvs d)"
  by (induction kvs arbitrary: d) (auto simp: clean_item_ok)

lemma sanitize_clean: "clean_flags (sanitize_config config)"
proof -
  have c: "clean_flags (fold clean_item kvs [])" for kvs by (rule clean_items_ok) (simp add: clean_flags_def)
  then have "clean_flags (dict_put ''odbc_test_dsn_configured'' (JBool True) (fold clean_item kvs []))" for kvs
    using dict_put_subset[of "''odbc_test_dsn_configured''" "JBool True" "fold clean_item kvs []"] by (force simp: clean_flags_def)
  then show ?thesis using c by (auto simp: sanitize_config_def Let_def clean_flags_def[of "[]"] split: option.splits)
qed

text \<open>
  C35. No address and no unknown setting survives the migration: whatever the old file holds, every flag of the migrated
  summary has a key of the fixed list (or is \<open>odbc_test_dsn_configured\<close>), and a text value is shorter than 64
  characters and holds no \<open>http://\<close> or \<open>https://\<close>, in any case.
\<close>

theorem migrated_flags_clean:
  "case migrate_legacy_summary legacy source of Inl _ \<Rightarrow> True | Inr summary \<Rightarrow>
     (\<exists>kvs flags. summary = JObj kvs \<and> map_of kvs ''env_flags'' = Some (JObj flags) \<and> clean_flags flags)"
proof (cases legacy)
  case (JObj kvs)
  then show ?thesis using sanitize_clean by (cases "legacy_suites kvs") (auto simp: migrate_legacy_summary_def Let_def)
qed (simp_all add: migrate_legacy_summary_def)

end
