(* ===== verification/Bench_Runner.thy ===== *)
theory Bench_Runner
  imports Bench_Env Bench_Gate Release_Changelog
begin

text \<open>
  \<open>tool/py/odbc_benchmark_runner.py\<close>: the native benchmarks. A benchmark is run, its log is read and checked, and the exit
  code tells a failure (1), an unusable measurement (2) or a missed gate (3). The reading of the clock is an argument, a
  function of the commands issued so far. The environment that is made for the child process is only used by the
  gates.
\<close>

definition DEFAULT_ASYNC_BENCHMARK :: string where
  "DEFAULT_ASYNC_BENCHMARK = ''tool/benchmarks/native_odbc_benchmark.dart''"

fun first_value :: "environ \<Rightarrow> string list \<Rightarrow> string" where
  "first_value env [] = []"
| "first_value env (k # ks) = (if strip (getenv env k []) \<noteq> [] then strip (getenv env k []) else first_value env ks)"

definition resolve_benchmark_dsn :: "environ \<Rightarrow> string" where
  "resolve_benchmark_dsn env = first_value env
     [''ODBC_BENCH_DRIVER_DSN'', ''ODBC_TEST_DSN_SQL_SERVER'', ''ODBC_DSN_SQL_SERVER'', ''ODBC_TEST_DSN'', ''ODBC_DSN'']"

definition apply_benchmark_dsn_preference :: "environ \<Rightarrow> environ" where
  "apply_benchmark_dsn_preference env = (let dsn = resolve_benchmark_dsn env in if dsn \<noteq> [] then env(''ODBC_TEST_DSN'' \<mapsto> dsn) else env)"

definition resolve_benchmark_driver_family :: "environ \<Rightarrow> string" where
  "resolve_benchmark_driver_family env = get_dsn_driver_family (resolve_benchmark_dsn env)"

definition reset_benchmark_log :: "string \<Rightarrow> unit pio" where
  "reset_benchmark_log log_path = write_bytes log_path []"

text \<open>\<open>^version:\s*([^\s#]+)\<close>\<close>

definition package_version :: "string \<Rightarrow> string option" where
  "package_version s = (case version_word s of None \<Rightarrow> None
     | Some v \<Rightarrow> let w = takeWhile (\<lambda>c. c \<noteq> CHR ''#'') v in if w = [] then None else Some w)"

definition native_environment :: "bool \<Rightarrow> string \<Rightarrow> environ \<Rightarrow> environ pio" where
  "native_environment nt package_root env = bindI (read_text (path_join package_root ''pubspec.yaml'')) (\<lambda>t.
     case (first_match package_version (at_lines t), or_else (or_else (env ''USERPROFILE'') (env ''HOME'')) None) of
       (Some version, Some home) \<Rightarrow>
         (let artifact = home @ ''/.cache/odbc_fast/'' @ version @ ''/'' @ (if nt then ''windows_x64'' else ''linux_x64'');
            library = (if nt then ''odbc_engine.dll'' else ''libodbc_engine.so'');
            path_key = (if nt then ''PATH'' else ''LD_LIBRARY_PATH'') in
          bindI (file_exists (path_join artifact library)) (\<lambda>there.
          retI (if there then env(path_key \<mapsto> artifact @ (if nt then '';'' else '':'') @ getenv env path_key []) else env)))
     | _ \<Rightarrow> retI env)"

subsection \<open>Running a command\<close>

text \<open>The reading of \<open>time.perf_counter\<close> after the given commands\<close>

type_synonym clock = "string list list \<Rightarrow> pyfloat"

definition perf_counter :: "clock \<Rightarrow> pyfloat pio" where
  "perf_counter clock = readI (\<lambda>w. clock (pw_trace w))"

definition read_log :: "string \<Rightarrow> string pio" where
  "read_log log_path = bindI (file_exists log_path) (\<lambda>there. if there then read_text log_path else retI [])"

text \<open>A command with its log: the exit code, the time in milliseconds and the text of the log\<close>

definition timed :: "os_env \<Rightarrow> clock \<Rightarrow> string list \<Rightarrow> string \<Rightarrow> (int \<times> pyfloat \<times> string) pio" where
  "timed S clock cmd log_path = bindI (perf_counter clock) (\<lambda>started.
     bindI (run_streaming S cmd (Some log_path)) (\<lambda>exit_code.
     bindI (perf_counter clock) (\<lambda>finished.
     bindI (read_log log_path) (\<lambda>output.
     retI (exit_code, float_mul (float_sub finished started) (FFin 1000), output)))))"

text \<open>What both benchmarks do first: the environment for the gates, and the run itself\<close>

definition native_run :: "os_env \<Rightarrow> bool \<Rightarrow> clock \<Rightarrow> string \<Rightarrow> string \<Rightarrow> string \<Rightarrow> string list \<Rightarrow> string option \<Rightarrow> environ \<Rightarrow> (environ \<times> int \<times> pyfloat \<times> string) pio" where
  "native_run S nt clock mode package_root log_path extra_args benchmark_path env =
     bindI (native_environment nt package_root env) (\<lambda>env1.
     let env2 = apply_benchmark_dsn_preference env1;
       env3 = (if mode = ''async'' then env2(''ODBC_BENCH_REPRO_DIR'' \<mapsto> path_join (path_parent log_path) ''native_reproducer'') else env2) in
     bindI (checkI (\<lambda>w. resolve_benchmark_package (case benchmark_path of Some p \<Rightarrow> p | None \<Rightarrow> DEFAULT_ASYNC_BENCHMARK) (pw_files w))) (\<lambda>(_, _, relative_path).
     bindI (reset_benchmark_log log_path) (\<lambda>_.
     bindI (timed S clock ([''dart'', ''run'', relative_path, ''--mode'', mode] @ extra_args) log_path) (\<lambda>r. retI (env3, r)))))"

text \<open>A report of the wanted mode with nine repetitions\<close>

definition nine_repeats :: "string \<Rightarrow> string \<Rightarrow> bool res" where
  "nine_repeats output mode = andR (valid_native_benchmark_report output mode)
     (case extract_json_object_from_output output of None \<Rightarrow> Inl AttributeErr | Some kvs \<Rightarrow> Inr (py_eq (field kvs ''repeats'') (JInt 9)))"

subsection \<open>The asynchronous benchmark\<close>

text \<open>\<open>required.issubset({row.label for row in scenarios})\<close>\<close>

definition all_scenarios :: "string \<Rightarrow> bool res" where
  "all_scenarios output = bindR (parse_async_benchmark_scenarios output) (\<lambda>rows.
     if \<not> list_all (hashable \<circ> as_label) rows then Inl TypeErr
     else Inr (list_all (\<lambda>l. list_ex (\<lambda>row. py_eq (as_label row) (JStr l)) rows) (expected_scenarios ''async'')))"

definition async_exit :: "environ \<Rightarrow> string \<Rightarrow> int \<Rightarrow> int res" where
  "async_exit env output exit_code =
     (if exit_code \<noteq> 0 then Inr exit_code else
      bindR (nine_repeats output ''async'') (\<lambda>good. if \<not> good then Inr 2 else
      bindR (enforce_async_benchmark_gates env output) (\<lambda>gate. if gate \<noteq> 0 then Inr gate else
      bindR (all_scenarios output) (\<lambda>complete. Inr (if complete then exit_code else 2)))))"

definition run_odbc_async_benchmark ::
  "os_env \<Rightarrow> bool \<Rightarrow> clock \<Rightarrow> string \<Rightarrow> string \<Rightarrow> string list \<Rightarrow> string option \<Rightarrow> environ \<Rightarrow> (int \<times> dict \<times> string) pio" where
  "run_odbc_async_benchmark S nt clock package_root log_path extra_args benchmark_path env =
     bindI (native_run S nt clock ''async'' package_root log_path extra_args benchmark_path env) (\<lambda>(benchmark_env, exit_code, wall_ms, output).
     bindI (liftI (parse_odbc_benchmark_metrics output)) (\<lambda>metrics.
     bindI (liftI (async_exit benchmark_env output exit_code)) (\<lambda>code.
     retI (code, put_float ''wall_ms'' wall_ms metrics, output))))"

subsection \<open>The streaming benchmark\<close>

definition buffer_rows :: string where "buffer_rows = ''streamQueryBuffer.rows''"

definition batched_rows :: string where "batched_rows = ''streamQueryBatched.rows''"

text \<open>No rows in one of the modes\<close>

definition rows_missing :: "dict \<Rightarrow> bool res" where
  "rows_missing d = anyR (\<lambda>k. leR (field_or d k (JInt 0)) (FFin 0)) [buffer_rows, batched_rows]"

definition streaming_exit :: "environ \<Rightarrow> string \<Rightarrow> dict \<Rightarrow> int res" where
  "streaming_exit env output stream_metrics =
     bindR (nine_repeats output ''streaming'') (\<lambda>good. if \<not> good then Inr 2 else
     bindR (rows_missing stream_metrics) (\<lambda>missing. if missing then Inr 2 else
     if \<not> py_eq (field stream_metrics buffer_rows) (field stream_metrics batched_rows) then Inr 2 else
     enforce_streaming_benchmark_gates env output))"

text \<open>\<open>d.update(e)\<close>\<close>

definition dict_update :: "dict \<Rightarrow> dict \<Rightarrow> dict" where
  "dict_update d e = fold (\<lambda>(k, v). dict_put k v) e d"

definition run_odbc_streaming_benchmark ::
  "os_env \<Rightarrow> bool \<Rightarrow> clock \<Rightarrow> string \<Rightarrow> string \<Rightarrow> string list \<Rightarrow> string option \<Rightarrow> environ \<Rightarrow> (int \<times> dict \<times> string) pio" where
  "run_odbc_streaming_benchmark S nt clock package_root log_path extra_args benchmark_path env =
     bindI (native_run S nt clock ''streaming'' package_root log_path extra_args benchmark_path env) (\<lambda>(benchmark_env, exit_code, wall_ms, output).
     bindI (liftI (parse_odbc_benchmark_metrics output)) (\<lambda>parsed. let metrics = put_float ''wall_ms'' wall_ms parsed in
     if exit_code \<noteq> 0 then retI (exit_code, metrics, output) else
     bindI (liftI (parse_odbc_streaming_benchmark_metrics output)) (\<lambda>stream_metrics.
     bindI (liftI (streaming_exit benchmark_env output stream_metrics)) (\<lambda>code.
     retI (code, dict_update metrics stream_metrics, output)))))"

end
