(* ===== verification/Bench_Suite.thy ===== *)
theory Bench_Suite
  imports Bench_Runner Bench_Compare
begin

text \<open>
  \<open>tool/benchmarks/run_benchmark_suite.py\<close>: the runner of the benchmark suites. Paths are relative to the project; the
  clock, the machine, the identifier of the run and the time stamp are arguments. The printed lines are only
  modelled for a dry run.
\<close>

record bench =
  b_os :: os_env
  b_nt :: bool
  b_package_dir :: "json \<Rightarrow> string res"
  b_untar :: "string \<Rightarrow> (string \<times> bytes) list res"
  b_home :: "string option"
  b_clock :: clock
  b_host :: host
  b_project :: string
  b_run_id :: string
  b_captured_at :: string

definition native_root :: "bench \<Rightarrow> bool \<Rightarrow> string option pio" where
  "native_root B prepare_native = resolve_dart_odbc_fast_root (b_os B) (b_nt B) (b_package_dir B) (b_untar B) (b_home B) prepare_native"

definition TRANSPORT_TEST :: string where
  "TRANSPORT_TEST = ''test/infrastructure/codecs/transport_pipeline_benchmark_test.dart''"

definition PLUG_AGENTE_STACK_TEST :: string where
  "PLUG_AGENTE_STACK_TEST = ''test/tool/plug_agente_stack_benchmark_test.dart''"

definition GATEWAY_ENCODING_TEST :: string where
  "GATEWAY_ENCODING_TEST = ''test/tool/odbc_gateway_encoding_benchmark_test.dart''"

definition ODBC_HOT_PATHS_TEST :: string where
  "ODBC_HOT_PATHS_TEST = ''test/tool/odbc_hot_paths_benchmark_test.dart''"

definition TRANSPORT_DART_TOOL :: string where
  "TRANSPORT_DART_TOOL = ''tool/benchmarks/benchmark_transport_pipeline.dart''"

definition GATEWAY_ENCODING_TOOL :: string where
  "GATEWAY_ENCODING_TOOL = ''tool/benchmarks/benchmark_odbc_gateway_encoding.dart''"

definition DART_TOOL_SKIP_REASON :: string where
  "DART_TOOL_SKIP_REASON = ''plain `dart run` cannot compile FFI/isolate offload in this workspace; use flutter_test transport_pipeline or pass --no-skip-dart-tool for local experiments''"

subsection \<open>Plans\<close>

record plan =
  pl_id :: string
  pl_kind :: string
  pl_enabled :: bool
  pl_reason :: "string option"
  pl_command :: "string list option"
  pl_root :: "string option"

definition perf_command :: "string \<Rightarrow> string list" where
  "perf_command test = [''flutter'', ''test'', test, ''--tags'', ''perf'']"

definition transport_json_command :: "string list" where
  "transport_json_command = [''dart'', ''run'', TRANSPORT_DART_TOOL, ''--json'', ''--path'', ''async'', ''--iterations'', ''4'']"

definition flutter_plan :: "string \<Rightarrow> bool \<Rightarrow> string option \<Rightarrow> string \<Rightarrow> plan" where
  "flutter_plan suite_id enabled reason test =
     \<lparr>pl_id = suite_id, pl_kind = ''flutter_test'', pl_enabled = enabled, pl_reason = reason, pl_command = Some (perf_command test), pl_root = None\<rparr>"

definition skipped_plan :: "string \<Rightarrow> string \<Rightarrow> string \<Rightarrow> plan" where
  "skipped_plan suite_id kind reason =
     \<lparr>pl_id = suite_id, pl_kind = kind, pl_enabled = False, pl_reason = Some reason, pl_command = None, pl_root = None\<rparr>"

definition native_plan :: "string \<Rightarrow> string \<Rightarrow> plan" where
  "native_plan base suite_id =
     \<lparr>pl_id = suite_id, pl_kind = ''dart_odbc_fast'', pl_enabled = True, pl_reason = None, pl_command = None, pl_root = Some base\<rparr>"

definition native_ids :: "string list" where "native_ids = [''odbc_async'', ''odbc_streaming'']"

definition filter_plan :: "string list option \<Rightarrow> bool \<Rightarrow> plan \<Rightarrow> plan list" where
  "filter_plan only skip_dart_tool p =
     (if (case only of Some ids \<Rightarrow> pl_id p \<notin> set ids | None \<Rightarrow> False) then []
      else if skip_dart_tool \<and> pl_id p = ''transport_pipeline_json'' then
        (if only \<noteq> None then [p] else [skipped_plan ''transport_pipeline_json'' ''dart_tool'' DART_TOOL_SKIP_REASON])
      else [p])"

definition filter_suite_plans :: "plan list \<Rightarrow> string list option \<Rightarrow> bool \<Rightarrow> plan list" where
  "filter_suite_plans plans only skip_dart_tool = concat (map (filter_plan only skip_dart_tool) plans)"

text \<open>\<open>os.environ.get(name, "").strip().lower() in {"1", "true", "yes"}\<close>\<close>

definition switched_on :: "environ \<Rightarrow> string \<Rightarrow> bool" where
  "switched_on env name \<longleftrightarrow> lower (strip (getenv env name [])) \<in> {''1'', ''true'', ''yes''}"

definition base_plans :: "environ \<Rightarrow> plan list" where
  "base_plans env =
     [flutter_plan ''transport_pipeline'' True None TRANSPORT_TEST,
      flutter_plan ''plug_agente_stack'' True None PLUG_AGENTE_STACK_TEST,
      flutter_plan ''odbc_hot_paths'' (switched_on env ''BENCHMARK_ODBC_HOT_PATHS'')
        (Some ''set BENCHMARK_ODBC_HOT_PATHS=1 to run the local ODBC hot-path benchmark'') ODBC_HOT_PATHS_TEST,
      \<lparr>pl_id = ''transport_pipeline_json'', pl_kind = ''dart_tool'', pl_enabled = True, pl_reason = None, pl_command = Some transport_json_command, pl_root = None\<rparr>]"

definition build_suite_plans :: "bench \<Rightarrow> plan list pio" where
  "build_suite_plans B = bindI (readI pw_env) (\<lambda>env.
     if odbc_dsn_configured env then bindI (native_root B False) (\<lambda>odbc_root.
       retI (base_plans env
         @ (case odbc_root of
              None \<Rightarrow> map (\<lambda>i. skipped_plan i ''dart_odbc_fast'' ''DART_ODBC_FAST_ROOT not found (set env or clone dart_odbc_fast)'') native_ids
            | Some r \<Rightarrow> map (native_plan r) native_ids)
         @ (if switched_on env ''BENCHMARK_GATEWAY_ENCODING'' then [flutter_plan ''odbc_gateway_encoding'' True None GATEWAY_ENCODING_TEST] else [])))
     else retI (base_plans env @ map (\<lambda>i. skipped_plan i ''dart_odbc_fast'' ''ODBC_TEST_DSN / ODBC_DSN not configured in .env'') native_ids))"

definition plan_lines :: "plan \<Rightarrow> string list" where
  "plan_lines p = [''- ['' @ (if pl_enabled p then ''would run'' else ''skip'') @ ''] '' @ pl_id p @ '' ('' @ pl_kind p @ '')'']
     @ (if pl_enabled p then (case pl_command p of Some c \<Rightarrow> [''    command: '' @ join '' '' c] | None \<Rightarrow> [])
          @ (case pl_root p of Some r \<Rightarrow> [''    package_root: '' @ r] | None \<Rightarrow> [])
        else [''    reason: '' @ (case pl_reason p of Some r \<Rightarrow> r | None \<Rightarrow> ''disabled'')])"

definition SCHEMA_PATH :: string where "SCHEMA_PATH = ''benchmarks/schema/summary.schema.json''"

definition print_dry_run :: "string \<Rightarrow> plan list \<Rightarrow> unit pio" where
  "print_dry_run project plans = forI ([''Benchmark suite dry-run'', ''Project root: '' @ project, ''Baseline: '' @ path_join project BASELINE_PATH,
     ''Schema: '' @ path_join project SCHEMA_PATH, []] @ concat (map plan_lines plans)) print_line"

subsection \<open>Numbers in a result\<close>

text \<open>\<open>round(x, 2)\<close> and \<open>f"{x:.2f}"\<close>\<close>

definition round2 :: "pyfloat \<Rightarrow> pyfloat" where
  "round2 x = (case x of FFin r \<Rightarrow> fl (of_int (round_even (r * 100)) / 100) | _ \<Rightarrow> x)"

definition fixed2 :: "pyfloat \<Rightarrow> string" where
  "fixed2 x = (case x of
     FFin r \<Rightarrow> (let n = nat (round_even (\<bar>r\<bar> * 100)) in
       (if r < 0 then ''-'' else []) @ nat_str (n div 100) @ ''.'' @ (if n mod 100 < 10 then ''0'' else []) @ nat_str (n mod 100))
   | _ \<Rightarrow> repr_float x)"

text \<open>The entry that every run of a suite gives\<close>

definition result :: "string \<Rightarrow> string \<Rightarrow> string \<Rightarrow> pyfloat \<Rightarrow> int \<Rightarrow> string \<Rightarrow> dict \<Rightarrow> dict" where
  "result suite_id kind status wall_ms exit_code log_path metrics =
     [(''id'', JStr suite_id), (''kind'', JStr kind), (''status'', JStr status), (''wall_ms'', JFloat (round2 wall_ms)),
      (''exit_code'', JInt exit_code), (''log_file'', JStr (path_tail log_path)), (''metrics'', JObj metrics)]"

definition pass_or_fail :: "int \<Rightarrow> string" where
  "pass_or_fail exit_code = (if exit_code = 0 then ''pass'' else ''fail'')"

subsection \<open>The identity of the native package\<close>

definition odbc_fast_package_metrics :: "os_env \<Rightarrow> string \<Rightarrow> dict pio" where
  "odbc_fast_package_metrics S package_root = bindI (file_exists (path_join package_root ''pubspec.yaml'')) (\<lambda>there.
     bindI (if there then bindI (read_text (path_join package_root ''pubspec.yaml'')) (\<lambda>t.
         retI (case first_match package_version (at_lines t) of Some v \<Rightarrow> [(''package_version'', JStr v)] | None \<Rightarrow> [])) else retI []) (\<lambda>metadata.
     let manifest = path_join (path_parent package_root) ''manifest.json'' in
     bindI (file_exists manifest) (\<lambda>recorded.
     if path_tail package_root = ''source'' \<and> recorded then bindI (read_json manifest) (\<lambda>provenance.
         liftI (bindR (item provenance ''revision'') (\<lambda>revision. bindR (item provenance ''sha256'') (\<lambda>sha.
           Inr (dict_put ''native_sha256'' sha (dict_put ''package_revision'' revision metadata))))))
     else catchI (bindI (run_process S [''git'', ''rev-parse'', ''--short=12'', ''HEAD'']) (\<lambda>p.
         retI (if p_code p = 0 \<and> strip (p_out p) \<noteq> [] then dict_put ''package_revision'' (JStr (strip (p_out p))) metadata else metadata)))
       (\<lambda>e. if is_os_err e then retI metadata else raiseI e))))"

definition odbc_fast_comparison_identity :: "os_env \<Rightarrow> string option \<Rightarrow> dict pio" where
  "odbc_fast_comparison_identity S package_root = (case package_root of
       None \<Rightarrow> retI [(''package_source'', JStr ''unresolved'')]
     | Some base \<Rightarrow> bindI (odbc_fast_package_metrics S base) (\<lambda>metadata.
         retI ((''package_source'', JStr ''odbc_fast'') #
           concat (map (\<lambda>k. if field metadata k \<noteq> JNull then [(k, field metadata k)] else []) [''package_version'', ''package_revision'', ''native_sha256'']))))"

subsection \<open>The suites\<close>

definition gateway_status :: "int \<Rightarrow> dict \<Rightarrow> string \<Rightarrow> string" where
  "gateway_status exit_code metrics output =
     (if exit_code = 0 \<and> metrics = [] then (if contains output ''Skipping:'' then ''skipped'' else ''error'') else pass_or_fail exit_code)"

definition run_gateway_encoding_flutter_test :: "bench \<Rightarrow> string \<Rightarrow> dict pio" where
  "run_gateway_encoding_flutter_test B log_path =
     bindI (timed (b_os B) (b_clock B) (perf_command GATEWAY_ENCODING_TEST) log_path) (\<lambda>(exit_code, wall_ms, output).
     bindI (liftI (parse_gateway_encoding_metrics output)) (\<lambda>metrics.
     let status = gateway_status exit_code metrics output in
     bindI (native_root B True) (\<lambda>package_root.
     bindI (odbc_fast_comparison_identity (b_os B) package_root) (\<lambda>ident.
     bindI (readI pw_env) (\<lambda>env.
     retI (result ''odbc_gateway_encoding'' ''flutter_test'' status wall_ms exit_code log_path metrics
       @ [(''comparison_identity'', JObj (dict_put ''driver_family'' (JStr (get_dsn_driver_family (getenv env ''ODBC_TEST_DSN'' (getenv env ''ODBC_DSN'' []))))
            (dict_put ''benchmark_profile'' (JStr ''gateway_materialized_rowMajor_v2'') ident)))]
       @ (if status = ''skipped'' then [(''reason'', JStr ''ODBC DSN not configured in test env'')] else [])))))))"

definition run_plug_agente_stack_flutter_test :: "bench \<Rightarrow> string \<Rightarrow> dict pio" where
  "run_plug_agente_stack_flutter_test B log_path =
     bindI (timed (b_os B) (b_clock B) (perf_command PLUG_AGENTE_STACK_TEST) log_path) (\<lambda>(exit_code, wall_ms, output).
     bindI (liftI (parse_plug_agente_stack_metrics output)) (\<lambda>metrics.
     retI (result ''plug_agente_stack'' ''flutter_test'' (pass_or_fail exit_code) wall_ms exit_code log_path metrics)))"

definition hot_path_keys :: "string list" where
  "hot_path_keys = [''p50_us'', ''p95_us'', ''p99_us'', ''input_payload_bytes'']"

definition hot_path_scenario :: "json \<Rightarrow> dict \<Rightarrow> dict res" where
  "hot_path_scenario v d = (case v of
     JObj kvs \<Rightarrow> (case field kvs ''scenario'' of JStr name \<Rightarrow> foldR (\<lambda>k. put_number (name @ ''.'' @ k) (field kvs k)) hot_path_keys d | _ \<Rightarrow> Inr d)
   | _ \<Rightarrow> Inr d)"

definition hot_path_line :: "string \<Rightarrow> dict \<Rightarrow> dict res" where
  "hot_path_line line d = (case json_loads (strip_shell_log_prefix line) of
     Inr (JObj kvs) \<Rightarrow> if py_eq (field kvs ''benchmark'') (JStr ''odbc_hot_paths'')
       then bindR (iter_of (field_or kvs ''scenarios'' (JList []))) (\<lambda>vs. foldR hot_path_scenario vs d) else Inr d
   | _ \<Rightarrow> Inr d)"

definition run_odbc_hot_paths_flutter_test :: "bench \<Rightarrow> string \<Rightarrow> dict pio" where
  "run_odbc_hot_paths_flutter_test B log_path =
     bindI (timed (b_os B) (b_clock B) (perf_command ODBC_HOT_PATHS_TEST) log_path) (\<lambda>(exit_code, wall_ms, output).
     bindI (liftI (foldR hot_path_line (splitlines output) [])) (\<lambda>metrics.
     retI (result ''odbc_hot_paths'' ''flutter_test''
       (if exit_code = 0 then (if metrics \<noteq> [] then ''pass'' else ''inconclusive'') else ''fail'') wall_ms exit_code log_path metrics)))"

definition gateway_tool_scenario :: "json \<Rightarrow> dict \<Rightarrow> dict res" where
  "gateway_tool_scenario v d = (case v of
     JObj kvs \<Rightarrow> (case field kvs ''scenario'' of JStr name \<Rightarrow> put_number (''median_us_'' @ name) (field kvs ''median_us'') d | _ \<Rightarrow> Inr d)
   | _ \<Rightarrow> Inl AttributeErr)"

definition run_gateway_encoding_tool :: "bench \<Rightarrow> string \<Rightarrow> dict pio" where
  "run_gateway_encoding_tool B log_path =
     bindI (timed (b_os B) (b_clock B) [''dart'', ''run'', GATEWAY_ENCODING_TOOL, ''--json''] log_path) (\<lambda>(exit_code, wall_ms, output).
     let out = (\<lambda>status metrics. result ''odbc_gateway_encoding'' ''dart_tool'' status wall_ms exit_code log_path metrics) in
     if exit_code \<noteq> 0 then retI (out ''error'' []) else
     (case json_loads output of Inl _ \<Rightarrow> retI (out ''error'' [])
      | Inr payload \<Rightarrow> bindI (liftI (bindR (bindR (dget_or payload ''scenarios'' (JList [])) iter_of) (\<lambda>vs. foldR gateway_tool_scenario vs []))) (\<lambda>metrics.
          retI (out ''pass'' metrics))))"

definition run_transport_flutter_test :: "bench \<Rightarrow> string \<Rightarrow> dict pio" where
  "run_transport_flutter_test B log_path =
     bindI (timed (b_os B) (b_clock B) (perf_command TRANSPORT_TEST) log_path) (\<lambda>(exit_code, wall_ms, output).
     bindI (liftI (parse_transport_markdown_metrics output)) (\<lambda>metrics.
     retI (result ''transport_pipeline'' ''flutter_test'' (pass_or_fail exit_code) wall_ms exit_code log_path metrics)))"

definition run_transport_json_tool :: "bench \<Rightarrow> string \<Rightarrow> dict pio" where
  "run_transport_json_tool B log_path =
     bindI (timed (b_os B) (b_clock B) transport_json_command log_path) (\<lambda>(exit_code, wall_ms, output).
     bindI (liftI (if exit_code \<noteq> 0 then Inr [] else (case json_loads output of Inl _ \<Rightarrow> Inr [] | Inr payload \<Rightarrow> parse_transport_json_metrics payload))) (\<lambda>metrics.
     let skipped = (exit_code \<noteq> 0 \<and> is_dart_ffi_compile_failure exit_code output);
       status = (if exit_code = 0 then ''pass'' else if skipped then ''skipped'' else ''error'') in
     retI (result ''transport_pipeline_json'' ''dart_tool'' status wall_ms exit_code log_path metrics
       @ (if skipped then [(''reason'', JStr DART_TOOL_SKIP_REASON)] else []))))"

definition identity_suffixes :: "string list" where
  "identity_suffixes = [''.rows'', ''.workers'', ''.query_count'', ''.pool_size'', ''.max_in_flight'', ''.fetch_size'', ''.chunk_size'']"

text \<open>The metrics of the streaming benchmark that are part of its identity\<close>

definition put_whole :: "dict \<Rightarrow> string \<Rightarrow> dict \<Rightarrow> dict res" where
  "put_whole metrics k d = (if is_number (field metrics k) then bindR (int_of (field metrics k)) (\<lambda>i. Inr (dict_put k (JStr (str_int i)) d)) else Inr d)"

definition put_identity :: "string \<times> json \<Rightarrow> dict \<Rightarrow> dict" where
  "put_identity kv d = (if list_ex (endswith (fst kv)) identity_suffixes then dict_put (fst kv) (JStr (str_json (snd kv))) d else d)"

definition native_comparison_identity :: "string \<Rightarrow> environ \<Rightarrow> string \<Rightarrow> dict \<Rightarrow> dict \<Rightarrow> dict res" where
  "native_comparison_identity suite_id env output metrics ident =
     (case extract_json_object_from_output output of None \<Rightarrow> Inl AttributeErr
      | Some native_report \<Rightarrow>
        (let d = dict_put ''sample_repeats'' (JStr (str_json (field_or native_report ''repeats'' (JStr ''unknown''))))
             (dict_put ''driver_family'' (JStr (resolve_benchmark_driver_family env)) ident) in
         bindR (if suite_id = ''odbc_streaming''
           then foldR (put_whole metrics) [''streamQueryBatched.rows'', ''streamQueryBatched.fetch_size'', ''streamQueryBatched.chunk_size'']
             (dict_put ''benchmark_profile'' (JStr ''native_streaming_v2'') d)
           else Inr (if map_of d ''benchmark_profile'' = None then dict_put ''benchmark_profile'' (JStr ''native_async_v2'') d else d)) (\<lambda>d1.
         Inr (fold put_identity metrics (dict_put ''workload'' (JStr ''deterministic_8000_rows_v1'') d1)))))"

definition run_odbc_suite :: "bench \<Rightarrow> string \<Rightarrow> string \<Rightarrow> string \<Rightarrow> dict pio" where
  "run_odbc_suite B suite_id planned_root log_path =
     bindI (native_root B True) (\<lambda>resolved. let package_root = (case resolved of Some r \<Rightarrow> r | None \<Rightarrow> planned_root) in
     bindI (readI pw_env) (\<lambda>env.
     bindI ((if suite_id = ''odbc_async'' then run_odbc_async_benchmark else run_odbc_streaming_benchmark)
       (b_os B) (b_nt B) (b_clock B) package_root log_path [] None env) (\<lambda>(exit_code, measured, output).
     bindI (if suite_id = ''odbc_streaming'' then bindI (liftI (parse_odbc_streaming_benchmark_metrics output)) (\<lambda>m. retI (dict_update measured m)) else retI measured) (\<lambda>m1.
     bindI (odbc_fast_package_metrics (b_os B) package_root) (\<lambda>package_metrics. let metrics = dict_update m1 package_metrics in
     bindI (odbc_fast_comparison_identity (b_os B) (Some package_root)) (\<lambda>ident0.
     bindI (readI pw_env) (\<lambda>env1.
     bindI (liftI (native_comparison_identity suite_id env1 output metrics ident0)) (\<lambda>ident.
     bindI (liftI (to_float (field_or metrics ''wall_ms'' (JFloat (FFin 0))))) (\<lambda>wall_ms.
     retI (result suite_id ''dart_odbc_fast'' (if exit_code = 0 then ''pass'' else if exit_code = 2 then ''inconclusive'' else ''fail'') wall_ms exit_code log_path metrics
       @ [(''comparison_identity'', JObj ident)]))))))))))"

subsection \<open>The columnar gate\<close>

definition suite_status :: "dict \<Rightarrow> json" where
  "suite_status d = field d ''status''"

definition enforce_columnar_speedup_gate :: "environ \<Rightarrow> dict list \<Rightarrow> int" where
  "enforce_columnar_speedup_gate env suites = (let raw = strip (getenv env ''BENCHMARK_COLUMNAR_MIN_SPEEDUP'' []) in
     if raw = [] then 0 else
     (case float_of_str raw of None \<Rightarrow> 2
      | Some min_speedup \<Rightarrow> if \<not> isfinite min_speedup \<or> float_le min_speedup (FFin 0) then 2 else
          (case find (\<lambda>d. py_eq (field d ''id'') (JStr ''odbc_async'')) suites of None \<Rightarrow> 2
           | Some native \<Rightarrow> if py_eq (suite_status native) (JStr ''pass'') then 0 else 2)))"

subsection \<open>What identifies a measurement\<close>

definition harness_files :: "os_env \<Rightarrow> string list pio" where
  "harness_files S = bindI (files_below S ''tool/benchmarks'') (\<lambda>ps.
     retI (sort_key (split_on ''/'') (filter (\<lambda>p. endswith p ''.dart'' \<and> \<not> contains (drop (length ''tool/benchmarks/'') p) ''/'') ps)
       @ [TRANSPORT_TEST, PLUG_AGENTE_STACK_TEST, GATEWAY_ENCODING_TEST, ODBC_HOT_PATHS_TEST]))"

definition harness_identity :: "os_env \<Rightarrow> string pio" where
  "harness_identity S = bindI (harness_files S) (\<lambda>names. bindI (digest_files [] names) (\<lambda>b. retI (sha256_hex b)))"

definition driver_keys :: "string list" where
  "driver_keys = [''driver_name'', ''driver_version'', ''dbms_name'', ''dbms_version'']"

definition driver_identity :: "dict option \<Rightarrow> dict" where
  "driver_identity payload = (case payload of None \<Rightarrow> []
     | Some kvs \<Rightarrow> (case field kvs ''driver'' of
         JObj driver \<Rightarrow> map (\<lambda>(k, v). (k, JStr (str_json v))) (filter (\<lambda>kv. fst kv \<in> set driver_keys) driver)
       | _ \<Rightarrow> []))"

text \<open>A suite that passed without its required metrics is inconclusive.\<close>

definition check_complete :: "dict \<Rightarrow> dict res" where
  "check_complete d = (if \<not> py_eq (suite_status d) (JStr ''pass'') then Inr d else
     bindR (complete_suite_metrics (JObj d)) (\<lambda>complete.
     Inr (if complete then d else dict_put ''reason'' (JStr ''Required benchmark metrics missing'') (dict_put ''status'' (JStr ''inconclusive'') d))))"

definition default_identity :: "dict \<Rightarrow> dict" where
  "default_identity d = [(''benchmark_profile'', JStr (str_json (field d ''id'') @ ''_v2''))]"

definition identify_suite :: "bench \<Rightarrow> string \<Rightarrow> dict \<Rightarrow> dict pio" where
  "identify_suite B output_dir d =
     bindI (liftI (case field_or d ''comparison_identity'' (JObj (default_identity d)) of JObj i \<Rightarrow> Inr i | _ \<Rightarrow> Inl TypeErr)) (\<lambda>ident.
     bindI (harness_identity (b_os B)) (\<lambda>harness.
     bindI (readI pw_env) (\<lambda>env.
     bindI (case field d ''log_file'' of JStr f \<Rightarrow> (if f = [] then retI [] else bindI (read_text (path_join output_dir f)) (\<lambda>t. retI (driver_identity (extract_json_object_from_output t)))) | _ \<Rightarrow> retI []) (\<lambda>driver.
     bindI (liftI (case field_or d ''metrics'' (JObj []) of JObj ms \<Rightarrow> Inr ms | _ \<Rightarrow> Inl TypeErr)) (\<lambda>metrics.
     retI (dict_put ''metric_metadata'' (JObj (map (\<lambda>(k, _). (k, JObj (metric_metadata k))) metrics))
       (dict_put ''comparison_identity'' (JObj (dict_update
           (dict_put ''parameters_sha256'' (JStr (sha256_hex (dumps_ascii '', '' '': '' (sort_json (collect_env_flags env)))))
             (dict_put ''harness_sha256'' (JStr harness) ident)) driver)) d)))))))"

definition finish_suite :: "bench \<Rightarrow> string \<Rightarrow> dict \<Rightarrow> dict pio" where
  "finish_suite B output_dir d = bindI (liftI (check_complete d)) (\<lambda>d1.
     if py_eq (suite_status d1) (JStr ''skipped'') then retI d1 else identify_suite B output_dir d1)"

fun mapI :: "('a \<Rightarrow> ('w, 'b) io) \<Rightarrow> 'a list \<Rightarrow> ('w, 'b list) io" where
  "mapI f [] = retI []"
| "mapI f (x # xs) = bindI (f x) (\<lambda>y. bindI (mapI f xs) (\<lambda>ys. retI (y # ys)))"

subsection \<open>The report\<close>

definition o_acute :: string where "o_acute = [CHR 0xC3, CHR 0xB3]"

definition cao :: string where "cao = [CHR 0xC3, CHR 0xA7, CHR 0xC3, CHR 0xA3] @ ''o''"

definition coes :: string where "coes = [CHR 0xC3, CHR 0xA7, CHR 0xC3, CHR 0xB5] @ ''es''"

definition report_suite :: "json \<Rightarrow> string list res" where
  "report_suite suite = (case suite of JObj d \<Rightarrow>
     bindR (item suite ''id'') (\<lambda>i. bindR (item suite ''status'') (\<lambda>st.
     bindR (case map_of d ''wall_ms'' of None \<Rightarrow> Inr [] | Some wall \<Rightarrow> bindR (to_float wall) (\<lambda>x. Inr [''- Wall time: '' @ fixed2 x @ '' ms''])) (\<lambda>wall_line.
     let reason = field d ''reason''; log = field d ''log_file''; metrics = (case field d ''metrics'' of JObj ms \<Rightarrow> ms | _ \<Rightarrow> []) in
     Inr ([''### '' @ str_json i, ''- Status: **'' @ str_json st @ ''**''] @ wall_line
       @ (if truthy reason then [''- Motivo: '' @ str_json reason] else [])
       @ (if truthy log then [''- Log: `'' @ str_json log @ ''`''] else [])
       @ (if metrics \<noteq> [] then (''- M'' @ [CHR 0xC3, CHR 0xA9] @ ''tricas:'') # map (\<lambda>k. ''  - `'' @ k @ ''`: '' @ str_json (field metrics k)) (sort (map fst metrics)) else [])
       @ [[]]))))
   | _ \<Rightarrow> Inl TypeErr)"

definition render_report :: "json \<Rightarrow> string res" where
  "render_report summary = bindR (item summary ''run_id'') (\<lambda>run_id. bindR (item summary ''captured_at'') (\<lambda>captured_at.
     bindR (item summary ''git'') (\<lambda>g. bindR (item g ''commit_sha'') (\<lambda>commit. bindR (item g ''branch'') (\<lambda>branch. bindR (item g ''dirty'') (\<lambda>dirty.
     bindR (bindR (item summary ''machine'') (\<lambda>m. item m ''platform'')) (\<lambda>platform. bindR (item summary ''qualification'') (\<lambda>qualification.
     bindR (bindR (item summary ''comparison'') (\<lambda>c. item c ''status'')) (\<lambda>comparison.
     bindR (bindR (bindR (item summary ''suites'') iter_of) (mapR report_suite)) (\<lambda>suites.
     Inr (join newline (
       [''# Relat'' @ o_acute @ ''rio de benchmark '' @ [CHR 0xE2, CHR 0x80, CHR 0x94] @ '' plug_agente'', [],
        ''- Run ID: `'' @ str_json run_id @ ''`'', ''- Capturado em: '' @ str_json captured_at,
        ''- Commit: `'' @ str_json commit @ ''` ('' @ str_json branch @ '')'', ''- Working tree dirty: '' @ str_json dirty,
        ''- Plataforma: '' @ str_json platform, ''- Validade das medi'' @ coes @ '': **'' @ str_json qualification @ ''**'',
        ''- Compara'' @ cao @ '' controlada: **'' @ str_json comparison @ ''**'', [], ''## Suites'', []]
       @ concat suites
       @ [''## Compara'' @ cao @ '' com baseline'', [], ''```bash'', ''python tool/benchmarks/compare_benchmark_summary.py '' @ backslash,
          ''  --baseline benchmarks/baseline/summary.json '' @ backslash, ''  --current benchmarks/results/'' @ str_json run_id @ ''/summary.json'', ''```'', []]))))))))))))"

subsection \<open>The command\<close>

text \<open>\<open>os.path.relpath(path, start)\<close> on absolute paths with one separator\<close>

fun norm_path :: "string list \<Rightarrow> string list \<Rightarrow> string list" where
  "norm_path acc [] = rev acc"
| "norm_path acc (p # ps) = norm_path (if p = [] \<or> p = ''.'' then acc else if p = ''..'' then tl acc else p # acc) ps"

definition abs_parts :: "string \<Rightarrow> string \<Rightarrow> string list" where
  "abs_parts project p = norm_path [] (split_on ''/'' (if is_absolute p then p else path_join project p))"

definition relpath :: "string \<Rightarrow> string \<Rightarrow> string \<Rightarrow> string" where
  "relpath project path start = (let a = abs_parts project path; s = abs_parts project start;
       i = length (takeWhile (\<lambda>(x, y). x = y) (zip a s)); parts = replicate (length s - i) ''..'' @ drop i a in
     if parts = [] then ''.'' else join ''/'' parts)"

record suite_args =
  sa_comparison_report :: "string option"
  sa_dry_run :: bool
  sa_env_path :: string
  sa_output_dir :: string
  sa_only :: string
  sa_skip_dart_tool :: bool
  sa_compare_baseline :: bool
  sa_threshold :: pyfloat

definition only_ids :: "string \<Rightarrow> string list option" where
  "only_ids arg = (let ids = filter (\<lambda>i. i \<noteq> []) (map strip (split_on '','' arg)) in if ids = [] then None else Some ids)"

definition check_only :: "bench \<Rightarrow> string list option \<Rightarrow> unit pio" where
  "check_only B only = (case only of None \<Rightarrow> retI ()
     | Some ids \<Rightarrow> bindI (build_suite_plans B) (\<lambda>plans. guardI (\<not> set ids \<subseteq> set (map pl_id plans)) (ExitCode 2)))"

definition run_plan :: "bench \<Rightarrow> string \<Rightarrow> plan \<Rightarrow> dict pio" where
  "run_plan B output_dir p = (let suite_id = pl_id p; log_path = path_join output_dir (suite_id @ ''.log'');
       skipped = (\<lambda>reason. case skipped_suite suite_id (pl_kind p) reason of JObj d \<Rightarrow> retI d | _ \<Rightarrow> retI []) in
     if \<not> pl_enabled p then skipped (case pl_reason p of Some r \<Rightarrow> r | None \<Rightarrow> ''disabled'')
     else if suite_id = ''transport_pipeline'' then run_transport_flutter_test B log_path
     else if suite_id = ''plug_agente_stack'' then run_plug_agente_stack_flutter_test B log_path
     else if suite_id = ''odbc_hot_paths'' then run_odbc_hot_paths_flutter_test B log_path
     else if suite_id = ''transport_pipeline_json'' then run_transport_json_tool B log_path
     else if suite_id = ''odbc_gateway_encoding'' then run_gateway_encoding_flutter_test B log_path
     else if pl_kind p = ''dart_odbc_fast'' then (case pl_root p of Some r \<Rightarrow> run_odbc_suite B suite_id r log_path | None \<Rightarrow> raiseI (KeyErr ''package_root''))
     else skipped ''unsupported plan'')"

definition status_is :: "string \<Rightarrow> dict \<Rightarrow> bool" where
  "status_is st d \<longleftrightarrow> py_eq (suite_status d) (JStr st)"

definition failed_suite :: "dict \<Rightarrow> bool" where
  "failed_suite d \<longleftrightarrow> status_is ''fail'' d \<or> status_is ''error'' d"

definition qualification :: "bool \<Rightarrow> dict list \<Rightarrow> string" where
  "qualification had_failure suites = (if had_failure then ''fail''
     else if \<not> list_ex (status_is ''pass'') suites \<or> list_ex (status_is ''inconclusive'') suites then ''inconclusive'' else ''pass'')"

definition summary_notes :: "string list" where
  "summary_notes = [''Ephemeral run output; compare against benchmarks/baseline/summary.json.'', ''Legacy benchmark_logs/ format is not schema-compatible with this summary.'']"

definition build_summary :: "bench \<Rightarrow> string \<Rightarrow> string \<Rightarrow> dict list \<Rightarrow> json \<Rightarrow> json \<Rightarrow> json \<Rightarrow> json \<Rightarrow> dict" where
  "build_summary B output_dir qual suites git machine dependencies flags =
     [(''$schema'', JStr (relpath (b_project B) SCHEMA_PATH output_dir)), (''schema_version'', JInt 2), (''qualification'', JStr qual),
      (''comparison'', JObj [(''status'', JStr ''inconclusive''), (''reason'', JStr ''No controlled comparison attached'')]),
      (''run_id'', JStr (b_run_id B)), (''captured_at'', JStr (b_captured_at B)), (''git'', git), (''machine'', machine),
      (''dependencies'', dependencies), (''env_flags'', flags), (''suites'', JList (map JObj suites)), (''notes'', JList (map JStr summary_notes))]"

definition attached_comparison :: "json \<Rightarrow> json \<Rightarrow> json res" where
  "attached_comparison git comparison = bindR (dget comparison ''candidate'') (\<lambda>candidate.
     bindR (mapR (\<lambda>k. bindR (item git k) (\<lambda>v. Inr (k, v))) [''commit_sha'', ''source_sha256'']) (\<lambda>ident.
     if \<not> py_eq candidate (JObj ident) then
       Inr (JObj [(''status'', JStr ''inconclusive''), (''reason'', JStr ''Controlled comparison measures a different candidate source'')])
     else bindR (dget comparison ''status'') (\<lambda>st. if \<not> py_eq st (JStr ''pass'') then Inr comparison else
       bindR (approved_controlled_comparison comparison) (\<lambda>approved.
       Inr (if approved then comparison
         else JObj [(''status'', JStr ''inconclusive''), (''reason'', JStr ''Controlled comparison is incomplete or violates required gates'')])))))"

definition attach_comparison :: "suite_args \<Rightarrow> json \<Rightarrow> dict \<Rightarrow> dict pio" where
  "attach_comparison a git summary = (case or_else (sa_comparison_report a) None of None \<Rightarrow> retI summary
     | Some path \<Rightarrow> bindI (read_json path) (\<lambda>comparison. bindI (liftI (attached_comparison git comparison)) (\<lambda>c.
         retI (dict_put ''comparison'' c summary))))"

text \<open>The exit code once everything is written\<close>

definition comparison_exit :: "suite_args \<Rightarrow> dict \<Rightarrow> int option res" where
  "comparison_exit a summary = (case or_else (sa_comparison_report a) None of None \<Rightarrow> Inr None
     | Some _ \<Rightarrow> bindR (dget (field summary ''comparison'') ''status'') (\<lambda>st.
         Inr (if py_eq st (JStr ''pass'') then None else Some (if py_eq st (JStr ''fail'') then 1 else 2))))"

definition exit_code_of :: "suite_args \<Rightarrow> environ \<Rightarrow> bool \<Rightarrow> string \<Rightarrow> dict list \<Rightarrow> dict \<Rightarrow> int \<Rightarrow> int res" where
  "exit_code_of a env had_failure qual suites summary compare_exit =
     (if list_ex (\<lambda>d. py_eq (field d ''exit_code'') (JInt 3)) suites then Inr 3 else
      let gate = enforce_columnar_speedup_gate env suites in
      if gate \<noteq> 0 then Inr gate else if compare_exit \<noteq> 0 then Inr compare_exit else
      bindR (comparison_exit a summary) (\<lambda>c. case c of Some code \<Rightarrow> Inr code
        | None \<Rightarrow> Inr (if had_failure then 1 else if qual = ''inconclusive'' then 2 else 0)))"

definition measure_suites :: "bench \<Rightarrow> string \<Rightarrow> plan list \<Rightarrow> (bool \<times> dict list) pio" where
  "measure_suites B output_dir plans = bindI (mapI (run_plan B output_dir) plans) (\<lambda>raw.
     bindI (mapI (finish_suite B output_dir) raw) (\<lambda>suites. retI (list_ex failed_suite raw, suites)))"

text \<open>The summary and the report are written before the gates are applied.\<close>

definition publish_suites :: "bench \<Rightarrow> suite_args \<Rightarrow> string \<Rightarrow> bool \<Rightarrow> dict list \<Rightarrow> int pio" where
  "publish_suites B a output_dir had_failure suites = (let qual = qualification had_failure suites; summary_path = path_join output_dir ''summary.json'' in
     bindI (collect_git_metadata (b_os B)) (\<lambda>git. bindI (collect_machine_metadata (b_os B) (b_host B)) (\<lambda>machine.
     bindI (collect_dependency_versions []) (\<lambda>dependencies. bindI (readI pw_env) (\<lambda>env.
     bindI (attach_comparison a git (build_summary B output_dir qual suites git machine dependencies (collect_env_flags env))) (\<lambda>summary.
     bindI (write_json summary_path (JObj summary)) (\<lambda>_.
     bindI (liftI (render_report (JObj summary))) (\<lambda>report.
     bindI (write_utf8 (path_join output_dir ''REPORT.md'') report) (\<lambda>_.
     bindI (if sa_compare_baseline a then compare_summary_main (b_os B) BASELINE_PATH (Some summary_path) (sa_threshold a) else retI 0) (\<lambda>compare_exit.
     bindI (readI pw_env) (\<lambda>env.
     liftI (exit_code_of a env had_failure qual suites summary compare_exit))))))))))))"

definition suite_output_dir :: "bench \<Rightarrow> suite_args \<Rightarrow> string" where
  "suite_output_dir B a = (if sa_output_dir a \<noteq> [] then sa_output_dir a else path_join RESULTS_DIR (b_run_id B))"

definition suite_main :: "bench \<Rightarrow> suite_args \<Rightarrow> int pio" where
  "suite_main B a = bindI (bootstrap_env (sa_env_path a)) (\<lambda>_. let only = only_ids (sa_only a) in
     bindI (check_only B only) (\<lambda>_.
     bindI (build_suite_plans B) (\<lambda>all_plans. let plans = filter_suite_plans all_plans only (sa_skip_dart_tool a) in
     if sa_dry_run a then bindI (print_dry_run (b_project B) plans) (\<lambda>_. retI 0) else
     bindI (measure_suites B (suite_output_dir B a) plans) (\<lambda>(had_failure, suites).
     publish_suites B a (suite_output_dir B a) had_failure suites))))"

end
