(* ===== verification/Bench_SuiteSpec.thy ===== *)
theory Bench_SuiteSpec
  imports Bench_Suite Bench_CompareSpec Installer_Keys
begin

text \<open>
  What a successful run of the benchmark suites guarantees. \<open>gives\<close> is the rule system for the results of programs: every
  result that a program returns has a property.
\<close>

subsection \<open>Results of programs\<close>

definition gives :: "('a \<Rightarrow> bool) \<Rightarrow> 'a pio \<Rightarrow> bool" where
  "gives P m \<longleftrightarrow> (\<forall>w x w'. m w = (Inr x, w') \<longrightarrow> P x)"

named_theorems gives_intro \<open>rules for the results of a program\<close>

lemma givesD: "gives P m \<Longrightarrow> m w = (Inr x, w') \<Longrightarrow> P x"
  by (auto simp: gives_def)

lemma gives_ret [gives_intro]: "P x \<Longrightarrow> gives P (retI x)"
  by (auto simp: gives_def ok_iff)

lemma gives_raise [gives_intro]: "gives P (raiseI e)"
  by (auto simp: gives_def ok_iff)

lemma gives_lift: "(\<And>x. r = Inr x \<Longrightarrow> P x) \<Longrightarrow> gives P (liftI r)"
  by (auto simp: gives_def ok_iff)

lemma gives_bind [gives_intro]: "(\<And>x. gives P (f x)) \<Longrightarrow> gives P (bindI m f)"
  by (auto simp: gives_def ok_iff)

lemma gives_bind_from: "gives Q m \<Longrightarrow> (\<And>x. Q x \<Longrightarrow> gives P (f x)) \<Longrightarrow> gives P (bindI m f)"
  by (fastforce simp: gives_def ok_iff)

lemma gives_prod [gives_intro]: "(\<And>a b. gives P (f a b)) \<Longrightarrow> gives P (case p of (a, b) \<Rightarrow> f a b)"
  by (cases p) simp

lemma gives_if [gives_intro]: "(b \<Longrightarrow> gives P m) \<Longrightarrow> (\<not> b \<Longrightarrow> gives P n) \<Longrightarrow> gives P (if b then m else n)"
  by simp

lemma gives_option [gives_intro]: "gives P m \<Longrightarrow> (\<And>y. gives P (f y)) \<Longrightarrow> gives P (case x of None \<Rightarrow> m | Some y \<Rightarrow> f y)"
  by (cases x) auto

lemma gives_sum [gives_intro]: "(\<And>a. gives P (f a)) \<Longrightarrow> (\<And>b. gives P (g b)) \<Longrightarrow> gives P (case x of Inl a \<Rightarrow> f a | Inr b \<Rightarrow> g b)"
  by (cases x) auto

lemma gives_map: "(\<And>x. gives (R x) (f x)) \<Longrightarrow> gives (list_all2 R xs) (mapI f xs)"
proof (induction xs)
  case (Cons x xs)
  show ?case unfolding mapI.simps
    by (rule gives_bind_from[OF Cons.prems], rule gives_bind_from[OF Cons.IH[OF Cons.prems]], rule gives_ret) simp
qed (simp add: gives_ret)

subsection \<open>The status of a suite\<close>

definition statuses :: "string list" where
  "statuses = [''pass'', ''fail'', ''error'', ''skipped'', ''inconclusive'']"

definition has_known_status :: "dict \<Rightarrow> bool" where
  "has_known_status d \<longleftrightarrow> suite_status d \<in> JStr ` set statuses"

lemma result_status [simp]: "suite_status (result i k s t c l m @ more_fields) = JStr s" "suite_status (result i k s t c l m) = JStr s"
  by (simp_all add: suite_status_def field_def result_def)

lemma result_known: "s \<in> set statuses \<Longrightarrow> has_known_status (result i k s t c l m @ more_fields)"
  "s \<in> set statuses \<Longrightarrow> has_known_status (result i k s t c l m)"
  by (simp_all add: has_known_status_def)

lemma status_words: "''pass'' \<in> set statuses" "''fail'' \<in> set statuses" "''error'' \<in> set statuses" "''skipped'' \<in> set statuses" "''inconclusive'' \<in> set statuses"
  by (simp_all add: statuses_def)

lemma status_choices: "pass_or_fail c \<in> set statuses" "gateway_status c m t \<in> set statuses"
  using status_words by (simp_all add: pass_or_fail_def gateway_status_def)

lemma run_suites_known:
  "gives has_known_status (run_transport_flutter_test B l)" "gives has_known_status (run_plug_agente_stack_flutter_test B l)"
  "gives has_known_status (run_odbc_hot_paths_flutter_test B l)" "gives has_known_status (run_transport_json_tool B l)"
  "gives has_known_status (run_gateway_encoding_flutter_test B l)" "gives has_known_status (run_odbc_suite B i r l)"
  unfolding run_transport_flutter_test_def run_plug_agente_stack_flutter_test_def run_odbc_hot_paths_flutter_test_def run_transport_json_tool_def
    run_gateway_encoding_flutter_test_def run_odbc_suite_def Let_def
  using status_words status_choices by (intro gives_intro result_known; simp)+

lemma run_plan_known: "gives has_known_status (run_plan B out p)"
proof -
  have s: "gives has_known_status (case skipped_suite i k r of JObj d \<Rightarrow> retI d | _ \<Rightarrow> retI [])" for i k r
    by (simp add: skipped_suite_def has_known_status_def suite_status_def field_def statuses_def gives_ret)
  show ?thesis unfolding run_plan_def Let_def by (intro gives_intro s run_suites_known)
qed

text \<open>What the second loop makes of a suite\<close>

definition finished :: "dict \<Rightarrow> dict \<Rightarrow> bool" where
  "finished d d' \<longleftrightarrow> (suite_status d' = suite_status d \<or> suite_status d' = JStr ''inconclusive'') \<and>
     (suite_status d' = JStr ''pass'' \<longrightarrow> complete_suite_metrics (JObj d') = Inr True)"

lemma field_put: "field (dict_put k v d) j = (if j = k then v else field d j)"
  by (simp add: field_def map_of_dict_put)

lemma complete_put:
  assumes "k \<noteq> ''id''" "k \<noteq> ''metrics''"
  shows "complete_suite_metrics (JObj (dict_put k v d)) = complete_suite_metrics (JObj d)"
  using assms by (simp add: complete_suite_metrics_def dget_or_def item_def map_of_dict_put)

lemma check_complete_finished: "check_complete d = Inr d' \<Longrightarrow> finished d d'"
  by (auto simp: check_complete_def finished_def py_eq_str suite_status_def field_put bindR_ok split: if_splits)

lemma identified_finished: "finished d d1 \<Longrightarrow> finished d (dict_put ''metric_metadata'' a (dict_put ''comparison_identity'' b d1))"
  by (simp add: finished_def suite_status_def field_put complete_put)

lemma finish_suite_finished: "gives (finished d) (finish_suite B out d)"
  unfolding finish_suite_def identify_suite_def
  by (rule gives_bind_from[where Q = "finished d"])
    (auto intro!: gives_lift gives_intro check_complete_finished identified_finished)

lemma measured_suites:
  assumes "measure_suites B out plans w = (Inr (had_failure, suites), w')"
  shows "\<exists>raw. list_all has_known_status raw \<and> list_all2 finished raw suites \<and> had_failure = list_ex failed_suite raw"
proof -
  obtain raw w1 where r: "mapI (run_plan B out) plans w = (Inr raw, w1)" "mapI (finish_suite B out) raw w1 = (Inr suites, w')"
      "had_failure = list_ex failed_suite raw"
    using assms by (auto simp: measure_suites_def ok_iff)
  have "list_all2 (\<lambda>_. has_known_status) plans raw" by (rule givesD[OF gives_map r(1)]) (rule run_plan_known)
  then have "list_all has_known_status raw" by (auto simp: list_all2_conv_all_nth list_all_length)
  moreover have "list_all2 finished raw suites" by (rule givesD[OF gives_map r(2)]) (rule finish_suite_finished)
  ultimately show ?thesis using r(3) by blast
qed

definition good_suite :: "dict \<Rightarrow> bool" where
  "good_suite d \<longleftrightarrow> suite_status d = JStr ''skipped'' \<or> suite_status d = JStr ''pass'' \<and> complete_suite_metrics (JObj d) = Inr True"

lemma qualified_suites:
  assumes raw: "list_all has_known_status raw" "list_all2 finished raw suites" "\<not> list_ex failed_suite raw"
    and q: "\<not> list_ex (status_is ''inconclusive'') suites"
  shows "list_all good_suite suites"
proof -
  have "good_suite d'" if d: "d \<in> set raw" "finished d d'" "d' \<in> set suites" for d d'
  proof -
    have "suite_status d \<in> JStr ` set statuses" "suite_status d \<noteq> JStr ''fail''" "suite_status d \<noteq> JStr ''error''" "suite_status d' \<noteq> JStr ''inconclusive''"
      using d raw(1,3) q by (auto simp: list_all_iff list_ex_iff has_known_status_def failed_suite_def status_is_def py_eq_str)
    then show ?thesis using d(2) unfolding finished_def good_suite_def statuses_def by (auto simp del: char_of_eq_iff)
  qed
  then show ?thesis using raw(2) by (metis list_all2_right list_all_iff)
qed

subsection \<open>What is published_summary\<close>

lemma attached_ok:
  assumes "attached_comparison git comparison = Inr c" "dget c ''status'' = Inr st" "py_eq st (JStr ''pass'')"
  shows "approved_controlled_comparison c = Inr True \<and>
    (\<exists>v commit sha. dget c ''candidate'' = Inr v \<and> item git ''commit_sha'' = Inr commit \<and> item git ''source_sha256'' = Inr sha \<and>
       py_eq v (JObj [(''commit_sha'', commit), (''source_sha256'', sha)]))"
  using assms by (auto simp: attached_comparison_def bindR_ok dget_def split: if_splits)

definition measures :: "json \<Rightarrow> json \<Rightarrow> bool" where
  "measures comparison git \<longleftrightarrow> (\<exists>v commit sha. dget comparison ''candidate'' = Inr v \<and> item git ''commit_sha'' = Inr commit \<and>
     item git ''source_sha256'' = Inr sha \<and> py_eq v (JObj [(''commit_sha'', commit), (''source_sha256'', sha)]))"

lemma attach_frame:
  assumes "attach_comparison a git summary0 w = (Inr summary, w')"
  shows "k \<noteq> ''comparison'' \<Longrightarrow> field summary k = field summary0 k"
    "sa_comparison_report a = Some p \<Longrightarrow> p \<noteq> [] \<Longrightarrow> comparison_exit a summary = Inr None \<Longrightarrow>
       approved_controlled_comparison (field summary ''comparison'') = Inr True \<and> measures (field summary ''comparison'') git"
proof -
  show "k \<noteq> ''comparison'' \<Longrightarrow> field summary k = field summary0 k"
    using assms by (auto simp: attach_comparison_def ok_iff field_put split: option.splits)
next
  assume r: "sa_comparison_report a = Some p" "p \<noteq> []" and e: "comparison_exit a summary = Inr None"
  from assms r obtain comparison c where c: "attached_comparison git comparison = Inr c" "summary = dict_put ''comparison'' c summary0"
    by (auto simp: attach_comparison_def ok_iff or_else_def)
  have f: "field summary ''comparison'' = c" by (simp add: c(2) field_put)
  then obtain st where "dget c ''status'' = Inr st" "py_eq st (JStr ''pass'')"
    using e r by (auto simp: comparison_exit_def or_else_def bindR_ok split: if_splits)
  then show "approved_controlled_comparison (field summary ''comparison'') = Inr True \<and> measures (field summary ''comparison'') git"
    using attached_ok[OF c(1)] by (simp add: f measures_def)
qed

lemma compare_keeps: "compare_summary_main S b (Some p) t w = (r, w') \<Longrightarrow> w' = w"
  unfolding compare_summary_main_def bindI_def
  by (auto simp: raiseI_def retI_def liftI_def dest: load_keeps split: prod.splits sum.splits if_splits)

lemma exit_zero:
  assumes "exit_code_of a env had_failure qual suites summary c = Inr 0"
  shows "\<not> had_failure" "qual \<noteq> ''inconclusive''" "comparison_exit a summary = Inr None"
  using assms by (auto simp: exit_code_of_def Let_def bindR_ok comparison_exit_def split: if_splits option.splits)

lemma write_utf8_other: "write_utf8 q t w = (r, w') \<Longrightarrow> p \<noteq> q \<Longrightarrow> pw_files w' p = pw_files w p"
  by (auto simp: write_utf8_def write_bytes_def bindI_def updI_def raiseI_def split: sum.splits)

lemma qualification_pass: "qualification False suites \<noteq> ''inconclusive'' \<Longrightarrow>
    qualification False suites = ''pass'' \<and> list_ex (status_is ''pass'') suites \<and> \<not> list_ex (status_is ''inconclusive'') suites"
  by (auto simp: qualification_def split: if_splits)

lemma published_summary:
  assumes "publish_suites B a out had_failure suites w = (Inr 0, w')"
  shows "\<exists>summary. pw_files w' (path_join out ''summary.json'') = Some (dumps_pretty 0 (JObj summary) @ newline) \<and>
    field summary ''suites'' = JList (map JObj suites) \<and> field summary ''qualification'' = JStr ''pass'' \<and> \<not> had_failure \<and>
    list_ex (status_is ''pass'') suites \<and> \<not> list_ex (status_is ''inconclusive'') suites \<and>
    (\<forall>p. sa_comparison_report a = Some p \<and> p \<noteq> [] \<longrightarrow>
       approved_controlled_comparison (field summary ''comparison'') = Inr True \<and> measures (field summary ''comparison'') (field summary ''git''))"
proof -
  let ?p = "path_join out ''summary.json''"
  obtain git machine deps flags summary w1 w2 u report w3 v w4 c w5 env where
    att: "attach_comparison a git (build_summary B out (qualification had_failure suites) suites git machine deps flags) w1 = (Inr summary, w2)"
    and wr: "write_json ?p (JObj summary) w2 = (Inr u, w3)" and rep: "write_utf8 (path_join out ''REPORT.md'') report w3 = (Inr v, w4)"
    and cmp: "(if sa_compare_baseline a then compare_summary_main (b_os B) BASELINE_PATH (Some ?p) (sa_threshold a) else retI 0) w4 = (Inr c, w5)"
    and ex: "exit_code_of a env had_failure (qualification had_failure suites) suites summary c = Inr 0" and w': "w' = w5"
    using assms unfolding publish_suites_def Let_def bindI_ok liftI_ok readI_ok by blast
  have "w5 = w4" using cmp compare_keeps by (auto simp: ok_iff split: if_splits)
  then have "pw_files w' ?p = Some (dumps_pretty 0 (JObj summary) @ newline)"
    using write_json_files[OF wr] write_utf8_other[OF rep, of ?p] w' by (simp add: path_join_def)
  moreover have "field summary ''suites'' = JList (map JObj suites)" "field summary ''qualification'' = JStr (qualification had_failure suites)" "field summary ''git'' = git"
    using attach_frame(1)[OF att] by (simp_all add: build_summary_def field_def)
  ultimately show ?thesis using exit_zero[OF ex] qualification_pass[of suites] attach_frame(2)[OF att] by auto
qed

text \<open>
  C33. Exit code 0 of the suite runner means a usable summary: unless it was a dry run, the summary is in the output directory
  with the qualification \<open>pass\<close>; at least one suite passed, and every suite was skipped or passed with all its
  required metrics; and when a controlled comparison was asked for, the summary holds an approved one that measures
  the commit and the source digest of the summary itself.
\<close>

theorem passing_run_published:
  assumes "suite_main B a w = (Inr 0, w')" "\<not> sa_dry_run a"
  shows "\<exists>summary suites. pw_files w' (path_join (suite_output_dir B a) ''summary.json'') = Some (dumps_pretty 0 (JObj summary) @ newline) \<and>
    field summary ''suites'' = JList (map JObj suites) \<and> field summary ''qualification'' = JStr ''pass'' \<and>
    list_ex (status_is ''pass'') suites \<and> list_all good_suite suites \<and>
    (\<forall>p. sa_comparison_report a = Some p \<and> p \<noteq> [] \<longrightarrow>
       approved_controlled_comparison (field summary ''comparison'') = Inr True \<and> measures (field summary ''comparison'') (field summary ''git''))"
proof -
  obtain plans had_failure suites w1 w2 where m: "measure_suites B (suite_output_dir B a) plans w1 = (Inr (had_failure, suites), w2)"
      and p: "publish_suites B a (suite_output_dir B a) had_failure suites w2 = (Inr 0, w')"
    using assms by (auto simp: suite_main_def Let_def bindI_ok)
  obtain raw where "list_all has_known_status raw" "list_all2 finished raw suites" "had_failure = list_ex failed_suite raw"
    using measured_suites[OF m] by blast
  then show ?thesis using published_summary[OF p] qualified_suites by blast
qed

subsection \<open>A run that passes\<close>

fun ascii_values :: "json \<Rightarrow> bool" where
  "ascii_values (JList vs) \<longleftrightarrow> list_all ascii_values vs"
| "ascii_values (JObj kvs) \<longleftrightarrow> list_all (\<lambda>(k, v). ascii k \<and> ascii_values v) kvs"
| "ascii_values v \<longleftrightarrow> ascii (dumps_default v)"

lemma ascii_indent: "ascii (indent_at n)"
  by (auto simp: indent_at_def ascii_def list_all_iff)

lemma ascii_pretty: "ascii_values v \<Longrightarrow> ascii (dumps_pretty n v)"
proof (induction n v rule: dumps_pretty.induct)
  case (1 n vs)
  then show ?case by (auto simp: ascii_indent list_all_iff intro!: ascii_join)
next
  case (2 n kvs)
  then have "list_all ascii (map (\<lambda>(k, v). json_quote k @ '': '' @ dumps_pretty (Suc n) v) kvs)" by (fastforce simp: list_all_iff ascii_quote)
  then show ?case by (simp add: ascii_indent ascii_join)
qed auto

lemma no_surrogate: "CHR 0xED \<notin> set s \<Longrightarrow> \<not> has_surrogate s"
  by (induction s rule: has_surrogate.induct) auto

definition demo_host :: host where
  "demo_host = \<lparr>h_platform = ''p'', h_machine = ''m'', h_processor = ''c'', h_python = ''3'', h_node = ''n''\<rparr>"

definition demo_measured :: string where
  "demo_measured = ''{'' @ [CHR 0x22] @ ''results'' @ [CHR 0x22] @ '':[{'' @ [CHR 0x22] @ ''wire_bytes'' @ [CHR 0x22] @ '':7}]}''"

definition bench_tools :: os_env where
  "bench_tools = \<lparr>os_run = (\<lambda>_ args. Inr \<lparr>p_code = 0, p_out = (if args = transport_json_command then demo_measured else ''ok''), p_err = []\<rparr>),
     os_effect = (\<lambda>_ _ fs. fs), os_list = (\<lambda>_. []), os_which = (\<lambda>_. None), os_fetch = (\<lambda>_. Inl (OSErr []))\<rparr>"

definition demo_bench :: bench where
  "demo_bench = \<lparr>b_os = bench_tools, b_nt = False, b_package_dir = (\<lambda>_. Inl TypeErr), b_untar = (\<lambda>_. Inl TypeErr), b_home = None,
     b_clock = (\<lambda>_. FFin 0), b_host = demo_host, b_project = ''/p'', b_run_id = ''r'', b_captured_at = ''t''\<rparr>"

definition demo_suite_world :: pworld where
  "demo_suite_world = \<lparr>pw_files = [''pubspec.yaml'' \<mapsto> ''a'', ''pubspec.lock'' \<mapsto> ''b'', TRANSPORT_TEST \<mapsto> [], PLUG_AGENTE_STACK_TEST \<mapsto> [],
     GATEWAY_ENCODING_TEST \<mapsto> [], ODBC_HOT_PATHS_TEST \<mapsto> []], pw_trace = [], pw_log = [], pw_env = Map.empty\<rparr>"

definition demo_suite_args :: suite_args where
  "demo_suite_args = \<lparr>sa_comparison_report = None, sa_dry_run = False, sa_env_path = ''.env'', sa_output_dir = [], sa_only = ''transport_pipeline_json'',
     sa_skip_dart_tool = True, sa_compare_baseline = False, sa_threshold = FFin (1 / 5)\<rparr>"

definition demo_json_plan :: plan where
  "demo_json_plan = \<lparr>pl_id = ''transport_pipeline_json'', pl_kind = ''dart_tool'', pl_enabled = True, pl_reason = None, pl_command = Some transport_json_command, pl_root = None\<rparr>"

definition demo_metrics :: dict where
  "demo_metrics = [(''unknown.unknown.unknown.signed_False.wire_bytes'', JFloat (FFin 7))]"

definition demo_out_dir :: string where "demo_out_dir = ''benchmarks/results/r''"

definition demo_log :: string where "demo_log = ''benchmarks/results/r/transport_pipeline_json.log''"

definition demo_raw :: dict where
  "demo_raw = result ''transport_pipeline_json'' ''dart_tool'' ''pass'' (FFin 0) 0 demo_log demo_metrics"

definition demo_after :: pworld where
  "demo_after = demo_suite_world\<lparr>pw_files := (pw_files demo_suite_world)(demo_log \<mapsto> demo_measured), pw_trace := [transport_json_command],
     pw_log := [demo_measured], pw_env := [''PYTHONIOENCODING'' \<mapsto> ''utf-8'']\<rparr>"

lemma demo_boot: "bootstrap_env ''.env'' demo_suite_world = (Inr (), demo_suite_world)"
  by (simp add: bootstrap_env_def import_dotenv_if_present_def io_defs file_exists_def env_get_def demo_suite_world_def or_else_def
    TRANSPORT_TEST_def PLUG_AGENTE_STACK_TEST_def GATEWAY_ENCODING_TEST_def ODBC_HOT_PATHS_TEST_def)

lemma demo_plans: "\<exists>ps. build_suite_plans demo_bench demo_suite_world = (Inr ps, demo_suite_world) \<and> ''transport_pipeline_json'' \<in> set (map pl_id ps) \<and>
    filter_suite_plans ps (Some [''transport_pipeline_json'']) True = [demo_json_plan]"
  by (simp add: build_suite_plans_def io_defs odbc_dsn_configured_def demo_suite_world_def getenv_def base_plans_def switched_on_def flutter_plan_def skipped_plan_def native_ids_def
    filter_suite_plans_def filter_plan_def demo_json_plan_def)

lemma demo_only: "only_ids ''transport_pipeline_json'' = Some [''transport_pipeline_json'']"
  by code_simp

lemma demo_json: "json_loads demo_measured = Inr (JObj [(''results'', JList [JObj [(''wire_bytes'', JInt 7)]])])"
  by code_simp

lemma demo_parsed: "parse_transport_json_metrics (JObj [(''results'', JList [JObj [(''wire_bytes'', JInt 7)]])]) = Inr demo_metrics"
  by code_simp

lemma demo_decoded: "decode_text demo_measured = Inr demo_measured"
  by code_simp

lemma demo_command: "resolve_command bench_tools transport_json_command = Inr transport_json_command"
  by code_simp

lemma demo_timed: "timed bench_tools (\<lambda>_. FFin 0) transport_json_command demo_log demo_suite_world = (Inr (0, FFin 0, demo_measured), demo_after)"
  using demo_command by (simp add: timed_def io_defs perf_counter_def run_streaming_def ensure_utf8_stdio_def env_get_def env_set_def run_process_def print_line_def append_text_def
    read_log_def file_exists_def read_text_def read_file_def demo_decoded demo_after_def demo_suite_world_def bench_tools_def demo_log_def
    TRANSPORT_TEST_def PLUG_AGENTE_STACK_TEST_def GATEWAY_ENCODING_TEST_def ODBC_HOT_PATHS_TEST_def float_sub_def float_mul_def float_add_def float_neg_def fl_def)

lemma demo_run_plan: "run_plan demo_bench demo_out_dir demo_json_plan demo_suite_world = (Inr demo_raw, demo_after)"
proof -
  have "path_join demo_out_dir ''transport_pipeline_json.log'' = demo_log" by (simp add: demo_out_dir_def demo_log_def path_join_def)
  then show ?thesis using demo_timed
    by (simp add: run_plan_def demo_json_plan_def run_transport_json_tool_def demo_bench_def io_defs demo_json demo_parsed demo_raw_def)
qed

lemma demo_suite_complete: "check_complete demo_raw = Inr demo_raw"
  by code_simp

definition demo_finished :: dict where
  "demo_finished = dict_put ''metric_metadata'' (JObj (map (\<lambda>(k, _). (k, JObj (metric_metadata k))) demo_metrics))
     (dict_put ''comparison_identity'' (JObj
       [(''benchmark_profile'', JStr ''transport_pipeline_json_v2''),
        (''harness_sha256'', JStr (sha256_hex (TRANSPORT_TEST @ PLUG_AGENTE_STACK_TEST @ GATEWAY_ENCODING_TEST @ ODBC_HOT_PATHS_TEST))),
        (''parameters_sha256'', JStr (sha256_hex (dumps_ascii '', '' '': '' (sort_json (collect_env_flags (pw_env demo_after))))))]) demo_raw)"

lemma test_names: "distinct [''pubspec.yaml'', ''pubspec.lock'', TRANSPORT_TEST, PLUG_AGENTE_STACK_TEST, GATEWAY_ENCODING_TEST, ODBC_HOT_PATHS_TEST, demo_log]"
  by code_simp

lemma demo_suite_files:
  "pw_files demo_after ''pubspec.yaml'' = Some ''a''" "pw_files demo_after ''pubspec.lock'' = Some ''b''" "pw_files demo_after TRANSPORT_TEST = Some []"
  "pw_files demo_after PLUG_AGENTE_STACK_TEST = Some []" "pw_files demo_after GATEWAY_ENCODING_TEST = Some []" "pw_files demo_after ODBC_HOT_PATHS_TEST = Some []"
  "pw_files demo_after demo_log = Some demo_measured"
  using test_names by (auto simp: demo_after_def demo_suite_world_def)

lemma demo_harness: "harness_identity bench_tools demo_after =
    (Inr (sha256_hex (TRANSPORT_TEST @ PLUG_AGENTE_STACK_TEST @ GATEWAY_ENCODING_TEST @ ODBC_HOT_PATHS_TEST)), demo_after)"
  using demo_suite_files by (simp add: harness_identity_def harness_files_def io_defs files_below_def read_bytes_def read_file_def under_def bench_tools_def)

lemma demo_driver: "driver_identity (extract_json_object_from_output demo_measured) = []"
  by code_simp

lemma demo_raw_fields: "field_or demo_raw ''comparison_identity'' (JObj (default_identity demo_raw)) = JObj [(''benchmark_profile'', JStr ''transport_pipeline_json_v2'')]"
  "field demo_raw ''log_file'' = JStr ''transport_pipeline_json.log''" "field_or demo_raw ''metrics'' (JObj []) = JObj demo_metrics" "\<not> py_eq (suite_status demo_raw) (JStr ''skipped'')"
  by code_simp+

lemma demo_finish: "finish_suite demo_bench demo_out_dir demo_raw demo_after = (Inr demo_finished, demo_after)"
proof -
  have "path_join demo_out_dir ''transport_pipeline_json.log'' = demo_log" by (simp add: demo_out_dir_def demo_log_def path_join_def)
  then show ?thesis using demo_harness demo_suite_files(7) demo_driver
    by (simp add: finish_suite_def identify_suite_def io_defs demo_suite_complete demo_raw_fields demo_bench_def read_text_def read_file_def demo_decoded
      dict_update_def demo_finished_def)
qed

lemma demo_measure: "measure_suites demo_bench demo_out_dir [demo_json_plan] demo_suite_world = (Inr (False, [demo_finished]), demo_after)"
proof -
  have "\<not> failed_suite demo_raw" by code_simp
  then show ?thesis by (simp add: measure_suites_def io_defs demo_run_plan demo_finish)
qed

definition demo_git :: json where
  "demo_git = JObj [(''commit_sha'', JStr ''ok''), (''branch'', JStr ''ok''), (''dirty'', JBool True), (''source_sha256'', JStr (sha256_hex ''pubspec.yamlapubspec.lockb''))]"

definition demo_machine :: json where
  "demo_machine = JObj [(''platform'', JStr ''p''), (''machine'', JStr ''m''), (''processor'', JStr ''c''), (''python_version'', JStr ''3''), (''dart_version'', JStr ''ok''),
     (''flutter_version'', JStr ''ok''), (''dependencies_sha256'', JStr (sha256_hex (dumps_ascii '', '' '': '' (sort_json (JObj []))))), (''host_fingerprint'', JStr (sha256_hex ''n''))]"

text \<open>The other commands leave only their traces.\<close>

lemma demo_process: "args \<noteq> transport_json_command \<Longrightarrow> run_process bench_tools args w = (Inr \<lparr>p_code = 0, p_out = ''ok'', p_err = []\<rparr>, w\<lparr>pw_trace := pw_trace w @ [args]\<rparr>)"
  by (simp add: run_process_def bench_tools_def)

lemma strip_ok: "strip ''ok'' = ''ok''"
  by code_simp

lemma demo_git_metadata:
  assumes "pw_files w = pw_files demo_after"
  shows "\<exists>t. collect_git_metadata bench_tools w = (Inr demo_git, w\<lparr>pw_trace := t\<rparr>)"
proof -
  have "files_below bench_tools ''lib'' v = (Inr [], v)" for v by (simp add: files_below_def io_defs bench_tools_def)
  then show ?thesis using assms demo_suite_files
    by (simp add: collect_git_metadata_def git_dirty_def run_git_def collect_source_identity_def source_files_def under_def io_defs demo_process transport_json_command_def
      strip_ok read_bytes_def read_file_def demo_git_def) blast
qed

lemma demo_dependencies: "pw_files w = pw_files demo_after \<Longrightarrow> collect_dependency_versions [] w = (Inr (JObj []), w)"
proof -
  have "bindR (Inr ''b'') decode_text = Inr ''b''" "versions_loop (splitlines ''b'') [] [] = []" by code_simp+
  then show "pw_files w = pw_files demo_after \<Longrightarrow> ?thesis" using demo_suite_files
    by (simp add: collect_dependency_versions_def io_defs under_def read_text_def read_file_def)
qed

lemma demo_machine_metadata:
  assumes "pw_files w = pw_files demo_after"
  shows "\<exists>t. collect_machine_metadata bench_tools demo_host w = (Inr demo_machine, w\<lparr>pw_trace := t\<rparr>)"
proof -
  have "resolve_command bench_tools [''dart'', ''--version''] = Inr [''dart'', ''--version'']" "resolve_command bench_tools [''flutter'', ''--version''] = Inr [''flutter'', ''--version'']"
    by code_simp+
  then show ?thesis using assms demo_dependencies
    by (simp add: collect_machine_metadata_def tool_version_def io_defs demo_process transport_json_command_def strip_ok demo_machine_def demo_host_def) blast
qed

definition demo_published :: dict where
  "demo_published = build_summary demo_bench demo_out_dir ''pass'' [demo_finished] demo_git demo_machine (JObj []) (collect_env_flags (pw_env demo_after))"

lemma demo_flags: "collect_env_flags (pw_env demo_after) = JObj [(''odbc_test_dsn_configured'', JBool False)]"
  by (simp add: demo_after_def collect_env_flags_def odbc_dsn_configured_def getenv_def SAFE_ENV_KEYS_def put_flag_def)

lemma ascii_sha: "ascii (json_quote (sha256_hex b))"
  using plain_ascii[OF sha256_plain] by (rule ascii_quote)

lemma demo_atoms: "ascii (dumps_default (JFloat (FFin 7)))" "ascii (dumps_default (JFloat (FFin 0)))" "ascii (dumps_default (JInt 0))" "ascii (dumps_default (JInt 2))"
  by code_simp+

lemma demo_written: "\<not> has_surrogate (dumps_pretty 0 (JObj demo_published) @ newline)"
proof -
  have m: "list_all (\<lambda>(k, v). ascii k \<and> ascii_values v) (metric_metadata ''unknown.unknown.unknown.signed_False.wire_bytes'')" by code_simp
  have "ascii_values (JObj demo_finished)"
    using demo_atoms m ascii_sha by (simp add: demo_finished_def demo_raw_def result_def demo_metrics_def round2_def round_even_def fl_def demo_log_def path_tail_def ascii_quote)
  moreover have "relpath ''/p'' SCHEMA_PATH demo_out_dir = ''../../schema/summary.schema.json''" by code_simp
  ultimately have "ascii_values (JObj demo_published)"
    using demo_atoms ascii_sha by (simp add: demo_published_def build_summary_def demo_git_def demo_machine_def demo_flags demo_bench_def summary_notes_def ascii_quote)
  then have "ascii (dumps_pretty 0 (JObj demo_published))" by (rule ascii_pretty)
  then show ?thesis by (intro ascii_no_surrogate) (simp del: dumps_pretty.simps)
qed

lemma demo_suite_report: "\<exists>t. render_report (JObj demo_published) = Inr t \<and> \<not> has_surrogate t"
proof -
  have "report_suite (JObj demo_finished) = Inr [''### transport_pipeline_json'', ''- Status: **pass**'', ''- Wall time: 0.00 ms'',
      ''- Log: `transport_pipeline_json.log`'', ''- M'' @ [CHR 0xC3, CHR 0xA9] @ ''tricas:'', ''  - `unknown.unknown.unknown.signed_False.wire_bytes`: 7.0'', []]"
  proof -
    have a: "fixed2 (FFin 0) = ''0.00''" "repr_float (FFin 7) = ''7.0''" by code_simp+
    show ?thesis by (simp add: report_suite_def demo_finished_def demo_raw_def result_def item_def field_def demo_metrics_def round2_def round_even_def fl_def
      demo_log_def path_tail_def to_float_def a str_json_def truthy_def)
  qed
  then show ?thesis
    by (simp add: render_report_def demo_published_def build_summary_def item_def demo_git_def demo_machine_def demo_bench_def iter_of_def str_json_def
      no_surrogate o_acute_def coes_def cao_def backslash_def)
qed

lemma demo_publish: "\<exists>w'. publish_suites demo_bench demo_suite_args demo_out_dir False [demo_finished] demo_after = (Inr 0, w')"
proof -
  have q: "qualification False [demo_finished] = ''pass''"
    by (simp add: qualification_def status_is_def suite_status_def demo_finished_def field_put demo_raw_def result_def field_def)
  obtain t1 t2 where g: "collect_git_metadata bench_tools demo_after = (Inr demo_git, demo_after\<lparr>pw_trace := t1\<rparr>)"
      and m: "collect_machine_metadata bench_tools demo_host (demo_after\<lparr>pw_trace := t1\<rparr>) = (Inr demo_machine, demo_after\<lparr>pw_trace := t2\<rparr>)"
    using demo_git_metadata[of demo_after] demo_machine_metadata[of "demo_after\<lparr>pw_trace := t\<rparr>" for t] by fastforce
  obtain t where r: "render_report (JObj demo_published) = Inr t" "\<not> has_surrogate t" using demo_suite_report by blast
  have d: "collect_dependency_versions [] (demo_after\<lparr>pw_trace := t2\<rparr>) = (Inr (JObj []), demo_after\<lparr>pw_trace := t2\<rparr>)" by (rule demo_dependencies) simp
  have e: "exit_code_of demo_suite_args env False ''pass'' [demo_finished] demo_published 0 = Inr 0"
      if "env ''BENCHMARK_COLUMNAR_MIN_SPEEDUP'' = None" for env
    using that by (simp add: exit_code_of_def demo_finished_def field_put demo_raw_def result_def field_def enforce_columnar_speedup_gate_def getenv_def comparison_exit_def
      demo_suite_args_def or_else_def)
  have en: "pw_env demo_after ''BENCHMARK_COLUMNAR_MIN_SPEEDUP'' = None" by (simp add: demo_after_def)
  have b: "b_os demo_bench = bench_tools" "b_host demo_bench = demo_host" by (simp_all add: demo_bench_def)
  have a: "attach_comparison demo_suite_args git s = retI s" "sa_compare_baseline demo_suite_args = False" for git s
    by (simp_all add: attach_comparison_def demo_suite_args_def or_else_def)
  show ?thesis
    using demo_written r by (simp add: publish_suites_def Let_def io_defs b g m d q a demo_published_def[symmetric] write_json_def write_utf8_def encode_utf8_def write_bytes_def
      e en del: dumps_pretty.simps)
qed

lemma demo_suite_main: "\<exists>w'. suite_main demo_bench demo_suite_args demo_suite_world = (Inr 0, w')"
proof -
  obtain ps where ps: "build_suite_plans demo_bench demo_suite_world = (Inr ps, demo_suite_world)" "''transport_pipeline_json'' \<in> set (map pl_id ps)"
      "filter_suite_plans ps (Some [''transport_pipeline_json'']) True = [demo_json_plan]" using demo_plans by blast
  have "suite_output_dir demo_bench demo_suite_args = demo_out_dir"
    by (simp add: suite_output_dir_def demo_suite_args_def demo_out_dir_def demo_bench_def RESULTS_DIR_def path_join_def)
  moreover have f: "sa_env_path demo_suite_args = ''.env''" "sa_only demo_suite_args = ''transport_pipeline_json''" "\<not> sa_dry_run demo_suite_args" "sa_skip_dart_tool demo_suite_args"
    by (simp_all add: demo_suite_args_def)
  ultimately show ?thesis using ps demo_publish
    by (simp add: suite_main_def f Let_def check_only_def io_defs demo_boot demo_only demo_measure)
qed

theorem passing_run_published_witness:
  "\<exists>w' summary suites. suite_main demo_bench demo_suite_args demo_suite_world = (Inr 0, w') \<and>
    pw_files w' ''benchmarks/results/r/summary.json'' = Some (dumps_pretty 0 (JObj summary) @ newline) \<and>
    field summary ''suites'' = JList (map JObj suites) \<and> list_all good_suite suites"
proof -
  obtain w' where m: "suite_main demo_bench demo_suite_args demo_suite_world = (Inr 0, w')" using demo_suite_main by blast
  have "path_join (suite_output_dir demo_bench demo_suite_args) ''summary.json'' = ''benchmarks/results/r/summary.json''" "\<not> sa_dry_run demo_suite_args"
    by (simp_all add: suite_output_dir_def demo_suite_args_def demo_bench_def RESULTS_DIR_def path_join_def)
  then show ?thesis using passing_run_published[OF m] m by metis
qed

end
