(* ===== verification/Bench_SuiteFail.thy ===== *)
theory Bench_SuiteFail
  imports Bench_SuiteSpec Odbc_NativeSpec
begin

text \<open>
  A native benchmark that ends without a report stops a run of the suites: which files the plans of a run change, and the run in which
  a native plan raises.
\<close>

subsection \<open>What the plans leave alone\<close>

text \<open>No command changes the file at a path.\<close>

definition undisturbed :: "os_env \<Rightarrow> string \<Rightarrow> bool" where
  "undisturbed S p \<longleftrightarrow> (\<forall>ts cmd fs. os_effect S ts cmd fs p = fs p)"

definition spares :: "string \<Rightarrow> 'a pio \<Rightarrow> bool" where
  "spares p m \<longleftrightarrow> touches (- {p}) m"

named_theorems spares_intro \<open>rules for programs that leave a file alone\<close>

lemma sparesD: "spares p m \<Longrightarrow> m w = (r, w') \<Longrightarrow> pw_files w' p = pw_files w p"
  using touchesD[of "- {p}" m w r w' p] by (simp add: spares_def)

lemma spares_basic [spares_intro]:
  "spares p (retI x)" "spares p (raiseI e)" "spares p (liftI r)" "spares p (readI f)" "spares p (checkI g)" "spares p (guardI b e)"
  "spares p (print_line s)" "spares p (read_bytes q)" "spares p (read_text q)" "spares p (file_exists q)" "spares p (env_get k)" "spares p (env_set k v)"
  unfolding spares_def by (intro touches_intro)+

lemma spares_write [spares_intro]:
  "q \<noteq> p \<Longrightarrow> spares p (write_bytes q b)" "q \<noteq> p \<Longrightarrow> spares p (append_text q b)" "q \<noteq> p \<Longrightarrow> spares p (copy_file s q)"
  unfolding spares_def by (intro touches_intro; simp)+

lemma spares_process [spares_intro]: "undisturbed S p \<Longrightarrow> spares p (run_process S args)"
  by (auto simp: spares_def touches_def run_process_def undisturbed_def)

lemma spares_bind [spares_intro]: "spares p m \<Longrightarrow> (\<And>x. spares p (f x)) \<Longrightarrow> spares p (bindI m f)"
  unfolding spares_def by (intro touches_intro)

lemma spares_catch [spares_intro]: "spares p m \<Longrightarrow> (\<And>e. spares p (h e)) \<Longrightarrow> spares p (catchI m h)"
  unfolding spares_def by (intro touches_intro)

lemma spares_if [spares_intro]: "(b \<Longrightarrow> spares p m) \<Longrightarrow> (\<not> b \<Longrightarrow> spares p n) \<Longrightarrow> spares p (if b then m else n)"
  by simp

lemma spares_option [spares_intro]: "spares p m \<Longrightarrow> (\<And>y. spares p (f y)) \<Longrightarrow> spares p (case x of None \<Rightarrow> m | Some y \<Rightarrow> f y)"
  by (cases x) auto

lemma spares_prod [spares_intro]: "(\<And>a b. spares p (f a b)) \<Longrightarrow> spares p (case x of (a, b) \<Rightarrow> f a b)"
  by (cases x) auto

lemma spares_for [spares_intro]: "(\<And>x. spares p (f x)) \<Longrightarrow> spares p (forI xs f)"
  by (induction xs) (auto intro!: spares_intro)

lemma spares_map [spares_intro]: "(\<And>x. x \<in> set xs \<Longrightarrow> spares p (f x)) \<Longrightarrow> spares p (mapI f xs)"
  by (induction xs) (auto intro!: spares_intro)

text \<open>The native package is prepared below \<open>build\<close>.\<close>

definition outside_build :: "string \<Rightarrow> bool" where
  "outside_build p \<longleftrightarrow> \<not> startswith p ''build/''"

lemma below_build: "outside_build p \<Longrightarrow> startswith d ''build/'' \<Longrightarrow> path_join d q \<noteq> p"
  by (auto simp: outside_build_def path_join_def startswith_iff)

lemma spares_stage: "outside_build p \<Longrightarrow> spares p (stage_for_hook b)"
  unfolding stage_for_hook_def Let_def checksum_def
  by (intro spares_intro below_build) (auto simp: startswith_def outside_build_def)

lemma spares_compile:
  assumes "undisturbed S p" "outside_build p" "startswith d ''build/''" "b \<noteq> p"
  shows "spares p (compile_native S untar d b package revision)"
proof -
  have s: "startswith (path_join d ''source'') ''build/''" using assms(3) by (auto simp: path_join_def startswith_iff)
  show ?thesis unfolding compile_native_def extract_all_def check_output_def checksum_def Let_def
    by (intro spares_intro below_build assms s)
qed

lemma spares_native_root:
  assumes "undisturbed (b_os B) p" "outside_build p"
  shows "spares p (native_root B prepare)"
proof -
  have d: "startswith (path_join ''build/odbc-native'' r) ''build/''" for r by (simp add: path_join_def startswith_def)
  have "spares p (build_source_native (b_os B) (b_nt B) (b_untar B) pkg r)" for pkg r
    unfolding build_source_native_def Let_def
    by (intro spares_intro spares_stage spares_compile below_build assms d)
  then have "spares p (build_pinned_native (b_os B) (b_nt B) (b_package_dir B) (b_untar B))"
    unfolding build_pinned_native_def pinned_package_def check_output_def by (intro spares_intro assms)
  then show ?thesis unfolding native_root_def resolve_dart_odbc_fast_root_def git_package_root_def find_package_root_def resolve_locked_odbc_fast_version_def Let_def
    by (intro spares_intro)
qed

lemma spares_timed: "undisturbed S p \<Longrightarrow> l \<noteq> p \<Longrightarrow> spares p (timed S clock cmd l)"
  unfolding timed_def perf_counter_def read_log_def run_streaming_def ensure_utf8_stdio_def option.case by (intro spares_intro)

lemma spares_package:
  "undisturbed S p \<Longrightarrow> spares p (odbc_fast_package_metrics S r)" "undisturbed S p \<Longrightarrow> spares p (odbc_fast_comparison_identity S q)"
  unfolding odbc_fast_comparison_identity_def odbc_fast_package_metrics_def read_json_def Let_def by (intro spares_intro; simp)+

lemma spares_native_run: "undisturbed S p \<Longrightarrow> l \<noteq> p \<Longrightarrow> spares p (native_run S nt clock mode r l args bp env)"
  unfolding native_run_def native_environment_def reset_benchmark_log_def Let_def
  by (intro spares_intro spares_timed)

lemma spares_async: "undisturbed S p \<Longrightarrow> l \<noteq> p \<Longrightarrow> spares p (run_odbc_async_benchmark S nt clock r l args bp env)"
  unfolding run_odbc_async_benchmark_def by (intro spares_intro spares_native_run)

lemma spares_streaming: "undisturbed S p \<Longrightarrow> l \<noteq> p \<Longrightarrow> spares p (run_odbc_streaming_benchmark S nt clock r l args bp env)"
  unfolding run_odbc_streaming_benchmark_def Let_def by (intro spares_intro spares_native_run)

lemma spares_odbc_suite:
  assumes "undisturbed (b_os B) p" "outside_build p" "l \<noteq> p"
  shows "spares p (run_odbc_suite B i r l)"
proof -
  have "spares p ((if i = ''odbc_async'' then run_odbc_async_benchmark else run_odbc_streaming_benchmark) (b_os B) (b_nt B) (b_clock B) q l [] None env)" for q env
    using spares_async spares_streaming assms by (simp split: if_split)
  then show ?thesis unfolding run_odbc_suite_def Let_def by (intro spares_intro spares_native_root spares_package assms)
qed

lemma spares_plan:
  assumes "undisturbed (b_os B) p" "outside_build p" "path_join out (pl_id plan @ ''.log'') \<noteq> p"
  shows "spares p (run_plan B out plan)"
proof -
  have k: "spares p (case skipped_suite i kind reason of JObj d \<Rightarrow> retI d | _ \<Rightarrow> retI [])" for i kind reason
    by (simp add: skipped_suite_def spares_basic(1))
  show ?thesis
    unfolding run_plan_def run_transport_flutter_test_def run_plug_agente_stack_flutter_test_def run_odbc_hot_paths_flutter_test_def run_transport_json_tool_def
      run_gateway_encoding_flutter_test_def Let_def
    by (intro spares_intro spares_odbc_suite spares_timed spares_native_root spares_package k assms)
qed

subsection \<open>The run\<close>

text \<open>The part of \<open>main\<close> before the first suite: the plans of the run\<close>

definition planned :: "bench \<Rightarrow> suite_args \<Rightarrow> plan list pio" where
  "planned B a = bindI (bootstrap_env (sa_env_path a)) (\<lambda>_. bindI (check_only B (only_ids (sa_only a))) (\<lambda>_.
     bindI (build_suite_plans B) (\<lambda>all_plans. retI (filter_suite_plans all_plans (only_ids (sa_only a)) (sa_skip_dart_tool a)))))"

lemma suite_main_planned: "\<not> sa_dry_run a \<Longrightarrow> suite_main B a = bindI (planned B a) (\<lambda>plans.
    bindI (measure_suites B (suite_output_dir B a) plans) (\<lambda>(had_failure, suites). publish_suites B a (suite_output_dir B a) had_failure suites))"
  by (rule ext) (auto simp: suite_main_def planned_def Let_def bindI_def retI_def split: prod.splits sum.splits)

lemma mapI_raises:
  "mapI f pre w = (Inr ds, v) \<Longrightarrow> f x v = (Inl e, w') \<Longrightarrow> mapI f (pre @ x # post) w = (Inl e, w')"
  by (induction pre arbitrary: w ds) (auto simp: bindI_def retI_def split: prod.splits sum.splits)

lemma spares_planned:
  assumes "undisturbed (b_os B) p" "outside_build p"
  shows "spares p (planned B a)"
  unfolding planned_def bootstrap_env_def import_dotenv_if_present_def set_if_unset_def check_only_def build_suite_plans_def
  by (intro spares_intro spares_native_root assms)

lemma native_plan_raises:
  assumes "i \<in> set native_ids" "native_root B True v = (Inr resolved, v1)"
    and "(if i = ''odbc_async'' then run_odbc_async_benchmark else run_odbc_streaming_benchmark) (b_os B) (b_nt B) (b_clock B) (case resolved of Some r \<Rightarrow> r | None \<Rightarrow> base)
      (path_join out (i @ ''.log'')) [] None (pw_env v1) v1 = (Inr (exit_code, metrics, output), v2)"
    and "extract_json_object_from_output output = None"
  shows "\<exists>e w'. run_plan B out (native_plan base i) v = (Inl e, w')"
proof -
  have "run_plan B out (native_plan base i) = run_odbc_suite B i base (path_join out (i @ ''.log''))"
    using assms(1) by (auto simp: run_plan_def native_plan_def native_ids_def Let_def)
  moreover have "run_odbc_suite B i base l v \<noteq> (Inr d, w')" if "l = path_join out (i @ ''.log'')" for d w' l
    using assms(2-4) unfolding that by (auto simp: run_odbc_suite_def Let_def ok_iff native_comparison_identity_def)
  ultimately show ?thesis by (metis old.sum.exhaust prod.exhaust)
qed

text \<open>
  C34. A native benchmark that ends without a JSON report stops the whole run: when a run has come to a native plan (asynchronous or streaming) and
  its benchmark returns an output without a report, whatever the exit code, \<open>main\<close> raises instead of reporting the suite as failed, and
  the summary of the run is not written: the file is as it was before the run, if the commands themselves leave it alone and the
  output directory is not below \<open>build\<close>.
\<close>

theorem native_failure_stops_run:
  assumes "\<not> sa_dry_run a" "planned B a w = (Inr (pre @ native_plan base i # post), w0)" "i \<in> set native_ids"
    and "mapI (run_plan B (suite_output_dir B a)) pre w0 = (Inr ds, v)" "native_root B True v = (Inr resolved, v1)"
    and "(if i = ''odbc_async'' then run_odbc_async_benchmark else run_odbc_streaming_benchmark) (b_os B) (b_nt B) (b_clock B) (case resolved of Some r \<Rightarrow> r | None \<Rightarrow> base)
      (path_join (suite_output_dir B a) (i @ ''.log'')) [] None (pw_env v1) v1 = (Inr (exit_code, metrics, output), v2)"
    and "extract_json_object_from_output output = None"
    and "summary = path_join (suite_output_dir B a) ''summary.json''" "undisturbed (b_os B) summary" "outside_build summary"
  shows "\<exists>e w'. suite_main B a w = (Inl e, w') \<and> pw_files w' summary = pw_files w summary"
proof -
  let ?out = "suite_output_dir B a"
  have log: "path_join ?out (j @ ''.log'') \<noteq> summary" for j
  proof
    assume "path_join ?out (j @ ''.log'') = summary"
    then have "rev (j @ ''.log'') = rev ''summary.json''" by (simp add: assms(8) path_join_def)
    then show False by simp
  qed
  obtain e w' where e: "run_plan B ?out (native_plan base i) v = (Inl e, w')" using native_plan_raises[OF assms(3,5,6,7)] by blast
  have "mapI (run_plan B ?out) (pre @ native_plan base i # post) w0 = (Inl e, w')" by (rule mapI_raises[OF assms(4) e])
  then have "suite_main B a w = (Inl e, w')" unfolding suite_main_planned[OF assms(1)] by (simp add: bindI_def assms(2) measure_suites_def)
  moreover have "pw_files w' summary = pw_files w summary"
    using sparesD[OF spares_planned[OF assms(9,10)] assms(2)] sparesD[OF spares_map[OF spares_plan[OF assms(9,10) log]] assms(4)]
      sparesD[OF spares_plan[OF assms(9,10) log] e] by simp
  ultimately show ?thesis by blast
qed

subsection \<open>A run that crashes\<close>

definition crash_tools :: os_env where
  "crash_tools = bench_tools\<lparr>os_run := (\<lambda>_ args. Inr \<lparr>p_code = 1, p_out = [], p_err = []\<rparr>)\<rparr>"

definition crash_bench :: bench where
  "crash_bench = demo_bench\<lparr>b_os := crash_tools\<rparr>"

definition crash_args :: suite_args where
  "crash_args = demo_suite_args\<lparr>sa_output_dir := ''out'', sa_only := ''odbc_async''\<rparr>"

definition crash_world :: pworld where
  "crash_world = \<lparr>pw_files = [''../dart_odbc_fast/pubspec.yaml'' \<mapsto> ''x'', ''pubspec.yaml'' \<mapsto> ''x'', DEFAULT_ASYNC_BENCHMARK \<mapsto> []], pw_trace = [], pw_log = [],
     pw_env = [''ODBC_TEST_DSN'' \<mapsto> ''d'']\<rparr>"

lemma crash_root: "native_root crash_bench prepare crash_world = (Inr (Some ''../dart_odbc_fast''), crash_world)"
proof -
  have "strip [] = []" by code_simp
  then show ?thesis
    by (simp add: native_root_def resolve_dart_odbc_fast_root_def find_package_root_def resolve_locked_odbc_fast_version_def io_defs file_exists_def crash_world_def
      DEFAULT_ASYNC_BENCHMARK_def getenv_def fallback_roots_def path_join_def backslash_def)
qed

lemma crash_planned: "planned crash_bench crash_args crash_world = (Inr [native_plan ''../dart_odbc_fast'' ''odbc_async''], crash_world)"
proof -
  have o: "only_ids ''odbc_async'' = Some [''odbc_async'']" "strip ''d'' = ''d''" "strip [] = []" by code_simp+
  then have d: "odbc_dsn_configured (pw_env crash_world)" by (simp add: odbc_dsn_configured_def crash_world_def getenv_def)
  have b: "bootstrap_env ''.env'' crash_world = (Inr (), crash_world)"
    by (simp add: bootstrap_env_def import_dotenv_if_present_def io_defs file_exists_def env_get_def crash_world_def or_else_def DEFAULT_ASYNC_BENCHMARK_def)
  have a: "sa_env_path crash_args = ''.env''" "sa_only crash_args = ''odbc_async''" by (simp_all add: crash_args_def demo_suite_args_def)
  have p: "\<exists>ps. build_suite_plans crash_bench crash_world = (Inr ps, crash_world) \<and> ''odbc_async'' \<in> set (map pl_id ps) \<and>
      filter_suite_plans ps (Some [''odbc_async'']) k = [native_plan ''../dart_odbc_fast'' ''odbc_async'']" for k
    using d by (simp add: build_suite_plans_def io_defs crash_root base_plans_def flutter_plan_def native_ids_def native_plan_def filter_suite_plans_def filter_plan_def)
  show ?thesis using p[of "sa_skip_dart_tool crash_args"] by (auto simp: planned_def a o b check_only_def io_defs)
qed

lemma crash_facts: "decode_text ''x'' = Inr ''x''" "first_match package_version (at_lines ''x'') = None" "decode_text [] = Inr []"
  "resolve_command crash_tools [''dart'', ''run'', DEFAULT_ASYNC_BENCHMARK, ''--mode'', ''async''] = Inr [''dart'', ''run'', DEFAULT_ASYNC_BENCHMARK, ''--mode'', ''async'']"
  "parse_odbc_benchmark_metrics [] = Inr []" "extract_json_object_from_output [] = None"
  "resolve_benchmark_package DEFAULT_ASYNC_BENCHMARK (pw_files crash_world) = Inr ([], DEFAULT_ASYNC_BENCHMARK, DEFAULT_ASYNC_BENCHMARK)"
  by code_simp+

lemma crash_run: "\<exists>m w2. run_odbc_async_benchmark crash_tools False (b_clock demo_bench) ''../dart_odbc_fast'' ''out/odbc_async.log'' [] None (pw_env crash_world) crash_world
    = (Inr (1, m, []), w2)"
proof -
  have f: "pw_files crash_world ''../dart_odbc_fast/pubspec.yaml'' = Some ''x''" "pw_env crash_world = [''ODBC_TEST_DSN'' \<mapsto> ''d'']" by (simp_all add: crash_world_def DEFAULT_ASYNC_BENCHMARK_def)
  then show ?thesis using crash_facts
    by (simp add: run_odbc_async_benchmark_def native_run_def native_environment_def io_defs read_text_def read_file_def path_join_def reset_benchmark_log_def timed_def
      perf_counter_def run_streaming_def ensure_utf8_stdio_def env_get_def env_set_def run_process_def print_line_def append_text_def read_log_def file_exists_def write_bytes_def
      async_exit_def crash_tools_def bench_tools_def Let_def)
qed

theorem native_failure_stops_run_witness:
  "\<exists>e w'. suite_main crash_bench crash_args crash_world = (Inl e, w') \<and> pw_files w' ''out/summary.json'' = None"
proof -
  obtain m w2 where r: "run_odbc_async_benchmark crash_tools False (b_clock demo_bench) ''../dart_odbc_fast'' ''out/odbc_async.log'' [] None (pw_env crash_world) crash_world
    = (Inr (1, m, []), w2)" using crash_run by blast
  have o: "suite_output_dir crash_bench crash_args = ''out''" "\<not> sa_dry_run crash_args" by (simp_all add: suite_output_dir_def crash_args_def demo_suite_args_def)
  have s: "undisturbed (b_os crash_bench) ''out/summary.json''" "outside_build ''out/summary.json''"
    by (simp_all add: undisturbed_def crash_bench_def crash_tools_def bench_tools_def outside_build_def startswith_def)
  have c: "b_os crash_bench = crash_tools" "\<not> b_nt crash_bench" "b_clock crash_bench = b_clock demo_bench" by (simp_all add: crash_bench_def demo_bench_def)
  have p: "planned crash_bench crash_args crash_world = (Inr ([] @ native_plan ''../dart_odbc_fast'' ''odbc_async'' # []), crash_world)" by (simp add: crash_planned)
  have "\<exists>e w'. suite_main crash_bench crash_args crash_world = (Inl e, w') \<and> pw_files w' ''out/summary.json'' = pw_files crash_world ''out/summary.json''"
    by (rule native_failure_stops_run[OF o(2) p _ _ crash_root _ crash_facts(6) _ s])
      (use r in \<open>simp_all add: native_ids_def retI_def o path_join_def c\<close>)
  then show ?thesis by (simp add: crash_world_def DEFAULT_ASYNC_BENCHMARK_def)
qed

end
