(* ===== verification/App_Source.thy ===== *)
theory App_Source
  imports Lifecycle_Payload Py_Num
begin

text \<open>
  \<open>tool/updater/application_source.py\<close> and the source rewriting of \<open>isolated_windows_fixture.py\<close>: a test application is
  built from the files of one commit, of which some are derived so that the result cannot touch the installed
  product. Git is a parameter: the result of each command; the tar reader is a parameter too.
\<close>

subsection \<open>Rewriting of identities\<close>

definition quoted :: "string \<Rightarrow> string" where
  "quoted s = [CHR 0x22] @ s @ [CHR 0x22]"

definition str_suffix :: "nat \<Rightarrow> string \<Rightarrow> string" where
  "str_suffix n s = drop (length s - n) s"

text \<open>A chain of \<open>replace\<close>\<close>

definition replace_all :: "(string \<times> string) list \<Rightarrow> string \<Rightarrow> string" where
  "replace_all rs s = fold (\<lambda>(old, new). replace_str old new) rs s"

definition native_replacements :: "string \<Rightarrow> (string \<times> string) list" where
  "native_replacements identity =
     [(''PlugAgente.Install.v1'', identity @ ''.Install.v1''), (''PlugAgenteUpdateHelper'', identity @ ''UpdateHelper''),
      (''PlugAgenteUpdater'', identity @ ''Updater''), (''L'' @ quoted ''PlugAgente'', ''L'' @ quoted identity),
      (''Plug Agente Updater'', ''Plug Agente Homologacao '' @ str_suffix 12 identity @ '' Updater''), (''PlugAgenteSetup'', identity @ ''Setup'')]"

definition rewrite_native :: "string \<Rightarrow> string \<Rightarrow> string res" where
  "rewrite_native source identity = bindR (require_identity (JStr identity)) (\<lambda>_. Inr (replace_all (native_replacements identity) source))"

definition win :: "string list \<Rightarrow> string" where
  "win ps = join backslash ps"

definition APP_ID :: string where
  "APP_ID = ''{A1B2C3D4-E5F6-4A5B-8C9D-0E1F2A3B4C5E}''"

definition installer_replacements :: "string \<Rightarrow> string \<Rightarrow> (string \<times> string) list" where
  "installer_replacements identity app_id =
     [(''CloseApplications=yes'', ''CloseApplications=no''), (win [''{commonappdata}'', ''PlugAgente''], win [''{commonappdata}'', identity]),
      (''PlugAgenteUpdater'', identity @ ''Updater''), (quoted ''Plug Agente'', quoted (''Plug Agente Homologacao '' @ str_suffix 12 identity)),
      (APP_ID, ''{'' @ app_id @ ''}''), (win [''Classes'', ''plugdb''], win [''Classes'', replace_str ''_'' ''-'' (lower identity)]),
      (''PlugAgenteSetup'', identity @ ''Setup'')]"

definition installer_paths :: "path \<Rightarrow> string \<Rightarrow> (string \<times> string) list" where
  "installer_paths project payload = (let at_project = (\<lambda>ps. path_str (project @ ps)) in
     [(win [''..'', ''build'', ''windows'', ''x64'', ''runner'', ''Release''], payload), (win [''..'', ''LICENSE''], at_project [''LICENSE'']),
      (win [''..'', ''assets'', ''fonts'', ''montserrat'', ''OFL.txt''], at_project [''assets'', ''fonts'', ''montserrat'', ''OFL.txt'']),
      (win [''..'', ''windows'', ''runner'', ''resources'', ''app_icon.ico''], at_project [''windows'', ''runner'', ''resources'', ''app_icon.ico'']),
      (win [''wizard'', ''wizard-image.png''], at_project [''installer'', ''wizard'', ''wizard-image.png'']),
      (win [''wizard'', ''wizard-small-image.png''], at_project [''installer'', ''wizard'', ''wizard-small-image.png''])])"

text \<open>\<open>int(text, 16)\<close> succeeds: a sign, a prefix and single underscores between digits are allowed.\<close>

definition int16_ok :: "string \<Rightarrow> bool" where
  "int16_ok s = (let t = strip s; u = (if t \<noteq> [] \<and> hd t \<in> {CHR ''+'', CHR ''-''} then tl t else t);
       v = (if startswith (lower u) ''0x'' then removeprefix (drop 2 u) ''_'' else u) in
     list_all (\<lambda>d. d \<noteq> [] \<and> list_all is_hex (lower d)) (split_on ''_'' v))"

text \<open>\<open>uuid.UUID(text)\<close>\<close>

definition uuid_check :: "string \<Rightarrow> unit res" where
  "uuid_check s = (let h = replace_str ''-'' [] (strip_chars ''{}'' (replace_str ''uuid:'' [] (replace_str ''urn:'' [] s))) in
     if py_len h \<noteq> 32 \<or> \<not> int16_ok h then Inl (ValueErr ''badly formed hexadecimal UUID string'') else Inr ())"

definition rewrite_installer :: "path \<Rightarrow> string \<Rightarrow> string \<Rightarrow> string \<Rightarrow> string \<Rightarrow> string res" where
  "rewrite_installer project source identity app_id payload =
     bindR (require_identity (JStr identity)) (\<lambda>_. bindR (uuid_check app_id) (\<lambda>_.
     Inr (replace_all (installer_paths project payload) (replace_all (installer_replacements identity app_id) source))))"

definition forbidden_texts :: "string list" where
  "forbidden_texts = [''PlugAgente.Install.v1'', ''PlugAgenteUpdateHelper'', ''CloseApplications=yes'', ''PlugAgenteUpdater'', ''L'' @ quoted ''PlugAgente'',
     win [''Classes'', ''plugdb''], win [''Global'', ''PlugAgenteSetup''], win [''{commonappdata}'', ''PlugAgente'', []], APP_ID]"

definition bom_text :: "bytes \<Rightarrow> string res" where
  "bom_text b = decode_text (removeprefix b bom)"

definition checked_directories :: "(string list \<times> string list) list" where
  "checked_directories = [([''installer''], [''.iss'']), ([''windows'', ''updater''], [''.cpp'', ''.h'']), ([''windows'', ''update_helper''], [''.cpp'', ''.h'']),
     ([''windows'', ''install_channel''], [''.cpp'', ''.h''])]"

definition check_isolated :: "tree \<Rightarrow> string list \<Rightarrow> path \<Rightarrow> unit res" where
  "check_isolated t extensions p =
     (if suffix_of (tail_name p) \<notin> set extensions \<or> ''third_party'' \<in> set p then Inr ()
      else bindR (regular_at t p) (\<lambda>(b, _). bindR (bom_text b) (\<lambda>source.
        if list_ex (contains source) forbidden_texts then Inl (RuntimeErr ''Operational identity remains in fixture source'') else Inr ())))"

definition GATE_LINE :: string where
  "GATE_LINE = ''constexpr bool kApplicationContractImplemented = false;''"

text \<open>\<open>directory.rglob("*")\<close>: the entries below a directory\<close>

definition entries_below :: "tree \<Rightarrow> path \<Rightarrow> path list" where
  "entries_below t d = remdups (filter (\<lambda>p. strict_prefix d p) (map fst t))"

definition assert_isolated_sources :: "tree \<Rightarrow> path \<Rightarrow> string \<Rightarrow> unit res" where
  "assert_isolated_sources t base identity = bindR (require_identity (JStr identity)) (\<lambda>_.
     bindR (mapR (\<lambda>(d, extensions). mapR (check_isolated t extensions) (entries_below t (base @ d))) checked_directories) (\<lambda>_.
     bindR (regular_at t (base @ [''windows'', ''updater'', ''contract.h''])) (\<lambda>(b, _). bindR (decode_text b) (\<lambda>contract.
     if contains contract GATE_LINE then Inr () else Inl (RuntimeErr ''Fixture must preserve the production activation gate'')))))"

subsection \<open>Git\<close>

text \<open>The result of \<open>git\<close> with the given arguments\<close>

type_synonym git = "string list \<Rightarrow> proc res"

definition git_output :: "git \<Rightarrow> string list \<Rightarrow> bytes res" where
  "git_output G args = (case G args of
     Inl e \<Rightarrow> if is_os_err e then Inl (RuntimeErr ''Application Git input could not be verified'') else Inl e
   | Inr p \<Rightarrow> if p_code p \<noteq> 0 then Inl (RuntimeErr ''Application Git input could not be verified'') else Inr (p_out p))"

definition tool_keys :: "string list" where
  "tool_keys = [''PATH'', ''PATHEXT'', ''SYSTEMROOT'', ''SYSTEMDRIVE'', ''WINDIR'', ''COMSPEC'', ''OS'', ''TEMP'', ''TMP'', ''USERPROFILE'', ''HOME'', ''HOMEDRIVE'',
     ''HOMEPATH'', ''APPDATA'', ''LOCALAPPDATA'', ''PROGRAMDATA'', ''ALLUSERSPROFILE'', ''PROGRAMFILES'', ''PROGRAMFILES(X86)'', ''PROGRAMW6432'',
     ''COMMONPROGRAMFILES'', ''COMMONPROGRAMFILES(X86)'', ''COMMONPROGRAMW6432'', ''PROCESSOR_ARCHITECTURE'', ''NUMBER_OF_PROCESSORS'', ''FLUTTER_ROOT'', ''PUB_CACHE'']"

definition tool_environment :: "(string \<times> string) list \<Rightarrow> (string \<times> string) list" where
  "tool_environment raw = filter (\<lambda>(k, _). upper k \<in> set tool_keys) raw"

definition ENTRYPOINT :: string where "ENTRYPOINT = ''tool/homologation/desktop_bootstrap_fixture.dart''"

definition SAFE_ENV :: bytes where
  "SAFE_ENV = ''APP_ENV=homologation'' @ newline @ ''ENABLE_SQL_OPERATIONS=false'' @ newline @ ''AUTO_UPDATE_CHANNEL=internal'' @ newline"

definition SUPPORTED_BOOTSTRAP_SHA256 :: string where
  "SUPPORTED_BOOTSTRAP_SHA256 = ''c4b88aa931bab28092890c97f164d22e9c10905e3858e94a29e6ca3ca2227fb7''"

definition MAX_SOURCE_FILES :: nat where "MAX_SOURCE_FILES = 10000"

definition MAX_ARCHIVE_BYTES :: nat where "MAX_ARCHIVE_BYTES = 128 * 1024 * 1024"

definition source_name_ok :: "string \<Rightarrow> bool" where
  "source_name_ok name \<longleftrightarrow> fullmatch (r_plus (RCls name_char)) name \<and> \<not> startswith name ''/'' \<and> as_posix name = name \<and>
     \<not> list_ex (\<lambda>p. p \<in> {''.'', ''..'', ''.git''}) (path_parts name)"

definition relative_name :: "string \<Rightarrow> string res" where
  "relative_name name = (if source_name_ok name then Inr name else Inl (RuntimeErr ''Invalid application source path''))"

text \<open>\<open>bytes.strip()\<close>\<close>

definition strip_bytes :: "bytes \<Rightarrow> bytes" where
  "strip_bytes b = strip_chars ('' '' @ map char_of [9, 10, 11, 12, 13 :: nat]) b"

definition env_file :: "string \<Rightarrow> bool" where
  "env_file name \<longleftrightarrow> startswith (path_name name) ''.env'' \<and> path_name name \<noteq> ''.env.example''"

text \<open>One line of \<open>git ls-tree\<close>: mode, kind, object and name\<close>

definition tree_line :: "bytes \<Rightarrow> (string \<times> string \<times> string \<times> string) res" where
  "tree_line entry = (case str_cut [CHR 0x09] entry of None \<Rightarrow> Inl (ValueErr ''not enough values to unpack'')
     | Some (metadata, raw_name) \<Rightarrow>
         if \<not> ascii metadata then Inl (ValueErr ''UnicodeDecodeError'') else
         (case split_on '' '' metadata of
            [mode, kind, blob] \<Rightarrow> bindR (decode_utf8 raw_name) (\<lambda>n. bindR (relative_name n) (\<lambda>name. Inr (mode, kind, blob, name)))
          | _ \<Rightarrow> Inl (ValueErr ''wrong number of values to unpack'')))"

type_synonym blobs = "(string \<times> string) list"

definition add_blob :: "bytes \<Rightarrow> blobs \<Rightarrow> blobs res" where
  "add_blob entry files = (if entry = [] then Inr files else
     bindR (tree_line entry) (\<lambda>(mode, kind, blob, name).
     if mode \<notin> {''100644'', ''100755''} \<or> kind \<noteq> ''blob'' then Inl (RuntimeErr ''Linked or nested Git inputs are refused'')
     else if env_file name then Inl (RuntimeErr ''Environment files must not enter the application snapshot'')
     else if \<not> fullmatch (rx_hex 40) blob \<or> map_of files name \<noteq> None then Inl (RuntimeErr ''Invalid application Git inventory'')
     else Inr (files @ [(name, blob)])))"

definition show_file :: "git \<Rightarrow> string \<Rightarrow> string \<Rightarrow> bytes res" where
  "show_file G revision name = git_output G [''show'', revision @ '':'' @ name]"

text \<open>The digest that the entry point must have, \<open>SUPPORTED_BOOTSTRAP_SHA256\<close> of the module, is an argument: the tests of the repository replace it.\<close>

definition git_files :: "string \<Rightarrow> git \<Rightarrow> json \<Rightarrow> blobs res" where
  "git_files supported G commit = bindR (fullmatch_of (rx_hex 40) commit) (\<lambda>full.
     if \<not> full then Inl (RuntimeErr ''An explicit full application commit is required'') else
     bindR (str_of commit) (\<lambda>revision.
     bindR (git_output G [''cat-file'', ''-t'', revision]) (\<lambda>kind.
     if strip_bytes kind \<noteq> ''commit'' then Inl (RuntimeErr ''Application revision must identify a commit'') else
     bindR (git_output G [''merge-base'', ''--is-ancestor'', revision, ''HEAD'']) (\<lambda>_.
     bindR (git_output G [''ls-tree'', ''-rz'', revision]) (\<lambda>listing.
     bindR (foldR add_blob (split_on [CHR 0x00] listing) []) (\<lambda>files.
     if files = [] \<or> MAX_SOURCE_FILES < length files \<or> map_of files ENTRYPOINT = None
       then Inl (RuntimeErr ''Required bootstrap source is absent or exceeds its limit'') else
     bindR (show_file G revision ENTRYPOINT) (\<lambda>entry.
     if sha256_hex entry \<noteq> supported then Inl (RuntimeErr ''Bootstrap contract changed; review its isolation before building'') else
     bindR (show_file G revision ''windows/updater/contract.h'') (\<lambda>contract.
     if contains contract GATE_LINE then Inr files else Inl (RuntimeErr ''Application snapshot must preserve the disabled production gate'')))))))))"

definition blob_hash :: "bytes \<Rightarrow> string" where
  "blob_hash content = sha1_hex (''blob '' @ nat_str (length content) @ [CHR 0x00] @ content)"

definition require_legacy_revision :: "git \<Rightarrow> string \<Rightarrow> string res" where
  "require_legacy_revision G revision =
     (if \<not> fullmatch (rx_hex 40) revision then Inl (RuntimeErr ''An explicit full historical commit is required'') else
      bindR (bindR (G [''merge-base'', ''--is-ancestor'', revision, ''HEAD'']) (\<lambda>p.
          if p_code p \<noteq> 0 then Inr None else
          bindR (G [''show'', revision @ '':windows/updater/contract.h'']) (\<lambda>q. if p_code q \<noteq> 0 then Inr None else bindR (decode_text (p_out q)) (\<lambda>c. Inr (Some c))))) (\<lambda>contract.
      case contract of None \<Rightarrow> Inl (RuntimeErr ''Historical supervisor must exist in the local ancestry'')
      | Some c \<Rightarrow> if contains c ''kRecoveryContractVersion = 1;'' \<and> contains c ''kApplicationContractImplemented = false;'' then Inr revision
          else Inl (RuntimeErr ''The explicit historical source must be the disabled recovery-v1 supervisor'')))"

subsection \<open>The source tree\<close>

text \<open>Programs on the tree\<close>

type_synonym 'a tio = "(tree, 'a) io"

definition source_root :: "fixture_env \<Rightarrow> bool \<Rightarrow> tree \<Rightarrow> string \<Rightarrow> path res" where
  "source_root F fresh t identity = bindR (require_identity (JStr identity)) (\<lambda>_.
     let build = fe_project F @ [''build'']; base = build @ [''a'' @ str_suffix 12 identity] in
     bindR (mapR (\<lambda>p. if has_entry t p then bindR (reject_reparse t p) (\<lambda>_.
         if is_folder t p then Inr () else Inl (RuntimeErr ''Application source root is not a directory''))
       else if fresh then Inr () else Inl (RuntimeErr ''Application source root is absent'')) [build, base]) (\<lambda>_.
     if fresh \<and> has_entry t base then Inl (RuntimeErr ''Refusing an existing application source root'') else Inr base))"

text \<open>The place that a path means when the system follows links, a parameter: the tree does not record where a link points to.\<close>

type_synonym links = "tree \<Rightarrow> path \<Rightarrow> path"

text \<open>\<open>p.mkdir(parents=True, exist_ok=True)\<close> and \<open>p.write_bytes(b)\<close>. A link to a directory counts as one; a link that points nowhere is
  refused by \<open>mkdir\<close>, and \<open>write_bytes\<close> creates what it points to.\<close>

definition make_folder :: "links \<Rightarrow> path \<Rightarrow> tree \<Rightarrow> tree res" where
  "make_folder L p t = (let q = L t p in case map_of t q of
     None \<Rightarrow> if map_of t p = Some Linked then Inl FileExistsErr else Inr ((q, Folder) # t)
   | Some Folder \<Rightarrow> Inr t | Some _ \<Rightarrow> Inl FileExistsErr)"

definition make_folders :: "links \<Rightarrow> path \<Rightarrow> tree \<Rightarrow> tree res" where
  "make_folders L p t = foldR (make_folder L) (map (\<lambda>i. take (Suc i) p) [0..<length p]) t"

definition put_at :: "links \<Rightarrow> path \<Rightarrow> bytes \<Rightarrow> tree \<Rightarrow> tree res" where
  "put_at L p b t = (let q = L t p in case map_of t q of
     None \<Rightarrow> if is_folder t (butlast q) then Inr ((q, Regular b 1) # t) else Inl FileNotFoundErr
   | Some (Regular _ n) \<Rightarrow> Inr ((q, Regular b n) # t)
   | Some _ \<Rightarrow> Inl (OSErr ''PermissionError''))"

definition change :: "(tree \<Rightarrow> tree res) \<Rightarrow> unit tio" where
  "change f t = (case f t of Inl e \<Rightarrow> (Inl e, t) | Inr t' \<Rightarrow> (Inr (), t'))"

subsection \<open>The archive\<close>

datatype tar_kind = TarFile | TarDir | TarOther

text \<open>An entry of the archive; the contents are absent when \<open>extractfile\<close> gives none.\<close>

record tar_entry =
  te_name :: string
  te_kind :: tar_kind
  te_bytes :: nat
  te_content :: "bytes option"

definition rstrip_slash :: "string \<Rightarrow> string" where
  "rstrip_slash s = List.rev (dropWhile ((=) CHR ''/'') (List.rev s))"

definition CRLF :: string where "CRLF = [CHR 0x0D, CHR 0x0A]"

text \<open>The contents that are written: the exact Git blob, for scripts possibly after line ends were undone\<close>

definition blob_content :: "string \<Rightarrow> string \<Rightarrow> bytes \<Rightarrow> bytes res" where
  "blob_content name blob content = (let c = (if blob_hash content \<noteq> blob \<and> endswith name ''.ps1'' then replace_str CRLF newline content else content) in
     if blob_hash c \<noteq> blob then Inl (RuntimeErr ''Application archive differs from the selected Git blob'') else Inr c)"

definition entry_content :: "blobs \<Rightarrow> string list \<Rightarrow> string \<Rightarrow> tar_entry \<Rightarrow> bytes res" where
  "entry_content files seen name e =
     (case map_of files name of
        Some blob \<Rightarrow>
          if te_kind e \<noteq> TarFile \<or> name \<in> set seen \<or> MAX_ARCHIVE_BYTES < te_bytes e then Inl (RuntimeErr ''Application archive contains an invalid entry'')
          else (case te_content e of None \<Rightarrow> Inl (RuntimeErr ''Application archive content is missing'')
            | Some whole \<Rightarrow> let content = take (MAX_ARCHIVE_BYTES + 1) whole in
                if length content \<noteq> te_bytes e then Inl (RuntimeErr ''Application archive content is incomplete'') else blob_content name blob content)
      | None \<Rightarrow> Inl (RuntimeErr ''Application archive contains an invalid entry''))"

fun export_entries :: "links \<Rightarrow> path \<Rightarrow> blobs \<Rightarrow> tar_entry list \<Rightarrow> string list \<Rightarrow> string list tio" where
  "export_entries L base files [] seen = retI seen"
| "export_entries L base files (e # es) seen =
     bindI (liftI (relative_name (rstrip_slash (te_name e)))) (\<lambda>name.
     if te_kind e = TarDir then export_entries L base files es seen else
     bindI (liftI (entry_content files seen name e)) (\<lambda>content.
     let target = base @ path_parts name in
     bindI (change (make_folders L (butlast target))) (\<lambda>_.
     bindI (change (put_at L target content)) (\<lambda>_.
     export_entries L base files es (seen @ [name])))))"

definition export_archive :: "links \<Rightarrow> (bytes \<Rightarrow> tar_entry list res) \<Rightarrow> bytes \<Rightarrow> path \<Rightarrow> blobs \<Rightarrow> unit tio" where
  "export_archive L read_tar archive base files =
     (if MAX_ARCHIVE_BYTES < length archive then raiseI (RuntimeErr ''Application archive exceeds its size limit'') else
      bindI (liftI (read_tar archive)) (\<lambda>es. bindI (export_entries L base files es []) (\<lambda>seen.
      guardI (set seen \<noteq> set (map fst files)) (RuntimeErr ''Application archive does not cover the full Git inventory''))))"

subsection \<open>Derivation\<close>

definition native_source :: "string \<Rightarrow> bool" where
  "native_source name \<longleftrightarrow> list_ex (startswith name) [''windows/updater/'', ''windows/update_helper/'', ''windows/install_channel/''] \<and>
     \<not> contains name ''/third_party/'' \<and> suffix_of (path_name name) \<in> {''.cpp'', ''.h''}"

definition MAIN_CPP :: string where "MAIN_CPP = ''windows/runner/main.cpp''"

definition WINDOW_CPP :: string where "WINDOW_CPP = ''windows/runner/win32_window.cpp''"

definition requires_native_derivation :: "string \<Rightarrow> bool" where
  "requires_native_derivation name \<longleftrightarrow> name \<in> {ENTRYPOINT, MAIN_CPP, WINDOW_CPP} \<or> native_source name"

text \<open>\<open>content.decode("utf-8-sig")\<close>\<close>

definition decode_sig :: "bytes \<Rightarrow> string res" where
  "decode_sig b = decode_utf8 (removeprefix b bom)"

definition DART_MAIN :: string where "DART_MAIN = ''Future<void> main() async {'' @ newline"

definition DART_HEADER :: string where
  "DART_HEADER = ''import '' @ [CHR 0x27] @ ''package:flutter/services.dart'' @ [CHR 0x27] @ '';'' @ newline
     @ ''import '' @ [CHR 0x27] @ ''package:plug_agente/core/runtime/installation_bundle_check.dart'' @ [CHR 0x27] @ '';'' @ newline"

definition DART_CHECKED_MAIN :: string where
  "DART_CHECKED_MAIN = ''Future<void> main(List<String> args) async {'' @ newline
     @ ''  if (args.contains('' @ [CHR 0x27] @ ''--installation-check'' @ [CHR 0x27] @ '')) {'' @ newline
     @ ''    WidgetsFlutterBinding.ensureInitialized();'' @ newline
     @ ''    final result = await checkInstallationBundle(rootBundle);'' @ newline
     @ ''    exit(result.fold((_) => 0, (_) => 3));'' @ newline
     @ ''  }'' @ newline"

definition derived_entrypoint :: "bytes \<Rightarrow> bytes res" where
  "derived_entrypoint content = bindR (decode_sig content) (\<lambda>s.
     if count_str DART_MAIN s \<noteq> 1 then Inl (RuntimeErr ''Unsupported bootstrap installation check contract'')
     else encode_utf8 (replace_str DART_MAIN DART_CHECKED_MAIN (DART_HEADER @ s)))"

definition CRASH_LINE :: string where
  "CRASH_LINE = ''if (!is_installation_check && !is_update_validation) RegisterCrashRestart();''"

definition FOLDERS_LINE :: string where "FOLDERS_LINE = ''  PWSTR program_files = nullptr;''"

definition IMAGE_LINE :: string where "IMAGE_LINE = ''  wchar_t own_image[32768];''"

definition runner_counts :: "(string \<times> nat) list" where
  "runner_counts = [(''PlugAgente_SingleInstance'', 2), (''FLUTTER_RUNNER_WIN32_WINDOW'', 1), (''L'' @ quoted ''PlugAgenteUpdater'', 1),
     (''window.Create(L'' @ quoted ''plug_agente'', 1), (CRASH_LINE, 1), (FOLDERS_LINE, 1)]"

definition runner_replacements :: "string \<Rightarrow> (string \<times> string) list" where
  "runner_replacements identity = [(''PlugAgente_SingleInstance'', identity @ ''_SingleInstance''), (''FLUTTER_RUNNER_WIN32_WINDOW'', identity @ ''_WINDOW''),
     (''L'' @ quoted ''PlugAgenteUpdater'', ''L'' @ quoted (identity @ ''Updater'')), (''window.Create(L'' @ quoted ''plug_agente'', ''window.Create(L'' @ quoted identity),
     (CRASH_LINE, ''// The explicit fixture controller owns process lifetime.'')]"

definition GUARD_LINE :: string where
  "GUARD_LINE = ''  if (!is_installation_check && GetEnvironmentVariableW(L'' @ quoted ''PLUG_AGENT_BOOTSTRAP_ROOT'' @ '', nullptr, 0) == 0) return EXIT_FAILURE;''"

definition derived_runner :: "bytes \<Rightarrow> string \<Rightarrow> bytes res" where
  "derived_runner content identity = bindR (decode_sig content) (\<lambda>s.
     if list_ex (\<lambda>(v, n). count_str v s \<noteq> n) runner_counts then Inl (RuntimeErr ''Unsupported native runner; review its isolation before building'') else
     let u = replace_all (runner_replacements identity) s; marker = (if contains u IMAGE_LINE then IMAGE_LINE else FOLDERS_LINE) in
     if count_str marker u \<noteq> 1 then Inl (RuntimeErr ''Unsupported native installation guard'')
     else encode_utf8 (replace_str marker (GUARD_LINE @ newline @ newline @ marker) u))"

definition derived_window :: "bytes \<Rightarrow> string \<Rightarrow> bytes res" where
  "derived_window content identity = bindR (decode_sig content) (\<lambda>s.
     if count_str ''FLUTTER_RUNNER_WIN32_WINDOW'' s \<noteq> 1 then Inl (RuntimeErr ''Unsupported native window class'')
     else encode_utf8 (replace_str ''FLUTTER_RUNNER_WIN32_WINDOW'' (identity @ ''_WINDOW'') s))"

definition derived_bytes :: "string \<Rightarrow> bytes \<Rightarrow> string \<Rightarrow> bytes res" where
  "derived_bytes name content identity = bindR (require_identity (JStr identity)) (\<lambda>_.
     if name = ENTRYPOINT then derived_entrypoint content
     else if name = MAIN_CPP then derived_runner content identity
     else if name = WINDOW_CPP then derived_window content identity
     else if native_source name then bindR (decode_sig content) (\<lambda>s. bindR (rewrite_native s identity) encode_utf8)
     else Inr content)"

definition source_bytes :: "tree \<Rightarrow> path \<Rightarrow> string \<Rightarrow> bytes res" where
  "source_bytes t base name = bindR (relative_name name) (\<lambda>_.
     let parts = path_parts name in
     bindR (mapR (\<lambda>i. reject_reparse t (base @ take (Suc i) parts)) [0..<length parts]) (\<lambda>_.
     case map_of t (base @ parts) of
       Some (Regular b n) \<Rightarrow> if n = 1 then Inr b else Inl (RuntimeErr ''Application source is not an independent regular file'')
     | _ \<Rightarrow> Inl (RuntimeErr ''Application source is not an independent regular file'')))"

end
