(* ===== verification/App_Proof.thy ===== *)
theory App_Proof
  imports App_Source
begin

text \<open>
  \<open>tool/updater/isolated_runtime.py\<close>, \<open>application_build_proof.py\<close> and \<open>application_package_binding.py\<close>: the proof file of a test
  application names a commit, the digests of all sources and of the payload; loading it checks everything again on the
  file tree, which does not change during one check. What PowerShell reports about a signature is a parameter, a function of the path.
\<close>

subsection \<open>The private runtime\<close>

definition NAMES :: "string list" where
  "NAMES = [''concrt140.dll'', ''msvcp140.dll'', ''msvcp140_1.dll'', ''msvcp140_2.dll'', ''msvcp140_atomic_wait.dll'', ''msvcp140_codecvt_ids.dll'', ''vcruntime140.dll'', ''vcruntime140_1.dll'']"

definition MAX_RUNTIME_BYTES :: nat where "MAX_RUNTIME_BYTES = 32 * 1024 * 1024"

text \<open>The contents of a file that \<open>digest\<close> accepts\<close>

definition bounded_file :: "tree \<Rightarrow> path \<Rightarrow> bytes res" where
  "bounded_file t p = bindR (reject_reparse t p) (\<lambda>_. case map_of t p of
     Some (Regular b n) \<Rightarrow> if n = 1 \<and> length b \<le> MAX_RUNTIME_BYTES then Inr b else Inl (RuntimeErr ''Runtime input must be a bounded independent regular file'')
   | _ \<Rightarrow> Inl (RuntimeErr ''Runtime input must be a bounded independent regular file''))"

definition runtime_digest :: "tree \<Rightarrow> path \<Rightarrow> string res" where
  "runtime_digest t p = bindR (bounded_file t p) (\<lambda>b. Inr (sha256_hex b))"

text \<open>\<open>(?:^|,\s*)O=Microsoft Corporation(?:,|$)\<close>\<close>

definition MICROSOFT :: string where "MICROSOFT = ''O=Microsoft Corporation''"

definition microsoft_publisher :: "string \<Rightarrow> bool" where
  "microsoft_publisher s \<longleftrightarrow> list_ex (\<lambda>i. let pre = take i s; rest = drop i s; post = drop (length MICROSOFT) rest in
     startswith rest MICROSOFT \<and> (pre = [] \<or> endswith (rstrip pre) '','') \<and> (post = [] \<or> post = newline \<or> startswith post '','')) [0..<Suc (length s)]"

definition search_publisher :: "json \<Rightarrow> bool res" where
  "search_publisher v = (case v of JStr s \<Rightarrow> Inr (microsoft_publisher s) | _ \<Rightarrow> Inl TypeErr)"

definition signed_metadata :: "(path \<Rightarrow> proc res) \<Rightarrow> path \<Rightarrow> json res" where
  "signed_metadata PS p = bindR (PS p) (\<lambda>r. if p_code r \<noteq> 0 then Inl (ProcessErr (p_code r)) else
     bindR (decode_sig (p_out r)) (\<lambda>s. bindR (json_loads s) (\<lambda>metadata.
     bindR (dget metadata ''status'') (\<lambda>status.
     bindR (if \<not> py_eq status (JStr ''Valid'') then Inr False else bindR (dget_or metadata ''publisher'' (JStr [])) search_publisher) (\<lambda>good.
     if good then Inr metadata else Inl (RuntimeErr ''A valid Microsoft runtime signature is required''))))))"

text \<open>The header of an AMD64 executable\<close>

definition amd64_image :: "bytes \<Rightarrow> bool res" where
  "amd64_image content = (if length content < 64 \<or> take 2 content \<noteq> ''MZ'' then Inr False else
     bindR (unpack_le 4 content 60) (\<lambda>offset.
     if length content - 6 < offset \<or> take 4 (drop offset content) \<noteq> ''PE'' @ [CHR 0x00, CHR 0x00] then Inr False else
     bindR (unpack_le 2 content (offset + 4)) (\<lambda>machine. Inr (machine = 34404))))"

text \<open>\<open>tuple(int(part) for part in metadata["version"].split("."))\<close>\<close>

definition version_tuple :: "json \<Rightarrow> int list res" where
  "version_tuple metadata = (case item metadata ''version'' of
     Inl (KeyErr _) \<Rightarrow> Inl (RuntimeErr ''Runtime version is not verifiable'')
   | Inl e \<Rightarrow> Inl e
   | Inr (JStr s) \<Rightarrow> (case mapR (\<lambda>d. of_option TypeErr (int_of_str d)) (split_on ''.'' s) of
       Inl _ \<Rightarrow> Inl (RuntimeErr ''Runtime version is not verifiable'') | Inr v \<Rightarrow> Inr v)
   | Inr _ \<Rightarrow> Inl AttributeErr)"

definition runtime_file :: "(path \<Rightarrow> proc res) \<Rightarrow> tree \<Rightarrow> path \<Rightarrow> json res" where
  "runtime_file PS t p = bindR (bounded_file t p) (\<lambda>content.
     bindR (amd64_image content) (\<lambda>image. if \<not> image then Inl (RuntimeErr ''Runtime must be an AMD64 PE image'') else
     bindR (signed_metadata PS p) (\<lambda>metadata.
     bindR (version_tuple metadata) (\<lambda>version.
     if length version \<noteq> 4 \<or> version < [14, 43, 0, 0] then Inl (RuntimeErr ''Runtime is older than the fixture minimum 14.43'') else
     bindR (item metadata ''version'') (\<lambda>v. bindR (item metadata ''publisher'') (\<lambda>publisher.
     Inr (JObj [(''sha256'', JStr (sha256_hex content)), (''version'', v), (''publisher'', publisher)])))))))"

text \<open>\<open>str(path.parent)\<close>\<close>

definition parent_str :: "string \<Rightarrow> string" where
  "parent_str s = (if startswith s ''/'' then path_str (butlast (path_parts s)) else join ''/'' (butlast (path_parts s)))"

text \<open>A file with a fixed name in an owned fixture: its root, its place and its contents\<close>

definition owned_file :: "fixture_env \<Rightarrow> tree \<Rightarrow> string \<Rightarrow> string \<Rightarrow> nat \<Rightarrow> string \<Rightarrow> (path \<times> path \<times> bytes) res" where
  "owned_file F t name what limit p = (if path_name p \<noteq> name then Inl (RuntimeErr (''The owned '' @ name @ '' is required'')) else
     bindR (require_fixture_root F False t (parent_str p)) (\<lambda>base.
     bindR (require_fixture_artifact t base (abspath (fe_cwd F) p)) (\<lambda>artifact.
     bindR (regular_at t artifact) (\<lambda>(b, _).
     if limit < length b then Inl (RuntimeErr (what @ '' exceeds its size limit'')) else Inr (base, artifact, b)))))"

definition runtime_folder :: "string list" where "runtime_folder = [''x64'', ''Microsoft.VC143.CRT'']"

definition is_format_one :: "json \<Rightarrow> bool" where
  "is_format_one v \<longleftrightarrow> v = JInt 1"

definition load_runtime :: "fixture_env \<Rightarrow> (path \<Rightarrow> proc res) \<Rightarrow> tree \<Rightarrow> string \<Rightarrow> json res" where
  "load_runtime F PS t p = bindR (owned_file F t ''runtime.json'' ''Runtime manifest'' 65536 p) (\<lambda>(base, artifact, b).
     bindR (bounded_file t artifact) (\<lambda>_.
     bindR (decode_text b) (\<lambda>s. bindR (json_loads s) (\<lambda>state.
     bindR (dget state ''format'') (\<lambda>format. bindR (dget state ''scope'') (\<lambda>scope. bindR (dget state ''root'') (\<lambda>root_field.
     if \<not> is_format_one format \<or> \<not> py_eq scope (JStr ''fixture-runtime-only'') \<or> \<not> py_eq root_field (JStr (path_str base)) then Inl (RuntimeErr ''Unsupported runtime manifest'') else
     bindR (mapR (\<lambda>name. bindR (require_fixture_artifact t base (base @ runtime_folder @ [name])) (\<lambda>a. bindR (runtime_file PS t a) (\<lambda>v. Inr (name, v)))) NAMES) (\<lambda>actual.
     bindR (dget state ''files'') (\<lambda>files.
     bindR (mapR (\<lambda>(_, v). item v ''version'') actual) (\<lambda>versions.
     if \<not> py_eq (JObj actual) files \<or> length (remdups versions) \<noteq> 1 then Inl (RuntimeErr ''Runtime inventory or versions changed'') else Inr state))))))))))"

definition toolchain_content :: "string \<Rightarrow> string res" where
  "toolchain_content p = (if list_ex (contains p) [[CHR 0x22], '';'', ''$'', newline, [CHR 0x0D]] then Inl (RuntimeErr ''Runtime path cannot enter the CMake toolchain'')
     else Inr (''set(MSVC_REDIST_DIR '' @ quoted p @ '' CACHE PATH '' @ quoted ''Private fixture runtime'' @ '')'' @ newline))"

text \<open>\<open>Path(s).as_posix()\<close>\<close>

definition posix_of :: "string \<Rightarrow> string" where
  "posix_of s = (if startswith s ''/'' then path_str (path_parts s) else as_posix s)"

definition toolchain_of :: "json \<Rightarrow> string res" where
  "toolchain_of state = bindR (bindR (item state ''root'') str_of) (\<lambda>s. toolchain_content (posix_of s))"

definition bind_runtime :: "links \<Rightarrow> fixture_env \<Rightarrow> (path \<Rightarrow> proc res) \<Rightarrow> string \<Rightarrow> path \<Rightarrow> json tio" where
  "bind_runtime L F PS p build_root = bindI (checkI (\<lambda>t. load_runtime F PS t p)) (\<lambda>state.
     let toolchain = build_root @ [''fixture-runtime.cmake'']; own = abspath (fe_cwd F) p in
     bindI (liftI (toolchain_of state)) (\<lambda>c.
     bindI (liftI (encode_utf8 c)) (\<lambda>b. bindI (change (put_at L toolchain b)) (\<lambda>_.
     bindI (checkI (\<lambda>t. runtime_digest t own)) (\<lambda>d.
     retI (JObj [(''path'', JStr (if startswith p ''/'' then posix_of p else path_str (fe_cwd F @ path_parts p))), (''sha256'', JStr d), (''toolchain'', JStr (path_str toolchain))]))))))"

definition verify_runtime_reference :: "fixture_env \<Rightarrow> (path \<Rightarrow> proc res) \<Rightarrow> tree \<Rightarrow> json \<Rightarrow> path \<Rightarrow> unit res" where
  "verify_runtime_reference F PS t reference build_root = (case reference of
     JObj kvs \<Rightarrow>
       if set (map fst kvs) \<noteq> {''path'', ''sha256'', ''toolchain''} then Inl (RuntimeErr ''Invalid private runtime reference'') else
       bindR (bindR (item reference ''path'') str_of) (\<lambda>p.
       bindR (load_runtime F PS t p) (\<lambda>state.
       bindR (runtime_digest t (abspath (fe_cwd F) p)) (\<lambda>d.
       bindR (item reference ''sha256'') (\<lambda>expected_digest.
       if \<not> py_eq (JStr d) expected_digest then Inl (RuntimeErr ''Private runtime manifest changed'') else
       bindR (bindR (item reference ''toolchain'') str_of) (\<lambda>tool.
       bindR (require_fixture_artifact t build_root (abspath (fe_cwd F) tool)) (\<lambda>toolchain.
       bindR (bounded_file t toolchain) (\<lambda>b.
       if 4096 < length b then Inl (RuntimeErr ''Private runtime toolchain exceeds its size limit'')
       else if toolchain \<noteq> build_root @ [''fixture-runtime.cmake''] then Inl (RuntimeErr ''Private runtime toolchain changed'') else
       bindR (decode_text b) (\<lambda>actual. bindR (toolchain_of state) (\<lambda>wanted.
       if actual \<noteq> wanted then Inl (RuntimeErr ''Private runtime toolchain changed'') else Inr ())))))))))
   | _ \<Rightarrow> Inl (RuntimeErr ''Invalid private runtime reference''))"

subsection \<open>The proof of a build\<close>

definition MAX_PROOF_BYTES :: nat where "MAX_PROOF_BYTES = 2 * 1024 * 1024"

definition canonical_hash :: "json \<Rightarrow> string res" where
  "canonical_hash files = bindR (encode_utf8 (dumps '','' '':'' (sort_json files))) (\<lambda>b. Inr (sha256_hex b))"

definition verify_source :: "git \<Rightarrow> tree \<Rightarrow> path \<Rightarrow> string \<Rightarrow> string \<Rightarrow> blobs \<Rightarrow> string \<times> json \<Rightarrow> unit res" where
  "verify_source G t base revision identity originals nd = (let name = fst nd in
     bindR (relative_name name) (\<lambda>_.
     case snd nd of JStr d \<Rightarrow>
       if \<not> fullmatch (rx_hex 64) d then Inl (RuntimeErr ''Invalid application source digest'') else
       bindR (source_bytes t base name) (\<lambda>content.
       if sha256_hex content \<noteq> d then Inl (RuntimeErr ''Application source changed after capture'')
       else if name = ''.env'' then (if content \<noteq> SAFE_ENV then Inl (RuntimeErr ''Unexpected application environment input'') else Inr ())
       else if requires_native_derivation name \<or> Some (blob_hash content) \<noteq> map_of originals name then
         bindR (show_file G revision name) (\<lambda>original. bindR (derived_bytes name original identity) (\<lambda>derived.
         if derived \<noteq> content then Inl (RuntimeErr ''Application derivation does not match the selected commit'') else Inr ()))
       else Inr ())
     | _ \<Rightarrow> Inl (RuntimeErr ''Invalid application source digest'')))"

definition verify_sources :: "string \<Rightarrow> git \<Rightarrow> tree \<Rightarrow> path \<Rightarrow> json \<Rightarrow> string \<Rightarrow> json \<Rightarrow> unit res" where
  "verify_sources supported G t base commit identity expected = bindR (git_files supported G commit) (\<lambda>originals.
     case expected of JObj kvs \<Rightarrow>
       if set (map fst kvs) \<noteq> set (map fst originals) \<union> {''.env''} then Inl (RuntimeErr ''Application source inventory does not match the selected commit'') else
       bindR (str_of commit) (\<lambda>revision. bindR (mapR (verify_source G t base revision identity originals) kvs) (\<lambda>_. Inr ()))
     | _ \<Rightarrow> Inl (RuntimeErr ''Application source inventory does not match the selected commit''))"

text \<open>The fixed entries of the proof\<close>

definition proof_header_ok :: "json \<Rightarrow> path \<Rightarrow> bool res" where
  "proof_header_ok state base = bindR (dget state ''format'') (\<lambda>format. bindR (dget state ''scope'') (\<lambda>scope.
     bindR (dget state ''productionActivationGate'') (\<lambda>gate. bindR (dget state ''entrypoint'') (\<lambda>entry.
     if \<not> is_format_one format \<or> \<not> py_eq scope (JStr ''source-qualified-isolated-bootstrap'') \<or> gate \<noteq> JBool False \<or> \<not> py_eq entry (JStr ENTRYPOINT) then Inr False
     else bindR (bindR (item state ''root'') str_of) (\<lambda>s. Inr (same_path s base))))))"

text \<open>Whether a payload file differs from the file of the private runtime\<close>

definition runtime_differs :: "json \<Rightarrow> string \<times> json \<Rightarrow> bool res" where
  "runtime_differs state nm = bindR (dget_or state ''payloadFiles'' (JObj [])) (\<lambda>files.
     bindR (dget files (fst nm)) (\<lambda>v. bindR (item (snd nm) ''sha256'') (\<lambda>d. Inr (\<not> py_eq v d))))"

definition check_runtime :: "fixture_env \<Rightarrow> (path \<Rightarrow> proc res) \<Rightarrow> tree \<Rightarrow> json \<Rightarrow> path \<Rightarrow> unit res" where
  "check_runtime F PS t state base = (case state of
     JObj kvs \<Rightarrow> (case map_of kvs ''runtimeInput'' of None \<Rightarrow> Inr ()
       | Some reference \<Rightarrow> bindR (verify_runtime_reference F PS t reference base) (\<lambda>_.
           bindR (bindR (item reference ''path'') str_of) (\<lambda>p. bindR (load_runtime F PS t p) (\<lambda>runtime.
           bindR (item runtime ''files'') (\<lambda>files. case files of
             JObj fs \<Rightarrow> bindR (anyR (runtime_differs state) fs) (\<lambda>differs.
               if differs then Inl (RuntimeErr ''Application payload does not contain the verified private runtime'') else Inr ())
           | _ \<Rightarrow> Inl AttributeErr)))))
   | _ \<Rightarrow> Inl TypeErr)"

definition load_application_build :: "string \<Rightarrow> fixture_env \<Rightarrow> git \<Rightarrow> (path \<Rightarrow> proc res) \<Rightarrow> tree \<Rightarrow> string \<Rightarrow> json res" where
  "load_application_build supported F G PS t p = bindR (owned_file F t ''application-build.json'' ''Application proof'' MAX_PROOF_BYTES p) (\<lambda>(base, _, b).
     bindR (decode_text b) (\<lambda>s. bindR (json_loads s) (\<lambda>state.
     bindR (proof_header_ok state base) (\<lambda>good. if \<not> good then Inl (RuntimeErr ''Unsupported application-build proof'') else
     bindR (bindR (item state ''identity'') require_identity) (\<lambda>identity.
     bindR (source_root F False t identity) (\<lambda>source.
     bindR (bindR (item state ''sourceRoot'') str_of) (\<lambda>r. if \<not> same_path r source then Inl (RuntimeErr ''Application source root does not match its identity'') else
     bindR (dget state ''sourceFiles'') (\<lambda>files. bindR (item state ''revision'') (\<lambda>revision.
     bindR (verify_sources supported G t source revision identity files) (\<lambda>_.
     bindR (dget state ''sourceTreeSha256'') (\<lambda>h. bindR (canonical_hash files) (\<lambda>h'.
     if \<not> py_eq h (JStr h') then Inl (RuntimeErr ''Application source-tree binding mismatch'') else
     bindR (check_runtime F PS t state base) (\<lambda>_.
     bindR (capture_payload F t (path_str base)) (\<lambda>actual.
     bindR (dget state ''payloadFiles'') (\<lambda>payload.
     if \<not> py_eq actual payload then Inl (RuntimeErr ''Application build payload changed'') else
     bindR (payload_tree_hash actual) (\<lambda>ph. bindR (dget state ''payloadTreeSha256'') (\<lambda>pt.
     if \<not> py_eq (JStr ph) pt then Inl (RuntimeErr ''Application build payload changed'') else Inr state)))))))))))))))))"

subsection \<open>Binding of a package\<close>

definition REBUILT_TOOLS :: "string list" where
  "REBUILT_TOOLS = [''updater/plug_update_service.exe'', ''updater/plug_update_client.exe'', ''updater/plug_update_worker.exe'']"

text \<open>\<open>t\<close> and \<open>t'\<close> are the tree at the first and at the second reading.\<close>

definition application_input :: "string \<Rightarrow> fixture_env \<Rightarrow> git \<Rightarrow> (path \<Rightarrow> proc res) \<Rightarrow> tree \<Rightarrow> tree \<Rightarrow> string \<Rightarrow> (json \<times> json) res" where
  "application_input supported F G PS t t' p = bindR (load_application_build supported F G PS t p) (\<lambda>state.
     bindR (regular_at t (abspath (fe_cwd F) p)) (\<lambda>(b, _).
     bindR (item state ''revision'') (\<lambda>revision. bindR (item state ''sourceTreeSha256'') (\<lambda>st. bindR (item state ''payloadTreeSha256'') (\<lambda>pt.
     let reference = JObj [(''path'', JStr (if startswith p ''/'' then posix_of p else path_str (fe_cwd F @ path_parts p))), (''sha256'', JStr (sha256_hex b)),
       (''revision'', revision), (''sourceTreeSha256'', st), (''payloadTreeSha256'', pt)] in
     bindR (load_application_build supported F G PS t' p) (\<lambda>again. bindR (regular_at t' (abspath (fe_cwd F) p)) (\<lambda>(b', _).
     if \<not> py_eq again state \<or> sha256_hex b' \<noteq> sha256_hex b then Inl (RuntimeErr ''Application build changed during package binding'')
     else Inr (state, reference))))))))"

definition without_tools :: "json \<Rightarrow> json res" where
  "without_tools files = (case files of JObj kvs \<Rightarrow> Inr (JObj (filter (\<lambda>kv. fst kv \<notin> set REBUILT_TOOLS) kvs)) | _ \<Rightarrow> Inl AttributeErr)"

definition verify_application_package :: "string \<Rightarrow> fixture_env \<Rightarrow> git \<Rightarrow> (path \<Rightarrow> proc res) \<Rightarrow> tree \<Rightarrow> tree \<Rightarrow> json \<Rightarrow> string \<Rightarrow> json \<Rightarrow> unit res" where
  "verify_application_package supported F G PS t t' reference identity payload_files = (case reference of
     JObj kvs \<Rightarrow> (case map_of kvs ''path'' of Some (JStr p) \<Rightarrow>
       bindR (application_input supported F G PS t t' p) (\<lambda>(state, current).
       bindR (item state ''identity'') (\<lambda>own.
       if \<not> py_eq current reference \<or> \<not> py_eq own (JStr identity) then Inl (RuntimeErr ''Application build reference or package identity changed'') else
       bindR (bindR (item state ''payloadFiles'') without_tools) (\<lambda>expected. bindR (without_tools payload_files) (\<lambda>actual.
       if \<not> py_eq actual expected then Inl (RuntimeErr ''Packaged application differs from its verified build'') else Inr ()))))
     | _ \<Rightarrow> Inl (RuntimeErr ''An explicit application-build reference is required''))
   | _ \<Rightarrow> Inl (RuntimeErr ''An explicit application-build reference is required''))"

end
