(* ===== verification/App_Spec.thy ===== *)
theory App_Spec
  imports App_Proof
begin

text \<open>
  What an accepted package means: every source of the build comes from the named commit, and the packaged files are the ones
  that were built. And what the export of the archive leaves in the tree.
\<close>

subsection \<open>Sources come from the commit\<close>

text \<open>A source file is the Git blob, or for the derived names the derivation of it.\<close>

definition from_commit :: "git \<Rightarrow> blobs \<Rightarrow> string \<Rightarrow> string \<Rightarrow> string \<Rightarrow> bytes \<Rightarrow> bool" where
  "from_commit G originals revision identity name c \<longleftrightarrow>
     (if requires_native_derivation name then \<exists>original. show_file G revision name = Inr original \<and> derived_bytes name original identity = Inr c
      else map_of originals name = Some (blob_hash c) \<or> show_file G revision name = Inr c)"

definition source_ok :: "git \<Rightarrow> tree \<Rightarrow> path \<Rightarrow> string \<Rightarrow> string \<Rightarrow> blobs \<Rightarrow> string \<times> json \<Rightarrow> bool" where
  "source_ok G t source revision identity originals nd \<longleftrightarrow> (\<exists>c. source_bytes t source (fst nd) = Inr c \<and> snd nd = JStr (sha256_hex c) \<and>
     (if fst nd = ''.env'' then c = SAFE_ENV else from_commit G originals revision identity (fst nd) c))"

text \<open>What a proof in the fixture \<open>base\<close> says holds in the tree.\<close>

definition build_sound :: "string \<Rightarrow> fixture_env \<Rightarrow> git \<Rightarrow> tree \<Rightarrow> path \<Rightarrow> json \<Rightarrow> bool" where
  "build_sound supported F G t base state \<longleftrightarrow> (\<exists>identity source revision originals kvs actual payload.
     item state ''identity'' = Inr (JStr identity) \<and> fullmatch rx_identity identity \<and> source_root F False t identity = Inr source \<and>
     item state ''revision'' = Inr (JStr revision) \<and> git_files supported G (JStr revision) = Inr originals \<and>
     dget state ''sourceFiles'' = Inr (JObj kvs) \<and> set (map fst kvs) = insert ''.env'' (set (map fst originals)) \<and>
     list_all (source_ok G t source revision identity originals) kvs \<and>
     capture_payload F t (path_str base) = Inr actual \<and> dget state ''payloadFiles'' = Inr payload \<and> py_eq actual payload)"

lemma derived_identity: "\<not> requires_native_derivation name \<Longrightarrow> derived_bytes name original identity = Inr c \<Longrightarrow> c = original"
  by (auto simp: requires_native_derivation_def derived_bytes_def bindR_ok)

lemma verify_source_ok: "verify_source G t base revision identity originals nd = Inr () \<Longrightarrow> source_ok G t base revision identity originals nd"
proof -
  assume v: "verify_source G t base revision identity originals nd = Inr ()"
  then obtain d content where d: "snd nd = JStr d" "source_bytes t base (fst nd) = Inr content" "sha256_hex content = d"
      and rest: "(if fst nd = ''.env'' then (if content \<noteq> SAFE_ENV then Inl (RuntimeErr ''Unexpected application environment input'') else Inr ())
       else if requires_native_derivation (fst nd) \<or> Some (blob_hash content) \<noteq> map_of originals (fst nd) then
         bindR (show_file G revision (fst nd)) (\<lambda>original. bindR (derived_bytes (fst nd) original identity) (\<lambda>derived.
         if derived \<noteq> content then Inl (RuntimeErr ''Application derivation does not match the selected commit'') else Inr ()))
       else Inr ()) = Inr ()"
    unfolding verify_source_def Let_def by (auto simp: bindR_ok split: json.splits if_splits)
  have "if fst nd = ''.env'' then content = SAFE_ENV else from_commit G originals revision identity (fst nd) content"
    using rest derived_identity unfolding from_commit_def by (auto simp: bindR_ok split: if_splits)
  then show ?thesis using d unfolding source_ok_def by blast
qed

text \<open>A guard of the code that raises\<close>

lemma unless_raise: "(if b then Inl e else m) = Inr x \<longleftrightarrow> \<not> b \<and> m = Inr x"
  by simp

lemma mapR_all: "mapR f xs = Inr ys \<Longrightarrow> x \<in> set xs \<Longrightarrow> \<exists>y. f x = Inr y"
  by (induction xs arbitrary: ys) (auto simp: bindR_ok)

lemma verify_sources_ok:
  assumes "verify_sources supported G t base commit identity expected = Inr u"
  shows "\<exists>revision originals kvs. commit = JStr revision \<and> git_files supported G commit = Inr originals \<and> expected = JObj kvs \<and>
    set (map fst kvs) = insert ''.env'' (set (map fst originals)) \<and> list_all (source_ok G t base revision identity originals) kvs"
proof -
  obtain originals kvs revision ys where v: "git_files supported G commit = Inr originals" "expected = JObj kvs" "set (map fst kvs) = insert ''.env'' (set (map fst originals))"
      "str_of commit = Inr revision" "mapR (verify_source G t base revision identity originals) kvs = Inr ys"
    using assms unfolding verify_sources_def by (cases expected) (auto simp: bindR_ok split: if_splits)
  have "commit = JStr revision" using v(4) by (cases commit) (auto simp: str_of_def)
  moreover have "list_all (source_ok G t base revision identity originals) kvs"
    unfolding list_all_iff using mapR_all[OF v(5)] verify_source_ok by fastforce
  ultimately show ?thesis using v by blast
qed

lemma load_sound:
  assumes l: "load_application_build supported F G PS t p = Inr state"
  shows "\<exists>base. require_fixture_root F False t (parent_str p) = Inr base \<and> build_sound supported F G t base state"
proof -
  obtain base identity source i files revision actual payload u artifact b where
    o: "owned_file F t ''application-build.json'' ''Application proof'' MAX_PROOF_BYTES p = Inr (base, artifact, b)" and
    s: "item state ''identity'' = Inr i" "require_identity i = Inr identity" "source_root F False t identity = Inr source" "dget state ''sourceFiles'' = Inr files"
      "item state ''revision'' = Inr revision" "verify_sources supported G t source revision identity files = Inr u"
      "capture_payload F t (path_str base) = Inr actual" "dget state ''payloadFiles'' = Inr payload" "py_eq actual payload"
    using l unfolding load_application_build_def bindR_ok unless_raise split_paired_Ex prod.case not_not sum.inject by blast
  have r: "require_fixture_root F False t (parent_str p) = Inr base"
    using o unfolding owned_file_def unless_raise bindR_ok case_prod_beta by (elim conjE exE) simp
  have i: "i = JStr identity" "fullmatch rx_identity identity" using s(2) by (auto simp: require_identity_def split: json.splits if_splits)
  obtain commit originals kvs where v: "revision = JStr commit" "git_files supported G revision = Inr originals" "files = JObj kvs"
      "set (map fst kvs) = insert ''.env'' (set (map fst originals))" "list_all (source_ok G t source commit identity originals) kvs"
    using verify_sources_ok[OF s(6)] by blast
  have "item state ''identity'' = Inr (JStr identity)" "item state ''revision'' = Inr (JStr commit)" "git_files supported G (JStr commit) = Inr originals" "dget state ''sourceFiles'' = Inr (JObj kvs)"
    using s v i by simp_all
  then have "build_sound supported F G t base state" unfolding build_sound_def using i(2) s(3,7,8,9) v(4,5) by (intro exI conjI)
  then show ?thesis using r by blast
qed

definition same_outside_tools :: "json \<Rightarrow> json \<Rightarrow> bool" where
  "same_outside_tools payload_files state \<longleftrightarrow> (\<exists>a b. payload_files = JObj a \<and> item state ''payloadFiles'' = Inr (JObj b) \<and>
     py_eq (JObj (filter (\<lambda>kv. fst kv \<notin> set REBUILT_TOOLS) a)) (JObj (filter (\<lambda>kv. fst kv \<notin> set REBUILT_TOOLS) b)))"

lemma without_tools_ok: "without_tools v = Inr w \<longleftrightarrow> (\<exists>kvs. v = JObj kvs \<and> w = JObj (filter (\<lambda>kv. fst kv \<notin> set REBUILT_TOOLS) kvs))"
  by (auto simp: without_tools_def split: json.splits)

text \<open>
  C36. An accepted package was built from the commit that its proof names. Whenever \<open>verify_application_package\<close> succeeds, the
  proof file lies in an owned fixture and every source it lists (exactly the files of an ancestor commit, and \<open>.env\<close>) is in the tree without
  links, with the recorded digest, and is the Git blob of the commit, its derivation for the package's own identity, or the
  fixed environment; the payload of that fixture is the recorded one; and the packaged files agree with it except for the three
  rebuilt tools. The package has the identity of the build, and a second reading gave the same proof.
\<close>

theorem package_from_commit:
  assumes "verify_application_package supported F G PS t t' reference identity payload_files = Inr ()"
  shows "\<exists>p base state again. dget reference ''path'' = Inr (JStr p) \<and> require_fixture_root F False t (parent_str p) = Inr base \<and>
    load_application_build supported F G PS t p = Inr state \<and> build_sound supported F G t base state \<and>
    load_application_build supported F G PS t' p = Inr again \<and> py_eq again state \<and>
    item state ''identity'' = Inr (JStr identity) \<and> same_outside_tools payload_files state"
proof -
  obtain kvs p where r: "reference = JObj kvs" "map_of kvs ''path'' = Some (JStr p)"
    using assms by (auto simp: verify_application_package_def split: json.splits option.splits)
  obtain state current own where a: "application_input supported F G PS t t' p = Inr (state, current)" "item state ''identity'' = Inr own" "py_eq own (JStr identity)"
      "same_outside_tools payload_files state"
    using assms r by (auto simp: verify_application_package_def bindR_ok without_tools_ok same_outside_tools_def split: if_splits)
  obtain again where l: "load_application_build supported F G PS t p = Inr state" "load_application_build supported F G PS t' p = Inr again" "py_eq again state"
    using a(1) by (auto simp: application_input_def bindR_ok Let_def split: if_splits)
  have "dget reference ''path'' = Inr (JStr p)" "item state ''identity'' = Inr (JStr identity)" using r a(2,3) by (simp_all add: dget_def py_eq_str)
  then show ?thesis using load_sound[OF l(1)] l a(4) by blast
qed

subsection \<open>The exported archive\<close>




text \<open>Outside the places \<open>ps\<close> a tree only gets new folders, at places of \<open>ds\<close>.\<close>

definition kept :: "tree \<Rightarrow> tree \<Rightarrow> path set \<Rightarrow> path set \<Rightarrow> bool" where
  "kept t t' ps ds \<longleftrightarrow> (\<forall>q. q \<notin> ps \<longrightarrow> map_of t' q = map_of t q \<or> map_of t q = None \<and> map_of t' q = Some Folder \<and> q \<in> ds)"

lemma kept_refl [simp]: "kept t t ps ds"
  by (simp add: kept_def)





lemma change_ok [ok_iff]: "change f t = (Inr x, t') \<longleftrightarrow> f t = Inr t'"
  by (auto simp: change_def split: sum.splits)














end
