(* ===== verification/App_Witness.thy ===== *)
theory App_Witness
  imports App_Spec Lifecycle_PayloadSpec Installer_Keys
begin

text \<open>
  A package that is accepted: a commit with one file, its derivation in the source tree, the payload of the demonstration fixture and the proof file
  that describes both.
\<close>

subsection \<open>The length of an indented text\<close>

fun text_bound :: "nat \<Rightarrow> json \<Rightarrow> nat" where
  "text_bound level (JStr s) = 2 + 6 * length s"
| "text_bound level (JObj kvs) = 8 + 4 * level + sum_list (map (\<lambda>(k, v). 8 + 2 * level + 6 * length k + text_bound (Suc level) v) kvs)"
| "text_bound level v = length (dumps_indent level v)"

lemma quote_bound:
  assumes "plain s" shows "length (json_quote_ascii s) \<le> 2 + 6 * length s"
proof -
  have "length (concat (map json_esc s)) \<le> 6 * length s" for s
  proof (induction s)
    case (Cons c s)
    have "length (json_esc c) \<le> 6" by (simp add: json_esc_def Let_def)
    then show ?case using Cons by simp
  qed simp
  then show ?thesis using assms by (simp add: quote_plain json_quote_def)
qed

lemma join_bound: "length (join sep xs) \<le> sum_list (map (\<lambda>x. length sep + length x) xs)"
  by (induction sep xs rule: join.induct) auto

lemma dumps_bound: "plain_json v \<Longrightarrow> length (dumps_indent level v) \<le> text_bound level v"
proof (induction v arbitrary: level)
  case (JObj kvs)
  let ?f = "\<lambda>(k, v). json_quote_ascii k @ '': '' @ dumps_indent (Suc level) v"
  have e: "length (?f kv) + length ('','' @ indent_at (Suc level)) \<le> (case kv of (k, v) \<Rightarrow> 8 + 2 * level + 6 * length k + text_bound (Suc level) v)"
    if "kv \<in> set kvs" for kv
  proof -
    obtain k v where kv: "kv = (k, v)" by (cases kv)
    have "plain k" "plain_json v" using JObj.prems that unfolding kv by (auto simp: list_all_iff)
    then have "length (json_quote_ascii k) \<le> 2 + 6 * length k" "length (dumps_indent (Suc level) v) \<le> text_bound (Suc level) v"
      using quote_bound JObj.IH that unfolding kv by fastforce+
    then show ?thesis by (simp add: kv indent_at_def)
  qed
  have "length (join ('','' @ indent_at (Suc level)) (map ?f kvs)) \<le> sum_list (map (\<lambda>(k, v). 8 + 2 * level + 6 * length k + text_bound (Suc level) v) kvs)"
    by (rule order.trans[OF join_bound]) (unfold map_map o_def, rule sum_list_mono, use e in \<open>simp add: add.commute\<close>)
  then show ?case by (simp add: indent_at_def)
next
  case (JStr x)
  then show ?case using quote_bound[of x] by simp
qed simp_all

lemma py_eq_refl: "writable v \<Longrightarrow> wf_json v \<Longrightarrow> py_eq v v"
proof (induction v)
  case (JObj kvs)
  then have "py_eq v v" "map_of kvs k = Some v" if "(k, v) \<in> set kvs" for k v
    using that by (fastforce simp: list_all_iff)+
  then show ?case by fastforce
next
  case (JList vs)
  then show ?case by (auto simp: list_all_iff list_all2_same)
next
  case (JBool b)
  have "py_eq (JBool True) (JBool True)" "py_eq (JBool False) (JBool False)" by code_simp+
  then show ?case by (cases b) simp_all
qed (auto simp: num_of_def)

subsection \<open>A tree with more entries\<close>

lemma more_lookup: "map_of t p = Some n \<Longrightarrow> map_of (t @ e) p = Some n"
  by (simp add: map_add_def)

lemma more_reparse: "reject_reparse t p = Inr u \<Longrightarrow> reject_reparse (t @ e) p = Inr u"
  using more_lookup[of t p _ e] by (auto simp: reject_reparse_def lstat_def of_option_def bindR_ok split: option.splits if_splits)

lemma mapR_mono: "mapR f xs = Inr ys \<Longrightarrow> (\<And>x y. f x = Inr y \<Longrightarrow> g x = Inr y) \<Longrightarrow> mapR g xs = Inr ys"
  by (induction xs arbitrary: ys) (fastforce simp: bindR_ok)+

lemma more_artifact:
  assumes "require_fixture_artifact t base p = Inr a"
  shows "require_fixture_artifact (t @ e) base p = Inr a"
proof -
  let ?ps = "descent base (drop (length base) p)"
  obtain us where u: "prefix base p" "mapR (reject_reparse t) ?ps = Inr us" "is_regular t p" "a = p"
    using assms unfolding require_fixture_artifact_def unless_raise bindR_ok by (elim conjE exE) (simp split: if_splits)
  have r: "is_regular (t @ e) p" using u(3) more_lookup[of t p _ e] by (auto simp: is_regular_def split: option.splits)
  have "mapR (reject_reparse (t @ e)) ?ps = Inr us" by (rule mapR_mono[OF u(2)]) (rule more_reparse)
  then show ?thesis unfolding require_fixture_artifact_def unless_raise bindR_ok using u r by simp
qed

lemma more_candidate: "check_candidate False t p = Inr u \<Longrightarrow> check_candidate False (t @ e) p = Inr u"
  using more_reparse[of t p _ e] more_lookup[of t p _ e]
  by (auto simp: check_candidate_def is_folder_def split: sum.splits exn.splits if_splits)

lemma more_root:
  assumes "require_fixture_root F False t p = Inr base"
  shows "require_fixture_root F False (t @ e) p = Inr base"
proof -
  let ?owned = "abspath (fe_cwd F) p" and ?parent = "fe_project F @ [''build'', ''homologation'']"
  obtain us where u: "\<not> (?owned = [] \<or> butlast ?owned \<noteq> ?parent \<or> \<not> fullmatch rx_fixture_name (tail_name ?owned))"
      "mapR (check_candidate False t) [fe_project F @ [''build''], ?parent, ?owned] = Inr us" "base = ?owned"
    using assms unfolding require_fixture_root_def Let_def unless_raise bindR_ok by blast
  have "mapR (check_candidate False (t @ e)) [fe_project F @ [''build''], ?parent, ?owned] = Inr us"
    by (rule mapR_mono[OF u(2)]) (rule more_candidate)
  then show ?thesis unfolding require_fixture_root_def Let_def unless_raise bindR_ok using u(1,3) by blast
qed

lemma more_scan: "scan_entries t base ps pending files = Inr r \<Longrightarrow> scan_entries (t @ e) base ps pending files = Inr r"
proof (induction ps arbitrary: pending files)
  case (Cons p ps)
  then have "reject_reparse t p = Inr ()" by (auto simp: bindR_ok)
  then have rr: "reject_reparse (t @ e) p = Inr ()" by (rule more_reparse)
  show ?case
  proof (cases "map_of t p")
    case (Some n)
    then show ?thesis using Cons rr more_lookup[OF Some] more_artifact[of t base p _ e] by (cases n) (auto simp: bindR_ok split: if_splits)
  qed (use Cons in \<open>auto simp: bindR_ok\<close>)
qed simp

lemma more_children: "(\<And>q. q \<in> set (map fst e) \<Longrightarrow> butlast q \<noteq> d) \<Longrightarrow> children (t @ e) d = children t d"
proof -
  assume "\<And>q. q \<in> set (map fst e) \<Longrightarrow> butlast q \<noteq> d"
  then have "filter (\<lambda>p. p \<noteq> [] \<and> butlast p = d) (map fst e) = []" by (auto simp: filter_empty_conv)
  then show ?thesis by (simp add: children_def)
qed

subsection \<open>The commit and its proof\<close>

definition pkg_identity :: string where "pkg_identity = ''PlugAgenteHomologacao_0123456789ab''"

definition pkg_revision :: string where "pkg_revision = ''aaaaaaaaaaaaaaaaaaaaaaaaaaaaaaaaaaaaaaaa''"

definition pkg_blob :: string where "pkg_blob = ''bbbbbbbbbbbbbbbbbbbbbbbbbbbbbbbbbbbbbbbb''"

definition pkg_source :: path where "pkg_source = [''p'', ''build'', ''a0123456789ab'']"

definition pkg_derived :: bytes where "pkg_derived = replace_str DART_MAIN DART_CHECKED_MAIN (DART_HEADER @ DART_MAIN)"

definition pkg_files :: "(string \<times> json) list" where
  "pkg_files = [(ENTRYPOINT, JStr (sha256_hex pkg_derived)), (''.env'', JStr (sha256_hex SAFE_ENV))]"

definition pkg_kind :: bytes where "pkg_kind = ''commit'' @ newline"

definition pkg_listing :: bytes where "pkg_listing = ''100644 blob '' @ pkg_blob @ [CHR 0x09] @ ENTRYPOINT @ [CHR 0x00]"

definition pkg_git :: git where
  "pkg_git args = (if args = [''cat-file'', ''-t'', pkg_revision] then Inr \<lparr>p_code = 0, p_out = pkg_kind, p_err = []\<rparr>
     else if args = [''merge-base'', ''--is-ancestor'', pkg_revision, ''HEAD''] then Inr \<lparr>p_code = 0, p_out = [], p_err = []\<rparr>
     else if args = [''ls-tree'', ''-rz'', pkg_revision] then Inr \<lparr>p_code = 0, p_out = pkg_listing, p_err = []\<rparr>
     else if args = [''show'', pkg_revision @ '':'' @ ENTRYPOINT] then Inr \<lparr>p_code = 0, p_out = DART_MAIN, p_err = []\<rparr>
     else if args = [''show'', pkg_revision @ '':windows/updater/contract.h''] then Inr \<lparr>p_code = 0, p_out = GATE_LINE, p_err = []\<rparr>
     else Inr \<lparr>p_code = 1, p_out = [], p_err = []\<rparr>)"

lemma pkg_git_answers:
  "git_output pkg_git [''cat-file'', ''-t'', pkg_revision] = Inr pkg_kind"
  "git_output pkg_git [''merge-base'', ''--is-ancestor'', pkg_revision, ''HEAD''] = Inr []"
  "git_output pkg_git [''ls-tree'', ''-rz'', pkg_revision] = Inr pkg_listing"
  "show_file pkg_git pkg_revision ENTRYPOINT = Inr DART_MAIN"
  "show_file pkg_git pkg_revision ''windows/updater/contract.h'' = Inr GATE_LINE"
  by code_simp+

lemma pkg_inventory: "foldR add_blob (split_on [CHR 0x00] pkg_listing) [] = Inr [(ENTRYPOINT, pkg_blob)]"
  by code_simp

lemma pkg_texts: "fullmatch (rx_hex 40) pkg_revision" "strip_bytes pkg_kind = ''commit''" "contains GATE_LINE GATE_LINE"
  "derived_bytes ENTRYPOINT DART_MAIN pkg_identity = Inr pkg_derived" "requires_native_derivation ENTRYPOINT" "ENTRYPOINT \<noteq> ''.env''"
  "relative_name ENTRYPOINT = Inr ENTRYPOINT" "relative_name ''.env'' = Inr ''.env''" "path_parts ENTRYPOINT = [''tool'', ''homologation'', ''desktop_bootstrap_fixture.dart'']"
  "path_parts ''.env'' = [''.env'']" "require_identity (JStr pkg_identity) = Inr pkg_identity" "str_suffix 12 pkg_identity = ''0123456789ab''"
  by code_simp+

lemma pkg_git_files: "git_files (sha256_hex DART_MAIN) pkg_git (JStr pkg_revision) = Inr [(ENTRYPOINT, pkg_blob)]"
  by (simp add: git_files_def fullmatch_of_def str_of_def pkg_texts pkg_git_answers pkg_inventory MAX_SOURCE_FILES_def)

subsection \<open>The tree\<close>

definition pkg_payload :: "(string \<times> json) list" where
  "pkg_payload = demo_found [''plug_agente.exe'', ''plug_agente_elevated_runner.exe'', ''plug_install_check.exe'', ''plug_update_helper.exe'',
     ''updater/plug_update_client.exe'', ''updater/plug_update_service.exe'', ''updater/plug_update_worker.exe'', ''data/app.so'']"

definition pkg_extra :: "bytes \<Rightarrow> tree" where
  "pkg_extra doc = [(demo_fixture_root @ [''application-build.json''], Regular doc 1), (pkg_source, Folder), (pkg_source @ [''tool''], Folder),
     (pkg_source @ [''tool'', ''homologation''], Folder), (pkg_source @ [''tool'', ''homologation'', ''desktop_bootstrap_fixture.dart''], Regular pkg_derived 1),
     (pkg_source @ [''.env''], Regular SAFE_ENV 1)]"

definition pkg_tree :: "bytes \<Rightarrow> tree" where
  "pkg_tree doc = demo_tree @ pkg_extra doc"

lemma pkg_children: "d \<in> {demo_fixture_root @ [''payload''], demo_fixture_root @ [''payload'', ''data''], demo_fixture_root @ [''payload'', ''updater'']} \<Longrightarrow>
    children (pkg_tree doc) d = children demo_tree d"
  unfolding pkg_tree_def by (rule more_children) (auto simp: pkg_extra_def demo_fixture_root_def pkg_source_def)

lemma pkg_scan: "scan_entries demo_tree base ps pending files = Inr r \<Longrightarrow> scan_entries (pkg_tree doc) base ps pending files = Inr r"
  unfolding pkg_tree_def by (rule more_scan)

lemmas pkg_scans = demo_scans[THEN pkg_scan]

lemma pkg_loop: "capture_loop (capture_fuel (pkg_tree doc)) (pkg_tree doc) demo_fixture_root [demo_fixture_root @ [''payload'']] [] = Some (Inr pkg_payload)"
proof -
  have "length demo_tree = 16" by code_simp
  then have "capture_fuel (pkg_tree doc) = 23" by (simp add: capture_fuel_def pkg_tree_def pkg_extra_def)
  then show ?thesis by (simp add: pkg_children pkg_scans numeral_eq_Suc pkg_payload_def)
qed

lemma pkg_lookup:
  "map_of (pkg_tree doc) (demo_fixture_root @ [''application-build.json'']) = Some (Regular doc 1)" "map_of (pkg_tree doc) pkg_source = Some Folder"
  "map_of (pkg_tree doc) (pkg_source @ [''tool'']) = Some Folder" "map_of (pkg_tree doc) (pkg_source @ [''tool'', ''homologation'']) = Some Folder"
  "map_of (pkg_tree doc) (pkg_source @ [''tool'', ''homologation'', ''desktop_bootstrap_fixture.dart'']) = Some (Regular pkg_derived 1)"
  "map_of (pkg_tree doc) (pkg_source @ [''.env'']) = Some (Regular SAFE_ENV 1)" "map_of (pkg_tree doc) [''p'', ''build''] = Some Folder"
  "map_of (pkg_tree doc) demo_fixture_root = Some Folder" "map_of (pkg_tree doc) (demo_fixture_root @ [''payload'']) = Some Folder"
  unfolding pkg_tree_def demo_tree_eq pkg_extra_def by (simp_all add: demo_fixture_root_def pkg_source_def map_add_def)

lemma pkg_valid: "validate_payload_files (JObj pkg_payload) = Inr pkg_payload"
  using sha256_hex_shape demo_names
  by (auto simp: validate_payload_files_def pkg_payload_def demo_found_def MAX_PAYLOAD_FILES_def payload_entry_ok_def list_all_iff match_hex is_sha256_def
    REQUIRED_PAYLOAD_FILES_def PROJECT_EXECUTABLES_def)

lemma pkg_roots: "path_str demo_fixture_root = ''/p/build/homologation/windows-lifecycle-a''"
  "parent_str ''/p/build/homologation/windows-lifecycle-a/application-build.json'' = ''/p/build/homologation/windows-lifecycle-a''"
  "path_name ''/p/build/homologation/windows-lifecycle-a/application-build.json'' = ''application-build.json''"
  "abspath (fe_cwd demo_fixture) ''/p/build/homologation/windows-lifecycle-a/application-build.json'' = demo_fixture_root @ [''application-build.json'']"
  "same_path ''/p/build/homologation/windows-lifecycle-a'' demo_fixture_root" "same_path ''/p/build/a0123456789ab'' pkg_source"
  by code_simp+

lemma pkg_root: "require_fixture_root demo_fixture False (pkg_tree doc) ''/p/build/homologation/windows-lifecycle-a'' = Inr demo_fixture_root"
  unfolding pkg_tree_def by (rule more_root[OF demo_root])

lemma pkg_capture: "capture_payload demo_fixture (pkg_tree doc) (path_str demo_fixture_root) = Inr (JObj pkg_payload)"
  by (simp add: capture_payload_def pkg_roots pkg_root reject_reparse_def lstat_def pkg_lookup of_option_def is_folder_def pkg_loop pkg_valid)

lemma pkg_source_root: "source_root demo_fixture False (pkg_tree doc) pkg_identity = Inr pkg_source"
  using pkg_lookup(2,7)[of doc] by (simp add: source_root_def pkg_texts demo_fixture_def has_entry_def reject_reparse_def lstat_def of_option_def is_folder_def pkg_source_def)

lemma pkg_source_bytes: "source_bytes (pkg_tree doc) pkg_source ENTRYPOINT = Inr pkg_derived" "source_bytes (pkg_tree doc) pkg_source ''.env'' = Inr SAFE_ENV"
  by (simp_all add: source_bytes_def pkg_texts reject_reparse_def lstat_def of_option_def pkg_lookup upt_conv_Cons)

lemma pkg_sources: "verify_sources (sha256_hex DART_MAIN) pkg_git (pkg_tree doc) pkg_source (JStr pkg_revision) pkg_identity (JObj pkg_files) = Inr ()"
  using sha256_hex_shape by (auto simp: verify_sources_def pkg_git_files pkg_files_def str_of_def verify_source_def pkg_texts pkg_source_bytes match_hex is_sha256_def pkg_git_answers)

subsection \<open>The proof file\<close>

definition pkg_state :: "string \<Rightarrow> string \<Rightarrow> json" where
  "pkg_state sh ph = JObj [(''format'', JInt 1), (''scope'', JStr ''source-qualified-isolated-bootstrap''), (''root'', JStr ''/p/build/homologation/windows-lifecycle-a''),
     (''identity'', JStr pkg_identity), (''revision'', JStr pkg_revision), (''sourceRoot'', JStr ''/p/build/a0123456789ab''), (''entrypoint'', JStr ENTRYPOINT),
     (''productionActivationGate'', JBool False), (''sourceFiles'', JObj pkg_files), (''sourceTreeSha256'', JStr sh), (''payloadFiles'', JObj pkg_payload),
     (''payloadTreeSha256'', JStr ph)]"

lemma pkg_plain: "plain pkg_identity" "plain pkg_revision" "plain ENTRYPOINT"
  by code_simp+

lemma pkg_state_text:
  assumes "is_sha256 sh" "is_sha256 ph"
  shows "writable (pkg_state sh ph)" "plain_json (pkg_state sh ph)" "wf_json (pkg_state sh ph)"
proof -
  have p: "plain s" if "is_sha256 s" for s
    using that by (auto simp: is_sha256_def plain_def list_all_iff is_hex_def is_digit_def Let_def)
  have e: "ENTRYPOINT \<noteq> ''.env''" by code_simp
  show "writable (pkg_state sh ph)" "plain_json (pkg_state sh ph)" "wf_json (pkg_state sh ph)"
    using assms p e pkg_plain sha256_plain by (simp_all add: pkg_state_def pkg_files_def pkg_payload_def demo_found_def plain_def[of "_ # _"] plain_def[of "[]"] nat_str.simps)
qed

lemma pkg_state_length:
  assumes "is_sha256 sh" "is_sha256 ph"
  shows "length (dumps2 (pkg_state sh ph)) \<le> MAX_PROOF_BYTES"
proof -
  have "length pkg_identity = 34" "length pkg_revision = 40" "length ENTRYPOINT = 48" "length (str_int 1) = 1" by code_simp+
  moreover have "length (sha256_hex b) = 64" for b using sha256_hex_shape[of b] by (simp add: is_sha256_def)
  moreover have "length sh = 64" "length ph = 64" using assms by (simp_all add: is_sha256_def)
  ultimately have "text_bound 0 (pkg_state sh ph) \<le> MAX_PROOF_BYTES"
    by (simp add: pkg_state_def pkg_files_def pkg_payload_def demo_found_def MAX_PROOF_BYTES_def)
  then show ?thesis using dumps_bound[OF pkg_state_text(2)[OF assms], of 0] by (simp add: dumps2_def)
qed

lemma pkg_hashes: "\<exists>h. canonical_hash (JObj pkg_files) = Inr h \<and> is_sha256 h" "\<exists>h. payload_tree_hash (JObj pkg_payload) = Inr h \<and> is_sha256 h"
proof -
  have "ascii_json (JObj pkg_files)" "ascii_json (JObj pkg_payload)"
    using plain_ascii sha256_plain pkg_plain by (auto simp: pkg_files_def pkg_payload_def demo_found_def)
  then have "ascii (dumps '','' '':'' (sort_json (JObj pkg_files)))" "ascii (dumps '','' '':'' (sort_json (JObj pkg_payload)))"
    by (intro ascii_dumps ascii_sort_json; simp)+
  then show "\<exists>h. canonical_hash (JObj pkg_files) = Inr h \<and> is_sha256 h" "\<exists>h. payload_tree_hash (JObj pkg_payload) = Inr h \<and> is_sha256 h"
    using ascii_no_surrogate sha256_hex_shape by (simp_all add: canonical_hash_def payload_tree_hash_def pkg_valid encode_utf8_def)
qed

lemma pkg_owned:
  assumes "length doc \<le> MAX_PROOF_BYTES"
  shows "owned_file demo_fixture (pkg_tree doc) ''application-build.json'' ''Application proof'' MAX_PROOF_BYTES
    ''/p/build/homologation/windows-lifecycle-a/application-build.json'' = Inr (demo_fixture_root, demo_fixture_root @ [''application-build.json''], doc)"
  using assms by (simp add: owned_file_def pkg_roots pkg_root require_fixture_artifact_def descent_def upt_conv_Cons reject_reparse_def lstat_def pkg_lookup of_option_def
    is_regular_def regular_at_def)

lemma pkg_loaded:
  assumes "canonical_hash (JObj pkg_files) = Inr sh" "is_sha256 sh" "payload_tree_hash (JObj pkg_payload) = Inr ph" "is_sha256 ph"
  shows "load_application_build (sha256_hex DART_MAIN) demo_fixture pkg_git PS (pkg_tree (dumps2 (pkg_state sh ph)))
    ''/p/build/homologation/windows-lifecycle-a/application-build.json'' = Inr (pkg_state sh ph)"
proof -
  obtain s where s: "decode_text (dumps2 (pkg_state sh ph)) = Inr s" "json_loads s = Inr (pkg_state sh ph)"
    using read_dumps2[OF pkg_state_text[OF assms(2,4)], of "[]"] by (auto simp: bindR_ok)
  have fields: "dget (pkg_state sh ph) ''format'' = Inr (JInt 1)" "dget (pkg_state sh ph) ''scope'' = Inr (JStr ''source-qualified-isolated-bootstrap'')"
    "dget (pkg_state sh ph) ''productionActivationGate'' = Inr (JBool False)" "dget (pkg_state sh ph) ''entrypoint'' = Inr (JStr ENTRYPOINT)"
    "item (pkg_state sh ph) ''root'' = Inr (JStr ''/p/build/homologation/windows-lifecycle-a'')" "item (pkg_state sh ph) ''identity'' = Inr (JStr pkg_identity)"
    "item (pkg_state sh ph) ''sourceRoot'' = Inr (JStr ''/p/build/a0123456789ab'')" "dget (pkg_state sh ph) ''sourceFiles'' = Inr (JObj pkg_files)"
    "item (pkg_state sh ph) ''revision'' = Inr (JStr pkg_revision)" "dget (pkg_state sh ph) ''sourceTreeSha256'' = Inr (JStr sh)"
    "dget (pkg_state sh ph) ''payloadFiles'' = Inr (JObj pkg_payload)" "dget (pkg_state sh ph) ''payloadTreeSha256'' = Inr (JStr ph)"
    "check_runtime demo_fixture PS t (pkg_state sh ph) base = Inr ()" for t base
    by (simp_all add: pkg_state_def dget_def item_def check_runtime_def)
  have e: "py_eq (JObj pkg_payload) (JObj pkg_payload)" by (rule py_eq_refl) (simp_all add: pkg_payload_def demo_found_def)
  have h: "proof_header_ok (pkg_state sh ph) demo_fixture_root = Inr True"
    by (simp add: proof_header_ok_def fields is_format_one_def str_of_def pkg_roots)
  show ?thesis
    by (simp add: load_application_build_def pkg_owned[OF pkg_state_length[OF assms(2,4)]] s h fields pkg_texts pkg_source_root str_of_def pkg_roots pkg_sources assms pkg_capture[unfolded pkg_roots] e
        del: py_eq.simps(1))
qed

theorem package_from_commit_witness:
  "\<exists>doc reference base state. verify_application_package (sha256_hex DART_MAIN) demo_fixture pkg_git (\<lambda>_. Inl TypeErr) (pkg_tree doc) (pkg_tree doc)
       reference pkg_identity (JObj pkg_payload) = Inr () \<and>
     build_sound (sha256_hex DART_MAIN) demo_fixture pkg_git (pkg_tree doc) base state \<and> same_outside_tools (JObj pkg_payload) state"
proof -
  obtain sh ph where h: "canonical_hash (JObj pkg_files) = Inr sh" "is_sha256 sh" "payload_tree_hash (JObj pkg_payload) = Inr ph" "is_sha256 ph" using pkg_hashes by blast
  let ?p = "''/p/build/homologation/windows-lifecycle-a/application-build.json''" and ?state = "pkg_state sh ph" and ?doc = "dumps2 (pkg_state sh ph)"
  let ?r = "JObj [(''path'', JStr ?p), (''sha256'', JStr (sha256_hex ?doc)), (''revision'', JStr pkg_revision), (''sourceTreeSha256'', JStr sh), (''payloadTreeSha256'', JStr ph)]"
  have p: "posix_of ?p = ?p" "startswith ?p ''/''" by code_simp+
  have fields: "item ?state ''revision'' = Inr (JStr pkg_revision)" "item ?state ''sourceTreeSha256'' = Inr (JStr sh)" "item ?state ''payloadTreeSha256'' = Inr (JStr ph)"
    "item ?state ''identity'' = Inr (JStr pkg_identity)" "item ?state ''payloadFiles'' = Inr (JObj pkg_payload)"
    by (simp_all add: pkg_state_def item_def)
  have own: "py_eq ?state ?state" by (rule py_eq_refl[OF pkg_state_text(1,3)[OF h(2,4)]])
  have "application_input (sha256_hex DART_MAIN) demo_fixture pkg_git (\<lambda>_. Inl TypeErr) (pkg_tree ?doc) (pkg_tree ?doc) ?p = Inr (?state, ?r)"
    by (simp add: application_input_def pkg_loaded[OF h] pkg_roots regular_at_def pkg_lookup fields p own)
  moreover have "py_eq ?r ?r" "py_eq (JObj (filter (\<lambda>kv. fst kv \<notin> set REBUILT_TOOLS) pkg_payload)) (JObj (filter (\<lambda>kv. fst kv \<notin> set REBUILT_TOOLS) pkg_payload))"
    by (simp_all add: pkg_payload_def demo_found_def REBUILT_TOOLS_def)
  ultimately have v: "verify_application_package (sha256_hex DART_MAIN) demo_fixture pkg_git (\<lambda>_. Inl TypeErr) (pkg_tree ?doc) (pkg_tree ?doc) ?r pkg_identity (JObj pkg_payload) = Inr ()"
    by (simp add: verify_application_package_def fields without_tools_def del: py_eq.simps(1))
  show ?thesis using package_from_commit[OF v] v by blast
qed

end
