(* ===== verification/Odbc_Validation.thy ===== *)
theory Odbc_Validation
  imports Script_Utils
begin

text \<open>
  \<open>tool/odbc/run_odbc_operational_validation.py\<close> and \<open>run_odbc_release_gate.py\<close>: a sequence of checks with logs, of which the
  first that fails ends the run, and a worksheet that is written in any case. The settings and the table of steps are
  changed in place, so they are part of the state. The clock, \<open>sys.executable\<close> and the root of the project are arguments.
\<close>

subsection \<open>The worksheet\<close>

datatype step_key = OdbcRuntime | Preflight | Smoke | Burst | Benchmark | StreamingBenchmark | DriverMatrixBenchmark

record vstep =
  st_status :: string
  st_command :: string
  st_log :: string
  st_started :: string
  st_finished :: string

type_synonym vsteps = "step_key \<Rightarrow> vstep"

definition step_labels :: "(step_key \<times> string) list" where
  "step_labels = [(OdbcRuntime, ''ODBC runtime''), (Preflight, ''Preflight''), (Smoke, ''Smoke''), (Burst, ''Burst''), (Benchmark, ''Benchmark''),
     (StreamingBenchmark, ''Streaming benchmark''), (DriverMatrixBenchmark, ''Driver matrix benchmark'')]"

text \<open>A line with at most one value of the settings in it\<close>

datatype wline = Plain string | Filled string string string

fun render_line :: "settings \<Rightarrow> wline \<Rightarrow> string res" where
  "render_line c (Plain s) = Inr s"
| "render_line c (Filled a k b) = (case map_of c k of None \<Rightarrow> Inl (KeyErr k) | Some v \<Rightarrow> Inr (a @ v @ b))"

definition field_row :: "string \<Rightarrow> string \<Rightarrow> wline" where
  "field_row name key = Filled (''| '' @ name @ '' | '') key '' |''"

definition code_row :: "string \<Rightarrow> string \<Rightarrow> wline" where
  "code_row name key = Filled (''| '' @ name @ '' | `'') key ''` |''"

definition env_row :: "string \<Rightarrow> string \<Rightarrow> wline" where
  "env_row name key = Filled (name @ ''='') key []"

definition worksheet_head :: "wline list" where
  "worksheet_head = [Plain ''# ODBC Operational Validation Report'', Plain [], Filled ''Generated at: '' ''GeneratedAt'' [], Plain [], Plain ''## Environment'', Plain [],
     Plain ''| Field | Value |'', Plain ''| --- | --- |'', field_row ''Operator'' ''Operator'', field_row ''Host'' ''Host'', code_row ''Repo root'' ''RepoRoot'',
     code_row ''Run directory'' ''RunDirectory'', code_row ''Build / commit'' ''Commit'', code_row ''DSN used'' ''DsnUsed'', field_row ''Driver family'' ''DriverFamily'',
     field_row ''Native/adaptive pool eligibility'' ''NativeAdaptiveEligibility'', code_row ''Smoke query'' ''SmokeQuery'', code_row ''Long query'' ''LongQuery'', Plain [],
     Plain ''## Effective Tuning'', Plain [], Plain ''```env'', env_row ''ODBC_POOL_SIZE'' ''OdbcPoolSize'', env_row ''ODBC_ASYNC_WORKER_COUNT'' ''OdbcAsyncWorkerCount'',
     env_row ''ODBC_ASYNC_MAX_PENDING_REQUESTS'' ''OdbcAsyncMaxPendingRequests'', env_row ''ODBC_RESULT_ENCODING'' ''OdbcResultEncoding'',
     env_row ''SQL_QUEUE_MAX_SIZE'' ''SqlQueueMaxSize'', env_row ''SQL_QUEUE_MAX_WORKERS'' ''SqlQueueMaxWorkers'', env_row ''SQL_QUEUE_TIMEOUT_SEC'' ''SqlQueueTimeoutSec'',
     env_row ''ODBC_POOL_ACQUIRE_TIMEOUT_SEC'' ''PoolAcquireTimeoutSec'', env_row ''CIRCUIT_BREAKER_FAILURE_THRESHOLD'' ''CircuitBreakerFailureThreshold'',
     env_row ''CIRCUIT_BREAKER_RESET_SEC'' ''CircuitBreakerResetSec'', env_row ''RUN_ODBC_BURST_TESTS'' ''RunOdbcBurstTests'', Plain ''```'', Plain [],
     Plain ''Driver recommendation:'', Plain [], Filled ''> '' ''DriverTuningRecommendation'' [], Plain [], Plain ''## Step Status'', Plain [],
     Plain ''| Step | Status | Command |'', Plain ''| --- | --- | --- |'']"

definition status_row :: "vsteps \<Rightarrow> step_key \<times> string \<Rightarrow> string" where
  "status_row st = (\<lambda>(k, label). ''| '' @ label @ '' | '' @ st_status (st k) @ '' | `'' @ st_command (st k) @ ''` |'')"

definition artifact_row :: "vsteps \<Rightarrow> step_key \<times> string \<Rightarrow> string" where
  "artifact_row st = (\<lambda>(k, label). ''| '' @ label @ '' | '' @ st_log (st k) @ '' | '' @ st_started (st k) @ '' | '' @ st_finished (st k) @ '' |'')"

definition artifacts_head :: "string list" where
  "artifacts_head = [[], ''## Step Artifacts'', [], ''| Step | Log | Started at | Finished at |'', ''| --- | --- | --- | --- |'']"

definition worksheet_tail :: "string list" where
  "worksheet_tail = [[], ''## Auxiliary Artifacts'', [], ''| Artifact | Purpose |'', ''| --- | --- |'',
     ''| `health_snapshot_template.json` | Template no shape atual de `agent.getHealth` com tuning efetivo do ambiente local. |'',
     ''| `odbc_runtime.log` | Smoke sem DSN para inicializacao do `odbc_fast`, worker async e exports columnar/compressed. |'',
     ''| `health_burst_*_before.json` / `health_burst_*_after.json` | Snapshots reais de `HealthService.getHealthStatusAsync()` gravados pelo teste de burst quando burst/all roda. |'',
     ''| `driver_matrix_*_async.log` / `driver_matrix_*_streaming.log` | Benchmark por driver configurado; drivers sem DSN sao pulados. |'', [],
     ''## Automated Health Snapshots'', [],
     ''When Burst runs, `sql_queue_burst_test.dart` receives `ODBC_BURST_HEALTH_SNAPSHOT_DIR` and writes before/after health JSON files into the run directory. If the Burst step is not requested, collect `agent.getHealth` manually before making tuning decisions.'', [],
     ''## Quick Comparison'', [], ''| Field | Before | After | Notes |'', ''| --- | --- | --- | --- |'',
     ''| `odbc_runtime_tuning.async_worker_count` | | | |'', ''| `odbc_runtime_tuning.async_max_pending_requests` | | | |'', ''| `pool.active_count` | | | |'',
     ''| `pool.fallbacks_total` | | | |'', ''| `sql_queue.rejections_total` | | | |'', ''| `sql_queue.timeouts_total` | | | |'', ''| `sql_queue.p95_wait_time_ms` | | | |'',
     ''| `queries.p95_latency_ms` | | | |'', ''| `queries.p99_latency_ms` | | | |'', ''| `timeouts.pool_total` | | | |'', [], ''## Notes'', [],
     ''- Tuning decision:'', ''- Risks observed:'', ''- Follow-up:'', []]"

definition build_validation_report :: "settings \<Rightarrow> vsteps \<Rightarrow> string res" where
  "build_validation_report c st = bindR (mapR (render_line c) worksheet_head) (\<lambda>head.
     Inr (join newline (head @ map (status_row st) step_labels @ artifacts_head @ map (artifact_row st) step_labels @ worksheet_tail)))"

subsection \<open>Settings\<close>

text \<open>The command line, with its flags before \<open>--all\<close> is applied\<close>

record vargs =
  va_smoke :: bool
  va_burst :: bool
  va_benchmark :: bool
  va_streaming :: bool
  va_matrix :: bool
  va_all :: bool
  va_skip_preflight :: bool
  va_env_path :: string
  va_output_path :: string

definition apply_all :: "vargs \<Rightarrow> vargs" where
  "apply_all a = (if va_all a then a\<lparr>va_smoke := True, va_burst := True, va_benchmark := True, va_streaming := True, va_matrix := True\<rparr> else a)"

text \<open>\<open>os.environ.get(a) or os.environ.get(b) or dflt\<close>\<close>

definition env_or :: "environ \<Rightarrow> string \<Rightarrow> string \<Rightarrow> string \<Rightarrow> string" where
  "env_or env a b dflt = (case or_else (env a) (or_else (env b) None) of Some v \<Rightarrow> v | None \<Rightarrow> dflt)"

definition dsn_keys :: "string list" where
  "dsn_keys = [''ODBC_E2E_RPC_DSN'', ''ODBC_TEST_DSN'', ''ODBC_DSN'', ''ODBC_TEST_DSN_SQL_SERVER'', ''ODBC_DSN_SQL_SERVER'', ''ODBC_TEST_DSN_POSTGRESQL'', ''ODBC_DSN_POSTGRESQL'']"

definition long_keys :: "string list" where
  "long_keys = [''ODBC_INTEGRATION_LONG_QUERY'', ''ODBC_INTEGRATION_LONG_QUERY_SQL_ANYWHERE'', ''ODBC_INTEGRATION_LONG_QUERY_SQL_SERVER'', ''ODBC_INTEGRATION_LONG_QUERY_POSTGRESQL'']"

text \<open>\<open>if not context[key]: context[key] = value\<close>\<close>

definition or_setting :: "string \<Rightarrow> string \<Rightarrow> string" where
  "or_setting v dflt = (if v = [] then dflt else v)"

definition validation_context :: "string \<Rightarrow> string \<Rightarrow> string \<Rightarrow> string \<Rightarrow> environ \<Rightarrow> settings" where
  "validation_context generated project run_directory commit env = (let E = effective_env env; dsn = or_setting (E dsn_keys) ''(not configured)''; family = get_dsn_driver_family dsn in
     [(''GeneratedAt'', generated), (''Operator'', env_or env ''USERNAME'' ''USER'' ''(unknown)''), (''Host'', env_or env ''COMPUTERNAME'' ''HOSTNAME'' ''(unknown)''),
      (''RepoRoot'', project), (''RunDirectory'', run_directory), (''Commit'', commit), (''DsnUsed'', dsn),
      (''SmokeQuery'', or_setting (E [''ODBC_INTEGRATION_SMOKE_QUERY'']) ''SELECT 1''), (''LongQuery'', or_setting (E long_keys) ''(not configured)''),
      (''OdbcPoolSize'', E [''ODBC_POOL_SIZE'']), (''OdbcAsyncWorkerCount'', E [''ODBC_ASYNC_WORKER_COUNT'']), (''OdbcAsyncMaxPendingRequests'', E [''ODBC_ASYNC_MAX_PENDING_REQUESTS'']),
      (''OdbcResultEncoding'', or_setting (E [''ODBC_RESULT_ENCODING'']) ''rowMajor''), (''SqlQueueMaxSize'', E [''SQL_QUEUE_MAX_SIZE'']), (''SqlQueueMaxWorkers'', E [''SQL_QUEUE_MAX_WORKERS'']),
      (''SqlQueueTimeoutSec'', E [''SQL_QUEUE_TIMEOUT_SEC'']), (''PoolAcquireTimeoutSec'', E [''ODBC_POOL_ACQUIRE_TIMEOUT_SEC'']),
      (''CircuitBreakerFailureThreshold'', or_setting (E [''CIRCUIT_BREAKER_FAILURE_THRESHOLD'']) ''5''), (''CircuitBreakerResetSec'', or_setting (E [''CIRCUIT_BREAKER_RESET_SEC'']) ''30''),
      (''RunOdbcBurstTests'', E [''RUN_ODBC_BURST_TESTS'']), (''DriverFamily'', family), (''NativeAdaptiveEligibility'', get_native_adaptive_eligibility family),
      (''DriverTuningRecommendation'', get_driver_tuning_recommendation family)])"

subsection \<open>The table of steps\<close>

definition requested :: "vargs \<Rightarrow> step_key \<Rightarrow> bool" where
  "requested a k = (case k of OdbcRuntime \<Rightarrow> True | Preflight \<Rightarrow> \<not> va_skip_preflight a | Smoke \<Rightarrow> va_smoke a | Burst \<Rightarrow> va_burst a | Benchmark \<Rightarrow> va_benchmark a
     | StreamingBenchmark \<Rightarrow> va_streaming a | DriverMatrixBenchmark \<Rightarrow> va_matrix a)"

definition idle_status :: "step_key \<Rightarrow> string" where
  "idle_status k = (if k = Preflight then ''skipped'' else ''not requested'')"

definition shown_command :: "step_key \<Rightarrow> string" where
  "shown_command k = (case k of OdbcRuntime \<Rightarrow> ''flutter test test/tool/odbc_fast_runtime_check_test.dart'' | Preflight \<Rightarrow> ''dart run tool/e2e/check_e2e_env.dart''
     | Smoke \<Rightarrow> ''flutter test test/integration/odbc_queued_gateway_smoke_live_e2e_test.dart'' | Burst \<Rightarrow> ''flutter test test/integration/sql_queue_burst_test.dart''
     | Benchmark \<Rightarrow> ''python tool/benchmarks/odbc_async_benchmark.py'' | StreamingBenchmark \<Rightarrow> ''python tool/benchmarks/odbc_streaming_benchmark.py''
     | DriverMatrixBenchmark \<Rightarrow> ''python tool/benchmarks/odbc_driver_matrix_benchmark.py --output-directory <runDirectory>'')"

definition log_name :: "step_key \<Rightarrow> string" where
  "log_name k = (case k of OdbcRuntime \<Rightarrow> ''odbc_runtime.log'' | Preflight \<Rightarrow> ''preflight.log'' | Smoke \<Rightarrow> ''smoke.log'' | Burst \<Rightarrow> ''burst.log'' | Benchmark \<Rightarrow> ''benchmark.log''
     | StreamingBenchmark \<Rightarrow> ''streaming_benchmark.log'' | DriverMatrixBenchmark \<Rightarrow> ''driver_matrix.log'')"

definition initial_steps :: "vargs \<Rightarrow> vsteps" where
  "initial_steps a k = \<lparr>st_status = (if requested a k then ''pending'' else idle_status k), st_command = shown_command k,
     st_log = (if requested a k then log_name k else ''(not requested)''), st_started = ''-'', st_finished = ''-''\<rparr>"

subsection \<open>A run\<close>

record vstate =
  vs_world :: pworld
  vs_context :: settings
  vs_steps :: vsteps
  vs_failed :: bool

type_synonym 'a vio = "(vstate, 'a) io"

definition in_world :: "'a pio \<Rightarrow> 'a vio" where
  "in_world m s = (case m (vs_world s) of (r, w) \<Rightarrow> (r, s\<lparr>vs_world := w\<rparr>))"

text \<open>What a run is given: the outside world, whether the output is a terminal, the clock, \<open>sys.executable\<close> and the directories\<close>

record venv =
  ve_os :: os_env
  ve_tty :: bool
  ve_now :: "pworld \<Rightarrow> string"
  ve_python :: string
  ve_project :: string
  ve_directory :: string

definition script_path :: "venv \<Rightarrow> string \<Rightarrow> string" where
  "script_path V name = ve_project V @ ''/tool/benchmarks/'' @ name"

definition step_command :: "venv \<Rightarrow> step_key \<Rightarrow> string list" where
  "step_command V k = (case k of OdbcRuntime \<Rightarrow> [''flutter'', ''test'', ''test/tool/odbc_fast_runtime_check_test.dart''] | Preflight \<Rightarrow> [''dart'', ''run'', ''tool/e2e/check_e2e_env.dart'']
     | Smoke \<Rightarrow> [''flutter'', ''test'', ''test/integration/odbc_queued_gateway_smoke_live_e2e_test.dart''] | Burst \<Rightarrow> [''flutter'', ''test'', ''test/integration/sql_queue_burst_test.dart'']
     | Benchmark \<Rightarrow> [ve_python V, script_path V ''odbc_async_benchmark.py''] | StreamingBenchmark \<Rightarrow> [ve_python V, script_path V ''odbc_streaming_benchmark.py'']
     | DriverMatrixBenchmark \<Rightarrow> [ve_python V, script_path V ''odbc_driver_matrix_benchmark.py'', ''--output-directory'', ve_directory V])"

definition finish_step :: "step_key \<Rightarrow> bool \<Rightarrow> string \<Rightarrow> string \<Rightarrow> vsteps \<Rightarrow> vsteps" where
  "finish_step k ok started finished st = st(k := (st k)\<lparr>st_status := (if ok then ''passed'' else ''failed''), st_started := started, st_finished := finished\<rparr>)"

definition run_step :: "venv \<Rightarrow> step_key \<times> string \<Rightarrow> unit vio" where
  "run_step V = (\<lambda>(k, label).
     bindI (readI (\<lambda>s. path_join (ve_directory V) (st_log (vs_steps s k)))) (\<lambda>log_path.
     bindI (in_world (invoke_step (ve_tty V) (ve_now V) label (run_streaming (ve_os V) (step_command V k) (Some log_path)) (Some log_path))) (\<lambda>(ok, started, finished).
     bindI (updI (\<lambda>s. s\<lparr>vs_steps := finish_step k ok started finished (vs_steps s)\<rparr>)) (\<lambda>_.
     if ok then retI () else bindI (updI (\<lambda>s. s\<lparr>vs_failed := True\<rparr>)) (\<lambda>_. raiseI (RuntimeErr (label @ '' failed.'')))))))"

definition prepare_burst :: "venv \<Rightarrow> unit vio" where
  "prepare_burst V = bindI (in_world (env_set ''RUN_ODBC_BURST_TESTS'' ''true'')) (\<lambda>_.
     bindI (in_world (env_set ''ODBC_BURST_HEALTH_SNAPSHOT_DIR'' (ve_directory V))) (\<lambda>_.
     updI (\<lambda>s. s\<lparr>vs_context := AList.update ''RunOdbcBurstTests'' ''true'' (vs_context s)\<rparr>)))"

definition run_requested :: "venv \<Rightarrow> vargs \<Rightarrow> step_key \<times> string \<Rightarrow> unit vio" where
  "run_requested V a kl = (if requested a (fst kl) then bindI (if fst kl = Burst then prepare_burst V else retI ()) (\<lambda>_. run_step V kl) else retI ())"

definition snapshot_template :: "venv \<Rightarrow> unit vio" where
  "snapshot_template V = (let template = path_join (ve_directory V) ''health_snapshot_template.json'' in
     bindI (in_world (console_step (ve_tty V) ''Health snapshot template'')) (\<lambda>_.
     bindI (in_world (run_streaming (ve_os V) [''dart'', ''run'', ''tool/odbc/export_odbc_health_snapshot_template.dart'', ''--output'', template] None)) (\<lambda>template_exit.
     if template_exit \<noteq> 0 then in_world (console_warn (ve_tty V) ''Health snapshot template generation failed.'') else
     bindI (readI vs_context) (\<lambda>c.
     bindI (in_world (update_context_from_health_snapshot_template (ve_tty V) c template)) (\<lambda>(r, c').
     bindI (updI (\<lambda>s. s\<lparr>vs_context := c'\<rparr>)) (\<lambda>_.
     bindI (liftI r) (\<lambda>_.
     in_world (console_pass (ve_tty V) ''Health snapshot template generated.''))))))))"

definition is_runtime_err :: "exn \<Rightarrow> bool" where
  "is_runtime_err e = (case e of RuntimeErr _ \<Rightarrow> True | _ \<Rightarrow> False)"

definition write_worksheet :: "venv \<Rightarrow> string \<Rightarrow> unit vio" where
  "write_worksheet V report_path = bindI (checkI (\<lambda>s. build_validation_report (vs_context s) (vs_steps s))) (\<lambda>report.
     bindI (in_world (write_utf8 report_path report)) (\<lambda>_.
     bindI (in_world (print_line [])) (\<lambda>_.
     in_world (forI [''Validation worksheet: '' @ report_path, ''Run artifacts directory: '' @ ve_directory V,
       ''Burst health snapshots are written automatically when --run-burst or --all is used.''] (emit (ve_tty V) (esc_seq ''90''))))))"

definition validation_run :: "venv \<Rightarrow> vargs \<Rightarrow> string \<Rightarrow> int vio" where
  "validation_run V a report_path =
     bindI (finallyI
       (catchI (bindI (snapshot_template V) (\<lambda>_. forI step_labels (run_requested V a))) (\<lambda>e. if is_runtime_err e then retI () else raiseI e))
       (write_worksheet V report_path)) (\<lambda>_.
     readI (\<lambda>s. if vs_failed s then 1 else 0))"

definition report_path_of :: "venv \<Rightarrow> vargs \<Rightarrow> string" where
  "report_path_of V a = (if va_output_path a = [] then path_join (ve_directory V) ''odbc_operational_validation_report.md''
     else if is_absolute (va_output_path a) then va_output_path a else path_join (ve_project V) (va_output_path a))"

text \<open>The state at the start of the checks\<close>

definition validation_start :: "venv \<Rightarrow> vargs \<Rightarrow> string \<Rightarrow> string \<Rightarrow> pworld \<Rightarrow> vstate" where
  "validation_start V a generated commit w = \<lparr>vs_world = w, vs_context = validation_context generated (ve_project V) (ve_directory V) commit (pw_env w),
     vs_steps = initial_steps a, vs_failed = False\<rparr>"

definition validation_main :: "venv \<Rightarrow> vargs \<Rightarrow> int pio" where
  "validation_main V raw = (let a = apply_all raw in
     bindI (import_dotenv_if_present (resolve_env_path (ve_project V) (va_env_path a))) (\<lambda>_.
     bindI (readI (ve_now V)) (\<lambda>generated.
     bindI (get_git_commit_or_default (ve_os V)) (\<lambda>commit.
     \<lambda>w. case validation_run V a (report_path_of V a) (validation_start V a generated commit w) of (r, s) \<Rightarrow> (r, vs_world s)))))"

subsection \<open>The release gate\<close>

record gargs =
  ga_env_path :: string
  ga_skip_analyze :: bool
  ga_skip_unit_tests :: bool
  ga_require_columnar :: bool
  ga_benchmark :: bool
  ga_validation :: bool
  ga_output :: string

text \<open>\<open>_run\<close>: the environment that it makes has what \<open>run_streaming\<close> adds anyway.\<close>

definition gate_command :: "os_env \<Rightarrow> string list \<Rightarrow> string option \<Rightarrow> int pio" where
  "gate_command S cmd log_path = (case log_path of Some _ \<Rightarrow> run_streaming S cmd log_path | None \<Rightarrow> bindI (run_process S cmd) (\<lambda>p. retI (p_code p)))"

definition unit_test_files :: "string list" where
  "unit_test_files = [''test/infrastructure/external_services/odbc_columnar_stream_chunk_mapper_test.dart'', ''test/infrastructure/external_services/odbc_streaming_named_parameter_preparer_test.dart'',
     ''test/infrastructure/external_services/native_compatible_acquire_policy_test.dart'', ''test/infrastructure/external_services/odbc_streaming_gateway_test.dart'',
     ''test/infrastructure/config/odbc_stream_wire_config_test.dart'', ''test/infrastructure/config/odbc_usage_profile_config_test.dart'',
     ''test/infrastructure/config/odbc_performance_preset_config_test.dart'']"

definition gate_step :: "os_env \<Rightarrow> string \<Rightarrow> string \<Rightarrow> string \<Rightarrow> string list \<Rightarrow> (string \<times> int) pio" where
  "gate_step S out name log_file cmd = bindI (gate_command S cmd (Some (path_join out log_file))) (\<lambda>code. retI (name, code))"

definition optional_step :: "bool \<Rightarrow> (string \<times> int) pio \<Rightarrow> (string \<times> int) list pio" where
  "optional_step b m = (if b then bindI m (\<lambda>x. retI [x]) else retI [])"

definition gate_output :: "string \<Rightarrow> gargs \<Rightarrow> string" where
  "gate_output project a = (if ga_output a = [] then project @ ''/artifacts/odbc_release_gate'' else ga_output a)"

definition validation_argv :: "string \<Rightarrow> string list" where
  "validation_argv out = [''--output-directory'', path_join out ''operational_validation'']"

definition validation_command :: "string \<Rightarrow> string \<Rightarrow> string list" where
  "validation_command python out = [python, ''tool/odbc/run_odbc_operational_validation.py''] @ validation_argv out"

definition benchmark_command :: "string \<Rightarrow> string \<Rightarrow> string list" where
  "benchmark_command python out = [python, ''tool/benchmarks/run_benchmark_suite.py'', ''--skip-dart-tool'', ''--only'', ''odbc_async,odbc_streaming'', ''--output-dir'', path_join out ''benchmark'']"

definition benchmark_gate :: "os_env \<Rightarrow> string \<Rightarrow> string \<Rightarrow> (string \<times> int) pio" where
  "benchmark_gate S python out = bindI (env_set ''BENCHMARK_ENFORCE_ODBC_GATES'' ''1'') (\<lambda>_.
     bindI ensure_utf8_stdio (\<lambda>_. bindI (unlink (path_join out ''benchmark_gate.log'')) (\<lambda>_.
     gate_step S out ''benchmark_gate'' ''benchmark_gate.log'' (benchmark_command python out))))"

definition gate_steps :: "os_env \<Rightarrow> string \<Rightarrow> string \<Rightarrow> gargs \<Rightarrow> (string \<times> int) list pio" where
  "gate_steps S python out a =
     bindI (optional_step (\<not> ga_skip_analyze a) (gate_step S out ''dart_analyze'' ''dart_analyze.log'' [''dart'', ''analyze''])) (\<lambda>s1.
     bindI (optional_step (\<not> ga_skip_unit_tests a) (gate_step S out ''odbc_unit_tests'' ''odbc_unit_tests.log'' ([''flutter'', ''test'', ''--reporter'', ''expanded''] @ unit_test_files))) (\<lambda>s2.
     bindI (gate_step S out ''odbc_fast_runtime'' ''odbc_fast_runtime.log'' ([''dart'', ''run'', ''tool/odbc/check_odbc_fast_runtime.dart'']
       @ (if ga_require_columnar a then [''--require-columnar-compressed''] else []))) (\<lambda>s3.
     bindI (gate_step S out ''odbc_pool_modes_launcher'' ''odbc_pool_modes.log'' [''dart'', ''run'', ''tool/benchmarks/benchmark_odbc_pool_modes.dart'']) (\<lambda>s4.
     bindI (optional_step (ga_validation a) (gate_step S out ''operational_validation'' ''operational_validation.log'' (validation_command python out))) (\<lambda>s5.
     bindI (optional_step (ga_benchmark a) (benchmark_gate S python out)) (\<lambda>s6.
     retI (s1 @ s2 @ [s3, s4] @ s5 @ s6)))))))"

definition gate_line :: "string \<times> int \<Rightarrow> string" where
  "gate_line = (\<lambda>(name, code). ''- '' @ name @ '': '' @ (if code = 0 then ''pass'' else ''fail ('' @ str_int code @ '')''))"

definition gate_main :: "os_env \<Rightarrow> string \<Rightarrow> string \<Rightarrow> gargs \<Rightarrow> int pio" where
  "gate_main S python project a =
     bindI ensure_utf8_stdio (\<lambda>_.
     bindI (import_dotenv_if_present (resolve_env_path project (ga_env_path a))) (\<lambda>_.
     let out = gate_output project a in
     bindI (gate_steps S python out a) (\<lambda>steps.
     bindI (forI ([[], ''ODBC release gate summary''] @ map gate_line steps @ [''Artifacts: '' @ out]) print_line) (\<lambda>_.
     retI (if list_ex (\<lambda>(_, code). code \<noteq> 0) steps then 1 else 0)))))"

subsection \<open>The command line of the validation\<close>

text \<open>The options of the parser. As \<open>argparse\<close> documents it, an option may be cut to an unambiguous prefix.\<close>

definition validation_options :: "string list" where
  "validation_options = [''--help'', ''--run-smoke'', ''--run-burst'', ''--run-benchmark'', ''--run-streaming-benchmark'', ''--run-driver-matrix-benchmark'', ''--all'',
     ''--skip-preflight'', ''--env-path'', ''--output-path'']"

definition known_option :: "string \<Rightarrow> bool" where
  "known_option arg \<longleftrightarrow> arg \<in> set validation_options \<or> length (filter (\<lambda>opt. startswith opt arg) validation_options) = 1"

end
