(* ===== verification/Odbc_ValidationSpec.thy ===== *)
theory Odbc_ValidationSpec
  imports Odbc_Validation
begin

text \<open>
  The worksheet of the operational validation tells the truth: it is written after every run, its table names the steps that
  passed and the first that failed, and the exit code agrees with it.
\<close>

subsection \<open>Programs and their settings\<close>

text \<open>Starting a program fails with \<open>OSError\<close> or an error of \<open>subprocess\<close> only.\<close>

definition plain_failures :: "os_env \<Rightarrow> bool" where
  "plain_failures S \<longleftrightarrow> (\<forall>ts args e. os_run S ts args = Inl e \<longrightarrow> is_os_err e)"

definition raises :: "(exn \<Rightarrow> bool) \<Rightarrow> ('w, 'a) io \<Rightarrow> bool" where
  "raises P m \<longleftrightarrow> (\<forall>w e w'. m w = (Inl e, w') \<longrightarrow> P e)"

named_theorems raises_intro \<open>rules for the exceptions of a program\<close>

lemma raises_basic [raises_intro]:
  "raises P (retI x)" "raises P (readI f)" "raises P (updI g)" "P e \<Longrightarrow> raises P (raiseI e)" "(\<And>e. r = Inl e \<Longrightarrow> P e) \<Longrightarrow> raises P (liftI r)"
  by (auto simp: raises_def io_defs)

lemma raises_bind [raises_intro]: "raises P m \<Longrightarrow> (\<And>x. raises P (f x)) \<Longrightarrow> raises P (bindI m f)"
  unfolding raises_def bindI_def by (auto split: prod.splits sum.splits)

lemma raises_if [raises_intro]: "(b \<Longrightarrow> raises P m) \<Longrightarrow> (\<not> b \<Longrightarrow> raises P n) \<Longrightarrow> raises P (if b then m else n)"
  by simp

lemma raises_option [raises_intro]: "raises P m \<Longrightarrow> (\<And>y. raises P (f y)) \<Longrightarrow> raises P (case x of None \<Rightarrow> m | Some y \<Rightarrow> f y)"
  by (cases x) auto

lemma raises_for [raises_intro]: "(\<And>x. raises P (f x)) \<Longrightarrow> raises P (forI xs f)"
  by (induction xs) (auto intro: raises_intro)

lemma raises_effects [raises_intro]: "raises P (print_line s)" "raises P (write_bytes p b)" "raises P (unlink p)" "raises P (env_get k)" "raises P (env_set k v)" "raises P (append_text p s)"
  by (auto simp: raises_def print_line_def write_bytes_def unlink_def env_get_def env_set_def append_text_def io_defs)

definition not_runtime :: "exn \<Rightarrow> bool" where
  "not_runtime e \<longleftrightarrow> \<not> is_runtime_err e"

lemma os_not_runtime: "is_os_err e \<Longrightarrow> not_runtime e"
  by (cases e) (auto simp: not_runtime_def is_runtime_err_def is_os_err_def)

lemma raises_process: "plain_failures S \<Longrightarrow> raises not_runtime (run_process S args)"
  by (auto simp: raises_def run_process_def plain_failures_def intro: os_not_runtime)

lemma raises_streaming: "plain_failures S \<Longrightarrow> raises not_runtime (run_streaming S (c # cs) l)"
  unfolding run_streaming_def ensure_utf8_stdio_def
  by (intro raises_intro raises_process) (auto simp: resolve_command_def Let_def)

lemma raises_console [raises_intro]: "raises P (console_step tty m)" "raises P (console_pass tty m)" "raises P (console_warn tty m)" "raises P (console_fail tty m)"
  unfolding console_step_def console_pass_def console_warn_def console_fail_def emit_def by (intro raises_intro)+

lemma raises_invoke: "raises P step \<Longrightarrow> raises P (invoke_step tty now name step l)"
  unfolding invoke_step_def by (intro raises_intro)

lemma raises_in_world: "raises P m \<Longrightarrow> raises P (in_world m)"
  by (auto simp: raises_def in_world_def split: prod.splits)

lemma in_world_ok [ok_iff]: "in_world m s = (r, s') \<longleftrightarrow> (\<exists>w. m (vs_world s) = (r, w) \<and> s' = s\<lparr>vs_world := w\<rparr>)"
  by (auto simp: in_world_def split: prod.splits)

subsection \<open>What a passed step means\<close>

definition ran_ok :: "venv \<Rightarrow> step_key \<Rightarrow> pworld \<Rightarrow> bool" where
  "ran_ok V k w \<longleftrightarrow> (\<exists>args ts us p. resolve_command (ve_os V) (step_command V k) = Inr args \<and> pw_trace w = ts @ args # us \<and> os_run (ve_os V) ts args = Inr p \<and> p_code p = 0)"

lemma ran_ok_later: "ran_ok V k w \<Longrightarrow> pw_trace w' = pw_trace w @ ts \<Longrightarrow> ran_ok V k w'"
  unfolding ran_ok_def by (metis append.assoc append_Cons)

lemma issues_append [issues_intro]: "issues P (append_text p s)" "issues P ensure_utf8_stdio"
  unfolding ensure_utf8_stdio_def by (rule issues_silent; auto simp: append_text_def io_defs) (intro issues_intro)

lemma issues_streaming [issues_intro]: "issues (\<lambda>_. True) (run_streaming S cmd l)"
  unfolding run_streaming_def by (intro issues_intro TrueI)

lemma issues_console [issues_intro]: "issues P (emit tty c m)" "issues P (console_step tty m)" "issues P (console_pass tty m)" "issues P (console_warn tty m)" "issues P (console_fail tty m)"
  unfolding console_step_def console_pass_def console_warn_def console_fail_def emit_def by (intro issues_intro)+

lemma issues_invoke [issues_intro]: "issues P step \<Longrightarrow> issues P (invoke_step tty now name step l)"
  unfolding invoke_step_def by (intro issues_intro)

lemma streaming_code:
  assumes "run_streaming S cmd l w = (Inr n, w')"
  shows "\<exists>args ts p. resolve_command S cmd = Inr args \<and> pw_trace w' = ts @ [args] \<and> os_run S ts args = Inr p \<and> p_code p = n"
proof -
  obtain v v' args p where "resolve_command S cmd = Inr args" "run_process S args v = (Inr p, v')" "pw_trace w' = pw_trace v'" "p_code p = n"
    using assms unfolding run_streaming_def ok_iff by (cases l) (auto simp: ok_iff print_line_def append_text_def)
  then show ?thesis by (auto simp: run_process_def)
qed

lemma invoke_passed:
  assumes "invoke_step tty now name (run_streaming S cmd l) l' w = (Inr (True, x, y), w')"
  shows "\<exists>args ts p us. resolve_command S cmd = Inr args \<and> pw_trace w' = ts @ args # us \<and> os_run S ts args = Inr p \<and> p_code p = 0"
proof -
  obtain v v' v'' where "run_streaming S cmd l v = (Inr 0, v')" "console_pass tty (name @ '' completed.'') v'' = (Inr (), w')" "pw_trace v'' = pw_trace v'"
    using assms unfolding invoke_step_def by (auto simp: ok_iff split: if_splits)
  moreover have "pw_trace w' = pw_trace v''" using calculation(2) by (auto simp: console_pass_def emit_def print_line_def io_defs)
  ultimately show ?thesis using streaming_code by metis
qed


subsection \<open>One step\<close>

lemma step_command_cons: "\<exists>c cs. step_command V k = c # cs"
  by (cases k) (simp_all add: step_command_def)

lemma run_step_cases:
  assumes "run_step V (k, label) s = (r, s')" "plain_failures (ve_os V)"
  shows "vs_context s' = vs_context s \<and> (\<exists>ts. pw_trace (vs_world s') = pw_trace (vs_world s) @ ts) \<and>
    (r = Inr () \<and> vs_failed s' = vs_failed s \<and> ran_ok V k (vs_world s') \<and> (\<exists>x y. vs_steps s' = finish_step k True x y (vs_steps s)) \<or>
     (\<exists>e. r = Inl e) \<and> vs_failed s' \<and> (\<exists>x y. vs_steps s' = finish_step k False x y (vs_steps s)) \<or>
     (\<exists>e. r = Inl e \<and> not_runtime e) \<and> vs_failed s' = vs_failed s \<and> vs_steps s' = vs_steps s)"
proof -
  let ?log = "path_join (ve_directory V) (st_log (vs_steps s k))"
  let ?m = "invoke_step (ve_tty V) (ve_now V) label (run_streaming (ve_os V) (step_command V k) (Some ?log)) (Some ?log)"
  obtain q v where m: "?m (vs_world s) = (q, v)" by (cases "?m (vs_world s)")
  have i: "issues (\<lambda>_. True) ?m" by (intro issues_intro)
  have x: "raises not_runtime ?m" using raises_invoke raises_streaming[OF assms(2)] step_command_cons by metis
  obtain ts where t: "pw_trace v = pw_trace (vs_world s) @ ts" using issuesD[OF i m] by blast
  have b: "(r, s') = (case q of Inl e \<Rightarrow> (Inl e, s\<lparr>vs_world := v\<rparr>) | Inr (ok, x, y) \<Rightarrow>
      let s1 = s\<lparr>vs_world := v, vs_steps := finish_step k ok x y (vs_steps s)\<rparr> in
      if ok then (Inr (), s1) else (Inl (RuntimeErr (label @ '' failed.'')), s1\<lparr>vs_failed := True\<rparr>))"
    using assms(1) m unfolding run_step_def by (auto simp: bindI_def readI_def in_world_def updI_def retI_def raiseI_def Let_def split: sum.splits)
  show ?thesis
  proof (cases q)
    case (Inl e)
    then have "not_runtime e" using x m by (auto simp: raises_def)
    then show ?thesis using b Inl t by auto
  next
    case (Inr z)
    obtain ok x y where z: "z = (ok, x, y)" by (cases z)
    have "ran_ok V k v" if ok
    proof -
      have "?m (vs_world s) = (Inr (True, x, y), v)" using m Inr z that by simp
      from invoke_passed[OF this] show ?thesis unfolding ran_ok_def by blast
    qed
    then show ?thesis using b Inr z t by (auto simp: Let_def split: if_splits)
  qed
qed

subsection \<open>The sequence of steps\<close>

abbreviation status :: "vstate \<Rightarrow> step_key \<Rightarrow> string" where
  "status s k \<equiv> st_status (vs_steps s k)"

definition kept_run :: "venv \<Rightarrow> vstate \<Rightarrow> vstate \<Rightarrow> bool" where
  "kept_run V s s' \<longleftrightarrow> dom (map_of (vs_context s)) \<subseteq> dom (map_of (vs_context s')) \<and> (\<exists>ts. pw_trace (vs_world s') = pw_trace (vs_world s) @ ts) \<and>
     (\<forall>k. status s' k = ''passed'' \<longrightarrow> status s k = ''passed'' \<or> ran_ok V k (vs_world s'))"

lemma kept_run_refl: "kept_run V s s"
  by (simp add: kept_run_def)

lemma kept_run_trans: "kept_run V s t \<Longrightarrow> kept_run V t u \<Longrightarrow> kept_run V s u"
  unfolding kept_run_def by (auto dest: ran_ok_later)

lemma finish_status: "st_status (finish_step k ok x y st j) = (if j = k then (if ok then ''passed'' else ''failed'') else st_status (st j))"
  by (simp add: finish_step_def)

definition passed_prefix :: "vargs \<Rightarrow> step_key list \<Rightarrow> vstate \<Rightarrow> step_key \<Rightarrow> string" where
  "passed_prefix a ks s j = (if j \<in> set ks \<and> requested a j then ''passed'' else status s j)"

lemma burst_effect: "prepare_burst V s = (r, s') \<Longrightarrow> r = Inr () \<and> vs_steps s' = vs_steps s \<and> vs_failed s' = vs_failed s \<and> pw_trace (vs_world s') = pw_trace (vs_world s) \<and>
    dom (map_of (vs_context s)) \<subseteq> dom (map_of (vs_context s'))"
  by (auto simp: prepare_burst_def bindI_def in_world_def env_set_def updI_def update_Some_unfold dom_def update_conv)

lemma run_requested_cases:
  assumes "run_requested V a (k, label) s = (r, s')" "plain_failures (ve_os V)"
  shows "kept_run V s s' \<and>
    (r = Inr () \<and> vs_failed s' = vs_failed s \<and> status s' = passed_prefix a [k] s \<or>
     (\<exists>e. r = Inl e) \<and> vs_failed s' \<and> requested a k \<and> status s' = (status s)(k := ''failed'') \<or>
     (\<exists>e. r = Inl e \<and> not_runtime e) \<and> vs_failed s' = vs_failed s \<and> status s' = status s)"
proof (cases "requested a k")
  case False
  then show ?thesis using assms(1) by (auto simp: run_requested_def retI_def passed_prefix_def kept_run_refl)
next
  case True
  obtain q t where p: "(if k = Burst then prepare_burst V else retI ()) s = (q, t)" by fastforce
  have t: "q = Inr ()" "vs_steps t = vs_steps s" "vs_failed t = vs_failed s" "pw_trace (vs_world t) = pw_trace (vs_world s)" "dom (map_of (vs_context s)) \<subseteq> dom (map_of (vs_context t))"
    using p burst_effect[of V s q t] by (auto simp: retI_def split: if_splits)
  have r: "run_step V (k, label) t = (r, s')" using assms(1) True p t(1) by (auto simp: run_requested_def bindI_def)
  note c = run_step_cases[OF r assms(2)]
  have "kept_run V s s'" using c t unfolding kept_run_def by (auto simp: finish_status split: if_splits)
  then show ?thesis using c t True by (auto simp: finish_status passed_prefix_def fun_eq_iff)
qed

lemma steps_cases:
  assumes "forI kls (run_requested V a) s = (r, s')" "plain_failures (ve_os V)"
  shows "kept_run V s s' \<and>
    (r = Inr () \<and> vs_failed s' = vs_failed s \<and> status s' = passed_prefix a (map fst kls) s \<or>
     (\<exists>e pre k post. r = Inl e \<and> map fst kls = pre @ k # post \<and> vs_failed s' \<and> requested a k \<and> status s' = (passed_prefix a pre s)(k := ''failed'')) \<or>
     (\<exists>e. r = Inl e \<and> not_runtime e))"
  using assms(1)
proof (induction kls arbitrary: s)
  case Nil
  then show ?case by (auto simp: retI_def kept_run_refl passed_prefix_def)
next
  case (Cons kl kls)
  obtain k label where kl: "kl = (k, label)" by (cases kl)
  obtain q t where q: "run_requested V a (k, label) s = (q, t)" by fastforce
  note c = run_requested_cases[OF q assms(2)]
  show ?case
  proof (cases q)
    case (Inl e)
    then have "r = Inl e" "s' = t" using Cons.prems q kl by (auto simp: bindI_def)
    moreover have "passed_prefix a [] s = status s" by (simp add: passed_prefix_def fun_eq_iff)
    ultimately have "(\<exists>e'. r = Inl e' \<and> not_runtime e') \<or> vs_failed s' \<and> requested a k \<and> status s' = (passed_prefix a [] s)(k := ''failed'')" "kept_run V s s'"
      using c Inl by auto
    moreover have "map fst (kl # kls) = [] @ k # map fst kls" using kl by simp
    ultimately show ?thesis using \<open>r = Inl e\<close> by blast
  next
    case (Inr x)
    then have rest: "forI kls (run_requested V a) t = (r, s')" using Cons.prems q kl by (auto simp: bindI_def)
    have t: "vs_failed t = vs_failed s" "status t = passed_prefix a [k] s" "kept_run V s t" using c Inr by auto
    have p: "passed_prefix a ks t = passed_prefix a (k # ks) s" for ks using t(2) by (auto simp: passed_prefix_def fun_eq_iff)
    have k: "kept_run V s s'" using Cons.IH[OF rest] kept_run_trans[OF t(3)] by blast
    consider (all) "r = Inr ()" "vs_failed s' = vs_failed t" "status s' = passed_prefix a (map fst kls) t"
      | (failed) e pre j post where "r = Inl e" "map fst kls = pre @ j # post" "vs_failed s'" "requested a j" "status s' = (passed_prefix a pre t)(j := ''failed'')"
      | (other) e where "r = Inl e" "not_runtime e"
      using Cons.IH[OF rest] by blast
    then show ?thesis
    proof cases
      case all
      then show ?thesis using k t(1) p kl by simp
    next
      case failed
      then have "map fst (kl # kls) = (k # pre) @ j # post" "status s' = (passed_prefix a (k # pre) s)(j := ''failed'')" using p kl by simp_all
      then show ?thesis using k failed by blast
    next
      case other
      then show ?thesis using k by blast
    qed
  qed
qed


subsection \<open>The settings\<close>

definition grows :: "(settings, unit) io \<Rightarrow> bool" where
  "grows m \<longleftrightarrow> (\<forall>c r c'. m c = (r, c') \<longrightarrow> dom (map_of c) \<subseteq> dom (map_of c'))"

lemma grows_bind: "grows m \<Longrightarrow> (\<And>x. grows (f x)) \<Longrightarrow> grows (bindI m f)"
  unfolding grows_def bindI_def by (auto split: prod.splits sum.splits) blast

lemma grows_lift_bind: "(\<And>x. grows (f x)) \<Longrightarrow> grows (bindI (liftI r) f)"
  by (auto simp: grows_def bindI_def liftI_def split: sum.splits)

lemma copy_setting_grows: "grows (copy_setting source kv)"
proof -
  have "grows (if b then retI () else updI (AList.update k v))" for b k v by (auto simp: grows_def retI_def updI_def update_conv)
  then show ?thesis unfolding copy_setting_def by (cases kv) (auto intro: grows_lift_bind)
qed

lemma copy_settings_grows: "grows (copy_settings source kvs)"
  unfolding copy_settings_def
proof (induction kvs)
  case Nil
  then show ?case by (simp add: grows_def retI_def)
next
  case (Cons kv kvs)
  then show ?case by (simp add: grows_bind copy_setting_grows)
qed

lemma apply_snapshot_grows: "grows (apply_snapshot snapshot)"
  unfolding apply_snapshot_def by (intro grows_lift_bind grows_bind copy_settings_grows)

lemma dget_plain: "dget v k = Inl e \<Longrightarrow> not_runtime e"
  by (cases v) (auto simp: dget_def not_runtime_def is_runtime_err_def split: option.splits)

lemma copy_settings_raises: "raises not_runtime (copy_settings source kvs)"
  unfolding copy_settings_def copy_setting_def by (rule raises_for) (auto intro!: raises_intro dest: dget_plain)

lemma apply_snapshot_raises: "raises not_runtime (apply_snapshot snapshot)"
  unfolding apply_snapshot_def by (intro raises_intro copy_settings_raises) (auto dest: dget_plain)

lemma decode_text_plain: "decode_text b = Inl e \<Longrightarrow> not_runtime e"
  by (auto simp: decode_text_def decode_utf8_def bindR_def not_runtime_def is_runtime_err_def split: if_splits)

lemma update_context_cases:
  assumes "update_context_from_health_snapshot_template tty c p w = (q, w')"
  shows "pw_trace w' = pw_trace w \<and> (\<exists>r c'. q = Inr (r, c') \<and> dom (map_of c) \<subseteq> dom (map_of c') \<and> (\<forall>e. r = Inl e \<longrightarrow> not_runtime e))"
proof -
  have "\<exists>r c'. apply_snapshot j c = (r, c') \<and> dom (map_of c) \<subseteq> dom (map_of c') \<and> (\<forall>e. r = Inl e \<longrightarrow> not_runtime e)" for j
    using apply_snapshot_grows[of j] apply_snapshot_raises[of j] unfolding grows_def raises_def by (metis prod.collapse)
  then show ?thesis using assms unfolding update_context_from_health_snapshot_template_def
    by (auto simp: bindI_def readI_def retI_def console_warn_def emit_def print_line_def updI_def split: option.splits sum.splits dest: decode_text_plain)
qed

definition steady :: "vstate \<Rightarrow> vstate \<Rightarrow> bool" where
  "steady s s' \<longleftrightarrow> vs_steps s' = vs_steps s \<and> vs_failed s' = vs_failed s \<and> dom (map_of (vs_context s)) \<subseteq> dom (map_of (vs_context s')) \<and> (\<exists>ts. pw_trace (vs_world s') = pw_trace (vs_world s) @ ts)"

lemma steady_kept: "steady s s' \<Longrightarrow> kept_run V s s'"
  by (auto simp: steady_def kept_run_def)

lemma steady_trans: "steady s t \<Longrightarrow> steady t u \<Longrightarrow> steady s u"
  by (fastforce simp: steady_def)

definition careful :: "'a vio \<Rightarrow> bool" where
  "careful m \<longleftrightarrow> (\<forall>s r s'. m s = (r, s') \<longrightarrow> steady s s' \<and> (\<forall>e. r = Inl e \<longrightarrow> not_runtime e))"

lemma careful_bind: "careful m \<Longrightarrow> (\<And>x. careful (f x)) \<Longrightarrow> careful (bindI m f)"
  unfolding careful_def bindI_def by (auto split: prod.splits sum.splits intro: steady_trans) (metis steady_trans)+

lemma careful_world: "issues (\<lambda>_. True) m \<Longrightarrow> raises not_runtime m \<Longrightarrow> careful (in_world m)"
  by (auto simp: careful_def in_world_ok steady_def raises_def dest: issuesD)

lemma careful_if: "careful m \<Longrightarrow> careful n \<Longrightarrow> careful (if b then m else n)"
  by simp

lemma snapshot_careful:
  assumes "plain_failures (ve_os V)"
  shows "careful (snapshot_template V)"
proof -
  have u: "careful (bindI (readI vs_context) (\<lambda>c. bindI (in_world (update_context_from_health_snapshot_template tty c p)) (\<lambda>(r, c'). bindI (updI (vs_context_update (\<lambda>_. c'))) (\<lambda>_. bindI (liftI r) f))))"
    if "\<And>x. careful (f x)" for tty p f
  proof -
    have "steady s s' \<and> (\<forall>e. r = Inl e \<longrightarrow> not_runtime e)"
      if b: "bindI (readI vs_context) (\<lambda>c. bindI (in_world (update_context_from_health_snapshot_template tty c p)) (\<lambda>(r, c'). bindI (updI (vs_context_update (\<lambda>_. c'))) (\<lambda>_. bindI (liftI r) f))) s = (r, s')"
      for s r s'
    proof -
      obtain q w where u: "update_context_from_health_snapshot_template tty (vs_context s) p (vs_world s) = (q, w)" by fastforce
      obtain x c where x: "pw_trace w = pw_trace (vs_world s)" "q = Inr (x, c)" "dom (map_of (vs_context s)) \<subseteq> dom (map_of c)" "\<forall>e. x = Inl e \<longrightarrow> not_runtime e"
        using update_context_cases[OF u] by blast
      let ?t = "s\<lparr>vs_world := w, vs_context := c\<rparr>"
      have t: "steady s ?t" using x by (simp add: steady_def)
      have "(case x of Inl e \<Rightarrow> (Inl e, ?t) | Inr y \<Rightarrow> f y ?t) = (r, s')" using b u x(2) by (auto simp: bindI_def readI_def in_world_def updI_def liftI_def split: sum.splits)
      then show ?thesis using t x(4) \<open>\<And>x. careful (f x)\<close> unfolding careful_def by (cases x) (auto dest: steady_trans[OF t])
    qed
    then show ?thesis unfolding careful_def by blast
  qed
  show ?thesis unfolding snapshot_template_def Let_def
    by (intro careful_bind[OF careful_world] careful_if u careful_world issues_intro raises_intro raises_streaming[OF assms])
qed


subsection \<open>The worksheet\<close>

fun needed :: "wline \<Rightarrow> string list" where
  "needed (Plain s) = []"
| "needed (Filled a k b) = [k]"

lemma render_ok: "set (concat (map needed ls)) \<subseteq> dom (map_of c) \<Longrightarrow> \<exists>h. mapR (render_line c) ls = Inr h"
proof (induction ls)
  case (Cons l ls)
  then show ?case by (cases l) (auto simp: bindR_def)
qed simp

lemma worksheet_keys: "set (concat (map needed worksheet_head)) \<subseteq> set [''GeneratedAt'', ''Operator'', ''Host'', ''RepoRoot'', ''RunDirectory'', ''Commit'', ''DsnUsed'', ''SmokeQuery'', ''LongQuery'',
    ''OdbcPoolSize'', ''OdbcAsyncWorkerCount'', ''OdbcAsyncMaxPendingRequests'', ''OdbcResultEncoding'', ''SqlQueueMaxSize'', ''SqlQueueMaxWorkers'', ''SqlQueueTimeoutSec'',
    ''PoolAcquireTimeoutSec'', ''CircuitBreakerFailureThreshold'', ''CircuitBreakerResetSec'', ''RunOdbcBurstTests'', ''DriverFamily'', ''NativeAdaptiveEligibility'', ''DriverTuningRecommendation'']"
  by code_simp

lemma context_keys: "set (concat (map needed worksheet_head)) \<subseteq> dom (map_of (validation_context g p d c e))"
proof -
  have "dom (map_of (validation_context g p d c e)) = set (map fst (validation_context g p d c e))" by (simp add: dom_map_of_conv_image_fst)
  moreover have "map fst (validation_context g p d c e) = [''GeneratedAt'', ''Operator'', ''Host'', ''RepoRoot'', ''RunDirectory'', ''Commit'', ''DsnUsed'', ''SmokeQuery'', ''LongQuery'',
    ''OdbcPoolSize'', ''OdbcAsyncWorkerCount'', ''OdbcAsyncMaxPendingRequests'', ''OdbcResultEncoding'', ''SqlQueueMaxSize'', ''SqlQueueMaxWorkers'', ''SqlQueueTimeoutSec'',
    ''PoolAcquireTimeoutSec'', ''CircuitBreakerFailureThreshold'', ''CircuitBreakerResetSec'', ''RunOdbcBurstTests'', ''DriverFamily'', ''NativeAdaptiveEligibility'', ''DriverTuningRecommendation'']"
    unfolding validation_context_def Let_def list.map fst_conv by (rule refl)
  ultimately show ?thesis using worksheet_keys by metis
qed

lemma report_exists: "set (concat (map needed worksheet_head)) \<subseteq> dom (map_of c) \<Longrightarrow> \<exists>report. build_validation_report c st = Inr report"
  unfolding build_validation_report_def bindR_ok by (drule render_ok) blast

lemma emits_run: "forI ls (emit tty c) w = (r, w') \<Longrightarrow> r = Inr () \<and> pw_files w' = pw_files w \<and> pw_trace w' = pw_trace w"
  by (induction ls arbitrary: w) (auto simp: retI_def bindI_def emit_def print_line_def updI_def)

lemma write_worksheet_run:
  assumes "write_worksheet V path s = (r, s')" "build_validation_report (vs_context s) (vs_steps s) = Inr report"
  shows "vs_context s' = vs_context s \<and> vs_steps s' = vs_steps s \<and> vs_failed s' = vs_failed s \<and> pw_trace (vs_world s') = pw_trace (vs_world s) \<and>
    (\<not> has_surrogate report \<longrightarrow> r = Inr () \<and> pw_files (vs_world s') path = Some report)"
proof (cases "has_surrogate report")
  case True
  then show ?thesis using assms by (auto simp: write_worksheet_def write_utf8_def bindI_def checkI_def in_world_def write_bytes_def updI_def raiseI_def encode_utf8_def)
next
  case False
  let ?ls = "[''Validation worksheet: '' @ path, ''Run artifacts directory: '' @ ve_directory V, ''Burst health snapshots are written automatically when --run-burst or --all is used.'']"
  let ?w = "(vs_world s)\<lparr>pw_files := (pw_files (vs_world s))(path \<mapsto> report), pw_log := pw_log (vs_world s) @ [[]]\<rparr>"
  have "in_world (forI ?ls (emit (ve_tty V) (esc_seq ''90''))) (s\<lparr>vs_world := ?w\<rparr>) = (r, s')"
    using assms False by (simp add: write_worksheet_def write_utf8_def bindI_def checkI_def in_world_def write_bytes_def updI_def liftI_def encode_utf8_def print_line_def)
  then obtain w where w: "forI ?ls (emit (ve_tty V) (esc_seq ''90'')) ?w = (r, w)" "s' = s\<lparr>vs_world := w\<rparr>" unfolding in_world_ok by auto
  show ?thesis using emits_run[OF w(1)] w(2) by simp
qed

subsection \<open>The whole run\<close>

definition all_passed :: "vargs \<Rightarrow> vsteps \<Rightarrow> bool" where
  "all_passed a st \<longleftrightarrow> (\<forall>k. st_status (st k) = (if requested a k then ''passed'' else idle_status k))"

definition stopped_at :: "vargs \<Rightarrow> vsteps \<Rightarrow> step_key \<Rightarrow> bool" where
  "stopped_at a st k \<longleftrightarrow> (\<exists>pre post. map fst step_labels = pre @ k # post \<and> requested a k \<and>
     (\<forall>j. st_status (st j) = (if j = k then ''failed'' else if \<not> requested a j then idle_status j else if j \<in> set pre then ''passed'' else ''pending'')))"

lemma start_status: "status (validation_start V a g c w) j = (if requested a j then ''pending'' else idle_status j)"
  by (simp add: validation_start_def initial_steps_def)

lemma every_step: "j \<in> set (map fst step_labels)"
  by (cases j) (simp_all add: step_labels_def)

lemma body_cases:
  assumes "bindI (snapshot_template V) (\<lambda>_. forI step_labels (run_requested V a)) (validation_start V a g c w) = (q, t)" "plain_failures (ve_os V)"
  shows "kept_run V (validation_start V a g c w) t \<and>
    (q = Inr () \<and> \<not> vs_failed t \<and> all_passed a (vs_steps t) \<or> (\<exists>e. q = Inl e) \<and> vs_failed t \<and> (\<exists>k. stopped_at a (vs_steps t) k) \<or> (\<exists>e. q = Inl e \<and> not_runtime e))"
proof -
  let ?s = "validation_start V a g c w"
  obtain p u where p: "snapshot_template V ?s = (p, u)" by fastforce
  have u: "steady ?s u" "\<forall>e. p = Inl e \<longrightarrow> not_runtime e" using snapshot_careful[OF assms(2)] p unfolding careful_def by blast+
  have st: "status u = status ?s" "\<not> vs_failed u" using u(1) by (auto simp: steady_def validation_start_def)
  show ?thesis
  proof (cases p)
    case (Inl e)
    then show ?thesis using assms(1) p u steady_kept by (auto simp: bindI_def)
  next
    case (Inr x)
    then have f: "forI step_labels (run_requested V a) u = (q, t)" using assms(1) p by (simp add: bindI_def)
    have k: "kept_run V ?s t" using steps_cases[OF f assms(2)] kept_run_trans[OF steady_kept[OF u(1)]] by blast
    have pp: "passed_prefix a ks u j = (if \<not> requested a j then idle_status j else if j \<in> set ks then ''passed'' else ''pending'')" for ks j
      using st(1) start_status[of V a g c w j] by (auto simp: passed_prefix_def fun_eq_iff)
    consider (all) "q = Inr ()" "vs_failed t = vs_failed u" "status t = passed_prefix a (map fst step_labels) u"
      | (failed) e pre j post where "q = Inl e" "map fst step_labels = pre @ j # post" "vs_failed t" "requested a j" "status t = (passed_prefix a pre u)(j := ''failed'')"
      | (other) e where "q = Inl e" "not_runtime e"
      using steps_cases[OF f assms(2)] by blast
    then show ?thesis
    proof cases
      case all
      then have "all_passed a (vs_steps t)" unfolding all_passed_def using every_step fun_cong[OF all(3)] by (simp add: pp)
      then show ?thesis using all k st(2) by simp
    next
      case failed
      have "stopped_at a (vs_steps t) j" unfolding stopped_at_def using failed(2,4) fun_cong[OF failed(5)] by (intro exI[of _ pre] exI[of _ post]) (simp add: pp)
      then show ?thesis using failed k by blast
    next
      case other
      then show ?thesis using k by blast
    qed
  qed
qed

lemma validation_run_parts:
  assumes "bindI (snapshot_template V) (\<lambda>_. forI step_labels (run_requested V a)) s = (q, t)" "write_worksheet V path t = (x, u)"
  shows "validation_run V a path s = ((case x of Inl e \<Rightarrow> Inl e | Inr _ \<Rightarrow>
    (case q of Inl e \<Rightarrow> if is_runtime_err e then Inr (if vs_failed u then 1 else 0) else Inl e | Inr _ \<Rightarrow> Inr (if vs_failed u then 1 else 0))), u)"
  using assms unfolding validation_run_def by (auto simp: bindI_def finallyI_def catchI_def retI_def raiseI_def readI_def split: sum.splits)

text \<open>
  C38. The worksheet of an operational validation is truthful. However a run ends, its report exists and, unless it holds a text that UTF-8 cannot
  encode, it is in the file; a step that it shows as passed had its command run and answered with exit code 0. Exit code 0 means that every
  requested step passed; exit code 1 means that one step failed, all requested steps before it passed and the ones after it were not run.
\<close>

theorem validation_worksheet:
  assumes "plain_failures (ve_os V)" "validation_run V a path (validation_start V a generated commit w) = (r, s')"
  shows "\<exists>report. build_validation_report (vs_context s') (vs_steps s') = Inr report \<and> (\<not> has_surrogate report \<longrightarrow> pw_files (vs_world s') path = Some report) \<and>
    (\<forall>code. r = Inr code \<longrightarrow> code = 0 \<and> all_passed a (vs_steps s') \<or> code = 1 \<and> (\<exists>k. stopped_at a (vs_steps s') k)) \<and>
    (\<forall>k. st_status (vs_steps s' k) = ''passed'' \<longrightarrow> ran_ok V k (vs_world s'))"
proof -
  let ?s = "validation_start V a generated commit w"
  obtain q t where q: "bindI (snapshot_template V) (\<lambda>_. forI step_labels (run_requested V a)) ?s = (q, t)" by fastforce
  note b = body_cases[OF q assms(1)]
  have "dom (map_of (vs_context ?s)) \<subseteq> dom (map_of (vs_context t))" using b by (simp add: kept_run_def)
  then obtain report where report: "build_validation_report (vs_context t) (vs_steps t) = Inr report"
    using report_exists context_keys unfolding validation_start_def by (metis order_trans vstate.select_convs(2))
  obtain x u where x: "write_worksheet V path t = (x, u)" by fastforce
  note wr = write_worksheet_run[OF x report]
  have r: "s' = u" "r = (case x of Inl e \<Rightarrow> Inl e | Inr _ \<Rightarrow>
      (case q of Inl e \<Rightarrow> if is_runtime_err e then Inr (if vs_failed u then 1 else 0) else Inl e | Inr _ \<Rightarrow> Inr (if vs_failed u then 1 else 0)))"
    using assms(2) validation_run_parts[OF q x] by simp_all
  have "ran_ok V k (vs_world s')" if "st_status (vs_steps s' k) = ''passed''" for k
  proof -
    have "status t k = ''passed''" "status ?s k \<noteq> ''passed''" using that wr r(1) start_status[of V a generated commit w k] by (auto simp: idle_status_def split: if_splits)
    then have "ran_ok V k (vs_world t)" using b unfolding kept_run_def by blast
    then show ?thesis using wr r(1) by (simp add: ran_ok_later[where ts = "[]"])
  qed
  moreover have "code = 0 \<and> all_passed a (vs_steps s') \<or> code = 1 \<and> (\<exists>k. stopped_at a (vs_steps s') k)" if "r = Inr code" for code
    using that r(2) b wr unfolding r(1) not_runtime_def by (auto split: sum.splits if_splits)
  ultimately show ?thesis using report wr r(1) by auto
qed


text \<open>Texts without the byte that every surrogate has\<close>

definition unmarked :: "string \<Rightarrow> bool" where
  "unmarked s \<longleftrightarrow> CHR 0xED \<notin> set s"

lemma unmarked_append [simp]: "unmarked (s @ t) \<longleftrightarrow> unmarked s \<and> unmarked t"
  by (auto simp: unmarked_def)

definition unmarked_step :: "vstep \<Rightarrow> bool" where
  "unmarked_step x \<longleftrightarrow> list_all (\<lambda>s. unmarked s) [st_status x, st_command x, st_log x, st_started x, st_finished x]"

lemma unmarked_no_surrogate: "unmarked s \<Longrightarrow> \<not> has_surrogate s"
  by (induction s rule: has_surrogate.induct) (auto simp: unmarked_def)

lemma unmarked_join: "list_all unmarked ls \<Longrightarrow> unmarked (join newline ls)"
  by (induction newline ls rule: join.induct) (auto simp: unmarked_def)

fun unmarked_line :: "wline \<Rightarrow> bool" where
  "unmarked_line (Plain s) \<longleftrightarrow> unmarked s"
| "unmarked_line (Filled a k b) \<longleftrightarrow> unmarked a \<and> unmarked b"

lemma unmarked_rendered: "mapR (render_line c) ls = Inr hs \<Longrightarrow> list_all (\<lambda>(k, v). unmarked v) c \<Longrightarrow> list_all unmarked_line ls \<Longrightarrow> list_all unmarked hs"
proof (induction ls arbitrary: hs)
  case (Cons l ls)
  then show ?case by (cases l) (fastforce simp: bindR_ok list_all_iff split: option.splits dest: map_of_SomeD)+
qed simp

lemma unmarked_fixed: "list_all unmarked_line worksheet_head" "list_all unmarked worksheet_tail" "list_all unmarked artifacts_head"
  "list_all (\<lambda>(k, l). unmarked l) step_labels"
  by code_simp+

lemma unmarked_rows:
  assumes "list_all (\<lambda>(k, l). unmarked_step (st k)) step_labels"
  shows "list_all unmarked (map (status_row st) step_labels)" "list_all unmarked (map (artifact_row st) step_labels)"
proof -
  have "unmarked (status_row st kl) \<and> unmarked (artifact_row st kl)" if "kl \<in> set step_labels" for kl
  proof -
    have "unmarked_step (st (fst kl))" "unmarked (snd kl)" using that assms unmarked_fixed(4) by (auto simp: list_all_iff)
    then show ?thesis by (auto simp: status_row_def artifact_row_def unmarked_step_def unmarked_def case_prod_beta)
  qed
  then show "list_all unmarked (map (status_row st) step_labels)" "list_all unmarked (map (artifact_row st) step_labels)" by (simp_all add: list_all_iff)
qed

lemma unmarked_report:
  assumes "build_validation_report c st = Inr report" "list_all (\<lambda>(k, v). unmarked v) c" "list_all (\<lambda>(k, l). unmarked_step (st k)) step_labels"
  shows "\<not> has_surrogate report"
proof -
  obtain hs where hs: "mapR (render_line c) worksheet_head = Inr hs"
    and r: "report = join newline (hs @ map (status_row st) step_labels @ artifacts_head @ map (artifact_row st) step_labels @ worksheet_tail)"
    using assms(1) unfolding build_validation_report_def bindR_ok by blast
  show ?thesis unfolding r
    using unmarked_rendered[OF hs assms(2) unmarked_fixed(1)] unmarked_rows[OF assms(3)] unmarked_fixed(2,3) by (intro unmarked_no_surrogate unmarked_join) simp
qed

definition demo_venv :: venv where
  "demo_venv = \<lparr>ve_os = \<lparr>os_run = (\<lambda>ts args. Inr \<lparr>p_code = (if hd args = ''dart'' then 0 else 1), p_out = [], p_err = []\<rparr>), os_effect = (\<lambda>ts args fs. fs), os_list = (\<lambda>_. []),
     os_which = (\<lambda>_. None), os_fetch = (\<lambda>_. Inl FileNotFoundErr)\<rparr>, ve_tty = False, ve_now = (\<lambda>_. ''now''), ve_python = ''python'', ve_project = ''/p'', ve_directory = ''/p/run''\<rparr>"

definition demo_vargs :: vargs where
  "demo_vargs = \<lparr>va_smoke = True, va_burst = False, va_benchmark = False, va_streaming = False, va_matrix = False, va_all = False, va_skip_preflight = False, va_env_path = ''.env'', va_output_path = []\<rparr>"

definition demo_vstart :: vstate where
  "demo_vstart = validation_start demo_venv demo_vargs ''now'' ''c0ffee'' \<lparr>pw_files = (\<lambda>_. None), pw_trace = [], pw_log = [], pw_env = (\<lambda>_. None)\<rparr>"

lemma demo_body: "case bindI (snapshot_template demo_venv) (\<lambda>_. forI step_labels (run_requested demo_venv demo_vargs)) demo_vstart of (q, t) \<Rightarrow>
    q = Inl (RuntimeErr ''ODBC runtime failed.'') \<and> vs_failed t \<and> list_all (\<lambda>(k, v). unmarked v) (vs_context t) \<and>
    list_all (\<lambda>(k, l). unmarked_step (vs_steps t k)) step_labels"
  by code_simp

theorem validation_worksheet_witness:
  "\<exists>s' report. validation_run demo_venv demo_vargs ''/p/run/report.md'' demo_vstart = (Inr 1, s') \<and> build_validation_report (vs_context s') (vs_steps s') = Inr report \<and>
     pw_files (vs_world s') ''/p/run/report.md'' = Some report \<and> (\<exists>k. stopped_at demo_vargs (vs_steps s') k)"
proof -
  obtain q t where q: "bindI (snapshot_template demo_venv) (\<lambda>_. forI step_labels (run_requested demo_venv demo_vargs)) demo_vstart = (q, t)" by fastforce
  have t: "q = Inl (RuntimeErr ''ODBC runtime failed.'')" "vs_failed t" "list_all (\<lambda>(k, v). unmarked v) (vs_context t)" "list_all (\<lambda>(k, l). unmarked_step (vs_steps t k)) step_labels"
    using demo_body q by auto
  obtain x s' where x: "write_worksheet demo_venv ''/p/run/report.md'' t = (x, s')" by fastforce
  have p: "plain_failures (ve_os demo_venv)" by (simp add: plain_failures_def demo_venv_def)
  note run = validation_run_parts[OF q x]
  obtain report where w: "build_validation_report (vs_context s') (vs_steps s') = Inr report" "\<not> has_surrogate report \<longrightarrow> pw_files (vs_world s') ''/p/run/report.md'' = Some report"
      "\<forall>code. fst (validation_run demo_venv demo_vargs ''/p/run/report.md'' demo_vstart) = Inr code \<longrightarrow> code = 0 \<and> all_passed demo_vargs (vs_steps s') \<or> code = 1 \<and> (\<exists>k. stopped_at demo_vargs (vs_steps s') k)"
    using validation_worksheet[OF p run[unfolded demo_vstart_def]] unfolding demo_vstart_def[symmetric] run by auto
  obtain rep where rep: "build_validation_report (vs_context t) (vs_steps t) = Inr rep" using report_exists[of "vs_context t"] w(1) x by (auto simp: write_worksheet_def bindI_def checkI_def split: sum.splits)
  note wr = write_worksheet_run[OF x rep]
  have "\<not> has_surrogate rep" using unmarked_report[OF rep t(3,4)] .
  then have "validation_run demo_venv demo_vargs ''/p/run/report.md'' demo_vstart = (Inr 1, s')" "report = rep" using run wr w(1) t(1,2) rep by (simp_all add: is_runtime_err_def)
  then show ?thesis using w \<open>\<not> has_surrogate rep\<close> by auto
qed


subsection \<open>The release gate\<close>

text \<open>What \<open>argparse\<close> documents: a command line with an unknown option ends the program with exit code 2.\<close>

definition rejects_unknown :: "os_env \<Rightarrow> string \<Rightarrow> bool" where
  "rejects_unknown S python \<longleftrightarrow> (\<forall>argv args ts p. resolve_command S ([python, ''tool/odbc/run_odbc_operational_validation.py''] @ argv) = Inr args \<and>
     list_ex (\<lambda>x. startswith x ''--'' \<and> \<not> known_option x) argv \<and> os_run S ts args = Inr p \<longrightarrow> p_code p = 2)"

lemma gate_passes_unknown: "list_ex (\<lambda>x. startswith x ''--'' \<and> \<not> known_option x) (validation_argv out)"
proof -
  have "startswith ''--output-directory'' ''--'' \<and> \<not> known_option ''--output-directory''" by code_simp
  then show ?thesis by (simp add: validation_argv_def)
qed

text \<open>
  C39. The gate passes an option that the validation does not have, so that a gate run with
  \<open>--run-operational-validation\<close> that ends normally has exit code 1, whatever the other steps answer.
\<close>

theorem gate_with_validation_fails:
  assumes "rejects_unknown S python" "ga_validation a" "gate_main S python project a w = (Inr code, w')"
  shows "code = 1"
proof -
  let ?cmd = "validation_command python (gate_output project a)" and ?out = "gate_output project a"
  obtain steps v v' where s: "gate_steps S python ?out a v = (Inr steps, v')" "code = (if list_ex (\<lambda>(_, c). c \<noteq> 0) steps then 1 else 0)"
    using assms(3) unfolding gate_main_def Let_def ok_iff by blast
  obtain s1 s2 s3 s4 s5 s6 u u' where s5: "optional_step (ga_validation a) (gate_step S ?out ''operational_validation'' ''operational_validation.log'' ?cmd) u = (Inr s5, u')"
      "steps = s1 @ s2 @ [s3, s4] @ s5 @ s6"
    using s(1) unfolding gate_steps_def ok_iff by blast
  obtain c t t' where c: "s5 = [(''operational_validation'', c)]" "run_streaming S ?cmd (Some (path_join ?out ''operational_validation.log'')) t = (Inr c, t')"
    using s5(1) assms(2) unfolding optional_step_def gate_step_def gate_command_def by (auto simp: ok_iff)
  obtain args ts p where p: "resolve_command S ?cmd = Inr args" "os_run S ts args = Inr p" "p_code p = c" using streaming_code[OF c(2)] by blast
  have "p_code p = 2" using assms(1) p(1,2) gate_passes_unknown[of ?out] unfolding rejects_unknown_def validation_command_def by blast
  then have "c = 2" using p(3) by simp
  then show ?thesis using s(2) c(1) s5(2) by simp
qed

definition demo_gate_os :: os_env where
  "demo_gate_os = \<lparr>os_run = (\<lambda>ts args. Inr \<lparr>p_code = (if hd args = ''python'' then 2 else 0), p_out = [], p_err = []\<rparr>), os_effect = (\<lambda>ts args fs. fs), os_list = (\<lambda>_. []),
     os_which = (\<lambda>_. None), os_fetch = (\<lambda>_. Inl FileNotFoundErr)\<rparr>"

definition demo_gargs :: gargs where
  "demo_gargs = \<lparr>ga_env_path = ''.env'', ga_skip_analyze = True, ga_skip_unit_tests = True, ga_require_columnar = False, ga_benchmark = False, ga_validation = True, ga_output = ''out''\<rparr>"

definition demo_gworld :: pworld where
  "demo_gworld = \<lparr>pw_files = (\<lambda>_. None), pw_trace = [], pw_log = [], pw_env = (\<lambda>_. None)\<rparr>"

lemma demo_gate_returns: "case fst (gate_main demo_gate_os ''python'' ''/p'' demo_gargs demo_gworld) of Inl e \<Rightarrow> False | Inr code \<Rightarrow> True"
  by code_simp

lemma demo_rejects: "rejects_unknown demo_gate_os ''python''"
proof -
  have "resolve_command demo_gate_os ([''python'', ''tool/odbc/run_odbc_operational_validation.py''] @ argv) = Inr args \<Longrightarrow> hd args = ''python''" for argv args
  proof -
    have "\<not> is_batch ''python'' \<and> canonical_windows_executable ''python'' = ''python''" by code_simp
    then show "resolve_command demo_gate_os ([''python'', ''tool/odbc/run_odbc_operational_validation.py''] @ argv) = Inr args \<Longrightarrow> hd args = ''python''"
      by (auto simp: resolve_command_def demo_gate_os_def)
  qed
  then show ?thesis unfolding rejects_unknown_def by (auto simp: demo_gate_os_def)
qed

theorem gate_with_validation_fails_witness: "\<exists>w'. gate_main demo_gate_os ''python'' ''/p'' demo_gargs demo_gworld = (Inr 1, w')"
proof -
  obtain code w' where g: "gate_main demo_gate_os ''python'' ''/p'' demo_gargs demo_gworld = (Inr code, w')"
    using demo_gate_returns by (cases "gate_main demo_gate_os ''python'' ''/p'' demo_gargs demo_gworld") (auto split: sum.splits)
  moreover have "code = 1" using gate_with_validation_fails[OF demo_rejects _ g] by (simp add: demo_gargs_def)
  ultimately show ?thesis by blast
qed

end
