(* ===== verification/Bench_Commands.thy ===== *)
theory Bench_Commands
  imports Bench_Suite Bench_Migrate
begin

text \<open>
  The small commands of \<open>tool/benchmarks\<close>: \<open>odbc_async_benchmark.py\<close>, \<open>odbc_streaming_benchmark.py\<close>, \<open>odbc_driver_matrix_benchmark.py\<close>,
  \<open>migrate_benchmark_logs.py\<close> and \<open>benchmark_evolution_report.py\<close>. Paths are relative to the project. The printed lines are left out.
\<close>

subsection \<open>One native benchmark\<close>

record native_args =
  na_benchmark_path :: string
  na_env_path :: string
  na_remainder :: "string list"

definition native_main :: "bench \<Rightarrow> string \<Rightarrow> native_args \<Rightarrow> int pio" where
  "native_main B mode a = bindI (bootstrap_env (na_env_path a)) (\<lambda>_. bindI (native_root B True) (\<lambda>package_root.
     case package_root of None \<Rightarrow> retI 2
     | Some base \<Rightarrow> bindI (readI pw_env) (\<lambda>env.
         bindI ((if mode = ''async'' then run_odbc_async_benchmark else run_odbc_streaming_benchmark) (b_os B) (b_nt B) (b_clock B) base
           (''artifacts/odbc_'' @ mode @ ''_benchmark.log'') (forward_script_args True (na_remainder a)) (Some (na_benchmark_path a)) env) (\<lambda>(code, _).
         retI code))))"

definition odbc_async_main :: "bench \<Rightarrow> native_args \<Rightarrow> int pio" where
  "odbc_async_main B a = native_main B ''async'' a"

definition odbc_streaming_main :: "bench \<Rightarrow> native_args \<Rightarrow> int pio" where
  "odbc_streaming_main B a = native_main B ''streaming'' a"

subsection \<open>The driver matrix\<close>

definition invoke_benchmark :: "os_env \<Rightarrow> string \<Rightarrow> string \<Rightarrow> string option \<Rightarrow> int pio" where
  "invoke_benchmark S python script_name output_directory = (let cmd = [python, path_join ''tool/benchmarks'' script_name] in
     case output_directory of None \<Rightarrow> bindI (run_process S cmd) (\<lambda>p. retI (p_code p)) | Some _ \<Rightarrow> run_streaming S cmd None)"

record driver =
  dr_name :: string
  dr_slug :: string
  dr_dsn :: string

definition matrix_status :: "int \<Rightarrow> string" where
  "matrix_status code = (if code = 0 then ''pass'' else if code = 2 then ''inconclusive'' else ''fail'')"

definition matrix_report :: "string \<Rightarrow> int \<Rightarrow> dict \<Rightarrow> string \<Rightarrow> json" where
  "matrix_report mode code metrics log_file = JObj [(''mode'', JStr mode), (''exit_code'', JInt code), (''status'', JStr (matrix_status code)), (''metrics'', JObj metrics), (''log_file'', JStr log_file)]"

definition matrix_mode :: "bench \<Rightarrow> string \<Rightarrow> string \<Rightarrow> string \<Rightarrow> environ \<Rightarrow> string \<Rightarrow> (int \<times> json) pio" where
  "matrix_mode B base destination slug env mode = (let log_file = ''driver_matrix_'' @ slug @ ''_'' @ mode @ ''.log'' in
     bindI ((if mode = ''async'' then run_odbc_async_benchmark else run_odbc_streaming_benchmark) (b_os B) (b_nt B) (b_clock B) base (path_join destination log_file) [] None env) (\<lambda>(code, metrics, _).
     retI (code, matrix_report mode code metrics log_file)))"

definition run_benchmark_for_driver :: "bench \<Rightarrow> string option \<Rightarrow> driver \<Rightarrow> unit pio" where
  "run_benchmark_for_driver B output_directory d = (if dr_dsn d = [] then retI () else
     bindI (native_root B True) (\<lambda>package_root. case package_root of None \<Rightarrow> raiseI (RuntimeErr ''Locked odbc_fast package not found'')
     | Some base \<Rightarrow> bindI (readI pw_env) (\<lambda>env.
         let destination = (case output_directory of Some o' \<Rightarrow> o' | None \<Rightarrow> ''artifacts/driver_matrix'');
             child = env(''ODBC_TEST_DSN'' \<mapsto> dr_dsn d, ''ODBC_BENCH_DRIVER_DSN'' \<mapsto> dr_dsn d) in
         bindI (mapI (matrix_mode B base destination (dr_slug d) child) [''async'', ''streaming'']) (\<lambda>reports.
         bindI (write_json (path_join destination (dr_slug d @ ''_summary.json'')) (JObj [(''matrix_version'', JInt 1), (''driver'', JStr (dr_name d)), (''scenarios'', JList (map snd reports))])) (\<lambda>_.
         guardI (list_ex (\<lambda>r. fst r \<noteq> 0) reports) (RuntimeErr (dr_name d @ '': one or more benchmark scenarios failed or are inconclusive'')))))))"

definition matrix_drivers :: "environ \<Rightarrow> driver list" where
  "matrix_drivers env = [
     \<lparr>dr_name = ''SQL Anywhere'', dr_slug = ''sql_anywhere'', dr_dsn = effective_env env [''ODBC_TEST_DSN'', ''ODBC_DSN'']\<rparr>,
     \<lparr>dr_name = ''SQL Server'', dr_slug = ''sql_server'', dr_dsn = effective_env env [''ODBC_TEST_DSN_SQL_SERVER'', ''ODBC_DSN_SQL_SERVER'']\<rparr>,
     \<lparr>dr_name = ''PostgreSQL'', dr_slug = ''postgresql'', dr_dsn = effective_env env [''ODBC_TEST_DSN_POSTGRESQL'', ''ODBC_DSN_POSTGRESQL'']\<rparr>]"

text \<open>Whether the driver failed; other errors than \<open>RuntimeError\<close> end the command.\<close>

definition try_driver :: "bench \<Rightarrow> string option \<Rightarrow> driver \<Rightarrow> bool pio" where
  "try_driver B output_directory d = catchI (bindI (run_benchmark_for_driver B output_directory d) (\<lambda>_. retI False)) (\<lambda>e. case e of RuntimeErr _ \<Rightarrow> retI True | _ \<Rightarrow> raiseI e)"

definition matrix_main :: "bench \<Rightarrow> string \<Rightarrow> string \<Rightarrow> int pio" where
  "matrix_main B env_path output_directory = bindI (import_dotenv_if_present env_path) (\<lambda>_. bindI (readI pw_env) (\<lambda>env.
     let drivers = matrix_drivers env in
     if list_all (\<lambda>d. dr_dsn d = []) drivers then retI 2 else
     bindI (mapI (try_driver B (if output_directory = [] then None else Some output_directory)) drivers) (\<lambda>failed.
     retI (if True \<in> set failed then 1 else 0))))"

subsection \<open>Migration of the old logs\<close>

definition LEGACY_LOGS_DIR :: string where "LEGACY_LOGS_DIR = ''benchmark_logs''"

definition HISTORY_DIR :: string where "HISTORY_DIR = ''benchmarks/history''"

text \<open>\<open>sorted(dir.glob("*/summary.json"))\<close>: paths are ordered by their components.\<close>

definition discover_legacy_summaries :: "os_env \<Rightarrow> string \<Rightarrow> string list pio" where
  "discover_legacy_summaries S source_dir = bindI (files_below S source_dir) (\<lambda>paths. readI (\<lambda>w.
     filter (\<lambda>p. pw_files w p \<noteq> None) (map (\<lambda>name. path_join (path_join source_dir name) ''summary.json'') (sort (subdirectories source_dir paths)))))"

definition migrate_one :: "string \<Rightarrow> string \<Rightarrow> unit pio" where
  "migrate_one output_dir source = bindI (migrate_legacy_file source output_dir) (\<lambda>destination.
     bindI (read_json destination) (\<lambda>payload. bindI (liftI (bindR (dget_or payload ''suites'' (JList [])) len_of)) (\<lambda>_. retI ())))"

definition migrate_main :: "os_env \<Rightarrow> string \<Rightarrow> string \<Rightarrow> bool \<Rightarrow> int pio" where
  "migrate_main S source_dir output_dir dry_run = bindI (discover_legacy_summaries S source_dir) (\<lambda>sources.
     bindI (if dry_run then retI () else forI sources (migrate_one output_dir)) (\<lambda>_. retI 0))"

subsection \<open>The evolution of the results\<close>

record RunReport =
  rr_run_id :: string
  rr_source :: string
  rr_captured_at :: string
  rr_suite_count :: nat
  rr_metric_count :: nat
  rr_regression_count :: nat
  rr_diffs :: "MetricDiff list"
  rr_excluded :: "(string \<times> string) list"
  rr_approval :: bool

definition discover_summaries :: "os_env \<Rightarrow> string \<Rightarrow> string list pio" where
  "discover_summaries S base = bindI (files_below S base) (\<lambda>paths. readI (\<lambda>w.
     filter (\<lambda>p. pw_files w p \<noteq> None) (map (\<lambda>name. path_join (path_join base name) ''summary.json'') (rev (sort (subdirectories base paths))))))"

definition controlled_approval :: "json \<Rightarrow> bool res" where
  "controlled_approval summary = bindR (dget summary ''qualification'') (\<lambda>q. if \<not> py_eq q (JStr ''pass'') then Inr False
     else bindR (dget_or summary ''comparison'' (JObj [])) approved_controlled_comparison)"

definition build_run_report :: "string \<Rightarrow> dict \<Rightarrow> pyfloat \<Rightarrow> (string \<times> string) list \<Rightarrow> RunReport pio" where
  "build_run_report summary_path baseline_metrics threshold excluded = bindI (load_summary summary_path) (\<lambda>summary. liftI (
     bindR (flatten_suite_metrics summary (map fst excluded)) (\<lambda>current.
     bindR (compare_metrics baseline_metrics current threshold) (\<lambda>diffs.
     bindR (dget_or summary ''run_id'' (JStr (path_tail (path_parent summary_path)))) (\<lambda>run_id.
     bindR (dget_or summary ''captured_at'' (JStr [])) (\<lambda>captured_at.
     bindR (bindR (dget_or summary ''suites'' (JList [])) len_of) (\<lambda>suite_count.
     bindR (controlled_approval summary) (\<lambda>approval.
     Inr \<lparr>rr_run_id = str_json run_id, rr_source = summary_path, rr_captured_at = str_json captured_at, rr_suite_count = suite_count, rr_metric_count = length diffs,
       rr_regression_count = length (filter md_regression diffs), rr_diffs = diffs, rr_excluded = excluded, rr_approval = approval\<rparr>))))))))"

definition is_inconclusive :: "RunReport \<Rightarrow> bool" where
  "is_inconclusive r \<longleftrightarrow> \<not> rr_approval r \<or> rr_metric_count r = 0 \<or> rr_excluded r \<noteq> []"

definition format_run_header :: "RunReport \<Rightarrow> string" where
  "format_run_header r = rr_run_id r @ ''  captured='' @ (if rr_captured_at r = [] then ''n/a'' else rr_captured_at r) @ ''  suites='' @ nat_str (rr_suite_count r)
     @ ''  metrics='' @ nat_str (rr_metric_count r) @ ''  regressions='' @ nat_str (rr_regression_count r) @ ''  [''
     @ (if is_inconclusive r then ''inconclusive'' else if rr_regression_count r \<noteq> 0 then ''REGRESSION'' else ''ok'') @ '']''"

text \<open>The order of all runs, newest first: \<open>sorted(set(paths), key=name, reverse=True)\<close>. Of two paths with the same name a set
  gives either first; the order here is that of the listing, and no result depends on it.\<close>

definition newest_first :: "string list \<Rightarrow> string list" where
  "newest_first paths = rev (sort_key (\<lambda>p. path_tail (path_parent p)) (rev (remdups paths)))"

definition evolution_run :: "json \<Rightarrow> pyfloat \<Rightarrow> string \<Rightarrow> RunReport pio" where
  "evolution_run baseline threshold path = bindI (load_summary path) (\<lambda>current.
     bindI (liftI (incompatible_benchmark_suite_reasons baseline current)) (\<lambda>excluded.
     bindI (liftI (flatten_suite_metrics baseline (map fst excluded))) (\<lambda>bm.
     build_run_report path bm threshold excluded)))"

definition evolution_exit :: "RunReport list \<Rightarrow> int" where
  "evolution_exit reports = (if list_ex is_inconclusive reports then 2 else if list_ex (\<lambda>r. rr_regression_count r \<noteq> 0) reports then 1 else 0)"

definition evolution_main :: "os_env \<Rightarrow> string \<Rightarrow> string \<Rightarrow> string \<Rightarrow> pyfloat \<Rightarrow> bool \<Rightarrow> int pio" where
  "evolution_main S baseline results_dir history_dir threshold include_history = bindI (file_exists baseline) (\<lambda>there. if \<not> there then retI 2 else
     bindI (load_summary baseline) (\<lambda>base. bindI (liftI (flatten_suite_metrics base [])) (\<lambda>_.
     bindI (discover_summaries S results_dir) (\<lambda>results.
     bindI (if include_history then bindI (discover_summaries S history_dir) (\<lambda>h. retI (newest_first (results @ h))) else retI results) (\<lambda>summaries.
     if summaries = [] then retI 2 else
     bindI (mapI (evolution_run base threshold) summaries) (\<lambda>reports. retI (evolution_exit reports)))))))"

end
