(* ===== verification/Bench_Tuning.thy ===== *)
theory Bench_Tuning
  imports Bench_Qualify Bench_Commands
begin

text \<open>
  \<open>tool/benchmarks/run_streaming_tuning.py\<close>: the choice of streaming settings from measurements of every combination. The root
  is the project; the readings of the guard's clock are an argument. Samples that are not numbers raise \<open>TypeError\<close> as
  soon as a report is summarised.
\<close>

subsection \<open>Summary of a report\<close>

record tuning =
  tn_throughput :: json
  tn_first_p95 :: json
  tn_rss_peak :: json

definition column :: "json list \<Rightarrow> string \<Rightarrow> json list res" where
  "column samples f = bindR (mapR (\<lambda>s. item s f) samples) (\<lambda>vs. if list_all is_number vs then Inr vs else Inl TypeErr)"

text \<open>\<open>max\<close> keeps the first of the largest values, the end of a stable sort is the last of them.\<close>

definition max_num :: "json \<Rightarrow> json list \<Rightarrow> json" where
  "max_num v vs = fold (\<lambda>w best. if float_lt (the (num_of best)) (the (num_of w)) then w else best) vs v"

definition tuning_metrics :: "json \<Rightarrow> tuning res" where
  "tuning_metrics report = bindR (item report ''samples'') (\<lambda>samples. bindR (len_of samples) (\<lambda>n.
     if n \<noteq> 9 then Inl (ValueErr ''Nine samples required'') else
     bindR (iter_of samples) (\<lambda>rows.
     bindR (bindR (column rows ''rows_per_second'') median_odd) (\<lambda>throughput_value.
     bindR (column rows ''first_chunk_us'') (\<lambda>firsts. bindR (column rows ''rss_peak_bytes'') (\<lambda>peaks.
     Inr \<lparr>tn_throughput = throughput_value, tn_first_p95 = last (sort_nums firsts), tn_rss_peak = max_num (hd peaks) (tl peaks)\<rparr>))))))"

subsection \<open>Selection\<close>

definition with_settings :: "int \<Rightarrow> int \<Rightarrow> json \<Rightarrow> bool res" where
  "with_settings fetch buffer r = bindR (item r ''fetch_size'') (\<lambda>f. bindR (item r ''buffer_bytes'') (\<lambda>b. Inr (py_eq f (JInt fetch) \<and> py_eq b (JInt buffer))))"

definition row_count :: "json \<Rightarrow> json res" where
  "row_count r = bindR (item r ''rows'') (\<lambda>v. if hashable v then Inr v else Inl TypeErr)"

definition workload_rows :: "json list" where
  "workload_rows = [JInt 1000, JInt 8000, JInt 50000]"

text \<open>Equal sets of row counts\<close>

definition same_rows :: "json list \<Rightarrow> json list \<Rightarrow> bool" where
  "same_rows xs ys \<longleftrightarrow> list_all (\<lambda>x. list_ex (py_eq x) ys) xs \<and> list_all (\<lambda>y. list_ex (py_eq y) xs) ys"

text \<open>The baselines by row count; a later report replaces an earlier one.\<close>

definition baseline_reports :: "json list \<Rightarrow> (json \<times> tuning) list res" where
  "baseline_reports reports = bindR (mapR (\<lambda>r. bindR (with_settings 1000 1048576 r) (\<lambda>own. if \<not> own then Inr [] else
     bindR (item r ''rows'') (\<lambda>n. bindR (tuning_metrics r) (\<lambda>m. if hashable n then Inr [(n, m)] else Inl TypeErr)))) reports) (\<lambda>bs. Inr (concat bs))"

definition baseline_for :: "(json \<times> tuning) list \<Rightarrow> json \<Rightarrow> tuning res" where
  "baseline_for baselines n = (case find (\<lambda>(k, _). py_eq k n) (rev baselines) of Some (_, m) \<Rightarrow> Inr m | None \<Rightarrow> Inl (KeyErr ''rows''))"

text \<open>\<open>v > w * c\<close>\<close>

definition exceeds :: "json \<Rightarrow> json \<Rightarrow> pyfloat \<Rightarrow> bool res" where
  "exceeds v w c = bindR (mulR w c) (\<lambda>limit. gtR v limit)"

text \<open>The ratios of the workloads in order; \<open>None\<close> when one exceeds a limit and the loop is left.\<close>

fun ratios_of :: "(json \<times> tuning) list \<Rightarrow> json list \<Rightarrow> pyfloat list option res" where
  "ratios_of baselines [] = Inr (Some [])"
| "ratios_of baselines (r # rs) = bindR (tuning_metrics r) (\<lambda>measured. bindR (bindR (row_count r) (baseline_for baselines)) (\<lambda>base.
     bindR (divR (tn_throughput measured) (tn_throughput base)) (\<lambda>ratio.
     bindR (orR (exceeds (tn_first_p95 measured) (tn_first_p95 base) (fl (105 / 100))) (exceeds (tn_rss_peak measured) (tn_rss_peak base) (fl (11 / 10)))) (\<lambda>over.
     if over then Inr None else bindR (ratios_of baselines rs) (\<lambda>rest. Inr (case rest of None \<Rightarrow> None | Some xs \<Rightarrow> Some (ratio # xs)))))))"

fun insert_float :: "pyfloat \<Rightarrow> pyfloat list \<Rightarrow> pyfloat list" where
  "insert_float v [] = [v]"
| "insert_float v (w # ws) = (if float_lt w v then w # insert_float v ws else v # w # ws)"

definition median_float :: "pyfloat list \<Rightarrow> pyfloat res" where
  "median_float xs = (let ys = foldr insert_float xs []; n = length ys in
     if n = 0 then Inl (ValueErr ''no median for empty data'')
     else if odd n then Inr (ys ! (n div 2)) else float_div (float_add (ys ! (n div 2 - 1)) (ys ! (n div 2))) (FFin 2))"

definition smallest :: "pyfloat list \<Rightarrow> pyfloat" where
  "smallest xs = fold (\<lambda>x best. float_min best x) (tl xs) (hd xs)"

record candidate =
  cd_gain :: pyfloat
  cd_fetch :: int
  cd_buffer :: int

definition fetch_sizes :: "int list" where "fetch_sizes = [1000, 2000, 4000, 8000]"

definition buffer_sizes :: "int list" where "buffer_sizes = [65536, 262144, 1048576]"

definition settings_grid :: "(int \<times> int) list" where
  "settings_grid = List.product fetch_sizes buffer_sizes"

definition candidate_of :: "json list \<Rightarrow> (json \<times> tuning) list \<Rightarrow> int \<times> int \<Rightarrow> candidate list res" where
  "candidate_of reports baselines = (\<lambda>(fetch, buffer). bindR (filterR (with_settings fetch buffer) reports) (\<lambda>workloads.
     bindR (mapR row_count workloads) (\<lambda>counts. if \<not> same_rows counts (map fst baselines) then Inr [] else
     bindR (ratios_of baselines workloads) (\<lambda>ratios. case ratios of None \<Rightarrow> Inr []
     | Some xs \<Rightarrow> bindR (median_float xs) (\<lambda>gain.
         Inr (if float_le (fl (85 / 100)) (smallest xs) \<and> float_le (fl (11 / 10)) gain then [\<lparr>cd_gain = gain, cd_fetch = fetch, cd_buffer = buffer\<rparr>] else []))))))"

text \<open>\<open>(-gain, fetch, buffer)\<close>\<close>

definition candidate_less :: "candidate \<Rightarrow> candidate \<Rightarrow> bool" where
  "candidate_less a b \<longleftrightarrow> float_lt (cd_gain b) (cd_gain a) \<or> float_eq (cd_gain a) (cd_gain b) \<and>
     (cd_fetch a < cd_fetch b \<or> cd_fetch a = cd_fetch b \<and> cd_buffer a < cd_buffer b)"

fun insert_candidate :: "candidate \<Rightarrow> candidate list \<Rightarrow> candidate list" where
  "insert_candidate c [] = [c]"
| "insert_candidate c (d # ds) = (if candidate_less d c then d # insert_candidate c ds else c # d # ds)"

definition sort_candidates :: "candidate list \<Rightarrow> candidate list" where
  "sort_candidates cs = foldr insert_candidate cs []"

definition accepted_candidates :: "json list \<Rightarrow> candidate list res" where
  "accepted_candidates reports = bindR (baseline_reports reports) (\<lambda>baselines.
     if \<not> same_rows (map fst baselines) workload_rows then Inl (ValueErr ''All three baseline workloads required'') else
     bindR (mapR (candidate_of reports baselines) settings_grid) (\<lambda>cs. Inr (sort_candidates (concat cs))))"

definition eligible_json :: "candidate \<Rightarrow> json" where
  "eligible_json c = JObj [(''throughput_ratio'', JFloat (cd_gain c)), (''fetch_size'', JInt (cd_fetch c)), (''buffer_bytes'', JInt (cd_buffer c))]"

definition recommendation_json :: "candidate list \<Rightarrow> json" where
  "recommendation_json cs = (case cs of [] \<Rightarrow> JNull | c # _ \<Rightarrow> JObj [(''fetch_size'', JInt (cd_fetch c)), (''buffer_bytes'', JInt (cd_buffer c))])"

definition select_configuration :: "json list \<Rightarrow> dict res" where
  "select_configuration reports = bindR (accepted_candidates reports) (\<lambda>cs.
     Inr [(''eligible'', JList (map eligible_json cs)), (''recommendation'', recommendation_json cs)])"

text \<open>\<open>abs(b / a - 1) <= c\<close>\<close>

definition close_to :: "json \<Rightarrow> json \<Rightarrow> pyfloat \<Rightarrow> bool res" where
  "close_to a b c = bindR (divR b a) (\<lambda>x. Inr (float_le (float_abs (float_sub x (FFin 1))) c))"

definition control_stable :: "json \<Rightarrow> json \<Rightarrow> bool res" where
  "control_stable old new = bindR (tuning_metrics old) (\<lambda>a. bindR (tuning_metrics new) (\<lambda>b.
     andR (close_to (tn_throughput a) (tn_throughput b) (fl (15 / 100)))
       (andR (close_to (tn_first_p95 a) (tn_first_p95 b) (fl (5 / 100))) (close_to (tn_rss_peak a) (tn_rss_peak b) (fl (1 / 10))))))"

subsection \<open>The command\<close>

definition tuning_harness :: "string list" where
  "tuning_harness = [''tool/benchmarks/benchmark_streaming_tuning.dart'', ''tool/benchmarks/odbc_benchmark_fixture.dart'']"

text \<open>The last line of the output that starts an object\<close>

definition report_line :: "string \<Rightarrow> string res" where
  "report_line out = of_option StopIteration (find (\<lambda>l. startswith l ''{'') (rev (splitlines out)))"

definition measure_settings :: "os_env \<Rightarrow> string \<Rightarrow> string \<Rightarrow> string \<Rightarrow> int \<times> int \<times> int \<Rightarrow> json pio" where
  "measure_settings S output_dir driver_id ending = (\<lambda>(rows, fetch, buffer).
     let name = driver_id @ ''-'' @ str_int rows @ ''-'' @ str_int fetch @ ''-'' @ str_int buffer @ ending in
     bindI (print_line name) (\<lambda>_.
     bindI (liftI (resolve_command S [''dart'', ''run'', ''tool/benchmarks/benchmark_streaming_tuning.dart'', str_int rows, str_int fetch, str_int buffer])) (\<lambda>args.
     bindI (run_process S args) (\<lambda>p.
     bindI (write_utf8 (path_join output_dir (name @ ''.log'')) (p_out p @ p_err p)) (\<lambda>_.
     bindI (guardI (p_code p \<noteq> 0) (RuntimeErr (''Tuning failed: '' @ name))) (\<lambda>_.
     bindI (liftI (bindR (report_line (p_out p)) json_loads)) (\<lambda>report.
     bindI (write_utf8 (path_join output_dir (name @ ''.json'')) (dumps2 report)) (\<lambda>_.
     retI report))))))))"

definition tuned_rows :: "int list" where "tuned_rows = [1000, 8000, 50000]"

definition configurations :: "(int \<times> int) list" where
  "configurations = (1000, 1048576) # filter (\<lambda>c. c \<noteq> (1000, 1048576)) settings_grid"

definition at_rows :: "(int \<times> int) list \<Rightarrow> (int \<times> int \<times> int) list" where
  "at_rows cs = concat (map (\<lambda>rows. map (\<lambda>(f, b). (rows, f, b)) cs) tuned_rows)"

text \<open>The recommendation is confirmed by a second measurement against the controls.\<close>

definition confirm :: "os_env \<Rightarrow> string \<Rightarrow> string \<Rightarrow> json list \<Rightarrow> candidate list \<Rightarrow> bool pio" where
  "confirm S output_dir driver_id controls cs = (case cs of [] \<Rightarrow> retI False
   | c # _ \<Rightarrow> bindI (mapI (measure_settings S output_dir driver_id ''-confirm'') (at_rows [(cd_fetch c, cd_buffer c)])) (\<lambda>confirmed.
       bindI (liftI (accepted_candidates (controls @ confirmed))) (\<lambda>again. retI (again \<noteq> []))))"

definition driver_entry :: "bool \<Rightarrow> candidate list \<Rightarrow> bool \<Rightarrow> dict" where
  "driver_entry firm cs confirmed = [(''status'', JStr (if firm then ''measured'' else ''inconclusive'')), (''control_stable'', JBool firm),
     (''eligible'', JList (map eligible_json cs)), (''recommendation'', if confirmed then recommendation_json cs else JNull)]"

definition tune_driver :: "os_env \<Rightarrow> string \<Rightarrow> string \<Rightarrow> dict pio" where
  "tune_driver S output_dir driver_id =
     bindI (mapI (measure_settings S output_dir driver_id []) (at_rows configurations)) (\<lambda>reports.
     bindI (liftI (accepted_candidates reports)) (\<lambda>cs.
     bindI (mapI (measure_settings S output_dir driver_id ''-control'') (at_rows [(1000, 1048576)])) (\<lambda>controls.
     bindI (liftI (filterR (with_settings 1000 1048576) reports)) (\<lambda>baselines.
     bindI (liftI (allR (\<lambda>(a, b). control_stable a b) (zip baselines controls))) (\<lambda>firm.
     bindI (if firm then confirm S output_dir driver_id controls cs else retI False) (\<lambda>confirmed.
     retI (driver_entry firm cs confirmed)))))))"

definition tuning_keys :: "(string \<times> string list) list" where
  "tuning_keys = [(''sql_server'', [''ODBC_TEST_DSN_SQL_SERVER'', ''ODBC_DSN_SQL_SERVER'']), (''sql_anywhere'', [''ODBC_TEST_DSN'', ''ODBC_DSN''])]"

definition has_dsn :: "environ \<Rightarrow> string list \<Rightarrow> bool" where
  "has_dsn env keys \<longleftrightarrow> list_ex (\<lambda>k. getenv env k [] \<noteq> []) keys"

fun tune_drivers :: "os_env \<Rightarrow> string \<Rightarrow> environ \<Rightarrow> (dict \<Rightarrow> dict) \<Rightarrow> (string \<times> string list) list \<Rightarrow> dict \<Rightarrow> dict pio" where
  "tune_drivers S output_dir env summary [] drivers = retI drivers"
| "tune_drivers S output_dir env summary ((driver_id, keys) # rest) drivers =
     (if \<not> has_dsn env keys then tune_drivers S output_dir env summary rest (dict_put driver_id (JObj [(''status'', JStr ''pending''), (''reason'', JStr ''DSN unavailable'')]) drivers)
      else bindI (tune_driver S output_dir driver_id) (\<lambda>entry. let drivers' = dict_put driver_id (JObj entry) drivers in
        bindI (write_utf8 (path_join output_dir ''summary.json'') (dumps2 (JObj (summary drivers')))) (\<lambda>_.
        tune_drivers S output_dir env summary rest drivers')))"

text \<open>\<open>value.update(status='inconclusive', recommendation=None)\<close>\<close>

definition withdraw :: "string \<times> json \<Rightarrow> string \<times> json" where
  "withdraw = (\<lambda>(k, v). (k, case v of JObj d \<Rightarrow> JObj (dict_put ''recommendation'' JNull (dict_put ''status'' (JStr ''inconclusive'') d)) | _ \<Rightarrow> v))"

definition is_open :: "string \<times> json \<Rightarrow> bool" where
  "is_open kv = (case snd kv of JObj d \<Rightarrow> field d ''status'' \<in> {JStr ''pending'', JStr ''inconclusive''} | _ \<Rightarrow> False)"

text \<open>The test after the measurements: \<open>or\<close> stops at the first difference.\<close>

definition tuning_disturbed :: "os_env \<Rightarrow> pyfloat list \<Rightarrow> string \<Rightarrow> string \<times> string \<Rightarrow> json \<Rightarrow> string \<Rightarrow> bool pio" where
  "tuning_disturbed S readings library ident native harness = (if interrupted readings then retI True else
     bindI (collect_source_identity S [] None) (\<lambda>i. if i \<noteq> ident then retI True else
     bindI (native_identity library None) (\<lambda>n. if \<not> py_eq native n then retI True else
     bindI (file_set_identity [] tuning_harness) (\<lambda>h. retI (h \<noteq> harness)))))"

definition tuning_main :: "os_env \<Rightarrow> bool \<Rightarrow> (json \<Rightarrow> string res) \<Rightarrow> host \<Rightarrow> pyfloat list \<Rightarrow> string \<Rightarrow> int pio" where
  "tuning_main S nt package_dir h readings output_dir =
     bindI (bootstrap_env ''.env'') (\<lambda>_.
     bindI (prepare_native_library S nt package_dir) (\<lambda>library.
     bindI (collect_source_identity S [] None) (\<lambda>ident.
     bindI (file_set_identity [] tuning_harness) (\<lambda>harness.
     bindI (collect_machine_metadata S h) (\<lambda>machine.
     bindI (native_identity library None) (\<lambda>native.
     bindI (readI pw_env) (\<lambda>env.
     let summary = (\<lambda>ds. [(''machine'', machine), (''source'', identity_json ident), (''native'', native), (''harness_sha256'', JStr harness), (''drivers'', JObj ds)]) in
     bindI (tune_drivers S output_dir env summary tuning_keys []) (\<lambda>drivers.
     bindI (tuning_disturbed S readings library ident native harness) (\<lambda>disturbed.
     let final = (if disturbed then map withdraw drivers else drivers) in
     bindI (write_utf8 (path_join output_dir ''summary.json'') (dumps2 (JObj (summary final @ [(''interrupted'', JBool (interrupted readings))])))) (\<lambda>_.
     retI (if list_ex is_open final then 2 else 0)))))))))))"

end
