(* ===== verification/Bench_CommandsSpec.thy ===== *)
theory Bench_CommandsSpec
  imports Bench_Tuning Bench_SuiteSpec
begin

text \<open>
  What the exit codes of the small benchmark commands mean, and that the recommended streaming settings are the best of the
  accepted ones.
\<close>

subsection \<open>Exit codes\<close>

text \<open>Exit code 0 of the evolution report: every run of the results was compared in full, was approved and shows no regression.\<close>

definition run_clean :: "RunReport \<Rightarrow> bool" where
  "run_clean r \<longleftrightarrow> rr_approval r \<and> rr_excluded r = [] \<and> rr_diffs r \<noteq> [] \<and> list_all (\<lambda>d. \<not> md_regression d) (rr_diffs r)"

lemma run_report_counts: "gives (\<lambda>r. rr_metric_count r = length (rr_diffs r) \<and> rr_regression_count r = length (filter md_regression (rr_diffs r))) (evolution_run base threshold p)"
  unfolding evolution_run_def build_run_report_def by (intro gives_intro gives_lift) (auto simp: bindR_ok)

theorem evolution_zero_clean:
  assumes "evolution_main S baseline results history threshold include w = (Inr 0, w')"
  shows "\<exists>base summaries reports v v'. summaries \<noteq> [] \<and> mapI (evolution_run base threshold) summaries v = (Inr reports, v') \<and> list_all (run_clean) reports"
proof -
  obtain base summaries reports v v' where r: "summaries \<noteq> []" "mapI (evolution_run base threshold) summaries v = (Inr reports, v')" "evolution_exit reports = 0"
    using assms unfolding evolution_main_def by (auto simp: ok_iff split: if_splits)
  have c: "list_all2 (\<lambda>_ r. rr_metric_count r = length (rr_diffs r) \<and> rr_regression_count r = length (filter md_regression (rr_diffs r))) summaries reports"
    by (rule givesD[OF gives_map r(2)]) (rule run_report_counts)
  have "run_clean x" if "x \<in> set reports" for x
  proof -
    have "\<not> is_inconclusive x" "rr_regression_count x = 0" using r(3) that by (auto simp: evolution_exit_def list_ex_iff split: if_splits)
    then show ?thesis using list_all2_right[OF c that] by (auto simp: run_clean_def is_inconclusive_def list_all_iff filter_empty_conv)
  qed
  then have "list_all run_clean reports" by (simp add: list_all_iff)
  then show ?thesis using r(1,2) by blast
qed

text \<open>Exit code 0 of the driver matrix: every configured driver passed both benchmarks.\<close>

theorem matrix_zero_passes:
  assumes "matrix_main B env_path out w = (Inr 0, w')"
  shows "\<exists>env. (\<exists>d \<in> set (matrix_drivers env). dr_dsn d \<noteq> []) \<and>
    (\<forall>d \<in> set (matrix_drivers env). dr_dsn d = [] \<or> (\<exists>v v'. run_benchmark_for_driver B (if out = [] then None else Some out) d v = (Inr (), v')))"
proof -
  let ?o = "if out = [] then None else Some out"
  obtain env v v' failed where m: "\<not> list_all (\<lambda>d. dr_dsn d = []) (matrix_drivers env)" "mapI (try_driver B ?o) (matrix_drivers env) v = (Inr failed, v')" "True \<notin> set failed"
    using assms unfolding matrix_main_def by (auto simp: ok_iff Let_def split: if_splits)
  have t: "gives (\<lambda>b. b \<or> (\<exists>v v'. run_benchmark_for_driver B ?o d v = (Inr (), v'))) (try_driver B ?o d)" for d
    unfolding gives_def try_driver_def by (auto simp: catchI_def bindI_def retI_def raiseI_def split: sum.splits prod.splits exn.splits)
  have "list_all2 (\<lambda>d b. b \<or> (\<exists>v v'. run_benchmark_for_driver B ?o d v = (Inr (), v'))) (matrix_drivers env) failed" by (rule givesD[OF gives_map m(2)]) (rule t)
  then have "\<exists>v v'. run_benchmark_for_driver B ?o d v = (Inr (), v')" if "d \<in> set (matrix_drivers env)" for d
    using list_all2_left[OF _ that] m(3) by fastforce
  then show ?thesis using m(1) by (auto simp: list_all_iff)
qed

subsection \<open>The recommendation\<close>

lemma insert_candidate_set: "set (insert_candidate c ds) = insert c (set ds)"
  by (induction ds) auto

lemma sort_candidates_set: "set (sort_candidates cs) = set cs"
  unfolding sort_candidates_def by (induction cs) (auto simp: insert_candidate_set)

text \<open>The gains of accepted candidates are numbers, on which the order is linear.\<close>

definition gain_ok :: "candidate \<Rightarrow> bool" where
  "gain_ok c \<longleftrightarrow> cd_gain c \<noteq> FNaN"

lemma candidate_less_asym: "gain_ok a \<Longrightarrow> gain_ok b \<Longrightarrow> candidate_less a b \<Longrightarrow> \<not> candidate_less b a"
  unfolding candidate_less_def gain_ok_def by (auto simp: float_lt_def float_le_def float_eq_def split: pyfloat.splits)

lemma candidate_less_linear: "gain_ok a \<Longrightarrow> gain_ok b \<Longrightarrow> gain_ok c \<Longrightarrow> candidate_less a b \<Longrightarrow> \<not> candidate_less c b \<Longrightarrow> candidate_less a c"
  unfolding candidate_less_def gain_ok_def by (auto simp: float_lt_def float_le_def float_eq_def split: pyfloat.splits)


text \<open>The first of the sorted candidates: no other one comes before it.\<close>

lemma insert_candidate_least:
  assumes "list_all gain_ok (c # ds)" "insert_candidate c ds = e # es" "case ds of [] \<Rightarrow> True | d # r \<Rightarrow> \<forall>x \<in> set r. \<not> candidate_less x d"
  shows "\<forall>x \<in> set es. \<not> candidate_less x e"
proof (cases ds)
  case Nil
  then show ?thesis using assms(2) by simp
next
  case (Cons d r)
  show ?thesis
  proof (cases "candidate_less d c")
    case True
    then have "e = d" "es = insert_candidate c r" using assms(2) Cons by auto
    moreover have "\<not> candidate_less c d" using candidate_less_asym True assms(1) Cons by auto
    ultimately show ?thesis using assms(3) Cons by (auto simp: insert_candidate_set)
  next
    case False
    then have e: "e = c" "es = d # r" using assms(2) Cons by auto
    have "\<not> candidate_less x c" if "x \<in> set r" for x
    proof
      assume "candidate_less x c"
      have "gain_ok c" "gain_ok d" "gain_ok x" using assms(1) Cons that by (auto simp: list_all_iff)
      then have "candidate_less x d" using candidate_less_linear[of x c d] \<open>candidate_less x c\<close> False by blast
      then show False using assms(3) Cons that by simp
    qed
    then show ?thesis using e False by simp
  qed
qed

lemma sort_candidates_least: "list_all gain_ok cs \<Longrightarrow> sort_candidates cs = e # es \<Longrightarrow> \<forall>x \<in> set es. \<not> candidate_less x e"
proof (induction cs arbitrary: e es)
  case (Cons c cs)
  have "list_all gain_ok (c # sort_candidates cs)" using Cons.prems(1) sort_candidates_set[of cs] by (auto simp: list_all_iff)
  moreover have "case sort_candidates cs of [] \<Rightarrow> True | d # r \<Rightarrow> \<forall>x \<in> set r. \<not> candidate_less x d" using Cons.IH Cons.prems(1) by (auto split: list.splits)
  moreover have "insert_candidate c (sort_candidates cs) = e # es" using Cons.prems(2) by (simp add: sort_candidates_def)
  ultimately show ?case using insert_candidate_least by blast
qed (simp add: sort_candidates_def)

text \<open>What makes a combination of settings acceptable\<close>

definition acceptable :: "json list \<Rightarrow> (json \<times> tuning) list \<Rightarrow> candidate \<Rightarrow> bool" where
  "acceptable reports baselines c \<longleftrightarrow> (\<exists>workloads counts ratios. filterR (with_settings (cd_fetch c) (cd_buffer c)) reports = Inr workloads \<and> mapR row_count workloads = Inr counts \<and>
     same_rows counts (map fst baselines) \<and> ratios_of baselines workloads = Inr (Some ratios) \<and> median_float ratios = Inr (cd_gain c) \<and>
     float_le (fl (85 / 100)) (smallest ratios) \<and> float_le (fl (11 / 10)) (cd_gain c))"

lemma float_le_no_nan: "float_le x y \<Longrightarrow> y \<noteq> FNaN"
  by (auto simp: float_le_def split: pyfloat.splits)

lemma candidate_of_sound:
  assumes "candidate_of reports baselines fb = Inr cs" "c \<in> set cs"
  shows "(cd_fetch c, cd_buffer c) = fb \<and> acceptable reports baselines c"
proof -
  obtain fetch buffer where fb: "fb = (fetch, buffer)" by (cases fb)
  show ?thesis using assms unfolding fb candidate_of_def acceptable_def
    by (auto simp: bindR_ok split: if_splits option.splits)
qed

text \<open>The recommended settings are an acceptable combination of the grid, and no acceptable one has a larger gain or, with the same gain,
  smaller settings.\<close>

theorem recommendation_best:
  assumes "accepted_candidates reports = Inr (c # cs)"
  shows "\<exists>baselines. baseline_reports reports = Inr baselines \<and> same_rows (map fst baselines) workload_rows \<and> acceptable reports baselines c \<and>
    (cd_fetch c, cd_buffer c) \<in> set settings_grid \<and> (\<forall>d. d \<in> set cs \<longrightarrow> acceptable reports baselines d \<and> \<not> candidate_less d c)"
proof -
  obtain baselines css where b: "baseline_reports reports = Inr baselines" "same_rows (map fst baselines) workload_rows"
      "mapR (candidate_of reports baselines) settings_grid = Inr css" "sort_candidates (concat css) = c # cs"
    using assms unfolding accepted_candidates_def by (auto simp: bindR_ok split: if_splits)
  have l: "list_all2 (\<lambda>fb ds. candidate_of reports baselines fb = Inr ds) settings_grid css" using b(3) unfolding mapR_ok .
  have s: "acceptable reports baselines d \<and> (cd_fetch d, cd_buffer d) \<in> set settings_grid" if "d \<in> set (c # cs)" for d
  proof -
    have "d \<in> set (concat css)" using that b(4) sort_candidates_set by metis
    then obtain ds where ds: "ds \<in> set css" "d \<in> set ds" by auto
    obtain fb where "fb \<in> set settings_grid" "candidate_of reports baselines fb = Inr ds" using list_all2_right[OF l ds(1)] by blast
    then show ?thesis using candidate_of_sound ds(2) by fastforce
  qed
  have "list_all gain_ok (concat css)"
    using s b(4) sort_candidates_set[of "concat css"] float_le_no_nan unfolding list_all_iff acceptable_def gain_ok_def by (metis)
  then show ?thesis using sort_candidates_least[OF _ b(4)] b(1,2) s by auto
qed

end
