(* ===== verification/Release_Validate.thy ===== *)
theory Release_Validate
  imports Appcast_Spec Script_Utils Py_Num
begin

text \<open>
  The validators around a published release: \<open>tool/appcast/validate_release.py\<close>, \<open>validate_launcher_status.py\<close> and
  \<open>tool/release/pre_publish_release.py\<close>. The answer of the GitHub API, the fetched feed and the schema validator are parameters.
\<close>

subsection \<open>The release on GitHub\<close>

record ReleaseAsset =
  ra_name :: string
  ra_url :: string
  ra_size :: string
  ra_digest :: string

record ReleaseInfo =
  ri_tag :: string
  ri_name :: string
  ri_body :: string
  ri_asset :: ReleaseAsset

text \<open>\<open>str(d.get(key) or dflt)\<close>\<close>

definition str_field :: "json \<Rightarrow> string \<Rightarrow> string \<Rightarrow> string res" where
  "str_field d key dflt = bindR (dget d key) (\<lambda>v. Inr (if truthy v then str_json v else dflt))"

definition release_url :: "string \<Rightarrow> string \<Rightarrow> string" where
  "release_url repo rtag = ''https://api.github.com/repos/'' @ repo @ ''/releases/tags/'' @ rtag"

definition expected_release_asset :: "string \<Rightarrow> string" where
  "expected_release_asset rtag = ''PlugAgente-Setup-'' @ removeprefix rtag ''v'' @ ''.exe''"

fun matching_assets :: "string \<Rightarrow> json list \<Rightarrow> json list res" where
  "matching_assets name [] = Inr []"
| "matching_assets name (a # as) = bindR (dget a ''name'') (\<lambda>n. bindR (matching_assets name as) (\<lambda>rest. Inr (if py_eq n (JStr name) then a # rest else rest)))"

definition load_release :: "(string \<Rightarrow> json res) \<Rightarrow> string \<Rightarrow> string \<Rightarrow> ReleaseInfo res" where
  "load_release github repo rtag = bindR (github (release_url repo rtag)) (\<lambda>data.
     bindR (dget data ''assets'') (\<lambda>v. bindR (if truthy v then iter_of v else Inr []) (\<lambda>assets.
     bindR (matching_assets (expected_release_asset rtag) assets) (\<lambda>found. case found of
       [] \<Rightarrow> Inl (ValueErr ''Release asset not found.'')
     | asset # _ \<Rightarrow>
         bindR (str_field asset ''digest'' []) (\<lambda>digest. if digest = [] then Inl (ValueErr ''Release asset is missing GitHub digest.'') else
         bindR (normalize_sha256 digest) (\<lambda>sha256.
         bindR (str_field data ''tag_name'' rtag) (\<lambda>tag_name. bindR (str_field data ''name'' []) (\<lambda>title. bindR (str_field data ''body'' []) (\<lambda>body.
         bindR (str_field asset ''name'' []) (\<lambda>name. bindR (str_field asset ''browser_download_url'' []) (\<lambda>url. bindR (str_field asset ''size'' []) (\<lambda>bytes_text.
         Inr \<lparr>ri_tag = tag_name, ri_name = title, ri_body = body, ri_asset = \<lparr>ra_name = name, ra_url = url, ra_size = bytes_text, ra_digest = sha256\<rparr>\<rparr>))))))))))))"

subsection \<open>The feed\<close>

record release_args =
  rv_repo :: string
  rv_tag :: string
  rv_full_version :: string
  rv_channel :: string
  rv_rollout :: int
  rv_appcast :: string
  rv_feed_url :: string
  rv_max_items :: int
  rv_no_cache_bust :: bool

text \<open>The root of the feed; the fetch takes the address and whether a cache is avoided.\<close>

definition load_appcast_tree :: "xml_api \<Rightarrow> files \<Rightarrow> (string \<Rightarrow> bool \<Rightarrow> elem res) \<Rightarrow> release_args \<Rightarrow> elem option res" where
  "load_appcast_tree X fs fetch a =
     (if rv_appcast a \<noteq> [] then bindR (bindR (read_file fs (rv_appcast a)) (xml_parse X)) (\<lambda>rss. Inr (Some rss))
      else if rv_feed_url a \<noteq> [] then bindR (fetch (rv_feed_url a) (\<not> rv_no_cache_bust a)) (\<lambda>rss. Inr (Some rss))
      else Inr None)"

definition latest_version_from_appcast :: "elem \<Rightarrow> string \<Rightarrow> string res" where
  "latest_version_from_appcast rss short = (case find_elem ''channel'' rss of
     None \<Rightarrow> Inl (ValueErr ''appcast missing <channel>.'')
   | Some channel \<Rightarrow> (case findall ''item'' channel of
       [] \<Rightarrow> Inl (ValueErr ''appcast missing <item>.'')
     | latest # _ \<Rightarrow> let version = sparkle_version (find_elem ''enclosure'' latest) in
         if split_head ''+'' version \<noteq> short then Inl (ValueErr ''latest appcast version does not match release version'') else Inr version))"

definition release_context :: "release_args \<Rightarrow> ReleaseInfo \<Rightarrow> string \<Rightarrow> AppcastContext" where
  "release_context a r full = \<lparr>version_short = removeprefix (ri_tag r) ''v'', full_version = full, asset_url = ra_url (ri_asset r), asset_size = ra_size (ri_asset r),
     asset_sha256 = ra_digest (ri_asset r), release_body = ri_body r, asset_name = ra_name (ri_asset r), cx_channel = rv_channel a, rollout_percentage = rv_rollout a,
     max_items = rv_max_items a, manifest_url = [], manifest_sha256 = []\<rparr>"

definition validate_appcast :: "ed25519 \<Rightarrow> xml_api \<Rightarrow> files \<Rightarrow> (string \<Rightarrow> bool \<Rightarrow> elem res) \<Rightarrow> release_args \<Rightarrow> ReleaseInfo \<Rightarrow> string option res" where
  "validate_appcast E X fs fetch a r = bindR (load_appcast_tree X fs fetch a) (\<lambda>tree. case tree of None \<Rightarrow> Inr None
     | Some rss \<Rightarrow> bindR (if rv_full_version a \<noteq> [] then Inr (rv_full_version a) else latest_version_from_appcast rss (removeprefix (ri_tag r) ''v'')) (\<lambda>full.
         bindR (validate_appcast_tree E rss (release_context a r full) []) (\<lambda>_. Inr (Some full))))"

definition release_details :: "ReleaseInfo \<Rightarrow> string option \<Rightarrow> string" where
  "release_details r full = ''Release validation passed ('' @ join '', '' ([''tag='' @ ri_tag r, ''asset='' @ ra_name (ri_asset r), ''size='' @ ra_size (ri_asset r)]
     @ (case full of Some v \<Rightarrow> if v = [] then [] else [''appcast_version='' @ v] | None \<Rightarrow> [])
     @ (if ra_digest (ri_asset r) = [] then [] else [''digest='' @ ra_digest (ri_asset r)])) @ '').''"

text \<open>The exit code, and the line that is printed on success\<close>

definition validate_release_main :: "ed25519 \<Rightarrow> xml_api \<Rightarrow> files \<Rightarrow> (string \<Rightarrow> json res) \<Rightarrow> (string \<Rightarrow> bool \<Rightarrow> elem res) \<Rightarrow> release_args \<Rightarrow> int \<times> string option" where
  "validate_release_main E X fs github fetch a =
     (case bindR (load_release github (rv_repo a) (rv_tag a)) (\<lambda>r. bindR (validate_appcast E X fs fetch a r) (\<lambda>full. Inr (r, full))) of
        Inl _ \<Rightarrow> (1, None)
      | Inr (r, full) \<Rightarrow> (0, Some (release_details r full)))"

subsection \<open>The status of the launcher\<close>

definition LAUNCHER_SCHEMA_PATH :: string where
  "LAUNCHER_SCHEMA_PATH = ''docs/communication/schemas/silent_update_launcher_status.schema.json''"

text \<open>An error of the schema validator: the path to the value (keys and indices) and the message\<close>

type_synonym schema_error = "string list \<times> string"

definition error_line :: "schema_error \<Rightarrow> string" where
  "error_line = (\<lambda>(path, message). (if join ''/'' path = [] then ''<root>'' else join ''/'' path) @ '': '' @ message)"

definition validate_launcher :: "(json \<Rightarrow> json \<Rightarrow> schema_error list) \<Rightarrow> files \<Rightarrow> string \<Rightarrow> string list res" where
  "validate_launcher draft7 fs payload_path =
     bindR (bindR (bindR (read_file fs LAUNCHER_SCHEMA_PATH) decode_text) json_loads) (\<lambda>schema.
     bindR (bindR (bindR (read_file fs payload_path) decode_text) json_loads) (\<lambda>payload.
     Inr (map error_line (draft7 schema payload))))"

definition launcher_main :: "(json \<Rightarrow> json \<Rightarrow> schema_error list) \<Rightarrow> string \<Rightarrow> int pio" where
  "launcher_main draft7 payload = bindI (file_exists payload) (\<lambda>there. if \<not> there then retI 2 else
     bindI (checkI (\<lambda>w. validate_launcher draft7 (pw_files w) payload)) (\<lambda>errors.
     if errors \<noteq> [] then bindI (forI ((''Launcher status payload at '' @ payload @ '' failed schema validation:'') # map (\<lambda>e. ''  - '' @ e) errors) print_line) (\<lambda>_. retI 1)
     else bindI (print_line (''Launcher status payload at '' @ payload @ '' matches the schema.'')) (\<lambda>_. retI 0)))"

subsection \<open>The local gate\<close>

record prepublish_args =
  pp_version :: string
  pp_build_number :: string
  pp_allow_dirty :: bool
  pp_skip_gate :: bool

definition preflight_command :: "prepublish_args \<Rightarrow> string list" where
  "preflight_command a = [''python'', ''tool/release/release_preflight.py'', ''--version'', pp_version a, ''--gate'', ''--check-secrets'', ''--print-publish-hints'', ''--build-number'', pp_build_number a]
     @ (if pp_allow_dirty a then [''--allow-dirty''] else [])"

definition next_steps :: "string list" where
  "next_steps = [''  A) Validate installer build without publishing: use dry_run=true in Publish Windows Release.'', ''  B) Or run Release Preflight workflow in Actions for a full Windows build on CI.'',
     ''  C) When ready, use the gh command printed above for production publish.'', ''  D) Optional: python tool/dev/install_git_hooks.py (pre-push gate on main for lib/test changes).'']"

definition prepublish_main :: "os_env \<Rightarrow> bool \<Rightarrow> prepublish_args \<Rightarrow> int pio" where
  "prepublish_main S tty a =
     bindI (if pp_skip_gate a then print_line ''WARNING: Skipped --gate checks (--skip-gate).'' else
       bindI (emit tty (esc_seq ''36'') ''Running publish gate (analyze + CI tests + architecture + appcast tooling)...'') (\<lambda>_.
       bindI (Script_Utils.run S False (preflight_command a)) (\<lambda>p.
       guardI (p_code p \<noteq> 0) (RuntimeErr (''Release preflight failed with exit code '' @ str_int (p_code p) @ ''.''))))) (\<lambda>_.
     bindI (print_line []) (\<lambda>_. bindI (emit tty (esc_seq ''32'') ''Next steps:'') (\<lambda>_.
     bindI (forI next_steps print_line) (\<lambda>_. retI 0))))"

text \<open>The program: a \<open>RuntimeError\<close> is the exit code 1.\<close>

definition prepublish_program :: "os_env \<Rightarrow> bool \<Rightarrow> prepublish_args \<Rightarrow> int pio" where
  "prepublish_program S tty a = catchI (prepublish_main S tty a) (\<lambda>e. case e of RuntimeErr m \<Rightarrow> bindI (print_line m) (\<lambda>_. retI 1) | _ \<Rightarrow> raiseI e)"

subsection \<open>What the validator accepts\<close>

text \<open>
  The release validator against what the publication writes: it builds its context without a manifest, so a feed whose newest entry names a
  manifest is rejected.
\<close>

lemma validated_item:
  assumes "validate_appcast_tree E rss c keys = Inr u"
  shows "\<exists>channel latest others. find_elem ''channel'' rss = Some channel \<and> findall ''item'' channel = latest # others \<and> validate_item latest c = Inr ()"
  using assms by (auto simp: validate_appcast_tree_def ok_iff split: option.splits list.splits if_splits)

lemma item_manifest:
  assumes "validate_item it c = Inr u" "find_elem ''enclosure'' it = Some e"
  shows "attr_or e (plug_attr ''manifestUrl'') = manifest_url c"
  using assms by (auto simp: validate_item_def ok_iff Let_def split: if_splits)

text \<open>
  C40. The release validator contradicts the publication: every feed that the publication's own check accepts for a release with an updater manifest
  is rejected with exit code 1, whatever GitHub answers, because the validator compares the feed with a context that has no manifest.
\<close>

theorem release_validator_rejects_manifest:
  assumes "load_appcast_tree X fs fetch a = Inr (Some rss)" "validate_appcast_tree E rss c keys = Inr ()" "manifest_url c \<noteq> []"
  shows "fst (validate_release_main E' X fs github fetch a) = 1"
proof -
  have "validate_appcast_tree E' rss (release_context a r full) [] \<noteq> Inr u" for r full u
  proof
    assume v: "validate_appcast_tree E' rss (release_context a r full) [] = Inr u"
    obtain channel latest others where f: "find_elem ''channel'' rss = Some channel" "findall ''item'' channel = latest # others" "validate_item latest c = Inr ()"
      using validated_item[OF assms(2)] by blast
    have r: "validate_item latest (release_context a r full) = Inr ()" using validated_item[OF v] f(1,2) by auto
    obtain e where e: "find_elem ''enclosure'' latest = Some e" using f(3) by (auto simp: validate_item_def split: option.splits)
    show False using item_manifest[OF f(3) e] item_manifest[OF r e] assms(3) by (simp add: release_context_def)
  qed
  then have "validate_appcast E' X fs fetch a r \<noteq> Inr full" for r full
    using assms(1) by (auto simp: validate_appcast_def bindR_ok)
  then show ?thesis unfolding validate_release_main_def by (auto simp: bindR_ok split: sum.splits)
qed

definition manifest_context :: AppcastContext where
  "manifest_context = demo_context\<lparr>manifest_url := ''https://h/m'', manifest_sha256 := replicate 64 CHR ''b''\<rparr>"

definition manifest_feed :: elem where
  "manifest_feed = Elem ''rss'' [] None [Elem ''channel'' [] None [Elem ''item'' [] None [text_elem ''title'' ''Version 1.2.3+4'',
     text_elem ''description'' ''Nova Versao 1.2.3+4 - Atualizacao automatica via GitHub Release.'',
     Elem ''enclosure'' [(''url'', ''https://h/PlugAgente-Setup-1.2.3.exe''), (sparkle_attr ''version'', ''1.2.3+4''), (sparkle_attr ''os'', ''windows''),
       (plug_attr ''sha256'', replicate 64 CHR ''a''), (plug_attr ''channel'', ''stable''), (plug_attr ''rolloutPercentage'', ''100''), (''length'', ''7''),
       (''type'', ''application/octet-stream''), (plug_attr ''manifestUrl'', ''https://h/m''), (plug_attr ''manifestSha256'', replicate 64 CHR ''b'')] None []]]]"

lemma manifest_feed_valid: "validate_appcast_tree plain_scheme manifest_feed manifest_context [] = Inr ()"
  by code_simp

definition demo_release_args :: release_args where
  "demo_release_args = \<lparr>rv_repo = ''o/r'', rv_tag = ''v1.2.3'', rv_full_version = ''1.2.3+4'', rv_channel = ''stable'', rv_rollout = 100, rv_appcast = [], rv_feed_url = ''https://h/f'',
     rv_max_items = 10, rv_no_cache_bust = False\<rparr>"

definition demo_github :: "string \<Rightarrow> json res" where
  "demo_github url = Inr (JObj [(''tag_name'', JStr ''v1.2.3''), (''name'', JStr ''1.2.3''), (''body'', JStr []), (''assets'', JList [JObj [(''name'', JStr ''PlugAgente-Setup-1.2.3.exe''),
     (''browser_download_url'', JStr ''https://h/PlugAgente-Setup-1.2.3.exe''), (''size'', JInt 7), (''digest'', JStr (''sha256:'' @ replicate 64 CHR ''a''))]])])"

definition demo_xml :: xml_api where
  "demo_xml = \<lparr>xml_parse = (\<lambda>_. Inl (ValueErr [])), xml_bytes = (\<lambda>_. [])\<rparr>"

lemma demo_release_loads: "case load_release demo_github ''o/r'' ''v1.2.3'' of Inl e \<Rightarrow> False | Inr r \<Rightarrow> ra_digest (ri_asset r) = replicate 64 CHR ''a''"
  by code_simp

theorem release_validator_rejects_manifest_witness:
  "(\<exists>r. load_release demo_github ''o/r'' ''v1.2.3'' = Inr r) \<and> fst (validate_release_main plain_scheme demo_xml (\<lambda>_. None) demo_github (\<lambda>_ _. Inr manifest_feed) demo_release_args) = 1"
proof
  show "\<exists>r. load_release demo_github ''o/r'' ''v1.2.3'' = Inr r" using demo_release_loads by (auto split: sum.splits)
  have l: "load_appcast_tree demo_xml (\<lambda>_. None) (\<lambda>_ _. Inr manifest_feed) demo_release_args = Inr (Some manifest_feed)"
    by (simp add: load_appcast_tree_def demo_release_args_def)
  have "manifest_url manifest_context \<noteq> []" by (simp add: manifest_context_def)
  then show "fst (validate_release_main plain_scheme demo_xml (\<lambda>_. None) demo_github (\<lambda>_ _. Inr manifest_feed) demo_release_args) = 1"
    using release_validator_rejects_manifest[OF l manifest_feed_valid] by blast
qed

end
