(* ===== verification/Spec2Isabelle.thy ===== *)
theory Spec2Isabelle
  imports Updater_ManifestSpec Appcast_Spec Release_PublishSpec Release_Preflight Installer_BuildSpec Odbc_NativeSpec Signpath_Spec Lifecycle_HandoffSpec
    Bench_GateSpec Bench_CompareSpec Bench_Qualify Bench_Migrate Bench_SuiteFail App_Witness Odbc_ValidationSpec Bench_CommandsSpec Release_Validate
begin

text \<open>
  The release and update tooling of Plug Agente (the Python code under \<open>src/tool\<close> and \<open>src/installer\<close>).

  \<^bold>\<open>The system.\<close> A release starts from a version and a changelog, is built into Windows executables and an installer, is
  described by a signed manifest, published as a GitHub release, and announced in a signed feed that installed agents
  read. The parts, and the theories that model them:

  \<^item> \<^bold>\<open>the update manifest\<close> (\<open>tool/updater/manifest.py\<close>, \<open>verify_release.py\<close>): \<open>Updater_Manifest\<close> has the validation of the payload,
    signing, verification against several keys and the check of a release asset; \<open>Updater_ManifestSpec\<close> shows that an accepted
    manifest was signed in exactly its canonical form, that what is signed verifies, and that validation accepts exactly the
    payloads of an abstract specification;
  \<^item> \<^bold>\<open>the feed\<close> (\<open>tool/appcast\<close>): \<open>Appcast_Signing\<close> (canonical bytes, signatures, key lists), \<open>Appcast_Manager\<close> (the XML feed:
    contexts, items, update, validation, the smoke test with its retries), \<open>Appcast_Spec\<close> (an updated feed validates, has exactly one
    entry for the release and no new duplicates, is stable under a second update, and is replaced atomically; notes that are cut in white space
    never validate) and \<open>Release_Validate\<close> (the validators of a published release, which reject every feed with a manifest);
  \<^item> \<^bold>\<open>the release\<close> (\<open>tool/release\<close>, \<open>installer/update_version.py\<close>): \<open>Release_Changelog\<close> and its \<open>Spec\<close> (changelog gate, persona gate,
    version synchronisation), \<open>Release_Publish\<close> and its \<open>Spec\<close> (publication as a sequence of \<open>git\<close> and \<open>gh\<close> commands: only assets
    equal to the verified local ones go public, no tag is moved), \<open>Release_Preflight\<close>;
  \<^item> \<^bold>\<open>the build\<close> (\<open>installer\<close>, \<open>tool/odbc\<close>): \<open>Windows_Version\<close> (version resources, byte by byte), \<open>Installer_Keys\<close> (evidence that the
    feed keys are in the binaries), \<open>Installer_Build\<close> and its \<open>Spec\<close>, \<open>Odbc_Native\<close> and its \<open>Spec\<close> (the cache of the native
    library), \<open>Signpath_Staging\<close> and \<open>Signpath_Spec\<close> (external signing changes nothing but the signature), \<open>Script_Utils\<close>,
    \<open>Odbc_Validation\<close> and its \<open>Spec\<close> (the validation against a database and the release gate: worksheet and exit codes are truthful);
  \<^item> \<^bold>\<open>acceptance on Windows\<close> (\<open>tool/updater\<close>): \<open>Fixture_Tree\<close> (a file tree with links), \<open>Lifecycle_Payload\<close> and its \<open>Spec\<close> (the
    inventory walk ends and is exact), \<open>Lifecycle_Handoff\<close> and its \<open>Spec\<close> (the two phases of a run as a transition system: one
    attempt per fixture);
  \<^item> \<^bold>\<open>the test application\<close> (\<open>tool/updater/application_*.py\<close>, \<open>isolated_runtime.py\<close>, the rewriting in \<open>isolated_windows_fixture.py\<close>): \<open>App_Source\<close> (the
    files of a commit, their export from an archive and their derivation), \<open>App_Proof\<close> (the private runtime, the proof of a build, the binding of a
    package), \<open>App_Spec\<close> (an accepted package was built from its commit; an export writes exactly the commit), \<open>App_Witness\<close> (a package that
    is accepted). The digest that the entry point must have is an argument, as the tests of the repository replace it;
  \<^item> \<^bold>\<open>the benchmarks\<close> (\<open>tool/py\<close>, \<open>tool/benchmarks\<close>): \<open>Bench_Gate\<close> and its \<open>Spec\<close> (the gates on native measurements), \<open>Bench_Metrics\<close>
    (reading logs and reports), \<open>Bench_Summary\<close>, \<open>Bench_Compare\<close> and its \<open>Spec\<close> (summaries, their comparison, promotion of a baseline),
    \<open>Bench_Transport\<close>, its \<open>Spec\<close> and \<open>Bench_Qualify\<close> (the controlled comparison of two checkouts), \<open>Bench_Env\<close> (sources, dependencies,
    machine, flags), \<open>Bench_Runner\<close> and \<open>Bench_Suite\<close> (the native benchmarks and the suite runner), \<open>Bench_SuiteSpec\<close> (what exit code 0 means),
    \<open>Bench_SuiteFail\<close> (a native benchmark without a report stops the run), \<open>Bench_Migrate\<close> (old results), \<open>Bench_Commands\<close>, \<open>Bench_Tuning\<close> and
    \<open>Bench_CommandsSpec\<close> (the small commands, the evolution report, the choice of streaming settings).

  \<^bold>\<open>The language.\<close> \<open>Py_Base\<close> holds exceptions (\<open>exn\<close>), results (\<open>'a res\<close>), a state monad with exceptions (\<open>io\<close>) and the
  operations on strings; \<open>Py_Text\<close>, \<open>Py_Regex\<close>, \<open>Py_Codec\<close> (SHA-256, SHA-1, base64), \<open>Py_Float\<close>, \<open>Py_Json\<close>, \<open>Py_JsonText\<close>, \<open>Py_JsonDict\<close>,
  \<open>Py_JsonOut\<close>, \<open>Py_Num\<close>, \<open>Py_Search\<close>, \<open>Py_Url\<close> and \<open>Py_Proc\<close> model what the code uses of the standard library. \<open>Py_Proc\<close> also has the small logics that
  the properties of programs rest on: which commands a program issues (\<open>issues\<close>, \<open>reaches\<close>), which files it changes (\<open>touches\<close>)
  and what it keeps (\<open>keeps\<close>). All three are instances of the locale \<open>frame\<close>, which carries a reflexive and transitive relation between the
  worlds before and after to composed programs. The dict contract of \<open>Py_Json\<close> is the locale \<open>dict_ops\<close>, interpreted on the model's dicts.

  \<^bold>\<open>Conventions.\<close>
  \<^item> A text is its UTF-8 byte sequence; \<open>lower\<close>, \<open>upper\<close>, \<open>\d\<close> and \<open>\w\<close> act on ASCII; newlines are those of POSIX.
  \<^item> An exception is a value; the texts of error messages leave out interpolated values. The recursion limit of the JSON
    parser and the sign of a floating-point zero are not modelled.
  \<^item> Code outside the repository is a parameter: the Ed25519 scheme, the XML codec, HTTP, every command that is run
    (\<open>os_env\<close>: its answer, its effect on the files), the Windows interface (\<open>winapi\<close>), Git and PowerShell where only
    their answers matter, tar archives, the GitHub API, the schema validator, random tokens, the clock. What a property
    needs of such a parameter is a hypothesis of the property, and a witness instantiates it.
  \<^item> In \<open>pworld\<close> a directory exists when it holds a file, and the working directory of a command is not recorded. Where links,
    empty directories or hard links matter, the model is the tree of \<open>Fixture_Tree\<close>. Where code follows links on that tree, the place that a
    path leads to is a parameter (\<open>links\<close>), as the tree does not record the target of a link.
  \<^item> A write or a copy of a file happens whole or not at all; only for the feed, whose replacement is meant to survive it, is a failure
    modelled at every step.
  \<^item> The lines that the benchmark commands and builds print are left out.
  \<^item> The command-line parsers are records or datatypes of parsed arguments.

  \<^bold>\<open>Loops and fuel.\<close> Loops over data are structural recursions. The parsers of \<open>Py_Base\<close> and \<open>Py_JsonText\<close> get the length of their
  input as fuel, and every step consumes input. The walk of \<open>capture_payload\<close> gets one step more than the tree has
  entries; \<open>capture_loop_terminates\<close> shows that this is enough.

  \<^bold>\<open>Not modelled.\<close> The drivers of a real Windows machine (installing, the service control manager, the registry, SQLite and
  DPAPI: \<open>validate_*_windows_*\<close>), the orchestration of builds of the test application (\<open>build_isolated_application.py\<close>, \<open>bootstrap_fixture_input.py\<close>,
  \<open>build_fixture\<close>, \<open>build_legacy_supervisor\<close>, \<open>prepare_runtime\<close>), \<open>prepare_transport_comparison.py\<close> and \<open>action_ui_resources.py\<close>, the tooling for
  agent actions and for the elevated runner, scripts for developers and continuous integration, one-off migrations of the repository,
  and the Dart, C++ and Inno Setup sources. They are mostly input and output around programs that are not in this repository.
\<close>

end
